(* ===== verification/Prelude.thy ===== *)
theory Prelude
  imports Main "HOL-Library.Sublist"
begin

text \<open>
  Shared vocabulary of the development: the parts of the Go language and of its standard
  library that the modelled sources use (byte strings, \<open>strings.TrimSpace\<close>,
  \<open>strings.Join\<close>, \<open>strconv.Quote\<close>, decimal printing, 64-bit signed integers), the error
  values of the program, and the generic list and map lemmas of the component theories.

  A Go string is a HOL \<^typ>\<open>string\<close>, a list of bytes. White space is the ASCII white space of
  \<open>strings.TrimSpace\<close>; the multi-byte Unicode spaces count as text.
\<close>

named_theorems go_simps \<open>unfolding rules of the Go standard library model\<close>
named_theorems component_inv \<open>invariant preservation lemmas of the components\<close>

section \<open>Strings\<close>

definition is_space :: "char \<Rightarrow> bool" where
  "is_space c \<longleftrightarrow> c \<in> {CHR 0x09, CHR 0x0A, CHR 0x0B, CHR 0x0C, CHR 0x0D, CHR 0x20}"

definition TrimSpace :: "string \<Rightarrow> string" where
  "TrimSpace s = rev (dropWhile is_space (rev (dropWhile is_space s)))"

definition HasPrefix :: "string \<Rightarrow> string \<Rightarrow> bool" where
  "HasPrefix s p \<longleftrightarrow> take (length p) s = p"

fun Join :: "string list \<Rightarrow> string \<Rightarrow> string" where
  "Join [] sep = ''''"
| "Join [s] sep = s"
| "Join (s # t # ss) sep = s @ sep @ Join (t # ss) sep"

lemma TrimSpace_Nil [simp]: "TrimSpace [] = []"
  by (simp add: TrimSpace_def)

lemma TrimSpace_eq_Nil_iff: "TrimSpace s = [] \<longleftrightarrow> (\<forall>c \<in> set s. is_space c)"
proof -
  have "TrimSpace s = [] \<longleftrightarrow> (\<forall>c \<in> set (dropWhile is_space s). is_space c)"
    by (simp only: TrimSpace_def rev_is_Nil_conv dropWhile_eq_Nil_conv set_rev)
  also have "\<dots> \<longleftrightarrow> dropWhile is_space s = []"
    by (metis empty_iff empty_set hd_dropWhile hd_in_set)
  also have "\<dots> \<longleftrightarrow> (\<forall>c \<in> set s. is_space c)" by simp
  finally show ?thesis .
qed

lemma TrimSpace_hd: "TrimSpace s \<noteq> [] \<Longrightarrow> \<not> is_space (hd (TrimSpace s))"
proof -
  assume ne: "TrimSpace s \<noteq> []"
  let ?d = "dropWhile is_space s"
  have "?d = [] \<Longrightarrow> TrimSpace s = []" by (simp only: TrimSpace_def) simp
  with ne have "?d \<noteq> []" by blast
  then have h: "\<not> is_space (hd ?d)" by (rule hd_dropWhile)
  obtain zs where zs: "?d = TrimSpace s @ zs"
    unfolding TrimSpace_def
    by (metis rev_append rev_rev_ident takeWhile_dropWhile_id)
  with ne h show ?thesis by (metis hd_append2)
qed

lemma TrimSpace_idem [simp]: "TrimSpace (TrimSpace s) = TrimSpace s"
proof (cases "TrimSpace s = []")
  case False
  then have "dropWhile is_space (TrimSpace s) = TrimSpace s"
    using TrimSpace_hd [OF False] by (cases "TrimSpace s") auto
  moreover have "dropWhile is_space (rev (TrimSpace s)) = rev (TrimSpace s)"
    by (simp add: TrimSpace_def)
  ultimately show ?thesis by (simp add: TrimSpace_def [of "TrimSpace s"])
qed simp

lemma HasPrefix_append [simp]: "HasPrefix (p @ s) p"
  by (simp add: HasPrefix_def)

lemma HasPrefix_drop: "HasPrefix s p \<Longrightarrow> s = p @ drop (length p) s"
  by (metis HasPrefix_def append_take_drop_id)

section \<open>Decimal numbers and quoting\<close>

definition digit :: "nat \<Rightarrow> char" where
  "digit n = char_of (48 + n)"

fun nat_str :: "nat \<Rightarrow> string" where
  "nat_str n = (if n < 10 then [digit n] else nat_str (n div 10) @ [digit (n mod 10)])"

declare nat_str.simps [simp del]

definition itoa :: "int \<Rightarrow> string" where
  "itoa i = (if i < 0 then ''-'' @ nat_str (nat (- i)) else nat_str (nat i))"

lemma digit_inj: "m < 10 \<Longrightarrow> n < 10 \<Longrightarrow> digit m = digit n \<Longrightarrow> m = n"
  unfolding digit_def
  by (drule arg_cong [where f = "of_char :: char \<Rightarrow> nat"]) simp

lemma digit_range: "n < 10 \<Longrightarrow> (of_char (digit n) :: nat) \<in> {48..57}"
  by (simp add: digit_def)

lemma nat_str_ne [simp]: "nat_str n \<noteq> []"
  by (subst nat_str.simps) simp

lemma nat_str_digits: "c \<in> set (nat_str n) \<Longrightarrow> (of_char c :: nat) \<in> {48..57}"
proof (induction n rule: nat_str.induct)
  case (1 n)
  show ?case
  proof (cases "n < 10")
    case True
    with 1 have "c = digit n" by (simp add: nat_str.simps [of n])
    with True show ?thesis by (simp only: digit_range)
  next
    case False
    have "n mod 10 < 10" by simp
    from 1 False digit_range [OF this] show ?thesis
      by (auto simp: nat_str.simps [of n])
  qed
qed

lemma nat_str_inj: "nat_str m = nat_str n \<Longrightarrow> m = n"
proof (induction m arbitrary: n rule: nat_str.induct)
  case (1 m)
  have len: "length (nat_str k) = 1 \<longleftrightarrow> k < 10" for k
    by (simp add: nat_str.simps [of k])
  show ?case
  proof (cases "m < 10")
    case True
    with 1(2) len have "n < 10" by metis
    with True 1(2) show ?thesis
      by (auto simp: nat_str.simps [of m] nat_str.simps [of n] intro: digit_inj)
  next
    case False
    with 1(2) len have n: "\<not> n < 10" by metis
    with False 1(2) have eq: "nat_str (m div 10) = nat_str (n div 10)"
      and d: "digit (m mod 10) = digit (n mod 10)"
      by (simp_all add: nat_str.simps [of m] nat_str.simps [of n])
    from 1(1) [OF False eq] have "m div 10 = n div 10" .
    moreover from d have "m mod 10 = n mod 10" by (rule digit_inj [rotated 2]) simp_all
    ultimately show ?thesis by (metis div_mult_mod_eq)
  qed
qed

lemma nat_str_no_char: "(of_char c :: nat) \<notin> {48..57} \<Longrightarrow> c \<notin> set (nat_str n)"
  using nat_str_digits by blast

lemma itoa_inj: "itoa i = itoa j \<Longrightarrow> i = j"
proof -
  assume eq: "itoa i = itoa j"
  have minus: "CHR ''-'' \<notin> set (nat_str n)" for n by (rule nat_str_no_char) simp
  have neg: "''-'' @ nat_str m \<noteq> nat_str n" for m n
    using minus [of n] by (cases "nat_str n") auto
  from eq neg [of _ "nat i"] neg [of _ "nat j"] show ?thesis
    unfolding itoa_def by (auto split: if_splits dest: nat_str_inj)
qed

definition hex_digit :: "nat \<Rightarrow> char" where
  "hex_digit n = ''0123456789abcdef'' ! n"

definition quote_char :: "char \<Rightarrow> string" where
  "quote_char c =
    (if c = CHR 0x22 then [CHR 0x5C, CHR 0x22]
     else if c = CHR 0x5C then [CHR 0x5C, CHR 0x5C]
     else if c = CHR 0x07 then [CHR 0x5C, CHR ''a'']
     else if c = CHR 0x08 then [CHR 0x5C, CHR ''b'']
     else if c = CHR 0x0C then [CHR 0x5C, CHR ''f'']
     else if c = CHR 0x0A then [CHR 0x5C, CHR ''n'']
     else if c = CHR 0x0D then [CHR 0x5C, CHR ''r'']
     else if c = CHR 0x09 then [CHR 0x5C, CHR ''t'']
     else if c = CHR 0x0B then [CHR 0x5C, CHR ''v'']
     else if of_char c < (32::nat) \<or> c = CHR 0x7F then
       [CHR 0x5C, CHR ''x'', hex_digit (of_char c div 16), hex_digit (of_char c mod 16)]
     else [c])"

definition Quote :: "string \<Rightarrow> string" where
  "Quote s = CHR 0x22 # concat (map quote_char s) @ [CHR 0x22]"

section \<open>Integers\<close>

text \<open>Go's \<open>int64\<close> arithmetic wraps around in two's complement.\<close>

definition int64 :: "int \<Rightarrow> int" where
  "int64 x = signed_take_bit 63 x"

lemma int64_id: "- (2 ^ 63) \<le> x \<Longrightarrow> x < 2 ^ 63 \<Longrightarrow> int64 x = x"
  by (simp add: int64_def signed_take_bit_int_eq_self)

lemma int64_range: "- (2 ^ 63) \<le> int64 x \<and> int64 x < 2 ^ 63"
  unfolding int64_def
  using signed_take_bit_int_greater_eq_minus_exp [of 63 x]
    signed_take_bit_int_less_exp [of 63 x] by simp

lemma int64_numeral_small [simp]: "int64 0 = 0" "int64 1 = 1"
  by (simp_all add: int64_def)

section \<open>Lists and maps\<close>

text \<open>\<open>xs[len(xs)-n:]\<close> of a slice with more than \<open>n\<close> elements, the whole slice otherwise.\<close>

definition keep_last :: "nat \<Rightarrow> 'a list \<Rightarrow> 'a list" where
  "keep_last n xs = drop (length xs - n) xs"

lemma length_keep_last [simp]: "length (keep_last n xs) = min n (length xs)"
  by (simp add: keep_last_def)

lemma keep_last_short [simp]: "length xs \<le> n \<Longrightarrow> keep_last n xs = xs"
  by (simp add: keep_last_def)

lemma keep_last_suffix: "suffix (keep_last n xs) xs"
  by (simp add: keep_last_def suffix_drop)

lemma keep_last_snoc: "keep_last (Suc n) (xs @ [x]) = keep_last n xs @ [x]"
  by (simp add: keep_last_def)

lemma keep_last_keep_last: "keep_last m (keep_last n xs) = keep_last (min m n) xs"
proof (cases "n \<le> length xs")
  case True
  then show ?thesis by (cases "m \<le> n") (simp_all add: keep_last_def)
qed (simp add: keep_last_def min_def)

lemma keep_last_append_keep: "keep_last n (keep_last n xs @ ys) = keep_last n (xs @ ys)"
proof (cases "length ys \<le> n")
  case True
  then show ?thesis by (cases "n \<le> length xs") (simp_all add: keep_last_def add.commute)
next
  case False
  then show ?thesis by (simp add: keep_last_def)
qed

lemma set_keep_last: "set (keep_last n xs) \<subseteq> set xs"
  by (auto simp: keep_last_def dest: in_set_dropD)

text \<open>An association list read as the map it stands for (a Go map literal or JSON object).\<close>

lemma map_of_filter_key: "P k \<Longrightarrow> map_of (filter (\<lambda>p. P (fst p)) xs) k = map_of xs k"
  by (induction xs) auto

lemma map_of_filter_key_None: "\<not> P k \<Longrightarrow> map_of (filter (\<lambda>p. P (fst p)) xs) k = None"
  by (induction xs) auto

section \<open>Guards\<close>

text \<open>An early \<open>return err\<close>: the rest is reached exactly when its condition is false.\<close>

lemma guard_Inr_iff [simp]: "((if c then Inl e else r) = Inr x) \<longleftrightarrow> \<not> c \<and> r = Inr x"
  by simp

lemma guard_Inr_iff' [simp]: "(Inr x = (if c then Inl e else r)) \<longleftrightarrow> \<not> c \<and> Inr x = r"
  by simp

end
