(* ===== verification/Go_Float.thy ===== *)
theory Go_Float
  imports Complex_Main "HOL-Library.Log_Nat" Prelude
begin

text \<open>
  IEEE 754 binary64 arithmetic as far as the budget accounting uses it. A finite \<open>float64\<close> is
  the rational number it denotes; a product or a quotient is the exact result rounded to a
  53-bit significand, ties to even (\<open>fl64\<close>). Overflow to infinity and subnormal results are
  outside the model: dollar amounts and token rates are far from both. \<open>math.Round\<close> rounds
  half away from zero, and a conversion to \<open>int64\<close> out of range gives the amd64 value.
\<close>

section \<open>Rounding\<close>

definition round_even :: "rat \<Rightarrow> int" where
  "round_even y =
    (let n = \<lfloor>y\<rfloor>; d = y - of_int n
     in if d < 1/2 then n else if d > 1/2 then n + 1 else if even n then n else n + 1)"

text \<open>The binary exponent of a positive rational: \<open>2 powi e \<le> x < 2 powi (e+1)\<close>.\<close>

definition expo :: "rat \<Rightarrow> int" where
  "expo x =
    (let (p, q) = quotient_of x; e = bitlen p - bitlen q
     in if 2 powi e \<le> x then e else e - 1)"

definition fl64 :: "rat \<Rightarrow> rat" where
  "fl64 x =
    (if x = 0 then 0
     else let u = 2 powi (expo \<bar>x\<bar> - 52) in of_int (round_even (x / u)) * u)"

definition math_round :: "rat \<Rightarrow> int" where
  "math_round x = (if 0 \<le> x then \<lfloor>x + 1/2\<rfloor> else - \<lfloor>- x + 1/2\<rfloor>)"

definition int64_of_float :: "int \<Rightarrow> int" where
  "int64_of_float n = (if - (2 ^ 63) \<le> n \<and> n < 2 ^ 63 then n else - (2 ^ 63))"

text \<open>\<open>int64(math.Round(a * b))\<close> and \<open>float64(n) / b\<close> on \<open>float64\<close> operands.\<close>

definition round_mul :: "rat \<Rightarrow> rat \<Rightarrow> int" where
  "round_mul a b = int64_of_float (math_round (fl64 (a * b)))"

definition float_div :: "int \<Rightarrow> rat \<Rightarrow> rat" where
  "float_div n b = fl64 (fl64 (of_int n) / b)"

text \<open>\<open>%.2f\<close>, \<open>%.6f\<close>: the decimal with \<open>k\<close> digits after the point that is nearest.\<close>

definition pad_digits :: "nat \<Rightarrow> nat \<Rightarrow> string" where
  "pad_digits k n = (let s = nat_str n in replicate (k - length s) CHR ''0'' @ s)"

definition fmt_fixed :: "nat \<Rightarrow> rat \<Rightarrow> string" where
  "fmt_fixed k x =
    (let n = round_even (\<bar>x\<bar> * 10 ^ k); s = (if x < 0 then ''-'' else '''')
     in s @ nat_str (nat (n div 10 ^ k)) @ ''.'' @ pad_digits k (nat (n mod 10 ^ k)))"

section \<open>Error bounds\<close>

lemma round_even_error: "\<bar>of_int (round_even y) - y\<bar> \<le> 1/2"
proof -
  have "of_int \<lfloor>y\<rfloor> \<le> y" "y < of_int \<lfloor>y\<rfloor> + 1"
    using floor_correct [of y] by simp_all
  then show ?thesis
    unfolding round_even_def Let_def by (auto simp: abs_le_iff field_simps)
qed

lemma round_even_of_int [simp]: "round_even (of_int n) = n"
  by (simp add: round_even_def)

lemma bitlen_rat:
  assumes "0 < p"
  shows "1 \<le> bitlen p" and "2 powi (bitlen p - 1) \<le> (of_int p :: rat)"
    and "(of_int p :: rat) < 2 powi (bitlen p)"
proof -
  show pos: "1 \<le> bitlen p"
    using assms bitlen_nonneg [of p] bitlen_eq_zero_iff [of p] by linarith
  have b: "2 ^ nat (bitlen p - 1) \<le> p" "p < 2 ^ nat (bitlen p)"
    using bitlen_bounds [OF assms] by simp_all
  have "(of_int (2 ^ nat (bitlen p - 1)) :: rat) \<le> of_int p"
    using b(1) by (simp only: of_int_le_iff)
  with pos show "2 powi (bitlen p - 1) \<le> (of_int p :: rat)" by (simp add: power_int_def)
  have "(of_int p :: rat) < of_int (2 ^ nat (bitlen p))"
    using b(2) by (simp only: of_int_less_iff)
  with pos show "(of_int p :: rat) < 2 powi (bitlen p)" by (simp add: power_int_def)
qed

lemma expo_bounds:
  assumes "0 < x"
  shows "2 powi (expo x) \<le> x" and "x < 2 powi (expo x + 1)"
proof -
  obtain p q where pq: "quotient_of x = (p, q)" by fastforce
  then have q: "0 < q" by (rule quotient_of_denom_pos)
  from pq have x: "x = of_int p / of_int q" by (rule quotient_of_div)
  with assms q have p: "0 < p" by (simp add: zero_less_divide_iff)
  define bp bq where "bp = bitlen p" and "bq = bitlen q"
  have P: "2 powi (bp - 1) \<le> (of_int p :: rat)" "(of_int p :: rat) < 2 powi bp"
    unfolding bp_def by (rule bitlen_rat [OF p])+
  have Q: "2 powi (bq - 1) \<le> (of_int q :: rat)" "(of_int q :: rat) < 2 powi bq"
    unfolding bq_def by (rule bitlen_rat [OF q])+
  have lo: "2 powi (bp - bq - 1) \<le> x"
  proof -
    have "2 powi (bp - bq - 1) * of_int q \<le> 2 powi (bp - bq - 1) * (2 powi bq :: rat)"
      using Q by (intro mult_left_mono) simp_all
    also have "\<dots> = 2 powi (bp - 1)" by (simp flip: power_int_add)
    also have "\<dots> \<le> of_int p" by (rule P)
    finally show ?thesis using q by (simp add: x pos_le_divide_eq)
  qed
  have hi: "x < 2 powi (bp - bq + 1)"
  proof -
    have "of_int p < (2 powi bp :: rat)" by (rule P)
    also have "\<dots> = 2 powi (bp - bq + 1) * 2 powi (bq - 1)" by (simp flip: power_int_add)
    also have "\<dots> \<le> 2 powi (bp - bq + 1) * of_int q"
      using Q by (intro mult_left_mono) simp_all
    finally show ?thesis using q by (simp add: x pos_divide_less_eq)
  qed
  have e: "expo x = (if 2 powi (bp - bq) \<le> x then bp - bq else bp - bq - 1)"
    by (simp add: expo_def pq bp_def bq_def Let_def)
  show "2 powi (expo x) \<le> x" using lo by (simp add: e)
  show "x < 2 powi (expo x + 1)" using hi by (auto simp: e not_le)
qed

lemma fl64_error: "\<bar>fl64 x - x\<bar> \<le> \<bar>x\<bar> / 2 ^ 53"
proof (cases "x = 0")
  case False
  define u :: rat where "u = 2 powi (expo \<bar>x\<bar> - 52)"
  have u: "0 < u" by (simp add: u_def)
  have "fl64 x - x = (of_int (round_even (x / u)) - x / u) * u"
    using False u by (simp add: fl64_def Let_def u_def [symmetric] field_simps)
  then have "\<bar>fl64 x - x\<bar> = \<bar>of_int (round_even (x / u)) - x / u\<bar> * u"
    using u by (simp add: abs_mult)
  also have "\<dots> \<le> 1/2 * u"
    using round_even_error u by (intro mult_right_mono) simp_all
  also have "\<dots> = 2 powi (expo \<bar>x\<bar>) / 2 ^ 53"
    by (simp add: u_def power_int_diff)
  also have "\<dots> \<le> \<bar>x\<bar> / 2 ^ 53"
    using expo_bounds(1) [of "\<bar>x\<bar>"] False by (intro divide_right_mono) simp_all
  finally show ?thesis .
qed (simp add: fl64_def)

lemma math_round_near: "\<bar>x - of_int n\<bar> < 1/2 \<Longrightarrow> math_round x = n"
proof -
  assume a: "\<bar>x - of_int n\<bar> < 1/2"
  from a have lt: "x < of_int n + 1/2" and gt: "of_int n < x + 1/2"
    by linarith+
  have "\<lfloor>x + 1/2\<rfloor> = n" using lt gt by (simp add: floor_eq_iff)
  moreover have "\<lfloor>- x + 1/2\<rfloor> = - n" using lt gt by (simp add: floor_eq_iff)
  ultimately show ?thesis by (simp add: math_round_def)
qed

lemma math_round_0 [simp]: "math_round 0 = 0"
  by (rule math_round_near) simp

lemma math_round_nonneg: "0 \<le> x \<Longrightarrow> 0 \<le> math_round x"
  by (simp add: math_round_def)

text \<open>
  Dividing an integer by \<open>b\<close> and multiplying back rounds to the integer again, as long as
  the accumulated relative error of the three roundings stays below one half.
\<close>

lemma float_roundtrip:
  assumes b: "0 < b" and n: "\<bar>n\<bar> \<le> 2 ^ 50"
  shows "round_mul (float_div n b) b = n"
proof -
  define e :: rat where "e = 1 / 2 ^ 53"
  define m :: rat where "m = \<bar>of_int n\<bar>"
  have m: "0 \<le> m" "m \<le> 2 ^ 50"
  proof -
    show "0 \<le> m" by (simp add: m_def)
    have "(of_int \<bar>n\<bar> :: rat) \<le> of_int (2 ^ 50)" using n by (simp only: of_int_le_iff)
    then show "m \<le> 2 ^ 50" by (simp add: m_def)
  qed
  define a1 where "a1 = fl64 (of_int n :: rat)"
  define a2 where "a2 = fl64 (a1 / b)"
  define a3 where "a3 = fl64 (a2 * b)"
  have E: "\<bar>fl64 y - y\<bar> \<le> \<bar>y\<bar> * e" for y using fl64_error [of y] by (simp add: e_def)
  have A: "\<bar>fl64 y\<bar> \<le> \<bar>y\<bar> * (1 + e)" for y
  proof -
    have "\<bar>fl64 y\<bar> \<le> \<bar>y\<bar> + \<bar>fl64 y - y\<bar>" by linarith
    also have "\<dots> \<le> \<bar>y\<bar> + \<bar>y\<bar> * e" using E by simp
    finally show ?thesis by (simp add: distrib_left)
  qed
  have d1: "\<bar>a1 - of_int n\<bar> \<le> m * e" using E by (simp add: a1_def m_def)
  have m1: "\<bar>a1\<bar> \<le> m * (1 + e)" using A by (simp add: a1_def m_def)
  have d2: "\<bar>a2 * b - a1\<bar> \<le> m * (1 + e) * e"
  proof -
    have "a2 * b - a1 = (a2 - a1 / b) * b" using b by (simp add: left_diff_distrib)
    then have "\<bar>a2 * b - a1\<bar> = \<bar>a2 - a1 / b\<bar> * b" using b by (simp add: abs_mult)
    also have "\<bar>a2 - a1 / b\<bar> * b \<le> \<bar>a1 / b\<bar> * e * b"
      using b unfolding a2_def by (intro mult_right_mono E) simp
    also have "\<dots> = \<bar>a1\<bar> * e" using b by (simp add: abs_divide)
    also have "\<dots> \<le> m * (1 + e) * e"
      using m1 by (intro mult_right_mono) (simp_all add: e_def)
    finally show ?thesis .
  qed
  have m2: "\<bar>a2 * b\<bar> \<le> m * (1 + e) * (1 + e)"
  proof -
    have "\<bar>a2 * b\<bar> \<le> \<bar>a1\<bar> + \<bar>a2 * b - a1\<bar>" by linarith
    also have "\<dots> \<le> m * (1 + e) + m * (1 + e) * e" using m1 d2 by (rule add_mono)
    finally show ?thesis by (simp add: distrib_left)
  qed
  have d3: "\<bar>a3 - a2 * b\<bar> \<le> m * (1 + e) * (1 + e) * e"
  proof -
    have "\<bar>a3 - a2 * b\<bar> \<le> \<bar>a2 * b\<bar> * e" unfolding a3_def by (rule E)
    also have "\<dots> \<le> m * (1 + e) * (1 + e) * e"
      using m2 by (rule mult_right_mono) (simp add: e_def)
    finally show ?thesis .
  qed
  have "\<bar>a3 - of_int n\<bar> \<le> \<bar>a3 - a2 * b\<bar> + \<bar>a2 * b - a1\<bar> + \<bar>a1 - of_int n\<bar>" by linarith
  also have "\<dots> \<le> m * (1 + e) * (1 + e) * e + m * (1 + e) * e + m * e"
    using d1 d2 d3 by linarith
  also have "\<dots> = m * (e + (1 + e) * e + (1 + e) * (1 + e) * e)"
    by (simp add: algebra_simps)
  also have "\<dots> \<le> 2 ^ 50 * (e + (1 + e) * e + (1 + e) * (1 + e) * e)"
    using m by (intro mult_right_mono) (simp_all add: e_def)
  also have "\<dots> < 1/2" by (simp add: e_def)
  finally have "math_round a3 = n" by (rule math_round_near)
  moreover have "- (2 ^ 63) \<le> n \<and> n < 2 ^ 63" using n by (simp add: abs_le_iff)
  ultimately show ?thesis
    by (simp add: round_mul_def float_div_def a3_def a2_def a1_def int64_of_float_def)
qed

lemma int64_of_float_range: "- (2 ^ 63) \<le> int64_of_float n \<and> int64_of_float n < 2 ^ 63"
  by (simp add: int64_of_float_def)

section \<open>Exact integers\<close>

lemma fl64_of_int:
  assumes "\<bar>n\<bar> < 2 ^ 53"
  shows "fl64 (of_int n) = of_int n"
proof (cases "n = 0")
  case False
  define e where "e = expo \<bar>of_int n\<bar>"
  have pos: "(0::rat) < \<bar>of_int n\<bar>" using False by simp
  have "(2::rat) powi e \<le> \<bar>of_int n\<bar>" unfolding e_def by (rule expo_bounds(1) [OF pos])
  also have "\<bar>of_int n\<bar> < (2::rat) powi 53"
  proof -
    have "(of_int \<bar>n\<bar> :: rat) < of_int (2 ^ 53)" using assms by (simp only: of_int_less_iff)
    then show ?thesis by simp
  qed
  finally have lt: "(2::rat) powi e < 2 powi 53" .
  have "e < 53"
  proof (rule ccontr)
    assume "\<not> e < 53"
    then have "(2::rat) powi 53 \<le> 2 powi e" by (intro power_int_increasing) simp_all
    with lt show False by simp
  qed
  then have u: "(2::rat) powi (e - 52) = 1 / 2 ^ nat (52 - e)"
    by (simp add: power_int_def inverse_eq_divide power_one_over)
  have "of_int n / (2::rat) powi (e - 52) = of_int (n * 2 ^ nat (52 - e))"
    by (simp add: u)
  then have "round_even (of_int n / (2::rat) powi (e - 52)) = n * 2 ^ nat (52 - e)"
    by (simp only: round_even_of_int)
  with False show ?thesis
    by (simp add: fl64_def Let_def flip: e_def) (simp add: u)
qed (simp add: fl64_def)

end
