(* ===== verification/Core_Types.thy ===== *)
theory Core_Types
  imports Prelude Go_Float
begin

text \<open>
  The data of \<open>internal/types\<close> and \<open>pkg/interfaces\<close>: messages, tool calls, token usage, LLM
  requests and responses, memory scopes, documents, approval statuses, and the error values.
  Go's string enumerations are strings here as there (any string can be stored in them), with
  one definition per declared constant. A \<open>map[string]any\<close> is an association list, \<open>None\<close>
  for the nil map.
\<close>

section \<open>Dynamic values\<close>

text \<open>\<open>any\<close> as it comes out of JSON; a number carries its printed form.\<close>

datatype go_any =
    ANil
  | ABool bool
  | ANum string
  | AStr string
  | AArr "go_any list"
  | AObj "(string \<times> go_any) list"

type_synonym go_args = "(string \<times> go_any) list option"

definition arg_lookup :: "go_args \<Rightarrow> string \<Rightarrow> go_any option" where
  "arg_lookup args k = (case args of None \<Rightarrow> None | Some xs \<Rightarrow> map_of xs k)"

text \<open>\<open>s, ok := args[k].(string)\<close>\<close>

definition arg_string :: "go_args \<Rightarrow> string \<Rightarrow> string option" where
  "arg_string args k = (case arg_lookup args k of Some (AStr s) \<Rightarrow> Some s | _ \<Rightarrow> None)"

section \<open>Constants of the string enumerations\<close>

definition ToolKindNative :: string where "ToolKindNative = ''native''"
definition ToolKindMCP :: string where "ToolKindMCP = ''mcp''"
definition ToolKindA2A :: string where "ToolKindA2A = ''a2a''"
definition ToolKindSubAgent :: string where "ToolKindSubAgent = ''sub_agent''"
definition ToolKindRetriever :: string where "ToolKindRetriever = ''retriever''"
definition ToolKindMemory :: string where "ToolKindMemory = ''memory''"

lemmas tool_kind_defs = ToolKindNative_def ToolKindMCP_def ToolKindA2A_def ToolKindSubAgent_def
  ToolKindRetriever_def ToolKindMemory_def

definition RoleSystem :: string where "RoleSystem = ''system''"
definition RoleUser :: string where "RoleUser = ''user''"
definition RoleAssistant :: string where "RoleAssistant = ''assistant''"
definition RoleTool :: string where "RoleTool = ''tool''"
definition RoleReasoning :: string where "RoleReasoning = ''reasoning''"

lemmas role_defs = RoleSystem_def RoleUser_def RoleAssistant_def RoleTool_def RoleReasoning_def

definition ApprovalNone :: string where "ApprovalNone = ''NONE''"
definition ApprovalPending :: string where "ApprovalPending = ''PENDING''"
definition ApprovalApproved :: string where "ApprovalApproved = ''APPROVED''"
definition ApprovalRejected :: string where "ApprovalRejected = ''REJECTED''"
definition ApprovalUnavailable :: string where "ApprovalUnavailable = ''UNAVAILABLE''"
definition ApprovalTimedOut :: string where "ApprovalTimedOut = ''TIMED_OUT''"

lemmas approval_defs = ApprovalNone_def ApprovalPending_def ApprovalApproved_def
  ApprovalRejected_def ApprovalUnavailable_def ApprovalTimedOut_def

definition BudgetStopRun :: string where "BudgetStopRun = ''stop_run''"
definition BudgetWaitForApproval :: string where
  "BudgetWaitForApproval = ''wait_for_approval''"
definition BudgetKindTokens :: string where "BudgetKindTokens = ''tokens''"
definition BudgetKindCost :: string where "BudgetKindCost = ''cost_usd''"

definition FinishComplete :: string where "FinishComplete = ''complete''"
definition FinishMaxIterations :: string where "FinishMaxIterations = ''max_iterations''"
definition FinishBudgetExceeded :: string where "FinishBudgetExceeded = ''budget_exceeded''"

definition RetrieverModeAgentic :: string where "RetrieverModeAgentic = ''agentic''"
definition RetrieverModePrefetch :: string where "RetrieverModePrefetch = ''prefetch''"
definition RetrieverModeHybrid :: string where "RetrieverModeHybrid = ''hybrid''"

definition ExecModeParallel :: string where "ExecModeParallel = ''parallel''"
definition ExecModeSequential :: string where "ExecModeSequential = ''sequential''"

lemmas budget_action_defs = BudgetStopRun_def BudgetWaitForApproval_def
lemmas finish_defs = FinishComplete_def FinishMaxIterations_def FinishBudgetExceeded_def
lemmas exec_mode_defs = ExecModeParallel_def ExecModeSequential_def

lemma budget_kind_neq [simp]: "BudgetKindTokens \<noteq> BudgetKindCost" "BudgetKindCost \<noteq> BudgetKindTokens"
  by (simp_all add: BudgetKindTokens_def BudgetKindCost_def)

lemma budget_action_neq [simp]: "BudgetStopRun \<noteq> BudgetWaitForApproval"
  "BudgetWaitForApproval \<noteq> BudgetStopRun" "BudgetWaitForApproval \<noteq> []" "BudgetStopRun \<noteq> []"
  by (simp_all add: budget_action_defs)

lemma role_neq [simp]:
  "RoleUser \<noteq> RoleAssistant" "RoleAssistant \<noteq> RoleUser" "RoleTool \<noteq> RoleAssistant"
  "RoleAssistant \<noteq> RoleTool" "RoleUser \<noteq> RoleTool" "RoleTool \<noteq> RoleUser"
  by (simp_all add: role_defs)

lemma approval_neq [simp]:
  "ApprovalApproved \<noteq> ApprovalRejected" "ApprovalApproved \<noteq> ApprovalUnavailable"
  "ApprovalApproved \<noteq> ApprovalTimedOut" "ApprovalRejected \<noteq> ApprovalApproved"
  "ApprovalRejected \<noteq> ApprovalUnavailable" "ApprovalRejected \<noteq> ApprovalTimedOut"
  "ApprovalUnavailable \<noteq> ApprovalApproved" "ApprovalUnavailable \<noteq> ApprovalRejected"
  "ApprovalUnavailable \<noteq> ApprovalTimedOut" "ApprovalTimedOut \<noteq> ApprovalApproved"
  "ApprovalTimedOut \<noteq> ApprovalRejected" "ApprovalTimedOut \<noteq> ApprovalUnavailable"
  by (simp_all add: approval_defs)

section \<open>Token usage, messages, requests\<close>

record llm_usage =
  PromptTokens :: int
  CompletionTokens :: int
  TotalTokens :: int
  CachedPromptTokens :: int
  ReasoningTokens :: int

record tool_call =
  tc_ToolCallID :: string
  tc_ToolName :: string
  tc_Args :: go_args

record message =
  msg_Role :: string
  msg_Content :: string
  msg_ToolName :: string
  msg_ToolCallID :: string
  msg_ToolCalls :: "tool_call list"

definition mk_message :: "string \<Rightarrow> string \<Rightarrow> message" where
  "mk_message role content =
    \<lparr>msg_Role = role, msg_Content = content, msg_ToolName = '''', msg_ToolCallID = '''',
     msg_ToolCalls = []\<rparr>"

record document =
  doc_Content :: string
  doc_Source :: string
  doc_Score :: rat

record tool_spec =
  spec_Name :: string
  spec_Description :: string
  spec_Parameters :: go_any

record response_format =
  rf_Type :: string
  rf_Name :: string
  rf_Schema :: go_any

record llm_reasoning =
  rs_Enabled :: bool
  rs_Effort :: string
  rs_BudgetTokens :: int

record llm_sampling =
  sm_Temperature :: "rat option"
  sm_MaxTokens :: int
  sm_TopP :: "rat option"
  sm_TopK :: "int option"
  sm_Reasoning :: "llm_reasoning option"

record llm_request =
  rq_SystemMessage :: string
  rq_ResponseFormat :: "response_format option"
  rq_Tools :: "tool_spec list"
  rq_Messages :: "message list"
  rq_Temperature :: "rat option"
  rq_MaxTokens :: int
  rq_TopP :: "rat option"
  rq_TopK :: "int option"
  rq_Reasoning :: "llm_reasoning option"

text \<open>A response's tool calls are pointers; \<open>None\<close> is the nil pointer the SDK skips.\<close>

record llm_response =
  rp_Content :: string
  rp_Usage :: "llm_usage option"
  rp_ToolCalls :: "tool_call option list"

record memory_scope =
  sc_UserID :: string
  sc_TenantID :: string
  sc_AgentID :: string
  sc_Tags :: "(string \<times> string) list"

text \<open>Times are nanoseconds since the epoch; an expiry of \<open>None\<close> is Go's zero time.\<close>

record memory_record =
  mr_Text :: string
  mr_Kind :: string
  mr_Metadata :: "(string \<times> string) list"
  mr_ExpiresAt :: "int option"

record memory_entry =
  me_ID :: string
  me_Text :: string
  me_Kind :: string
  me_Scope :: memory_scope
  me_Metadata :: "(string \<times> string) list"
  me_ExpiresAt :: "int option"
  me_Score :: rat

section \<open>Errors\<close>

datatype budget_exceeded_error =
  BudgetExceededError (be_Kind: string) (be_TotalTokens: int) (be_TotalCostUSD: rat)
    (be_LimitTokens: int) (be_LimitCostUSD: rat) (be_WatermarkTokens: int)
    (be_WatermarkCostUSD: rat)

definition budget_error_str :: "budget_exceeded_error \<Rightarrow> string" where
  "budget_error_str e =
    (if be_Kind e = BudgetKindCost then
       ''per-run budget exceeded: estimated cost $'' @ fmt_fixed 6 (be_TotalCostUSD e)
       @ '' exceeds limit $'' @ fmt_fixed 6 (be_LimitCostUSD e)
       @ '' (watermark $'' @ fmt_fixed 6 (be_WatermarkCostUSD e) @ '')''
     else
       ''per-run budget exceeded: total tokens '' @ itoa (be_TotalTokens e)
       @ '' exceeds limit '' @ itoa (be_LimitTokens e)
       @ '' (watermark '' @ itoa (be_WatermarkTokens e) @ '')'')"

datatype sentinel =
    ErrBudgetExceeded
  | ErrBudgetApprovalUnavailable
  | ErrBusClosed
  | ContextCanceled
  | DeadlineExceeded

fun sentinel_str :: "sentinel \<Rightarrow> string" where
  "sentinel_str ErrBudgetExceeded = ''agent: per-run budget exceeded''"
| "sentinel_str ErrBudgetApprovalUnavailable =
     ''agent: budget approval unavailable (stream not connected)''"
| "sentinel_str ErrBusClosed = ''eventbus: closed''"
| "sentinel_str ContextCanceled = ''context canceled''"
| "sentinel_str DeadlineExceeded = ''context deadline exceeded''"

text \<open>
  \<open>ErrWrap pre e post\<close> is \<open>fmt.Errorf\<close> with one \<open>%w\<close> between two texts, \<open>ErrWrap2 a m b\<close> the
  form with two.
\<close>

datatype go_error =
    ErrNew string
  | ErrSentinel sentinel
  | ErrWrap string go_error string
  | ErrWrap2 go_error string go_error
  | ErrBudget budget_exceeded_error

fun error_str :: "go_error \<Rightarrow> string" where
  "error_str (ErrNew s) = s"
| "error_str (ErrSentinel s) = sentinel_str s"
| "error_str (ErrWrap pre e post) = pre @ error_str e @ post"
| "error_str (ErrWrap2 a m b) = error_str a @ m @ error_str b"
| "error_str (ErrBudget e) = budget_error_str e"

text \<open>\<open>errors.Is\<close> and \<open>errors.As\<close>.\<close>

fun error_is :: "go_error \<Rightarrow> sentinel \<Rightarrow> bool" where
  "error_is (ErrNew s) t = False"
| "error_is (ErrSentinel s) t = (s = t)"
| "error_is (ErrWrap pre e post) t = error_is e t"
| "error_is (ErrWrap2 a m b) t = (error_is a t \<or> error_is b t)"
| "error_is (ErrBudget e) t = False"

fun error_as_budget :: "go_error \<Rightarrow> budget_exceeded_error option" where
  "error_as_budget (ErrNew s) = None"
| "error_as_budget (ErrSentinel s) = None"
| "error_as_budget (ErrWrap pre e post) = error_as_budget e"
| "error_as_budget (ErrWrap2 a m b) =
     (case error_as_budget a of Some x \<Rightarrow> Some x | None \<Rightarrow> error_as_budget b)"
| "error_as_budget (ErrBudget e) = Some e"

section \<open>Action codes of the error control\<close>

text \<open>\<open>ErrorControlAction\<close> is an integer enumeration.\<close>

definition ErrorControlAbort :: int where "ErrorControlAbort = 0"
definition ErrorControlFallbackModel :: int where "ErrorControlFallbackModel = 1"
definition ErrorControlContinueWithFinalCall :: int where
  "ErrorControlContinueWithFinalCall = 2"
definition ErrorControlExtendIterations :: int where "ErrorControlExtendIterations = 3"

lemmas ec_action_defs = ErrorControlAbort_def ErrorControlFallbackModel_def
  ErrorControlContinueWithFinalCall_def ErrorControlExtendIterations_def

lemma ec_action_neq [simp]:
  "ErrorControlContinueWithFinalCall \<noteq> ErrorControlExtendIterations"
  "ErrorControlExtendIterations \<noteq> ErrorControlContinueWithFinalCall"
  "ErrorControlAbort \<noteq> ErrorControlFallbackModel"
  "ErrorControlFallbackModel \<noteq> ErrorControlAbort"
  by (simp_all add: ec_action_defs)

record ec_decision =
  ec_Action :: int
  ec_ExtraIterations :: int

section \<open>Tool kinds\<close>

text \<open>
  \<open>KindOf\<close>: the tool's kind when it implements \<open>ToolKindProvider\<close> (\<open>Some k\<close>) with a non-empty
  kind, else native.
\<close>

definition KindOf :: "string option \<Rightarrow> string" where
  "KindOf provider =
    (case provider of Some kind \<Rightarrow> if kind \<noteq> '''' then kind else ToolKindNative
     | None \<Rightarrow> ToolKindNative)"

definition CountsTowardToolTelemetry :: "string \<Rightarrow> bool" where
  "CountsTowardToolTelemetry k \<longleftrightarrow> k \<notin> {ToolKindSubAgent, ToolKindA2A, ToolKindRetriever}"

definition HooksEligible :: "string \<Rightarrow> bool" where
  "HooksEligible k \<longleftrightarrow> k = ToolKindNative \<or> k = ToolKindMCP"

lemma HooksEligible_counts: "HooksEligible k \<Longrightarrow> CountsTowardToolTelemetry k"
  by (auto simp: HooksEligible_def CountsTowardToolTelemetry_def tool_kind_defs)

end
