(* ===== verification/Budget.thy ===== *)
theory Budget
  imports Core_Types
begin

text \<open>
  The per-run budget: \<open>BudgetTracker\<close> of \<open>internal/runtime/base/budget.go\<close> and its validation
  \<open>validateBudget\<close> of \<open>pkg/agent/config.go\<close>. Totals and watermarks are 64-bit integers that wrap
  around; dollar amounts are \<open>float64\<close> values (theory \<open>Go_Float\<close>). The mutex serialises the
  methods, so each is one atomic step; a nil tracker is \<open>None\<close>.
\<close>

section \<open>Configuration\<close>

record budget_config =
  MaxTokens :: int
  MaxCostUSD :: rat
  PromptUSDPer1M :: rat
  CompletionUSDPer1M :: rat
  OnExceeded :: string
  ApprovalExtraTokens :: int
  ApprovalExtraCostUSD :: rat
  MaxApprovals :: int

definition budget_action_IsValid :: "string \<Rightarrow> bool" where
  "budget_action_IsValid a \<longleftrightarrow> a = BudgetStopRun \<or> a = BudgetWaitForApproval"

text \<open>The errors of the validation, and the text each one prints.\<close>

datatype budget_config_error =
    NegMaxTokens | NegMaxCostUSD | NegPromptUSD | NegCompletionUSD | NoLimit | NoRates
  | NegExtraTokens | NegExtraCostUSD | NegMaxApprovals
  | ExtraWithStopRun | ApprovalsWithStopRun | UnknownAction string

fun budget_config_error_str :: "budget_config_error \<Rightarrow> string" where
  "budget_config_error_str NegMaxTokens = ''WithBudget: MaxTokens must be >= 0''"
| "budget_config_error_str NegMaxCostUSD = ''WithBudget: MaxCostUSD must be >= 0''"
| "budget_config_error_str NegPromptUSD = ''WithBudget: PromptUSDPer1M must be >= 0''"
| "budget_config_error_str NegCompletionUSD = ''WithBudget: CompletionUSDPer1M must be >= 0''"
| "budget_config_error_str NoLimit =
     ''WithBudget: at least one of MaxTokens or MaxCostUSD must be non-zero''"
| "budget_config_error_str NoRates =
     ''WithBudget: MaxCostUSD requires PromptUSDPer1M and CompletionUSDPer1M to be set''"
| "budget_config_error_str NegExtraTokens = ''WithBudget: ApprovalExtraTokens must be >= 0''"
| "budget_config_error_str NegExtraCostUSD = ''WithBudget: ApprovalExtraCostUSD must be >= 0''"
| "budget_config_error_str NegMaxApprovals = ''WithBudget: MaxApprovals must be >= 0''"
| "budget_config_error_str ExtraWithStopRun =
     ''WithBudget: ApprovalExtraTokens and ApprovalExtraCostUSD are only valid with BudgetWaitForApproval, not BudgetStopRun''"
| "budget_config_error_str ApprovalsWithStopRun =
     ''WithBudget: MaxApprovals is only valid with BudgetWaitForApproval, not BudgetStopRun''"
| "budget_config_error_str (UnknownAction a) = ''WithBudget: unknown OnExceeded action ''
     @ Quote a @ ''; use BudgetStopRun or BudgetWaitForApproval''"

text \<open>\<open>validateBudget\<close> in its two parts: the checks on the numbers, then the switch on
  \<open>OnExceeded\<close>, which fills in defaults.\<close>

definition budget_limit_error :: "budget_config \<Rightarrow> budget_config_error option" where
  "budget_limit_error b =
    (if MaxTokens b < 0 then Some NegMaxTokens
     else if MaxCostUSD b < 0 then Some NegMaxCostUSD
     else if PromptUSDPer1M b < 0 then Some NegPromptUSD
     else if CompletionUSDPer1M b < 0 then Some NegCompletionUSD
     else if MaxTokens b = 0 \<and> MaxCostUSD b = 0 then Some NoLimit
     else if MaxCostUSD b > 0 \<and> (PromptUSDPer1M b \<le> 0 \<or> CompletionUSDPer1M b \<le> 0)
       then Some NoRates
     else if ApprovalExtraTokens b < 0 then Some NegExtraTokens
     else if ApprovalExtraCostUSD b < 0 then Some NegExtraCostUSD
     else if MaxApprovals b < 0 then Some NegMaxApprovals
     else None)"

definition resolve_on_exceeded :: "budget_config \<Rightarrow> budget_config_error + budget_config" where
  "resolve_on_exceeded b =
    (let b1 = (if OnExceeded b = '''' then b\<lparr>OnExceeded := BudgetStopRun\<rparr> else b) in
     if OnExceeded b1 = BudgetStopRun then
       (if ApprovalExtraTokens b1 \<noteq> 0 \<or> ApprovalExtraCostUSD b1 \<noteq> 0 then Inl ExtraWithStopRun
        else if MaxApprovals b1 \<noteq> 0 then Inl ApprovalsWithStopRun
        else Inr b1)
     else if OnExceeded b1 = BudgetWaitForApproval then
       let b2 = (if ApprovalExtraTokens b1 = 0 \<and> MaxTokens b1 > 0
                 then b1\<lparr>ApprovalExtraTokens := MaxTokens b1\<rparr> else b1);
           b3 = (if ApprovalExtraCostUSD b2 = 0 \<and> MaxCostUSD b2 > 0
                 then b2\<lparr>ApprovalExtraCostUSD := MaxCostUSD b2\<rparr> else b2)
       in Inr b3
     else Inl (UnknownAction (OnExceeded b1)))"

definition validateBudget ::
    "budget_config option \<Rightarrow> budget_config_error + budget_config option" where
  "validateBudget cfg = (case cfg of None \<Rightarrow> Inr None | Some b \<Rightarrow>
    (case budget_limit_error b of Some e \<Rightarrow> Inl e
     | None \<Rightarrow> map_sum id Some (resolve_on_exceeded b)))"

section \<open>The tracker\<close>

definition nanoUSDPerUSD :: rat where "nanoUSDPerUSD = 1000000000"
definition defaultMaxApprovals :: int where "defaultMaxApprovals = 5"

record budget_tracker =
  bt_cfg :: budget_config
  bt_totalTokens :: int
  bt_totalCostNano :: int
  bt_promptRate :: int
  bt_completionRate :: int
  bt_maxCostNano :: int
  bt_wmTokens :: int
  bt_wmCostNano :: int
  bt_approvalCount :: int
  bt_effMaxApproval :: int
  bt_hasAdded :: bool

definition NewBudgetTracker :: "budget_config option \<Rightarrow> budget_tracker option" where
  "NewBudgetTracker cfg = (case cfg of None \<Rightarrow> None | Some c \<Rightarrow> Some
    \<lparr>bt_cfg = c, bt_totalTokens = 0, bt_totalCostNano = 0,
     bt_promptRate = (if PromptUSDPer1M c > 0 then round_mul (PromptUSDPer1M c) 1000 else 0),
     bt_completionRate =
       (if CompletionUSDPer1M c > 0 then round_mul (CompletionUSDPer1M c) 1000 else 0),
     bt_maxCostNano = (if MaxCostUSD c > 0 then round_mul (MaxCostUSD c) nanoUSDPerUSD else 0),
     bt_wmTokens = 0, bt_wmCostNano = 0, bt_approvalCount = 0,
     bt_effMaxApproval = (if MaxApprovals c \<le> 0 then defaultMaxApprovals else MaxApprovals c),
     bt_hasAdded = False\<rparr>)"

definition checkLimits :: "budget_tracker \<Rightarrow> budget_exceeded_error option" where
  "checkLimits t =
    (let c = bt_cfg t;
         limit = (if ApprovalExtraTokens c = 0 then MaxTokens c else ApprovalExtraTokens c);
         nano0 = round_mul (ApprovalExtraCostUSD c) nanoUSDPerUSD;
         limitNano = (if nano0 = 0 then bt_maxCostNano t else nano0);
         limitUSD = (if nano0 = 0 then MaxCostUSD c else ApprovalExtraCostUSD c)
     in if MaxTokens c > 0 \<and> bt_totalTokens t \<ge> int64 (bt_wmTokens t + limit)
        then Some (BudgetExceededError BudgetKindTokens (bt_totalTokens t) 0 limit 0
                     (bt_wmTokens t) 0)
        else if MaxCostUSD c > 0 \<and> bt_totalCostNano t \<ge> int64 (bt_wmCostNano t + limitNano)
        then Some (BudgetExceededError BudgetKindCost 0
                     (float_div (bt_totalCostNano t) nanoUSDPerUSD) 0 limitUSD 0
                     (float_div (bt_wmCostNano t) nanoUSDPerUSD))
        else None)"

text \<open>The update \<open>Add\<close> makes under the lock, before the limits are checked.\<close>

definition accumulate :: "budget_tracker \<Rightarrow> llm_usage \<Rightarrow> budget_tracker" where
  "accumulate t u = t\<lparr>bt_hasAdded := True,
     bt_totalTokens := int64 (bt_totalTokens t + TotalTokens u),
     bt_totalCostNano := int64 (bt_totalCostNano t
        + int64 (int64 (PromptTokens u * bt_promptRate t)
                 + int64 (CompletionTokens u * bt_completionRate t)))\<rparr>"

definition bt_Add :: "budget_tracker option \<Rightarrow> llm_usage option \<Rightarrow>
    budget_exceeded_error option \<times> budget_tracker option" where
  "bt_Add bt usage = (case (bt, usage) of
      (Some t, Some u) \<Rightarrow> (let t' = accumulate t u in (checkLimits t', Some t'))
    | _ \<Rightarrow> (None, bt))"

definition bt_Check :: "budget_tracker option \<Rightarrow> budget_exceeded_error option" where
  "bt_Check bt = (case bt of None \<Rightarrow> None | Some t \<Rightarrow> checkLimits t)"

definition advance :: "budget_tracker \<Rightarrow> budget_tracker" where
  "advance t = t\<lparr>bt_approvalCount := bt_approvalCount t + 1,
     bt_wmTokens := bt_totalTokens t, bt_wmCostNano := bt_totalCostNano t\<rparr>"

definition AdvanceWatermark :: "budget_tracker option \<Rightarrow> bool \<times> budget_tracker option" where
  "AdvanceWatermark bt = (True, map_option advance bt)"

definition ApprovalsExhausted :: "budget_tracker option \<Rightarrow> bool" where
  "ApprovalsExhausted bt = (case bt of None \<Rightarrow> False
     | Some t \<Rightarrow> bt_approvalCount t \<ge> bt_effMaxApproval t)"

definition ApprovalCount :: "budget_tracker option \<Rightarrow> int" where
  "ApprovalCount bt = (case bt of None \<Rightarrow> 0 | Some t \<Rightarrow> bt_approvalCount t)"

definition Totals :: "budget_tracker option \<Rightarrow> int \<times> rat" where
  "Totals bt = (case bt of None \<Rightarrow> (0, 0)
     | Some t \<Rightarrow> (bt_totalTokens t, float_div (bt_totalCostNano t) nanoUSDPerUSD))"

definition WatermarkTotals :: "budget_tracker option \<Rightarrow> int \<times> rat" where
  "WatermarkTotals bt = (case bt of None \<Rightarrow> (0, 0)
     | Some t \<Rightarrow> (bt_wmTokens t, float_div (bt_wmCostNano t) nanoUSDPerUSD))"

text \<open>\<open>Inl\<close> is the panic.\<close>

definition RestoreState :: "budget_tracker option \<Rightarrow> int \<Rightarrow> rat \<Rightarrow> int \<Rightarrow> rat \<Rightarrow>
    string + budget_tracker option" where
  "RestoreState bt tokens costUSD wmTokens wmCostUSD = (case bt of
      None \<Rightarrow> Inr None
    | Some t \<Rightarrow>
        if bt_hasAdded t then Inl ''budget: RestoreState called after Add -- restore must happen before accumulation begins''
        else Inr (Some (t\<lparr>bt_totalTokens := tokens,
               bt_totalCostNano := round_mul costUSD nanoUSDPerUSD,
               bt_wmTokens := wmTokens,
               bt_wmCostNano := round_mul wmCostUSD nanoUSDPerUSD\<rparr>)))"

section \<open>Windows\<close>

text \<open>The token and cost windows \<open>checkLimits\<close> measures from the watermark.\<close>

definition token_window :: "budget_config \<Rightarrow> int" where
  "token_window c = (if ApprovalExtraTokens c = 0 then MaxTokens c else ApprovalExtraTokens c)"

definition cost_window :: "budget_tracker \<Rightarrow> int" where
  "cost_window t = (let n = round_mul (ApprovalExtraCostUSD (bt_cfg t)) nanoUSDPerUSD
                    in if n = 0 then bt_maxCostNano t else n)"

lemma checkLimits_None_iff: "checkLimits t = None \<longleftrightarrow>
    (MaxTokens (bt_cfg t) > 0 \<longrightarrow>
       bt_totalTokens t < int64 (bt_wmTokens t + token_window (bt_cfg t)))
  \<and> (MaxCostUSD (bt_cfg t) > 0 \<longrightarrow>
       bt_totalCostNano t < int64 (bt_wmCostNano t + cost_window t))"
  by (auto simp: checkLimits_def Let_def token_window_def cost_window_def not_le not_less)

lemma checkLimits_kind: "checkLimits t = Some e \<Longrightarrow>
    be_Kind e = (if MaxTokens (bt_cfg t) > 0 \<and>
       bt_totalTokens t \<ge> int64 (bt_wmTokens t + token_window (bt_cfg t))
     then BudgetKindTokens else BudgetKindCost)"
  by (auto simp: checkLimits_def Let_def token_window_def split: if_splits)

lemma accumulate_frame [simp]:
  "bt_cfg (accumulate t u) = bt_cfg t" "bt_wmTokens (accumulate t u) = bt_wmTokens t"
  "bt_approvalCount (accumulate t u) = bt_approvalCount t"
  "bt_effMaxApproval (accumulate t u) = bt_effMaxApproval t"
  "bt_wmCostNano (accumulate t u) = bt_wmCostNano t"
  "bt_maxCostNano (accumulate t u) = bt_maxCostNano t"
  by (simp_all add: accumulate_def)

lemma advance_frame [simp]:
  "bt_cfg (advance t) = bt_cfg t" "bt_totalTokens (advance t) = bt_totalTokens t"
  "bt_totalCostNano (advance t) = bt_totalCostNano t"
  "bt_wmTokens (advance t) = bt_totalTokens t" "bt_wmCostNano (advance t) = bt_totalCostNano t"
  "bt_approvalCount (advance t) = bt_approvalCount t + 1"
  "bt_effMaxApproval (advance t) = bt_effMaxApproval t"
  "bt_maxCostNano (advance t) = bt_maxCostNano t"
  "cost_window (advance t) = cost_window t"
  by (simp_all add: advance_def cost_window_def Let_def)

text \<open>What a validated configuration satisfies.\<close>

definition resolved_action :: "budget_config \<Rightarrow> bool" where
  "resolved_action b \<longleftrightarrow>
    OnExceeded b = BudgetStopRun \<and> ApprovalExtraTokens b = 0 \<and> ApprovalExtraCostUSD b = 0 \<and>
       MaxApprovals b = 0 \<or>
    OnExceeded b = BudgetWaitForApproval \<and> \<not> (ApprovalExtraTokens b = 0 \<and> MaxTokens b > 0) \<and>
       \<not> (ApprovalExtraCostUSD b = 0 \<and> MaxCostUSD b > 0)"

definition valid_budget :: "budget_config \<Rightarrow> bool" where
  "valid_budget b \<longleftrightarrow> budget_limit_error b = None \<and> resolved_action b"

lemma valid_budget_signs:
  assumes "budget_limit_error b = None"
  shows "0 \<le> MaxTokens b" "0 \<le> MaxCostUSD b" "0 \<le> ApprovalExtraTokens b"
    "0 \<le> ApprovalExtraCostUSD b" "0 \<le> MaxApprovals b"
  using assms unfolding budget_limit_error_def by (simp_all split: if_split_asm)

lemma resolve_resolved: "resolve_on_exceeded b = Inr b' \<Longrightarrow> resolved_action b'"
  unfolding resolve_on_exceeded_def resolved_action_def Let_def
  by (auto split: if_split_asm)

lemma resolved_resolve: "resolved_action b \<Longrightarrow> resolve_on_exceeded b = Inr b"
  unfolding resolve_on_exceeded_def resolved_action_def Let_def
  by (elim disjE conjE) simp_all

lemma resolve_limits:
  assumes "resolve_on_exceeded b = Inr b'"
  shows "MaxTokens b' = MaxTokens b" "MaxCostUSD b' = MaxCostUSD b"
    "PromptUSDPer1M b' = PromptUSDPer1M b" "CompletionUSDPer1M b' = CompletionUSDPer1M b"
    "MaxApprovals b' = MaxApprovals b"
    "ApprovalExtraTokens b' = ApprovalExtraTokens b \<or> ApprovalExtraTokens b' = MaxTokens b"
    "ApprovalExtraCostUSD b' = ApprovalExtraCostUSD b \<or> ApprovalExtraCostUSD b' = MaxCostUSD b"
  using assms unfolding resolve_on_exceeded_def Let_def by (auto split: if_split_asm)

lemma resolve_keeps_limits:
  assumes "budget_limit_error b = None" and r: "resolve_on_exceeded b = Inr b'"
  shows "budget_limit_error b' = None"
proof -
  have "\<not> ApprovalExtraTokens b' < 0" "\<not> ApprovalExtraCostUSD b' < 0"
    using resolve_limits(6,7) [OF r] valid_budget_signs [OF assms(1)] by auto
  with assms(1) show ?thesis
    unfolding budget_limit_error_def resolve_limits(1-5) [OF r]
    by (simp only: if_False option.simps simp_thms split: if_split_asm)
qed

lemma validateBudget_valid:
  assumes "validateBudget (Some b) = Inr (Some b')" shows "valid_budget b'"
proof -
  from assms have l: "budget_limit_error b = None" and r: "resolve_on_exceeded b = Inr b'"
    by (cases "budget_limit_error b"; cases "resolve_on_exceeded b"; simp add: validateBudget_def)+
  with resolve_keeps_limits [OF l r] resolve_resolved [OF r] show ?thesis
    by (simp add: valid_budget_def)
qed

lemma valid_validateBudget: "valid_budget b \<Longrightarrow> validateBudget (Some b) = Inr (Some b)"
  by (simp add: validateBudget_def valid_budget_def resolved_resolve)

section \<open>Properties\<close>

text \<open>After an approval the run can go on: once \<open>AdvanceWatermark\<close> has moved the watermark
  to the totals, \<open>Check\<close> reports no breach, for any tracker whose windows are positive and whose
  totals leave room for one more window below the 64-bit bound.\<close>

theorem advance_clears_breach:
  assumes "MaxTokens (bt_cfg t) > 0 \<Longrightarrow> 0 < token_window (bt_cfg t)"
    and "MaxCostUSD (bt_cfg t) > 0 \<Longrightarrow> 0 < cost_window t"
    and "- (2 ^ 63) \<le> bt_totalTokens t" "bt_totalTokens t + token_window (bt_cfg t) < 2 ^ 63"
    and "- (2 ^ 63) \<le> bt_totalCostNano t" "bt_totalCostNano t + cost_window t < 2 ^ 63"
  shows "AdvanceWatermark (Some t) = (True, Some (advance t)) \<and>
    bt_Check (snd (AdvanceWatermark (Some t))) = None"
proof -
  have "MaxTokens (bt_cfg t) > 0 \<Longrightarrow>
      int64 (bt_totalTokens t + token_window (bt_cfg t)) = bt_totalTokens t + token_window (bt_cfg t)"
    using assms by (intro int64_id) auto
  moreover have "MaxCostUSD (bt_cfg t) > 0 \<Longrightarrow>
      int64 (bt_totalCostNano t + cost_window t) = bt_totalCostNano t + cost_window t"
    using assms by (intro int64_id) auto
  ultimately have "checkLimits (advance t) = None"
    using assms by (auto simp: checkLimits_None_iff)
  then show ?thesis by (simp add: AdvanceWatermark_def bt_Check_def)
qed

text \<open>A concrete token budget: 100 tokens per window, two approvals.\<close>

definition sample_cfg :: budget_config where
  "sample_cfg = \<lparr>MaxTokens = 100, MaxCostUSD = 0, PromptUSDPer1M = 0, CompletionUSDPer1M = 0,
     OnExceeded = BudgetWaitForApproval, ApprovalExtraTokens = 100, ApprovalExtraCostUSD = 0,
     MaxApprovals = 2\<rparr>"

definition sample_tracker :: "int \<Rightarrow> int \<Rightarrow> int \<Rightarrow> budget_tracker" where
  "sample_tracker tot wm k = \<lparr>bt_cfg = sample_cfg, bt_totalTokens = tot,
     bt_totalCostNano = 0, bt_promptRate = 0, bt_completionRate = 0, bt_maxCostNano = 0,
     bt_wmTokens = wm, bt_wmCostNano = 0, bt_approvalCount = k, bt_effMaxApproval = 2,
     bt_hasAdded = True\<rparr>"

definition tokens_usage :: "int \<Rightarrow> llm_usage" where
  "tokens_usage n = \<lparr>PromptTokens = 0, CompletionTokens = n, TotalTokens = n,
     CachedPromptTokens = 0, ReasoningTokens = 0\<rparr>"

lemmas sample_defs = sample_cfg_def tokens_usage_def token_window_def

lemma round_mul_0 [simp]: "round_mul 0 b = 0"
  by (simp add: round_mul_def fl64_def int64_of_float_def)

lemma sample_tracker_sel [simp]:
  "bt_cfg (sample_tracker tot wm k) = sample_cfg" "bt_totalTokens (sample_tracker tot wm k) = tot"
  "bt_totalCostNano (sample_tracker tot wm k) = 0" "bt_wmTokens (sample_tracker tot wm k) = wm"
  "bt_wmCostNano (sample_tracker tot wm k) = 0" "bt_maxCostNano (sample_tracker tot wm k) = 0"
  "bt_approvalCount (sample_tracker tot wm k) = k" "bt_effMaxApproval (sample_tracker tot wm k) = 2"
  by (simp_all add: sample_tracker_def)

lemma cost_window_sample [simp]: "cost_window (sample_tracker tot wm k) = 0"
  by (simp add: cost_window_def sample_defs)

theorem advance_clears_breach_witness:
  "checkLimits (sample_tracker 130 0 0) \<noteq> None \<and>
   AdvanceWatermark (Some (sample_tracker 130 0 0)) = (True, Some (advance (sample_tracker 130 0 0))) \<and>
   bt_Check (snd (AdvanceWatermark (Some (sample_tracker 130 0 0)))) = None"
proof -
  have "checkLimits (sample_tracker 130 0 0) \<noteq> None"
    by (simp add: checkLimits_None_iff sample_defs int64_id)
  moreover have "AdvanceWatermark (Some (sample_tracker 130 0 0)) = (True, Some (advance (sample_tracker 130 0 0))) \<and>
   bt_Check (snd (AdvanceWatermark (Some (sample_tracker 130 0 0)))) = None"
    by (rule advance_clears_breach) (simp_all add: sample_defs)
  ultimately show ?thesis by blast
qed

section \<open>Runs: how far the total can get\<close>

text \<open>
  The states of a tracker in a run that goes on. A batch \<open>us\<close> of usages is added (one by the
  run's own LLM call, any number by the sub-agents of one tool round); the run continues if no
  limit is reached, or if one is and an approval, while approvals are left, moves the
  watermark. Every batch holds at most \<open>m\<close> tokens.
\<close>

fun accumulate_all :: "budget_tracker \<Rightarrow> llm_usage list \<Rightarrow> budget_tracker" where
  "accumulate_all t [] = t"
| "accumulate_all t (u # us) = accumulate_all (accumulate t u) us"

definition usages_within :: "int \<Rightarrow> llm_usage list \<Rightarrow> bool" where
  "usages_within m us \<longleftrightarrow>
    list_all (\<lambda>u. 0 \<le> TotalTokens u) us \<and> sum_list (map TotalTokens us) \<le> m"

inductive budget_reach :: "budget_config \<Rightarrow> int \<Rightarrow> budget_tracker \<Rightarrow> bool"
  for c :: budget_config and m :: int where
  start: "NewBudgetTracker (Some c) = Some t \<Longrightarrow> budget_reach c m t"
| within: "budget_reach c m t \<Longrightarrow> usages_within m us \<Longrightarrow>
     checkLimits (accumulate_all t us) = None \<Longrightarrow> budget_reach c m (accumulate_all t us)"
| approved: "budget_reach c m t \<Longrightarrow> usages_within m us \<Longrightarrow>
     checkLimits (accumulate_all t us) = Some e \<Longrightarrow>
     \<not> ApprovalsExhausted (Some (accumulate_all t us)) \<Longrightarrow>
     AdvanceWatermark (Some (accumulate_all t us)) = (True, Some t') \<Longrightarrow>
     budget_reach c m t'"

lemma accumulate_all_frame [simp]:
  "bt_cfg (accumulate_all t us) = bt_cfg t" "bt_wmTokens (accumulate_all t us) = bt_wmTokens t"
  "bt_approvalCount (accumulate_all t us) = bt_approvalCount t"
  "bt_effMaxApproval (accumulate_all t us) = bt_effMaxApproval t"
  by (induction us arbitrary: t) simp_all

lemma accumulate_all_total:
  assumes "list_all (\<lambda>u. 0 \<le> TotalTokens u) us" "0 \<le> bt_totalTokens t"
    and "bt_totalTokens t + sum_list (map TotalTokens us) < 2 ^ 63"
  shows "bt_totalTokens (accumulate_all t us) = bt_totalTokens t + sum_list (map TotalTokens us)"
  using assms
proof (induction us arbitrary: t)
  case (Cons u us)
  have nn: "0 \<le> sum_list (map TotalTokens us)"
    using Cons.prems(1) by (induction us) auto
  have step: "bt_totalTokens (accumulate t u) = bt_totalTokens t + TotalTokens u"
    using Cons.prems nn by (simp add: accumulate_def int64_id)
  show ?case using Cons.prems Cons.IH [of "accumulate t u"] nn by (simp add: step add.assoc)
qed simp

definition max_approvals :: "budget_config \<Rightarrow> int" where
  "max_approvals c = (if MaxApprovals c \<le> 0 then defaultMaxApprovals else MaxApprovals c)"

lemma budget_reach_invariant:
  assumes "budget_reach c m t" and w: "0 < token_window c" "MaxTokens c > 0" "0 \<le> m"
    and room: "(max_approvals c + 1) * (token_window c + m) < 2 ^ 63"
  shows "bt_cfg t = c \<and> bt_effMaxApproval t = max_approvals c \<and>
    0 \<le> bt_approvalCount t \<and> bt_approvalCount t \<le> max_approvals c \<and>
    0 \<le> bt_totalTokens t \<and> 0 \<le> bt_wmTokens t \<and>
    bt_wmTokens t \<le> bt_approvalCount t * (token_window c + m) \<and>
    bt_totalTokens t < bt_wmTokens t + token_window c"
  using assms(1)
proof (induction rule: budget_reach.induct)
  case (start t)
  then show ?case
    using w by (auto simp: NewBudgetTracker_def max_approvals_def defaultMaxApprovals_def)
next
  case (within t us)
  let ?W = "token_window c" and ?k = "bt_approvalCount t"
  have "?k * (?W + m) \<le> max_approvals c * (?W + m)"
    using within.IH w by (intro mult_right_mono) auto
  then have bnd: "bt_wmTokens t + ?W + m < 2 ^ 63"
    using within.IH room by (simp add: distrib_right)
  with within.IH within.hyps(2) have tot: "bt_totalTokens (accumulate_all t us)
      = bt_totalTokens t + sum_list (map TotalTokens us)"
    by (intro accumulate_all_total) (auto simp: usages_within_def)
  have nn: "0 \<le> sum_list (map TotalTokens us)"
    using within.hyps(2) unfolding usages_within_def by (induction us) auto
  have "int64 (bt_wmTokens t + ?W) = bt_wmTokens t + ?W"
    using within.IH w bnd by (intro int64_id) auto
  with within.hyps(3) within.IH w have "bt_totalTokens (accumulate_all t us) < bt_wmTokens t + ?W"
    by (simp add: checkLimits_None_iff)
  with within.IH tot nn show ?case by simp
next
  case (approved t us e t')
  let ?W = "token_window c" and ?k = "bt_approvalCount t"
  have t': "t' = advance (accumulate_all t us)"
    using approved.hyps(5) by (simp add: AdvanceWatermark_def)
  have k: "?k + 1 \<le> max_approvals c"
    using approved.hyps(4) approved.IH by (simp add: ApprovalsExhausted_def)
  have "?k * (?W + m) \<le> max_approvals c * (?W + m)"
    using approved.IH w by (intro mult_right_mono) auto
  then have bnd: "bt_wmTokens t + ?W + m < 2 ^ 63"
    using approved.IH room by (simp add: distrib_right)
  with approved.IH approved.hyps(2) have tot: "bt_totalTokens (accumulate_all t us)
      = bt_totalTokens t + sum_list (map TotalTokens us)"
    by (intro accumulate_all_total) (auto simp: usages_within_def)
  have nn: "0 \<le> sum_list (map TotalTokens us)"
    using approved.hyps(2) unfolding usages_within_def by (induction us) auto
  have m: "sum_list (map TotalTokens us) \<le> m"
    using approved.hyps(2) by (simp add: usages_within_def)
  show ?case using approved.IH k tot nn m w by (simp add: t' distrib_right)
qed


lemma sample_reach: "budget_reach sample_cfg 200
    (advance (accumulate_all (the (NewBudgetTracker (Some sample_cfg))) [tokens_usage 130]))"
proof (rule budget_reach.approved [OF budget_reach.start])
  show "NewBudgetTracker (Some sample_cfg) = Some (the (NewBudgetTracker (Some sample_cfg)))"
    by (simp add: NewBudgetTracker_def)
  show "usages_within 200 [tokens_usage 130]" by (simp add: usages_within_def tokens_usage_def)
  show "checkLimits (accumulate_all (the (NewBudgetTracker (Some sample_cfg))) [tokens_usage 130])
     = Some (BudgetExceededError BudgetKindTokens 130 0 100 0 0 0)"
    by (simp add: checkLimits_def accumulate_def NewBudgetTracker_def sample_defs int64_id Let_def)
qed (simp_all add: ApprovalsExhausted_def NewBudgetTracker_def sample_defs AdvanceWatermark_def)


section \<open>Saving and restoring\<close>

text \<open>Saving a tracker as \<open>Totals\<close> and \<open>WatermarkTotals\<close> and loading the four numbers into a
  fresh tracker with \<open>RestoreState\<close> loses nothing of the accounting, although the costs pass
  through \<open>float64\<close> dollars: for costs up to \<open>2^50\<close> nano-dollars (over a million dollars) the
  restored tracker has the same totals and watermarks and answers \<open>Check\<close> alike.\<close>

theorem restore_roundtrip:
  assumes "NewBudgetTracker (Some (bt_cfg t)) = Some fresh"
    and "bt_maxCostNano t = bt_maxCostNano fresh"
    and "\<bar>bt_totalCostNano t\<bar> \<le> 2 ^ 50" "\<bar>bt_wmCostNano t\<bar> \<le> 2 ^ 50"
  shows "\<exists>r. RestoreState (Some fresh) (fst (Totals (Some t))) (snd (Totals (Some t)))
      (fst (WatermarkTotals (Some t))) (snd (WatermarkTotals (Some t))) = Inr (Some r) \<and>
    Totals (Some r) = Totals (Some t) \<and> WatermarkTotals (Some r) = WatermarkTotals (Some t) \<and>
    bt_Check (Some r) = bt_Check (Some t)"
proof -
  have f: "bt_hasAdded fresh = False" "bt_cfg fresh = bt_cfg t"
    using assms(1) by (auto simp: NewBudgetTracker_def)
  have rt: "round_mul (float_div n nanoUSDPerUSD) nanoUSDPerUSD = n" if "\<bar>n\<bar> \<le> 2 ^ 50" for n
    using that by (intro float_roundtrip) (simp_all add: nanoUSDPerUSD_def)
  show ?thesis
    using f assms by (auto simp: RestoreState_def Totals_def WatermarkTotals_def bt_Check_def rt
        checkLimits_def Let_def)
qed

theorem restore_roundtrip_witness:
  "\<exists>fresh r. NewBudgetTracker (Some sample_cfg) = Some fresh \<and>
    RestoreState (Some fresh) (fst (Totals (Some (sample_tracker 230 130 1))))
      (snd (Totals (Some (sample_tracker 230 130 1))))
      (fst (WatermarkTotals (Some (sample_tracker 230 130 1))))
      (snd (WatermarkTotals (Some (sample_tracker 230 130 1)))) = Inr (Some r) \<and>
    bt_Check (Some r) = bt_Check (Some (sample_tracker 230 130 1)) \<and>
    bt_Check (Some (sample_tracker 230 130 1)) \<noteq> None"
proof -
  obtain fresh where f: "NewBudgetTracker (Some (bt_cfg (sample_tracker 230 130 1))) = Some fresh"
    and m: "bt_maxCostNano fresh = 0"
    by (auto simp: NewBudgetTracker_def sample_cfg_def)
  have "bt_Check (Some (sample_tracker 230 130 1)) \<noteq> None"
    by (simp add: bt_Check_def checkLimits_None_iff sample_defs int64_id)
  with restore_roundtrip [OF f] m f show ?thesis by auto
qed

text \<open>What saving and restoring does lose is the approval count: a tracker that has consumed
  all its approvals is, after the round trip, one with all approvals left.\<close>

theorem restore_forgets_approvals:
  assumes "NewBudgetTracker (Some c) = Some fresh"
    and "RestoreState (Some fresh) tokens cost wmTokens wmCost = Inr (Some r)"
  shows "ApprovalCount (Some r) = 0 \<and> \<not> ApprovalsExhausted (Some r)"
  using assms by (auto simp: NewBudgetTracker_def RestoreState_def ApprovalsExhausted_def
      ApprovalCount_def defaultMaxApprovals_def split: if_splits)

theorem restore_forgets_approvals_witness:
  "ApprovalsExhausted (Some (sample_tracker 230 130 2)) \<and>
   (\<exists>r. RestoreState (NewBudgetTracker (Some sample_cfg)) 230 0 130 0 = Inr (Some r) \<and>
      ApprovalCount (Some r) = 0 \<and> \<not> ApprovalsExhausted (Some r))"
proof -
  obtain fresh where f: "NewBudgetTracker (Some sample_cfg) = Some fresh" by (auto simp: NewBudgetTracker_def)
  obtain r where r: "RestoreState (Some fresh) 230 0 130 0 = Inr (Some r)"
    using f by (auto simp: RestoreState_def NewBudgetTracker_def)
  from restore_forgets_approvals [OF f r] f r show ?thesis
    by (auto simp: ApprovalsExhausted_def sample_tracker_def)
qed

text \<open>The first window of a run is \<open>ApprovalExtraTokens\<close>, not \<open>MaxTokens\<close>: before any approval
  a run under \<open>BudgetWaitForApproval\<close> is stopped for approval exactly when its total reaches
  \<open>ApprovalExtraTokens\<close>, so with a larger extra than maximum it passes \<open>MaxTokens\<close> unasked.\<close>

theorem first_window_is_extra:
  assumes "NewBudgetTracker (Some c) = Some t" "MaxTokens c > 0" "MaxCostUSD c = 0"
    and "0 < ApprovalExtraTokens c" "ApprovalExtraTokens c < 2 ^ 63"
    and "0 \<le> TotalTokens u" "TotalTokens u < 2 ^ 63"
  shows "fst (bt_Add (Some t) (Some u)) = None \<longleftrightarrow> TotalTokens u < ApprovalExtraTokens c"
proof -
  have t: "bt_cfg t = c" "bt_totalTokens t = 0" "bt_wmTokens t = 0"
    using assms(1) by (auto simp: NewBudgetTracker_def)
  have "int64 (TotalTokens u) = TotalTokens u" "int64 (ApprovalExtraTokens c) = ApprovalExtraTokens c"
    using assms by (auto intro: int64_id)
  with assms t show ?thesis
    by (simp add: bt_Add_def Let_def checkLimits_None_iff token_window_def)
       (simp add: accumulate_def)
qed

theorem first_window_is_extra_witness:
  "\<exists>t. NewBudgetTracker (Some (sample_cfg\<lparr>ApprovalExtraTokens := 5000\<rparr>)) = Some t \<and>
    fst (bt_Add (Some t) (Some (tokens_usage 4000))) = None \<and>
    TotalTokens (tokens_usage 4000) > MaxTokens sample_cfg"
proof -
  obtain t where t: "NewBudgetTracker (Some (sample_cfg\<lparr>ApprovalExtraTokens := 5000\<rparr>)) = Some t"
    by (auto simp: NewBudgetTracker_def)
  have "fst (bt_Add (Some t) (Some (tokens_usage 4000))) = None \<longleftrightarrow>
      TotalTokens (tokens_usage 4000) < ApprovalExtraTokens (sample_cfg\<lparr>ApprovalExtraTokens := 5000\<rparr>)"
    by (rule first_window_is_extra [OF t]) (simp_all add: sample_defs)
  with t show ?thesis by (auto simp: sample_defs)
qed

text \<open>Validation is sound and stable: a configuration it returns has a known action, a positive
  token window when tokens are limited, the window \<open>MaxTokens\<close> itself under \<open>BudgetStopRun\<close>,
  and validating it again changes nothing.\<close>

theorem validateBudget_sound:
  assumes "validateBudget (Some b) = Inr (Some b')"
  shows "validateBudget (Some b') = Inr (Some b') \<and>
    budget_action_IsValid (OnExceeded b') \<and>
    (MaxTokens b' > 0 \<longrightarrow> 0 < token_window b') \<and>
    (OnExceeded b' = BudgetStopRun \<longrightarrow> token_window b' = MaxTokens b' \<and> MaxApprovals b' = 0)"
proof -
  have v: "valid_budget b'" by (rule validateBudget_valid [OF assms])
  then have r: "resolved_action b'" and n: "0 \<le> MaxTokens b'" "0 \<le> ApprovalExtraTokens b'"
    by (simp_all add: valid_budget_def valid_budget_signs)
  from v have "validateBudget (Some b') = Inr (Some b')" by (rule valid_validateBudget)
  moreover have "budget_action_IsValid (OnExceeded b')"
    using r by (auto simp: resolved_action_def budget_action_IsValid_def)
  moreover have "MaxTokens b' > 0 \<longrightarrow> 0 < token_window b'"
    using n by (auto simp: token_window_def)
  moreover have "OnExceeded b' = BudgetStopRun \<longrightarrow>
      token_window b' = MaxTokens b' \<and> MaxApprovals b' = 0"
    using r by (auto simp: resolved_action_def token_window_def)
  ultimately show ?thesis by blast
qed

theorem validateBudget_sound_witness:
  "\<exists>b'. validateBudget (Some (sample_cfg\<lparr>ApprovalExtraTokens := 0\<rparr>)) = Inr (Some b') \<and>
    ApprovalExtraTokens b' = 100 \<and> validateBudget (Some b') = Inr (Some b') \<and> 0 < token_window b'"
proof -
  have v: "validateBudget (Some (sample_cfg\<lparr>ApprovalExtraTokens := 0\<rparr>)) = Inr (Some sample_cfg)"
    by (simp add: validateBudget_def sample_cfg_def Let_def budget_limit_error_def
        resolve_on_exceeded_def)
  from validateBudget_sound [OF v] v show ?thesis by (auto simp: sample_defs)
qed

end
