(* ===== verification/Circuit_Breaker.thy ===== *)
theory Circuit_Breaker
  imports Core_Types
begin

text \<open>
  The per-tool circuit breaker of \<open>internal/runtime/base/circuit_breaker.go\<close>. The digest of a
  tool call's arguments goes through \<open>encoding/json\<close> and SHA-256: \<open>marshal\<close> (\<open>None\<close> when the
  arguments cannot be marshalled) and \<open>sha256hex\<close> are arguments of \<open>HashToolArgs\<close>, and the
  breaker works on the digests \<open>h\<close> it yields. Times are nanoseconds since the Unix epoch,
  \<open>None\<close> for Go's zero time. A nil breaker is \<open>None\<close>.
\<close>

definition CircuitBreakerSkippedMessage :: "string \<Rightarrow> string" where
  "CircuitBreakerSkippedMessage name =
    ''Circuit breaker skipped tool '' @ Quote name @ '' after repeated failures.''"

definition HashToolArgs ::
    "(go_any \<Rightarrow> string option) \<Rightarrow> (string \<Rightarrow> string) \<Rightarrow> go_args \<Rightarrow> string" where
  "HashToolArgs marshal sha256hex args =
    (let a = (case args of None \<Rightarrow> [] | Some xs \<Rightarrow> xs)
     in case marshal (AObj a) of None \<Rightarrow> '''' | Some b \<Rightarrow> sha256hex b)"

definition CountsTowardCircuitBreaker :: "bool \<Rightarrow> string \<Rightarrow> bool" where
  "CountsTowardCircuitBreaker unknown kind \<longleftrightarrow> \<not> unknown \<and> CountsTowardToolTelemetry kind"

section \<open>State\<close>

record cb_config =
  MaxConsecutiveSameArgs :: int
  PatternWindowSize :: int
  ResetAfter :: int

record cb_tool =
  LastHash :: string
  Consecutive :: int
  Window :: "string list"
  Tripped :: bool
  TrippedAt :: int

type_synonym cb_tools = "string \<rightharpoonup> cb_tool"

record circuit_breaker =
  cb_cfg :: cb_config
  cb_tools :: cb_tools

definition empty_tool :: cb_tool where
  "empty_tool = \<lparr>LastHash = '''', Consecutive = 0, Window = [], Tripped = False, TrippedAt = 0\<rparr>"

text \<open>\<open>c.state.Tools[name]\<close>: the zero value for a missing key.\<close>

definition tool_state :: "cb_tools \<Rightarrow> string \<Rightarrow> cb_tool" where
  "tool_state m name = (case m name of None \<Rightarrow> empty_tool | Some st \<Rightarrow> st)"

definition NewCircuitBreaker :: "cb_config option option \<Rightarrow> circuit_breaker option" where
  "NewCircuitBreaker cfg = (case cfg of
      None \<Rightarrow> None
    | Some None \<Rightarrow> None
    | Some (Some cb) \<Rightarrow>
        if MaxConsecutiveSameArgs cb \<le> 0 \<and> PatternWindowSize cb < 4 then None
        else Some \<lparr>cb_cfg = cb, cb_tools = Map.empty\<rparr>)"

definition cb_enabled :: "circuit_breaker option \<Rightarrow> bool" where
  "cb_enabled c = (case c of None \<Rightarrow> False
     | Some b \<Rightarrow> MaxConsecutiveSameArgs (cb_cfg b) > 0 \<or> PatternWindowSize (cb_cfg b) \<ge> 4)"

text \<open>A persisted state; \<open>None\<close> is the nil map.\<close>

definition cb_State :: "circuit_breaker option \<Rightarrow> cb_tools option" where
  "cb_State c = (case c of None \<Rightarrow> None | Some b \<Rightarrow> Some (cb_tools b))"

definition cb_Restore :: "circuit_breaker option \<Rightarrow> cb_tools option \<Rightarrow> circuit_breaker option" where
  "cb_Restore c state = (case c of None \<Rightarrow> None
     | Some b \<Rightarrow> (case state of None \<Rightarrow> Some (b\<lparr>cb_tools := Map.empty\<rparr>)
                | Some m \<Rightarrow> Some (b\<lparr>cb_tools := m\<rparr>)))"

definition NewCircuitBreakerFromState ::
    "cb_config option option \<Rightarrow> cb_tools option \<Rightarrow> circuit_breaker option" where
  "NewCircuitBreakerFromState cfg state = (case NewCircuitBreaker cfg of None \<Rightarrow> None
     | Some cb \<Rightarrow> cb_Restore (Some cb) state)"

definition cb_clear :: "circuit_breaker \<Rightarrow> string \<Rightarrow> circuit_breaker" where
  "cb_clear b name = b\<lparr>cb_tools := (cb_tools b)(name := None)\<rparr>"

definition IsTripped :: "circuit_breaker option \<Rightarrow> string \<Rightarrow> int option \<Rightarrow>
    bool \<times> circuit_breaker option" where
  "IsTripped c name now =
    (if \<not> cb_enabled c then (False, c) else case c of None \<Rightarrow> (False, None) | Some b \<Rightarrow>
      (case cb_tools b name of
         None \<Rightarrow> (False, c)
       | Some st \<Rightarrow>
           if \<not> Tripped st then (False, c)
           else (case now of
               Some n \<Rightarrow>
                 if ResetAfter (cb_cfg b) > 0 \<and> TrippedAt st > 0 \<and>
                    n - TrippedAt st \<ge> ResetAfter (cb_cfg b)
                 then (False, Some (cb_clear b name)) else (True, c)
             | None \<Rightarrow> (True, c))))"

definition isAlternating :: "string list \<Rightarrow> bool" where
  "isAlternating window =
    (if length window < 4 \<or> length window mod 2 \<noteq> 0 then False
     else let a = window ! 0; b = window ! 1
          in if a = '''' \<or> b = '''' \<or> a = b then False
             else list_all (\<lambda>i. window ! i = (if i mod 2 = 1 then b else a))
                    [0..<length window])"

definition shouldTrip :: "cb_config \<Rightarrow> cb_tool \<Rightarrow> bool" where
  "shouldTrip cfg st \<longleftrightarrow>
    (MaxConsecutiveSameArgs cfg > 0 \<and> Consecutive st \<ge> MaxConsecutiveSameArgs cfg) \<or>
    (PatternWindowSize cfg \<ge> 4 \<and> int (length (Window st)) \<ge> PatternWindowSize cfg \<and>
     isAlternating (Window st))"

text \<open>One failure with digest \<open>h\<close> at Unix time \<open>now\<close>, on the tool's own state.\<close>

definition record_hash :: "cb_tool \<Rightarrow> string \<Rightarrow> cb_tool" where
  "record_hash st h =
    (if h \<noteq> '''' \<and> h = LastHash st then st\<lparr>Consecutive := Consecutive st + 1\<rparr>
     else st\<lparr>LastHash := h, Consecutive := 1\<rparr>)"

definition push_window :: "cb_config \<Rightarrow> cb_tool \<Rightarrow> string \<Rightarrow> cb_tool" where
  "push_window cfg st h =
    (if h \<noteq> '''' \<and> PatternWindowSize cfg \<ge> 4
     then st\<lparr>Window := keep_last (nat (PatternWindowSize cfg)) (Window st @ [h])\<rparr> else st)"

definition RecordFailure :: "circuit_breaker option \<Rightarrow> string \<Rightarrow> string \<Rightarrow> int \<Rightarrow>
    bool \<times> circuit_breaker option" where
  "RecordFailure c name h now =
    (if \<not> cb_enabled c then (False, c) else case c of None \<Rightarrow> (False, None) | Some b \<Rightarrow>
      let st = tool_state (cb_tools b) name in
      if Tripped st then (True, Some (b\<lparr>cb_tools := (cb_tools b)(name \<mapsto> st)\<rparr>))
      else
        let st1 = push_window (cb_cfg b) (record_hash st h) h;
            st2 = (if shouldTrip (cb_cfg b) st1
                   then st1\<lparr>Tripped := True, TrippedAt := now\<rparr> else st1)
        in (Tripped st2, Some (b\<lparr>cb_tools := (cb_tools b)(name \<mapsto> st2)\<rparr>)))"

definition RecordSuccess :: "circuit_breaker option \<Rightarrow> string \<Rightarrow> circuit_breaker option" where
  "RecordSuccess c name =
    (if \<not> cb_enabled c then c else case c of None \<Rightarrow> None | Some b \<Rightarrow>
      let st = tool_state (cb_tools b) name in
      if Tripped st then c
      else Some (b\<lparr>cb_tools := (cb_tools b)(name \<mapsto>
             st\<lparr>LastHash := '''', Consecutive := 0, Window := []\<rparr>)\<rparr>))"

definition ApplyToolCircuitResult :: "circuit_breaker option \<Rightarrow> bool \<Rightarrow> string \<Rightarrow> string \<Rightarrow>
    string \<Rightarrow> bool \<Rightarrow> int \<Rightarrow> circuit_breaker option" where
  "ApplyToolCircuitResult c unknown kind name h failed now =
    (if c = None \<or> \<not> CountsTowardCircuitBreaker unknown kind then c
     else if failed then snd (RecordFailure c name h now)
     else RecordSuccess c name)"

section \<open>Alternating windows\<close>

lemma alternating_nth:
  "i < 2 * n \<Longrightarrow> concat (replicate n [a, b]) ! i = (if i mod 2 = 1 then b else a)"
proof (induction n arbitrary: i)
  case (Suc n)
  show ?case
  proof (cases "i < 2")
    case True
    then show ?thesis by (cases i) auto
  next
    case False
    with Suc.prems have "i - 2 < 2 * n" by simp
    note Suc.IH [OF this]
    moreover have "i mod 2 = (i - 2) mod 2" using False by (simp add: mod_if)
    ultimately show ?thesis using False by (simp add: nth_append numeral_2_eq_2)
  qed
qed simp

lemma length_pairs [simp]: "length (concat (replicate n [a, b])) = 2 * n"
  by (induction n) auto

text \<open>The A-B-A-B test of the code is exactly repetition: a window passes \<open>isAlternating\<close> if
  and only if it is some pair of distinct non-empty digests written down at least twice.\<close>

theorem isAlternating_iff: "isAlternating w \<longleftrightarrow>
    (\<exists>a b n. w = concat (replicate n [a, b]) \<and> 2 \<le> n \<and> a \<noteq> '''' \<and> b \<noteq> '''' \<and> a \<noteq> b)"
proof
  assume alt: "isAlternating w"
  define a b n where "a = w ! 0" and "b = w ! 1" and "n = length w div 2"
  from alt have len: "length w = 2 * n" and n: "2 \<le> n"
    by (auto simp: isAlternating_def n_def split: if_splits)
  from alt have ab: "a \<noteq> ''''" "b \<noteq> ''''" "a \<noteq> b"
    by (auto simp: isAlternating_def a_def b_def Let_def split: if_splits)
  from alt have "list_all (\<lambda>i. w ! i = (if i mod 2 = 1 then b else a)) [0..<length w]"
    unfolding isAlternating_def Let_def a_def b_def by (metis (no_types, lifting))
  then have all: "w ! i = (if i mod 2 = 1 then b else a)" if "i < 2 * n" for i
    using that by (simp add: list_all_iff len)
have "w = concat (replicate n [a, b])"
    by (rule nth_equalityI) (simp_all only: len length_pairs all alternating_nth)
  with n ab show "\<exists>a b n. w = concat (replicate n [a, b]) \<and> 2 \<le> n \<and> a \<noteq> '''' \<and> b \<noteq> '''' \<and> a \<noteq> b"
    by blast
next
  assume "\<exists>a b n. w = concat (replicate n [a, b]) \<and> 2 \<le> n \<and> a \<noteq> '''' \<and> b \<noteq> '''' \<and> a \<noteq> b"
  then obtain a b n where w: "w = concat (replicate n [a, b])" and n: "2 \<le> n"
    and ab: "a \<noteq> ''''" "b \<noteq> ''''" "a \<noteq> b" by blast
  from n have "w ! 0 = a" "w ! 1 = b" by (simp_all add: w alternating_nth)
  with n ab show "isAlternating w"
    by (simp add: isAlternating_def list_all_iff) (simp add: w alternating_nth)
qed

section \<open>Invariant\<close>

text \<open>
  Every tool's state: the window fits, digests in it are non-empty, and a state that should
  have tripped has.
\<close>

definition cb_tool_inv :: "cb_config \<Rightarrow> cb_tool \<Rightarrow> bool" where
  "cb_tool_inv cfg st \<longleftrightarrow>
    int (length (Window st)) \<le> max 0 (PatternWindowSize cfg) \<and> '''' \<notin> set (Window st) \<and>
    0 \<le> Consecutive st \<and> (\<not> Tripped st \<longrightarrow> \<not> shouldTrip cfg st)"

definition cb_inv :: "circuit_breaker option \<Rightarrow> bool" where
  "cb_inv c \<longleftrightarrow> (case c of None \<Rightarrow> True | Some b \<Rightarrow>
     cb_enabled c \<and> (\<forall>name st. cb_tools b name = Some st \<longrightarrow> cb_tool_inv (cb_cfg b) st))"

lemma cb_tool_inv_empty [simp]: "cb_tool_inv cfg empty_tool"
  by (simp add: cb_tool_inv_def empty_tool_def shouldTrip_def)

lemma cb_inv_tool: "cb_inv (Some b) \<Longrightarrow> cb_tool_inv (cb_cfg b) (tool_state (cb_tools b) name)"
  by (auto simp: cb_inv_def tool_state_def split: option.splits)

lemma cb_inv_update: "cb_inv (Some b) \<Longrightarrow> cb_tool_inv (cb_cfg b) st \<Longrightarrow>
    cb_inv (Some (b\<lparr>cb_tools := (cb_tools b)(name \<mapsto> st)\<rparr>))"
  by (auto simp: cb_inv_def cb_enabled_def)

lemma cb_inv_New [component_inv]: "cb_inv (NewCircuitBreaker cfg)"
  by (auto simp: NewCircuitBreaker_def cb_inv_def cb_enabled_def split: option.splits)

lemma cb_inv_clear: "cb_inv (Some b) \<Longrightarrow> cb_inv (Some (cb_clear b name))"
  by (auto simp: cb_inv_def cb_clear_def cb_enabled_def)

lemma cb_inv_IsTripped [component_inv]: "cb_inv c \<Longrightarrow> cb_inv (snd (IsTripped c name now))"
  by (auto simp: IsTripped_def cb_inv_clear split: option.splits)

lemma push_record_inv:
  fixes h assumes "cb_tool_inv cfg st"
  defines "st1 \<equiv> push_window cfg (record_hash st h) h"
  shows "int (length (Window st1)) \<le> max 0 (PatternWindowSize cfg) \<and> '''' \<notin> set (Window st1) \<and>
    0 \<le> Consecutive st1 \<and> Tripped st1 = Tripped st"
  using assms(1) set_keep_last [of "nat (PatternWindowSize cfg)" "Window st @ [h]"]
  unfolding st1_def
  by (auto simp: cb_tool_inv_def push_window_def record_hash_def)

lemma cb_inv_RecordFailure [component_inv]: "cb_inv c \<Longrightarrow> cb_inv (snd (RecordFailure c name h now))"
proof (cases c)
  case (Some b)
  assume inv: "cb_inv c"
  let ?st = "tool_state (cb_tools b) name"
  have I: "cb_tool_inv (cb_cfg b) ?st" using inv Some by (simp add: cb_inv_tool)
  show ?thesis
  proof (cases "Tripped ?st")
    case True
    then show ?thesis using I inv Some
      by (simp add: RecordFailure_def Let_def cb_inv_update)
  next
    case False
    show ?thesis using push_record_inv [OF I, of h] inv Some False
      by (auto simp: RecordFailure_def Let_def cb_tool_inv_def intro!: cb_inv_update)
  qed
qed (simp add: RecordFailure_def)

lemma cb_inv_RecordSuccess [component_inv]: "cb_inv c \<Longrightarrow> cb_inv (RecordSuccess c name)"
  by (cases c) (auto simp: RecordSuccess_def Let_def cb_tool_inv_def shouldTrip_def
      isAlternating_def intro!: cb_inv_update)



section \<open>When a tool trips, and until when\<close>

text \<open>\<open>n\<close> failures in a row of one tool with the same arguments.\<close>

definition repeat_failures :: "nat \<Rightarrow> string \<Rightarrow> string \<Rightarrow> int \<Rightarrow> circuit_breaker option \<Rightarrow>
    circuit_breaker option" where
  "repeat_failures n name h now c = ((\<lambda>c. snd (RecordFailure c name h now)) ^^ n) c"

lemma isAlternating_same: "\<not> isAlternating (replicate n h)"
proof
  assume "isAlternating (replicate n h)"
  moreover from this have "4 \<le> n" by (simp add: isAlternating_def split: if_splits)
  ultimately show False by (simp add: isAlternating_def Let_def split: if_splits)
qed

definition repeated_tool :: "cb_config \<Rightarrow> nat \<Rightarrow> string \<Rightarrow> cb_tool" where
  "repeated_tool cfg n h = \<lparr>LastHash = h, Consecutive = int n,
     Window = (if PatternWindowSize cfg \<ge> 4 then replicate (min n (nat (PatternWindowSize cfg))) h
               else []), Tripped = False, TrippedAt = 0\<rparr>"

lemma keep_last_replicate: "keep_last k (replicate m h @ [h]) = replicate (min k (Suc m)) h"
  by (simp add: keep_last_def replicate_append_same flip: replicate_Suc)

lemma repeated_tool_step:
  assumes "h \<noteq> ''''"
  shows "push_window cfg (record_hash (repeated_tool cfg n h) h) h = repeated_tool cfg (Suc n) h"
  using assms
  by (simp add: push_window_def record_hash_def repeated_tool_def keep_last_replicate min_def)

lemma shouldTrip_repeated: "shouldTrip cfg (repeated_tool cfg n h) \<longleftrightarrow>
    MaxConsecutiveSameArgs cfg > 0 \<and> int n \<ge> MaxConsecutiveSameArgs cfg"
  by (auto simp: shouldTrip_def repeated_tool_def isAlternating_same)

lemma RecordFailure_untripped:
  assumes "cb_enabled (Some b)" "\<not> Tripped (tool_state (cb_tools b) name)"
    and "push_window (cb_cfg b) (record_hash (tool_state (cb_tools b) name) h) h = st"
    and "\<not> Tripped st"
  shows "RecordFailure (Some b) name h now =
    (if shouldTrip (cb_cfg b) st
     then (True, Some (b\<lparr>cb_tools := (cb_tools b)(name \<mapsto> st\<lparr>Tripped := True, TrippedAt := now\<rparr>)\<rparr>))
     else (False, Some (b\<lparr>cb_tools := (cb_tools b)(name \<mapsto> st)\<rparr>)))"
  using assms by (simp add: RecordFailure_def Let_def)

lemma repeated_tool_first:
  "h \<noteq> '''' \<Longrightarrow> push_window cfg (record_hash empty_tool h) h = repeated_tool cfg (Suc 0) h"
  by (auto simp: push_window_def record_hash_def repeated_tool_def empty_tool_def
      keep_last_def min_def)

lemma repeated_tool_untripped [simp]: "\<not> Tripped (repeated_tool cfg n h)" "\<not> Tripped empty_tool"
  by (simp_all add: repeated_tool_def empty_tool_def)

definition after_failures :: "circuit_breaker \<Rightarrow> string \<Rightarrow> string \<Rightarrow> nat \<Rightarrow> circuit_breaker" where
  "after_failures b name h n =
    b\<lparr>cb_tools := (if n = 0 then Map.empty else [name \<mapsto> repeated_tool (cb_cfg b) n h])\<rparr>"

lemma tool_state_after: "h \<noteq> '''' \<Longrightarrow> push_window (cb_cfg b)
    (record_hash (tool_state (cb_tools (after_failures b name h n)) name) h) h =
    repeated_tool (cb_cfg b) (Suc n) h"
  by (simp add: after_failures_def tool_state_def repeated_tool_first repeated_tool_step)

lemma tool_state_after_untripped: "\<not> Tripped (tool_state (cb_tools (after_failures b name h n)) name)"
  by (simp add: after_failures_def tool_state_def)

lemma after_failures_frame [simp]: "cb_cfg (after_failures b name h n) = cb_cfg b"
  by (simp add: after_failures_def)

lemma after_failures_step:
  assumes "h \<noteq> ''''" "0 < MaxConsecutiveSameArgs (cb_cfg b)"
  shows "RecordFailure (Some (after_failures b name h n)) name h now =
    (if int (Suc n) \<ge> MaxConsecutiveSameArgs (cb_cfg b)
     then (True, Some ((after_failures b name h n)\<lparr>cb_tools := (cb_tools (after_failures b name h n))
       (name \<mapsto> (repeated_tool (cb_cfg b) (Suc n) h)\<lparr>Tripped := True, TrippedAt := now\<rparr>)\<rparr>))
     else (False, Some (after_failures b name h (Suc n))))"
proof -
  have en: "cb_enabled (Some (after_failures b name h n))" using assms(2) by (simp add: cb_enabled_def)
  have upd: "(after_failures b name h n)\<lparr>cb_tools := (cb_tools (after_failures b name h n))
      (name \<mapsto> repeated_tool (cb_cfg b) (Suc n) h)\<rparr> = after_failures b name h (Suc n)"
    by (simp add: after_failures_def)
  have p: "push_window (cb_cfg (after_failures b name h n))
    (record_hash (tool_state (cb_tools (after_failures b name h n)) name) h) h =
    repeated_tool (cb_cfg b) (Suc n) h"
    by (simp only: after_failures_frame tool_state_after [OF assms(1)])
  show ?thesis
    unfolding RecordFailure_untripped [OF en tool_state_after_untripped p repeated_tool_untripped(1)]
    using assms(2) by (simp only: after_failures_frame shouldTrip_repeated upd) simp
qed

lemma IsTripped_tripped:
  assumes "cb_tools b name = Some st" "Tripped st" "cb_enabled (Some b)"
  shows "IsTripped (Some b) name None = (True, Some b)"
  using assms by (simp add: IsTripped_def)

lemma repeat_failures_below:
  assumes "NewCircuitBreaker cfg = Some b" "h \<noteq> ''''" and N: "int n < MaxConsecutiveSameArgs (cb_cfg b)"
  shows "repeat_failures n name h now (Some b) = Some (after_failures b name h n)"
  using N
proof (induction n)
  case 0
  have "cb_tools b = Map.empty"
    using assms(1) by (auto simp: NewCircuitBreaker_def split: option.splits if_splits)
  then show ?case by (simp add: repeat_failures_def after_failures_def)
next
  case (Suc n)
    then have "RecordFailure (Some (after_failures b name h n)) name h now =
      (False, Some (after_failures b name h (Suc n)))"
    using after_failures_step [OF assms(2), of b name n now] by simp
  with Suc show ?case by (simp add: repeat_failures_def)
qed

lemma tripped_stays:
  assumes "cb_tools b name = Some st" "Tripped st" "cb_enabled (Some b)"
  shows "RecordFailure (Some b) name h now = (True, Some b)" "RecordSuccess (Some b) name = Some b"
  using assms by (auto simp: RecordFailure_def RecordSuccess_def tool_state_def map_upd_triv Let_def)

text \<open>The same-arguments threshold is exact: in a fresh breaker with
  \<open>MaxConsecutiveSameArgs = N > 0\<close>, whatever the pattern window, \<open>n\<close> failures of a tool with the
  same arguments leave it skipped if and only if \<open>n \<ge> N\<close>.\<close>

theorem trips_at_threshold:
  assumes "NewCircuitBreaker cfg = Some b" "h \<noteq> ''''" "0 < MaxConsecutiveSameArgs (cb_cfg b)"
  shows "fst (IsTripped (repeat_failures n name h now (Some b)) name None) \<longleftrightarrow>
    int n \<ge> MaxConsecutiveSameArgs (cb_cfg b)"
proof -
  define N where "N = nat (MaxConsecutiveSameArgs (cb_cfg b))"
  have N: "int N = MaxConsecutiveSameArgs (cb_cfg b)" "0 < N" using assms(3) by (simp_all add: N_def)
  have below: "\<not> fst (IsTripped (repeat_failures n name h now (Some b)) name None)" if "n < N"
    using that repeat_failures_below [OF assms(1,2), of n name now] N(1)
    by (simp add: IsTripped_def after_failures_def cb_enabled_def)
  obtain M where M: "N = Suc M" using N(2) by (cases N) auto
    define B where "B = (after_failures b name h M)\<lparr>cb_tools :=
      (cb_tools (after_failures b name h M))
      (name \<mapsto> (repeated_tool (cb_cfg b) N h)\<lparr>Tripped := True, TrippedAt := now\<rparr>)\<rparr>"
  have en: "cb_enabled (Some B)"
    using assms(3) by (simp add: B_def cb_enabled_def)
  obtain st where st: "cb_tools B name = Some st" "Tripped st" by (simp add: B_def)
  have "RecordFailure (Some (after_failures b name h M)) name h now = (True, Some B)"
    unfolding B_def after_failures_step [OF assms(2,3)] using N(1) M by simp
  then have at: "repeat_failures N name h now (Some b) = Some B"
    using repeat_failures_below [OF assms(1,2), of M name now] N(1) M
    by (simp add: repeat_failures_def)
  have "repeat_failures (N + k) name h now (Some b) = Some B" for k
    by (induction k) (use at tripped_stays(1) [OF st en] in \<open>simp_all add: repeat_failures_def\<close>)
  then have above: "fst (IsTripped (repeat_failures n name h now (Some b)) name None)" if "N \<le> n"
    using that IsTripped_tripped [OF st en] by (metis fst_conv le_add_diff_inverse)
  from below above N(1) show ?thesis by (metis not_le nat_le_iff of_nat_le_iff)
qed

theorem trips_at_threshold_witness:
  "\<exists>b. NewCircuitBreaker (Some (Some \<lparr>MaxConsecutiveSameArgs = 3, PatternWindowSize = 4,
      ResetAfter = 0\<rparr>)) = Some b \<and>
    \<not> fst (IsTripped (repeat_failures 2 ''search'' ''d1'' 7 (Some b)) ''search'' None) \<and>
    fst (IsTripped (repeat_failures 3 ''search'' ''d1'' 7 (Some b)) ''search'' None)"
proof -
  let ?c = "\<lparr>MaxConsecutiveSameArgs = 3, PatternWindowSize = 4, ResetAfter = 0\<rparr>"
  have n: "NewCircuitBreaker (Some (Some ?c)) = Some \<lparr>cb_cfg = ?c, cb_tools = Map.empty\<rparr>"
    by (simp add: NewCircuitBreaker_def)
  show ?thesis using trips_at_threshold [OF n, of "''d1''" _ "''search''" 7] n by simp
qed

definition record_all :: "(bool \<times> string \<times> string \<times> string \<times> bool \<times> int) list \<Rightarrow>
    circuit_breaker option \<Rightarrow> circuit_breaker option" where
  "record_all rs c = fold (\<lambda>(unknown, kind, name, h, failed, now) c.
     ApplyToolCircuitResult c unknown kind name h failed now) rs c"

lemma apply_keeps_trip:
  assumes "cb_tools b name = Some st" "Tripped st" "cb_enabled (Some b)"
  shows "\<exists>b'. ApplyToolCircuitResult (Some b) u k n h f t = Some b' \<and> cb_tools b' name = Some st \<and>
    cb_cfg b' = cb_cfg b"
proof (cases "n = name")
  case True
  with assms tripped_stays [OF assms] show ?thesis by (auto simp: ApplyToolCircuitResult_def)
next
  case False
  with assms show ?thesis
    by (auto simp: ApplyToolCircuitResult_def RecordFailure_def RecordSuccess_def Let_def)
qed

lemma record_all_keeps_trip:
  assumes "cb_tools b name = Some st" "Tripped st" "cb_enabled (Some b)"
  shows "\<exists>b'. record_all rs (Some b) = Some b' \<and> cb_tools b' name = Some st \<and> cb_cfg b' = cb_cfg b"
  using assms
proof (induction rs arbitrary: b)
  case (Cons x rs)
  obtain u k n h f t where x: "x = (u, k, n, h, f, t)" by (metis prod_cases6)
  obtain b1 where b1: "ApplyToolCircuitResult (Some b) u k n h f t = Some b1"
    "cb_tools b1 name = Some st" "cb_cfg b1 = cb_cfg b"
    using apply_keeps_trip [OF Cons.prems] by blast
  with Cons.prems have "cb_enabled (Some b1)" by (simp add: cb_enabled_def)
  from Cons.IH [OF b1(2) Cons.prems(2) this] b1 show ?case by (simp add: record_all_def x)
qed (simp add: record_all_def)

text \<open>A trip outlasts every later result: once a tool is tripped, any sequence of recorded
  successes and failures, of this tool and of others, leaves it skipped, until \<open>ResetAfter\<close>
  (when positive) has passed since the trip, and only a query at such a time clears it.\<close>

theorem trip_lasts:
  assumes "cb_tools b name = Some st" "Tripped st" "cb_enabled (Some b)"
  shows "fst (IsTripped (record_all rs (Some b)) name (Some now)) \<longleftrightarrow>
    \<not> (ResetAfter (cb_cfg b) > 0 \<and> TrippedAt st > 0 \<and> now - TrippedAt st \<ge> ResetAfter (cb_cfg b))"
proof -
  obtain b' where b': "record_all rs (Some b) = Some b'" "cb_tools b' name = Some st"
    "cb_cfg b' = cb_cfg b"
    using record_all_keeps_trip [OF assms] by blast
  with assms have "cb_enabled (Some b')" by (simp add: cb_enabled_def)
  with b' assms(2) show ?thesis by (simp add: IsTripped_def)
qed

theorem trip_lasts_witness:
  "\<exists>b st. cb_tools b ''search'' = Some st \<and> Tripped st \<and> cb_enabled (Some b) \<and>
    fst (IsTripped (record_all [(False, ToolKindNative, ''search'', ''d'', False, 60)] (Some b))
      ''search'' (Some 140)) \<and>
    \<not> fst (IsTripped (record_all [(False, ToolKindNative, ''search'', ''d'', False, 60)] (Some b))
      ''search'' (Some 150))"
proof -
  let ?st = "empty_tool\<lparr>Tripped := True, TrippedAt := 50\<rparr>"
  let ?b = "\<lparr>cb_cfg = \<lparr>MaxConsecutiveSameArgs = 2, PatternWindowSize = 0, ResetAfter = 100\<rparr>,
      cb_tools = [''search'' \<mapsto> ?st]\<rparr>"
  have p: "cb_tools ?b ''search'' = Some ?st" "Tripped ?st" "cb_enabled (Some ?b)"
    by (simp_all add: cb_enabled_def)
  from trip_lasts [OF p] p show ?thesis by (intro exI [of _ ?b] exI [of _ ?st]) simp
qed

end
