(* ===== verification/Effects.thy ===== *)
theory Effects
  imports Budget Circuit_Breaker "HOL-Library.State_Monad"
begin

text \<open>
  The effects of a run. Code that acts on the outside world is a computation of the library's
  state monad over a \<open>world\<close>: an abstract part \<open>w_ext\<close>, read and changed by everything that is
  a parameter of the model (LLM clients, tools, hooks, stores, the clock), and the parts the
  runtime itself writes: the published events, the incremented metric counters, the budget
  tracker that a run shares with its sub-agents (\<open>None\<close> is the nil tracker), and the circuit
  breakers allocated so far, which are addressed by their number (\<open>None\<close> is the nil breaker).
  Logs, spans, histograms and latencies are not modelled.

  The theory also holds the AG-UI events of \<open>internal/events\<close> and the Hoare-style rules by which
  the component theories follow state changes through a computation.
\<close>

section \<open>Events\<close>

datatype custom_value =
    ToolApprovalValue (av_AgentName: string) (av_ToolCallID: string) (av_ToolName: string)
      (av_ToolDisplayName: string) (av_Args: go_args) (av_ApprovalToken: string)
  | DelegationValue (av_AgentName: string) (dv_SubAgentName: string) (av_Args: go_args)
      (av_ApprovalToken: string)
  | BudgetValue (av_AgentName: string) (bv_Detail: string) (bv_TotalTokens: int)
      (bv_CostUSD: rat) (av_ApprovalToken: string)

datatype agent_event =
    TextMessageStart (ev_MessageID: string) (ev_Role: string)
  | TextMessageContent (ev_MessageID: string) (ev_Delta: string)
  | TextMessageEnd (ev_MessageID: string)
  | ReasoningStart (ev_MessageID: string)
  | ReasoningMessageStart (ev_MessageID: string) (ev_Role: string)
  | ReasoningMessageContent (ev_MessageID: string) (ev_Delta: string)
  | ReasoningMessageEnd (ev_MessageID: string)
  | ReasoningEnd (ev_MessageID: string)
  | ToolCallStart (ev_ToolCallID: string) (ev_ToolCallName: string) (ev_ParentMessageID: string)
  | ToolCallArgs (ev_ToolCallID: string) (ev_Delta: string)
  | ToolCallEnd (ev_ToolCallID: string)
  | ToolCallResult (ev_MessageID: string) (ev_ToolCallID: string) (ev_Content: string)
      (ev_Role: string)
  | StepStarted (ev_StepName: string)
  | StepFinished (ev_StepName: string)
  | CustomEvent (ev_Name: string) (ev_Value: custom_value)

fun event_Type :: "agent_event \<Rightarrow> string" where
  "event_Type (TextMessageStart m r) = ''TEXT_MESSAGE_START''"
| "event_Type (TextMessageContent m d) = ''TEXT_MESSAGE_CONTENT''"
| "event_Type (TextMessageEnd m) = ''TEXT_MESSAGE_END''"
| "event_Type (ReasoningStart m) = ''REASONING_START''"
| "event_Type (ReasoningMessageStart m r) = ''REASONING_MESSAGE_START''"
| "event_Type (ReasoningMessageContent m d) = ''REASONING_MESSAGE_CONTENT''"
| "event_Type (ReasoningMessageEnd m) = ''REASONING_MESSAGE_END''"
| "event_Type (ReasoningEnd m) = ''REASONING_END''"
| "event_Type (ToolCallStart i n p) = ''TOOL_CALL_START''"
| "event_Type (ToolCallArgs i d) = ''TOOL_CALL_ARGS''"
| "event_Type (ToolCallEnd i) = ''TOOL_CALL_END''"
| "event_Type (ToolCallResult m i c r) = ''TOOL_CALL_RESULT''"
| "event_Type (StepStarted n) = ''STEP_STARTED''"
| "event_Type (StepFinished n) = ''STEP_FINISHED''"
| "event_Type (CustomEvent n v) = ''CUSTOM''"

definition AgentEventAll :: string where "AgentEventAll = ''*''"

text \<open>The wire names: no two kinds of event share a type.\<close>

definition CustomNameToolApproval :: string where "CustomNameToolApproval = ''tool_approval''"
definition CustomNameSubAgentDelegation :: string where
  "CustomNameSubAgentDelegation = ''sub_agent_delegation''"
definition CustomNameBudget :: string where "CustomNameBudget = ''budget_approval''"

section \<open>The world\<close>

record 'w world =
  w_ext :: 'w
  w_events :: "(string \<times> agent_event) list"
  w_counters :: "(string \<times> string list) list"
  w_tracker :: "budget_tracker option"
  w_breakers :: "circuit_breaker list"

definition new_world :: "'w \<Rightarrow> 'w world" where
  "new_world w = \<lparr>w_ext = w, w_events = [], w_counters = [], w_tracker = None, w_breakers = []\<rparr>"

type_synonym ('w, 'a) io = "('w world, 'a) state"

text \<open>An external operation sees and changes only the external part.\<close>

definition ext :: "('w, 'a) state \<Rightarrow> ('w, 'a) io" where
  "ext m = State (\<lambda>s. case run_state m (w_ext s) of (a, w) \<Rightarrow> (a, s\<lparr>w_ext := w\<rparr>))"

definition IncrementCounter :: "string \<Rightarrow> string list \<Rightarrow> ('w, unit) io" where
  "IncrementCounter name attrs =
    State (\<lambda>s. ((), s\<lparr>w_counters := w_counters s @ [(name, attrs)]\<rparr>))"

definition emit_to :: "string \<Rightarrow> agent_event \<Rightarrow> ('w, unit) io" where
  "emit_to ch ev = State (\<lambda>s. ((), s\<lparr>w_events := w_events s @ [(ch, ev)]\<rparr>))"

lemma run_ext [simp]: "run_state (ext m) s =
    (case run_state m (w_ext s) of (a, w) \<Rightarrow> (a, s\<lparr>w_ext := w\<rparr>))"
  by (simp add: ext_def)

lemma run_IncrementCounter [simp]: "run_state (IncrementCounter n as) s =
    ((), s\<lparr>w_counters := w_counters s @ [(n, as)]\<rparr>)"
  by (simp add: IncrementCounter_def)

lemma run_emit_to [simp]: "run_state (emit_to ch ev) s =
    ((), s\<lparr>w_events := w_events s @ [(ch, ev)]\<rparr>)"
  by (simp add: emit_to_def)

text \<open>Access to the shared tracker and to a breaker.\<close>

definition read_tracker :: "('w, budget_tracker option) io" where
  "read_tracker = State (\<lambda>s. (w_tracker s, s))"

definition write_tracker :: "budget_tracker option \<Rightarrow> ('w, unit) io" where
  "write_tracker t = State (\<lambda>s. ((), s\<lparr>w_tracker := t\<rparr>))"

definition breaker_at :: "'w world \<Rightarrow> nat option \<Rightarrow> circuit_breaker option" where
  "breaker_at s r = (case r of None \<Rightarrow> None
     | Some n \<Rightarrow> if n < length (w_breakers s) then Some (w_breakers s ! n) else None)"

definition read_breaker :: "nat option \<Rightarrow> ('w, circuit_breaker option) io" where
  "read_breaker r = State (\<lambda>s. (breaker_at s r, s))"

definition write_breaker :: "nat option \<Rightarrow> circuit_breaker option \<Rightarrow> ('w, unit) io" where
  "write_breaker r c = State (\<lambda>s. ((), case (r, c) of
     (Some n, Some b) \<Rightarrow> s\<lparr>w_breakers := (w_breakers s)[n := b]\<rparr> | _ \<Rightarrow> s))"

definition alloc_breaker :: "circuit_breaker option \<Rightarrow> ('w, nat option) io" where
  "alloc_breaker c = State (\<lambda>s. case c of None \<Rightarrow> (None, s)
     | Some b \<Rightarrow> (Some (length (w_breakers s)), s\<lparr>w_breakers := w_breakers s @ [b]\<rparr>))"

lemma run_tracker [simp]:
  "run_state read_tracker s = (w_tracker s, s)"
  "run_state (write_tracker t) s = ((), s\<lparr>w_tracker := t\<rparr>)"
  by (simp_all add: read_tracker_def write_tracker_def)

lemma run_breaker [simp]:
  "run_state (read_breaker r) s = (breaker_at s r, s)"
  "run_state (write_breaker r c) s = ((), case (r, c) of
     (Some n, Some b) \<Rightarrow> s\<lparr>w_breakers := (w_breakers s)[n := b]\<rparr> | _ \<Rightarrow> s)"
  "run_state (alloc_breaker c) s = (case c of None \<Rightarrow> (None, s)
     | Some b \<Rightarrow> (Some (length (w_breakers s)), s\<lparr>w_breakers := w_breakers s @ [b]\<rparr>))"
  by (simp_all add: read_breaker_def write_breaker_def alloc_breaker_def)

text \<open>How often a counter has been incremented.\<close>

definition counter :: "string \<Rightarrow> 'w world \<Rightarrow> nat" where
  "counter name s = length (filter (\<lambda>c. fst c = name) (w_counters s))"

text \<open>Only the external part has changed.\<close>

definition ext_only :: "'w world \<Rightarrow> 'w world \<Rightarrow> bool" where
  "ext_only s s' \<longleftrightarrow> w_events s' = w_events s \<and> w_counters s' = w_counters s \<and>
     w_tracker s' = w_tracker s \<and> w_breakers s' = w_breakers s"

lemma ext_only_refl [simp]: "ext_only s s" by (simp add: ext_only_def)
lemma reflp_ext_only [simp]: "reflp ext_only" by (simp add: reflp_def)
lemma transp_ext_only [simp]: "transp ext_only" by (auto simp: transp_def ext_only_def)
lemma ext_only_ext [simp]: "ext_only s (s\<lparr>w_ext := w\<rparr>)" by (simp add: ext_only_def)

section \<open>Following a computation\<close>

text \<open>
  \<open>hoare P m Q\<close>: from a state with \<open>P\<close>, \<open>m\<close> ends with a result and state related by \<open>Q\<close>. All
  computations of the model are total, so this is total correctness.
\<close>

definition hoare :: "('s \<Rightarrow> bool) \<Rightarrow> ('s, 'a) state \<Rightarrow> ('a \<Rightarrow> 's \<Rightarrow> bool) \<Rightarrow> bool" where
  "hoare P m Q \<longleftrightarrow> (\<forall>s. P s \<longrightarrow> (case run_state m s of (a, s') \<Rightarrow> Q a s'))"

named_theorems hoare_rules \<open>composition rules of the Hoare triples\<close>

lemma hoareI: "(\<And>s a s'. P s \<Longrightarrow> run_state m s = (a, s') \<Longrightarrow> Q a s') \<Longrightarrow> hoare P m Q"
  by (auto simp: hoare_def split: prod.splits)

lemma hoareD: "hoare P m Q \<Longrightarrow> P s \<Longrightarrow> run_state m s = (a, s') \<Longrightarrow> Q a s'"
  by (auto simp: hoare_def split: prod.splits)

lemma hoare_return [hoare_rules]: "(\<And>s. P s \<Longrightarrow> Q a s) \<Longrightarrow> hoare P (State_Monad.return a) Q"
  by (simp add: hoare_def)

lemma hoare_bind: "hoare P m R \<Longrightarrow> (\<And>a. hoare (R a) (f a) Q) \<Longrightarrow> hoare P (State_Monad.bind m f) Q"
  by (force simp: hoare_def split: prod.splits)

lemma hoare_weaken: "hoare P m Q \<Longrightarrow> (\<And>s. P' s \<Longrightarrow> P s) \<Longrightarrow> (\<And>a s. Q a s \<Longrightarrow> Q' a s) \<Longrightarrow> hoare P' m Q'"
  by (force simp: hoare_def split: prod.splits)

lemma hoare_pre: "(\<And>s. P s \<Longrightarrow> hoare (\<lambda>s'. s' = s) m Q) \<Longrightarrow> hoare P m Q"
  by (force simp: hoare_def split: prod.splits)

text \<open>\<open>keeps R m\<close>: every run of \<open>m\<close> moves the state along the relation \<open>R\<close>.\<close>

definition keeps :: "('s \<Rightarrow> 's \<Rightarrow> bool) \<Rightarrow> ('s, 'a) state \<Rightarrow> bool" where
  "keeps R m \<longleftrightarrow> (\<forall>s. R s (snd (run_state m s)))"

lemma keepsI: "(\<And>s a s'. run_state m s = (a, s') \<Longrightarrow> R s s') \<Longrightarrow> keeps R m"
  unfolding keeps_def by (metis prod.collapse)

lemma keepsD: "keeps R m \<Longrightarrow> run_state m s = (a, s') \<Longrightarrow> R s s'"
  by (metis keeps_def snd_conv)

lemma keeps_return: "reflp R \<Longrightarrow> keeps R (State_Monad.return a)"
  by (simp add: keeps_def reflpD)

lemma keeps_bind: "transp R \<Longrightarrow> keeps R m \<Longrightarrow> (\<And>a. keeps R (f a)) \<Longrightarrow> keeps R (State_Monad.bind m f)"
  unfolding keeps_def by (auto split: prod.splits) (metis snd_conv transpD)

lemma keeps_ext: "(\<And>s w. R s (s\<lparr>w_ext := w\<rparr>)) \<Longrightarrow> keeps R (ext m)"
  by (auto simp: keeps_def split: prod.splits)

lemma keeps_if: "(c \<Longrightarrow> keeps R m) \<Longrightarrow> (\<not> c \<Longrightarrow> keeps R n) \<Longrightarrow> keeps R (if c then m else n)"
  by simp

lemma keeps_case_sum: "(\<And>e. x = Inl e \<Longrightarrow> keeps R (f e)) \<Longrightarrow> (\<And>a. x = Inr a \<Longrightarrow> keeps R (g a)) \<Longrightarrow>
    keeps R (case x of Inl e \<Rightarrow> f e | Inr a \<Rightarrow> g a)"
  by (cases x) simp_all

lemma keeps_case_option: "(x = None \<Longrightarrow> keeps R m) \<Longrightarrow> (\<And>a. x = Some a \<Longrightarrow> keeps R (f a)) \<Longrightarrow>
    keeps R (case x of None \<Rightarrow> m | Some a \<Rightarrow> f a)"
  by (cases x) simp_all

lemma keeps_case_prod: "(\<And>a b. x = (a, b) \<Longrightarrow> keeps R (f a b)) \<Longrightarrow> keeps R (case x of (a, b) \<Rightarrow> f a b)"
  by (cases x) simp

lemma keeps_Let: "(\<And>y. keeps R (f y)) \<Longrightarrow> keeps R (let y = x in f y)"
  by simp

lemmas keeps_splits = keeps_if keeps_case_sum keeps_case_option keeps_case_prod keeps_Let

text \<open>Loops over a list with a result per element, and with a result threaded through.\<close>

fun mapM :: "('a \<Rightarrow> ('s, 'b) state) \<Rightarrow> 'a list \<Rightarrow> ('s, 'b list) state" where
  "mapM f [] = State_Monad.return []"
| "mapM f (x # xs) = do { y \<leftarrow> f x; ys \<leftarrow> mapM f xs; State_Monad.return (y # ys) }"

fun foldM :: "('b \<Rightarrow> 'a \<Rightarrow> ('s, 'b) state) \<Rightarrow> 'b \<Rightarrow> 'a list \<Rightarrow> ('s, 'b) state" where
  "foldM f b [] = State_Monad.return b"
| "foldM f b (x # xs) = do { b' \<leftarrow> f b x; foldM f b' xs }"

text \<open>A loop whose body can fail; the first failure ends it.\<close>

fun foldE :: "('b \<Rightarrow> 'a \<Rightarrow> ('s, 'e + 'b) state) \<Rightarrow> 'b \<Rightarrow> 'a list \<Rightarrow> ('s, 'e + 'b) state" where
  "foldE f b [] = State_Monad.return (Inr b)"
| "foldE f b (x # xs) = do {
     r \<leftarrow> f b x;
     (case r of Inl e \<Rightarrow> State_Monad.return (Inl e) | Inr b' \<Rightarrow> foldE f b' xs) }"

lemma mapM_length: "run_state (mapM f xs) s = (ys, s') \<Longrightarrow> length ys = length xs"
  by (induction xs arbitrary: s ys) (auto split: prod.splits)

lemma foldM_append: "foldM f b (xs @ ys) = State_Monad.bind (foldM f b xs) (\<lambda>b'. foldM f b' ys)"
  by (induction xs arbitrary: b) simp_all

lemma foldE_append: "foldE f b (xs @ ys) = do {
    r \<leftarrow> foldE f b xs;
    (case r of Inl e \<Rightarrow> State_Monad.return (Inl e) | Inr b' \<Rightarrow> foldE f b' ys) }"
proof (induction xs arbitrary: b)
  case (Cons x xs)
  show ?case
    by (rule state_ext) (simp add: Cons.IH split: prod.splits sum.splits)
qed (rule state_ext, simp split: prod.splits)

lemma keeps_mapM: "reflp R \<Longrightarrow> transp R \<Longrightarrow> (\<And>x. x \<in> set xs \<Longrightarrow> keeps R (f x)) \<Longrightarrow> keeps R (mapM f xs)"
  by (induction xs) (auto intro!: keeps_bind keeps_return)

lemma keeps_foldM: "reflp R \<Longrightarrow> transp R \<Longrightarrow> (\<And>b x. x \<in> set xs \<Longrightarrow> keeps R (f b x)) \<Longrightarrow> keeps R (foldM f b xs)"
  by (induction xs arbitrary: b) (auto intro!: keeps_bind keeps_return)

lemma keeps_foldE: "reflp R \<Longrightarrow> transp R \<Longrightarrow> (\<And>b x. x \<in> set xs \<Longrightarrow> keeps R (f b x)) \<Longrightarrow> keeps R (foldE f b xs)"
  by (induction xs arbitrary: b) (auto intro!: keeps_bind keeps_return split: sum.splits)

end
