(* ===== verification/Exec_Policy.thy ===== *)
theory Exec_Policy
  imports Effects
begin

text \<open>
  Execution policies: the merge of the agent's overrides onto the SDK defaults
  (\<open>internal/runtime/runtime.go\<close>) and the retry loop \<open>executeWithPolicy\<close> of
  \<open>internal/runtime/local/agent_loop.go\<close>. Durations are nanoseconds. The context is external:
  \<open>ctx_err\<close> reads \<open>ctx.Err()\<close>, and \<open>sleep d\<close> is the select on \<open>ctx.Done()\<close> and \<open>time.After(d)\<close>,
  yielding the context's error when it is done first. The per-attempt deadline acts inside the
  operation, which may do anything a computation over the world can do.
\<close>

section \<open>Policies\<close>

record retry_policy =
  InitialInterval :: int
  BackoffCoefficient :: rat
  MaximumInterval :: int

record execution_policy =
  pol_Timeout :: int
  pol_MaxAttempts :: int
  pol_Retry :: retry_policy

record execution_config =
  xc_Timeout :: int
  xc_MaxAttempts :: int

record execution_configs =
  xc_LLM :: execution_config
  xc_ToolAuth :: execution_config
  xc_ToolExecute :: execution_config
  xc_MCP :: execution_config
  xc_A2A :: execution_config
  xc_Retriever :: execution_config
  xc_Memory :: execution_config
  xc_Conversation :: execution_config
  xc_SubAgent :: execution_config

record execution_policies =
  pol_LLM :: execution_policy
  pol_ToolAuth :: execution_policy
  pol_ToolExecute :: execution_policy
  pol_MCP :: execution_policy
  pol_A2A :: execution_policy
  pol_Retriever :: execution_policy
  pol_Memory :: execution_policy
  pol_Conversation :: execution_policy
  pol_SubAgent :: execution_policy

definition second_ns :: int where "second_ns = 1000000000"
definition minute_ns :: int where "minute_ns = 60 * second_ns"

definition defaultExecutionConfigs :: execution_configs where
  "defaultExecutionConfigs =
    \<lparr>xc_LLM = \<lparr>xc_Timeout = 30 * minute_ns, xc_MaxAttempts = 3\<rparr>,
     xc_ToolAuth = \<lparr>xc_Timeout = 30 * minute_ns, xc_MaxAttempts = 1\<rparr>,
     xc_ToolExecute = \<lparr>xc_Timeout = 30 * minute_ns, xc_MaxAttempts = 3\<rparr>,
     xc_MCP = \<lparr>xc_Timeout = 30 * minute_ns, xc_MaxAttempts = 3\<rparr>,
     xc_A2A = \<lparr>xc_Timeout = 30 * minute_ns, xc_MaxAttempts = 3\<rparr>,
     xc_Retriever = \<lparr>xc_Timeout = 5 * minute_ns, xc_MaxAttempts = 3\<rparr>,
     xc_Memory = \<lparr>xc_Timeout = 5 * minute_ns, xc_MaxAttempts = 3\<rparr>,
     xc_Conversation = \<lparr>xc_Timeout = 30 * second_ns, xc_MaxAttempts = 1\<rparr>,
     xc_SubAgent = \<lparr>xc_Timeout = 0, xc_MaxAttempts = 1\<rparr>\<rparr>"

definition resolveExecutionConfig :: "execution_config \<Rightarrow> execution_config \<Rightarrow> execution_config" where
  "resolveExecutionConfig agent sdk =
    (let out = (if xc_Timeout agent > 0 then sdk\<lparr>xc_Timeout := xc_Timeout agent\<rparr> else sdk)
     in if xc_MaxAttempts agent > 0 then out\<lparr>xc_MaxAttempts := xc_MaxAttempts agent\<rparr> else out)"

definition DefaultRetryPolicy :: retry_policy where
  "DefaultRetryPolicy = \<lparr>InitialInterval = second_ns, BackoffCoefficient = 2,
     MaximumInterval = 10 * minute_ns\<rparr>"

definition ToPolicy :: "execution_config \<Rightarrow> execution_policy" where
  "ToPolicy c = (let attempts = (if xc_MaxAttempts c < 1 then 1 else xc_MaxAttempts c)
     in \<lparr>pol_Timeout = xc_Timeout c, pol_MaxAttempts = attempts, pol_Retry = DefaultRetryPolicy\<rparr>)"

definition ResolveExecutionPolicies :: "execution_configs \<Rightarrow> execution_policies" where
  "ResolveExecutionPolicies c = (let d = defaultExecutionConfigs in
    \<lparr>pol_LLM = ToPolicy (resolveExecutionConfig (xc_LLM c) (xc_LLM d)),
     pol_ToolAuth = ToPolicy (resolveExecutionConfig (xc_ToolAuth c) (xc_ToolAuth d)),
     pol_ToolExecute = ToPolicy (resolveExecutionConfig (xc_ToolExecute c) (xc_ToolExecute d)),
     pol_MCP = ToPolicy (resolveExecutionConfig (xc_MCP c) (xc_MCP d)),
     pol_A2A = ToPolicy (resolveExecutionConfig (xc_A2A c) (xc_A2A d)),
     pol_Retriever = ToPolicy (resolveExecutionConfig (xc_Retriever c) (xc_Retriever d)),
     pol_Memory = ToPolicy (resolveExecutionConfig (xc_Memory c) (xc_Memory d)),
     pol_Conversation = ToPolicy (resolveExecutionConfig (xc_Conversation c) (xc_Conversation d)),
     pol_SubAgent = ToPolicy (resolveExecutionConfig (xc_SubAgent c) (xc_SubAgent d))\<rparr>)"

section \<open>The retry loop\<close>

text \<open>\<open>time.Duration(float64(backoff) * coefficient)\<close>, capped at the maximum interval.\<close>

definition trunc_rat :: "rat \<Rightarrow> int" where
  "trunc_rat x = (if 0 \<le> x then \<lfloor>x\<rfloor> else - \<lfloor>- x\<rfloor>)"

definition next_backoff :: "retry_policy \<Rightarrow> int \<Rightarrow> int" where
  "next_backoff r backoff =
    (let next = int64_of_float (trunc_rat (fl64 (fl64 (of_int backoff) * BackoffCoefficient r)))
     in if next > MaximumInterval r then MaximumInterval r else next)"

text \<open>The context as the retry loop sees it.\<close>

record 'w ctx_ops =
  ctx_err :: "('w, go_error option) state"
  sleep :: "int \<Rightarrow> ('w, go_error option) state"

text \<open>One attempt: a success or a finished context ends the loop, another failure goes on.\<close>

definition attempt_once ::
    "'w ctx_ops \<Rightarrow> ('w, go_error + 'a) io \<Rightarrow> (go_error \<Rightarrow> ('w, go_error + 'a) io) \<Rightarrow>
     ('w, go_error + 'a) io" where
  "attempt_once ctx op continue = do {
     r \<leftarrow> op;
     (case r of
        Inr x \<Rightarrow> State_Monad.return (Inr x)
      | Inl err \<Rightarrow> do {
          ce \<leftarrow> ext (ctx_err ctx);
          (case ce of Some e \<Rightarrow> State_Monad.return (Inl e) | None \<Rightarrow> continue err) }) }"

text \<open>\<open>attempt_loop \<dots> n b\<close>: this attempt and at most \<open>n\<close> more, the next after a wait of \<open>b\<close>.\<close>

fun attempt_loop ::
    "'w ctx_ops \<Rightarrow> retry_policy \<Rightarrow> ('w, go_error + 'a) io \<Rightarrow> nat \<Rightarrow> int \<Rightarrow> ('w, go_error + 'a) io" where
  "attempt_loop ctx r op 0 b = attempt_once ctx op (\<lambda>err. State_Monad.return (Inl err))"
| "attempt_loop ctx r op (Suc n) b = attempt_once ctx op (\<lambda>err. do {
     d \<leftarrow> ext (sleep ctx b);
     (case d of Some e \<Rightarrow> State_Monad.return (Inl e)
      | None \<Rightarrow> attempt_loop ctx r op n (next_backoff r b)) })"

definition policy_attempts :: "execution_policy \<Rightarrow> nat" where
  "policy_attempts p = nat (if pol_MaxAttempts p < 1 then 1 else pol_MaxAttempts p)"

definition executeWithPolicy ::
    "'w ctx_ops \<Rightarrow> execution_policy \<Rightarrow> ('w, go_error + 'a) io \<Rightarrow> ('w, go_error + 'a) io" where
  "executeWithPolicy ctx p op =
     attempt_loop ctx (pol_Retry p) op (policy_attempts p - 1) (InitialInterval (pol_Retry p))"

text \<open>The wrapper for operations that return only an error; the value is the empty struct.\<close>

definition executeWithPolicyErr ::
    "'w ctx_ops \<Rightarrow> execution_policy \<Rightarrow> ('w, go_error option) io \<Rightarrow> ('w, go_error option) io" where
  "executeWithPolicyErr ctx p op = do {
     r \<leftarrow> executeWithPolicy ctx p (do {
            e \<leftarrow> op;
            State_Monad.return (case e of None \<Rightarrow> Inr () | Some err \<Rightarrow> Inl err) });
     State_Monad.return (case r of Inl err \<Rightarrow> Some err | Inr _ \<Rightarrow> None) }"

section \<open>Following the loop\<close>

lemma policy_attempts_pos [simp]: "0 < policy_attempts p"
  by (simp add: policy_attempts_def)

lemma Suc_policy_attempts [simp]: "Suc (policy_attempts p - Suc 0) = policy_attempts p"
  using policy_attempts_pos [of p] by linarith

text \<open>\<open>grows f k\<close>: the measure \<open>f\<close> of the state rises by at most \<open>k\<close>.\<close>

definition grows :: "('s \<Rightarrow> nat) \<Rightarrow> nat \<Rightarrow> 's \<Rightarrow> 's \<Rightarrow> bool" where
  "grows f k s s' \<longleftrightarrow> f s' \<le> f s + k"

lemma growsI: "f s' \<le> f s + k \<Longrightarrow> grows f k s s'" by (simp add: grows_def)
lemma growsD: "grows f k s s' \<Longrightarrow> f s' \<le> f s + k" by (simp add: grows_def)

lemma keeps_grows_bind:
  assumes "keeps (grows f j) m" "\<And>a. keeps (grows f k) (g a)"
  shows "keeps (grows f (j + k)) (State_Monad.bind m g)"
proof (rule keepsI)
  fix s a s' assume "run_state (State_Monad.bind m g) s = (a, s')"
  then obtain b s1 where 1: "run_state m s = (b, s1)" and 2: "run_state (g b) s1 = (a, s')"
    by (auto split: prod.splits)
  from keepsD [OF assms(1) 1] keepsD [OF assms(2) 2] show "grows f (j + k) s s'"
    by (simp add: grows_def)
qed

lemma keeps_grows_weaken: "keeps (grows f j) m \<Longrightarrow> j \<le> k \<Longrightarrow> keeps (grows f k) m"
  unfolding keeps_def grows_def by (meson add_left_mono order_trans)

lemma keeps_grows_return: "keeps (grows f k) (State_Monad.return a)"
  by (simp add: keeps_def grows_def)

lemma keeps_grows_ext: "(\<And>s w. f (s\<lparr>w_ext := w\<rparr>) = f s) \<Longrightarrow> keeps (grows f k) (ext m)"
  by (auto simp: keeps_def grows_def split: prod.splits)

lemma counter_ext [simp]: "counter c (s\<lparr>w_ext := w\<rparr>) = counter c s"
  by (simp add: counter_def)

lemma attempt_once_grows:
  assumes "keeps (grows f j) op" "\<And>e. keeps (grows f k) (c e)"
    and "\<And>s w. f (s\<lparr>w_ext := w\<rparr>) = f s"
  shows "keeps (grows f (j + k)) (attempt_once ctx op c)"
proof -
  have "keeps (grows f (0 + k)) (do { ce \<leftarrow> ext (ctx_err ctx);
      (case ce of Some e \<Rightarrow> State_Monad.return (Inl e) | None \<Rightarrow> c err) })" for err
    by (intro keeps_grows_bind keeps_grows_ext keeps_case_option keeps_grows_return assms)
  then show ?thesis
    unfolding attempt_once_def
    by (intro keeps_grows_bind assms keeps_case_sum keeps_grows_return) simp
qed

lemma attempt_loop_grows:
  assumes "keeps (grows f k) op" "\<And>s w. f (s\<lparr>w_ext := w\<rparr>) = f s"
  shows "keeps (grows f (Suc n * k)) (attempt_loop ctx r op n b)"
proof (induction n arbitrary: b)
  case 0
  have "keeps (grows f (k + 0)) (attempt_once ctx op (\<lambda>err. State_Monad.return (Inl err)))"
    by (intro attempt_once_grows assms keeps_grows_return)
  then show ?case by simp
next
  case (Suc n)
  have "keeps (grows f (0 + Suc n * k)) (do { d \<leftarrow> ext (sleep ctx b);
     (case d of Some e \<Rightarrow> State_Monad.return (Inl e)
      | None \<Rightarrow> attempt_loop ctx r op n (next_backoff r b)) })"
    by (intro keeps_grows_bind keeps_grows_ext keeps_case_option keeps_grows_return assms Suc.IH)
  then have "keeps (grows f (k + Suc n * k)) (attempt_loop ctx r op (Suc n) b)"
    unfolding attempt_loop.simps by (intro attempt_once_grows assms) simp
  then show ?case by simp
qed

lemma executeWithPolicy_grows:
  assumes "keeps (grows f k) op" "\<And>s w. f (s\<lparr>w_ext := w\<rparr>) = f s"
  shows "keeps (grows f (policy_attempts p * k)) (executeWithPolicy ctx p op)"
  using attempt_loop_grows [OF assms, of "policy_attempts p - 1"]
  by (simp add: executeWithPolicy_def)

lemma attempt_loop_keeps:
  assumes R: "reflp R" "transp R" and "keeps R op" "\<And>s w. R s (s\<lparr>w_ext := w\<rparr>)"
  shows "keeps R (attempt_loop ctx r op n b)"
  by (induction n arbitrary: b)
    (auto simp: attempt_once_def intro!: keeps_bind [OF R(2)] keeps_return [OF R(1)]
      keeps_ext assms(3,4) keeps_splits)

lemma executeWithPolicy_keeps:
  assumes "reflp R" "transp R" "keeps R op" "\<And>s w. R s (s\<lparr>w_ext := w\<rparr>)"
  shows "keeps R (executeWithPolicy ctx p op)"
  unfolding executeWithPolicy_def by (rule attempt_loop_keeps [OF assms])

section \<open>What a retried operation does\<close>

text \<open>An operation that counts its invocations: each run raises the counter by one.\<close>

definition counts_runs :: "string \<Rightarrow> ('w, 'a) io \<Rightarrow> bool" where
  "counts_runs c op \<longleftrightarrow> (\<forall>s. counter c (snd (run_state op s)) = counter c s + 1)"

lemma counts_runsD: "counts_runs c op \<Longrightarrow> run_state op s = (r, s') \<Longrightarrow> counter c s' = counter c s + 1"
  by (metis counts_runs_def snd_conv)

text \<open>Where the result of the loop comes from.\<close>

definition policy_outcome ::
    "'w ctx_ops \<Rightarrow> ('w, go_error + 'a) io \<Rightarrow> go_error + 'a \<Rightarrow> 'w world \<Rightarrow> bool" where
  "policy_outcome ctx op r s' \<longleftrightarrow> (case r of
      Inr x \<Rightarrow> \<exists>s0. run_state op s0 = (Inr x, s')
    | Inl e \<Rightarrow> (\<exists>s0 s1. run_state op s0 = (Inl e, s1)) \<or>
        (\<exists>w w'. run_state (ctx_err ctx) w = (Some e, w')) \<or>
        (\<exists>d w w'. run_state (sleep ctx d) w = (Some e, w')))"

lemma attempt_loop_outcome:
  assumes "run_state (attempt_loop ctx r op n b) s = (res, s')"
  shows "policy_outcome ctx op res s'"
  using assms
proof (induction n arbitrary: b s)
  case 0
  then show ?case
    unfolding attempt_loop.simps attempt_once_def
    by (auto simp: policy_outcome_def split: prod.splits sum.splits option.splits)
next
  case (Suc n)
  show ?case
    using Suc.prems unfolding attempt_loop.simps attempt_once_def
    by (simp split: prod.splits sum.splits option.splits; fastforce simp: policy_outcome_def dest: Suc.IH)
qed

lemma attempt_loop_runs:
  assumes c: "counts_runs c op" and "run_state (attempt_loop ctx r op n b) s = (res, s')"
  shows "counter c s + 1 \<le> counter c s' \<and> counter c s' \<le> counter c s + Suc n"
  using assms(2)
proof (induction n arbitrary: b s)
  case 0
  then show ?case
    unfolding attempt_loop.simps attempt_once_def
    by (auto dest!: counts_runsD [OF c] split: prod.splits sum.splits option.splits)
next
  case (Suc n)
  show ?case
    using Suc.prems unfolding attempt_loop.simps attempt_once_def
    by (fastforce dest!: counts_runsD [OF c] Suc.IH split: prod.splits sum.splits option.splits)
qed

text \<open>A retried operation runs at least once and at most \<open>MaxAttempts\<close> times (once when the
  limit is not positive), nothing runs after its first success, whose value is the result, and an
  error comes from the operation or from the finished context.\<close>

theorem policy_bounded_attempts:
  assumes "counts_runs c op" and "run_state (executeWithPolicy ctx p op) s = (r, s')"
  shows "counter c s + 1 \<le> counter c s' \<and>
    counter c s' \<le> counter c s + nat (max 1 (pol_MaxAttempts p)) \<and> policy_outcome ctx op r s'"
proof -
  have "policy_attempts p = nat (max 1 (pol_MaxAttempts p))"
    by (simp add: policy_attempts_def max_def)
  with attempt_loop_runs [OF assms(1), of ctx "pol_Retry p" "policy_attempts p - 1"]
    attempt_loop_outcome [of ctx "pol_Retry p" op "policy_attempts p - 1"] assms(2)
  show ?thesis by (auto simp: executeWithPolicy_def)
qed

text \<open>A context that never ends and an operation that fails until it has run three times.\<close>

definition calm_ctx :: "nat ctx_ops" where
  "calm_ctx = \<lparr>ctx_err = State_Monad.return None, sleep = (\<lambda>d. State_Monad.return None)\<rparr>"

definition third_time :: "(nat, go_error + nat) io" where
  "third_time = do {
     _ \<leftarrow> IncrementCounter ''op'' [];
     n \<leftarrow> ext (State (\<lambda>n. (Suc n, Suc n)));
     State_Monad.return (if n < 3 then Inl (ErrNew ''busy'') else Inr n) }"

theorem policy_bounded_attempts_witness:
  "\<exists>r s'. run_state (executeWithPolicy calm_ctx
      (ToPolicy \<lparr>xc_Timeout = 0, xc_MaxAttempts = 5\<rparr>) third_time) (new_world 0) = (r, s') \<and>
    r = Inr 3 \<and> counter ''op'' s' = 3 \<and> counter ''op'' s' \<le> counter ''op'' (new_world 0) + 5 \<and>
    policy_outcome calm_ctx third_time r s'"
proof -
  let ?p = "ToPolicy \<lparr>xc_Timeout = 0, xc_MaxAttempts = 5\<rparr>"
  let ?s' = "(new_world 3)\<lparr>w_counters := [(''op'', []), (''op'', []), (''op'', [])]\<rparr>"
  have c: "counts_runs ''op'' third_time"
    by (simp add: counts_runs_def third_time_def counter_def)
  have r: "run_state (executeWithPolicy calm_ctx ?p third_time) (new_world 0) = (Inr 3, ?s')"
    by (simp add: executeWithPolicy_def policy_attempts_def ToPolicy_def Let_def calm_ctx_def
        third_time_def new_world_def attempt_once_def eval_nat_numeral)
  from policy_bounded_attempts [OF c r] show ?thesis
    unfolding r by (simp add: ToPolicy_def Let_def counter_def)
qed

section \<open>The default backoff\<close>

lemma next_backoff_small:
  assumes "0 \<le> b" "2 * b < 2 ^ 53"
  shows "next_backoff DefaultRetryPolicy b = min (2 * b) (10 * minute_ns)"
proof -
  have "fl64 (of_int b) = of_int b" using assms by (intro fl64_of_int) simp
  moreover have "fl64 (of_int (2 * b)) = of_int (2 * b)" using assms by (intro fl64_of_int) simp
  ultimately have "fl64 (fl64 (of_int b) * 2) = of_int (2 * b)" by (simp add: mult.commute)
  moreover have "trunc_rat (of_int (2 * b)) = 2 * b"
    using assms by (simp only: trunc_rat_def of_int_0_le_iff floor_of_int) simp
  moreover have "int64_of_float (2 * b) = 2 * b" using assms by (simp add: int64_of_float_def)
  ultimately show ?thesis
    by (simp add: next_backoff_def DefaultRetryPolicy_def Let_def min_def)
qed

text \<open>The waits between attempts under the default policy double from one second up to ten
  minutes and stay there, in spite of the detour through \<open>float64\<close>: the wait before attempt
  \<open>k + 2\<close> is \<open>min (2^k s) (10 min)\<close>.\<close>

theorem default_backoff:
  "(next_backoff DefaultRetryPolicy ^^ k) (InitialInterval DefaultRetryPolicy) =
     min (2 ^ k * second_ns) (10 * minute_ns)"
proof (induction k)
  case 0
  show ?case by (simp add: DefaultRetryPolicy_def second_ns_def minute_ns_def)
next
  case (Suc k)
  let ?b = "min (2 ^ k * second_ns) (10 * minute_ns)"
  have "0 \<le> ?b" "2 * ?b < 2 ^ 53" by (simp_all add: second_ns_def minute_ns_def)
  then have "next_backoff DefaultRetryPolicy ?b = min (2 * ?b) (10 * minute_ns)"
    by (rule next_backoff_small)
  also have "\<dots> = min (2 ^ Suc k * second_ns) (10 * minute_ns)"
    by (simp add: min_def second_ns_def minute_ns_def)
  finally show ?case using Suc.IH by simp
qed

end
