(* ===== verification/Error_Control.thy ===== *)
theory Error_Control
  imports Effects Circuit_Breaker
begin

text \<open>
  Error control of \<open>internal/runtime/base/error_control.go\<close>: what the runtime does with the answers
  of the user's \<open>OnLLMFailure\<close> and \<open>OnMaxIterationsExceeded\<close> hooks. A hook is any computation
  over the external world; the warnings the code logs are not modelled. A client of type \<open>'c\<close> is
  looked up in \<open>NamedLLMClients\<close>, where \<open>Some None\<close> is a nil entry.
\<close>

record llm_failure_info =
  fi_Attempt :: int
  fi_Err :: go_error

record max_iterations_info =
  mi_IterationCount :: int
  mi_MaxIterations :: int
  mi_LastAction :: string

record 'w error_control_config =
  ec_OnLLMFailure :: "(llm_failure_info \<Rightarrow> ('w, ec_decision) state) option"
  ec_OnMaxIterationsExceeded :: "(max_iterations_info \<Rightarrow> ('w, ec_decision) state) option"
  ec_FallbackLLMClient :: string
  ec_CircuitBreaker :: "cb_config option"

text \<open>The argument of \<open>NewCircuitBreaker\<close>: nil, or a configuration with its breaker or nil.\<close>

definition breaker_config :: "'w error_control_config option \<Rightarrow> cb_config option option" where
  "breaker_config cfg = map_option ec_CircuitBreaker cfg"

definition EffectiveMaxIterations :: "int \<Rightarrow> int" where
  "EffectiveMaxIterations configured = (if configured \<le> 0 then 10 else configured)"

definition ClampExtraIterations :: "int \<Rightarrow> int \<Rightarrow> int" where
  "ClampExtraIterations extra originalMax =
    (if extra < 1 then 0
     else let capAt = EffectiveMaxIterations originalMax in if extra > capAt then capAt else extra)"

definition LastToolAction :: "string list \<Rightarrow> string" where
  "LastToolAction toolNames = Join toolNames '',''"

definition LLMPolicyAttempts :: "int \<Rightarrow> int" where
  "LLMPolicyAttempts maxAttempts = (if maxAttempts < 1 then 1 else maxAttempts)"

definition ResolveLLMClient :: "'c \<Rightarrow> 'w error_control_config option \<Rightarrow>
    (string \<rightharpoonup> 'c option) \<Rightarrow> bool \<Rightarrow> go_error + 'c" where
  "ResolveLLMClient primary cfg named useFallback =
    (if \<not> useFallback then Inr primary
     else case cfg of
       None \<Rightarrow> Inl (ErrNew ''error control: FallbackModel requested but FallbackLLMClient is empty'')
     | Some c \<Rightarrow>
         if TrimSpace (ec_FallbackLLMClient c) = '''' then
           Inl (ErrNew ''error control: FallbackModel requested but FallbackLLMClient is empty'')
         else (case named (ec_FallbackLLMClient c) of
             Some (Some cl) \<Rightarrow> Inr cl
           | _ \<Rightarrow> Inl (ErrNew (''error control: FallbackLLMClient ''
                    @ Quote (ec_FallbackLLMClient c) @ '' is not in NamedLLMClients''))))"

definition abort_decision :: ec_decision where
  "abort_decision = \<lparr>ec_Action = ErrorControlAbort, ec_ExtraIterations = 0\<rparr>"

definition final_call_decision :: ec_decision where
  "final_call_decision = \<lparr>ec_Action = ErrorControlContinueWithFinalCall, ec_ExtraIterations = 0\<rparr>"

definition DecideLLMFailure :: "'c \<Rightarrow> 'w error_control_config option \<Rightarrow>
    (string \<rightharpoonup> 'c option) \<Rightarrow> llm_failure_info \<Rightarrow> ('w, ec_decision) io" where
  "DecideLLMFailure primary cfg named info = (case cfg of
      None \<Rightarrow> State_Monad.return abort_decision
    | Some c \<Rightarrow> (case ec_OnLLMFailure c of
        None \<Rightarrow> State_Monad.return abort_decision
      | Some hook \<Rightarrow> do {
          d \<leftarrow> ext (hook info);
          State_Monad.return
            (if ec_Action d = ErrorControlAbort then d
             else if ec_Action d = ErrorControlFallbackModel then
               (case ResolveLLMClient primary cfg named True of
                  Inl _ \<Rightarrow> abort_decision | Inr _ \<Rightarrow> d)
             else abort_decision) }))"

definition DecideMaxIterations :: "'w error_control_config option \<Rightarrow> max_iterations_info \<Rightarrow>
    bool \<Rightarrow> ('w, ec_decision) io" where
  "DecideMaxIterations cfg info alreadyExtended =
    (if alreadyExtended then State_Monad.return final_call_decision
     else case cfg of
      None \<Rightarrow> State_Monad.return final_call_decision
    | Some c \<Rightarrow> (case ec_OnMaxIterationsExceeded c of
        None \<Rightarrow> State_Monad.return final_call_decision
      | Some hook \<Rightarrow> do {
          d \<leftarrow> ext (hook info);
          State_Monad.return
            (if ec_Action d = ErrorControlContinueWithFinalCall then d
             else if ec_Action d = ErrorControlExtendIterations then
               let extra = ClampExtraIterations (ec_ExtraIterations d) (mi_MaxIterations info)
               in if extra < 1 then final_call_decision else d\<lparr>ec_ExtraIterations := extra\<rparr>
             else final_call_decision) }))"

lemma EffectiveMaxIterations_pos: "1 \<le> EffectiveMaxIterations n"
  by (simp add: EffectiveMaxIterations_def)

lemma DecideMaxIterations_frame:
  "run_state (DecideMaxIterations cfg info ext') s = (d, s') \<Longrightarrow>
     ext_only s s'"
  by (auto simp: DecideMaxIterations_def ext_only_def split: if_splits option.splits prod.splits)

lemma DecideLLMFailure_frame:
  "run_state (DecideLLMFailure pr cfg named info) s = (d, s') \<Longrightarrow>
     ext_only s s'"
  by (auto simp: DecideLLMFailure_def ext_only_def split: option.splits prod.splits)

lemma max_iterations_decision:
  assumes "run_state (DecideMaxIterations cfg info already) s = (d, s')"
  shows "ec_Action d = ErrorControlContinueWithFinalCall \<or>
    ec_Action d = ErrorControlExtendIterations \<and> \<not> already \<and> 1 \<le> ec_ExtraIterations d \<and>
    ec_ExtraIterations d \<le> EffectiveMaxIterations (mi_MaxIterations info)"
  using assms EffectiveMaxIterations_pos [of "mi_MaxIterations info"]
  by (auto simp: DecideMaxIterations_def final_call_decision_def ClampExtraIterations_def Let_def
      split: if_splits option.splits prod.splits)

text \<open>Whatever the user's \<open>OnMaxIterationsExceeded\<close> hook answers, the decision the loop acts on
  is either the final call without tools or an extension, and an extension is granted at most
  once per run, by at least one and at most as many iterations as the original bound.\<close>

theorem extension_bounded:
  assumes "run_state (DecideMaxIterations cfg info already) s = (d, s')"
  shows "(ec_Action d = ErrorControlContinueWithFinalCall \<or>
      ec_Action d = ErrorControlExtendIterations \<and> \<not> already \<and> 1 \<le> ec_ExtraIterations d \<and>
      ec_ExtraIterations d \<le> EffectiveMaxIterations (mi_MaxIterations info)) \<and>
    w_events s' = w_events s \<and> w_counters s' = w_counters s"
  using max_iterations_decision [OF assms] DecideMaxIterations_frame [OF assms] unfolding ext_only_def by blast

text \<open>A hook that asks for a million more iterations, and for one more when asked again.\<close>

definition greedy_config :: "nat error_control_config" where
  "greedy_config = \<lparr>ec_OnLLMFailure = Some (\<lambda>_. State_Monad.return
       \<lparr>ec_Action = ErrorControlFallbackModel, ec_ExtraIterations = 0\<rparr>),
     ec_OnMaxIterationsExceeded = Some (\<lambda>_. State (\<lambda>n.
       (\<lparr>ec_Action = ErrorControlExtendIterations,
         ec_ExtraIterations = (if n = 0 then 1000000 else 1)\<rparr>, Suc n))),
     ec_FallbackLLMClient = ''backup'', ec_CircuitBreaker = None\<rparr>"

theorem extension_bounded_witness:
  "\<exists>d s'. run_state (DecideMaxIterations (Some greedy_config)
      \<lparr>mi_IterationCount = 4, mi_MaxIterations = 4, mi_LastAction = ''search''\<rparr> False)
      (new_world 0) = (d, s') \<and>
    ec_ExtraIterations d = 4 \<and> w_ext s' = 1 \<and> w_events s' = []"
proof -
  let ?i = "\<lparr>mi_IterationCount = 4, mi_MaxIterations = 4, mi_LastAction = ''search''\<rparr>"
  let ?s = "(new_world 0) :: nat world"
  have r: "run_state (DecideMaxIterations (Some greedy_config) ?i False) ?s =
      (\<lparr>ec_Action = ErrorControlExtendIterations, ec_ExtraIterations = 4\<rparr>,
       (new_world 1))"
    by (simp add: DecideMaxIterations_def greedy_config_def ClampExtraIterations_def
        EffectiveMaxIterations_def Let_def new_world_def)
  from extension_bounded [OF r] show ?thesis unfolding r by (auto simp: new_world_def)
qed

text \<open>A run switches models only to a client it has: the decision after a failed LLM call is
  abort or fallback, and it is fallback only if \<open>ResolveLLMClient\<close> finds a non-nil client under
  the configured name, so the fallback call cannot fail on an unresolved client.\<close>

theorem fallback_resolvable:
  assumes "run_state (DecideLLMFailure primary cfg named info) s = (d, s')"
  shows "ec_Action d = ErrorControlAbort \<or>
    ec_Action d = ErrorControlFallbackModel \<and>
    (\<exists>c client. cfg = Some c \<and> TrimSpace (ec_FallbackLLMClient c) \<noteq> '''' \<and>
       named (ec_FallbackLLMClient c) = Some (Some client) \<and>
       ResolveLLMClient primary cfg named True = Inr client)"
  using assms
  by (auto simp: DecideLLMFailure_def abort_decision_def ResolveLLMClient_def
      split: if_splits option.splits prod.splits sum.splits)

theorem fallback_resolvable_witness:
  "\<exists>d s' c. run_state (DecideLLMFailure ''primary'' (Some greedy_config) [''backup'' \<mapsto> Some ''small'']
      \<lparr>fi_Attempt = 3, fi_Err = ErrNew ''rate limit''\<rparr>)
      (new_world 0) = (d, s') \<and>
    ec_Action d = ErrorControlFallbackModel \<and>
    ResolveLLMClient ''primary'' (Some greedy_config) [''backup'' \<mapsto> Some ''small''] True = Inr c \<and> c = ''small''"
proof -
  let ?s = "(new_world 0) :: nat world"
  let ?n = "[''backup'' \<mapsto> Some ''small'']"
  have r: "run_state (DecideLLMFailure ''primary'' (Some greedy_config) ?n
      \<lparr>fi_Attempt = 3, fi_Err = ErrNew ''rate limit''\<rparr>) ?s =
      (\<lparr>ec_Action = ErrorControlFallbackModel, ec_ExtraIterations = 0\<rparr>, ?s)"
    by (simp add: DecideLLMFailure_def greedy_config_def ResolveLLMClient_def TrimSpace_def
        is_space_def)
  from fallback_resolvable [OF r] show ?thesis
    unfolding r by (auto simp: greedy_config_def)
qed

end
