(* ===== verification/Hooks.thy ===== *)
theory Hooks
  imports Effects
begin

text \<open>
  Middleware hooks of \<open>internal/hooks\<close>: groups of user functions around LLM calls, tools,
  retrieval and memory. A hook is a computation over the external world that yields an error or
  its output; \<open>None\<close> is a nil function. All runners are the same pair of nested loops, over the
  groups in registration order and over the hooks of a group in declaration order, that stops at
  the first error: \<open>run_chain\<close>. The copies \<open>cloneKinds\<close>, \<open>cloneDocuments\<close> and \<open>cloneToolArgs\<close> keep
  the value but turn an empty slice or map into nil.
\<close>

record run_meta =
  rm_RunID :: string
  rm_Iteration :: int
  rm_HooksGroup :: string

record hook_tool_call =
  ht_ID :: string
  ht_Name :: string
  ht_DisplayName :: string
  ht_Kind :: string
  ht_Args :: go_args

record retrieve_call =
  rc_Query :: string
  rc_Mode :: string
  rc_RetrieverName :: string

record memory_load_call =
  ml_Scope :: memory_scope
  ml_Query :: string
  ml_Limit :: int
  ml_MinScore :: rat
  ml_Kinds :: "string list"

record memory_store_call =
  ms_Scope :: memory_scope
  ms_Record :: memory_record
  ms_ID :: string

record budget_hook_input =
  bh_RunMeta :: run_meta
  bh_Kind :: string
  bh_TotalTokens :: int
  bh_TotalCostUSD :: rat
  bh_Action :: string
  bh_ApprovalCount :: int
  bh_ApprovalsExhausted :: bool

text \<open>The hook functions: what each is given and what it may return.\<close>

type_synonym 'w before_llm_hook = "run_meta \<Rightarrow> llm_request \<Rightarrow> ('w, go_error + llm_request) state"
type_synonym 'w after_llm_hook = "run_meta \<Rightarrow> llm_response \<Rightarrow> ('w, go_error + llm_response) state"
type_synonym 'w before_tool_hook = "run_meta \<Rightarrow> hook_tool_call \<Rightarrow> ('w, go_error + go_args) state"
type_synonym 'w after_tool_hook = "run_meta \<Rightarrow> hook_tool_call \<Rightarrow> string \<Rightarrow> go_error option \<Rightarrow>
  ('w, go_error + string \<times> go_error option) state"
type_synonym 'w before_retrieve_hook =
  "run_meta \<Rightarrow> retrieve_call \<Rightarrow> ('w, go_error + string) state"
type_synonym 'w after_retrieve_hook =
  "run_meta \<Rightarrow> retrieve_call \<Rightarrow> document list \<Rightarrow> ('w, go_error + document list) state"
type_synonym 'w before_load_hook = "run_meta \<Rightarrow> memory_load_call \<Rightarrow>
  ('w, go_error + string \<times> int \<times> rat \<times> string list) state"
type_synonym 'w after_load_hook = "run_meta \<Rightarrow> memory_load_call \<Rightarrow> string \<Rightarrow>
  ('w, go_error + string) state"
type_synonym 'w before_store_hook = "run_meta \<Rightarrow> memory_store_call \<Rightarrow>
  ('w, go_error + memory_record \<times> string) state"
type_synonym 'w after_store_hook = "run_meta \<Rightarrow> memory_store_call \<Rightarrow> ('w, go_error option) state"
type_synonym 'w budget_hook = "budget_hook_input \<Rightarrow> ('w, unit) state"

record 'w agent_hooks =
  BeforeLLM :: "'w before_llm_hook option list"
  AfterLLM :: "'w after_llm_hook option list"
  BeforeTool :: "'w before_tool_hook option list"
  AfterTool :: "'w after_tool_hook option list"
  BeforeRetrieve :: "'w before_retrieve_hook option list"
  AfterRetrieve :: "'w after_retrieve_hook option list"
  BeforeMemoryLoad :: "'w before_load_hook option list"
  AfterMemoryLoad :: "'w after_load_hook option list"
  BeforeMemoryStore :: "'w before_store_hook option list"
  AfterMemoryStore :: "'w after_store_hook option list"
  OnBudgetExceeded :: "'w budget_hook option list"

record 'w hook_group =
  hg_Name :: string
  hg_Hooks :: "'w agent_hooks"

definition Merge :: "'w agent_hooks \<Rightarrow> 'w agent_hooks \<Rightarrow> 'w agent_hooks" where
  "Merge h g = \<lparr>BeforeLLM = BeforeLLM h @ BeforeLLM g, AfterLLM = AfterLLM h @ AfterLLM g,
     BeforeTool = BeforeTool h @ BeforeTool g, AfterTool = AfterTool h @ AfterTool g,
     BeforeRetrieve = BeforeRetrieve h @ BeforeRetrieve g,
     AfterRetrieve = AfterRetrieve h @ AfterRetrieve g,
     BeforeMemoryLoad = BeforeMemoryLoad h @ BeforeMemoryLoad g,
     AfterMemoryLoad = AfterMemoryLoad h @ AfterMemoryLoad g,
     BeforeMemoryStore = BeforeMemoryStore h @ BeforeMemoryStore g,
     AfterMemoryStore = AfterMemoryStore h @ AfterMemoryStore g,
     OnBudgetExceeded = OnBudgetExceeded h @ OnBudgetExceeded g\<rparr>"

definition no_hooks :: "'w agent_hooks" where
  "no_hooks = \<lparr>BeforeLLM = [], AfterLLM = [], BeforeTool = [], AfterTool = [], BeforeRetrieve = [],
     AfterRetrieve = [], BeforeMemoryLoad = [], AfterMemoryLoad = [], BeforeMemoryStore = [],
     AfterMemoryStore = [], OnBudgetExceeded = []\<rparr>"

section \<open>Runners\<close>

definition run_chain :: "('w agent_hooks \<Rightarrow> 'h option list) \<Rightarrow>
    (run_meta \<Rightarrow> 'h \<Rightarrow> 'a \<Rightarrow> ('w, 'e + 'a) io) \<Rightarrow> 'w hook_group list \<Rightarrow> run_meta \<Rightarrow> 'a \<Rightarrow>
    ('w, 'e + 'a) io" where
  "run_chain sel call groups meta x = foldE (\<lambda>current g.
     if sel (hg_Hooks g) = [] then State_Monad.return (Inr current)
     else let groupMeta = meta\<lparr>rm_HooksGroup := hg_Name g\<rparr> in
       foldE (\<lambda>current hook. case hook of
           None \<Rightarrow> State_Monad.return (Inr current)
         | Some h \<Rightarrow> call groupMeta h current) current (sel (hg_Hooks g))) x groups"

text \<open>How each runner calls a hook and takes over its output.\<close>

definition call_before_llm ::
    "run_meta \<Rightarrow> 'w before_llm_hook \<Rightarrow> llm_request \<Rightarrow> ('w, go_error + llm_request) io" where
  "call_before_llm m h req = ext (h m req)"

definition RunBeforeLLM :: "'w hook_group list \<Rightarrow> run_meta \<Rightarrow> llm_request \<Rightarrow>
    ('w, go_error + llm_request) io" where
  "RunBeforeLLM = run_chain BeforeLLM call_before_llm"

definition call_after_llm ::
    "run_meta \<Rightarrow> 'w after_llm_hook \<Rightarrow> llm_response \<Rightarrow> ('w, go_error + llm_response) io" where
  "call_after_llm m h resp = ext (h m resp)"

definition RunAfterLLM :: "'w hook_group list \<Rightarrow> run_meta \<Rightarrow> llm_response \<Rightarrow>
    ('w, go_error + llm_response) io" where
  "RunAfterLLM = run_chain AfterLLM call_after_llm"

definition cloneToolArgs :: "go_args \<Rightarrow> go_args" where
  "cloneToolArgs args = (case args of None \<Rightarrow> None | Some [] \<Rightarrow> None | Some xs \<Rightarrow> Some xs)"

definition call_before_tool ::
    "run_meta \<Rightarrow> 'w before_tool_hook \<Rightarrow> hook_tool_call \<Rightarrow> ('w, go_error + hook_tool_call) io" where
  "call_before_tool m h c = do {
     r \<leftarrow> ext (h m c);
     State_Monad.return (case r of Inl e \<Rightarrow> Inl e
       | Inr args \<Rightarrow> Inr (c\<lparr>ht_Args := cloneToolArgs args\<rparr>)) }"

definition RunBeforeTool :: "'w hook_group list \<Rightarrow> run_meta \<Rightarrow> hook_tool_call \<Rightarrow>
    ('w, go_error + hook_tool_call) io" where
  "RunBeforeTool groups meta c =
    (if \<not> HooksEligible (ht_Kind c) then State_Monad.return (Inr c)
     else run_chain BeforeTool call_before_tool groups meta c)"

text \<open>\<open>RunAfterTool\<close> returns what it has also when a hook aborts the chain.\<close>

definition call_after_tool :: "hook_tool_call \<Rightarrow> run_meta \<Rightarrow> 'w after_tool_hook \<Rightarrow>
    string \<times> go_error option \<Rightarrow>
    ('w, ((string \<times> go_error option) \<times> go_error) + string \<times> go_error option) io" where
  "call_after_tool c m h cur = do {
     r \<leftarrow> ext (h m c (fst cur) (snd cur));
     State_Monad.return (case r of Inl e \<Rightarrow> Inl (cur, e) | Inr out \<Rightarrow> Inr out) }"

definition RunAfterTool :: "'w hook_group list \<Rightarrow> run_meta \<Rightarrow> hook_tool_call \<Rightarrow> string \<Rightarrow>
    go_error option \<Rightarrow> ('w, (string \<times> go_error option) \<times> go_error option) io" where
  "RunAfterTool groups meta c content execErr =
    (if \<not> HooksEligible (ht_Kind c) then State_Monad.return ((content, execErr), None)
     else do {
       r \<leftarrow> run_chain AfterTool (call_after_tool c) groups meta (content, execErr);
       State_Monad.return (case r of Inl (cur, e) \<Rightarrow> (cur, Some e) | Inr cur \<Rightarrow> (cur, None)) })"

definition call_before_retrieve ::
    "run_meta \<Rightarrow> 'w before_retrieve_hook \<Rightarrow> retrieve_call \<Rightarrow> ('w, go_error + retrieve_call) io" where
  "call_before_retrieve m h c = do {
     r \<leftarrow> ext (h m c);
     State_Monad.return (case r of Inl e \<Rightarrow> Inl e | Inr q \<Rightarrow> Inr (c\<lparr>rc_Query := q\<rparr>)) }"

definition RunBeforeRetrieve :: "'w hook_group list \<Rightarrow> run_meta \<Rightarrow> retrieve_call \<Rightarrow>
    ('w, go_error + retrieve_call) io" where
  "RunBeforeRetrieve = run_chain BeforeRetrieve call_before_retrieve"

definition call_after_retrieve :: "retrieve_call \<Rightarrow> run_meta \<Rightarrow> 'w after_retrieve_hook \<Rightarrow>
    document list \<Rightarrow> ('w, go_error + document list) io" where
  "call_after_retrieve c m h docs = ext (h m c docs)"

definition RunAfterRetrieve :: "'w hook_group list \<Rightarrow> run_meta \<Rightarrow> retrieve_call \<Rightarrow>
    document list \<Rightarrow> ('w, go_error + document list) io" where
  "RunAfterRetrieve groups meta c = run_chain AfterRetrieve (call_after_retrieve c) groups meta"

definition call_before_load ::
    "run_meta \<Rightarrow> 'w before_load_hook \<Rightarrow> memory_load_call \<Rightarrow> ('w, go_error + memory_load_call) io" where
  "call_before_load m h c = do {
     r \<leftarrow> ext (h m c);
     State_Monad.return (case r of Inl e \<Rightarrow> Inl e
       | Inr (q, k, mn, kinds) \<Rightarrow> Inr (c\<lparr>ml_Query := q, ml_Limit := k, ml_MinScore := mn,
            ml_Kinds := kinds\<rparr>)) }"

definition RunBeforeMemoryLoad :: "'w hook_group list \<Rightarrow> run_meta \<Rightarrow> memory_load_call \<Rightarrow>
    ('w, go_error + memory_load_call) io" where
  "RunBeforeMemoryLoad = run_chain BeforeMemoryLoad call_before_load"

definition call_after_load :: "memory_load_call \<Rightarrow> run_meta \<Rightarrow> 'w after_load_hook \<Rightarrow> string \<Rightarrow>
    ('w, go_error + string) io" where
  "call_after_load c m h promptContext = ext (h m c promptContext)"

definition RunAfterMemoryLoad :: "'w hook_group list \<Rightarrow> run_meta \<Rightarrow> memory_load_call \<Rightarrow> string \<Rightarrow>
    ('w, go_error + string) io" where
  "RunAfterMemoryLoad groups meta c = run_chain AfterMemoryLoad (call_after_load c) groups meta"

definition call_before_store ::
    "run_meta \<Rightarrow> 'w before_store_hook \<Rightarrow> memory_store_call \<Rightarrow> ('w, go_error + memory_store_call) io" where
  "call_before_store m h c = do {
     r \<leftarrow> ext (h m c);
     State_Monad.return (case r of Inl e \<Rightarrow> Inl e
       | Inr (rec, ident) \<Rightarrow> Inr (c\<lparr>ms_Record := rec, ms_ID := ident\<rparr>)) }"

definition RunBeforeMemoryStore :: "'w hook_group list \<Rightarrow> run_meta \<Rightarrow> memory_store_call \<Rightarrow>
    ('w, go_error + memory_store_call) io" where
  "RunBeforeMemoryStore = run_chain BeforeMemoryStore call_before_store"

definition call_after_store :: "memory_store_call \<Rightarrow> run_meta \<Rightarrow> 'w after_store_hook \<Rightarrow> unit \<Rightarrow>
    ('w, go_error + unit) io" where
  "call_after_store c m h u = do {
     r \<leftarrow> ext (h m c);
     State_Monad.return (case r of Some e \<Rightarrow> Inl e | None \<Rightarrow> Inr ()) }"

definition RunAfterMemoryStore :: "'w hook_group list \<Rightarrow> run_meta \<Rightarrow> memory_store_call \<Rightarrow>
    ('w, go_error option) io" where
  "RunAfterMemoryStore groups meta c = do {
     r \<leftarrow> run_chain AfterMemoryStore (call_after_store c) groups meta ();
     State_Monad.return (case r of Inl e \<Rightarrow> Some e | Inr _ \<Rightarrow> None) }"

definition RunOnBudgetExceeded :: "'w hook_group list \<Rightarrow> budget_hook_input \<Rightarrow> ('w, unit) io" where
  "RunOnBudgetExceeded groups input = foldM (\<lambda>u g.
     if OnBudgetExceeded (hg_Hooks g) = [] then State_Monad.return ()
     else let groupInput = input\<lparr>bh_RunMeta := (bh_RunMeta input)\<lparr>rm_HooksGroup := hg_Name g\<rparr>\<rparr> in
       foldM (\<lambda>u hook. case hook of None \<Rightarrow> State_Monad.return () | Some h \<Rightarrow> ext (h groupInput))
         () (OnBudgetExceeded (hg_Hooks g))) () groups"

section \<open>The contract of a hook chain\<close>

text \<open>
  What the runtime relies on, whatever the hook point: the hooks that are not nil run one after
  another in registration and declaration order, each on its predecessor's output and under
  its own group's name, and they touch nothing but the external world.
\<close>

locale hook_chain =
  fixes run :: "'w hook_group list \<Rightarrow> run_meta \<Rightarrow> 'a \<Rightarrow> ('w, 'e + 'a) io"
    and steps :: "run_meta \<Rightarrow> 'w hook_group \<Rightarrow> ('a \<Rightarrow> ('w, 'e + 'a) io) list"
  assumes run_flat: "run gs meta x = foldE (\<lambda>current f. f current) x (concat (map (steps meta) gs))"
    and steps_frame: "f \<in> set (steps meta g) \<Longrightarrow> keeps ext_only (f x)"
begin

lemma run_Nil: "run [] meta x = State_Monad.return (Inr x)"
  by (simp add: run_flat)

lemma run_append: "run (gs @ hs) meta x = do {
    r \<leftarrow> run gs meta x;
    (case r of Inl e \<Rightarrow> State_Monad.return (Inl e) | Inr y \<Rightarrow> run hs meta y) }"
  by (simp add: run_flat foldE_append cong: sum.case_cong)

lemma run_idle: "(\<And>g. g \<in> set gs \<Longrightarrow> steps meta g = []) \<Longrightarrow> run gs meta x = State_Monad.return (Inr x)"
proof -
  assume "\<And>g. g \<in> set gs \<Longrightarrow> steps meta g = []"
  then have c: "concat (map (steps meta) gs) = []" by simp
  show ?thesis unfolding run_flat c by simp
qed

lemma run_merge: "steps meta g = steps meta g1 @ steps meta g2 \<Longrightarrow> run [g] meta x = run [g1, g2] meta x"
  by (simp add: run_flat)

lemma run_frame: "keeps ext_only (run gs meta x)"
  unfolding run_flat by (rule keeps_foldE) (auto intro: steps_frame)

lemma run_abort: "run_state (run gs meta x) s = (Inl e, s') \<Longrightarrow>
    run_state (run (gs @ hs) meta x) s = (Inl e, s')"
  by (simp add: run_append)

lemma run_preserves:
  assumes "\<And>f g y s z s'. g \<in> set gs \<Longrightarrow> f \<in> set (steps meta g) \<Longrightarrow> P y \<Longrightarrow>
      run_state (f y) s = (Inr z, s') \<Longrightarrow> P z"
    and "P x" "run_state (run gs meta x) s = (Inr z, s')"
  shows "P z"
proof -
  have "P z" if "\<And>f y s z s'. f \<in> set fs \<Longrightarrow> P y \<Longrightarrow> run_state (f y) s = (Inr z, s') \<Longrightarrow> P z"
    "P x" "run_state (foldE (\<lambda>current f. f current) x fs) s = (Inr z, s')" for fs
    using that
  proof (induction fs arbitrary: x s)
    case (Cons f fs)
    obtain r s1 where f: "run_state (f x) s = (r, s1)" by fastforce
    with Cons.prems(3) obtain y where y: "r = Inr y"
      "run_state (foldE (\<lambda>current f. f current) y fs) s1 = (Inr z, s')"
      by (cases r) auto
    from f y(1) Cons.prems(1) [of f x s y s1] Cons.prems(2) have "P y" by simp
    show ?case
    proof (rule Cons.IH [OF _ \<open>P y\<close> y(2)])
      fix h y s z s' assume "h \<in> set fs" "P y" "run_state (h y) s = (Inr z, s')"
      then show "P z" by (intro Cons.prems(1) [of h y s z s']) simp_all
    qed
  qed simp
  from this [of "concat (map (steps meta) gs)"] assms show ?thesis
    by (fastforce simp: run_flat)
qed

end

text \<open>The nested loops of the runners meet the contract.\<close>

definition hook_steps :: "('w agent_hooks \<Rightarrow> 'h option list) \<Rightarrow>
    (run_meta \<Rightarrow> 'h \<Rightarrow> 'a \<Rightarrow> ('w, 'e + 'a) io) \<Rightarrow> run_meta \<Rightarrow> 'w hook_group \<Rightarrow>
    ('a \<Rightarrow> ('w, 'e + 'a) io) list" where
  "hook_steps sel call meta g =
    map (call (meta\<lparr>rm_HooksGroup := hg_Name g\<rparr>)) (List.map_filter id (sel (hg_Hooks g)))"

lemma foldE_hooks: "foldE (\<lambda>current hook. case hook of
       None \<Rightarrow> State_Monad.return (Inr current) | Some h \<Rightarrow> call gm h current) x hs =
    foldE (\<lambda>current f. f current) x (map (call gm) (List.map_filter id hs))"
  by (induction hs arbitrary: x) (auto simp: List.map_filter_simps cong: sum.case_cong split: option.splits)

lemma run_chain_flat: "run_chain sel call gs meta x =
    foldE (\<lambda>current f. f current) x (concat (map (hook_steps sel call meta) gs))"
proof (induction gs arbitrary: x)
  case (Cons g gs)
  have "run_chain sel call (g # gs) meta x = do {
      r \<leftarrow> foldE (\<lambda>current f. f current) x (hook_steps sel call meta g);
      (case r of Inl e \<Rightarrow> State_Monad.return (Inl e) | Inr y \<Rightarrow> run_chain sel call gs meta y) }"
    unfolding run_chain_def
    by (cases "sel (hg_Hooks g) = []")
      (simp_all add: hook_steps_def foldE_hooks Let_def List.map_filter_simps)
  then show ?case by (simp add: Cons.IH foldE_append cong: sum.case_cong)
qed (simp add: run_chain_def)

lemma hook_chainI:
  assumes "\<And>m h x. keeps ext_only (call m h x)"
  shows "hook_chain (run_chain sel call) (hook_steps sel call)"
  by unfold_locales (auto simp: run_chain_flat hook_steps_def assms)

lemmas call_defs = call_before_llm_def call_after_llm_def call_before_tool_def call_after_tool_def
  call_before_retrieve_def call_after_retrieve_def call_before_load_def call_after_load_def
  call_before_store_def call_after_store_def

lemma keeps_ext_call: "keeps ext_only (do { r \<leftarrow> ext m; State_Monad.return (f r) })"
  by (intro keeps_bind keeps_ext keeps_return) simp_all

interpretation before_llm: hook_chain RunBeforeLLM "hook_steps BeforeLLM call_before_llm"
  unfolding RunBeforeLLM_def by (rule hook_chainI) (auto simp: call_defs intro: keeps_ext)

interpretation after_llm: hook_chain RunAfterLLM "hook_steps AfterLLM call_after_llm"
  unfolding RunAfterLLM_def by (rule hook_chainI) (auto simp: call_defs intro: keeps_ext)

interpretation before_tool: hook_chain "run_chain BeforeTool call_before_tool"
    "hook_steps BeforeTool call_before_tool"
  by (rule hook_chainI) (auto simp: call_defs intro: keeps_ext_call)

interpretation after_tool: hook_chain "run_chain AfterTool (call_after_tool c)"
    "hook_steps AfterTool (call_after_tool c)" for c
  by (rule hook_chainI) (auto simp: call_defs intro: keeps_ext_call)

interpretation before_retrieve: hook_chain RunBeforeRetrieve
    "hook_steps BeforeRetrieve call_before_retrieve"
  unfolding RunBeforeRetrieve_def by (rule hook_chainI) (auto simp: call_defs intro: keeps_ext_call)

interpretation after_retrieve: hook_chain "\<lambda>gs m. RunAfterRetrieve gs m c"
    "hook_steps AfterRetrieve (call_after_retrieve c)" for c
  unfolding RunAfterRetrieve_def by (rule hook_chainI) (auto simp: call_defs intro: keeps_ext)

interpretation before_load: hook_chain RunBeforeMemoryLoad
    "hook_steps BeforeMemoryLoad call_before_load"
  unfolding RunBeforeMemoryLoad_def
  by (rule hook_chainI) (auto simp: call_defs intro: keeps_ext_call)

interpretation after_load: hook_chain "\<lambda>gs m. RunAfterMemoryLoad gs m c"
    "hook_steps AfterMemoryLoad (call_after_load c)" for c
  unfolding RunAfterMemoryLoad_def by (rule hook_chainI) (auto simp: call_defs intro: keeps_ext)

interpretation before_store: hook_chain RunBeforeMemoryStore
    "hook_steps BeforeMemoryStore call_before_store"
  unfolding RunBeforeMemoryStore_def
  by (rule hook_chainI) (auto simp: call_defs intro: keeps_ext_call)

interpretation after_store: hook_chain "run_chain AfterMemoryStore (call_after_store c)"
    "hook_steps AfterMemoryStore (call_after_store c)" for c
  by (rule hook_chainI) (auto simp: call_defs intro: keeps_ext_call)

section \<open>Properties\<close>

definition merged_group :: "string \<Rightarrow> 'w agent_hooks \<Rightarrow> 'w agent_hooks \<Rightarrow> 'w hook_group" where
  "merged_group n h g = \<lparr>hg_Name = n, hg_Hooks = Merge h g\<rparr>"

definition two_groups :: "string \<Rightarrow> 'w agent_hooks \<Rightarrow> 'w agent_hooks \<Rightarrow> 'w hook_group list" where
  "two_groups n h g = [\<lparr>hg_Name = n, hg_Hooks = h\<rparr>, \<lparr>hg_Name = n, hg_Hooks = g\<rparr>]"

lemma hook_steps_merged:
  assumes "sel (Merge h g) = sel h @ sel g"
  shows "hook_steps sel call m (merged_group n h g) =
    hook_steps sel call m \<lparr>hg_Name = n, hg_Hooks = h\<rparr> @ hook_steps sel call m \<lparr>hg_Name = n, hg_Hooks = g\<rparr>"
  by (simp add: hook_steps_def merged_group_def assms List.map_filter_def)

lemmas merge_steps = hook_steps_merged Merge_def

lemma run_chain_merged:
  assumes "sel (Merge h g) = sel h @ sel g"
  shows "run_chain sel call [merged_group n h g] m x = run_chain sel call (two_groups n h g) m x"
  by (simp add: run_chain_flat two_groups_def hook_steps_merged [of sel, OF assms])

lemma budget_hooks_merged:
  "RunOnBudgetExceeded [merged_group n h g] i = RunOnBudgetExceeded (two_groups n h g) i"
proof -
  have "foldM (\<lambda>u hook. case hook of None \<Rightarrow> State_Monad.return () | Some f \<Rightarrow> ext (f gi)) () xs
      = State_Monad.return ()" if "xs = []" for xs :: "'w budget_hook option list" and gi
    using that by simp
  then show ?thesis
    by (simp add: RunOnBudgetExceeded_def merged_group_def two_groups_def Merge_def Let_def foldM_append)
qed

text \<open>\<open>Merge\<close> keeps the order of execution: at every hook point a group with merged hooks does
  exactly what two groups of that name do one after the other, on every input and in every
  world, the first error included.\<close>

theorem merge_is_sequence:
  "RunBeforeLLM [merged_group n h g] m rq = RunBeforeLLM (two_groups n h g) m rq \<and>
   RunAfterLLM [merged_group n h g] m rp = RunAfterLLM (two_groups n h g) m rp \<and>
   RunBeforeTool [merged_group n h g] m tc = RunBeforeTool (two_groups n h g) m tc \<and>
   RunAfterTool [merged_group n h g] m tc c e = RunAfterTool (two_groups n h g) m tc c e \<and>
   RunBeforeRetrieve [merged_group n h g] m rc = RunBeforeRetrieve (two_groups n h g) m rc \<and>
   RunAfterRetrieve [merged_group n h g] m rc ds = RunAfterRetrieve (two_groups n h g) m rc ds \<and>
   RunBeforeMemoryLoad [merged_group n h g] m lc = RunBeforeMemoryLoad (two_groups n h g) m lc \<and>
   RunAfterMemoryLoad [merged_group n h g] m lc c = RunAfterMemoryLoad (two_groups n h g) m lc c \<and>
   RunBeforeMemoryStore [merged_group n h g] m sc = RunBeforeMemoryStore (two_groups n h g) m sc \<and>
   RunAfterMemoryStore [merged_group n h g] m sc = RunAfterMemoryStore (two_groups n h g) m sc \<and>
   RunOnBudgetExceeded [merged_group n h g] bi = RunOnBudgetExceeded (two_groups n h g) bi"
  by (intro conjI)
    (simp_all add: RunBeforeLLM_def RunAfterLLM_def RunBeforeTool_def RunAfterTool_def
      RunBeforeRetrieve_def RunAfterRetrieve_def RunBeforeMemoryLoad_def RunAfterMemoryLoad_def
      RunBeforeMemoryStore_def RunAfterMemoryStore_def run_chain_merged Merge_def budget_hooks_merged)

text \<open>Hooks cannot touch what they are given as read-only context, whatever they return: a tool
  call that comes out of the \<open>BeforeTool\<close> chain has the identity it had (and is the same call
  when its kind is not hook-eligible), a retrieval its mode and retriever, and memory loads and
  stores the scope of the run, so a hook cannot make the runtime read or write another tenant's
  memories.\<close>

theorem read_only_context:
  "(run_state (RunBeforeTool gs m c) s = (Inr c', s') \<longrightarrow>
      ht_ID c' = ht_ID c \<and> ht_Name c' = ht_Name c \<and> ht_DisplayName c' = ht_DisplayName c \<and>
      ht_Kind c' = ht_Kind c \<and> (\<not> HooksEligible (ht_Kind c) \<longrightarrow> c' = c \<and> s' = s)) \<and>
   (run_state (RunBeforeRetrieve gs m r) s = (Inr r', s') \<longrightarrow>
      rc_Mode r' = rc_Mode r \<and> rc_RetrieverName r' = rc_RetrieverName r) \<and>
   (run_state (RunBeforeMemoryLoad gs m l) s = (Inr l', s') \<longrightarrow> ml_Scope l' = ml_Scope l) \<and>
   (run_state (RunBeforeMemoryStore gs m st) s = (Inr st', s') \<longrightarrow> ms_Scope st' = ms_Scope st)"
proof (intro conjI impI)
  assume "run_state (RunBeforeRetrieve gs m r) s = (Inr r', s')"
  then have "(\<lambda>y. rc_Mode y = rc_Mode r \<and> rc_RetrieverName y = rc_RetrieverName r) r'"
    by (rule before_retrieve.run_preserves [rotated 2])
      (auto simp: hook_steps_def call_before_retrieve_def split: prod.splits sum.splits)
  then show "rc_Mode r' = rc_Mode r" "rc_RetrieverName r' = rc_RetrieverName r" by simp_all
next
  assume "run_state (RunBeforeMemoryLoad gs m l) s = (Inr l', s')"
  then show "ml_Scope l' = ml_Scope l"
    by (rule before_load.run_preserves [rotated 2])
      (auto simp: hook_steps_def call_before_load_def split: prod.splits sum.splits)
next
  assume "run_state (RunBeforeMemoryStore gs m st) s = (Inr st', s')"
  then show "ms_Scope st' = ms_Scope st"
    by (rule before_store.run_preserves [rotated 2])
      (auto simp: hook_steps_def call_before_store_def split: prod.splits sum.splits)
next
  assume r: "run_state (RunBeforeTool gs m c) s = (Inr c', s')"
  have "(\<lambda>y. ht_ID y = ht_ID c \<and> ht_Name y = ht_Name c \<and> ht_DisplayName y = ht_DisplayName c \<and>
      ht_Kind y = ht_Kind c) c'"
  proof (cases "HooksEligible (ht_Kind c)")
    case True
    with r have "run_state (run_chain BeforeTool call_before_tool gs m c) s = (Inr c', s')"
      by (simp add: RunBeforeTool_def)
    then show ?thesis
      by (rule before_tool.run_preserves [rotated 2])
        (auto simp: hook_steps_def call_before_tool_def split: prod.splits sum.splits)
  qed (use r in \<open>simp add: RunBeforeTool_def\<close>)
  then show "ht_ID c' = ht_ID c" "ht_Name c' = ht_Name c" "ht_DisplayName c' = ht_DisplayName c"
    "ht_Kind c' = ht_Kind c" by simp_all
  show "c' = c" "s' = s" if "\<not> HooksEligible (ht_Kind c)"
    using r that by (simp_all add: RunBeforeTool_def)
qed

text \<open>A hook that tries to redirect a memory load to another query and every limit.\<close>

definition redirect_group :: "unit hook_group" where
  "redirect_group = \<lparr>hg_Name = ''g'', hg_Hooks = no_hooks\<lparr>BeforeMemoryLoad :=
     [None, Some (\<lambda>m c. State_Monad.return (Inr (''all'', 0, 0, [])))]\<rparr>\<rparr>"

theorem read_only_context_witness:
  "\<exists>l' s'. run_state (RunBeforeMemoryLoad [redirect_group] \<lparr>rm_RunID = ''r'', rm_Iteration = 0,
        rm_HooksGroup = ''''\<rparr>
      \<lparr>ml_Scope = \<lparr>sc_UserID = ''u'', sc_TenantID = ''t'', sc_AgentID = '''', sc_Tags = []\<rparr>,
       ml_Query = ''q'', ml_Limit = 5, ml_MinScore = 0, ml_Kinds = [''fact'']\<rparr>)
      (new_world ()) = (Inr l', s') \<and>
    ml_Query l' = ''all'' \<and> sc_TenantID (ml_Scope l') = ''t''"
proof -
  let ?m = "\<lparr>rm_RunID = ''r'', rm_Iteration = 0, rm_HooksGroup = ''''\<rparr>"
  let ?l = "\<lparr>ml_Scope = \<lparr>sc_UserID = ''u'', sc_TenantID = ''t'', sc_AgentID = '''', sc_Tags = []\<rparr>,
       ml_Query = ''q'', ml_Limit = 5, ml_MinScore = 0, ml_Kinds = [''fact'']\<rparr>"
  let ?s = "(new_world ())"
  let ?l' = "?l\<lparr>ml_Query := ''all'', ml_Limit := 0, ml_Kinds := []\<rparr>"
  have r: "run_state (RunBeforeMemoryLoad [redirect_group] ?m ?l) ?s = (Inr ?l', ?s)"
    by (simp add: RunBeforeMemoryLoad_def run_chain_def redirect_group_def no_hooks_def Let_def
        call_before_load_def)
  have "ml_Scope ?l' = ml_Scope ?l"
    using read_only_context [of "[redirect_group]" ?m _ ?s _ _ _ _ ?l ?l'] r by blast
  with r show ?thesis by simp
qed


end
