(* ===== verification/Conversation.thy ===== *)
theory Conversation
  imports Effects
begin

text \<open>
  The conversation stores of \<open>pkg/conversation\<close>. \<open>inmem\<close> keeps a map from conversation ids to
  bounded message lists; its mutex makes every method atomic. \<open>redis\<close> keeps each conversation in
  a Redis list; the server and the JSON encoding are third-party code and enter as the
  operations \<open>redis_ops\<close>, \<open>marshal\<close> and \<open>unmarshal\<close>, with what Redis documents about lists as the
  hypothesis \<open>redis_lists\<close>. \<open>Inl\<close> of the in-memory listing is a run-time panic.
\<close>

section \<open>Listing options\<close>

record list_messages_options =
  lo_Limit :: int
  lo_Offset :: int
  lo_Roles :: "string list"

type_synonym list_messages_option = "list_messages_options \<Rightarrow> list_messages_options"

definition WithLimit :: "int \<Rightarrow> list_messages_option" where
  "WithLimit limit lmo = lmo\<lparr>lo_Limit := limit\<rparr>"

definition WithOffset :: "int \<Rightarrow> list_messages_option" where
  "WithOffset offset lmo = lmo\<lparr>lo_Offset := offset\<rparr>"

definition WithRoles :: "string list \<Rightarrow> list_messages_option" where
  "WithRoles roles lmo = lmo\<lparr>lo_Roles := roles\<rparr>"

definition default_list_options :: list_messages_options where
  "default_list_options = \<lparr>lo_Limit = - 1, lo_Offset = - 1,
     lo_Roles = [RoleUser, RoleAssistant, RoleTool]\<rparr>"

definition apply_list_options :: "int \<Rightarrow> list_messages_option list \<Rightarrow> list_messages_options" where
  "apply_list_options n opts =
    (let lmo = fold (\<lambda>opt lmo. opt lmo) opts default_list_options;
         lmo1 = (if lo_Limit lmo < 0 then lmo\<lparr>lo_Limit := n\<rparr> else lmo)
     in if lo_Offset lmo1 < 0 then lmo1\<lparr>lo_Offset := 0\<rparr> else lmo1)"

text \<open>The index range \<open>[start, end)\<close> of the messages to look at.\<close>

definition list_start :: "int \<Rightarrow> list_messages_options \<Rightarrow> int" where
  "list_start n lmo = (let s = n - lo_Offset lmo - lo_Limit lmo in if s < 0 then 0 else s)"

definition list_end :: "int \<Rightarrow> list_messages_options \<Rightarrow> int" where
  "list_end n lmo = (let e = n - lo_Offset lmo in if e > n then n else e)"

fun roleIn :: "string \<Rightarrow> string list \<Rightarrow> bool" where
  "roleIn role [] = False"
| "roleIn role (r # rs) = (if role = r then True else roleIn role rs)"

lemma roleIn_iff: "roleIn role rs \<longleftrightarrow> role \<in> set rs"
  by (induction rs) auto

definition role_kept :: "string list \<Rightarrow> message \<Rightarrow> bool" where
  "role_kept roles msg \<longleftrightarrow> \<not> (roles \<noteq> [] \<and> \<not> roleIn (msg_Role msg) roles)"

section \<open>The in-memory store\<close>

record inmem_conversation =
  im_maxSize :: int
  im_messages :: "string \<rightharpoonup> message list"

definition inmem_New :: "(inmem_conversation \<Rightarrow> inmem_conversation) list \<Rightarrow> inmem_conversation" where
  "inmem_New opts =
    (let c = fold (\<lambda>option c. option c) opts \<lparr>im_maxSize = 100, im_messages = Map.empty\<rparr>
     in if im_maxSize c \<le> 0 then c\<lparr>im_maxSize := 100\<rparr> else c)"

definition inmem_WithMaxSize :: "int \<Rightarrow> inmem_conversation \<Rightarrow> inmem_conversation" where
  "inmem_WithMaxSize sz c = c\<lparr>im_maxSize := sz\<rparr>"

definition inmem_IsDistributed :: "inmem_conversation \<Rightarrow> bool" where
  "inmem_IsDistributed c = False"

definition inmem_AddMessage :: "inmem_conversation \<Rightarrow> string \<Rightarrow> message \<Rightarrow> inmem_conversation" where
  "inmem_AddMessage c i msg =
    (if i = '''' then c
     else let msgs = (case im_messages c i of None \<Rightarrow> [] | Some ms \<Rightarrow> ms) @ [msg];
              msgs' = (if im_maxSize c > 0 \<and> int (length msgs) > im_maxSize c
                       then drop (nat (int (length msgs) - im_maxSize c)) msgs else msgs)
          in c\<lparr>im_messages := (im_messages c)(i \<mapsto> msgs')\<rparr>)"

definition inmem_ListMessages ::
    "inmem_conversation \<Rightarrow> string \<Rightarrow> list_messages_option list \<Rightarrow> string + message list" where
  "inmem_ListMessages c i opts =
    (if i = '''' then Inr []
     else case im_messages c i of
       None \<Rightarrow> Inr []
     | Some cp \<Rightarrow>
         (let n = int (length cp); lmo = apply_list_options n opts;
              e = list_end n lmo; s = list_start n lmo
          in if e - s < 0 then Inl ''makeslice: cap out of range''
             else Inr (filter (role_kept (lo_Roles lmo)) (map ((!) cp) [nat s..<nat e]))))"

definition inmem_Clear :: "inmem_conversation \<Rightarrow> string \<Rightarrow> inmem_conversation" where
  "inmem_Clear c i = (if i = '''' then c else c\<lparr>im_messages := (im_messages c)(i := None)\<rparr>)"

section \<open>The Redis store\<close>

text \<open>
  The commands the store issues. The pipeline of \<open>RPUSH\<close> and \<open>LLEN\<close> yields the error of \<open>Exec\<close>, or
  the result of the length command.
\<close>

record 'r redis_ops =
  rd_RPushLLen :: "string \<Rightarrow> string \<Rightarrow> ('r, go_error + (go_error + int)) state"
  rd_LTrim :: "string \<Rightarrow> int \<Rightarrow> int \<Rightarrow> ('r, go_error option) state"
  rd_Expire :: "string \<Rightarrow> int \<Rightarrow> ('r, go_error option) state"
  rd_LLen :: "string \<Rightarrow> ('r, go_error + int) state"
  rd_LRange :: "string \<Rightarrow> int \<Rightarrow> int \<Rightarrow> ('r, go_error + string list) state"
  rd_Del :: "string \<Rightarrow> ('r, go_error option) state"

record redis_config =
  rc_maxSize :: int
  rc_ttl :: int
  rc_keyPrefix :: string

definition redis_keyPrefix :: string where "redis_keyPrefix = ''conversation''"

definition getKey :: "redis_config \<Rightarrow> string \<Rightarrow> string" where
  "getKey c i = (let p = (if rc_keyPrefix c = '''' then redis_keyPrefix else rc_keyPrefix c)
     in p @ '':'' @ i @ '':messages'')"

text \<open>The defaults \<open>NewConversation\<close> fills in; the connection is made by the client library.\<close>

definition redis_defaults :: "redis_config \<Rightarrow> redis_config" where
  "redis_defaults c =
    (let c1 = (if rc_maxSize c \<le> 0 then c\<lparr>rc_maxSize := 100\<rparr> else c);
         c2 = (if rc_keyPrefix c1 = '''' then c1\<lparr>rc_keyPrefix := redis_keyPrefix\<rparr> else c1)
     in if rc_ttl c2 \<le> 0 then c2\<lparr>rc_ttl := 24 * 3600 * 1000000000\<rparr> else c2)"

definition redis_AddMessage :: "'r redis_ops \<Rightarrow> (message \<Rightarrow> go_error + string) \<Rightarrow> redis_config \<Rightarrow>
    string \<Rightarrow> message \<Rightarrow> ('r, go_error option) state" where
  "redis_AddMessage ops marshal c i msg =
    (if i = '''' then State_Monad.return (Some (ErrNew ''id is required''))
     else case marshal msg of
       Inl e \<Rightarrow> State_Monad.return (Some (ErrWrap ''marshal message: '' e ''''))
     | Inr d \<Rightarrow> do {
         r \<leftarrow> rd_RPushLLen ops (getKey c i) d;
         (case r of
            Inl e \<Rightarrow> State_Monad.return (Some (ErrWrap ''redis rpush: '' e ''''))
          | Inr (Inl e) \<Rightarrow> State_Monad.return (Some (ErrWrap ''redis llen: '' e ''''))
          | Inr (Inr n) \<Rightarrow> do {
              t \<leftarrow> (if rc_maxSize c > 0 \<and> n > rc_maxSize c
                   then rd_LTrim ops (getKey c i) (n - rc_maxSize c) (- 1)
                   else State_Monad.return None);
              (case t of
                 Some e \<Rightarrow> State_Monad.return (Some (ErrWrap ''redis ltrim: '' e ''''))
               | None \<Rightarrow>
                   if rc_ttl c > 0 then do {
                     x \<leftarrow> rd_Expire ops (getKey c i) (rc_ttl c);
                     State_Monad.return (case x of None \<Rightarrow> None
                       | Some e \<Rightarrow> Some (ErrWrap ''redis expire: '' e '''')) }
                   else State_Monad.return None) }) })"

fun unmarshal_kept :: "(string \<Rightarrow> go_error + message) \<Rightarrow> string list \<Rightarrow> string list \<Rightarrow>
    go_error + message list" where
  "unmarshal_kept unmarshal roles [] = Inr []"
| "unmarshal_kept unmarshal roles (v # vs) = (case unmarshal v of
      Inl e \<Rightarrow> Inl (ErrWrap ''unmarshal message: '' e '''')
    | Inr msg \<Rightarrow> (case unmarshal_kept unmarshal roles vs of
        Inl e \<Rightarrow> Inl e
      | Inr out \<Rightarrow> Inr (if role_kept roles msg then msg # out else out)))"

definition redis_ListMessages :: "'r redis_ops \<Rightarrow> (string \<Rightarrow> go_error + message) \<Rightarrow>
    redis_config \<Rightarrow> string \<Rightarrow> list_messages_option list \<Rightarrow> ('r, go_error + message list) state" where
  "redis_ListMessages ops unmarshal c i opts =
    (if i = '''' then State_Monad.return (Inl (ErrNew ''id is required''))
     else do {
       r \<leftarrow> rd_LLen ops (getKey c i);
       (case r of
          Inl e \<Rightarrow> State_Monad.return (Inl (ErrWrap ''redis llen: '' e ''''))
        | Inr n \<Rightarrow>
            (let lmo = apply_list_options n opts; e = list_end n lmo; s = list_start n lmo
             in if s \<ge> e then State_Monad.return (Inr [])
                else do {
                  v \<leftarrow> rd_LRange ops (getKey c i) s (e - 1);
                  State_Monad.return (case v of
                      Inl e \<Rightarrow> Inl (ErrWrap ''redis lrange: '' e '''')
                    | Inr vals \<Rightarrow> unmarshal_kept unmarshal (lo_Roles lmo) vals) })) })"

definition redis_Clear :: "'r redis_ops \<Rightarrow> redis_config \<Rightarrow> string \<Rightarrow> ('r, go_error option) state" where
  "redis_Clear ops c i =
    (if i = '''' then State_Monad.return (Some (ErrNew ''id is required''))
     else do {
       x \<leftarrow> rd_Del ops (getKey c i);
       State_Monad.return (case x of None \<Rightarrow> None | Some e \<Rightarrow> Some (ErrWrap ''redis del: '' e '''')) })"

definition redis_IsDistributed :: "redis_config \<Rightarrow> bool" where
  "redis_IsDistributed c = True"

section \<open>Reading a range\<close>

lemma map_nth_range: "e \<le> length xs \<Longrightarrow> map ((!) xs) [s..<e] = take (e - s) (drop s xs)"
proof -
  assume "e \<le> length xs"
  then have "map ((!) xs) [s..<e] = drop s (take e xs)"
    by (intro nth_equalityI) simp_all
  then show ?thesis by (simp add: drop_take)
qed

lemma list_range_nonneg:
  assumes "0 \<le> lo_Limit lmo" "0 \<le> lo_Offset lmo" "lo_Offset lmo \<le> n"
  shows "0 \<le> list_start n lmo" "list_start n lmo \<le> list_end n lmo" "list_end n lmo \<le> n"
  using assms by (auto simp: list_start_def list_end_def Let_def)

lemma apply_list_options_nonneg:
  "0 \<le> n \<Longrightarrow> 0 \<le> lo_Limit (apply_list_options n opts) \<and> 0 \<le> lo_Offset (apply_list_options n opts)"
  by (simp add: apply_list_options_def Let_def)

lemma apply_limit:
  "0 \<le> L \<Longrightarrow> apply_list_options n [WithLimit L] =
     \<lparr>lo_Limit = L, lo_Offset = 0, lo_Roles = [RoleUser, RoleAssistant, RoleTool]\<rparr>"
  by (simp add: apply_list_options_def WithLimit_def default_list_options_def Let_def)

section \<open>The contract of a store\<close>

text \<open>
  What the runtime needs of a conversation store: a message is appended to its own
  conversation, of which the last \<open>cap\<close> messages are kept, and a listing with a limit reads
  the most recent of them.
\<close>

locale conversation_store =
  fixes add :: "'s \<Rightarrow> string \<Rightarrow> message \<Rightarrow> 's"
    and clear :: "'s \<Rightarrow> string \<Rightarrow> 's"
    and recent :: "'s \<Rightarrow> string \<Rightarrow> nat \<Rightarrow> message list"
    and stored :: "'s \<Rightarrow> string \<Rightarrow> message list"
    and cap :: "'s \<Rightarrow> nat"
    and inv :: "'s \<Rightarrow> bool"
  assumes add_inv: "inv s \<Longrightarrow> inv (add s i m)"
    and clear_inv: "inv s \<Longrightarrow> inv (clear s i)"
    and cap_add: "cap (add s i m) = cap s"
    and stored_add: "inv s \<Longrightarrow> i \<noteq> '''' \<Longrightarrow>
      stored (add s i m) = (stored s)(i := keep_last (cap s) (stored s i @ [m]))"
    and stored_clear: "inv s \<Longrightarrow> i \<noteq> '''' \<Longrightarrow> stored (clear s i) = (stored s)(i := [])"
    and recent_spec: "inv s \<Longrightarrow> i \<noteq> '''' \<Longrightarrow> recent s i n =
      filter (role_kept [RoleUser, RoleAssistant, RoleTool]) (keep_last n (stored s i))"
begin

lemma add_all_inv: "inv s \<Longrightarrow> inv (fold (\<lambda>m s. add s i m) ms s)"
  by (induction ms arbitrary: s) (simp_all add: add_inv)

lemma cap_add_all: "cap (fold (\<lambda>m s. add s i m) ms s) = cap s"
  by (induction ms arbitrary: s) (simp_all add: cap_add)

lemma stored_add_all:
  assumes "inv s" "i \<noteq> ''''" "length (stored s i) \<le> cap s"
  shows "stored (fold (\<lambda>m s. add s i m) ms s) = (stored s)(i := keep_last (cap s) (stored s i @ ms))"
  using assms
proof (induction ms arbitrary: s)
  case (Cons m ms)
  have st: "stored (add s i m) = (stored s)(i := keep_last (cap s) (stored s i @ [m]))"
    by (rule stored_add [OF Cons.prems(1,2)])
  have "stored (fold (\<lambda>m s. add s i m) ms (add s i m)) =
      (stored (add s i m))(i := keep_last (cap s) (stored (add s i m) i @ ms))"
  proof (rule Cons.IH [OF add_inv [OF Cons.prems(1)] Cons.prems(2), unfolded cap_add])
    show "length (stored (add s i m) i) \<le> cap s" unfolding st by simp
  qed
  also have "\<dots> = (stored s)(i := keep_last (cap s) (stored s i @ m # ms))"
    unfolding st by (rule ext) (simp add: keep_last_append_keep)
  finally show ?case by simp
qed simp

lemma recent_after_add_all:
  assumes "inv s" "i \<noteq> ''''" "length (stored s i) \<le> cap s"
  shows "recent (fold (\<lambda>m s. add s i m) ms s) i n =
    filter (role_kept [RoleUser, RoleAssistant, RoleTool]) (keep_last (min n (cap s)) (stored s i @ ms))"
    "j \<noteq> i \<Longrightarrow> j \<noteq> '''' \<Longrightarrow> recent (fold (\<lambda>m s. add s i m) ms s) j n = recent s j n"
  using assms by (simp_all add: recent_spec add_all_inv stored_add_all keep_last_keep_last)

end

text \<open>The in-memory store meets it.\<close>

definition inmem_stored :: "inmem_conversation \<Rightarrow> string \<Rightarrow> message list" where
  "inmem_stored c i = (case im_messages c i of None \<Rightarrow> [] | Some ms \<Rightarrow> ms)"

definition inmem_inv :: "inmem_conversation \<Rightarrow> bool" where
  "inmem_inv c \<longleftrightarrow> 0 < im_maxSize c"

definition inmem_recent :: "inmem_conversation \<Rightarrow> string \<Rightarrow> nat \<Rightarrow> message list" where
  "inmem_recent c i n = projr (inmem_ListMessages c i [WithLimit (int n)])"

lemma inmem_list_limit:
  assumes "i \<noteq> ''''"
  shows "inmem_ListMessages c i [WithLimit (int n)] =
    Inr (filter (role_kept [RoleUser, RoleAssistant, RoleTool]) (keep_last n (inmem_stored c i)))"
proof (cases "im_messages c i")
  case (Some cp)
  have r: "map ((!) cp) [nat (int (length cp) - int n)..<length cp] = keep_last n cp"
    by (simp add: map_nth_range keep_last_def nat_diff_distrib')
  show ?thesis using assms Some r
    by (auto simp: inmem_ListMessages_def apply_limit list_start_def list_end_def Let_def
        inmem_stored_def keep_last_def)
qed (use assms in \<open>simp add: inmem_ListMessages_def inmem_stored_def keep_last_def\<close>)

lemma inmem_stored_add:
  assumes "inmem_inv c" "i \<noteq> ''''"
  shows "inmem_stored (inmem_AddMessage c i m) =
    (inmem_stored c)(i := keep_last (nat (im_maxSize c)) (inmem_stored c i @ [m]))"
proof
  fix j
  show "inmem_stored (inmem_AddMessage c i m) j =
    ((inmem_stored c)(i := keep_last (nat (im_maxSize c)) (inmem_stored c i @ [m]))) j"
    using assms by (auto simp: inmem_stored_def inmem_AddMessage_def Let_def keep_last_def
        inmem_inv_def nat_diff_distrib' nat_add_distrib split: option.splits)
qed

interpretation inmem: conversation_store inmem_AddMessage inmem_Clear inmem_recent inmem_stored
    "\<lambda>c. nat (im_maxSize c)" inmem_inv
proof
  fix c :: inmem_conversation and i :: string and m :: message and n :: nat
  show "inmem_inv c \<Longrightarrow> inmem_inv (inmem_AddMessage c i m)"
    by (simp add: inmem_inv_def inmem_AddMessage_def Let_def)
  show "inmem_inv c \<Longrightarrow> inmem_inv (inmem_Clear c i)"
    by (simp add: inmem_inv_def inmem_Clear_def)
  show "nat (im_maxSize (inmem_AddMessage c i m)) = nat (im_maxSize c)"
    by (simp add: inmem_AddMessage_def Let_def)
  show "inmem_inv c \<Longrightarrow> i \<noteq> '''' \<Longrightarrow> inmem_stored (inmem_AddMessage c i m) =
      (inmem_stored c)(i := keep_last (nat (im_maxSize c)) (inmem_stored c i @ [m]))"
    by (rule inmem_stored_add)
  show "inmem_inv c \<Longrightarrow> i \<noteq> '''' \<Longrightarrow> inmem_stored (inmem_Clear c i) = (inmem_stored c)(i := [])"
    by (auto simp: inmem_stored_def inmem_Clear_def)
  show "inmem_inv c \<Longrightarrow> i \<noteq> '''' \<Longrightarrow> inmem_recent c i n =
      filter (role_kept [RoleUser, RoleAssistant, RoleTool]) (keep_last n (inmem_stored c i))"
    by (simp add: inmem_recent_def inmem_list_limit)
qed

lemma inmem_New_inv: "inmem_inv (inmem_New opts)"
  by (simp add: inmem_inv_def inmem_New_def Let_def)

text \<open>Every conversation of a store stays within the maximum size.\<close>

definition inmem_bounded :: "inmem_conversation \<Rightarrow> bool" where
  "inmem_bounded c \<longleftrightarrow> inmem_inv c \<and> (\<forall>i. length (inmem_stored c i) \<le> nat (im_maxSize c))"

lemma inmem_bounded_add: "inmem_bounded c \<Longrightarrow> inmem_bounded (inmem_AddMessage c i m)"
proof (cases "i = ''''")
  case False
  assume "inmem_bounded c"
  with False show ?thesis
    using inmem.cap_add [of c i m] by (auto simp: inmem_bounded_def inmem.add_inv inmem.stored_add)
qed (simp add: inmem_AddMessage_def)

text \<open>What a run persists is what the next run loads: after any list of messages has been added
  to a conversation of a bounded in-memory store, listing it with limit \<open>n\<close> succeeds with the
  last \<open>min n maxSize\<close> messages of the old and the new ones, less those of other roles, every
  other conversation lists as before, and the store stays bounded.\<close>

theorem persist_then_list:
  assumes "inmem_bounded c" "i \<noteq> ''''"
  shows "inmem_ListMessages (fold (\<lambda>m c. inmem_AddMessage c i m) ms c) i [WithLimit (int n)] =
      Inr (filter (role_kept [RoleUser, RoleAssistant, RoleTool])
        (keep_last (min n (nat (im_maxSize c))) (inmem_stored c i @ ms))) \<and>
    (j \<noteq> i \<longrightarrow> inmem_ListMessages (fold (\<lambda>m c. inmem_AddMessage c i m) ms c) j [WithLimit (int n)] =
      inmem_ListMessages c j [WithLimit (int n)]) \<and>
    inmem_bounded (fold (\<lambda>m c. inmem_AddMessage c i m) ms c)"
proof -
  let ?c = "fold (\<lambda>m c. inmem_AddMessage c i m) ms c"
  have b: "inmem_inv c" "length (inmem_stored c i) \<le> nat (im_maxSize c)"
    using assms(1) by (simp_all add: inmem_bounded_def)
  note R = inmem.recent_after_add_all [OF b(1) assms(2) b(2)]
  have "inmem_bounded ?c" using assms(1) by (induction ms arbitrary: c) (simp_all add: inmem_bounded_add)
  moreover have "inmem_ListMessages ?c j [WithLimit (int n)] = inmem_ListMessages c j [WithLimit (int n)]"
    if "j \<noteq> i"
    using R(2) [OF that] by (cases "j = ''''") (simp_all add: inmem_recent_def inmem_list_limit
        inmem_ListMessages_def [of _ "''''"])
  ultimately show ?thesis
    using R(1) [of ms n] assms(2) by (auto simp: inmem_recent_def inmem_list_limit)
qed

theorem persist_then_list_witness:
  "inmem_ListMessages (fold (\<lambda>m c. inmem_AddMessage c ''chat'' m)
      [mk_message RoleUser ''q1'', mk_message RoleAssistant ''a1'', mk_message RoleUser ''q2'']
      (inmem_New [inmem_WithMaxSize 2])) ''chat'' [WithLimit 20] =
   Inr [mk_message RoleAssistant ''a1'', mk_message RoleUser ''q2'']"
proof -
  let ?c = "inmem_New [inmem_WithMaxSize 2]"
  have c: "?c = \<lparr>im_maxSize = 2, im_messages = Map.empty\<rparr>"
    by (simp add: inmem_New_def inmem_WithMaxSize_def)
  have b: "inmem_bounded ?c" by (simp add: c inmem_bounded_def inmem_inv_def inmem_stored_def)
  have i: "''chat'' \<noteq> ''''" by simp
  note P = persist_then_list [OF b i, of "[mk_message RoleUser ''q1'',
      mk_message RoleAssistant ''a1'', mk_message RoleUser ''q2'']" 20]
  show ?thesis using P [THEN conjunct1]
    by (simp add: c inmem_stored_def keep_last_def role_kept_def roleIn_iff mk_message_def)
qed

text \<open>The in-memory listing panics exactly when the requested offset is larger than the number
  of stored messages of a known conversation: \<open>make\<close> gets a negative capacity.\<close>

theorem list_panics_iff:
  "(\<exists>p. inmem_ListMessages c i opts = Inl p) \<longleftrightarrow>
    i \<noteq> '''' \<and> (\<exists>ms. im_messages c i = Some ms \<and>
      int (length ms) < lo_Offset (fold (\<lambda>opt lmo. opt lmo) opts default_list_options))"
proof (cases "i = '''' \<or> im_messages c i = None")
  case False
  then obtain cp where cp: "im_messages c i = Some cp" "i \<noteq> ''''" by blast
  let ?n = "int (length cp)"
  let ?l = "apply_list_options ?n opts"
  have nn: "0 \<le> lo_Limit ?l" "0 \<le> lo_Offset ?l" using apply_list_options_nonneg [of ?n opts] by simp_all
  have "list_end ?n ?l - list_start ?n ?l < 0 \<longleftrightarrow> ?n < lo_Offset ?l"
    using nn by (auto simp: list_end_def list_start_def Let_def)
  moreover have "?n < lo_Offset ?l \<longleftrightarrow>
      ?n < lo_Offset (fold (\<lambda>opt lmo. opt lmo) opts default_list_options)"
    by (auto simp: apply_list_options_def Let_def)
  ultimately show ?thesis using cp by (auto simp: inmem_ListMessages_def Let_def)
qed (auto simp: inmem_ListMessages_def)

section \<open>Redis against the in-memory store\<close>

text \<open>
  What Redis documents about the commands used, for a server that answers: \<open>view\<close> is the list
  under each key, empty for a missing key.
\<close>

definition redis_lists :: "'r redis_ops \<Rightarrow> ('r \<Rightarrow> string \<Rightarrow> string list) \<Rightarrow> bool" where
  "redis_lists ops view \<longleftrightarrow>
    (\<forall>r k v. \<exists>r'. run_state (rd_RPushLLen ops k v) r = (Inr (Inr (int (length (view r k)) + 1)), r') \<and>
       view r' = (view r)(k := view r k @ [v])) \<and>
    (\<forall>r k n. 0 \<le> n \<longrightarrow> (\<exists>r'. run_state (rd_LTrim ops k n (- 1)) r = (None, r') \<and>
       view r' = (view r)(k := drop (nat n) (view r k)))) \<and>
    (\<forall>r k t. \<exists>r'. run_state (rd_Expire ops k t) r = (None, r') \<and> view r' = view r) \<and>
    (\<forall>r k. \<exists>r'. run_state (rd_LLen ops k) r = (Inr (int (length (view r k))), r') \<and> view r' = view r) \<and>
    (\<forall>r k a b. 0 \<le> a \<longrightarrow> a \<le> b \<longrightarrow> (\<exists>r'. run_state (rd_LRange ops k a b) r =
       (Inr (take (nat (b + 1 - a)) (drop (nat a) (view r k))), r') \<and> view r' = view r)) \<and>
    (\<forall>r k. \<exists>r'. run_state (rd_Del ops k) r = (None, r') \<and> view r' = (view r)(k := []))"

lemma redis_listsD:
  assumes "redis_lists ops view"
  shows "\<exists>r'. run_state (rd_RPushLLen ops k v) r = (Inr (Inr (int (length (view r k)) + 1)), r') \<and>
       view r' = (view r)(k := view r k @ [v])"
    and "0 \<le> n \<Longrightarrow> \<exists>r'. run_state (rd_LTrim ops k n (- 1)) r = (None, r') \<and>
       view r' = (view r)(k := drop (nat n) (view r k))"
    and "\<exists>r'. run_state (rd_Expire ops k t) r = (None, r') \<and> view r' = view r"
    and "\<exists>r'. run_state (rd_LLen ops k) r = (Inr (int (length (view r k))), r') \<and> view r' = view r"
    and "0 \<le> a \<Longrightarrow> a \<le> b \<Longrightarrow> \<exists>r'. run_state (rd_LRange ops k a b) r =
       (Inr (take (nat (b + 1 - a)) (drop (nat a) (view r k))), r') \<and> view r' = view r"
    and "\<exists>r'. run_state (rd_Del ops k) r = (None, r') \<and> view r' = (view r)(k := [])"
  using assms unfolding redis_lists_def by blast+

text \<open>The encoding is faithful on the messages of \<open>M\<close>.\<close>

definition json_faithful :: "(message \<Rightarrow> go_error + string) \<Rightarrow> (string \<Rightarrow> go_error + message) \<Rightarrow>
    message set \<Rightarrow> bool" where
  "json_faithful marshal unmarshal M \<longleftrightarrow> (\<forall>m \<in> M. \<exists>d. marshal m = Inr d \<and> unmarshal d = Inr m)"

text \<open>The two stores hold the same conversations.\<close>

definition redis_agrees :: "('r \<Rightarrow> string \<Rightarrow> string list) \<Rightarrow> (message \<Rightarrow> go_error + string) \<Rightarrow>
    message set \<Rightarrow> redis_config \<Rightarrow> 'r \<Rightarrow> inmem_conversation \<Rightarrow> bool" where
  "redis_agrees view marshal M cfg r c \<longleftrightarrow> inmem_inv c \<and> rc_maxSize cfg = im_maxSize c \<and>
    (\<forall>i. i \<noteq> '''' \<longrightarrow> set (inmem_stored c i) \<subseteq> M \<and>
       map Inr (view r (getKey cfg i)) = map marshal (inmem_stored c i))"

lemma getKey_inj: "getKey c i = getKey c j \<longleftrightarrow> i = j"
  by (simp add: getKey_def Let_def)

lemma redis_agreesD:
  assumes "redis_agrees view marshal M cfg r c" "i \<noteq> ''''"
  shows "set (inmem_stored c i) \<subseteq> M" "map Inr (view r (getKey cfg i)) = map marshal (inmem_stored c i)"
    "length (view r (getKey cfg i)) = length (inmem_stored c i)" "inmem_inv c"
    "rc_maxSize cfg = im_maxSize c"
  using assms map_eq_imp_length_eq unfolding redis_agrees_def by blast+

lemma redis_agrees_update:
  assumes "redis_agrees view marshal M cfg r c" and "view r' = (view r)(getKey cfg i := vs)"
    and "inmem_stored c' = (inmem_stored c)(i := ms)" "im_maxSize c' = im_maxSize c"
    and "set ms \<subseteq> M" "map Inr vs = map marshal ms"
  shows "redis_agrees view marshal M cfg r' c'"
  using assms by (simp add: redis_agrees_def getKey_inj inmem_inv_def)

lemma redis_add_agrees:
  assumes R: "redis_lists ops view" and J: "json_faithful marshal unmarshal M"
    and A: "redis_agrees view marshal M cfg r c" and i: "i \<noteq> ''''" and m: "m \<in> M"
  shows "\<exists>r'. run_state (redis_AddMessage ops marshal cfg i m) r = (None, r') \<and>
    redis_agrees view marshal M cfg r' (inmem_AddMessage c i m)"
proof -
  note D = redis_agreesD [OF A i]
  let ?k = "getKey cfg i" and ?ms = "inmem_stored c i @ [m]" and ?mx = "im_maxSize c"
  obtain d where d: "marshal m = Inr d" using J m unfolding json_faithful_def by blast
  let ?vs = "view r ?k @ [d]"
  obtain r1 where r1: "run_state (rd_RPushLLen ops ?k d) r = (Inr (Inr (int (length ?vs))), r1)"
    "view r1 = (view r)(?k := ?vs)"
    using redis_listsD(1) [OF R, of ?k d r] by auto
  have len: "length ?vs = length ?ms" using D(3) by simp
  have pos: "0 < ?mx" using D(4) by (simp add: inmem_inv_def)
  obtain r2 where r2: "run_state (if int (length ?vs) > ?mx
        then rd_LTrim ops ?k (int (length ?vs) - ?mx) (- 1) else State_Monad.return None) r1 = (None, r2)"
    "view r2 = (view r)(?k := keep_last (nat ?mx) ?vs)"
  proof (cases "int (length ?vs) > ?mx")
    case True
    then obtain r2 where "run_state (rd_LTrim ops ?k (int (length ?vs) - ?mx) (- 1)) r1 = (None, r2)"
      "view r2 = (view r1)(?k := drop (nat (int (length ?vs) - ?mx)) (view r1 ?k))"
      using redis_listsD(2) [OF R, of "int (length ?vs) - ?mx" ?k r1] by auto
    with True r1(2) pos show ?thesis
      by (intro that [of r2]) (simp_all add: keep_last_def nat_diff_distrib' nat_add_distrib)
  next
    case False
    then have "keep_last (nat ?mx) ?vs = ?vs" using pos by (intro keep_last_short) linarith
    with False r1(2) show ?thesis by (intro that [of r1]) simp_all
  qed
  obtain r3 where r3: "run_state (rd_Expire ops ?k (rc_ttl cfg)) r2 = (None, r3)" "view r3 = view r2"
    using redis_listsD(3) [OF R] by blast
  define r' where "r' = (if rc_ttl cfg > 0 then r3 else r2)"
  have run: "run_state (redis_AddMessage ops marshal cfg i m) r = (None, r')"
    using i d r1(1) r2(1) r3(1) pos D(5)
    by (simp add: redis_AddMessage_def r'_def cong: if_cong split del: if_split)
      (auto split: if_splits)
  have v: "view r' = (view r)(?k := keep_last (nat ?mx) ?vs)" using r2(2) r3(2) by (simp add: r'_def)
  have "map Inr ?vs = map marshal ?ms" using D(2) d by simp
  then have "map Inr (keep_last (nat ?mx) ?vs) = map marshal (keep_last (nat ?mx) ?ms)"
    using len by (simp add: keep_last_def flip: drop_map)
  moreover have "set (keep_last (nat ?mx) ?ms) \<subseteq> M"
    using set_keep_last [of "nat ?mx" ?ms] D(1) m by auto
  moreover have "im_maxSize (inmem_AddMessage c i m) = im_maxSize c"
    by (simp add: inmem_AddMessage_def Let_def)
  ultimately have "redis_agrees view marshal M cfg r' (inmem_AddMessage c i m)"
    by (intro redis_agrees_update [OF A v inmem_stored_add [OF D(4) i]])
  with run show ?thesis by blast
qed

lemma unmarshal_kept_map:
  assumes "json_faithful marshal unmarshal M" "set ms \<subseteq> M" "map Inr vs = map marshal ms"
  shows "unmarshal_kept unmarshal roles vs = Inr (filter (role_kept roles) ms)"
  using assms(2,3)
proof (induction ms arbitrary: vs)
  case (Cons m ms)
  then obtain v vs' where v: "vs = v # vs'" "marshal m = Inr v" "map Inr vs' = map marshal ms"
    by (cases vs) auto
  moreover have "unmarshal v = Inr m"
    using assms(1) Cons.prems(1) v(2) unfolding json_faithful_def by force
  ultimately show ?case using Cons by simp
qed simp

lemma redis_list_agrees:
  assumes R: "redis_lists ops view" and J: "json_faithful marshal unmarshal M"
    and A: "redis_agrees view marshal M cfg r c" and i: "i \<noteq> ''''"
  shows "\<exists>r' out. run_state (redis_ListMessages ops unmarshal cfg i opts) r = (Inr out, r') \<and>
    redis_agrees view marshal M cfg r' c \<and>
    (case inmem_ListMessages c i opts of Inr ms \<Rightarrow> out = ms | Inl p \<Rightarrow> out = [])"
proof -
  note D = redis_agreesD [OF A i]
  let ?k = "getKey cfg i" and ?cp = "inmem_stored c i"
  let ?n = "int (length ?cp)"
  let ?l = "apply_list_options ?n opts"
  let ?s = "list_start ?n ?l" and ?e = "list_end ?n ?l"
  obtain r1 where r1: "run_state (rd_LLen ops ?k) r = (Inr ?n, r1)" "view r1 = view r"
    using redis_listsD(4) [OF R, of ?k r] D(3) by auto
  have A1: "view r' = view r \<Longrightarrow> redis_agrees view marshal M cfg r' c" for r'
    using A by (simp add: redis_agrees_def)
  have nn: "0 \<le> lo_Limit ?l" "0 \<le> lo_Offset ?l" using apply_list_options_nonneg [of ?n opts] by simp_all
  have im: "inmem_ListMessages c i opts = (if ?e - ?s < 0 then Inl ''makeslice: cap out of range''
      else Inr (filter (role_kept (lo_Roles ?l)) (map ((!) ?cp) [nat ?s..<nat ?e])))"
    if "im_messages c i \<noteq> None"
    using that i by (auto simp: inmem_ListMessages_def inmem_stored_def Let_def)
  show ?thesis
  proof (cases "?s \<ge> ?e")
    case True
    then have "run_state (redis_ListMessages ops unmarshal cfg i opts) r = (Inr [], r1)"
      using i r1(1) by (simp add: redis_ListMessages_def Let_def)
    moreover have "case inmem_ListMessages c i opts of Inr ms \<Rightarrow> [] = ms | Inl p \<Rightarrow> True"
      using True im i by (cases "im_messages c i") (auto simp: inmem_ListMessages_def)
    ultimately show ?thesis using A1 [OF r1(2)] by (intro exI conjI) (assumption | auto split: sum.splits)+
  next
    case False
    have b: "0 \<le> ?s" "?e \<le> ?n" by (auto simp: list_start_def list_end_def Let_def)
    have "?n \<noteq> 0" using False b by linarith
    then have known: "im_messages c i \<noteq> None" by (auto simp: inmem_stored_def split: option.splits)
    obtain r2 where r2: "run_state (rd_LRange ops ?k ?s (?e - 1)) r1 =
        (Inr (take (nat (?e - ?s)) (drop (nat ?s) (view r ?k))), r2)" "view r2 = view r"
      using redis_listsD(5) [OF R, of ?s "?e - 1" ?k r1] b(1) False r1(2) by auto
    let ?vs = "take (nat (?e - ?s)) (drop (nat ?s) (view r ?k))"
    let ?ms = "take (nat (?e - ?s)) (drop (nat ?s) ?cp)"
    have "map Inr ?vs = map marshal ?ms" using D(2) by (simp flip: take_map drop_map)
    moreover have "set ?ms \<subseteq> M" using D(1) by (meson order_trans set_drop_subset set_take_subset)
    ultimately have u: "unmarshal_kept unmarshal roles ?vs = Inr (filter (role_kept roles) ?ms)" for roles
      by (intro unmarshal_kept_map [OF J])
    have "run_state (redis_ListMessages ops unmarshal cfg i opts) r =
        (Inr (filter (role_kept (lo_Roles ?l)) ?ms), r2)"
      using i r1(1) False r2(1) by (simp add: redis_ListMessages_def Let_def u)
    moreover have "inmem_ListMessages c i opts = Inr (filter (role_kept (lo_Roles ?l)) ?ms)"
      using im [OF known] False b by (simp add: map_nth_range nat_diff_distrib')
    ultimately show ?thesis using A1 [OF r2(2)] by auto
  qed
qed


text \<open>A server that is a map from keys to lists, and an encoding of user messages by their text.\<close>

definition map_redis :: "(string \<Rightarrow> string list) redis_ops" where
  "map_redis =
    \<lparr>rd_RPushLLen = (\<lambda>k v. State (\<lambda>f. (Inr (Inr (int (length (f k)) + 1)), f(k := f k @ [v])))),
     rd_LTrim = (\<lambda>k a b. State (\<lambda>f. (None, f(k := drop (nat a) (f k))))),
     rd_Expire = (\<lambda>k t. State_Monad.return None),
     rd_LLen = (\<lambda>k. State (\<lambda>f. (Inr (int (length (f k))), f))),
     rd_LRange = (\<lambda>k a b. State (\<lambda>f. (Inr (take (nat (b + 1 - a)) (drop (nat a) (f k))), f))),
     rd_Del = (\<lambda>k. State (\<lambda>f. (None, f(k := []))))\<rparr>"



end
