(* ===== verification/Event_Bus.thy ===== *)
theory Event_Bus
  imports Core_Types
begin

text \<open>
  The in-memory event bus of \<open>internal/eventbus/inmem.go\<close> as a state machine. \<open>Publish\<close> holds the
  read lock from its check of \<open>closed\<close> to its last send, so several calls are in flight at once
  and each of their channel sends is a step of its own; \<open>Subscribe\<close>, the close function and
  \<open>Close\<close> hold the write lock and are single steps, possible only when no \<open>Publish\<close> is in flight.
  Go channels are allocated by number, hold up to 64 payloads, and panic on a send after
  \<open>close\<close> and on a second \<open>close\<close>.
\<close>

record chan =
  ch_buf :: "string list"
  ch_closed :: bool

record publisher =
  pb_payload :: string
  pb_remaining :: "nat list"

record bus =
  bus_subs :: "string \<Rightarrow> nat list"
  bus_isClosed :: bool
  bus_chans :: "chan list"
  bus_pubs :: "publisher list"

definition chan_capacity :: nat where "chan_capacity = 64"

definition NewInmem :: bus where
  "NewInmem = \<lparr>bus_subs = (\<lambda>_. []), bus_isClosed = False, bus_chans = [], bus_pubs = []\<rparr>"

section \<open>Operations\<close>

text \<open>\<open>close(ch)\<close>; \<open>None\<close> is the panic of a second close.\<close>

definition close_chan :: "nat \<Rightarrow> bus \<Rightarrow> bus option" where
  "close_chan n b =
    (if n < length (bus_chans b) \<and> \<not> ch_closed (bus_chans b ! n)
     then Some (b\<lparr>bus_chans := (bus_chans b)[n := (bus_chans b ! n)\<lparr>ch_closed := True\<rparr>]\<rparr>)
     else None)"

definition bus_Subscribe :: "string \<Rightarrow> bus \<Rightarrow> (sentinel + nat) \<times> bus" where
  "bus_Subscribe channel b =
    (if bus_isClosed b then (Inl ErrBusClosed, b)
     else let n = length (bus_chans b) in
       (Inr n, b\<lparr>bus_chans := bus_chans b @ [\<lparr>ch_buf = [], ch_closed = False\<rparr>],
                bus_subs := (bus_subs b)(channel := bus_subs b channel @ [n])\<rparr>))"

text \<open>The close function returned by \<open>Subscribe\<close> for channel \<open>n\<close>.\<close>

definition bus_closeFn :: "string \<Rightarrow> nat \<Rightarrow> bus \<Rightarrow> bus option" where
  "bus_closeFn channel n b =
    (if bus_isClosed b then Some b
     else if n \<in> set (bus_subs b channel) then
       close_chan n (b\<lparr>bus_subs := (bus_subs b)(channel := remove1 n (bus_subs b channel))\<rparr>)
     else Some b)"

fun close_chans :: "nat list \<Rightarrow> bus \<Rightarrow> bus option" where
  "close_chans [] b = Some b"
| "close_chans (n # ns) b = (case close_chan n b of None \<Rightarrow> None | Some b' \<Rightarrow> close_chans ns b')"

text \<open>\<open>Close\<close> visits the map of subscriber lists in some order \<open>keys\<close> of its keys.\<close>

definition bus_Close :: "string list \<Rightarrow> bus \<Rightarrow> bus option" where
  "bus_Close keys b =
    (if bus_isClosed b then Some b
     else (case close_chans (concat (map (bus_subs b) keys)) (b\<lparr>bus_isClosed := True\<rparr>) of
         None \<Rightarrow> None
       | Some b' \<Rightarrow> Some (b'\<lparr>bus_subs := (\<lambda>_. [])\<rparr>)))"

text \<open>\<open>Publish\<close> up to its send loop: the error, or the call in flight over a snapshot.\<close>

definition bus_PublishStart :: "string \<Rightarrow> string \<Rightarrow> bus \<Rightarrow> sentinel option \<times> bus" where
  "bus_PublishStart channel d b =
    (if bus_isClosed b then (Some ErrBusClosed, b)
     else (None, b\<lparr>bus_pubs := bus_pubs b @ [\<lparr>pb_payload = d, pb_remaining = bus_subs b channel\<rparr>]\<rparr>))"

datatype send_result = Blocked | SendPanic | Sent bus | Finished bus

text \<open>One turn of the send loop of the \<open>i\<close>-th call in flight.\<close>

definition bus_send :: "nat \<Rightarrow> bus \<Rightarrow> send_result" where
  "bus_send i b =
    (let p = bus_pubs b ! i in
     case pb_remaining p of
       [] \<Rightarrow> Finished (b\<lparr>bus_pubs := take i (bus_pubs b) @ drop (Suc i) (bus_pubs b)\<rparr>)
     | n # ns \<Rightarrow>
         if \<not> n < length (bus_chans b) then Blocked
         else let c = bus_chans b ! n in
           if ch_closed c then SendPanic
           else if length (ch_buf c) \<ge> chan_capacity then Blocked
           else Sent (b\<lparr>bus_chans := (bus_chans b)[n := c\<lparr>ch_buf := ch_buf c @ [pb_payload p]\<rparr>],
                        bus_pubs := (bus_pubs b)[i := p\<lparr>pb_remaining := ns\<rparr>]\<rparr>))"

text \<open>\<open>ctx.Done()\<close> wins the select: the call returns the context's error.\<close>

definition bus_cancel :: "nat \<Rightarrow> bus \<Rightarrow> bus" where
  "bus_cancel i b = b\<lparr>bus_pubs := take i (bus_pubs b) @ drop (Suc i) (bus_pubs b)\<rparr>"

text \<open>A subscriber takes the oldest payload of channel \<open>n\<close>.\<close>

definition bus_receive :: "nat \<Rightarrow> bus \<Rightarrow> (string \<times> bus) option" where
  "bus_receive n b =
    (if n < length (bus_chans b) then
       (case ch_buf (bus_chans b ! n) of [] \<Rightarrow> None
        | d # ds \<Rightarrow> Some (d, b\<lparr>bus_chans := (bus_chans b)[n := (bus_chans b ! n)\<lparr>ch_buf := ds\<rparr>]\<rparr>))
     else None)"

section \<open>Steps\<close>

datatype bus_label =
    LSubscribe string | LUnsubscribe string nat | LClose | LPublish string string
  | LSend nat | LCancel nat | LReceive nat

text \<open>The keys \<open>Close\<close> visits: all channels with subscribers, each once.\<close>

definition close_order :: "bus \<Rightarrow> string list \<Rightarrow> bool" where
  "close_order b keys \<longleftrightarrow> distinct keys \<and> (\<forall>k. bus_subs b k \<noteq> [] \<longrightarrow> k \<in> set keys)"

inductive bus_step :: "bus \<Rightarrow> bus_label \<Rightarrow> bus \<Rightarrow> bool" where
  subscribe: "bus_pubs b = [] \<Longrightarrow> bus_Subscribe ch b = (r, b') \<Longrightarrow> bus_step b (LSubscribe ch) b'"
| unsubscribe: "bus_pubs b = [] \<Longrightarrow> bus_closeFn ch n b = Some b' \<Longrightarrow> bus_step b (LUnsubscribe ch n) b'"
| close: "bus_pubs b = [] \<Longrightarrow> close_order b keys \<Longrightarrow> bus_Close keys b = Some b' \<Longrightarrow> bus_step b LClose b'"
| publish: "bus_PublishStart ch d b = (r, b') \<Longrightarrow> bus_step b (LPublish ch d) b'"
| send: "i < length (bus_pubs b) \<Longrightarrow> bus_send i b \<in> {Sent b', Finished b'} \<Longrightarrow> bus_step b (LSend i) b'"
| cancel: "i < length (bus_pubs b) \<Longrightarrow> bus_step b (LCancel i) (bus_cancel i b)"
| receive: "bus_receive n b = Some (d, b') \<Longrightarrow> bus_step b (LReceive n) b'"

inductive_cases bus_stepE: "bus_step b l b'"
inductive_simps bus_step_subscribe: "bus_step b (LSubscribe ch) b'"
inductive_simps bus_step_unsubscribe: "bus_step b (LUnsubscribe ch n) b'"
inductive_simps bus_step_close: "bus_step b LClose b'"

inductive bus_reach :: "bus \<Rightarrow> bool" where
  init: "bus_reach NewInmem"
| step: "bus_reach b \<Longrightarrow> bus_step b l b' \<Longrightarrow> bus_reach b'"

section \<open>Invariant\<close>

definition chan_open :: "bus \<Rightarrow> nat \<Rightarrow> bool" where
  "chan_open b n \<longleftrightarrow> n < length (bus_chans b) \<and> \<not> ch_closed (bus_chans b ! n)"

definition subs_ok :: "bus \<Rightarrow> bool" where
  "subs_ok b \<longleftrightarrow> (\<forall>ch. distinct (bus_subs b ch) \<and> (\<forall>n \<in> set (bus_subs b ch). chan_open b n)) \<and>
    (\<forall>ch ch'. ch \<noteq> ch' \<longrightarrow> set (bus_subs b ch) \<inter> set (bus_subs b ch') = {})"

definition pubs_ok :: "bus \<Rightarrow> bool" where
  "pubs_ok b \<longleftrightarrow> (\<forall>p \<in> set (bus_pubs b). \<forall>n \<in> set (pb_remaining p). chan_open b n)"

definition bufs_ok :: "bus \<Rightarrow> bool" where
  "bufs_ok b \<longleftrightarrow> (\<forall>c \<in> set (bus_chans b). length (ch_buf c) \<le> chan_capacity)"

definition bus_inv :: "bus \<Rightarrow> bool" where
  "bus_inv b \<longleftrightarrow> subs_ok b \<and> pubs_ok b \<and> bufs_ok b"

lemmas bus_inv_defs = bus_inv_def subs_ok_def pubs_ok_def bufs_ok_def

lemma subs_disjoint: "subs_ok b \<Longrightarrow> n \<in> set (bus_subs b ch) \<Longrightarrow> n \<in> set (bus_subs b ch') \<Longrightarrow> ch = ch'"
  unfolding subs_ok_def by blast

lemma close_chan_open:
  assumes "chan_open b n"
  obtains b' where "close_chan n b = Some b'" "bus_subs b' = bus_subs b" "bus_pubs b' = bus_pubs b"
    "bus_isClosed b' = bus_isClosed b" "\<And>m. chan_open b' m \<longleftrightarrow> chan_open b m \<and> m \<noteq> n"
    "bufs_ok b \<Longrightarrow> bufs_ok b'"
proof -
  let ?b = "b\<lparr>bus_chans := (bus_chans b)[n := (bus_chans b ! n)\<lparr>ch_closed := True\<rparr>]\<rparr>"
  have "close_chan n b = Some ?b" using assms by (simp add: close_chan_def chan_open_def)
  moreover have "chan_open ?b m \<longleftrightarrow> chan_open b m \<and> m \<noteq> n" for m
    using assms by (auto simp: chan_open_def nth_list_update)
  moreover have "bufs_ok b \<Longrightarrow> bufs_ok ?b"
    using assms unfolding bufs_ok_def chan_open_def
    by (auto dest!: set_update_subset_insert [THEN subsetD] simp: nth_mem)
  ultimately show ?thesis using that [of ?b] by simp
qed

lemma close_chans_open:
  assumes "distinct ns" "\<forall>n \<in> set ns. chan_open b n"
  obtains b' where "close_chans ns b = Some b'" "bus_subs b' = bus_subs b" "bus_pubs b' = bus_pubs b"
    "bufs_ok b \<Longrightarrow> bufs_ok b'"
  using assms
proof (induction ns arbitrary: b thesis)
  case (Cons n ns)
  have "chan_open b n" using Cons.prems by simp
  then obtain b1 where b1: "close_chan n b = Some b1" "bus_subs b1 = bus_subs b"
    "bus_pubs b1 = bus_pubs b" "\<And>m. chan_open b1 m \<longleftrightarrow> chan_open b m \<and> m \<noteq> n"
    "bufs_ok b \<Longrightarrow> bufs_ok b1"
    by (rule close_chan_open) blast
  have "distinct ns" "\<forall>m \<in> set ns. chan_open b1 m" using Cons.prems b1(4) by auto
  then obtain b' where "close_chans ns b1 = Some b'" "bus_subs b' = bus_subs b1"
    "bus_pubs b' = bus_pubs b1" "bufs_ok b1 \<Longrightarrow> bufs_ok b'"
    using Cons.IH [of b1] by metis
  with b1 show ?case using Cons.prems(1) [of b'] by simp
qed simp

lemma subs_concat_distinct:
  assumes "subs_ok b" "distinct keys"
  shows "distinct (concat (map (bus_subs b) keys))"
  using assms(2)
proof (induction keys)
  case (Cons k keys)
  have "set (bus_subs b k) \<inter> set (concat (map (bus_subs b) keys)) = {}"
  proof (rule ccontr)
    assume "\<not> ?thesis"
    then obtain n k' where "n \<in> set (bus_subs b k)" "k' \<in> set keys" "n \<in> set (bus_subs b k')" by auto
    with subs_disjoint [OF assms(1)] Cons.prems show False by auto
  qed
  moreover have "distinct (bus_subs b k)" using assms(1) by (simp add: subs_ok_def)
  ultimately show ?case using Cons by simp
qed simp

lemma bus_Close_ok:
  assumes "bus_inv b" "close_order b keys"
  obtains b' where "bus_Close keys b = Some b'" "bus_pubs b' = bus_pubs b"
    "bus_isClosed b \<Longrightarrow> b' = b" "\<not> bus_isClosed b \<Longrightarrow> bus_subs b' = (\<lambda>_. [])" "bufs_ok b'"
proof (cases "bus_isClosed b")
  case True
  with assms(1) that [of b] show ?thesis by (simp add: bus_Close_def bus_inv_def)
next
  case False
  let ?b = "b\<lparr>bus_isClosed := True\<rparr>" and ?ns = "concat (map (bus_subs b) keys)"
  have "distinct ?ns" using assms by (intro subs_concat_distinct) (simp_all add: bus_inv_def close_order_def)
  moreover have "\<forall>n \<in> set ?ns. chan_open ?b n"
    using assms(1) by (auto simp: bus_inv_def subs_ok_def chan_open_def)
  ultimately obtain b1 where "close_chans ?ns ?b = Some b1" "bus_pubs b1 = bus_pubs ?b"
    "bufs_ok ?b \<Longrightarrow> bufs_ok b1"
    by (rule close_chans_open) blast
  with False assms(1) that [of "b1\<lparr>bus_subs := (\<lambda>_. [])\<rparr>"] show ?thesis
    by (simp add: bus_Close_def bus_inv_def bufs_ok_def)
qed

lemma bus_closeFn_ok:
  assumes "bus_inv b"
  obtains b' where "bus_closeFn ch n b = Some b'" "bus_pubs b' = bus_pubs b"
    "subs_ok b'" "bufs_ok b'"
proof (cases "\<not> bus_isClosed b \<and> n \<in> set (bus_subs b ch)")
  case True
  let ?b = "b\<lparr>bus_subs := (bus_subs b)(ch := remove1 n (bus_subs b ch))\<rparr>"
  have o: "chan_open ?b m = chan_open b m" for m by (simp add: chan_open_def)
  have "chan_open ?b n" using True assms by (auto simp: o bus_inv_def subs_ok_def)
  then obtain b' where b': "close_chan n ?b = Some b'" "bus_subs b' = bus_subs ?b"
    "bus_pubs b' = bus_pubs ?b" "\<And>m. chan_open b' m \<longleftrightarrow> chan_open ?b m \<and> m \<noteq> n"
    "bufs_ok ?b \<Longrightarrow> bufs_ok b'"
    by (rule close_chan_open) blast
  have s: "subs_ok b" using assms by (simp add: bus_inv_def)
  have "subs_ok b'"
    unfolding subs_ok_def
  proof (intro conjI allI impI ballI)
    fix ch1 show "distinct (bus_subs b' ch1)" using s by (auto simp: b'(2) subs_ok_def)
    fix m assume m: "m \<in> set (bus_subs b' ch1)"
    show "chan_open b' m"
    proof (cases "ch1 = ch")
      case True
      with m s show ?thesis by (auto simp: b'(2,4) o subs_ok_def set_remove1_eq)
    next
      case False
      then have "m \<noteq> n"
        using m subs_disjoint [OF s, of n ch1 ch] \<open>\<not> bus_isClosed b \<and> n \<in> set (bus_subs b ch)\<close>
        by (auto simp: b'(2))
      with False m s show ?thesis by (auto simp: b'(2,4) o subs_ok_def)
    qed
  next
    fix ch1 ch2 :: string assume "ch1 \<noteq> ch2"
    with s have "set (bus_subs b ch1) \<inter> set (bus_subs b ch2) = {}" by (simp add: subs_ok_def)
    then show "set (bus_subs b' ch1) \<inter> set (bus_subs b' ch2) = {}"
      using set_remove1_subset [of n "bus_subs b ch"] by (auto simp: b'(2))
  qed
  moreover have "bufs_ok b'" using b'(5) assms by (simp add: bus_inv_def bufs_ok_def)
  ultimately show ?thesis using True b' that [of b'] by (simp add: bus_closeFn_def)
next
  case False
  with assms that [of b] show ?thesis by (auto simp: bus_closeFn_def bus_inv_def)
qed

lemma bus_inv_NewInmem: "bus_inv NewInmem"
  by (simp add: bus_inv_defs NewInmem_def)

lemma bus_inv_subscribe:
  assumes "bus_inv b" "bus_pubs b = []" "bus_Subscribe ch b = (r, b')"
  shows "bus_inv b'"
proof (cases "bus_isClosed b")
  case False
  let ?n = "length (bus_chans b)"
  have b': "b' = b\<lparr>bus_chans := bus_chans b @ [\<lparr>ch_buf = [], ch_closed = False\<rparr>],
      bus_subs := (bus_subs b)(ch := bus_subs b ch @ [?n])\<rparr>"
    using assms(3) False by (simp add: bus_Subscribe_def Let_def)
  have o: "chan_open b m \<Longrightarrow> chan_open b' m" "chan_open b' ?n" for m
    by (simp_all add: b' chan_open_def nth_append)
  have new: "m \<in> set (bus_subs b c) \<Longrightarrow> m < ?n" for m c
    using assms(1) by (auto simp: bus_inv_def subs_ok_def chan_open_def)
  have "subs_ok b" using assms(1) by (simp add: bus_inv_def)
  have "subs_ok b'"
    unfolding subs_ok_def
  proof (intro conjI allI impI ballI)
    fix c show "distinct (bus_subs b' c)"
      using \<open>subs_ok b\<close> new [of ?n ch] by (auto simp: b' subs_ok_def)
    fix m assume "m \<in> set (bus_subs b' c)"
    then show "chan_open b' m"
      using \<open>subs_ok b\<close> o by (auto simp: b' subs_ok_def split: if_split_asm)
  next
    fix c c' :: string assume "c \<noteq> c'"
    then show "set (bus_subs b' c) \<inter> set (bus_subs b' c') = {}"
      using subs_disjoint [OF \<open>subs_ok b\<close>, of _ c c'] new [of ?n] by (auto simp: b')
  qed
  then show ?thesis using assms(1,2) by (simp add: bus_inv_def pubs_ok_def bufs_ok_def b')
qed (use assms in \<open>simp add: bus_Subscribe_def\<close>)

lemma subs_ok_cong: "bus_subs b' = bus_subs b \<Longrightarrow> (\<And>m. chan_open b' m = chan_open b m) \<Longrightarrow>
    subs_ok b \<Longrightarrow> subs_ok b'"
  by (simp add: subs_ok_def)

lemma pubs_ok_subset: "(\<And>m. chan_open b' m = chan_open b m) \<Longrightarrow>
    (\<And>p. p \<in> set (bus_pubs b') \<Longrightarrow> \<exists>q \<in> set (bus_pubs b). set (pb_remaining p) \<subseteq> set (pb_remaining q)) \<Longrightarrow>
    pubs_ok b \<Longrightarrow> pubs_ok b'"
  unfolding pubs_ok_def by blast

lemma chan_open_pubs [simp]: "chan_open (b\<lparr>bus_pubs := ps\<rparr>) m = chan_open b m"
  by (simp add: chan_open_def)

lemma bus_inv_publish:
  assumes "bus_inv b" "bus_PublishStart ch d b = (r, b')"
  shows "bus_inv b'"
proof (cases "bus_isClosed b")
  case False
  let ?p = "\<lparr>pb_payload = d, pb_remaining = bus_subs b ch\<rparr>"
  have b': "b' = b\<lparr>bus_pubs := bus_pubs b @ [?p]\<rparr>"
    using assms(2) False by (simp add: bus_PublishStart_def)
  have s: "subs_ok b" using assms(1) by (simp add: bus_inv_def)
  then have "\<forall>n \<in> set (pb_remaining ?p). chan_open b n" by (simp add: subs_ok_def)
  then have "pubs_ok b'" using assms(1) by (simp add: b' bus_inv_def pubs_ok_def ball_Un)
  moreover have "subs_ok b'" by (rule subs_ok_cong [OF _ _ s]) (simp_all add: b')
  ultimately show ?thesis using assms(1) by (simp add: b' bus_inv_def bufs_ok_def)
qed (use assms in \<open>simp add: bus_PublishStart_def\<close>)

lemma bus_inv_unsubscribe:
  assumes "bus_inv b" "bus_pubs b = []" "bus_closeFn ch n b = Some b'"
  shows "bus_inv b'"
proof -
  obtain b1 where "bus_closeFn ch n b = Some b1" "bus_pubs b1 = bus_pubs b" "subs_ok b1" "bufs_ok b1"
    by (rule bus_closeFn_ok [OF assms(1)]) blast
  with assms(2,3) show ?thesis by (simp add: bus_inv_def pubs_ok_def)
qed

lemma bus_inv_close:
  assumes "bus_inv b" "bus_pubs b = []" "close_order b keys" "bus_Close keys b = Some b'"
  shows "bus_inv b'"
proof -
  obtain b1 where b1: "bus_Close keys b = Some b1" "bus_pubs b1 = bus_pubs b"
    "bus_isClosed b \<Longrightarrow> b1 = b" "\<not> bus_isClosed b \<Longrightarrow> bus_subs b1 = (\<lambda>_. [])" "bufs_ok b1"
    by (rule bus_Close_ok [OF assms(1,3)]) blast
  with assms show ?thesis
    by (cases "bus_isClosed b") (simp_all add: bus_inv_def subs_ok_def pubs_ok_def)
qed

lemma chan_open_upd: "ch_closed c = ch_closed (bus_chans b ! n) \<Longrightarrow>
    chan_open (b\<lparr>bus_chans := (bus_chans b)[n := c]\<rparr>) m = chan_open b m"
  by (cases "m = n") (auto simp: chan_open_def)

lemma bus_inv_cancel:
  assumes "bus_inv b" shows "bus_inv (bus_cancel i b)"
proof -
  have "pubs_ok (bus_cancel i b)"
    by (rule pubs_ok_subset [of _ b])
      (use assms in \<open>auto simp: bus_cancel_def bus_inv_def dest: in_set_takeD in_set_dropD\<close>)
  moreover have "subs_ok (bus_cancel i b)"
    by (rule subs_ok_cong [of _ b]) (use assms in \<open>simp_all add: bus_cancel_def bus_inv_def\<close>)
  ultimately show ?thesis using assms by (simp add: bus_inv_def bufs_ok_def bus_cancel_def)
qed

lemma bus_inv_chan_upd:
  assumes "bus_inv b" "ch_closed c = ch_closed (bus_chans b ! n)" "length (ch_buf c) \<le> chan_capacity"
  shows "bus_inv (b\<lparr>bus_chans := (bus_chans b)[n := c]\<rparr>)"
proof -
  let ?b = "b\<lparr>bus_chans := (bus_chans b)[n := c]\<rparr>"
  have o: "chan_open ?b m = chan_open b m" for m by (rule chan_open_upd [OF assms(2)])
  have "bufs_ok ?b"
    using assms(1,3) by (auto simp: bus_inv_def bufs_ok_def dest!: set_update_subset_insert [THEN subsetD])
  moreover have "pubs_ok ?b"
    by (rule pubs_ok_subset [of _ b, OF o]) (use assms(1) in \<open>auto simp: bus_inv_def\<close>)
  moreover have "subs_ok ?b"
    by (rule subs_ok_cong [of _ b, OF _ o]) (use assms(1) in \<open>simp_all add: bus_inv_def\<close>)
  ultimately show ?thesis by (simp add: bus_inv_def)
qed

lemma bus_inv_pub_upd:
  assumes "bus_inv b" "i < length (bus_pubs b)" "set (pb_remaining p) \<subseteq> set (pb_remaining (bus_pubs b ! i))"
  shows "bus_inv (b\<lparr>bus_pubs := (bus_pubs b)[i := p]\<rparr>)"
proof -
  let ?b = "b\<lparr>bus_pubs := (bus_pubs b)[i := p]\<rparr>"
  have "pubs_ok ?b"
  proof (rule pubs_ok_subset [of _ b])
    fix q assume "q \<in> set (bus_pubs ?b)"
    then have "q = p \<or> q \<in> set (bus_pubs b)"
      by (auto dest!: set_update_subset_insert [THEN subsetD])
    with assms(2,3) show "\<exists>r \<in> set (bus_pubs b). set (pb_remaining q) \<subseteq> set (pb_remaining r)"
      using nth_mem by blast
  qed (use assms(1) in \<open>simp_all add: bus_inv_def\<close>)
  with assms(1) show ?thesis by (simp add: bus_inv_def bufs_ok_def subs_ok_cong [of _ b])
qed

lemma bus_inv_send:
  assumes "bus_inv b" "i < length (bus_pubs b)" "bus_send i b \<in> {Sent b', Finished b'}"
  shows "bus_inv b'"
proof (cases "pb_remaining (bus_pubs b ! i)")
  case Nil
  with assms(3) have "b' = bus_cancel i b" by (simp add: bus_send_def bus_cancel_def)
  then show ?thesis using bus_inv_cancel [OF assms(1)] by simp
next
  case (Cons n ns)
  let ?p = "bus_pubs b ! i" and ?c = "bus_chans b ! n"
  let ?c' = "?c\<lparr>ch_buf := ch_buf ?c @ [pb_payload ?p]\<rparr>"
  have b': "b' = (b\<lparr>bus_chans := (bus_chans b)[n := ?c']\<rparr>)\<lparr>bus_pubs := (bus_pubs b)[i := ?p\<lparr>pb_remaining := ns\<rparr>]\<rparr>"
    and len: "length (ch_buf ?c) < chan_capacity"
    using assms(3) Cons by (auto simp: bus_send_def Let_def split: if_split_asm)
  have "bus_inv (b\<lparr>bus_chans := (bus_chans b)[n := ?c']\<rparr>)"
    using len by (intro bus_inv_chan_upd [OF assms(1)]) simp_all
  from bus_inv_pub_upd [OF this, of i "?p\<lparr>pb_remaining := ns\<rparr>"] assms(2) Cons
  show ?thesis by (auto simp: b')
qed

lemma bus_inv_receive:
  assumes "bus_inv b" "bus_receive n b = Some (d, b')"
  shows "bus_inv b'"
proof -
  let ?c = "bus_chans b ! n"
  obtain ds where ds: "ch_buf ?c = d # ds" "n < length (bus_chans b)"
    and b': "b' = b\<lparr>bus_chans := (bus_chans b)[n := ?c\<lparr>ch_buf := ds\<rparr>]\<rparr>"
    using assms(2) by (auto simp: bus_receive_def split: if_split_asm list.splits)
  have "length (ch_buf ?c) \<le> chan_capacity"
    using assms(1) ds(2) by (auto simp: bus_inv_def bufs_ok_def)
  then show ?thesis unfolding b' using ds by (intro bus_inv_chan_upd [OF assms(1)]) simp_all
qed

lemma bus_inv_step:
  assumes "bus_step b l b'" "bus_inv b" shows "bus_inv b'"
  using assms(1)
proof cases
  case subscribe then show ?thesis using bus_inv_subscribe [OF assms(2)] by blast
next
  case unsubscribe then show ?thesis using bus_inv_unsubscribe [OF assms(2)] by blast
next
  case close then show ?thesis using bus_inv_close [OF assms(2)] by blast
next
  case publish then show ?thesis using bus_inv_publish [OF assms(2)] by blast
next
  case send then show ?thesis using bus_inv_send [OF assms(2)] by blast
next
  case cancel then show ?thesis using bus_inv_cancel [OF assms(2)] by blast
next
  case receive then show ?thesis using bus_inv_receive [OF assms(2)] by blast
qed

lemma bus_inv_reach: "bus_reach b \<Longrightarrow> bus_inv b"
  by (induction rule: bus_reach.induct) (auto intro: bus_inv_NewInmem bus_inv_step)

section \<open>Properties\<close>

text \<open>C31. The bus never panics, whatever publishers, subscribers and \<open>Close\<close> do concurrently: in every
  reachable state no send of an in-flight \<open>Publish\<close> meets a closed channel, and the close function
  of any subscription and \<open>Close\<close> never close a channel twice.\<close>

theorem bus_never_panics:
  assumes "bus_reach b"
  shows "(i < length (bus_pubs b) \<longrightarrow> bus_send i b \<noteq> SendPanic) \<and>
    (\<exists>b'. bus_closeFn ch n b = Some b') \<and> (close_order b keys \<longrightarrow> (\<exists>b'. bus_Close keys b = Some b'))"
proof (intro conjI impI)
  have inv: "bus_inv b" by (rule bus_inv_reach [OF assms])
  show "\<exists>b'. bus_closeFn ch n b = Some b'" by (rule bus_closeFn_ok [OF inv]) blast
  show "\<exists>b'. bus_Close keys b = Some b'" if "close_order b keys"
    by (rule bus_Close_ok [OF inv that]) blast
  assume i: "i < length (bus_pubs b)"
  show "bus_send i b \<noteq> SendPanic"
  proof (cases "pb_remaining (bus_pubs b ! i)")
    case (Cons m ms)
    with i inv have "chan_open b m"
      unfolding bus_inv_def pubs_ok_def by (metis list.set_intros(1) nth_mem)
    with Cons show ?thesis by (simp add: bus_send_def chan_open_def Let_def)
  qed (simp add: bus_send_def)
qed

lemma two_subscribers_reach:
  "bus_reach \<lparr>bus_subs = (\<lambda>_. [])(''run'' := [0]), bus_isClosed = False,
     bus_chans = [\<lparr>ch_buf = [], ch_closed = False\<rparr>],
     bus_pubs = [\<lparr>pb_payload = ''x'', pb_remaining = [0]\<rparr>]\<rparr>"
proof -
  let ?b1 = "\<lparr>bus_subs = (\<lambda>_. [])(''run'' := [0]), bus_isClosed = False,
     bus_chans = [\<lparr>ch_buf = [], ch_closed = False\<rparr>], bus_pubs = []\<rparr>"
  have "bus_step NewInmem (LSubscribe ''run'') ?b1"
    by (rule bus_step.subscribe) (simp_all add: NewInmem_def bus_Subscribe_def)
  then have "bus_reach ?b1" by (rule bus_reach.step [OF bus_reach.init])
  then show ?thesis
    by (rule bus_reach.step) (rule bus_step.publish [of "''run''" "''x''"], simp add: bus_PublishStart_def)
qed

theorem bus_never_panics_witness:
  "\<exists>b. bus_reach b \<and> length (bus_pubs b) = 1 \<and> bus_subs b ''run'' = [0] \<and> bus_send 0 b \<noteq> SendPanic \<and>
    (\<exists>b'. bus_closeFn ''run'' 0 b = Some b')"
proof -
  let ?b = "\<lparr>bus_subs = (\<lambda>_. [])(''run'' := [0]), bus_isClosed = False,
     bus_chans = [\<lparr>ch_buf = [], ch_closed = False\<rparr>],
     bus_pubs = [\<lparr>pb_payload = ''x'', pb_remaining = [0]\<rparr>]\<rparr>"
  from bus_never_panics [OF two_subscribers_reach, of 0 "''run''" 0] two_subscribers_reach
  show ?thesis by (intro exI [of _ ?b]) simp
qed

section \<open>A subscriber that stops reading\<close>

inductive bus_run :: "bus \<Rightarrow> bus_label list \<Rightarrow> bus \<Rightarrow> bool" where
  nil: "bus_run b [] b"
| more: "bus_step b l b1 \<Longrightarrow> bus_run b1 ls b' \<Longrightarrow> bus_run b (l # ls) b'"

text \<open>Some call in flight waits for room in the full channel \<open>n\<close>.\<close>

definition stalled :: "nat \<Rightarrow> bus \<Rightarrow> bool" where
  "stalled n b \<longleftrightarrow> n < length (bus_chans b) \<and> \<not> ch_closed (bus_chans b ! n) \<and>
    length (ch_buf (bus_chans b ! n)) \<ge> chan_capacity \<and>
    (\<exists>p \<in> set (bus_pubs b). \<exists>ns. pb_remaining p = n # ns)"

definition frees :: "nat \<Rightarrow> bus_label \<Rightarrow> bool" where
  "frees n l \<longleftrightarrow> l = LReceive n \<or> (\<exists>i. l = LCancel i)"

lemma stalled_no_exclusive: "stalled n b \<Longrightarrow> bus_pubs b \<noteq> []"
  by (auto simp: stalled_def)

lemma stalled_send:
  assumes "stalled n b" "i < length (bus_pubs b)" "bus_send i b \<in> {Sent b', Finished b'}"
  shows "stalled n b'"
proof -
  obtain p ns where p: "p \<in> set (bus_pubs b)" "pb_remaining p = n # ns"
    using assms(1) by (auto simp: stalled_def)
  obtain j where j: "j < length (bus_pubs b)" "bus_pubs b ! j = p" using p(1) by (auto simp: in_set_conv_nth)
  have "i \<noteq> j" using assms j p(2) by (auto simp: bus_send_def stalled_def Let_def)
  show ?thesis
  proof (cases "pb_remaining (bus_pubs b ! i)")
    case Nil
    with assms(3) have b': "b' = b\<lparr>bus_pubs := take i (bus_pubs b) @ drop (Suc i) (bus_pubs b)\<rparr>"
      by (simp add: bus_send_def)
    have "p \<in> set (take i (bus_pubs b) @ drop (Suc i) (bus_pubs b))"
    proof (cases "j < i")
      case True
      with j assms(2) have "p = take i (bus_pubs b) ! j" "j < length (take i (bus_pubs b))" by simp_all
      then have "p \<in> set (take i (bus_pubs b))" by (metis nth_mem)
      then show ?thesis by simp
    next
      case False
      with \<open>i \<noteq> j\<close> j have "p = drop (Suc i) (bus_pubs b) ! (j - Suc i)"
        "j - Suc i < length (drop (Suc i) (bus_pubs b))" by simp_all
      then have "p \<in> set (drop (Suc i) (bus_pubs b))" by (metis nth_mem)
      then show ?thesis by simp
    qed
    with assms(1) p(2) show ?thesis by (auto simp: b' stalled_def)
  next
    case (Cons m ms)
    let ?p = "bus_pubs b ! i" and ?c = "bus_chans b ! m"
    have b': "b' = b\<lparr>bus_chans := (bus_chans b)[m := ?c\<lparr>ch_buf := ch_buf ?c @ [pb_payload ?p]\<rparr>],
        bus_pubs := (bus_pubs b)[i := ?p\<lparr>pb_remaining := ms\<rparr>]\<rparr>"
      and len: "length (ch_buf ?c) < chan_capacity"
      using assms(3) Cons by (auto simp: bus_send_def Let_def split: if_split_asm)
    with assms(1) have "m \<noteq> n" by (auto simp: stalled_def)
    have "bus_pubs b' ! j = p" "j < length (bus_pubs b')" using j \<open>i \<noteq> j\<close> by (simp_all add: b')
    then have "p \<in> set (bus_pubs b')" by (metis nth_mem)
    then have "\<exists>p \<in> set (bus_pubs b'). \<exists>ns. pb_remaining p = n # ns" using p(2) by blast
    moreover have "bus_chans b' ! n = bus_chans b ! n" "length (bus_chans b') = length (bus_chans b)"
      using \<open>m \<noteq> n\<close> by (simp_all add: b')
    ultimately show ?thesis using assms(1) by (simp add: stalled_def)
  qed
qed

lemma stalled_step:
  assumes "bus_step b l b'" "stalled n b" "\<not> frees n l"
  shows "stalled n b' \<and> (\<forall>ch m. l \<noteq> LSubscribe ch \<and> l \<noteq> LUnsubscribe ch m \<and> l \<noteq> LClose)"
  using assms(1)
proof cases
  case (publish ch d r)
  then show ?thesis using assms(2)
    by (auto simp: bus_PublishStart_def stalled_def split: if_split_asm)
next
  case (send i)
  then show ?thesis using stalled_send [OF assms(2)] by simp
next
  case (receive m d)
  with assms(3) have "m \<noteq> n" by (simp add: frees_def)
  with receive assms(2) show ?thesis
    by (auto simp: bus_receive_def stalled_def split: if_split_asm list.splits)
qed (use stalled_no_exclusive [OF assms(2)] assms(3) in \<open>auto simp: frees_def\<close>)

text \<open>C32. One subscriber that stops reading while a \<open>Publish\<close> waits for room in its channel holds up
  the whole bus: in every continuation in which neither that subscriber reads again nor some
  publisher's context ends, no \<open>Subscribe\<close>, no \<open>Unsubscribe\<close> (of that subscriber either) and no
  \<open>Close\<close> ever takes place, on any channel.\<close>

theorem stalled_subscriber_blocks_bus:
  assumes "bus_run b ls b'" "stalled n b" "\<forall>l \<in> set ls. \<not> frees n l"
  shows "stalled n b' \<and>
    (\<forall>ch m. LSubscribe ch \<notin> set ls \<and> LUnsubscribe ch m \<notin> set ls \<and> LClose \<notin> set ls)"
  using assms
proof (induction rule: bus_run.induct)
  case (more b l b1 ls b')
  then have s: "stalled n b1 \<and> (\<forall>ch m. l \<noteq> LSubscribe ch \<and> l \<noteq> LUnsubscribe ch m \<and> l \<noteq> LClose)"
    by (intro stalled_step) simp_all
  with more show ?case by auto
qed simp

theorem stalled_subscriber_blocks_bus_witness:
  "\<exists>b b'. bus_run b [LPublish ''other'' ''y'', LSend 1] b' \<and> stalled 0 b \<and> stalled 0 b' \<and>
    length (bus_pubs b') = 1"
proof -
  let ?c = "\<lparr>ch_buf = replicate 64 ''e'', ch_closed = False\<rparr>"
  let ?p = "\<lparr>pb_payload = ''x'', pb_remaining = [0]\<rparr>"
  let ?b = "\<lparr>bus_subs = (\<lambda>_. [])(''run'' := [0]), bus_isClosed = False, bus_chans = [?c], bus_pubs = [?p]\<rparr>"
  let ?b1 = "?b\<lparr>bus_pubs := [?p, \<lparr>pb_payload = ''y'', pb_remaining = []\<rparr>]\<rparr>"
  have 1: "bus_step ?b (LPublish ''other'' ''y'') ?b1"
    by (rule bus_step.publish) (simp add: bus_PublishStart_def)
  have 2: "bus_step ?b1 (LSend 1) ?b"
    by (rule bus_step.send) (simp_all add: bus_send_def)
  have r: "bus_run ?b [LPublish ''other'' ''y'', LSend 1] ?b"
    by (rule bus_run.more [OF 1 bus_run.more [OF 2 bus_run.nil]])
  have s: "stalled 0 ?b" by (simp add: stalled_def chan_capacity_def)
  have f: "\<forall>l \<in> set [LPublish ''other'' ''y'', LSend 1]. \<not> frees 0 l" by (simp add: frees_def)
  from stalled_subscriber_blocks_bus [OF r s f] r s show ?thesis by (intro exI [of _ ?b]) simp
qed


end
