(* ===== verification/KV_Store.thy ===== *)
theory KV_Store
  imports Prelude
begin

text \<open>
  The generic key-value store of \<open>internal/store/kv.go\<close>. Every method runs under the store's lock,
  so a concurrent history of the store is a sequence of operations; the store is the Go map.
  The order in which \<open>Keys\<close> lists the keys is Go's unspecified map order, the argument \<open>order\<close>.
\<close>

section \<open>Operations\<close>

type_synonym ('k, 'v) kv = "('k \<times> 'v) list"

text \<open>The map as an association list with one pair per key.\<close>

definition NewKV :: "('k, 'v) kv" where
  "NewKV = []"

definition kv_Delete :: "'k \<Rightarrow> ('k, 'v) kv \<Rightarrow> ('k, 'v) kv" where
  "kv_Delete key m = filter (\<lambda>p. fst p \<noteq> key) m"

definition kv_Set :: "'k \<Rightarrow> 'v \<Rightarrow> ('k, 'v) kv \<Rightarrow> ('k, 'v) kv" where
  "kv_Set key v m = (key, v) # kv_Delete key m"

definition kv_Get :: "'k \<Rightarrow> ('k, 'v) kv \<Rightarrow> 'v option" where
  "kv_Get key m = map_of m key"

definition kv_DeleteIf :: "'k \<Rightarrow> 'v \<Rightarrow> ('k, 'v) kv \<Rightarrow> bool \<times> ('k, 'v) kv" where
  "kv_DeleteIf key expected m = (case map_of m key of
      None \<Rightarrow> (False, m)
    | Some current \<Rightarrow> if current \<noteq> expected then (False, m) else (True, kv_Delete key m))"

definition kv_Pop :: "'k \<Rightarrow> ('k, 'v) kv \<Rightarrow> 'v option \<times> ('k, 'v) kv" where
  "kv_Pop key m = (case map_of m key of
      None \<Rightarrow> (None, m) | Some v \<Rightarrow> (Some v, kv_Delete key m))"

definition kv_Keys :: "('k list \<Rightarrow> 'k list) \<Rightarrow> ('k, 'v) kv \<Rightarrow> 'k list" where
  "kv_Keys order m = order (map fst m)"

definition kv_Len :: "('k, 'v) kv \<Rightarrow> nat" where
  "kv_Len m = length m"

definition kv_Clear :: "('k, 'v) kv \<Rightarrow> ('k, 'v) kv" where
  "kv_Clear m = NewKV"

section \<open>The contract of a registry\<close>

text \<open>What the users of the store rely on: it is a finite map.\<close>

locale registry =
  fixes put :: "'k \<Rightarrow> 'v \<Rightarrow> 's \<Rightarrow> 's"
    and del :: "'k \<Rightarrow> 's \<Rightarrow> 's"
    and get :: "'k \<Rightarrow> 's \<Rightarrow> 'v option"
    and len :: "'s \<Rightarrow> nat"
    and inv :: "'s \<Rightarrow> bool"
  assumes get_put: "inv s \<Longrightarrow> get j (put k v s) = (if j = k then Some v else get j s)"
    and get_del: "inv s \<Longrightarrow> get j (del k s) = (if j = k then None else get j s)"
    and inv_put: "inv s \<Longrightarrow> inv (put k v s)"
    and inv_del: "inv s \<Longrightarrow> inv (del k s)"
    and len_card: "inv s \<Longrightarrow> len s = card (dom (\<lambda>k. get k s)) \<and> finite (dom (\<lambda>k. get k s))"
begin

lemma dom_put: "inv s \<Longrightarrow> dom (\<lambda>j. get j (put k v s)) = insert k (dom (\<lambda>j. get j s))"
  by (auto simp: get_put split: if_splits)

lemma dom_del: "inv s \<Longrightarrow> dom (\<lambda>j. get j (del k s)) = dom (\<lambda>j. get j s) - {k}"
  by (auto simp: get_del split: if_splits)

lemma len_put: "inv s \<Longrightarrow> len (put k v s) = (if get k s = None then len s + 1 else len s)"
  using len_card [of s] len_card [OF inv_put, of s k v]
  by (auto simp: dom_put card_insert_if domIff)

lemma len_del: "inv s \<Longrightarrow> len (del k s) = (if get k s = None then len s else len s - 1)"
  using len_card [of s] len_card [OF inv_del, of s k]
  by (auto simp: dom_del card_Diff_singleton_if domIff)

text \<open>Operations on other keys do not disturb a key.\<close>

lemma put_del_other: "inv s \<Longrightarrow> j \<noteq> k \<Longrightarrow> get j (put k v (del k s)) = get j s"
  by (simp add: get_put get_del inv_del)

end

definition kv_inv :: "('k, 'v) kv \<Rightarrow> bool" where
  "kv_inv m \<longleftrightarrow> distinct (map fst m)"

lemma map_of_Delete: "map_of (kv_Delete k m) j = (if j = k then None else map_of m j)"
  using map_of_filter_key [of "\<lambda>x. x \<noteq> k" j m] map_of_filter_key_None [of "\<lambda>x. x \<noteq> k" j m]
  by (auto simp: kv_Delete_def)

lemma kv_inv_Delete [intro]: "kv_inv m \<Longrightarrow> kv_inv (kv_Delete k m)"
  by (induction m) (auto simp: kv_inv_def kv_Delete_def)

lemma kv_inv_Set [intro]: "kv_inv m \<Longrightarrow> kv_inv (kv_Set k v m)"
  using kv_inv_Delete [of m k] by (auto simp: kv_inv_def kv_Set_def kv_Delete_def)

lemma kv_len_card: "kv_inv m \<Longrightarrow> kv_Len m = card (dom (\<lambda>k. kv_Get k m))"
proof -
  assume "kv_inv m"
  then have "length m = card (set (map fst m))"
    using distinct_card [of "map fst m"] by (simp add: kv_inv_def)
  moreover have "dom (\<lambda>k. kv_Get k m) = set (map fst m)"
    by (simp add: kv_Get_def dom_map_of_conv_image_fst)
  ultimately show ?thesis by (simp add: kv_Len_def)
qed

interpretation kv: registry kv_Set kv_Delete kv_Get kv_Len kv_inv
proof unfold_locales
  fix m :: "('k, 'v) kv" and j k :: 'k and v :: 'v
  show "kv_Get j (kv_Set k v m) = (if j = k then Some v else kv_Get j m)"
    by (simp add: kv_Get_def kv_Set_def map_of_Delete)
  show "kv_Get j (kv_Delete k m) = (if j = k then None else kv_Get j m)"
    by (simp add: kv_Get_def map_of_Delete)
  assume "kv_inv m"
  then show "kv_inv (kv_Set k v m)" "kv_inv (kv_Delete k m)" by auto
  from \<open>kv_inv m\<close> show "kv_Len m = card (dom (\<lambda>k. kv_Get k m)) \<and> finite (dom (\<lambda>k. kv_Get k m))"
    by (simp add: kv_len_card) (simp add: kv_Get_def finite_dom_map_of)
qed

section \<open>Histories\<close>

text \<open>A call of the store by some goroutine, and what it returned.\<close>

datatype ('k, 'v) kv_call =
    CSet 'k 'v | CDelete 'k | CDeleteIf 'k 'v | CPop 'k | CGet 'k | CClear

fun kv_do :: "('k, 'v) kv_call \<Rightarrow> ('k, 'v) kv \<Rightarrow> 'v option \<times> ('k, 'v) kv" where
  "kv_do (CSet k v) m = (None, kv_Set k v m)"
| "kv_do (CDelete k) m = (None, kv_Delete k m)"
| "kv_do (CDeleteIf k v) m = (case kv_DeleteIf k v m of
     (b, m') \<Rightarrow> (if b then Some v else None, m'))"
| "kv_do (CPop k) m = kv_Pop k m"
| "kv_do (CGet k) m = (None, m)"
| "kv_do CClear m = (None, kv_Clear m)"

fun kv_history :: "('k, 'v) kv_call list \<Rightarrow> ('k, 'v) kv \<Rightarrow> 'v option list \<times> ('k, 'v) kv" where
  "kv_history [] m = ([], m)"
| "kv_history (c # cs) m = (let (r, m1) = kv_do c m; (rs, m2) = kv_history cs m1 in (r # rs, m2))"

text \<open>The calls that claim the key: a \<open>Pop\<close> or a \<open>DeleteIf\<close> of it that found a value.\<close>

fun takes :: "'k \<Rightarrow> ('k, 'v) kv_call \<Rightarrow> bool" where
  "takes k (CPop j) = (j = k)"
| "takes k (CDeleteIf j v) = (j = k)"
| "takes k c = False"

fun sets :: "'k \<Rightarrow> ('k, 'v) kv_call \<Rightarrow> bool" where
  "sets k (CSet j v) = (j = k)"
| "sets k c = False"

definition claims :: "'k \<Rightarrow> ('k, 'v) kv_call list \<Rightarrow> ('k, 'v) kv \<Rightarrow> nat" where
  "claims k cs m = length (filter (\<lambda>(c, r). takes k c \<and> r \<noteq> None) (zip cs (fst (kv_history cs m))))"

lemma claims_Cons: "claims k (c # cs) m =
    (if takes k c \<and> fst (kv_do c m) \<noteq> None then 1 else 0) + claims k cs (snd (kv_do c m))"
  by (simp add: claims_def split: prod.splits)

lemma kv_call_inv: "kv_inv m \<Longrightarrow> kv_inv (snd (kv_do c m))"
  by (cases c) (auto simp: kv_DeleteIf_def kv_Pop_def kv_Clear_def NewKV_def kv_inv_def [of "[]"]
      split: option.splits)

text \<open>How a call moves the credit of a key: one if it is present.\<close>

definition credit :: "'k \<Rightarrow> ('k, 'v) kv \<Rightarrow> nat" where
  "credit k m = (if kv_Get k m = None then 0 else 1)"

lemma kv_call_credit:
  assumes "kv_inv m"
  shows "credit k (snd (kv_do c m)) + (if takes k c \<and> fst (kv_do c m) \<noteq> None then 1 else 0)
    \<le> credit k m + (if sets k c then 1 else 0)"
  using kv.get_put [OF assms, of k] kv.get_del [OF assms, of k]
  by (cases c) (auto simp: credit_def kv_DeleteIf_def kv_Pop_def kv_Clear_def NewKV_def kv_Get_def
      split: option.splits)

lemma claims_bound:
  "kv_inv m \<Longrightarrow> claims k cs m \<le> credit k m + length (filter (sets k) cs)"
proof (induction cs arbitrary: m)
  case Nil
  show ?case by (simp add: claims_def)
next
  case (Cons c cs)
  have "claims k cs (snd (kv_do c m)) \<le> credit k (snd (kv_do c m)) + length (filter (sets k) cs)"
    by (rule Cons.IH [OF kv_call_inv [OF Cons.prems]])
  with kv_call_credit [OF Cons.prems, of k c]
  have "claims k (c # cs) m \<le> credit k m + (if sets k c then 1 else 0) + length (filter (sets k) cs)"
    unfolding claims_Cons by linarith
  then show ?case by (simp split: if_splits)
qed

text \<open>An entry is claimed once: in any interleaving of calls of the store, the successful \<open>Pop\<close>s
  and \<open>DeleteIf\<close>s of a key are at most as many as the \<open>Set\<close>s of that key, plus one if it was
  there before. So of all goroutines racing to take one pending approval, one gets it.\<close>

theorem claimed_once:
  assumes "kv_inv m"
  shows "claims k cs m \<le> (if kv_Get k m = None then 0 else 1) + length (filter (sets k) cs)"
  using claims_bound [OF assms, of k cs] by (simp add: credit_def)

theorem claimed_once_witness:
  "claims ''tok'' [CSet ''tok'' (1::nat), CGet ''tok'', CPop ''tok'', CPop ''tok'', CDeleteIf ''tok'' 1]
     NewKV = 1"
proof -
  let ?cs = "[CSet ''tok'' (1::nat), CGet ''tok'', CPop ''tok'', CPop ''tok'', CDeleteIf ''tok'' 1]"
  have inv: "kv_inv (NewKV :: (string, nat) kv)" by (simp add: kv_inv_def NewKV_def)
  have "claims ''tok'' ?cs NewKV \<le> 1"
    using claimed_once [OF inv, of "''tok''" ?cs] by (simp add: kv_Get_def NewKV_def)
  moreover have "1 \<le> claims ''tok'' ?cs NewKV"
    by (simp add: claims_def NewKV_def kv_Set_def kv_Delete_def kv_Pop_def kv_DeleteIf_def)
  ultimately show ?thesis by simp
qed

end
