(* ===== verification/Run_Types.thy ===== *)
theory Run_Types
  imports Effects
begin

text \<open>
  The values that the runtime core (\<open>internal/runtime/base/types.go\<close>, \<open>utils.go\<close>) passes around: tools
  as the runtime sees them, resolved tool calls, token usage and its accumulation, telemetry, and
  the names of retriever tools. A tool is the record of its methods; the optional interfaces
  \<open>ToolKindProvider\<close>, \<open>ToolApproval\<close> and \<open>ToolAuthorizer\<close> are \<open>None\<close> when not implemented. What
  \<open>Execute\<close> returns as \<open>any\<close> is a slice of documents, or a value with its \<open>%T\<close> and \<open>%v\<close> forms.
\<close>

definition nl :: string where "nl = [CHR 0x0A]"

section \<open>Tools\<close>

datatype tool_value =
    DocsValue "document list"
  | OtherValue (tv_type: string) (tv_text: string)

record tool_exec_meta =
  tm_IdempotencyKey :: string
  tm_RunID :: string
  tm_ToolCallID :: string
  tm_Iteration :: int

record auth_decision =
  ad_Allow :: bool
  ad_Reason :: string

record 'w tool =
  tl_Name :: string
  tl_DisplayName :: string
  tl_Description :: string
  tl_Parameters :: go_any
  tl_ToolKind :: "string option"
  tl_ApprovalRequired :: "bool option"
  tl_Authorize :: "(go_args \<Rightarrow> ('w, go_error + auth_decision) state) option"
  tl_Execute :: "tool_exec_meta option \<Rightarrow> go_args \<Rightarrow> ('w, go_error + tool_value) state"

definition ToolToSpec :: "'w tool \<Rightarrow> tool_spec" where
  "ToolToSpec t = \<lparr>spec_Name = tl_Name t, spec_Description = tl_Description t,
     spec_Parameters = tl_Parameters t\<rparr>"

definition ToolsToSpecs :: "'w tool list \<Rightarrow> tool_spec list" where
  "ToolsToSpecs tools = map ToolToSpec tools"

fun FindToolByName :: "'w tool list \<Rightarrow> string \<Rightarrow> 'w tool option" where
  "FindToolByName [] toolName = None"
| "FindToolByName (t # ts) toolName =
     (if tl_Name t = toolName then Some t else FindToolByName ts toolName)"

fun_cases FindToolByName_NilE: "FindToolByName [] n = Some t"
fun_cases FindToolByName_ConsE: "FindToolByName (u # ts) n = Some t"

lemma FindToolByName_Some:
  "FindToolByName ts n = Some t \<Longrightarrow> tl_Name t = n \<and> t \<in> set ts"
  by (induction ts) (auto elim: FindToolByName_NilE FindToolByName_ConsE split: if_splits)

lemma FindToolByName_None: "FindToolByName ts n = None \<longleftrightarrow> (\<forall>t \<in> set ts. tl_Name t \<noteq> n)"
  by (induction ts) auto

definition tool_kind :: "'w tool \<Rightarrow> string" where
  "tool_kind t = KindOf (tl_ToolKind t)"

section \<open>Tool calls\<close>

record tool_call_request =
  tr_ToolCallID :: string
  tr_ToolName :: string
  tr_ToolDisplayName :: string
  tr_ToolKind :: string
  tr_Args :: go_args
  tr_NeedsApproval :: bool
  tr_Unknown :: bool

record llm_result =
  lr_Content :: string
  lr_ToolCalls :: "tool_call_request list"
  lr_Usage :: "llm_usage option"

record authorize_result =
  ar_Allowed :: bool
  ar_Reason :: string

definition UnknownToolMessage :: "string \<Rightarrow> string" where
  "UnknownToolMessage name = ''Unknown tool '' @ Quote name @ ''. It is not registered on this agent.''"

definition IsUnknownTool :: "tool_call_request \<Rightarrow> 'w tool list \<Rightarrow> bool" where
  "IsUnknownTool tc tools =
    (if tr_Unknown tc then True else FindToolByName tools (tr_ToolName tc) = None)"

record 'w execute_tool_input =
  xt_Tools :: "'w tool list"
  xt_ToolName :: string
  xt_Args :: go_args
  xt_ToolCallID :: string
  xt_RunID :: string
  xt_Iteration :: int

text \<open>The key is the first 32 hex digits of the SHA-256 of the call's coordinates.\<close>

definition IdempotencyKey :: "(string \<Rightarrow> string) \<Rightarrow> 'w execute_tool_input \<Rightarrow> string" where
  "IdempotencyKey sha256hex i =
     take 32 (sha256hex (xt_RunID i @ '':'' @ itoa (xt_Iteration i) @ '':'' @ xt_ToolCallID i))"

record retriever_result =
  rr_Context :: string
  rr_TotalSearches :: int
  rr_FailedSearches :: int

record memory_result =
  mm_Context :: string
  mm_TotalRecalls :: int
  mm_FailedRecalls :: int

section \<open>Sub-agents\<close>

definition SubAgentToolParamQuery :: string where "SubAgentToolParamQuery = ''query''"

definition SubAgentQuery :: "go_args \<Rightarrow> string" where
  "SubAgentQuery args = (case args of None \<Rightarrow> ''''
     | Some xs \<Rightarrow> (case arg_string args SubAgentToolParamQuery of Some q \<Rightarrow> q | None \<Rightarrow> ''''))"

definition scopeKeyParentAgentID :: string where "scopeKeyParentAgentID = ''parent_agent_id''"

text \<open>\<open>m[k] = v\<close> on a map given by its pairs.\<close>

definition pair_put :: "'k \<Rightarrow> 'v \<Rightarrow> ('k \<times> 'v) list \<Rightarrow> ('k \<times> 'v) list" where
  "pair_put k v m = (k, v) # filter (\<lambda>p. fst p \<noteq> k) m"

lemma map_of_pair_put [simp]: "map_of (pair_put k v m) = (map_of m)(k \<mapsto> v)"
proof (rule ext)
  fix j
  show "map_of (pair_put k v m) j = ((map_of m)(k \<mapsto> v)) j"
    using map_of_filter_key [of "\<lambda>x. x \<noteq> k" j m] by (simp add: pair_put_def)
qed

definition SubAgentScope :: "memory_scope \<Rightarrow> string \<Rightarrow> memory_scope" where
  "SubAgentScope parent subAgentID =
    (let scope = \<lparr>sc_UserID = sc_UserID parent, sc_TenantID = sc_TenantID parent,
                  sc_AgentID = TrimSpace subAgentID, sc_Tags = []\<rparr>
     in if sc_AgentID parent \<noteq> '''' \<or> sc_Tags parent \<noteq> [] then
          scope\<lparr>sc_Tags := (if sc_AgentID parent \<noteq> ''''
            then pair_put scopeKeyParentAgentID (sc_AgentID parent) (sc_Tags parent)
            else sc_Tags parent)\<rparr>
        else scope)"

section \<open>Prompt text of retrieved documents and memories\<close>

definition RetrieverDocFormat :: "int \<Rightarrow> document \<Rightarrow> string" where
  "RetrieverDocFormat i d = ''['' @ itoa i @ ''] '' @ doc_Content d @ nl @ ''(source: '' @ doc_Source d
     @ '', score: '' @ fmt_fixed 2 (doc_Score d) @ '')'' @ nl @ nl"

fun format_docs :: "int \<Rightarrow> document list \<Rightarrow> string" where
  "format_docs i [] = ''''"
| "format_docs i (d # ds) = RetrieverDocFormat i d @ format_docs (i + 1) ds"

definition FormatRetrieverDocs :: "document list \<Rightarrow> string" where
  "FormatRetrieverDocs docs = format_docs 1 docs"

definition MemoryEntryFormat :: "int \<Rightarrow> memory_entry \<Rightarrow> string" where
  "MemoryEntryFormat i e = ''['' @ itoa i @ ''] '' @ me_Text e @ nl @ ''(kind: '' @ me_Kind e
     @ '', score: '' @ fmt_fixed 2 (me_Score e) @ '')'' @ nl @ nl"

fun format_entries :: "int \<Rightarrow> memory_entry list \<Rightarrow> string" where
  "format_entries i [] = ''''"
| "format_entries i (e # es) = MemoryEntryFormat i e @ format_entries (i + 1) es"

definition FormatMemoryEntries :: "memory_entry list \<Rightarrow> string" where
  "FormatMemoryEntries entries = format_entries 1 entries"

section \<open>Retriever tool names\<close>

definition RetrieverToolNamePrefix :: string where "RetrieverToolNamePrefix = ''retriever_''"
definition RetrieverToolParamQuery :: string where "RetrieverToolParamQuery = ''query''"

definition RetrieverToolName :: "string \<Rightarrow> string" where
  "RetrieverToolName retrieverName =
    (let name = TrimSpace retrieverName
     in if name = '''' then '''' else RetrieverToolNamePrefix @ name)"

definition RetrieverNameFromToolName :: "string \<Rightarrow> string option" where
  "RetrieverNameFromToolName toolName =
    (let tn = TrimSpace toolName
     in if tn = '''' \<or> \<not> HasPrefix tn RetrieverToolNamePrefix then None
        else let name = TrimSpace (drop (length RetrieverToolNamePrefix) tn)
             in if name = '''' then None else Some name)"

definition RetrieverToolDisplayName :: "string \<Rightarrow> string" where
  "RetrieverToolDisplayName retrieverKey =
    (let key = TrimSpace retrieverKey in if key = '''' then '''' else key @ '' Retriever Tool'')"

definition RetrieverToolParamQueryValue :: "go_args \<Rightarrow> go_error + string" where
  "RetrieverToolParamQueryValue args = (case arg_string args RetrieverToolParamQuery of
      None \<Rightarrow> Inl (ErrNew (''retriever tool: '' @ Quote RetrieverToolParamQuery @ '' parameter required''))
    | Some q \<Rightarrow> (let query = TrimSpace q in
        if query = '''' then
          Inl (ErrNew (''retriever tool: '' @ Quote RetrieverToolParamQuery @ '' must be non-empty''))
        else Inr query))"

section \<open>Token usage\<close>

definition CloneLLMUsage :: "llm_usage option \<Rightarrow> llm_usage option" where
  "CloneLLMUsage u = u"

definition MergeLLMUsage :: "llm_usage option \<Rightarrow> llm_usage option \<Rightarrow> llm_usage option" where
  "MergeLLMUsage acc add = (case add of
      None \<Rightarrow> acc
    | Some b \<Rightarrow> (case acc of
        None \<Rightarrow> CloneLLMUsage add
      | Some a \<Rightarrow> Some
          \<lparr>PromptTokens = int64 (PromptTokens a + PromptTokens b),
           CompletionTokens = int64 (CompletionTokens a + CompletionTokens b),
           TotalTokens = int64 (TotalTokens a + TotalTokens b),
           CachedPromptTokens = int64 (CachedPromptTokens a + CachedPromptTokens b),
           ReasoningTokens = int64 (ReasoningTokens a + ReasoningTokens b)\<rparr>))"

definition ApplyLLMSampling :: "llm_sampling option \<Rightarrow> llm_request \<Rightarrow> llm_request" where
  "ApplyLLMSampling s req = (case s of None \<Rightarrow> req | Some sm \<Rightarrow>
    (let r1 = (if sm_Temperature sm \<noteq> None then req\<lparr>rq_Temperature := sm_Temperature sm\<rparr> else req);
         r2 = (if sm_MaxTokens sm > 0 then r1\<lparr>rq_MaxTokens := sm_MaxTokens sm\<rparr> else r1);
         r3 = (if sm_TopP sm \<noteq> None then r2\<lparr>rq_TopP := sm_TopP sm\<rparr> else r2);
         r4 = (if sm_TopK sm \<noteq> None then r3\<lparr>rq_TopK := sm_TopK sm\<rparr> else r3)
     in if sm_Reasoning sm \<noteq> None then r4\<lparr>rq_Reasoning := sm_Reasoning sm\<rparr> else r4))"

text \<open>Usage as an additive monoid, so that the library's \<open>sum_list\<close> totals a run.\<close>

instantiation unit :: comm_monoid_add
begin

definition zero_unit :: unit where "zero_unit = ()"
definition plus_unit :: "unit \<Rightarrow> unit \<Rightarrow> unit" where "plus_unit a b = ()"

instance by standard simp_all

end

instantiation llm_usage_ext :: (comm_monoid_add) comm_monoid_add
begin

definition zero_llm_usage_ext :: "'a llm_usage_scheme" where
  "zero_llm_usage_ext = \<lparr>PromptTokens = 0, CompletionTokens = 0, TotalTokens = 0,
     CachedPromptTokens = 0, ReasoningTokens = 0, \<dots> = 0\<rparr>"

definition plus_llm_usage_ext ::
    "'a llm_usage_scheme \<Rightarrow> 'a llm_usage_scheme \<Rightarrow> 'a llm_usage_scheme" where
  "plus_llm_usage_ext a b = \<lparr>PromptTokens = PromptTokens a + PromptTokens b,
     CompletionTokens = CompletionTokens a + CompletionTokens b,
     TotalTokens = TotalTokens a + TotalTokens b,
     CachedPromptTokens = CachedPromptTokens a + CachedPromptTokens b,
     ReasoningTokens = ReasoningTokens a + ReasoningTokens b,
     \<dots> = llm_usage.more a + llm_usage.more b\<rparr>"

instance by standard (simp_all add: zero_llm_usage_ext_def plus_llm_usage_ext_def ac_simps)

end

text \<open>All counters of a usage are non-negative and at most \<open>m\<close>.\<close>

definition usage_counters :: "llm_usage \<Rightarrow> int list" where
  "usage_counters u = [PromptTokens u, CompletionTokens u, TotalTokens u, CachedPromptTokens u,
     ReasoningTokens u]"

definition usage_ok :: "int \<Rightarrow> llm_usage \<Rightarrow> bool" where
  "usage_ok m u \<longleftrightarrow> list_all (\<lambda>n. 0 \<le> n \<and> n \<le> m) (usage_counters u)"

lemma MergeLLMUsage_sum:
  assumes "usage_ok m a" "usage_ok n b" "m + n < 2 ^ 63"
  shows "MergeLLMUsage (Some a) (Some b) = Some (a + b) \<and> usage_ok (m + n) (a + b)"
  using assms
  by (auto simp: MergeLLMUsage_def plus_llm_usage_ext_def usage_ok_def usage_counters_def int64_id)

text \<open>Folding the optional usages of a run's calls, as the loop does.\<close>

definition present :: "'a option list \<Rightarrow> 'a list" where
  "present xs = map the (filter (\<lambda>x. x \<noteq> None) xs)"

lemma present_simps [simp]: "present [] = []" "present (None # xs) = present xs"
  "present (Some x # xs) = x # present xs"
  by (simp_all add: present_def)

lemma usage_fold:
  "usage_ok m a \<Longrightarrow> list_all (usage_ok k) (present us) \<Longrightarrow> 0 \<le> k \<Longrightarrow>
     m + k * int (length (present us)) < 2 ^ 63 \<Longrightarrow>
   fold (\<lambda>u acc. MergeLLMUsage acc u) us (Some a) = Some (a + sum_list (present us))"
proof (induction us arbitrary: m a)
  case (Cons u us)
  show ?case
  proof (cases u)
    case None
    with Cons show ?thesis by (simp add: MergeLLMUsage_def)
  next
    case (Some b)
    have "0 \<le> k * int (length (present us))" using Cons.prems(3) by simp
    then have mk: "m + k < 2 ^ 63" "m + k + k * int (length (present us)) < 2 ^ 63"
      using Cons.prems(4) Some by (simp_all add: algebra_simps)
    have b: "usage_ok k b" using Cons.prems(2) Some by simp
    from MergeLLMUsage_sum [OF Cons.prems(1) b mk(1)]
      Cons.IH [of "m + k" "a + b"] Cons.prems(2,3) mk(2) Some
    show ?thesis by (simp add: add.assoc)
  qed
qed simp

text \<open>The usage a run reports is the sum of the usages of its LLM calls, component by component:
  the loop's accumulation adds up every reported usage, skips calls without one, and is nil
  exactly when no call reported any. The hypothesis rules out an overflow of \<open>int64\<close>.\<close>

theorem usage_total:
  assumes "list_all (usage_ok k) (present us)" "0 \<le> k" "k * int (length us) < 2 ^ 63"
  shows "fold (\<lambda>u acc. MergeLLMUsage acc u) us None =
    (if present us = [] then None else Some (sum_list (present us)))"
  using assms
proof (induction us)
  case (Cons u us)
  have le: "length (present us) \<le> length us" by (simp add: present_def)
  show ?case
  proof (cases u)
    case None
    have "k * int (length us) \<le> k * int (length (u # us))" using Cons.prems(2) by (simp add: algebra_simps)
    with Cons None show ?thesis by (simp add: MergeLLMUsage_def)
  next
    case (Some a)
    have "k * int (length (present us)) \<le> k * int (length us)"
      using Cons.prems(2) le by (intro mult_left_mono) simp_all
    then have "k + k * int (length (present us)) < 2 ^ 63"
      using Cons.prems(3) by (simp add: algebra_simps)
    with usage_fold [of k a k us] Cons.prems Some show ?thesis
      by (simp add: MergeLLMUsage_def CloneLLMUsage_def)
  qed
qed simp

theorem usage_total_witness:
  "fold (\<lambda>u acc. MergeLLMUsage acc u) [None, Some (tokens_usage 7), None, Some (tokens_usage 5)] None =
     Some (tokens_usage 12)"
  using usage_total [of 10 "[None, Some (tokens_usage 7), None, Some (tokens_usage 5)]"]
  by (simp add: tokens_usage_def usage_ok_def usage_counters_def plus_llm_usage_ext_def
      zero_llm_usage_ext_def zero_unit_def)

section \<open>Telemetry\<close>

record run_telemetry =
  rn_StartedAt :: int
  rn_CompletedAt :: int
  rn_TotalLLMCalls :: int
  rn_LLMRetryCount :: int
  rn_FinishReason :: string

record tool_telemetry =
  tt_TotalCalls :: int
  tt_FailedCalls :: int
  tt_Breakdown :: "string \<rightharpoonup> int"
  tt_FailedBreakdown :: "string \<rightharpoonup> int"

record storage_telemetry =
  st_TotalRetrieverSearches :: int
  st_FailedRetrieverSearches :: int
  st_PrefetchSearches :: int
  st_AgenticSearches :: int
  st_TotalMemoryRecalls :: int
  st_FailedMemoryRecalls :: int
  st_TotalMemoryStores :: int
  st_FailedMemoryStores :: int

record agent_telemetry =
  te_Run :: run_telemetry
  te_Tools :: tool_telemetry
  te_Storage :: storage_telemetry

definition bump :: "string \<Rightarrow> (string \<rightharpoonup> int) \<Rightarrow> (string \<rightharpoonup> int)" where
  "bump name m = m(name \<mapsto> (case m name of None \<Rightarrow> 0 | Some n \<Rightarrow> n) + 1)"

definition tool_Record :: "tool_telemetry \<Rightarrow> string \<Rightarrow> bool \<Rightarrow> tool_telemetry" where
  "tool_Record t name failed =
    (let t1 = t\<lparr>tt_TotalCalls := tt_TotalCalls t + 1\<rparr>;
         t2 = (if name \<noteq> '''' then t1\<lparr>tt_Breakdown := bump name (tt_Breakdown t1)\<rparr> else t1)
     in if \<not> failed then t2
        else let t3 = t2\<lparr>tt_FailedCalls := tt_FailedCalls t2 + 1\<rparr>
             in if name \<noteq> '''' then t3\<lparr>tt_FailedBreakdown := bump name (tt_FailedBreakdown t3)\<rparr> else t3)"

definition zero_storage :: storage_telemetry where
  "zero_storage = \<lparr>st_TotalRetrieverSearches = 0, st_FailedRetrieverSearches = 0,
     st_PrefetchSearches = 0, st_AgenticSearches = 0, st_TotalMemoryRecalls = 0,
     st_FailedMemoryRecalls = 0, st_TotalMemoryStores = 0, st_FailedMemoryStores = 0\<rparr>"

definition NewAgentTelemetry :: "int \<Rightarrow> agent_telemetry" where
  "NewAgentTelemetry startedAt =
    \<lparr>te_Run = \<lparr>rn_StartedAt = startedAt, rn_CompletedAt = 0, rn_TotalLLMCalls = 0,
       rn_LLMRetryCount = 0, rn_FinishReason = FinishComplete\<rparr>,
     te_Tools = \<lparr>tt_TotalCalls = 0, tt_FailedCalls = 0, tt_Breakdown = Map.empty,
       tt_FailedBreakdown = Map.empty\<rparr>,
     te_Storage = zero_storage\<rparr>"

section \<open>Retriever names come back\<close>

lemma prefix_keeps_trim:
  assumes "TrimSpace name = name" "name \<noteq> ''''"
  shows "TrimSpace (RetrieverToolNamePrefix @ name) = RetrieverToolNamePrefix @ name"
proof -
  have "dropWhile is_space (rev name) = rev name"
  proof -
    obtain x xs where x: "rev name = x # xs" using assms(2) by (cases "rev name") simp_all
    have "\<not> is_space (last name)"
    proof
      assume sp: "is_space (last name)"
      have "length (TrimSpace name) < length name"
      proof -
        have l1: "length (dropWhile is_space name) \<le> length name" by (rule length_dropWhile_le)
        show ?thesis
        proof (cases "dropWhile is_space name = []")
          case True
          then show ?thesis using assms by (simp add: TrimSpace_def del: dropWhile_eq_Nil_conv)
        next
          case False
          let ?d = "dropWhile is_space name"
          have "last ?d = last name" using False by (metis last_appendR takeWhile_dropWhile_id)
          then obtain y ys where y: "rev ?d = y # ys" "is_space y"
            using False sp by (metis hd_rev list.collapse rev_is_Nil_conv)
          then have "length (dropWhile is_space (rev ?d)) < length (rev ?d)"
            using length_dropWhile_le [of is_space ys] by simp
          with l1 show ?thesis by (simp add: TrimSpace_def)
        qed
      qed
      with assms(1) show False by simp
    qed
    then show ?thesis using x by (metis dropWhile.simps(2) hd_rev assms(2) list.sel(1))
  qed
  moreover have "rev name \<noteq> []" using assms(2) by simp
  ultimately have "dropWhile is_space (rev name @ ys) = rev name @ ys" for ys
    by (metis append_Cons dropWhile.simps(2) list.exhaust list.sel(1) hd_dropWhile hd_append2 dropWhile_append3)
  then show ?thesis
    by (simp add: TrimSpace_def RetrieverToolNamePrefix_def is_space_def)
qed

text \<open>The name of a retriever survives its tool name: the tool name built from it is recognised
  and gives back the trimmed name, names that differ after trimming get different tool names,
  and a blank name gets none.\<close>

theorem retriever_name_roundtrip:
  "(TrimSpace name \<noteq> '''' \<longrightarrow>
      RetrieverNameFromToolName (RetrieverToolName name) = Some (TrimSpace name)) \<and>
   (TrimSpace name = '''' \<longrightarrow> RetrieverToolName name = '''' \<and>
      RetrieverNameFromToolName (RetrieverToolName name) = None) \<and>
   (RetrieverToolName name = RetrieverToolName other \<longleftrightarrow> TrimSpace name = TrimSpace other)"
proof (intro conjI impI)
  assume ne: "TrimSpace name \<noteq> ''''"
  have "TrimSpace (RetrieverToolNamePrefix @ TrimSpace name) = RetrieverToolNamePrefix @ TrimSpace name"
    by (rule prefix_keeps_trim [OF TrimSpace_idem ne])
  with ne show "RetrieverNameFromToolName (RetrieverToolName name) = Some (TrimSpace name)"
    by (simp add: RetrieverNameFromToolName_def RetrieverToolName_def Let_def)
next
  show "RetrieverToolName name = RetrieverToolName other \<longleftrightarrow> TrimSpace name = TrimSpace other"
    by (auto simp: RetrieverToolName_def Let_def RetrieverToolNamePrefix_def)
qed (simp_all add: RetrieverNameFromToolName_def RetrieverToolName_def Let_def)

theorem retriever_name_roundtrip_witness:
  "RetrieverNameFromToolName (RetrieverToolName ''  kb docs '') = Some ''kb docs''"
proof -
  have t: "TrimSpace ''  kb docs '' = ''kb docs''" by (simp add: TrimSpace_def is_space_def)
  have "TrimSpace ''  kb docs '' \<noteq> ''''" by (simp add: t)
  with retriever_name_roundtrip [of "''  kb docs ''"] show ?thesis by (simp add: t)
qed

end
