(* ===== verification/MCP_Client.thy ===== *)
theory MCP_Client
  imports Run_Types Exec_Policy
begin

text \<open>
  The MCP client: the tool filter and the transports of \<open>internal/types/mcp.go\<close>, the options of
  \<open>pkg/mcp/client/config.go\<close> and the client of \<open>pkg/mcp/client/client.go\<close>, which opens one session per
  attempt, with retries. The protocol library is a parameter: \<open>mcp_sdk\<close> connects, a session answers
  requests. A session lives in the context of its attempt, whose deadline leaves it a number of
  requests; a later request fails with the deadline's error. Maps are lists of pairs in the order in
  which a range over them runs. Loggers are not modelled.
\<close>

section \<open>The tool filter\<close>

record mcp_tool_filter =
  tf_AllowTools :: "string list"
  tf_BlockTools :: "string list"

definition mcp_filter_Validate :: "mcp_tool_filter \<Rightarrow> go_error option" where
  "mcp_filter_Validate f =
    (if tf_AllowTools f \<noteq> [] \<and> tf_BlockTools f \<noteq> [] then
       Some (ErrNew ''mcp tool filter: set either AllowTools or BlockTools, not both'')
     else None)"

definition mcp_filter_Apply :: "mcp_tool_filter \<Rightarrow> tool_spec list \<Rightarrow> tool_spec list" where
  "mcp_filter_Apply f specs =
    (if tf_AllowTools f \<noteq> [] then filter (\<lambda>d. spec_Name d \<in> set (tf_AllowTools f)) specs
     else if tf_BlockTools f \<noteq> [] then filter (\<lambda>d. spec_Name d \<notin> set (tf_BlockTools f)) specs
     else specs)"

text \<open>What a filter lets through, as a predicate on names.\<close>

definition mcp_permits :: "mcp_tool_filter \<Rightarrow> string \<Rightarrow> bool" where
  "mcp_permits f n \<longleftrightarrow>
    (tf_AllowTools f = [] \<or> n \<in> set (tf_AllowTools f)) \<and> n \<notin> set (tf_BlockTools f)"

lemma mcp_filter_Apply_permits:
  assumes "mcp_filter_Validate f = None"
  shows "mcp_filter_Apply f specs = filter (\<lambda>d. mcp_permits f (spec_Name d)) specs"
  using assms
  by (auto simp: mcp_filter_Validate_def mcp_filter_Apply_def mcp_permits_def split: if_splits)

section \<open>Transports\<close>

record oauth_config =
  oc_ClientID :: string
  oc_ClientSecret :: string
  oc_TokenURL :: string
  oc_Scopes :: "string list"
  oc_EndpointParams :: "(string \<times> string list) list"

record mcp_streamable_http =
  ht_URL :: string
  ht_Token :: string
  ht_OAuthClientCreds :: "oauth_config option"
  ht_Headers :: "(string \<times> string) list"
  ht_SkipTLSVerify :: bool

text \<open>
  The interface \<open>MCPTransportConfig\<close>: the three types of the SDK and an implementation of the
  application's own, with its kind, the answer of its \<open>Validate\<close> and its type's name. A loopback
  holds no transport when its dynamic value is nil or of another type.
\<close>

datatype mcp_transport =
    MCPStdio (st_Command: string) (st_Args: "string list") (st_Env: "(string \<times> string) list")
  | MCPStreamableHTTP (the_http: mcp_streamable_http)
  | MCPLoopback (lb_Transport: "string option")
  | OtherTransport (ot_Kind: string) (ot_Validate: "go_error option") (ot_Type: string)

definition MCPTransportTypeStdio :: string where "MCPTransportTypeStdio = ''stdio''"
definition MCPTransportTypeStreamableHTTP :: string where
  "MCPTransportTypeStreamableHTTP = ''streamable_http''"
definition MCPTransportTypeLoopback :: string where "MCPTransportTypeLoopback = ''loopback''"

lemmas mcp_kind_defs = MCPTransportTypeStdio_def MCPTransportTypeStreamableHTTP_def
  MCPTransportTypeLoopback_def

fun transport_Kind :: "mcp_transport \<Rightarrow> string" where
  "transport_Kind (MCPStdio cmd args env) = MCPTransportTypeStdio"
| "transport_Kind (MCPStreamableHTTP h) = MCPTransportTypeStreamableHTTP"
| "transport_Kind (MCPLoopback tr) = MCPTransportTypeLoopback"
| "transport_Kind (OtherTransport kind v ty) = kind"

definition oauth_any :: "oauth_config \<Rightarrow> bool" where
  "oauth_any cc \<longleftrightarrow> TrimSpace (oc_ClientID cc) \<noteq> '''' \<or> TrimSpace (oc_ClientSecret cc) \<noteq> '''' \<or>
     TrimSpace (oc_TokenURL cc) \<noteq> '''' \<or> oc_Scopes cc \<noteq> [] \<or> oc_EndpointParams cc \<noteq> []"

definition oauth_complete :: "oauth_config \<Rightarrow> bool" where
  "oauth_complete cc \<longleftrightarrow> TrimSpace (oc_ClientID cc) \<noteq> '''' \<and> TrimSpace (oc_ClientSecret cc) \<noteq> '''' \<and>
     TrimSpace (oc_TokenURL cc) \<noteq> ''''"

definition http_Validate :: "mcp_streamable_http \<Rightarrow> go_error option" where
  "http_Validate h =
    (if TrimSpace (ht_URL h) = '''' then
       Some (ErrNew ''mcp streamable_http: url is required'')
     else
       let hasTok = TrimSpace (ht_Token h) \<noteq> '''';
           anyOAuth = (case ht_OAuthClientCreds h of None \<Rightarrow> False | Some cc \<Rightarrow> oauth_any cc);
           complete = (case ht_OAuthClientCreds h of None \<Rightarrow> False | Some cc \<Rightarrow> oauth_complete cc)
       in if anyOAuth \<and> \<not> complete then
            Some (ErrNew (''mcp streamable_http: oauth client credentials require client_id, ''
              @ ''client_secret, and token_url''))
          else if hasTok \<and> anyOAuth then
            Some (ErrNew (''mcp streamable_http: set only one of token or oauth client credentials''))
          else None)"

fun transport_Validate :: "mcp_transport \<Rightarrow> go_error option" where
  "transport_Validate (MCPStdio cmd args env) =
    (if TrimSpace cmd = '''' then Some (ErrNew ''mcp stdio transport: Command is empty'') else None)"
| "transport_Validate (MCPStreamableHTTP h) = http_Validate h"
| "transport_Validate (MCPLoopback tr) = (case tr of
      None \<Rightarrow> Some (ErrNew (''mcp loopback transport: Transport must be a non-nil sdkmcp.Transport''))
    | Some t \<Rightarrow> None)"
| "transport_Validate (OtherTransport kind v ty) = v"

subsection \<open>HTTP headers\<close>

text \<open>
  \<open>http.Header\<close> of the standard library: keys in canonical form, the values of a key in the order in
  which they were added.
\<close>

definition is_lower :: "char \<Rightarrow> bool" where
  "is_lower c \<longleftrightarrow> 97 \<le> (of_char c :: nat) \<and> (of_char c :: nat) \<le> 122"

definition is_upper :: "char \<Rightarrow> bool" where
  "is_upper c \<longleftrightarrow> 65 \<le> (of_char c :: nat) \<and> (of_char c :: nat) \<le> 90"

definition is_decimal :: "char \<Rightarrow> bool" where
  "is_decimal c \<longleftrightarrow> 48 \<le> (of_char c :: nat) \<and> (of_char c :: nat) \<le> 57"

definition to_upper :: "char \<Rightarrow> char" where
  "to_upper c = (if is_lower c then char_of ((of_char c :: nat) - 32) else c)"

definition to_lower :: "char \<Rightarrow> char" where
  "to_lower c = (if is_upper c then char_of ((of_char c :: nat) + 32) else c)"

definition is_token_char :: "char \<Rightarrow> bool" where
  "is_token_char c \<longleftrightarrow> is_lower c \<or> is_upper c \<or> is_decimal c \<or> c \<in> set ''!#$%&*+-.^_|~'' \<or>
     c \<in> {CHR 0x27, CHR 0x60}"

fun canonical_from :: "bool \<Rightarrow> string \<Rightarrow> string" where
  "canonical_from up [] = []"
| "canonical_from up (c # cs) =
     (if up then to_upper c else to_lower c) # canonical_from (c = CHR ''-'') cs"

definition CanonicalHeaderKey :: "string \<Rightarrow> string" where
  "CanonicalHeaderKey k = (if list_all is_token_char k then canonical_from True k else k)"

type_synonym http_header = "(string \<times> string) list"

definition header_Add :: "string \<Rightarrow> string \<Rightarrow> http_header \<Rightarrow> http_header" where
  "header_Add k v h = h @ [(CanonicalHeaderKey k, v)]"

definition header_Get :: "string \<Rightarrow> http_header \<Rightarrow> string" where
  "header_Get k h = (case map_of h (CanonicalHeaderKey k) of Some v \<Rightarrow> v | None \<Rightarrow> '''')"

definition header_Set :: "string \<Rightarrow> string \<Rightarrow> http_header \<Rightarrow> http_header" where
  "header_Set k v h = pair_put (CanonicalHeaderKey k) v h"

text \<open>The loop over the configured headers; \<open>None\<close> is the nil header.\<close>

fun build_header :: "(string \<times> string) list \<Rightarrow> http_header option \<Rightarrow> http_header option" where
  "build_header [] hdr = hdr"
| "build_header ((k, v) # m) hdr =
    (let k' = TrimSpace k
     in if k' = '''' then build_header m hdr
        else build_header m (Some (header_Add k' v (case hdr of None \<Rightarrow> [] | Some h \<Rightarrow> h))))"

text \<open>The client that a request goes through: its OAuth credentials, its headers, its TLS check.\<close>

record http_client =
  hc_oauth :: "oauth_config option"
  hc_header :: "http_header option"
  hc_insecure :: bool

definition streamableHTTPClient :: "mcp_streamable_http \<Rightarrow> http_client" where
  "streamableHTTPClient h =
    (let hdr = build_header (ht_Headers h) None
     in case ht_OAuthClientCreds h of
          Some cc \<Rightarrow> \<lparr>hc_oauth = Some cc, hc_header = hdr, hc_insecure = ht_SkipTLSVerify h\<rparr>
        | None \<Rightarrow>
           (if TrimSpace (ht_Token h) \<noteq> '''' then
              let tok = TrimSpace (ht_Token h);
                  hd0 = (case hdr of None \<Rightarrow> [] | Some x \<Rightarrow> x);
                  hd1 = (if header_Get ''Authorization'' hd0 = ''''
                         then header_Set ''Authorization'' (''Bearer '' @ tok) hd0 else hd0)
              in \<lparr>hc_oauth = None, hc_header = Some hd1, hc_insecure = ht_SkipTLSVerify h\<rparr>
            else \<lparr>hc_oauth = None, hc_header = hdr, hc_insecure = ht_SkipTLSVerify h\<rparr>))"

datatype sdk_transport =
    CommandTransport (ct_command: string) (ct_args: "string list") (ct_env: "string list option")
  | StreamableClientTransport (sct_endpoint: string) (sct_client: http_client)
  | LoopbackTransport string

definition mapToEnvSlice :: "(string \<times> string) list \<Rightarrow> string list" where
  "mapToEnvSlice m = map (\<lambda>(k, v). k @ ''='' @ v) m"

text \<open>\<open>ct_env\<close> is what is appended to the environment of the process.\<close>

fun transportFromConfig :: "mcp_transport \<Rightarrow> go_error + sdk_transport" where
  "transportFromConfig (MCPStdio command args env) =
    (let cmd = TrimSpace command
     in if cmd = '''' then Inl (ErrNew ''mcp stdio transport: Command is empty'')
        else Inr (CommandTransport cmd args (if env \<noteq> [] then Some (mapToEnvSlice env) else None)))"
| "transportFromConfig (MCPStreamableHTTP h) =
    (let ep = TrimSpace (ht_URL h)
     in if ep = '''' then Inl (ErrNew ''mcp streamable_http transport: URL is empty'')
        else Inr (StreamableClientTransport ep (streamableHTTPClient h)))"
| "transportFromConfig (MCPLoopback tr) = (case tr of
      None \<Rightarrow> Inl (ErrNew (''mcp loopback transport: Transport must be a non-nil sdkmcp.Transport''))
    | Some t \<Rightarrow> Inr (LoopbackTransport t))"
| "transportFromConfig (OtherTransport kind v ty) =
    (if kind = MCPTransportTypeStdio then
       Inl (ErrNew (''mcp stdio transport: unexpected config type '' @ ty))
     else if kind = MCPTransportTypeStreamableHTTP then
       Inl (ErrNew (''mcp streamable_http transport: unexpected config type '' @ ty))
     else if kind = MCPTransportTypeLoopback then
       Inl (ErrNew (''mcp loopback transport: unexpected config type '' @ ty))
     else Inl (ErrNew (''unsupported mcp transport kind '' @ Quote kind)))"

text \<open>A transport of the SDK's own types that passed its validation can be built, every time.\<close>

lemma transportFromConfig_valid:
  assumes "transport_Validate t = None" "\<not> is_OtherTransport t"
  shows "\<exists>tr. transportFromConfig t = Inr tr"
  using assms
  by (cases t) (auto simp: http_Validate_def Let_def split: if_splits option.splits)

section \<open>Client configuration\<close>

definition Second :: int where "Second = 1000000000"
definition Millisecond :: int where "Millisecond = 1000000"

definition DefaultMCPTimeout :: int where "DefaultMCPTimeout = 30 * Second"
definition DefaultMCPRetryAttempts :: int where "DefaultMCPRetryAttempts = 1"

lemmas duration_defs = Second_def Millisecond_def

record mcp_client_config =
  kc_Timeout :: int
  kc_RetryAttempts :: int
  kc_ToolFilter :: mcp_tool_filter

definition no_tool_filter :: mcp_tool_filter where
  "no_tool_filter = \<lparr>tf_AllowTools = [], tf_BlockTools = []\<rparr>"

definition mcp_WithTimeout :: "int \<Rightarrow> mcp_client_config \<Rightarrow> mcp_client_config" where
  "mcp_WithTimeout d c = c\<lparr>kc_Timeout := d\<rparr>"

definition mcp_WithRetryAttempts :: "int \<Rightarrow> mcp_client_config \<Rightarrow> mcp_client_config" where
  "mcp_WithRetryAttempts n c = c\<lparr>kc_RetryAttempts := n\<rparr>"

definition mcp_WithToolFilter :: "mcp_tool_filter \<Rightarrow> mcp_client_config \<Rightarrow> mcp_client_config" where
  "mcp_WithToolFilter f c = c\<lparr>kc_ToolFilter := f\<rparr>"

text \<open>A nil option is \<open>None\<close>.\<close>

definition mcp_BuildConfig ::
    "(mcp_client_config \<Rightarrow> mcp_client_config) option list \<Rightarrow> go_error + mcp_client_config" where
  "mcp_BuildConfig opts =
    (let c0 = fold (\<lambda>opt c. case opt of None \<Rightarrow> c | Some f \<Rightarrow> f c) opts
                \<lparr>kc_Timeout = 0, kc_RetryAttempts = 0, kc_ToolFilter = no_tool_filter\<rparr>;
         c1 = (if kc_Timeout c0 \<le> 0 then c0\<lparr>kc_Timeout := DefaultMCPTimeout\<rparr> else c0);
         c2 = (if kc_RetryAttempts c1 \<le> 0
               then c1\<lparr>kc_RetryAttempts := DefaultMCPRetryAttempts\<rparr> else c1)
     in case mcp_filter_Validate (kc_ToolFilter c2) of
          Some e \<Rightarrow> Inl (ErrWrap ''mcp client config: '' e '''')
        | None \<Rightarrow> Inr c2)"

lemma mcp_BuildConfig_ok:
  assumes "mcp_BuildConfig opts = Inr c"
  shows "0 < kc_Timeout c \<and> 1 \<le> kc_RetryAttempts c \<and> mcp_filter_Validate (kc_ToolFilter c) = None"
  using assms
  by (auto simp: mcp_BuildConfig_def Let_def DefaultMCPTimeout_def DefaultMCPRetryAttempts_def
      Second_def split: option.splits if_splits)

section \<open>The client\<close>

text \<open>
  The SDK's tool, a pointer in the page; a page ends with the cursor of the next one. The schema is
  a dynamic value: a map, raw JSON, or anything else, given by what \<open>json.Marshal\<close> makes of it.
\<close>

datatype input_schema =
    NilSchema
  | MapSchema "(string \<times> go_any) list"
  | RawSchema string
  | OtherSchema "go_error + string"

record sdk_tool =
  st_Name :: string
  st_Description :: string
  st_InputSchema :: input_schema

record 'w mcp_session =
  ss_requests :: nat
  ss_Ping :: "('w, go_error option) state"
  ss_ListTools :: "string \<Rightarrow> ('w, go_error + sdk_tool option list \<times> string) state"
  ss_CallTool :: "string \<Rightarrow> go_any \<Rightarrow> ('w, go_error + go_any) state"
  ss_Close :: "('w, go_error option) state"

record 'w mcp_sdk =
  sdk_Connect :: "int \<Rightarrow> sdk_transport \<Rightarrow> ('w, go_error + 'w mcp_session) state"
  sdk_wait :: "int \<Rightarrow> ('w, go_error option) state"
  sdk_Marshal :: "go_any \<Rightarrow> go_error + string"
  sdk_Unmarshal :: "string \<Rightarrow> go_error + go_any"

record mcp_client_obj =
  ko_name :: string
  ko_transportCfg :: mcp_transport
  ko_closed :: bool
  ko_rpcTimeout :: int
  ko_maxRPCAttempts :: int
  ko_toolFilter :: mcp_tool_filter

definition mcp_NewClient ::
    "string \<Rightarrow> mcp_transport option \<Rightarrow> (mcp_client_config \<Rightarrow> mcp_client_config) option list \<Rightarrow>
     go_error + mcp_client_obj" where
  "mcp_NewClient name transportCfg opts =
    (if TrimSpace name = '''' then Inl (ErrNew ''mcp client: name is empty'')
     else case transportCfg of None \<Rightarrow> Inl (ErrNew ''mcp client: transport config is nil'')
     | Some tc \<Rightarrow> (case transport_Validate tc of Some e \<Rightarrow> Inl (ErrWrap ''mcp client: '' e '''')
       | None \<Rightarrow> (case mcp_BuildConfig opts of Inl e \<Rightarrow> Inl e
         | Inr cfg \<Rightarrow> (case transportFromConfig tc of Inl e \<Rightarrow> Inl e
           | Inr tr \<Rightarrow>
             let maxAtt = (if kc_RetryAttempts cfg < 1 then 1 else kc_RetryAttempts cfg)
             in Inr \<lparr>ko_name = name, ko_transportCfg = tc, ko_closed = False,
                  ko_rpcTimeout = kc_Timeout cfg, ko_maxRPCAttempts = maxAtt,
                  ko_toolFilter = kc_ToolFilter cfg\<rparr>))))"

definition mcp_Close :: "mcp_client_obj \<Rightarrow> mcp_client_obj" where
  "mcp_Close c = c\<lparr>ko_closed := True\<rparr>"

definition mcpRetryDelay :: "int \<Rightarrow> int" where
  "mcpRetryDelay attempt =
    (let d = attempt * 50 * Millisecond in if d > 2 * Second then 2 * Second else d)"

text \<open>
  One attempt after another: \<open>left\<close> attempts are left after this one, \<open>st\<close> holds the variables that the
  function of the operation has captured.
\<close>

definition after_failure ::
    "'w mcp_sdk \<Rightarrow> nat \<Rightarrow> int \<Rightarrow> ('s \<Rightarrow> ('w, go_error option \<times> 's) state) \<Rightarrow> go_error \<Rightarrow> 's \<Rightarrow>
     ('w, go_error option \<times> 's) state" where
  "after_failure sdk left attempt again lastErr st =
    (if left = 0 then State_Monad.return (Some lastErr, st)
     else do {
       d \<leftarrow> sdk_wait sdk (mcpRetryDelay attempt);
       (case d of Some e \<Rightarrow> State_Monad.return (Some e, st) | None \<Rightarrow> again st) })"

definition one_attempt ::
    "'w mcp_sdk \<Rightarrow> mcp_client_obj \<Rightarrow> ('w mcp_session \<Rightarrow> 's \<Rightarrow> ('w, go_error option \<times> 's) state) \<Rightarrow>
     (go_error \<Rightarrow> 's \<Rightarrow> ('w, go_error option \<times> 's) state) \<Rightarrow> 's \<Rightarrow> ('w, go_error option \<times> 's) state" where
  "one_attempt sdk c fn failed st = (case transportFromConfig (ko_transportCfg c) of
      Inl e \<Rightarrow> State_Monad.return (Some e, st)
    | Inr tr \<Rightarrow> do {
        r \<leftarrow> sdk_Connect sdk (ko_rpcTimeout c) tr;
        (case r of
           Inl e \<Rightarrow> failed e st
         | Inr sess \<Rightarrow> do {
             (runErr, st') \<leftarrow> fn sess st;
             _ \<leftarrow> ss_Close sess;
             (case runErr of None \<Rightarrow> State_Monad.return (None, st') | Some e \<Rightarrow> failed e st') }) })"

fun session_attempts ::
    "'w mcp_sdk \<Rightarrow> mcp_client_obj \<Rightarrow> ('w mcp_session \<Rightarrow> 's \<Rightarrow> ('w, go_error option \<times> 's) state) \<Rightarrow>
     nat \<Rightarrow> int \<Rightarrow> 's \<Rightarrow> ('w, go_error option \<times> 's) state" where
  "session_attempts sdk c fn 0 attempt st =
     one_attempt sdk c fn (after_failure sdk 0 attempt (\<lambda>s. State_Monad.return (None, s))) st"
| "session_attempts sdk c fn (Suc n) attempt st =
     one_attempt sdk c fn
       (after_failure sdk (Suc n) attempt (session_attempts sdk c fn n (attempt + 1))) st"

definition withSession ::
    "'w mcp_sdk \<Rightarrow> mcp_client_obj \<Rightarrow> ('w mcp_session \<Rightarrow> 's \<Rightarrow> ('w, go_error option \<times> 's) state) \<Rightarrow>
     's \<Rightarrow> ('w, go_error option \<times> 's) state" where
  "withSession sdk c fn st =
    (if ko_closed c then State_Monad.return (Some (ErrNew ''mcp client: closed''), st)
     else let maxAtt = (if ko_maxRPCAttempts c < 1 then 1 else ko_maxRPCAttempts c)
          in session_attempts sdk c fn (nat maxAtt - 1) 1 st)"

text \<open>A request of a session: past the deadline it fails.\<close>

definition in_time :: "'w mcp_session \<Rightarrow> 'a \<Rightarrow> ('w, 'a) state \<Rightarrow> ('w, 'a) state" where
  "in_time sess late m = (if ss_requests sess = 0 then State_Monad.return late else m)"

definition mcp_Ping :: "'w mcp_sdk \<Rightarrow> mcp_client_obj \<Rightarrow> ('w, go_error option) state" where
  "mcp_Ping sdk c = do {
     (err, _) \<leftarrow> withSession sdk c (\<lambda>sess st. do {
        e \<leftarrow> in_time sess (Some (ErrSentinel DeadlineExceeded)) (ss_Ping sess);
        State_Monad.return (e, st) }) ();
     State_Monad.return err }"

definition default_schema :: go_any where
  "default_schema = AObj [(''type'', AStr ''object'')]"

text \<open>Decoding into a map fails for another value than an object; \<open>null\<close> gives the nil map.\<close>

definition decode_schema :: "(string \<Rightarrow> go_error + go_any) \<Rightarrow> string \<Rightarrow> go_any" where
  "decode_schema unmarshal b = (case unmarshal b of Inr (AObj m) \<Rightarrow> AObj m | _ \<Rightarrow> default_schema)"

fun inputSchemaToJSONSchema :: "(string \<Rightarrow> go_error + go_any) \<Rightarrow> input_schema \<Rightarrow> go_any" where
  "inputSchemaToJSONSchema unmarshal NilSchema = default_schema"
| "inputSchemaToJSONSchema unmarshal (MapSchema v) =
     (if length v = 0 then default_schema else AObj v)"
| "inputSchemaToJSONSchema unmarshal (RawSchema v) = decode_schema unmarshal v"
| "inputSchemaToJSONSchema unmarshal (OtherSchema r) =
     (case r of Inl err \<Rightarrow> default_schema | Inr b \<Rightarrow> decode_schema unmarshal b)"

definition toolToSpec :: "(string \<Rightarrow> go_error + go_any) \<Rightarrow> sdk_tool \<Rightarrow> tool_spec" where
  "toolToSpec unmarshal t = \<lparr>spec_Name = st_Name t, spec_Description = st_Description t,
     spec_Parameters = inputSchemaToJSONSchema unmarshal (st_InputSchema t)\<rparr>"

definition page_specs :: "(string \<Rightarrow> go_error + go_any) \<Rightarrow> sdk_tool option list \<Rightarrow> tool_spec list" where
  "page_specs unmarshal ts = map (toolToSpec unmarshal) (present ts)"

text \<open>The pages of one session, with \<open>n\<close> requests left before its deadline.\<close>

fun list_pages ::
    "'w mcp_sdk \<Rightarrow> 'w mcp_session \<Rightarrow> nat \<Rightarrow> string \<Rightarrow> tool_spec list \<Rightarrow>
     ('w, go_error option \<times> tool_spec list) state" where
  "list_pages sdk sess 0 cursor out =
     State_Monad.return (Some (ErrSentinel DeadlineExceeded), out)"
| "list_pages sdk sess (Suc n) cursor out = do {
     r \<leftarrow> ss_ListTools sess cursor;
     (case r of
        Inl e \<Rightarrow> State_Monad.return (Some e, out)
      | Inr (tools, NextCursor) \<Rightarrow>
          let out' = out @ page_specs (sdk_Unmarshal sdk) tools
          in if NextCursor = '''' then State_Monad.return (None, out')
             else list_pages sdk sess n NextCursor out') }"

definition mcp_ListTools ::
    "'w mcp_sdk \<Rightarrow> mcp_client_obj \<Rightarrow> ('w, go_error + tool_spec list) state" where
  "mcp_ListTools sdk c = do {
     (err, out) \<leftarrow> withSession sdk c (\<lambda>sess out. list_pages sdk sess (ss_requests sess) '''' out) [];
     State_Monad.return (case err of Some e \<Rightarrow> Inl e
      | None \<Rightarrow> Inr (mcp_filter_Apply (ko_toolFilter c) out)) }"

definition call_arguments :: "'w mcp_sdk \<Rightarrow> string \<Rightarrow> go_error + go_any" where
  "call_arguments sdk input =
    (if input \<noteq> '''' then (case sdk_Unmarshal sdk input of
         Inl e \<Rightarrow> Inl (ErrWrap ''mcp tools/call arguments: '' e '''')
       | Inr decoded \<Rightarrow> Inr (if decoded \<noteq> ANil then decoded else AObj []))
     else Inr (AObj []))"

definition mcp_CallTool ::
    "'w mcp_sdk \<Rightarrow> mcp_client_obj \<Rightarrow> string \<Rightarrow> string \<Rightarrow> ('w, go_error + string) state" where
  "mcp_CallTool sdk c tool input = (case call_arguments sdk input of
      Inl e \<Rightarrow> State_Monad.return (Inl e)
    | Inr args \<Rightarrow> do {
        (err, raw) \<leftarrow> withSession sdk c (\<lambda>sess raw. do {
           res \<leftarrow> in_time sess (Inl (ErrSentinel DeadlineExceeded)) (ss_CallTool sess tool args);
           State_Monad.return (case res of
               Inl e \<Rightarrow> (Some e, raw)
             | Inr v \<Rightarrow> (case sdk_Marshal sdk v of Inl e \<Rightarrow> (Some e, raw) | Inr b \<Rightarrow> (None, b))) }) '''';
        State_Monad.return (case err of Some e \<Rightarrow> Inl e | None \<Rightarrow> Inr raw) })"

section \<open>Which credentials a request carries\<close>

lemma map_of_header_Set: "map_of (header_Set k v h) (CanonicalHeaderKey k) = Some v"
  by (simp add: header_Set_def)

text \<open>The credentials of the HTTP transport, for a configuration that its validation accepts: OAuth
  credentials are used when they are configured, and a static token is sent as the bearer token
  unless the configured headers already hold an \<open>Authorization\<close>. But an OAuth configuration whose
  fields are all empty counts as absent for the validation and as present for the transport, so a
  token set next to it is accepted and never sent.\<close>

theorem mcp_credentials:
  assumes "http_Validate h = None"
  shows "case ht_OAuthClientCreds h of
      None \<Rightarrow> hc_oauth (streamableHTTPClient h) = None \<and>
        (TrimSpace (ht_Token h) \<noteq> '''' \<longrightarrow>
          header_Get ''Authorization'' (the (hc_header (streamableHTTPClient h))) =
            (let own = header_Get ''Authorization'' (case build_header (ht_Headers h) None of
                         None \<Rightarrow> [] | Some x \<Rightarrow> x)
             in if own = '''' then ''Bearer '' @ TrimSpace (ht_Token h) else own))
    | Some cc \<Rightarrow> hc_oauth (streamableHTTPClient h) = Some cc \<and>
        hc_header (streamableHTTPClient h) = build_header (ht_Headers h) None \<and>
        (oauth_any cc \<longrightarrow> oauth_complete cc \<and> TrimSpace (ht_Token h) = '''')"
proof (cases "ht_OAuthClientCreds h")
  case None
  then show ?thesis
    by (auto simp: streamableHTTPClient_def Let_def header_Get_def map_of_header_Set
        split: option.splits)
next
  case (Some cc)
  with assms show ?thesis
    by (auto simp: http_Validate_def streamableHTTPClient_def Let_def split: if_splits)
qed

definition token_beside_empty_oauth :: mcp_streamable_http where
  "token_beside_empty_oauth = \<lparr>ht_URL = ''https://m'', ht_Token = ''secret'',
     ht_OAuthClientCreds = Some \<lparr>oc_ClientID = '''', oc_ClientSecret = '''', oc_TokenURL = '''',
       oc_Scopes = [], oc_EndpointParams = []\<rparr>, ht_Headers = [], ht_SkipTLSVerify = False\<rparr>"

theorem mcp_credentials_witness:
  "http_Validate token_beside_empty_oauth = None \<and>
   hc_oauth (streamableHTTPClient token_beside_empty_oauth) \<noteq> None \<and>
   hc_header (streamableHTTPClient token_beside_empty_oauth) = None"
proof -
  have v: "http_Validate token_beside_empty_oauth = None" by code_simp
  from mcp_credentials [OF v] v show ?thesis
    by (simp add: token_beside_empty_oauth_def)
qed

section \<open>Retried operations\<close>

lemma list_pages_acc: "run_state (list_pages sdk sess n cur out) w =
    (case run_state (list_pages sdk sess n cur []) w of ((e, ps), w') \<Rightarrow> ((e, out @ ps), w'))"
proof (induction n arbitrary: cur out w)
  case (Suc n)
  note Suc.IH [of _ "out @ page_specs (sdk_Unmarshal sdk) a" for a]
    Suc.IH [of _ "page_specs (sdk_Unmarshal sdk) a" for a]
  then show ?case
    by (simp add: Let_def split: prod.splits sum.splits)
qed simp

text \<open>
  A measure of the outside world that sessions raise by at most \<open>k\<close>: \<open>ok\<close> holds of every session that
  \<open>Connect\<close> returns.
\<close>

definition session_cost ::
    "'w mcp_sdk \<Rightarrow> ('w mcp_session \<Rightarrow> bool) \<Rightarrow> ('w mcp_session \<Rightarrow> ('w, 'a) state) \<Rightarrow> ('w \<Rightarrow> nat) \<Rightarrow> nat \<Rightarrow> bool" where
  "session_cost sdk ok op f k \<longleftrightarrow>
    (\<forall>d tr w r w'. run_state (sdk_Connect sdk d tr) w = (r, w') \<longrightarrow>
       f w' \<le> f w \<and> (\<forall>sess. r = Inr sess \<longrightarrow> ok sess)) \<and>
    (\<forall>sess w. ok sess \<longrightarrow> f (snd (run_state (op sess) w)) \<le> f w + k) \<and>
    (\<forall>sess w. ok sess \<longrightarrow> f (snd (run_state (ss_Close sess) w)) \<le> f w) \<and>
    (\<forall>d w. f (snd (run_state (sdk_wait sdk d) w)) \<le> f w)"

lemma session_costD:
  assumes "session_cost sdk ok op f k"
  shows "run_state (sdk_Connect sdk d tr) w = (r, w') \<Longrightarrow> f w' \<le> f w"
    and "run_state (sdk_Connect sdk d tr) w = (Inr sess, w') \<Longrightarrow> ok sess"
    and "ok sess \<Longrightarrow> run_state (op sess) w = (x, w') \<Longrightarrow> f w' \<le> f w + k"
    and "ok sess \<Longrightarrow> run_state (ss_Close sess) w = (y, w') \<Longrightarrow> f w' \<le> f w"
    and "run_state (sdk_wait sdk e) w = (z, w') \<Longrightarrow> f w' \<le> f w"
  using assms unfolding session_cost_def by (metis snd_conv)+

lemma session_cost_op:
  assumes "session_cost sdk ok op f k"
    and "\<And>sess w. ok sess \<Longrightarrow>
      snd (run_state (op' sess) w) = w \<or> snd (run_state (op' sess) w) = snd (run_state (op sess) w)"
  shows "session_cost sdk ok op' f k"
  using assms unfolding session_cost_def by (metis le_add1)

lemma one_attempt_cost:
  assumes S: "session_cost sdk ok (\<lambda>sess. fn sess st) f k"
    and failed: "\<And>e st1 w1 r w2. run_state (failed e st1) w1 = (r, w2) \<Longrightarrow> f w2 \<le> f w1 + j"
    and run: "run_state (one_attempt sdk c fn failed st) w = (r, w')"
  shows "f w' \<le> f w + k + j"
proof (cases "transportFromConfig (ko_transportCfg c)")
  case (Inl e)
  with run show ?thesis by (simp add: one_attempt_def)
next
  case tr: (Inr tr)
  obtain q w1 where q: "run_state (sdk_Connect sdk (ko_rpcTimeout c) tr) w = (q, w1)" by force
  note c1 = session_costD(1) [OF S q]
  show ?thesis
  proof (cases q)
    case (Inl e)
    with run q tr have "run_state (failed e st) w1 = (r, w')"
      by (simp add: one_attempt_def)
    from failed [OF this] c1 show ?thesis by simp
  next
    case (Inr sess)
    have s: "ok sess" using session_costD(2) [OF S] q Inr by blast
    obtain e st' w2 where 2: "run_state (fn sess st) w1 = ((e, st'), w2)" by (metis prod.collapse)
    obtain ce w3 where 3: "run_state (ss_Close sess) w2 = (ce, w3)" by force
    from session_costD(3) [OF S s 2] session_costD(4) [OF S s 3] c1 have le: "f w3 \<le> f w + k" by simp
    show ?thesis
    proof (cases e)
      case None
      with run q 2 3 Inr tr have "w' = w3" by (simp add: one_attempt_def)
      with le show ?thesis by simp
    next
      case (Some err)
      with run q 2 3 Inr tr have "run_state (failed err st') w3 = (r, w')"
        by (simp add: one_attempt_def)
      from failed [OF this] le show ?thesis by simp
    qed
  qed
qed

lemma session_attempts_cost:
  assumes S: "\<And>st. session_cost sdk ok (\<lambda>sess. fn sess st) f k"
  shows "run_state (session_attempts sdk c fn n a st) w = (r, w') \<Longrightarrow> f w' \<le> f w + Suc n * k"
proof (induction n arbitrary: a st w r w')
  case 0
  have "f w2 \<le> f w1 + 0" if "run_state (after_failure sdk 0 a (\<lambda>s. State_Monad.return (None, s)) e st1) w1
      = (r1, w2)" for e st1 w1 r1 w2
    using that by (simp add: after_failure_def)
  from one_attempt_cost [OF S this 0 [unfolded session_attempts.simps]] show ?case by simp
next
  case (Suc n)
  have failed: "run_state (after_failure sdk (Suc n) a (session_attempts sdk c fn n (a + 1)) e st1) w1
      = (r1, w2) \<Longrightarrow> f w2 \<le> f w1 + Suc n * k" for e st1 w1 r1 w2
  proof -
    assume run: "run_state (after_failure sdk (Suc n) a (session_attempts sdk c fn n (a + 1)) e st1) w1
      = (r1, w2)"
    obtain d w3 where d: "run_state (sdk_wait sdk (mcpRetryDelay a)) w1 = (d, w3)" by force
    from session_costD(5) [OF S d] run d show ?thesis
      by (cases d) (fastforce simp: after_failure_def dest: Suc.IH)+
  qed
  have "f w' \<le> f w + k + Suc n * k"
    by (rule one_attempt_cost [OF S _ Suc.prems [unfolded session_attempts.simps]]) (erule failed)
  then show ?case by simp
qed


section \<open>Listing tools\<close>

text \<open>Listing over a retry: when an attempt fails after some pages and the next one succeeds, the
  result holds the tools of both attempts, because the list is not reset. A server that lost the
  connection once on a later page has the tools of its earlier pages listed twice.\<close>

theorem mcp_list_retry_duplicates:
  assumes "\<not> ko_closed c" "1 < ko_maxRPCAttempts c"
    and "transportFromConfig (ko_transportCfg c) = Inr tr"
    and "run_state (sdk_Connect sdk (ko_rpcTimeout c) tr) w = (Inr s1, w1)"
    and "run_state (list_pages sdk s1 (ss_requests s1) '''' []) w1 = ((Some e, ps), w2)"
    and "run_state (ss_Close s1) w2 = (c1, w3)"
    and "run_state (sdk_wait sdk (mcpRetryDelay 1)) w3 = (None, w4)"
    and "run_state (sdk_Connect sdk (ko_rpcTimeout c) tr) w4 = (Inr s2, w5)"
    and "run_state (list_pages sdk s2 (ss_requests s2) '''' []) w5 = ((None, qs), w6)"
    and "run_state (ss_Close s2) w6 = (c2, w7)"
  shows "run_state (mcp_ListTools sdk c) w = (Inr (mcp_filter_Apply (ko_toolFilter c) (ps @ qs)), w7)"
proof -
  obtain n where n: "nat (ko_maxRPCAttempts c) - 1 = Suc n"
    using assms(2) by (cases "nat (ko_maxRPCAttempts c) - 1") simp_all
  have second: "run_state (one_attempt sdk c (\<lambda>sess out. list_pages sdk sess (ss_requests sess) '''' out) f ps) w4
      = ((None, ps @ qs), w7)" for f
    using assms(3,8-10) list_pages_acc [of sdk s2 "ss_requests s2" "''''" ps w5]
    by (simp add: one_attempt_def)
  have second': "run_state (session_attempts sdk c (\<lambda>sess out. list_pages sdk sess (ss_requests sess) '''' out)
      n 2 ps) w4 = ((None, ps @ qs), w7)"
    by (cases n) (simp_all only: session_attempts.simps second)
  have "run_state (session_attempts sdk c (\<lambda>sess out. list_pages sdk sess (ss_requests sess) '''' out)
      (Suc n) 1 []) w = ((None, ps @ qs), w7)"
    using assms(3-7) second'
    by (simp add: one_attempt_def after_failure_def)
  with assms(1,2) n show ?thesis
    by (simp add: mcp_ListTools_def withSession_def Let_def)
qed

text \<open>A server with two pages that drops its second request; it counts the requests it has seen.\<close>

definition flaky_tool :: "string \<Rightarrow> sdk_tool option" where
  "flaky_tool n = Some \<lparr>st_Name = n, st_Description = '''', st_InputSchema = NilSchema\<rparr>"

definition flaky_session :: "nat mcp_session" where
  "flaky_session = \<lparr>ss_requests = 10, ss_Ping = State_Monad.return None,
     ss_ListTools = (\<lambda>cursor. State (\<lambda>n.
       (if n = 1 then Inl (ErrNew ''eof'')
        else if cursor = '''' then Inr ([flaky_tool ''a'', None], ''2'')
        else Inr ([flaky_tool ''b''], ''''), Suc n))),
     ss_CallTool = (\<lambda>tool args. State (\<lambda>n.
       (if n = 0 then Inl (ErrNew ''eof'') else Inr ANil, Suc n))),
     ss_Close = State_Monad.return None\<rparr>"

definition flaky_sdk :: "nat mcp_sdk" where
  "flaky_sdk = \<lparr>sdk_Connect = (\<lambda>d tr. State_Monad.return (Inr flaky_session)),
     sdk_wait = (\<lambda>d. State_Monad.return None), sdk_Marshal = (\<lambda>v. Inr ''null''),
     sdk_Unmarshal = (\<lambda>s. Inr ANil)\<rparr>"

definition flaky_client :: mcp_client_obj where
  "flaky_client = \<lparr>ko_name = ''files'', ko_transportCfg = MCPStdio ''serve'' [] [], ko_closed = False,
     ko_rpcTimeout = DefaultMCPTimeout, ko_maxRPCAttempts = 3, ko_toolFilter = no_tool_filter\<rparr>"

lemmas flaky_defs = flaky_client_def flaky_sdk_def flaky_session_def flaky_tool_def

theorem mcp_list_retry_duplicates_witness:
  "map_sum id (map spec_Name) (fst (run_state (mcp_ListTools flaky_sdk flaky_client) 0)) =
     Inr [''a'', ''a'', ''b'']"
proof -
  let ?spec = "\<lambda>n. \<lparr>spec_Name = n, spec_Description = [], spec_Parameters = default_schema\<rparr>"
  have 1: "run_state (list_pages flaky_sdk flaky_session (ss_requests flaky_session) '''' []) 0 =
      ((Some (ErrNew ''eof''), [?spec ''a'']), 2)"
    by (simp add: flaky_defs numeral_eq_Suc page_specs_def toolToSpec_def)
  have 2: "run_state (list_pages flaky_sdk flaky_session (ss_requests flaky_session) '''' []) 2 =
      ((None, [?spec ''a'', ?spec ''b'']), 4)"
    by (simp add: flaky_defs numeral_eq_Suc page_specs_def toolToSpec_def)
  have "run_state (mcp_ListTools flaky_sdk flaky_client) 0 = (Inr (mcp_filter_Apply
      (ko_toolFilter flaky_client) ([?spec ''a''] @ [?spec ''a'', ?spec ''b''])), 4)"
    by (rule mcp_list_retry_duplicates [where tr = "CommandTransport ''serve'' [] None"
          and ?s1.0 = flaky_session and ?s2.0 = flaky_session and e = "ErrNew ''eof''"
          and ?w1.0 = 0 and ?w2.0 = 2 and ?w3.0 = 2 and ?w4.0 = 2 and ?w5.0 = 2 and ?w6.0 = 4
          and ?c1.0 = None and ?c2.0 = None])
      (use 1 2 in \<open>simp_all add: flaky_client_def flaky_sdk_def flaky_session_def TrimSpace_def is_space_def\<close>)
  then show ?thesis
    by (simp add: flaky_client_def no_tool_filter_def mcp_filter_Apply_def)
qed


end
