(* ===== verification/A2A_Client.thy ===== *)
theory A2A_Client
  imports MCP_Client "HOL-Library.Multiset"
begin

text \<open>
  The A2A client: the skill filter of \<open>internal/types/a2a.go\<close>, the options of
  \<open>pkg/a2a/client/config.go\<close> and the life of the connection of \<open>pkg/a2a/client/client.go\<close>. A header
  map is shared by reference, so the configurations work on a store of maps. The connection is
  created lazily outside the lock; the client is a step relation whose steps are its critical
  sections and the calls to the protocol library between them.
\<close>

section \<open>The skill filter\<close>

record a2a_skill =
  sk_ID :: string
  sk_Name :: string
  sk_Description :: string
  sk_Tags :: "string list"
  sk_InputModes :: "string list"
  sk_OutputModes :: "string list"
  sk_Examples :: "string list"

record a2a_skill_filter =
  af_AllowSkills :: "string list"
  af_BlockSkills :: "string list"

definition a2a_filter_Validate :: "a2a_skill_filter \<Rightarrow> go_error option" where
  "a2a_filter_Validate f =
    (if af_AllowSkills f \<noteq> [] \<and> af_BlockSkills f \<noteq> [] then
       Some (ErrNew ''a2a skill filter: set either AllowSkills or BlockSkills, not both'')
     else None)"

definition a2a_filter_Apply :: "a2a_skill_filter \<Rightarrow> a2a_skill list \<Rightarrow> a2a_skill list" where
  "a2a_filter_Apply f skills =
    (if af_AllowSkills f = [] \<and> af_BlockSkills f = [] then skills
     else if af_AllowSkills f \<noteq> [] then
       let allowed = TrimSpace ` set (af_AllowSkills f)
       in filter (\<lambda>s. TrimSpace (sk_ID s) \<in> allowed) skills
     else
       let blocked = TrimSpace ` set (af_BlockSkills f)
       in filter (\<lambda>s. TrimSpace (sk_ID s) \<notin> blocked) skills)"

section \<open>Client configuration\<close>

definition DefaultA2ATimeout :: int where "DefaultA2ATimeout = 30 * Second"

text \<open>A store of header maps; a map is its pairs, with distinct keys.\<close>

type_synonym header_store = "nat \<Rightarrow> (string \<times> string) list"

record a2a_client_config =
  qc_Timeout :: int
  qc_Token :: string
  qc_Headers :: "nat option"
  qc_SkipTLSVerify :: bool
  qc_SkillFilter :: a2a_skill_filter

definition no_skill_filter :: a2a_skill_filter where
  "no_skill_filter = \<lparr>af_AllowSkills = [], af_BlockSkills = []\<rparr>"

definition a2a_WithTimeout :: "int \<Rightarrow> a2a_client_config \<Rightarrow> a2a_client_config" where
  "a2a_WithTimeout d c = c\<lparr>qc_Timeout := d\<rparr>"

definition a2a_WithToken :: "string \<Rightarrow> a2a_client_config \<Rightarrow> a2a_client_config" where
  "a2a_WithToken tok c = c\<lparr>qc_Token := tok\<rparr>"

definition a2a_WithHeaders :: "nat option \<Rightarrow> a2a_client_config \<Rightarrow> a2a_client_config" where
  "a2a_WithHeaders h c = c\<lparr>qc_Headers := h\<rparr>"

definition a2a_WithSkipTLSVerify :: "bool \<Rightarrow> a2a_client_config \<Rightarrow> a2a_client_config" where
  "a2a_WithSkipTLSVerify skip c = c\<lparr>qc_SkipTLSVerify := skip\<rparr>"

definition a2a_WithSkillFilter :: "a2a_skill_filter \<Rightarrow> a2a_client_config \<Rightarrow> a2a_client_config" where
  "a2a_WithSkillFilter f c = c\<lparr>qc_SkillFilter := f\<rparr>"

text \<open>\<open>fresh\<close> is the map that \<open>make\<close> would allocate.\<close>

definition a2a_BuildConfig ::
    "(a2a_client_config \<Rightarrow> a2a_client_config) option list \<Rightarrow> nat \<Rightarrow> header_store \<Rightarrow>
     (go_error + a2a_client_config) \<times> header_store" where
  "a2a_BuildConfig opts fresh store =
    (let c0 = fold (\<lambda>opt c. case opt of None \<Rightarrow> c | Some f \<Rightarrow> f c) opts
           \<lparr>qc_Timeout = 0, qc_Token = '''', qc_Headers = None, qc_SkipTLSVerify = False,
            qc_SkillFilter = no_skill_filter\<rparr>;
         c1 = (if qc_Timeout c0 \<le> 0 then c0\<lparr>qc_Timeout := DefaultA2ATimeout\<rparr> else c0);
         tok = TrimSpace (qc_Token c1);
         (c2, store1) =
           (if tok \<noteq> '''' then
              let (ref, st) = (case qc_Headers c1 of Some r \<Rightarrow> (r, store)
                               | None \<Rightarrow> (fresh, store(fresh := [])))
              in (c1\<lparr>qc_Headers := Some ref\<rparr>,
                  if map_of (st ref) ''Authorization'' \<noteq> None then st
                  else st(ref := st ref @ [(''Authorization'', ''Bearer '' @ tok)]))
            else (c1, store))
     in case a2a_filter_Validate (qc_SkillFilter c2) of
          Some e \<Rightarrow> (Inl (ErrWrap ''a2a client config: '' e ''''), store1)
        | None \<Rightarrow> (Inr c2, store1))"

text \<open>The headers that a request gets: every configured one replaces what the request had.\<close>

fun a2a_RoundTrip :: "(string \<times> string) list \<Rightarrow> http_header \<Rightarrow> http_header" where
  "a2a_RoundTrip [] r = r"
| "a2a_RoundTrip ((k, v) # m) r =
    (let k' = TrimSpace k in a2a_RoundTrip m (if k' \<noteq> '''' then header_Set k' v r else r))"

definition a2a_request_headers :: "a2a_client_config \<Rightarrow> header_store \<Rightarrow> http_header \<Rightarrow> http_header" where
  "a2a_request_headers cfg store r = (case qc_Headers cfg of None \<Rightarrow> r
     | Some ref \<Rightarrow> if store ref \<noteq> [] then a2a_RoundTrip (store ref) r else r)"

definition a2a_NewClient ::
    "string \<Rightarrow> string \<Rightarrow> (a2a_client_config \<Rightarrow> a2a_client_config) option list \<Rightarrow> nat \<Rightarrow> header_store \<Rightarrow>
     (go_error + a2a_client_config) \<times> header_store" where
  "a2a_NewClient name url opts fresh store =
    (if TrimSpace name = '''' then (Inl (ErrNew ''a2a client: name is empty''), store)
     else if TrimSpace url = '''' then (Inl (ErrNew ''a2a client: url is empty''), store)
     else a2a_BuildConfig opts fresh store)"

section \<open>The life of the connection\<close>

text \<open>
  A connection is a number. \<open>ac_live\<close> holds the connections that were opened and not destroyed,
  \<open>ac_calls\<close> the calls of \<open>getInner\<close> between their two critical sections.
\<close>

datatype pending_call = Connecting | Connected nat

record a2a_conn =
  ac_closed :: bool
  ac_card :: bool
  ac_inner :: "nat option"
  ac_live :: "nat set"
  ac_next :: nat
  ac_calls :: "pending_call multiset"

definition a2a_new_conn :: a2a_conn where
  "a2a_new_conn = \<lparr>ac_closed = False, ac_card = False, ac_inner = None, ac_live = {}, ac_next = 0,
     ac_calls = {#}\<rparr>"

datatype inner_result = InnerClosed | InnerCached nat | InnerConnect

text \<open>The first critical section.\<close>

definition getInner_enter :: "a2a_conn \<Rightarrow> inner_result \<times> a2a_conn" where
  "getInner_enter c =
    (if ac_closed c then (InnerClosed, c)
     else case ac_inner c of
       Some i \<Rightarrow> (InnerCached i, c)
     | None \<Rightarrow> (InnerConnect, c\<lparr>ac_calls := add_mset Connecting (ac_calls c)\<rparr>))"

text \<open>The second one, with a new connection \<open>i\<close>.\<close>

definition getInner_leave :: "nat \<Rightarrow> a2a_conn \<Rightarrow> inner_result \<times> a2a_conn" where
  "getInner_leave i c =
    (let c1 = c\<lparr>ac_calls := ac_calls c - {#Connected i#}\<rparr>
     in if ac_closed c1 then (InnerClosed, c1\<lparr>ac_live := ac_live c1 - {i}\<rparr>)
        else case ac_inner c1 of
          Some j \<Rightarrow> (InnerCached j, c1\<lparr>ac_live := ac_live c1 - {i}\<rparr>)
        | None \<Rightarrow> (InnerCached i, c1\<lparr>ac_card := True, ac_inner := Some i\<rparr>))"

definition a2a_Close :: "a2a_conn \<Rightarrow> a2a_conn" where
  "a2a_Close c =
    (if ac_closed c then c
     else let c1 = c\<lparr>ac_closed := True, ac_inner := None, ac_card := False\<rparr>
          in case ac_inner c of None \<Rightarrow> c1 | Some i \<Rightarrow> c1\<lparr>ac_live := ac_live c1 - {i}\<rparr>)"

text \<open>\<open>ResolveCard\<close> checks the flag in one critical section and stores the card in another.\<close>

definition checkClosed :: "string \<Rightarrow> a2a_conn \<Rightarrow> go_error option" where
  "checkClosed name c =
    (if ac_closed c then Some (ErrNew (''a2a client '' @ Quote name @ '': closed'')) else None)"

definition store_card :: "a2a_conn \<Rightarrow> a2a_conn" where
  "store_card c = c\<lparr>ac_card := True\<rparr>"

inductive a2a_step :: "a2a_conn \<Rightarrow> a2a_conn \<Rightarrow> bool" where
  enter: "getInner_enter c = (r, c') \<Longrightarrow> a2a_step c c'"
| connect_fails: "Connecting \<in># ac_calls c \<Longrightarrow>
    a2a_step c (c\<lparr>ac_calls := ac_calls c - {#Connecting#}\<rparr>)"
| connects: "Connecting \<in># ac_calls c \<Longrightarrow>
    a2a_step c (c\<lparr>ac_calls := add_mset (Connected (ac_next c)) (ac_calls c - {#Connecting#}),
      ac_live := insert (ac_next c) (ac_live c), ac_next := Suc (ac_next c)\<rparr>)"
| leave: "Connected i \<in># ac_calls c \<Longrightarrow> getInner_leave i c = (r, c') \<Longrightarrow> a2a_step c c'"
| close: "a2a_step c (a2a_Close c)"
| card: "a2a_step c (store_card c)"

inductive_cases a2a_stepE: "a2a_step c c'"

inductive a2a_reachable :: "a2a_conn \<Rightarrow> bool" where
  start: "a2a_reachable a2a_new_conn"
| more: "a2a_reachable c \<Longrightarrow> a2a_step c c' \<Longrightarrow> a2a_reachable c'"

text \<open>
  The live connections are the cached one and those that a call of \<open>getInner\<close> still holds, each held
  once.
\<close>

definition held_by_calls :: "a2a_conn \<Rightarrow> nat set" where
  "held_by_calls c = {i. Connected i \<in># ac_calls c}"

definition conn_inv :: "a2a_conn \<Rightarrow> bool" where
  "conn_inv c \<longleftrightarrow>
    ac_live c = set_option (ac_inner c) \<union> held_by_calls c \<and>
    (\<forall>i. count (ac_calls c) (Connected i) \<le> 1) \<and>
    (\<forall>i \<in> set_option (ac_inner c). i \<notin> held_by_calls c) \<and>
    (\<forall>i \<in> ac_live c. i < ac_next c) \<and>
    (ac_closed c \<longrightarrow> ac_inner c = None)"

lemma held_simps [simp]:
  "held_by_calls (c\<lparr>ac_calls := add_mset Connecting m\<rparr>) = {i. Connected i \<in># m}"
  "held_by_calls (c\<lparr>ac_live := l\<rparr>) = held_by_calls c"
  "held_by_calls (c\<lparr>ac_card := b\<rparr>) = held_by_calls c"
  "held_by_calls (c\<lparr>ac_inner := j\<rparr>) = held_by_calls c"
  "held_by_calls (c\<lparr>ac_closed := b\<rparr>) = held_by_calls c"
  by (auto simp: held_by_calls_def)

lemma conn_inv_enter: "conn_inv c \<Longrightarrow> getInner_enter c = (r, c') \<Longrightarrow> conn_inv c'"
  by (auto simp: getInner_enter_def conn_inv_def held_by_calls_def split: if_splits option.splits)

lemma conn_inv_fails:
  "conn_inv c \<Longrightarrow> conn_inv (c\<lparr>ac_calls := ac_calls c - {#Connecting#}\<rparr>)"
  by (auto simp: conn_inv_def held_by_calls_def in_diff_count)

lemma conn_inv_connects:
  assumes inv: "conn_inv c"
  shows "conn_inv (c\<lparr>ac_calls := add_mset (Connected (ac_next c)) (ac_calls c - {#Connecting#}),
      ac_live := insert (ac_next c) (ac_live c), ac_next := Suc (ac_next c)\<rparr>)"
proof -
  have new: "ac_next c \<notin> ac_live c" using inv by (auto simp: conn_inv_def)
  then have "count (ac_calls c) (Connected (ac_next c)) = 0"
    using inv by (auto simp: conn_inv_def held_by_calls_def not_in_iff)
  moreover have "ac_inner c \<noteq> Some (ac_next c)" using new inv by (auto simp: conn_inv_def)
  ultimately show ?thesis
    using inv new
    by (auto simp: conn_inv_def held_by_calls_def in_diff_count less_Suc_eq)
qed

lemma held_leave:
  assumes "conn_inv c" "Connected i \<in># ac_calls c"
  shows "{j. Connected j \<in># ac_calls c - {#Connected i#}} = held_by_calls c - {i}"
proof -
  have "count (ac_calls c) (Connected i) \<le> 1" using assms(1) by (simp add: conn_inv_def)
  moreover have "0 < count (ac_calls c) (Connected i)" using assms(2) by simp
  ultimately have "count (ac_calls c) (Connected i) = 1" by linarith
  then show ?thesis by (auto simp: held_by_calls_def in_diff_count split: if_splits)
qed

lemma conn_inv_leave:
  assumes inv: "conn_inv c" and call: "Connected i \<in># ac_calls c"
    and leave: "getInner_leave i c = (r, c')"
  shows "conn_inv c'"
proof -
  have i: "i \<in> held_by_calls c" using call by (simp add: held_by_calls_def)
  then have fresh: "ac_inner c \<noteq> Some i" using inv by (auto simp: conn_inv_def)
  have le: "count (ac_calls c - {#Connected i#}) (Connected j) \<le> 1" for j
    using inv by (meson conn_inv_def diff_subset_eq_self le_trans mset_subset_eq_count)
  note held = held_leave [OF inv call]
  from inv have live: "ac_live c = set_option (ac_inner c) \<union> held_by_calls c"
    and inner: "\<forall>i \<in> set_option (ac_inner c). i \<notin> held_by_calls c"
    and nxt: "\<forall>i \<in> ac_live c. i < ac_next c" and closed: "ac_closed c \<longrightarrow> ac_inner c = None"
    by (simp_all add: conn_inv_def)
  consider "ac_closed c" | "\<not> ac_closed c" "ac_inner c = None"
    | j where "\<not> ac_closed c" "ac_inner c = Some j" by (cases "ac_inner c") auto
  then show ?thesis
  proof cases
    case 1
    with leave have c': "c' = c\<lparr>ac_calls := ac_calls c - {#Connected i#}, ac_live := ac_live c - {i}\<rparr>"
      by (simp add: getInner_leave_def Let_def)
    have "held_by_calls c' = held_by_calls c - {i}" using held by (simp add: c' held_by_calls_def)
    then show ?thesis unfolding conn_inv_def
      using 1 closed live nxt le by (auto simp: c')
  next
    case 2
    with leave have c': "c' = c\<lparr>ac_calls := ac_calls c - {#Connected i#}, ac_card := True,
        ac_inner := Some i\<rparr>"
      by (simp add: getInner_leave_def Let_def)
    have "held_by_calls c' = held_by_calls c - {i}" using held by (simp add: c' held_by_calls_def)
    then show ?thesis unfolding conn_inv_def
      using 2 live nxt le i by (auto simp: c')
  next
    case 3
    with leave have c': "c' = c\<lparr>ac_calls := ac_calls c - {#Connected i#}, ac_live := ac_live c - {i}\<rparr>"
      by (simp add: getInner_leave_def Let_def)
    have "held_by_calls c' = held_by_calls c - {i}" using held by (simp add: c' held_by_calls_def)
    then show ?thesis unfolding conn_inv_def
      using 3 live inner nxt le fresh by (auto simp: c')
  qed
qed

lemma conn_inv_Close: "conn_inv c \<Longrightarrow> conn_inv (a2a_Close c)"
  by (auto simp: a2a_Close_def Let_def conn_inv_def held_by_calls_def split: option.splits)

lemma conn_inv_step: "a2a_step c c' \<Longrightarrow> conn_inv c \<Longrightarrow> conn_inv c'"
  by (erule a2a_stepE)
    (auto intro: conn_inv_enter conn_inv_fails conn_inv_connects conn_inv_leave conn_inv_Close,
     simp add: store_card_def conn_inv_def held_by_calls_def)

lemma conn_inv_reachable: "a2a_reachable c \<Longrightarrow> conn_inv c"
proof (induction rule: a2a_reachable.induct)
  case start
  show ?case by (simp add: conn_inv_def a2a_new_conn_def held_by_calls_def)
next
  case (more c c')
  from more.hyps(2) more.IH show ?case by (rule conn_inv_step)
qed

text \<open>C40. The A2A client leaks no connection. However the calls that race to open it and \<open>Close\<close>
  interleave: a connection that is open is either the cached one or still held by exactly one
  call that is about to store or destroy it; when no call is under way at most the cached one is
  open, and after \<open>Close\<close> none is.\<close>

theorem a2a_no_leaked_connection:
  assumes "a2a_reachable c"
  shows "ac_live c = set_option (ac_inner c) \<union> held_by_calls c \<and>
    (ac_calls c = {#} \<longrightarrow> ac_live c = set_option (ac_inner c)) \<and>
    (ac_closed c \<and> ac_calls c = {#} \<longrightarrow> ac_live c = {})"
  using conn_inv_reachable [OF assms] by (auto simp: conn_inv_def held_by_calls_def)

theorem a2a_no_leaked_connection_witness:
  "\<exists>c. a2a_reachable c \<and> ac_closed c \<and> ac_calls c = {#} \<and> ac_next c = 1 \<and> ac_live c = {}"
proof -
  let ?c1 = "a2a_new_conn\<lparr>ac_calls := {#Connecting#}\<rparr>"
  let ?c2 = "?c1\<lparr>ac_calls := {#Connected 0#}, ac_live := {0}, ac_next := 1\<rparr>"
  let ?c3 = "a2a_Close ?c2"
  let ?c4 = "?c3\<lparr>ac_calls := {#}, ac_live := {}\<rparr>"
  have 1: "a2a_step a2a_new_conn ?c1"
    by (rule enter [where r = InnerConnect]) (simp add: getInner_enter_def a2a_new_conn_def)
  have 2: "a2a_step ?c1 ?c2" using connects [of ?c1] by (simp add: a2a_new_conn_def)
  have 3: "a2a_step ?c2 ?c3" by (rule close)
  have 4: "a2a_step ?c3 ?c4"
    by (rule leave [where i = 0 and r = InnerClosed])
      (simp_all add: getInner_leave_def a2a_Close_def a2a_new_conn_def)
  have r: "a2a_reachable ?c4"
    by (rule more [OF more [OF more [OF more [OF start 1] 2] 3] 4])
  from a2a_no_leaked_connection [OF r] r show ?thesis
    by (intro exI [of _ ?c4]) (simp add: a2a_Close_def a2a_new_conn_def)
qed

section \<open>Tokens and shared header maps\<close>

text \<open>The configuration of a server with a token and a header map, as the agent builds it.\<close>

definition token_options ::
    "string \<Rightarrow> nat option \<Rightarrow> (a2a_client_config \<Rightarrow> a2a_client_config) option list" where
  "token_options tok h = [Some (a2a_WithToken tok), Some (a2a_WithHeaders h)]"

lemma a2a_BuildConfig_token:
  assumes "TrimSpace tok \<noteq> ''''"
    and "a2a_BuildConfig (token_options tok (Some h)) fresh store = (Inr cfg, store')"
  shows "qc_Headers cfg = Some h \<and> store' h =
    (if map_of (store h) ''Authorization'' \<noteq> None then store h
     else store h @ [(''Authorization'', ''Bearer '' @ TrimSpace tok)])"
  using assms
  by (auto simp: a2a_BuildConfig_def token_options_def a2a_WithToken_def a2a_WithHeaders_def Let_def
      split: if_splits option.splits)

text \<open>The token of an A2A server is written into the header map that the caller passed, unless the map
  holds an \<open>Authorization\<close> already. Two servers configured with the same map and different tokens
  therefore share the first token: the second server receives the credential of the first one,
  and its own token is never used.\<close>

theorem a2a_token_crosses_servers:
  assumes "TrimSpace t1 \<noteq> ''''" "TrimSpace t2 \<noteq> ''''" "map_of (store h) ''Authorization'' = None"
    and "a2a_BuildConfig (token_options t1 (Some h)) f1 store = (Inr c1, store1)"
    and "a2a_BuildConfig (token_options t2 (Some h)) f2 store1 = (Inr c2, store2)"
  shows "map_of (store2 (the (qc_Headers c1))) ''Authorization'' = Some (''Bearer '' @ TrimSpace t1) \<and>
    map_of (store2 (the (qc_Headers c2))) ''Authorization'' = Some (''Bearer '' @ TrimSpace t1)"
  using a2a_BuildConfig_token [OF assms(1,4)] a2a_BuildConfig_token [OF assms(2,5)] assms(3)
  by (simp add: map_of_append map_add_def)

theorem a2a_token_crosses_servers_witness:
  "\<exists>c1 c2 st1 st2.
     a2a_BuildConfig (token_options ''one'' (Some 0)) 1 (\<lambda>_. [(''X-Tenant'', ''acme'')]) = (Inr c1, st1) \<and>
     a2a_BuildConfig (token_options ''two'' (Some 0)) 2 st1 = (Inr c2, st2) \<and>
     map_of (st2 (the (qc_Headers c2))) ''Authorization'' = Some ''Bearer one''"
proof -
  let ?st = "\<lambda>_::nat. [(''X-Tenant'', ''acme'')]"
  let ?c = "\<lambda>t. \<lparr>qc_Timeout = DefaultA2ATimeout, qc_Token = t, qc_Headers = Some (0::nat),
     qc_SkipTLSVerify = False, qc_SkillFilter = no_skill_filter\<rparr>"
  let ?st1 = "?st(0 := [(''X-Tenant'', ''acme''), (''Authorization'', ''Bearer one'')])"
  have t: "TrimSpace ''one'' = ''one''" "TrimSpace ''two'' = ''two''" by code_simp+
  have 1: "a2a_BuildConfig (token_options ''one'' (Some 0)) 1 ?st = (Inr (?c ''one''), ?st1)"
    by (simp add: a2a_BuildConfig_def token_options_def a2a_WithToken_def a2a_WithHeaders_def t Let_def
        no_skill_filter_def a2a_filter_Validate_def)
  have 2: "a2a_BuildConfig (token_options ''two'' (Some 0)) 2 ?st1 = (Inr (?c ''two''), ?st1)"
    by (simp add: a2a_BuildConfig_def token_options_def a2a_WithToken_def a2a_WithHeaders_def t Let_def
        no_skill_filter_def a2a_filter_Validate_def)
  from a2a_token_crosses_servers [OF _ _ _ 1 2] 1 2 t show ?thesis by auto
qed

end
