(* ===== verification/Sanitize.thy ===== *)
theory Sanitize
  imports Run_Types
begin

text \<open>
  Message sanitizing of \<open>internal/runtime/base/sanitize.go\<close>: volatile tokens (timestamps, session
  ids, UUIDs) are cut out of message contents before an LLM call so that prompt prefixes stay
  cacheable. The three patterns are written in a small regular expression language with the
  leftmost-first semantics of Go's \<open>regexp\<close>: \<open>rmatch\<close> lists the possible ends of a match in
  order of preference, and \<open>ReplaceAllString\<close> takes the first. Characters are bytes; the
  non-ASCII case folds of \<open>(?i)\<close> are not modelled.
\<close>

section \<open>Regular expressions\<close>

datatype regex =
    RChr "char \<Rightarrow> bool"
  | RSeq regex regex
  | RAlt regex regex
  | ROpt regex
  | RStar "char \<Rightarrow> bool"
  | RWordB
  | REps

definition word_char :: "char option \<Rightarrow> bool" where
  "word_char c = (case c of None \<Rightarrow> False | Some x \<Rightarrow>
     (let n = (of_char x :: nat) in 48 \<le> n \<and> n \<le> 57 \<or> 65 \<le> n \<and> n \<le> 90 \<or> 97 \<le> n \<and> n \<le> 122 \<or> n = 95))"

definition next_char :: "string \<Rightarrow> char option" where
  "next_char s = (case s of [] \<Rightarrow> None | c # cs \<Rightarrow> Some c)"

text \<open>A position is the character before it and the text after it.\<close>

fun star_ends :: "(char \<Rightarrow> bool) \<Rightarrow> char option \<Rightarrow> string \<Rightarrow> (char option \<times> string) list" where
  "star_ends P p [] = [(p, [])]"
| "star_ends P p (c # cs) = (if P c then star_ends P (Some c) cs else []) @ [(p, c # cs)]"

fun rmatch :: "regex \<Rightarrow> char option \<times> string \<Rightarrow> (char option \<times> string) list" where
  "rmatch (RChr P) st = (case snd st of [] \<Rightarrow> [] | c # cs \<Rightarrow> if P c then [(Some c, cs)] else [])"
| "rmatch (RSeq a b) st = concat (map (rmatch b) (rmatch a st))"
| "rmatch (RAlt a b) st = rmatch a st @ rmatch b st"
| "rmatch (ROpt a) st = rmatch a st @ [st]"
| "rmatch (RStar P) st = star_ends P (fst st) (snd st)"
| "rmatch RWordB st = (if word_char (fst st) \<noteq> word_char (next_char (snd st)) then [st] else [])"
| "rmatch REps st = [st]"

text \<open>The least number of characters a match takes; all patterns below take at least one.\<close>

fun min_len :: "regex \<Rightarrow> nat" where
  "min_len (RChr P) = 1"
| "min_len (RSeq a b) = min_len a + min_len b"
| "min_len (RAlt a b) = min (min_len a) (min_len b)"
| "min_len (ROpt a) = 0"
| "min_len (RStar P) = 0"
| "min_len RWordB = 0"
| "min_len REps = 0"

lemma star_ends_length: "(q, t) \<in> set (star_ends P p s) \<Longrightarrow> length t \<le> length s"
  by (induction s arbitrary: p) (auto split: if_splits intro: le_SucI)

lemma rmatch_length: "(q, t) \<in> set (rmatch r st) \<Longrightarrow> length t + min_len r \<le> length (snd st)"
proof (induction r arbitrary: q t st)
  case (RSeq a b)
  then obtain q1 t1 where "(q1, t1) \<in> set (rmatch a st)" "(q, t) \<in> set (rmatch b (q1, t1))" by auto
  with RSeq.IH(1) [of q1 t1 st] RSeq.IH(2) [of q t "(q1, t1)"] show ?case by simp
next
  case (RAlt a b)
    then have "(q, t) \<in> set (rmatch a st) \<or> (q, t) \<in> set (rmatch b st)" by simp
  with RAlt.IH(1) [of q t st] RAlt.IH(2) [of q t st] show ?case by auto
next
  case (ROpt a)
  then have "(q, t) \<in> set (rmatch a st) \<or> (q, t) = st" by auto
  with ROpt.IH [of q t st] show ?case by auto
next
  case (RStar P)
  then have "(q, t) \<in> set (star_ends P (fst st) (snd st))" by simp
  from star_ends_length [OF this] show ?case by simp
qed (auto split: list.splits if_splits)

text \<open>\<open>re.ReplaceAllString(s, repl)\<close>, for an expression that does not match the empty text.\<close>

function replace_from :: "regex \<Rightarrow> string \<Rightarrow> char option \<Rightarrow> string \<Rightarrow> string" where
  "replace_from r repl p [] = []"
| "replace_from r repl p (c # cs) = (case rmatch r (p, c # cs) of
      [] \<Rightarrow> c # replace_from r repl (Some c) cs
    | (q, t) # _ \<Rightarrow> if length t \<le> length cs then repl @ replace_from r repl q t
                    else c # replace_from r repl (Some c) cs)"
  by pat_completeness auto
termination by (relation "measure (\<lambda>(r, repl, p, s). length s)") auto

definition ReplaceAllString :: "regex \<Rightarrow> string \<Rightarrow> string \<Rightarrow> string" where
  "ReplaceAllString r s repl = replace_from r repl None s"

lemma replace_from_match:
  assumes "rmatch r (p, c # cs) = (q, t) # rest" "0 < min_len r"
  shows "replace_from r repl p (c # cs) = repl @ replace_from r repl q t"
proof -
  have "(q, t) \<in> set (rmatch r (p, c # cs))" by (simp add: assms(1))
  from rmatch_length [OF this] assms(2) have "length t \<le> length cs" by simp
  then show ?thesis by (simp add: assms(1))
qed

section \<open>The patterns\<close>

fun r_seq :: "regex list \<Rightarrow> regex" where
  "r_seq [] = REps"
| "r_seq [r] = r"
| "r_seq (r # s # rs) = RSeq r (r_seq (s # rs))"

fun r_alt :: "regex list \<Rightarrow> regex" where
  "r_alt [] = REps"
| "r_alt [r] = r"
| "r_alt (r # s # rs) = RAlt r (r_alt (s # rs))"

definition in_range :: "nat \<Rightarrow> nat \<Rightarrow> char \<Rightarrow> bool" where
  "in_range a b c \<longleftrightarrow> a \<le> of_char c \<and> of_char c \<le> b"

definition is_digit :: "char \<Rightarrow> bool" where "is_digit = in_range 48 57"

text \<open>\<open>\s\<close>, and the classes of the session id pattern.\<close>

definition re_space :: "char \<Rightarrow> bool" where
  "re_space c \<longleftrightarrow> c \<in> {CHR 0x09, CHR 0x0A, CHR 0x0C, CHR 0x0D, CHR 0x20}"

definition id_char :: "char \<Rightarrow> bool" where
  "id_char c \<longleftrightarrow> in_range 65 90 c \<or> in_range 97 122 c \<or> is_digit c \<or> c = CHR ''_'' \<or> c = CHR ''-''"

definition hex_char :: "char \<Rightarrow> bool" where
  "hex_char c \<longleftrightarrow> is_digit c \<or> in_range 97 102 c \<or> in_range 65 70 c"

definition lit :: "string \<Rightarrow> regex" where
  "lit s = r_seq (map (\<lambda>x. RChr (\<lambda>c. c = x)) s)"

text \<open>A literal in lower-case letters under \<open>(?i)\<close>.\<close>

definition same_fold :: "char \<Rightarrow> char \<Rightarrow> bool" where
  "same_fold x c \<longleftrightarrow> c = x \<or> in_range 97 122 x \<and> of_char c + 32 = (of_char x :: nat)"

definition lit_ci :: "string \<Rightarrow> regex" where
  "lit_ci s = r_seq (map (\<lambda>x. RChr (same_fold x)) s)"

definition times :: "nat \<Rightarrow> (char \<Rightarrow> bool) \<Rightarrow> regex" where
  "times n P = r_seq (replicate n (RChr P))"

definition some_of :: "(char \<Rightarrow> bool) \<Rightarrow> regex" where
  "some_of P = RSeq (RChr P) (RStar P)"

definition one_of :: "string \<Rightarrow> regex" where
  "one_of s = RChr (\<lambda>c. c \<in> set s)"

definition clock_re :: regex where
  "clock_re = r_seq [times 2 is_digit, lit '':'', times 2 is_digit, lit '':'', times 2 is_digit]"

definition sanitizeTimestampRe :: regex where
  "sanitizeTimestampRe = RAlt
    (r_seq [RWordB, times 4 is_digit, lit ''-'', times 2 is_digit, lit ''-'', times 2 is_digit,
       one_of ''T '', clock_re,
       ROpt (RSeq (lit ''.'') (some_of is_digit)),
       ROpt (RAlt (lit ''Z'')
         (r_seq [one_of ''+-'', times 2 is_digit, ROpt (lit '':''), times 2 is_digit])), RWordB])
    (r_seq [RWordB, r_alt (map lit [''Mon'', ''Tue'', ''Wed'', ''Thu'', ''Fri'', ''Sat'', ''Sun'']),
       some_of re_space,
       r_alt (map lit [''Jan'', ''Feb'', ''Mar'', ''Apr'', ''May'', ''Jun'', ''Jul'', ''Aug'',
         ''Sep'', ''Oct'', ''Nov'', ''Dec'']),
       some_of re_space, RSeq (RChr is_digit) (ROpt (RChr is_digit)), some_of re_space, clock_re,
       some_of re_space, times 4 is_digit, RWordB])"

text \<open>The quotes are \<open>["']?\<close>.\<close>

definition quote_re :: regex where
  "quote_re = ROpt (RChr (\<lambda>c. c = CHR 0x22 \<or> c = CHR 0x27))"

definition sanitizeSessionIDRe :: regex where
  "sanitizeSessionIDRe = RAlt
    (r_seq [RWordB,
       r_alt (map (\<lambda>w. r_seq [lit_ci w, ROpt (one_of ''_-''), lit_ci ''id''])
         [''session'', ''conversation'', ''run'', ''request'']),
       RStar re_space, one_of '':='', RStar re_space, quote_re, some_of id_char, quote_re])
    (r_seq [RWordB, times 8 hex_char, lit ''-'', times 4 hex_char, lit ''-'', times 4 hex_char,
       lit ''-'', times 4 hex_char, lit ''-'', times 12 hex_char, RWordB])"

definition is_blank :: "char \<Rightarrow> bool" where
  "is_blank c \<longleftrightarrow> c = CHR 0x20 \<or> c = CHR 0x09"

definition sanitizeWhitespaceRe :: regex where
  "sanitizeWhitespaceRe = some_of is_blank"

section \<open>Sanitizing\<close>

text \<open>\<open>strings.ReplaceAll\<close> and \<open>strings.Contains\<close> for a non-empty substring.\<close>

function ReplaceAll :: "string \<Rightarrow> string \<Rightarrow> string \<Rightarrow> string" where
  "ReplaceAll [] old new = []"
| "ReplaceAll (c # cs) old new =
     (if old \<noteq> [] \<and> HasPrefix (c # cs) old
      then new @ ReplaceAll (drop (length old) (c # cs)) old new
      else c # ReplaceAll cs old new)"
  by pat_completeness auto
termination
proof (relation "measure (\<lambda>(s, old, new). length s)", goal_cases)
  case (2 c cs old new)
  then show ?case by (cases old) auto
qed auto

fun Contains :: "string \<Rightarrow> string \<Rightarrow> bool" where
  "Contains [] sub = (sub = [])"
| "Contains (c # cs) sub = (HasPrefix (c # cs) sub \<or> Contains cs sub)"

lemma ReplaceAll_le:
  "length new \<le> length old \<Longrightarrow> length (ReplaceAll s old new) \<le> length s"
proof (induction s old new rule: ReplaceAll.induct)
  case (2 c cs old new)
  show ?case
  proof (cases "old \<noteq> [] \<and> HasPrefix (c # cs) old")
    case True
    then have "length old \<le> length (c # cs)" by (metis HasPrefix_def length_take min.absorb_iff2 min.commute)
    with 2(1) [OF True] 2(3) True show ?thesis by simp
  next
    case False
    with 2(2) [OF False 2(3)] show ?thesis by auto
  qed
qed simp

lemma ReplaceAll_less:
  "length new < length old \<Longrightarrow> Contains s old \<Longrightarrow> length (ReplaceAll s old new) < length s"
proof (induction s old new rule: ReplaceAll.induct)
  case (2 c cs old new)
  show ?case
  proof (cases "old \<noteq> [] \<and> HasPrefix (c # cs) old")
    case True
    then have "length old \<le> length (c # cs)" by (metis HasPrefix_def length_take min.absorb_iff2 min.commute)
    with ReplaceAll_le [of new old "drop (length old) (c # cs)"] 2(3) True show ?thesis by simp
  qed (use 2 in auto)
qed simp

text \<open>The loop that collapses blank lines ends because each round shortens the text.\<close>

function collapse_lines :: "string \<Rightarrow> string" where
  "collapse_lines s =
    (if Contains s (nl @ nl @ nl) then collapse_lines (ReplaceAll s (nl @ nl @ nl) (nl @ nl)) else s)"
  by pat_completeness auto
termination
  by (relation "measure length") (auto intro!: ReplaceAll_less simp: nl_def)

declare collapse_lines.simps [simp del]

definition sanitizeContent :: "string \<Rightarrow> string" where
  "sanitizeContent s =
    (if s = '''' then s
     else let s1 = ReplaceAllString sanitizeTimestampRe s '''';
              s2 = ReplaceAllString sanitizeSessionIDRe s1 '''';
              s3 = ReplaceAllString sanitizeWhitespaceRe s2 '' '';
              s4 = ReplaceAll s3 [CHR 0x0D, CHR 0x0A] nl
          in TrimSpace (collapse_lines s4))"

definition sanitizeMessages :: "message list \<Rightarrow> message list" where
  "sanitizeMessages msgs = map (\<lambda>msg. msg\<lparr>msg_Content := sanitizeContent (msg_Content msg)\<rparr>) msgs"

section \<open>The normal form\<close>

lemma Contains_sublist: "Contains s sub \<longleftrightarrow> sublist sub s"
proof (induction s)
  case (Cons c cs)
  have "HasPrefix (c # cs) sub \<longleftrightarrow> prefix sub (c # cs)"
    by (metis HasPrefix_def prefix_def append_take_drop_id append_eq_conv_conj)
  with Cons show ?case by (simp add: sublist_Cons_right)
qed simp

definition squeezed :: "string \<Rightarrow> bool" where
  "squeezed s \<longleftrightarrow> CHR 0x09 \<notin> set s \<and> \<not> Contains s [CHR 0x20, CHR 0x20]"

lemma squeezed_Nil [simp]: "squeezed []"
  by (simp add: squeezed_def)

lemma squeezed_Cons: "squeezed (c # s) \<longleftrightarrow>
    c \<noteq> CHR 0x09 \<and> squeezed s \<and> \<not> (c = CHR 0x20 \<and> s \<noteq> [] \<and> hd s = CHR 0x20)"
  by (cases s) (auto simp: squeezed_def Contains_sublist sublist_Cons_right)

lemma squeezed_sublist: "sublist t s \<Longrightarrow> squeezed s \<Longrightarrow> squeezed t"
  unfolding squeezed_def Contains_sublist
  by (meson set_mono_sublist sublist_order.order_trans subsetD)

lemma star_ends_hd: "\<exists>q rest. star_ends P p s = (q, dropWhile P s) # rest"
proof (induction s arbitrary: p)
  case (Cons c cs)
  from Cons [of "Some c"] show ?case by auto
qed simp

lemma replace_blank:
  assumes "P c"
  shows "\<exists>q. replace_from (some_of P) repl p (c # cs) =
    repl @ replace_from (some_of P) repl q (dropWhile P cs)"
proof -
  obtain q rest where "star_ends P (Some c) cs = (q, dropWhile P cs) # rest"
    using star_ends_hd by blast
  with assms have "rmatch (some_of P) (p, c # cs) = (q, dropWhile P cs) # rest"
    by (simp add: some_of_def)
  from replace_from_match [OF this] show ?thesis by (auto simp: some_of_def)
qed

lemma replace_text:
  "\<not> P c \<Longrightarrow> replace_from (some_of P) repl p (c # cs) = c # replace_from (some_of P) repl (Some c) cs"
  by (simp add: some_of_def)

declare replace_from.simps(2) [simp del] ReplaceAll.simps(2) [simp del]

text \<open>After the white space pattern has been replaced no tab and no two spaces in a row are left.\<close>

lemma squeeze_blanks:
  "squeezed (replace_from sanitizeWhitespaceRe '' '' p s) \<and>
   (replace_from sanitizeWhitespaceRe '' '' p s \<noteq> [] \<longrightarrow>
      hd (replace_from sanitizeWhitespaceRe '' '' p s) = CHR 0x20 \<longrightarrow> s \<noteq> [] \<and> is_blank (hd s))"
  unfolding sanitizeWhitespaceRe_def
proof (induction "length s" arbitrary: p s rule: less_induct)
  case less
  show ?case
  proof (cases s)
    case (Cons c cs)
    show ?thesis
    proof (cases "is_blank c")
      case True
      let ?d = "dropWhile is_blank cs"
      have len: "length ?d < length s" using length_dropWhile_le [of is_blank cs] Cons by simp
      have hd: "?d \<noteq> [] \<Longrightarrow> \<not> is_blank (hd ?d)" by (rule hd_dropWhile)
      obtain q where q: "replace_from (some_of is_blank) '' '' p s =
          CHR 0x20 # replace_from (some_of is_blank) '' '' q ?d"
        using replace_blank [of is_blank c "'' ''" p cs] True Cons by auto
      from less [OF len, of q] hd show ?thesis
        unfolding q squeezed_Cons using True Cons by auto
    next
      case False
      then have c: "c \<noteq> CHR 0x20" "c \<noteq> CHR 0x09" by (auto simp: is_blank_def)
      have "squeezed (replace_from (some_of is_blank) '' '' (Some c) cs)"
        using less [of cs] Cons by simp
      with c False Cons show ?thesis by (simp add: replace_text squeezed_Cons)
    qed
  qed simp
qed

text \<open>Replacing by line feeds keeps that.\<close>

lemma squeezed_lines: "list_all ((=) (CHR 0x0A)) ls \<Longrightarrow> squeezed (ls @ s) \<longleftrightarrow> squeezed s"
  by (induction ls) (auto simp: squeezed_Cons)

lemma squeezed_ReplaceAll:
  assumes "squeezed s" "new \<noteq> []" "list_all ((=) (CHR 0x0A)) new"
  shows "squeezed (ReplaceAll s old new) \<and>
    (ReplaceAll s old new \<noteq> [] \<longrightarrow> hd (ReplaceAll s old new) = CHR 0x20 \<longrightarrow> s \<noteq> [] \<and> hd s = CHR 0x20)"
  using assms
proof (induction s old new rule: ReplaceAll.induct)
  case (2 c cs old new)
  show ?case
  proof (cases "old \<noteq> [] \<and> HasPrefix (c # cs) old")
    case True
    have "sublist (drop (length old) (c # cs)) (c # cs)" by (simp add: sublist_drop)
    then have "squeezed (drop (length old) (c # cs))" using 2(3) by (rule squeezed_sublist)
    then have "squeezed (ReplaceAll (drop (length old) (c # cs)) old new)"
      using 2(1) [OF True _ 2(4,5)] by blast
    moreover have "hd new = CHR 0x0A" using 2(4,5) by (cases new) auto
    moreover have r: "ReplaceAll (c # cs) old new = new @ ReplaceAll (drop (length old) (c # cs)) old new"
      using True by (simp add: ReplaceAll.simps(2))
    ultimately show ?thesis
      unfolding r squeezed_lines [OF 2(5)] using 2(4) by simp
  next
    case False
    have "squeezed cs" using 2(3) by (simp add: squeezed_Cons)
    note IH = 2(2) [OF False this 2(4,5)]
    have r: "ReplaceAll (c # cs) old new = c # ReplaceAll cs old new"
      using False by (simp only: ReplaceAll.simps if_False)
    from IH 2(3) show ?thesis unfolding r squeezed_Cons by auto
  qed
qed simp

lemma collapse_lines_spec:
  "squeezed s \<Longrightarrow> squeezed (collapse_lines s) \<and> \<not> Contains (collapse_lines s) (nl @ nl @ nl)"
proof (induction s rule: collapse_lines.induct)
  case (1 s)
  show ?case
  proof (cases "Contains s (nl @ nl @ nl)")
    case True
    have "squeezed (ReplaceAll s (nl @ nl @ nl) (nl @ nl))"
      using squeezed_ReplaceAll [OF 1(2), of "nl @ nl"] by (simp add: nl_def)
    from 1(1) [OF True this] True show ?thesis by (subst (1 2) collapse_lines.simps) simp
  qed (use 1 in \<open>simp add: collapse_lines.simps [of s]\<close>)
qed

lemma TrimSpace_sublist: "sublist (TrimSpace s) s"
proof -
  have "suffix (dropWhile is_space s) s" by (rule suffix_dropWhile)
  moreover have "suffix (dropWhile is_space (rev (dropWhile is_space s))) (rev (dropWhile is_space s))"
    by (rule suffix_dropWhile)
  then have "prefix (TrimSpace s) (dropWhile is_space s)"
    by (simp add: TrimSpace_def suffix_to_prefix)
  ultimately show ?thesis
    by (meson prefix_imp_sublist suffix_imp_sublist sublist_order.order_trans)
qed

text \<open>The shape of a sanitized text.\<close>

definition sanitized :: "string \<Rightarrow> bool" where
  "sanitized s \<longleftrightarrow> squeezed s \<and> \<not> Contains s (nl @ nl @ nl) \<and> TrimSpace s = s"

text \<open>Sanitizing gives a stable prompt prefix without touching anything but contents: every
  content that goes to the model is trimmed and has no tab, no two spaces in a row and no two
  blank lines in a row, whatever was cut out of it, and the messages keep their number, order,
  roles, tool names, tool call ids and tool calls.\<close>

theorem sanitize_normal_form:
  "list_all (\<lambda>m. sanitized (msg_Content m)) (sanitizeMessages msgs) \<and>
   map (\<lambda>m. (msg_Role m, msg_ToolName m, msg_ToolCallID m, msg_ToolCalls m)) (sanitizeMessages msgs) =
   map (\<lambda>m. (msg_Role m, msg_ToolName m, msg_ToolCallID m, msg_ToolCalls m)) msgs"
proof
  have "sanitized (sanitizeContent s)" for s
  proof (cases "s = ''''")
    case True
    then show ?thesis by (simp add: sanitizeContent_def sanitized_def nl_def)
  next
    case False
    let ?s3 = "ReplaceAllString sanitizeWhitespaceRe (ReplaceAllString sanitizeSessionIDRe
        (ReplaceAllString sanitizeTimestampRe s '''') '''') '' ''"
    let ?c = "collapse_lines (ReplaceAll ?s3 [CHR 0x0D, CHR 0x0A] nl)"
    have "squeezed ?s3" using squeeze_blanks by (simp add: ReplaceAllString_def)
    then have "squeezed (ReplaceAll ?s3 [CHR 0x0D, CHR 0x0A] nl)"
      using squeezed_ReplaceAll [of ?s3 nl] by (simp add: nl_def)
    then have c: "squeezed ?c" "\<not> Contains ?c (nl @ nl @ nl)" by (simp_all add: collapse_lines_spec)
    have e: "sanitizeContent s = TrimSpace ?c" using False by (simp add: sanitizeContent_def Let_def)
    show ?thesis
      unfolding e sanitized_def using c squeezed_sublist [OF TrimSpace_sublist c(1)]
      by (auto simp: Contains_sublist intro: sublist_order.order_trans [OF _ TrimSpace_sublist])
  qed
  then show "list_all (\<lambda>m. sanitized (msg_Content m)) (sanitizeMessages msgs)"
    by (simp add: sanitizeMessages_def list_all_iff)
qed (simp add: sanitizeMessages_def)

end
