(* ===== verification/Memory_Config.thy ===== *)
theory Memory_Config
  imports Run_Types
begin

text \<open>
  Long-term memory configuration of \<open>pkg/memory\<close>: scope resolution from the request context, kind
  policy, expiry and the defaults. A context is read by key name; a resolver is a function of the
  context. Scores are the \<open>float32\<close> values as rationals, durations are nanoseconds, and the
  \<open>%v\<close> form of a \<open>float32\<close> is the argument \<open>fmtv\<close>.
\<close>

section \<open>Kinds and modes\<close>

definition StoreModeOnDemand :: string where "StoreModeOnDemand = ''ondemand''"
definition StoreModeAlways :: string where "StoreModeAlways = ''always''"

definition KindPreference :: string where "KindPreference = ''preference''"
definition KindFact :: string where "KindFact = ''fact''"
definition KindDecision :: string where "KindDecision = ''decision''"
definition KindInstruction :: string where "KindInstruction = ''instruction''"
definition KindNote :: string where "KindNote = ''note''"

lemmas memory_kind_defs = KindPreference_def KindFact_def KindDecision_def KindInstruction_def
  KindNote_def
lemmas store_mode_defs = StoreModeOnDemand_def StoreModeAlways_def

definition ScopeKeyTenantID :: string where "ScopeKeyTenantID = ''tenant_id''"
definition ScopeKeyUserID :: string where "ScopeKeyUserID = ''user_id''"
definition ScopeKeyAgentID :: string where "ScopeKeyAgentID = ''agent_id''"

lemmas scope_key_defs = ScopeKeyTenantID_def ScopeKeyUserID_def ScopeKeyAgentID_def

section \<open>The memory interface\<close>

record load_options =
  lo_MemLimit :: int
  lo_MemMinScore :: rat
  lo_MemKinds :: "string list"

definition no_load_options :: load_options where
  "no_load_options = \<lparr>lo_MemLimit = 0, lo_MemMinScore = 0, lo_MemKinds = []\<rparr>"

type_synonym load_option = "load_options \<Rightarrow> load_options"

definition WithLoadLimit :: "int \<Rightarrow> load_option" where
  "WithLoadLimit limit lo = lo\<lparr>lo_MemLimit := limit\<rparr>"

definition WithMinScore :: "rat \<Rightarrow> load_option" where
  "WithMinScore minScore lo = lo\<lparr>lo_MemMinScore := minScore\<rparr>"

definition WithLoadKinds :: "string list \<Rightarrow> load_option" where
  "WithLoadKinds kinds lo = lo\<lparr>lo_MemKinds := kinds\<rparr>"

text \<open>\<open>StoreMemoryOptions\<close> has the single field \<open>ID\<close>; an option is the record's update.\<close>

type_synonym store_option = "string \<Rightarrow> string"

definition WithMemoryID :: "string \<Rightarrow> store_option" where
  "WithMemoryID i old = i"

record 'w memory_store =
  mem_Store :: "memory_scope \<Rightarrow> memory_record \<Rightarrow> store_option list \<Rightarrow> ('w, go_error + string) state"
  mem_Load :: "memory_scope \<Rightarrow> string \<Rightarrow> load_option list \<Rightarrow> ('w, go_error + memory_entry list) state"

section \<open>Scope\<close>

type_synonym context_values = "string \<Rightarrow> go_any option"
type_synonym scope_resolver = "context_values \<Rightarrow> string"

definition WithContextTenantID :: "context_values \<Rightarrow> string \<Rightarrow> context_values" where
  "WithContextTenantID ctx tenantID = ctx(''memory:tenant_id'' \<mapsto> AStr tenantID)"

definition WithContextUserID :: "context_values \<Rightarrow> string \<Rightarrow> context_values" where
  "WithContextUserID ctx userID = ctx(''memory:user_id'' \<mapsto> AStr userID)"

definition WithContextAgentID :: "context_values \<Rightarrow> string \<Rightarrow> context_values" where
  "WithContextAgentID ctx agentID = ctx(''memory:agent_id'' \<mapsto> AStr agentID)"

definition contextStringResolver :: "string \<Rightarrow> scope_resolver" where
  "contextStringResolver key ctx = (case ctx key of Some (AStr v) \<Rightarrow> v | _ \<Rightarrow> '''')"

record scope_config =
  sg_TenantIDResolver :: "scope_resolver option"
  sg_UserIDResolver :: "scope_resolver option"
  sg_AgentIDResolver :: "scope_resolver option"
  sg_ExtraKeys :: "string list"
  sg_TagResolvers :: "string \<rightharpoonup> scope_resolver"

fun missing_resolver :: "(string \<rightharpoonup> scope_resolver) \<Rightarrow> string list \<Rightarrow> string option" where
  "missing_resolver rs [] = None"
| "missing_resolver rs (k # ks) = (if rs k = None then Some k else missing_resolver rs ks)"

definition scope_Validate :: "scope_config \<Rightarrow> go_error option" where
  "scope_Validate c = (case missing_resolver (sg_TagResolvers c) (sg_ExtraKeys c) of
      None \<Rightarrow> None
    | Some key \<Rightarrow> Some (ErrNew (''memory scope: ExtraKeys '' @ Quote key @ '' requires a TagResolver'')))"

fun resolve_tags :: "(string \<rightharpoonup> scope_resolver) \<Rightarrow> context_values \<Rightarrow> string list \<Rightarrow>
    (string \<times> string) list \<Rightarrow> (string \<times> string) list" where
  "resolve_tags rs ctx [] tags = tags"
| "resolve_tags rs ctx (k # ks) tags =
     (let v = (case rs k of None \<Rightarrow> '''' | Some r \<Rightarrow> r ctx)
      in resolve_tags rs ctx ks (if v \<noteq> '''' then pair_put k v tags else tags))"

definition resolve_field :: "scope_resolver option \<Rightarrow> context_values \<Rightarrow> string" where
  "resolve_field r ctx = (case r of None \<Rightarrow> '''' | Some f \<Rightarrow> f ctx)"

definition scope_Resolve :: "scope_config \<Rightarrow> context_values \<Rightarrow> go_error + memory_scope" where
  "scope_Resolve c ctx = (case scope_Validate c of
      Some err \<Rightarrow> Inl err
    | None \<Rightarrow> Inr \<lparr>sc_UserID = resolve_field (sg_UserIDResolver c) ctx,
        sc_TenantID = resolve_field (sg_TenantIDResolver c) ctx,
        sc_AgentID = resolve_field (sg_AgentIDResolver c) ctx,
        sc_Tags = resolve_tags (sg_TagResolvers c) ctx (sg_ExtraKeys c) []\<rparr>)"

definition DefaultScopeConfig :: scope_config where
  "DefaultScopeConfig = \<lparr>sg_TenantIDResolver = Some (contextStringResolver ''memory:tenant_id''),
     sg_UserIDResolver = Some (contextStringResolver ''memory:user_id''),
     sg_AgentIDResolver = Some (contextStringResolver ''memory:agent_id''),
     sg_ExtraKeys = [], sg_TagResolvers = Map.empty\<rparr>"

definition put_nonempty :: "string \<Rightarrow> string \<Rightarrow> (string \<times> string) list \<Rightarrow> (string \<times> string) list" where
  "put_nonempty k v m = (if v \<noteq> '''' then pair_put k v m else m)"

definition ScopeMetadata :: "memory_scope \<Rightarrow> (string \<times> string) list" where
  "ScopeMetadata s =
    (let out = filter (\<lambda>p. \<not> (fst p = ScopeKeyUserID \<or> fst p = ScopeKeyTenantID \<or> fst p = ScopeKeyAgentID))
           (sc_Tags s)
     in put_nonempty ScopeKeyAgentID (sc_AgentID s)
          (put_nonempty ScopeKeyTenantID (sc_TenantID s)
            (put_nonempty ScopeKeyUserID (sc_UserID s) out)))"

section \<open>Store, recall and expiry policy\<close>

type_synonym 'w extract_func = "message list \<Rightarrow> ('w, go_error + memory_record list) state"

record 'w store_config =
  so_Mode :: string
  so_DedupMinScore :: rat
  so_Extract :: "'w extract_func option"
  so_DefaultKind :: string
  so_AllowedKinds :: "string list"

record recall_config =
  re_Enabled :: bool
  re_Limit :: int
  re_MinScore :: rat
  re_Kinds :: "string list"

record 'w memory_config =
  mc_Memory :: "'w memory_store option"
  mc_ScopeConfig :: scope_config
  mc_TTLPolicy :: "(string \<times> int) list"
  mc_Store :: "'w store_config"
  mc_Recall :: recall_config

definition ttl_ExpiresAt :: "(string \<times> int) list \<Rightarrow> string \<Rightarrow> int \<Rightarrow> int option" where
  "ttl_ExpiresAt p kind now =
    (if p = [] then None else case map_of p kind of
       None \<Rightarrow> None
     | Some ttl \<Rightarrow> if ttl \<le> 0 then None else Some (now + ttl))"

definition ResolveKind :: "'w store_config \<Rightarrow> string \<Rightarrow> go_error + string" where
  "ResolveKind s kind =
    (let k1 = (if kind = '''' then so_DefaultKind s else kind);
         k2 = (if k1 = '''' then KindNote else k1)
     in if so_AllowedKinds s = [] then Inr k2
        else if k2 \<in> set (so_AllowedKinds s) then Inr k2
        else Inl (ErrNew (''memory store: kind '' @ Quote k2 @ '' is not allowed'')))"

text \<open>The constants 0.85 and 0.35 as \<open>float32\<close> values.\<close>

definition defaultDedupMinScore :: rat where "defaultDedupMinScore = 7130317 / 8388608"
definition defaultRecallMinScore :: rat where "defaultRecallMinScore = 11744051 / 33554432"
definition defaultRecallLimit :: int where "defaultRecallLimit = 10"

definition store_WithDefaults :: "'w store_config \<Rightarrow> 'w store_config" where
  "store_WithDefaults s =
    (let s1 = (if so_Mode s = '''' then s\<lparr>so_Mode := StoreModeOnDemand\<rparr> else s);
         s2 = (if so_DedupMinScore s1 \<le> 0 then s1\<lparr>so_DedupMinScore := defaultDedupMinScore\<rparr> else s1)
     in if so_DefaultKind s2 = '''' \<and> so_AllowedKinds s2 = [] then s2\<lparr>so_DefaultKind := KindNote\<rparr> else s2)"

definition store_Validate :: "(rat \<Rightarrow> string) \<Rightarrow> 'w store_config \<Rightarrow> go_error option" where
  "store_Validate fmtv s = (case ResolveKind s '''' of
      Inl err \<Rightarrow> Some err
    | Inr _ \<Rightarrow>
        if so_Mode s \<noteq> StoreModeOnDemand \<and> so_Mode s \<noteq> StoreModeAlways then
          Some (ErrNew (''memory config: invalid StoreMode '' @ Quote (so_Mode s)))
        else if so_Mode s = StoreModeOnDemand \<and> so_Extract s \<noteq> None then
          Some (ErrNew ''memory config: Extract is only valid with StoreMode always'')
        else if so_DedupMinScore s < 0 \<or> so_DedupMinScore s > 1 then
          Some (ErrNew (''memory config: DedupMinScore must be between 0 and 1, got ''
            @ fmtv (so_DedupMinScore s)))
        else None)"

definition hour_ns :: int where "hour_ns = 3600 * 1000000000"

definition DefaultTTLPolicy :: "(string \<times> int) list" where
  "DefaultTTLPolicy = [(KindDecision, 7 * 24 * hour_ns), (KindFact, 0), (KindPreference, 0),
     (KindInstruction, 0), (KindNote, 48 * hour_ns)]"

definition DefaultStoreConfig :: "'w store_config" where
  "DefaultStoreConfig = \<lparr>so_Mode = StoreModeOnDemand, so_DedupMinScore = defaultDedupMinScore,
     so_Extract = None, so_DefaultKind = KindNote, so_AllowedKinds = []\<rparr>"

definition DefaultRecallConfig :: recall_config where
  "DefaultRecallConfig = \<lparr>re_Enabled = True, re_Limit = defaultRecallLimit,
     re_MinScore = defaultRecallMinScore, re_Kinds = []\<rparr>"

definition memory_DefaultConfig :: "'w memory_store option \<Rightarrow> 'w memory_config" where
  "memory_DefaultConfig store = \<lparr>mc_Memory = store, mc_ScopeConfig = DefaultScopeConfig,
     mc_TTLPolicy = DefaultTTLPolicy, mc_Store = DefaultStoreConfig, mc_Recall = DefaultRecallConfig\<rparr>"

definition memory_WithDefaults :: "'w memory_config \<Rightarrow> 'w memory_config" where
  "memory_WithDefaults c =
    (let sc = mc_ScopeConfig c;
         c1 = (if sg_TenantIDResolver sc = None \<and> sg_UserIDResolver sc = None \<and>
                  sg_AgentIDResolver sc = None \<and> sg_ExtraKeys sc = []
               then c\<lparr>mc_ScopeConfig := DefaultScopeConfig\<rparr> else c);
         c2 = (if mc_TTLPolicy c1 = [] then c1\<lparr>mc_TTLPolicy := DefaultTTLPolicy\<rparr> else c1);
         c3 = c2\<lparr>mc_Store := store_WithDefaults (mc_Store c2)\<rparr>
     in if re_Limit (mc_Recall c3) \<le> 0
        then c3\<lparr>mc_Recall := (mc_Recall c3)\<lparr>re_Limit := defaultRecallLimit\<rparr>\<rparr> else c3)"

definition memory_Validate :: "(rat \<Rightarrow> string) \<Rightarrow> 'w memory_config \<Rightarrow> go_error option" where
  "memory_Validate fmtv c =
    (if mc_Memory c = None then Some (ErrNew ''memory config: Memory is required'')
     else case scope_Validate (mc_ScopeConfig c) of
       Some err \<Rightarrow> Some err
     | None \<Rightarrow> store_Validate fmtv (mc_Store c))"

definition ExpiresAtForKind :: "'w memory_config \<Rightarrow> string \<Rightarrow> int \<Rightarrow> int option" where
  "ExpiresAtForKind c kind now = (case ResolveKind (mc_Store c) kind of
      Inl _ \<Rightarrow> None | Inr resolved \<Rightarrow> ttl_ExpiresAt (mc_TTLPolicy c) resolved now)"

definition recall_loadOptions :: "recall_config \<Rightarrow> bool \<Rightarrow> load_option list" where
  "recall_loadOptions r withMinScore =
    [WithLoadLimit (re_Limit r)]
    @ (if withMinScore \<and> re_MinScore r > 0 then [WithMinScore (re_MinScore r)] else [])
    @ (if re_Kinds r \<noteq> [] then [WithLoadKinds (re_Kinds r)] else [])"

definition LoadOptions :: "recall_config \<Rightarrow> load_option list" where
  "LoadOptions r = recall_loadOptions r True"

definition RecencyLoadOptions :: "recall_config \<Rightarrow> load_option list" where
  "RecencyLoadOptions r = recall_loadOptions r False"

section \<open>Properties\<close>

lemma ResolveKind_empty: "ResolveKind s '''' = ResolveKind s (so_DefaultKind s)"
  by (simp add: ResolveKind_def)

lemma ResolveKind_allowed:
  "ResolveKind s kind = Inr k \<Longrightarrow> k \<noteq> '''' \<and> (so_AllowedKinds s = [] \<or> k \<in> set (so_AllowedKinds s))
     \<or> k = '''' \<and> '''' \<in> set (so_AllowedKinds s)"
  by (auto simp: ResolveKind_def Let_def KindNote_def split: if_splits)

lemma ResolveKind_idem: "ResolveKind s kind = Inr k \<Longrightarrow> ResolveKind s k = Inr k"
  by (auto simp: ResolveKind_def Let_def KindNote_def split: if_splits)

lemma store_defaults_fields:
  "so_AllowedKinds (store_WithDefaults s) = so_AllowedKinds s"
  "so_Extract (store_WithDefaults s) = so_Extract s"
  "so_Mode (store_WithDefaults s) = (if so_Mode s = '''' then StoreModeOnDemand else so_Mode s)"
  "so_DedupMinScore (store_WithDefaults s) =
     (if so_DedupMinScore s \<le> 0 then defaultDedupMinScore else so_DedupMinScore s)"
  "so_DefaultKind (store_WithDefaults s) =
     (if so_DefaultKind s = '''' \<and> so_AllowedKinds s = [] then KindNote else so_DefaultKind s)"
  by (simp_all add: store_WithDefaults_def Let_def)

lemma store_defaults_idem: "store_WithDefaults (store_WithDefaults s) = store_WithDefaults s"
  by (simp add: store_WithDefaults_def Let_def StoreModeOnDemand_def defaultDedupMinScore_def
      KindNote_def)

lemma store_defaults_kind: "ResolveKind (store_WithDefaults s) k = ResolveKind s k"
  by (auto simp: ResolveKind_def Let_def store_defaults_fields KindNote_def)

lemma memory_defaults_fields:
  "mc_Memory (memory_WithDefaults c) = mc_Memory c"
  "mc_Store (memory_WithDefaults c) = store_WithDefaults (mc_Store c)"
  "mc_ScopeConfig (memory_WithDefaults c) =
     (if sg_TenantIDResolver (mc_ScopeConfig c) = None \<and> sg_UserIDResolver (mc_ScopeConfig c) = None \<and>
         sg_AgentIDResolver (mc_ScopeConfig c) = None \<and> sg_ExtraKeys (mc_ScopeConfig c) = []
      then DefaultScopeConfig else mc_ScopeConfig c)"
  "mc_TTLPolicy (memory_WithDefaults c) =
     (if mc_TTLPolicy c = [] then DefaultTTLPolicy else mc_TTLPolicy c)"
  "mc_Recall (memory_WithDefaults c) = (if re_Limit (mc_Recall c) \<le> 0
      then (mc_Recall c)\<lparr>re_Limit := defaultRecallLimit\<rparr> else mc_Recall c)"
  by (simp_all add: memory_WithDefaults_def Let_def)

lemma scope_Validate_defaults:
  "scope_Validate (mc_ScopeConfig (memory_WithDefaults c)) = scope_Validate (mc_ScopeConfig c)"
  by (simp add: memory_defaults_fields scope_Validate_def DefaultScopeConfig_def)

lemma missing_resolver_None: "missing_resolver rs ks = None \<longleftrightarrow> (\<forall>k \<in> set ks. rs k \<noteq> None)"
  by (induction ks) auto

text \<open>What the defaults leave for the user to get right.\<close>

definition acceptable :: "'w memory_config \<Rightarrow> bool" where
  "acceptable c \<longleftrightarrow> mc_Memory c \<noteq> None \<and>
     (\<forall>k \<in> set (sg_ExtraKeys (mc_ScopeConfig c)). sg_TagResolvers (mc_ScopeConfig c) k \<noteq> None) \<and>
     (so_AllowedKinds (mc_Store c) = [] \<or>
       (if so_DefaultKind (mc_Store c) = '''' then KindNote else so_DefaultKind (mc_Store c))
         \<in> set (so_AllowedKinds (mc_Store c))) \<and>
     so_Mode (mc_Store c) \<in> {'''', StoreModeOnDemand, StoreModeAlways} \<and>
     (so_Extract (mc_Store c) \<noteq> None \<longrightarrow> so_Mode (mc_Store c) = StoreModeAlways) \<and>
     so_DedupMinScore (mc_Store c) \<le> 1"

text \<open>After \<open>WithDefaults\<close> a configuration is valid exactly when it has a backend, a resolver for
  every extra scope key, a default kind that its own allow list admits, a known or empty store
  mode, an extractor only with mode always, and a similarity floor of at most one; defaulting a
  second time changes nothing.\<close>

theorem defaults_validate:
  "(memory_Validate fmtv (memory_WithDefaults c) = None \<longleftrightarrow> acceptable c) \<and>
   memory_WithDefaults (memory_WithDefaults c) = memory_WithDefaults c"
proof
  have d: "0 < defaultDedupMinScore" "defaultDedupMinScore \<le> 1"
    by (simp_all add: defaultDedupMinScore_def)
    have k: "(\<exists>x. ResolveKind (mc_Store c) '''' = Inr x) \<longleftrightarrow> so_AllowedKinds (mc_Store c) = [] \<or>
      (if so_DefaultKind (mc_Store c) = '''' then KindNote else so_DefaultKind (mc_Store c))
         \<in> set (so_AllowedKinds (mc_Store c))"
    by (auto simp: ResolveKind_def Let_def)
have v: "store_Validate fmtv (store_WithDefaults (mc_Store c)) = None \<longleftrightarrow>
      (\<exists>x. ResolveKind (mc_Store c) '''' = Inr x) \<and>
      so_Mode (mc_Store c) \<in> {'''', StoreModeOnDemand, StoreModeAlways} \<and>
      (so_Extract (mc_Store c) \<noteq> None \<longrightarrow> so_Mode (mc_Store c) = StoreModeAlways) \<and>
      so_DedupMinScore (mc_Store c) \<le> 1"
    using d by (auto simp: store_Validate_def store_defaults_kind store_defaults_fields store_mode_defs
        split: sum.splits)
  show "memory_Validate fmtv (memory_WithDefaults c) = None \<longleftrightarrow> acceptable c"
  proof -
    have "memory_Validate fmtv (memory_WithDefaults c) = None \<longleftrightarrow> mc_Memory c \<noteq> None \<and>
        scope_Validate (mc_ScopeConfig c) = None \<and>
        store_Validate fmtv (store_WithDefaults (mc_Store c)) = None"
      unfolding memory_Validate_def scope_Validate_defaults
      by (simp add: memory_defaults_fields split: option.split)
    also have "scope_Validate (mc_ScopeConfig c) = None \<longleftrightarrow>
        (\<forall>k \<in> set (sg_ExtraKeys (mc_ScopeConfig c)). sg_TagResolvers (mc_ScopeConfig c) k \<noteq> None)"
      unfolding missing_resolver_None [symmetric]
      by (simp add: scope_Validate_def split: option.split)
    finally show ?thesis unfolding v k acceptable_def by blast
  qed
  show "memory_WithDefaults (memory_WithDefaults c) = memory_WithDefaults c"
    by (rule memory_config.equality)
      (simp_all add: memory_defaults_fields store_defaults_idem DefaultScopeConfig_def
        DefaultTTLPolicy_def defaultRecallLimit_def)
qed

lemma resolve_tags_spec:
  "map_of (resolve_tags rs ctx ks tags) k =
     (if k \<in> set ks \<and> (case rs k of None \<Rightarrow> '''' | Some r \<Rightarrow> r ctx) \<noteq> ''''
      then Some (case rs k of None \<Rightarrow> '''' | Some r \<Rightarrow> r ctx) else map_of tags k)"
  by (induction ks arbitrary: tags) (auto simp: Let_def)

lemma map_of_put_nonempty:
  "map_of (put_nonempty k v m) j = (if j = k \<and> v \<noteq> '''' then Some v else map_of m j)"
  by (simp add: put_nonempty_def)

lemma ScopeMetadata_spec:
  "map_of (ScopeMetadata s) k =
    (if k = ScopeKeyAgentID then (if sc_AgentID s = '''' then None else Some (sc_AgentID s))
     else if k = ScopeKeyTenantID then (if sc_TenantID s = '''' then None else Some (sc_TenantID s))
     else if k = ScopeKeyUserID then (if sc_UserID s = '''' then None else Some (sc_UserID s))
     else map_of (sc_Tags s) k)"
proof -
  let ?P = "\<lambda>x. \<not> (x = ScopeKeyUserID \<or> x = ScopeKeyTenantID \<or> x = ScopeKeyAgentID)"
  have f: "map_of (filter (\<lambda>p. ?P (fst p)) (sc_Tags s)) k = (if ?P k then map_of (sc_Tags s) k else None)"
    using map_of_filter_key [of ?P k "sc_Tags s"] map_of_filter_key_None [of ?P k "sc_Tags s"] by simp
  have n: "ScopeKeyAgentID \<noteq> ScopeKeyTenantID" "ScopeKeyAgentID \<noteq> ScopeKeyUserID"
    "ScopeKeyTenantID \<noteq> ScopeKeyUserID" by (simp_all add: scope_key_defs)
  show ?thesis
    unfolding ScopeMetadata_def Let_def map_of_put_nonempty f using n by auto
qed

text \<open>The filter that isolates memories in a backend says who is asking and cannot be forged by
  tags: with the default scope configuration, the metadata of the scope resolved from a request
  with tenant, user and agent set holds exactly these three values under the reserved keys, and
  for any scope whatever its tags say, so scopes of different tenants, users or agents have
  different metadata.\<close>

theorem scope_isolation:
  "(\<exists>s. scope_Resolve DefaultScopeConfig
        (WithContextAgentID (WithContextUserID (WithContextTenantID ctx tenant) user) agent) = Inr s \<and>
      sc_TenantID s = tenant \<and> sc_UserID s = user \<and> sc_AgentID s = agent \<and> sc_Tags s = []) \<and>
   (map_of (ScopeMetadata s1) = map_of (ScopeMetadata s2) \<longrightarrow>
      sc_TenantID s1 = sc_TenantID s2 \<and> sc_UserID s1 = sc_UserID s2 \<and> sc_AgentID s1 = sc_AgentID s2)"
proof (intro conjI impI)
  show "\<exists>s. scope_Resolve DefaultScopeConfig
        (WithContextAgentID (WithContextUserID (WithContextTenantID ctx tenant) user) agent) = Inr s \<and>
      sc_TenantID s = tenant \<and> sc_UserID s = user \<and> sc_AgentID s = agent \<and> sc_Tags s = []"
    by (simp add: scope_Resolve_def scope_Validate_def DefaultScopeConfig_def resolve_field_def
        contextStringResolver_def WithContextAgentID_def WithContextUserID_def WithContextTenantID_def)
  assume eq: "map_of (ScopeMetadata s1) = map_of (ScopeMetadata s2)"
  have n: "ScopeKeyAgentID \<noteq> ScopeKeyTenantID" "ScopeKeyAgentID \<noteq> ScopeKeyUserID"
    "ScopeKeyTenantID \<noteq> ScopeKeyUserID" by (simp_all add: scope_key_defs)
  show "sc_TenantID s1 = sc_TenantID s2"
    using fun_cong [OF eq, of ScopeKeyTenantID] n by (auto simp: ScopeMetadata_spec split: if_splits)
  show "sc_UserID s1 = sc_UserID s2"
    using fun_cong [OF eq, of ScopeKeyUserID] n by (auto simp: ScopeMetadata_spec split: if_splits)
  show "sc_AgentID s1 = sc_AgentID s2"
    using fun_cong [OF eq, of ScopeKeyAgentID] n by (auto simp: ScopeMetadata_spec split: if_splits)
qed

theorem scope_isolation_witness:
  "map_of (ScopeMetadata \<lparr>sc_UserID = ''u'', sc_TenantID = ''acme'', sc_AgentID = '''',
      sc_Tags = [(''tenant_id'', ''evil''), (''env'', ''prod'')]\<rparr>) \<noteq>
   map_of (ScopeMetadata \<lparr>sc_UserID = ''u'', sc_TenantID = ''evil'', sc_AgentID = '''',
      sc_Tags = [(''env'', ''prod'')]\<rparr>)"
  using scope_isolation [of Map.empty "''''" "''''" "''''" "\<lparr>sc_UserID = ''u'', sc_TenantID = ''acme'',
      sc_AgentID = '''', sc_Tags = [(''tenant_id'', ''evil''), (''env'', ''prod'')]\<rparr>"
    "\<lparr>sc_UserID = ''u'', sc_TenantID = ''evil'', sc_AgentID = '''', sc_Tags = [(''env'', ''prod'')]\<rparr>"]
  by auto

end
