(* ===== verification/Base_Runtime.thy ===== *)
theory Base_Runtime
  imports Run_Types Sanitize Memory_Config Conversation Exec_Policy Error_Control Hooks
begin

text \<open>
  The runtime core that the local and the Temporal backend share, \<open>internal/runtime/base/runtime.go\<close>
  and \<open>hooks.go\<close>: LLM calls (plain and streaming), tool execution and authorization, retriever
  prefetch, each with its middleware hooks, metric counters and events. Memory is in
  \<open>Memory_Runtime\<close>.

  An agent is the record \<open>runtime\<close> of its static configuration; what the process provides (clock,
  UUIDs, contexts, JSON, SHA-256, the order in which the Go scheduler runs a batch of goroutines)
  is the record \<open>env\<close>. A stream is what the provider delivers: its chunks (\<open>None\<close> is a nil chunk),
  its error and its result. The goroutines of a batch run one after another in a scheduled order.
\<close>

section \<open>What the runtime is given\<close>

record stream_chunk =
  ck_ContentDelta :: string
  ck_ThinkingDelta :: string

record llm_stream =
  ls_Chunks :: "stream_chunk option list"
  ls_Err :: "go_error option"
  ls_Result :: "llm_response option"

record 'w llm_client =
  lc_Model :: string
  lc_Provider :: string
  lc_IsStreamSupported :: bool
  lc_Generate :: "llm_request \<Rightarrow> ('w, go_error + llm_response) state"
  lc_GenerateStream :: "llm_request \<Rightarrow> ('w, go_error + llm_stream) state"

record 'w retriever =
  rv_Name :: string
  rv_Search :: "string \<Rightarrow> ('w, go_error + document list) state"

record 'w conversation =
  cv_AddMessage :: "string \<Rightarrow> message \<Rightarrow> ('w, go_error option) state"
  cv_ListMessages :: "string \<Rightarrow> list_messages_option list \<Rightarrow> ('w, go_error + message list) state"

record 'w runtime =
  rt_Name :: string
  rt_SystemPrompt :: string
  rt_ResponseFormat :: "response_format option"
  rt_Client :: "'w llm_client"
  rt_Sampling :: "llm_sampling option"
  rt_ToolApprovalPolicy :: "('w tool \<Rightarrow> bool) option"
  rt_Retrievers :: "'w retriever list"
  rt_RetrieverMode :: string
  rt_Conversation :: "'w conversation option"
  rt_ConversationSize :: int
  rt_SaveOnIteration :: bool
  rt_Memory :: "'w memory_config option"
  rt_MaxIterations :: int
  rt_Timeout :: int
  rt_ApprovalTimeout :: int
  rt_Budget :: "budget_config option"
  rt_ExecutionConfigs :: execution_configs
  rt_Hooks :: "'w hook_group list"
  rt_NamedLLMClients :: "string \<rightharpoonup> 'w llm_client option"
  rt_ErrorControl :: "'w error_control_config option"
  rt_ToolExecutionMode :: string
  rt_hasBus :: bool

text \<open>How the wait for an approval ends: an answer, the context's error, or the timer.\<close>

datatype wait_outcome = Responded string | WaitCtxDone go_error | WaitTimedOut

record 'w env =
  en_now :: "('w, int) state"
  en_uuid :: "('w, string) state"
  en_ctx :: "'w ctx_ops"
  en_marshal :: "go_any \<Rightarrow> string option"
  en_sha256hex :: "string \<Rightarrow> string"
  en_sprint_docs :: "document list \<Rightarrow> string"
  en_memories :: "string \<Rightarrow> go_error + (string \<times> string) list"
  en_order :: "nat \<Rightarrow> ('w, nat list) state"
  en_await :: "string \<Rightarrow> ('w, wait_outcome) state"
  en_awaitBudget :: "string \<Rightarrow> ('w, string option) state"

section \<open>Metric names\<close>

definition MetricLLMCallStarted :: string where "MetricLLMCallStarted = ''agent.llm.call.started''"
definition MetricLLMCallCompleted :: string where "MetricLLMCallCompleted = ''agent.llm.call.completed''"
definition MetricLLMCallFailed :: string where "MetricLLMCallFailed = ''agent.llm.call.failed''"
definition MetricToolCallStarted :: string where "MetricToolCallStarted = ''agent.tool.call.started''"
definition MetricToolCallCompleted :: string where "MetricToolCallCompleted = ''agent.tool.call.completed''"
definition MetricToolCallFailed :: string where "MetricToolCallFailed = ''agent.tool.call.failed''"
definition MetricToolCallUnknown :: string where "MetricToolCallUnknown = ''agent.tool.call.unknown''"
definition MetricToolCallCircuitOpen :: string where
  "MetricToolCallCircuitOpen = ''agent.tool.call.circuit_open''"
definition MetricRetrieverCallStarted :: string where
  "MetricRetrieverCallStarted = ''agent.retriever.call.started''"
definition MetricRetrieverCallCompleted :: string where
  "MetricRetrieverCallCompleted = ''agent.retriever.call.completed''"
definition MetricRetrieverCallFailed :: string where
  "MetricRetrieverCallFailed = ''agent.retriever.call.failed''"

lemmas llm_metric_defs = MetricLLMCallStarted_def MetricLLMCallCompleted_def MetricLLMCallFailed_def
lemmas tool_metric_defs = MetricToolCallStarted_def MetricToolCallCompleted_def
  MetricToolCallFailed_def MetricToolCallUnknown_def MetricToolCallCircuitOpen_def
lemmas retriever_metric_defs = MetricRetrieverCallStarted_def MetricRetrieverCallCompleted_def
  MetricRetrieverCallFailed_def

section \<open>Building the request\<close>

definition SaveMemoryToolName :: string where "SaveMemoryToolName = ''save_memory''"

definition BuildLLMRequest :: "'w runtime \<Rightarrow> message list \<Rightarrow> bool \<Rightarrow> string \<Rightarrow> string \<Rightarrow>
    'w tool list \<Rightarrow> llm_request" where
  "BuildLLMRequest rt messages skipTools memoryContext retrieverContext tools =
    (let outMsgs =
           (if memoryContext \<noteq> ''''
            then [mk_message RoleUser (''Relevant Memories:'' @ nl @ memoryContext)] else [])
           @ (if retrieverContext \<noteq> ''''
              then [mk_message RoleUser (''Relevant Context:'' @ nl @ retrieverContext)] else [])
           @ sanitizeMessages messages;
         req = \<lparr>rq_SystemMessage = rt_SystemPrompt rt, rq_ResponseFormat = rt_ResponseFormat rt,
                rq_Tools = [], rq_Messages = outMsgs, rq_Temperature = None, rq_MaxTokens = 0,
                rq_TopP = None, rq_TopK = None, rq_Reasoning = None\<rparr>;
         req1 = ApplyLLMSampling (rt_Sampling rt) req
     in req1\<lparr>rq_Tools := (if skipTools then [] else ToolsToSpecs tools)\<rparr>)"

definition RequiresApproval :: "'w runtime \<Rightarrow> 'w tool \<Rightarrow> bool" where
  "RequiresApproval rt t = (case rt_ToolApprovalPolicy rt of
      None \<Rightarrow> tl_ApprovalRequired t = Some True
    | Some policy \<Rightarrow> policy t)"

definition FetchConversationMessages :: "'w runtime \<Rightarrow> string \<Rightarrow> ('w, go_error + message list) io" where
  "FetchConversationMessages rt conversationID = (case rt_Conversation rt of
      None \<Rightarrow> State_Monad.return (Inl (ErrNew ''conversation is not configured''))
    | Some conv \<Rightarrow>
        (let limit = (if rt_ConversationSize rt \<le> 0 then 20 else rt_ConversationSize rt) in do {
          r \<leftarrow> ext (cv_ListMessages conv conversationID [WithLimit limit]);
          State_Monad.return (case r of
              Inl err \<Rightarrow> Inl (ErrWrap ''failed to list conversation messages: '' err '''')
            | Inr messages \<Rightarrow> Inr messages) }))"

section \<open>Hooks\<close>

definition hookRunMeta :: "string \<Rightarrow> int \<Rightarrow> run_meta" where
  "hookRunMeta runID iteration =
    \<lparr>rm_RunID = runID, rm_Iteration = iteration, rm_HooksGroup = ''''\<rparr>"

definition runBeforeLLMRequest :: "'w runtime \<Rightarrow> string \<Rightarrow> int \<Rightarrow> llm_request \<Rightarrow>
    ('w, go_error + llm_request) io" where
  "runBeforeLLMRequest rt runID iteration req =
    (if rt_Hooks rt = [] then State_Monad.return (Inr req)
     else RunBeforeLLM (rt_Hooks rt) (hookRunMeta runID iteration) req)"

definition runAfterLLMResponse :: "'w runtime \<Rightarrow> string \<Rightarrow> int \<Rightarrow> llm_response \<Rightarrow>
    ('w, go_error + llm_response) io" where
  "runAfterLLMResponse rt runID iteration resp =
    (if rt_Hooks rt = [] then State_Monad.return (Inr resp)
     else RunAfterLLM (rt_Hooks rt) (hookRunMeta runID iteration) resp)"

definition toolCallForHooks :: "'w execute_tool_input \<Rightarrow> 'w tool \<Rightarrow> hook_tool_call" where
  "toolCallForHooks input tool =
    \<lparr>ht_ID = xt_ToolCallID input, ht_Name = xt_ToolName input,
     ht_DisplayName = (if tl_DisplayName tool = '''' then xt_ToolName input else tl_DisplayName tool),
     ht_Kind = tool_kind tool, ht_Args = xt_Args input\<rparr>"

definition runBeforeToolHooks :: "'w runtime \<Rightarrow> 'w execute_tool_input \<Rightarrow> 'w tool \<Rightarrow>
    ('w, go_error + hook_tool_call) io" where
  "runBeforeToolHooks rt input tool =
    (let call = toolCallForHooks input tool in
     if rt_Hooks rt = [] then State_Monad.return (Inr call)
     else RunBeforeTool (rt_Hooks rt) (hookRunMeta (xt_RunID input) (xt_Iteration input)) call)"

definition runAfterToolHooks :: "'w runtime \<Rightarrow> 'w execute_tool_input \<Rightarrow> hook_tool_call \<Rightarrow> string \<Rightarrow>
    go_error option \<Rightarrow> ('w, (string \<times> go_error option) \<times> go_error option) io" where
  "runAfterToolHooks rt input call content execErr =
    (if rt_Hooks rt = [] then State_Monad.return ((content, execErr), None)
     else RunAfterTool (rt_Hooks rt) (hookRunMeta (xt_RunID input) (xt_Iteration input)) call
            content execErr)"

definition runBeforeRetrieveHooks :: "'w runtime \<Rightarrow> string \<Rightarrow> int \<Rightarrow> string \<Rightarrow> string \<Rightarrow> string \<Rightarrow>
    ('w, go_error + retrieve_call) io" where
  "runBeforeRetrieveHooks rt runID iteration query mode retrieverName =
    (let call = \<lparr>rc_Query = query, rc_Mode = mode, rc_RetrieverName = retrieverName\<rparr> in
     if rt_Hooks rt = [] then State_Monad.return (Inr call)
     else RunBeforeRetrieve (rt_Hooks rt) (hookRunMeta runID iteration) call)"

definition runAfterRetrieveHooks :: "'w runtime \<Rightarrow> string \<Rightarrow> int \<Rightarrow> retrieve_call \<Rightarrow> document list \<Rightarrow>
    ('w, go_error + document list) io" where
  "runAfterRetrieveHooks rt runID iteration call docs =
    (if rt_Hooks rt = [] then State_Monad.return (Inr docs)
     else RunAfterRetrieve (rt_Hooks rt) (hookRunMeta runID iteration) call docs)"

section \<open>LLM calls\<close>

definition NoteUnknownTool :: "string \<Rightarrow> ('w, unit) io" where
  "NoteUnknownTool toolName = IncrementCounter MetricToolCallUnknown [toolName]"

text \<open>One call of the response, resolved against the registered tools.\<close>

definition resolve_call :: "'w runtime \<Rightarrow> 'w tool list \<Rightarrow> tool_call \<Rightarrow> ('w, tool_call_request) io" where
  "resolve_call rt tools tc = (case FindToolByName tools (tc_ToolName tc) of
      None \<Rightarrow> do {
        NoteUnknownTool (tc_ToolName tc);
        State_Monad.return \<lparr>tr_ToolCallID = tc_ToolCallID tc, tr_ToolName = tc_ToolName tc,
          tr_ToolDisplayName = tc_ToolName tc, tr_ToolKind = '''', tr_Args = tc_Args tc,
          tr_NeedsApproval = False, tr_Unknown = True\<rparr> }
    | Some tool \<Rightarrow> State_Monad.return
        \<lparr>tr_ToolCallID = tc_ToolCallID tc, tr_ToolName = tc_ToolName tc,
         tr_ToolDisplayName = (if tl_DisplayName tool = '''' then tc_ToolName tc else tl_DisplayName tool),
         tr_ToolKind = tool_kind tool, tr_Args = tc_Args tc,
         tr_NeedsApproval = RequiresApproval rt tool, tr_Unknown = False\<rparr>)"

definition llmResponseToResult :: "'w runtime \<Rightarrow> llm_response \<Rightarrow> 'w tool list \<Rightarrow>
    ('w, llm_result) io" where
  "llmResponseToResult rt resp tools = do {
     calls \<leftarrow> mapM (resolve_call rt tools) (present (rp_ToolCalls resp));
     State_Monad.return \<lparr>lr_Content = rp_Content resp, lr_ToolCalls = calls,
       lr_Usage = CloneLLMUsage (rp_Usage resp)\<rparr> }"

record 'w execute_llm_input =
  xl_MessageID :: string
  xl_RunID :: string
  xl_Iteration :: int
  xl_Messages :: "message list"
  xl_SkipTools :: bool
  xl_MemoryContext :: string
  xl_RetrieverContext :: string
  xl_Tools :: "'w tool list"
  xl_Emit :: "(agent_event \<Rightarrow> ('w, unit) io) option"
  xl_Client :: "'w llm_client option"

definition emitEvent :: "(agent_event \<Rightarrow> ('w, unit) io) option \<Rightarrow> agent_event \<Rightarrow> ('w, unit) io" where
  "emitEvent fn ev = (case fn of None \<Rightarrow> State_Monad.return () | Some f \<Rightarrow> f ev)"

definition input_request :: "'w runtime \<Rightarrow> 'w execute_llm_input \<Rightarrow> llm_request" where
  "input_request rt input = BuildLLMRequest rt (xl_Messages input) (xl_SkipTools input)
     (xl_MemoryContext input) (xl_RetrieverContext input) (xl_Tools input)"

definition input_client :: "'w runtime \<Rightarrow> 'w execute_llm_input \<Rightarrow> 'w llm_client" where
  "input_client rt input = (case xl_Client input of None \<Rightarrow> rt_Client rt | Some c \<Rightarrow> c)"

definition client_attrs :: "'w llm_client \<Rightarrow> string list" where
  "client_attrs c = [lc_Model c, lc_Provider c]"

text \<open>The three events of a complete assistant message.\<close>

definition emit_message :: "(agent_event \<Rightarrow> ('w, unit) io) option \<Rightarrow> string \<Rightarrow> string \<Rightarrow> ('w, unit) io" where
  "emit_message emit messageID content = do {
     emitEvent emit (TextMessageStart messageID RoleAssistant);
     emitEvent emit (TextMessageContent messageID content);
     emitEvent emit (TextMessageEnd messageID) }"

definition ExecuteLLM :: "'w runtime \<Rightarrow> 'w execute_llm_input \<Rightarrow> ('w, go_error + llm_result) io" where
  "ExecuteLLM rt input = do {
     hooked \<leftarrow> runBeforeLLMRequest rt (xl_RunID input) (xl_Iteration input) (input_request rt input);
     (case hooked of
        Inl err \<Rightarrow> State_Monad.return (Inl err)
      | Inr req \<Rightarrow> (let client = input_client rt input in do {
          IncrementCounter MetricLLMCallStarted (client_attrs client);
          r \<leftarrow> ext (lc_Generate client req);
          (case r of
             Inl err \<Rightarrow> do {
               IncrementCounter MetricLLMCallFailed (client_attrs client);
               State_Monad.return (Inl err) }
           | Inr resp \<Rightarrow> do {
               after \<leftarrow> runAfterLLMResponse rt (xl_RunID input) (xl_Iteration input) resp;
               (case after of
                  Inl err \<Rightarrow> State_Monad.return (Inl err)
                | Inr resp' \<Rightarrow> do {
                    IncrementCounter MetricLLMCallCompleted (client_attrs client);
                    result \<leftarrow> llmResponseToResult rt resp' (xl_Tools input);
                    emit_message (xl_Emit input) (xl_MessageID input) (lr_Content result);
                    State_Monad.return (Inr result) }) }) })) }"

section \<open>Streaming\<close>

text \<open>The open or closed state of the assistant message and of the reasoning block.\<close>

record stream_state =
  ss_textMsgOpen :: bool
  ss_reasoningMID :: string
  ss_reasoningPhaseOpen :: bool
  ss_reasoningMsgOpen :: bool

definition stream_start :: stream_state where
  "stream_start = \<lparr>ss_textMsgOpen = False, ss_reasoningMID = '''', ss_reasoningPhaseOpen = False,
     ss_reasoningMsgOpen = False\<rparr>"

definition openTextMsg :: "(agent_event \<Rightarrow> ('w, unit) io) option \<Rightarrow> string \<Rightarrow> stream_state \<Rightarrow>
    ('w, stream_state) io" where
  "openTextMsg emit messageID st =
    (if ss_textMsgOpen st then State_Monad.return st
     else do {
       emitEvent emit (TextMessageStart messageID RoleAssistant);
       State_Monad.return (st\<lparr>ss_textMsgOpen := True\<rparr>) })"

definition closeTextMsg :: "(agent_event \<Rightarrow> ('w, unit) io) option \<Rightarrow> string \<Rightarrow> stream_state \<Rightarrow>
    ('w, stream_state) io" where
  "closeTextMsg emit messageID st =
    (if \<not> ss_textMsgOpen st then State_Monad.return st
     else do {
       emitEvent emit (TextMessageEnd messageID);
       State_Monad.return (st\<lparr>ss_textMsgOpen := False\<rparr>) })"

definition finalizeAssistantText :: "(agent_event \<Rightarrow> ('w, unit) io) option \<Rightarrow> string \<Rightarrow> llm_result \<Rightarrow>
    stream_state \<Rightarrow> ('w, stream_state) io" where
  "finalizeAssistantText emit messageID result st =
    (if ss_textMsgOpen st then closeTextMsg emit messageID st
     else do {
       st1 \<leftarrow> openTextMsg emit messageID st;
       emitEvent emit (TextMessageContent messageID (lr_Content result));
       closeTextMsg emit messageID st1 })"

definition flushReasoning :: "(agent_event \<Rightarrow> ('w, unit) io) option \<Rightarrow> stream_state \<Rightarrow>
    ('w, stream_state) io" where
  "flushReasoning emit st = do {
     st1 \<leftarrow> (if ss_reasoningMsgOpen st then do {
              emitEvent emit (ReasoningMessageEnd (ss_reasoningMID st));
              State_Monad.return (st\<lparr>ss_reasoningMsgOpen := False\<rparr>) }
            else State_Monad.return st);
     (if ss_reasoningPhaseOpen st1 then do {
        emitEvent emit (ReasoningEnd (ss_reasoningMID st1));
        State_Monad.return (st1\<lparr>ss_reasoningPhaseOpen := False\<rparr>) }
      else State_Monad.return st1) }"

definition openReasoning :: "'w env \<Rightarrow> (agent_event \<Rightarrow> ('w, unit) io) option \<Rightarrow> stream_state \<Rightarrow>
    ('w, stream_state) io" where
  "openReasoning env emit st =
    (if ss_reasoningPhaseOpen st then State_Monad.return st
     else do {
       mid \<leftarrow> ext (en_uuid env);
       emitEvent emit (ReasoningStart mid);
       emitEvent emit (ReasoningMessageStart mid RoleReasoning);
       State_Monad.return (st\<lparr>ss_reasoningMID := mid, ss_reasoningPhaseOpen := True,
         ss_reasoningMsgOpen := True\<rparr>) })"

definition stream_text :: "(agent_event \<Rightarrow> ('w, unit) io) option \<Rightarrow> string \<Rightarrow> stream_chunk \<Rightarrow>
    stream_state \<Rightarrow> ('w, stream_state) io" where
  "stream_text emit messageID chunk st =
    (if ck_ContentDelta chunk = '''' then State_Monad.return st
     else do {
       st1 \<leftarrow> flushReasoning emit st;
       st2 \<leftarrow> openTextMsg emit messageID st1;
       emitEvent emit (TextMessageContent messageID (ck_ContentDelta chunk));
       State_Monad.return st2 })"

definition stream_thinking :: "'w env \<Rightarrow> (agent_event \<Rightarrow> ('w, unit) io) option \<Rightarrow> stream_chunk \<Rightarrow>
    stream_state \<Rightarrow> ('w, stream_state) io" where
  "stream_thinking env emit chunk st =
    (if ck_ThinkingDelta chunk = '''' then State_Monad.return st
     else do {
       st1 \<leftarrow> openReasoning env emit st;
       emitEvent emit (ReasoningMessageContent (ss_reasoningMID st1) (ck_ThinkingDelta chunk));
       State_Monad.return st1 })"

text \<open>One turn of the \<open>stream.Next()\<close> loop.\<close>

definition stream_turn :: "'w env \<Rightarrow> (agent_event \<Rightarrow> ('w, unit) io) option \<Rightarrow> string \<Rightarrow> stream_state \<Rightarrow>
    stream_chunk option \<Rightarrow> ('w, stream_state) io" where
  "stream_turn env emit messageID st chunk = (case chunk of
      None \<Rightarrow> State_Monad.return st
    | Some c \<Rightarrow> do {
        st1 \<leftarrow> stream_text emit messageID c st;
        stream_thinking env emit c st1 })"

definition stream_failed :: "'w llm_client \<Rightarrow> go_error \<Rightarrow> ('w, go_error + llm_result) io" where
  "stream_failed client err = do {
     IncrementCounter MetricLLMCallFailed (client_attrs client);
     State_Monad.return (Inl err) }"

text \<open>From a complete response on: hooks, metrics, and the end of the assistant message.\<close>

definition stream_complete :: "'w runtime \<Rightarrow> 'w execute_llm_input \<Rightarrow> 'w llm_client \<Rightarrow> stream_state \<Rightarrow>
    llm_response \<Rightarrow> ('w, go_error + llm_result) io" where
  "stream_complete rt input client st resp = do {
     after \<leftarrow> runAfterLLMResponse rt (xl_RunID input) (xl_Iteration input) resp;
     (case after of
        Inl err \<Rightarrow> stream_failed client err
      | Inr resp' \<Rightarrow> do {
          result \<leftarrow> llmResponseToResult rt resp' (xl_Tools input);
          IncrementCounter MetricLLMCallCompleted (client_attrs client);
          finalizeAssistantText (xl_Emit input) (xl_MessageID input) result st;
          State_Monad.return (Inr result) }) }"

definition stream_consume :: "'w env \<Rightarrow> 'w runtime \<Rightarrow> 'w execute_llm_input \<Rightarrow> 'w llm_client \<Rightarrow>
    llm_stream \<Rightarrow> ('w, go_error + llm_result) io" where
  "stream_consume env rt input client stream = do {
     st \<leftarrow> foldM (stream_turn env (xl_Emit input) (xl_MessageID input)) stream_start (ls_Chunks stream);
     st1 \<leftarrow> flushReasoning (xl_Emit input) st;
     (case ls_Err stream of
        Some err \<Rightarrow> stream_failed client err
      | None \<Rightarrow> (case ls_Result stream of
          None \<Rightarrow> stream_failed client (ErrNew ''stream completed without result'')
        | Some resp \<Rightarrow> stream_complete rt input client st1 resp)) }"

definition ExecuteLLMStream :: "'w env \<Rightarrow> 'w runtime \<Rightarrow> 'w execute_llm_input \<Rightarrow>
    ('w, go_error + llm_result) io" where
  "ExecuteLLMStream env rt input = do {
     hooked \<leftarrow> runBeforeLLMRequest rt (xl_RunID input) (xl_Iteration input) (input_request rt input);
     (case hooked of
        Inl err \<Rightarrow> State_Monad.return (Inl err)
      | Inr req \<Rightarrow> (let client = input_client rt input in do {
          IncrementCounter MetricLLMCallStarted (client_attrs client);
          (if \<not> lc_IsStreamSupported client then do {
             r \<leftarrow> ext (lc_Generate client req);
             (case r of
                Inl err \<Rightarrow> stream_failed client err
              | Inr resp \<Rightarrow> stream_complete rt input client stream_start resp) }
           else do {
             r \<leftarrow> ext (lc_GenerateStream client req);
             (case r of
                Inl err \<Rightarrow> stream_failed client err
              | Inr stream \<Rightarrow> stream_consume env rt input client stream) }) })) }"

section \<open>Tools\<close>

text \<open>\<open>executeRetrieverTool\<close>; the search it runs gets no execution metadata.\<close>

definition executeRetrieverTool :: "'w runtime \<Rightarrow> 'w execute_tool_input \<Rightarrow> 'w tool \<Rightarrow> go_args \<Rightarrow>
    ('w, go_error + string) io" where
  "executeRetrieverTool rt input tool args = (case RetrieverNameFromToolName (tl_Name tool) of
      None \<Rightarrow> State_Monad.return (Inl (ErrNew (''retriever tool: invalid tool name '' @ Quote (tl_Name tool))))
    | Some retrieverName \<Rightarrow> (case RetrieverToolParamQueryValue args of
        Inl err \<Rightarrow> State_Monad.return (Inl err)
      | Inr query \<Rightarrow> do {
          hooked \<leftarrow> runBeforeRetrieveHooks rt (xt_RunID input) (xt_Iteration input) query
                    RetrieverModeAgentic retrieverName;
          (case hooked of
             Inl err \<Rightarrow> State_Monad.return (Inl err)
           | Inr call \<Rightarrow> do {
               r \<leftarrow> ext (tl_Execute tool None (Some [(RetrieverToolParamQuery, AStr (rc_Query call))]));
               (case r of
                  Inl err \<Rightarrow> State_Monad.return (Inl err)
                | Inr (OtherValue ty txt) \<Rightarrow>
                    State_Monad.return (Inl (ErrNew (''retriever tool: unexpected result type '' @ ty)))
                | Inr (DocsValue docs) \<Rightarrow> do {
                    after \<leftarrow> runAfterRetrieveHooks rt (xt_RunID input) (xt_Iteration input) call docs;
                    State_Monad.return (case after of
                        Inl err \<Rightarrow> Inl err | Inr docs' \<Rightarrow> Inr (FormatRetrieverDocs docs')) }) }) }))"

definition exec_meta :: "'w env \<Rightarrow> 'w execute_tool_input \<Rightarrow> tool_exec_meta" where
  "exec_meta env input = \<lparr>tm_IdempotencyKey = IdempotencyKey (en_sha256hex env) input,
     tm_RunID = xt_RunID input, tm_ToolCallID = xt_ToolCallID input, tm_Iteration = xt_Iteration input\<rparr>"

text \<open>\<open>fmt.Sprintf("%v", result)\<close>\<close>

definition sprint_value :: "'w env \<Rightarrow> tool_value \<Rightarrow> string" where
  "sprint_value env v = (case v of DocsValue docs \<Rightarrow> en_sprint_docs env docs | OtherValue ty txt \<Rightarrow> txt)"

definition tool_failed :: "string \<Rightarrow> go_error \<Rightarrow> ('w, go_error + string) io" where
  "tool_failed toolName err = do {
     IncrementCounter MetricToolCallFailed [toolName];
     State_Monad.return (Inl err) }"

definition tool_completed :: "string \<Rightarrow> string \<Rightarrow> ('w, go_error + string) io" where
  "tool_completed toolName content = do {
     IncrementCounter MetricToolCallCompleted [toolName];
     State_Monad.return (Inr content) }"

text \<open>The default branch of the kind switch: \<open>Execute\<close> and the hooks after it.\<close>

definition execute_and_hook :: "'w env \<Rightarrow> 'w runtime \<Rightarrow> 'w execute_tool_input \<Rightarrow> 'w tool \<Rightarrow>
    hook_tool_call option \<Rightarrow> go_args \<Rightarrow> ('w, go_error + string) io" where
  "execute_and_hook env rt input tool hookedCall args = do {
     r \<leftarrow> ext (tl_Execute tool (Some (exec_meta env input)) args);
     (let content = (case r of Inl _ \<Rightarrow> '''' | Inr v \<Rightarrow> sprint_value env v);
          execErr = (case r of Inl err \<Rightarrow> Some err | Inr _ \<Rightarrow> None)
      in case hookedCall of
        None \<Rightarrow> (case execErr of Some err \<Rightarrow> tool_failed (xt_ToolName input) err
                  | None \<Rightarrow> tool_completed (xt_ToolName input) content)
      | Some call \<Rightarrow> do {
          after \<leftarrow> runAfterToolHooks rt input call content execErr;
          (case after of
             (_, Some err) \<Rightarrow> tool_failed (xt_ToolName input) err
           | ((content', Some err), None) \<Rightarrow> tool_failed (xt_ToolName input) err
           | ((content', None), None) \<Rightarrow> tool_completed (xt_ToolName input) content') }) }"

definition run_tool :: "'w env \<Rightarrow> 'w runtime \<Rightarrow> 'w execute_tool_input \<Rightarrow> 'w tool \<Rightarrow>
    hook_tool_call option \<Rightarrow> go_args \<Rightarrow> ('w, go_error + string) io" where
  "run_tool env rt input tool hookedCall args = do {
     IncrementCounter MetricToolCallStarted [xt_ToolName input];
     (if tool_kind tool = ToolKindRetriever then do {
        r \<leftarrow> executeRetrieverTool rt input tool args;
        (case r of Inl err \<Rightarrow> tool_failed (xt_ToolName input) err
         | Inr content \<Rightarrow> tool_completed (xt_ToolName input) content) }
      else execute_and_hook env rt input tool hookedCall args) }"

definition executeTool :: "'w env \<Rightarrow> 'w runtime \<Rightarrow> 'w execute_tool_input \<Rightarrow> ('w, go_error + string) io" where
  "executeTool env rt input = (case FindToolByName (xt_Tools input) (xt_ToolName input) of
      None \<Rightarrow> do {
        NoteUnknownTool (xt_ToolName input);
        State_Monad.return (Inr (UnknownToolMessage (xt_ToolName input))) }
    | Some tool \<Rightarrow>
        if rt_Hooks rt \<noteq> [] \<and> HooksEligible (tool_kind tool) then do {
          hooked \<leftarrow> runBeforeToolHooks rt input tool;
          (case hooked of
             Inl err \<Rightarrow> State_Monad.return (Inl err)
           | Inr call \<Rightarrow> run_tool env rt input tool (Some call) (ht_Args call)) }
        else run_tool env rt input tool None (xt_Args input))"

definition AuthorizeTool :: "'w tool list \<Rightarrow> string \<Rightarrow> go_args \<Rightarrow> ('w, go_error + authorize_result) io" where
  "AuthorizeTool tools toolName args = (case FindToolByName tools toolName of
      None \<Rightarrow> State_Monad.return (Inl (ErrNew (''unknown tool: '' @ toolName)))
    | Some tool \<Rightarrow> (case tl_Authorize tool of
        None \<Rightarrow> State_Monad.return (Inr \<lparr>ar_Allowed = True, ar_Reason = ''''\<rparr>)
      | Some authorizer \<Rightarrow> do {
          r \<leftarrow> ext (authorizer args);
          State_Monad.return (case r of
              Inl err \<Rightarrow> Inl err
            | Inr decision \<Rightarrow>
                if ad_Allow decision then Inr \<lparr>ar_Allowed = True, ar_Reason = ''''\<rparr>
                else Inr \<lparr>ar_Allowed = False, ar_Reason = TrimSpace (ad_Reason decision)\<rparr>) }))"

section \<open>Batches of goroutines\<close>

text \<open>
  The code starts one goroutine per element, waits for all of them, and each writes its own slot
  of the result slice. The scheduler's order is a permutation of the indices.
\<close>

definition schedule :: "nat \<Rightarrow> nat list \<Rightarrow> nat list" where
  "schedule n order = (if sort order = [0..<n] then order else [0..<n])"

definition batch_slot :: "(nat \<Rightarrow> 'a \<Rightarrow> ('s, 'b) state) \<Rightarrow> 'a list \<Rightarrow> (nat \<rightharpoonup> 'b) \<Rightarrow> nat \<Rightarrow>
    ('s, nat \<rightharpoonup> 'b) state" where
  "batch_slot f xs slots i = do { r \<leftarrow> f i (xs ! i); State_Monad.return (slots(i \<mapsto> r)) }"

definition run_batch :: "'w env \<Rightarrow> (nat \<Rightarrow> 'a \<Rightarrow> ('w, 'b) io) \<Rightarrow> 'a list \<Rightarrow> ('w, 'b list) io" where
  "run_batch env f xs = do {
     order \<leftarrow> ext (en_order env (length xs));
     slots \<leftarrow> foldM (batch_slot f xs) Map.empty (schedule (length xs) order);
     State_Monad.return (map (\<lambda>i. the (slots i)) [0..<length xs]) }"

section \<open>Retriever prefetch\<close>

definition retrieve_failed :: "string \<Rightarrow> go_error \<Rightarrow> ('w, string \<times> (go_error + document list)) io" where
  "retrieve_failed name err = do {
     IncrementCounter MetricRetrieverCallFailed [name];
     State_Monad.return (name, Inl err) }"

definition run_retriever :: "'w runtime \<Rightarrow> string \<Rightarrow> int \<Rightarrow> string \<Rightarrow> nat \<Rightarrow> 'w retriever \<Rightarrow>
    ('w, string \<times> (go_error + document list)) io" where
  "run_retriever rt runID iteration query idx ret = (let name = rv_Name ret in do {
     IncrementCounter MetricRetrieverCallStarted [name];
     hooked \<leftarrow> runBeforeRetrieveHooks rt runID iteration query (rt_RetrieverMode rt) name;
     (case hooked of
        Inl err \<Rightarrow> retrieve_failed name err
      | Inr call \<Rightarrow> do {
          r \<leftarrow> ext (rv_Search ret (rc_Query call));
          (case r of
             Inl err \<Rightarrow> retrieve_failed name err
           | Inr docs \<Rightarrow> do {
               after \<leftarrow> runAfterRetrieveHooks rt runID iteration call docs;
               (case after of
                  Inl err \<Rightarrow> retrieve_failed name err
                | Inr docs' \<Rightarrow> do {
                    IncrementCounter MetricRetrieverCallCompleted [name];
                    State_Monad.return (name, Inr docs') }) }) }) })"

text \<open>The text of one retriever's documents, headed by its name if there are several retrievers.\<close>

definition retriever_section :: "bool \<Rightarrow> string \<times> (go_error + document list) \<Rightarrow> string" where
  "retriever_section multipleRetrievers res = (case snd res of
      Inl _ \<Rightarrow> ''''
    | Inr docs \<Rightarrow> if docs = [] then ''''
        else (if multipleRetrievers then ''## '' @ fst res @ nl else '''') @ FormatRetrieverDocs docs)"

definition is_failed :: "string \<times> (go_error + document list) \<Rightarrow> bool" where
  "is_failed res = (case snd res of Inl _ \<Rightarrow> True | Inr _ \<Rightarrow> False)"

definition ExecuteRetrievers :: "'w env \<Rightarrow> 'w runtime \<Rightarrow> string \<Rightarrow> int \<Rightarrow> string \<Rightarrow>
    ('w, go_error + retriever_result) io" where
  "ExecuteRetrievers env rt runID iteration query =
    (let retrievers = rt_Retrievers rt in
     if retrievers = [] then
       State_Monad.return (Inr \<lparr>rr_Context = '''', rr_TotalSearches = 0, rr_FailedSearches = 0\<rparr>)
     else do {
       results \<leftarrow> run_batch env (run_retriever rt runID iteration query) retrievers;
       State_Monad.return (Inr
         \<lparr>rr_Context = TrimSpace (concat (map (retriever_section (length retrievers > 1)) results)),
          rr_TotalSearches = int (length retrievers),
          rr_FailedSearches = int (length (filter is_failed results))\<rparr>) })"

end
