(* ===== verification/Memory_Runtime.thy ===== *)
theory Memory_Runtime
  imports Base_Runtime
begin

text \<open>
  Long-term memory at run time, \<open>internal/runtime/base/memory.go\<close> and the memory part of
  \<open>runtime.go\<close>: recall before a run with the recency fallback, extraction at run end, the
  \<open>save_memory\<close> tool, and storing with hooks, kind policy, deduplication and expiry. The decoding
  of the extractor's JSON answer into pairs of text and kind is the operation \<open>en_memories\<close>.
\<close>

section \<open>Metric names\<close>

definition MetricMemoryRecallStarted :: string where
  "MetricMemoryRecallStarted = ''agent.memory.recall.started''"
definition MetricMemoryRecallCompleted :: string where
  "MetricMemoryRecallCompleted = ''agent.memory.recall.completed''"
definition MetricMemoryRecallFailed :: string where
  "MetricMemoryRecallFailed = ''agent.memory.recall.failed''"
definition MetricMemoryStoreStarted :: string where
  "MetricMemoryStoreStarted = ''agent.memory.store.started''"
definition MetricMemoryStoreCompleted :: string where
  "MetricMemoryStoreCompleted = ''agent.memory.store.completed''"
definition MetricMemoryStoreFailed :: string where
  "MetricMemoryStoreFailed = ''agent.memory.store.failed''"
definition MetricMemoryDedupStarted :: string where
  "MetricMemoryDedupStarted = ''agent.memory.dedup.started''"
definition MetricMemoryDedupCompleted :: string where
  "MetricMemoryDedupCompleted = ''agent.memory.dedup.completed''"
definition MetricMemoryDedupFailed :: string where
  "MetricMemoryDedupFailed = ''agent.memory.dedup.failed''"
definition MetricMemoryExtractStarted :: string where
  "MetricMemoryExtractStarted = ''agent.memory.extract.started''"
definition MetricMemoryExtractCompleted :: string where
  "MetricMemoryExtractCompleted = ''agent.memory.extract.completed''"
definition MetricMemoryExtractFailed :: string where
  "MetricMemoryExtractFailed = ''agent.memory.extract.failed''"

section \<open>What is enabled\<close>

text \<open>The configuration with its backend, when both are present.\<close>

definition memory_of :: "'w runtime \<Rightarrow> ('w memory_config \<times> 'w memory_store) option" where
  "memory_of rt = (case rt_Memory rt of None \<Rightarrow> None | Some cfg \<Rightarrow>
     (case mc_Memory cfg of None \<Rightarrow> None | Some m \<Rightarrow> Some (cfg, m)))"

definition MemoryConfigured :: "'w runtime \<Rightarrow> bool" where
  "MemoryConfigured rt \<longleftrightarrow> memory_of rt \<noteq> None"

definition RecallEnabled :: "'w runtime \<Rightarrow> bool" where
  "RecallEnabled rt = (case memory_of rt of None \<Rightarrow> False | Some (cfg, m) \<Rightarrow> re_Enabled (mc_Recall cfg))"

definition RunEndMemoryStoreEnabled :: "'w runtime \<Rightarrow> bool" where
  "RunEndMemoryStoreEnabled rt = (case memory_of rt of None \<Rightarrow> False
     | Some (cfg, m) \<Rightarrow> so_Mode (mc_Store cfg) = StoreModeAlways)"

definition MemoryStoreOnDemand :: "'w runtime \<Rightarrow> bool" where
  "MemoryStoreOnDemand rt = (case memory_of rt of None \<Rightarrow> False
     | Some (cfg, m) \<Rightarrow> so_Mode (mc_Store cfg) = StoreModeOnDemand)"

definition empty_scope :: memory_scope where
  "empty_scope = \<lparr>sc_UserID = '''', sc_TenantID = '''', sc_AgentID = '''', sc_Tags = []\<rparr>"

definition ResolveMemoryScope :: "'w runtime \<Rightarrow> context_values \<Rightarrow> go_error + memory_scope" where
  "ResolveMemoryScope rt ctx = (case memory_of rt of None \<Rightarrow> Inr empty_scope
     | Some (cfg, m) \<Rightarrow> scope_Resolve (mc_ScopeConfig cfg) ctx)"

section \<open>Hooks\<close>

definition runBeforeMemoryLoadHooks :: "'w runtime \<Rightarrow> string \<Rightarrow> int \<Rightarrow> memory_load_call \<Rightarrow>
    ('w, go_error + memory_load_call) io" where
  "runBeforeMemoryLoadHooks rt runID iteration call =
    (if rt_Hooks rt = [] then State_Monad.return (Inr call)
     else RunBeforeMemoryLoad (rt_Hooks rt) (hookRunMeta runID iteration) call)"

definition runAfterMemoryLoadHooks :: "'w runtime \<Rightarrow> string \<Rightarrow> int \<Rightarrow> memory_load_call \<Rightarrow> string \<Rightarrow>
    ('w, go_error + string) io" where
  "runAfterMemoryLoadHooks rt runID iteration call promptContext =
    (if rt_Hooks rt = [] then State_Monad.return (Inr promptContext)
     else RunAfterMemoryLoad (rt_Hooks rt) (hookRunMeta runID iteration) call promptContext)"

definition runBeforeMemoryStoreHooks :: "'w runtime \<Rightarrow> string \<Rightarrow> int \<Rightarrow> memory_store_call \<Rightarrow>
    ('w, go_error + memory_store_call) io" where
  "runBeforeMemoryStoreHooks rt runID iteration call =
    (if rt_Hooks rt = [] then State_Monad.return (Inr call)
     else RunBeforeMemoryStore (rt_Hooks rt) (hookRunMeta runID iteration) call)"

definition runAfterMemoryStoreHooks :: "'w runtime \<Rightarrow> string \<Rightarrow> int \<Rightarrow> memory_store_call \<Rightarrow>
    ('w, go_error option) io" where
  "runAfterMemoryStoreHooks rt runID iteration call =
    (if rt_Hooks rt = [] then State_Monad.return None
     else RunAfterMemoryStore (rt_Hooks rt) (hookRunMeta runID iteration) call)"

section \<open>Recall\<close>

definition loadOptionsFromCall :: "memory_load_call \<Rightarrow> bool \<Rightarrow> load_option list" where
  "loadOptionsFromCall call withMinScore =
    [WithLoadLimit (ml_Limit call)]
    @ (if withMinScore \<and> ml_MinScore call > 0 then [WithMinScore (ml_MinScore call)] else [])
    @ (if ml_Kinds call \<noteq> [] then [WithLoadKinds (ml_Kinds call)] else [])"

definition recall_failed :: "go_error \<Rightarrow> ('w, go_error + 'a) io" where
  "recall_failed err = do {
     IncrementCounter MetricMemoryRecallFailed [];
     State_Monad.return (Inl err) }"

text \<open>The load, and the recency list when the semantic search finds nothing.\<close>

definition load_or_recent :: "'w memory_config \<Rightarrow> 'w memory_store \<Rightarrow> memory_load_call \<Rightarrow>
    ('w, go_error + memory_entry list) io" where
  "load_or_recent cfg m call = do {
     r \<leftarrow> ext (mem_Load m (ml_Scope call) (ml_Query call) (loadOptionsFromCall call True));
     (case r of
        Inl err \<Rightarrow> State_Monad.return (Inl err)
      | Inr entries \<Rightarrow>
          if entries = [] \<and> TrimSpace (ml_Query call) \<noteq> '''' then
            ext (mem_Load m (ml_Scope call) '''' (RecencyLoadOptions (mc_Recall cfg)))
          else State_Monad.return (Inr entries)) }"

definition ExecuteMemoryRecall :: "'w runtime \<Rightarrow> string \<Rightarrow> int \<Rightarrow> memory_scope \<Rightarrow> string \<Rightarrow>
    ('w, go_error + memory_result) io" where
  "ExecuteMemoryRecall rt runID iteration scope query = (case memory_of rt of
      None \<Rightarrow> State_Monad.return (Inr \<lparr>mm_Context = '''', mm_TotalRecalls = 0, mm_FailedRecalls = 0\<rparr>)
    | Some (cfg, m) \<Rightarrow> (let recall = mc_Recall cfg in do {
        IncrementCounter MetricMemoryRecallStarted [];
        hooked \<leftarrow> runBeforeMemoryLoadHooks rt runID iteration
          \<lparr>ml_Scope = scope, ml_Query = query, ml_Limit = re_Limit recall,
           ml_MinScore = re_MinScore recall, ml_Kinds = re_Kinds recall\<rparr>;
        (case hooked of
           Inl err \<Rightarrow> recall_failed err
         | Inr call \<Rightarrow> do {
             r \<leftarrow> load_or_recent cfg m call;
             (case r of
                Inl err \<Rightarrow> recall_failed (ErrWrap ''memory recall: '' err '''')
              | Inr entries \<Rightarrow> do {
                  after \<leftarrow> runAfterMemoryLoadHooks rt runID iteration call
                             (TrimSpace (FormatMemoryEntries entries));
                  (case after of
                     Inl err \<Rightarrow> recall_failed err
                   | Inr memoryContext \<Rightarrow> do {
                       IncrementCounter MetricMemoryRecallCompleted [];
                       State_Monad.return (Inr \<lparr>mm_Context = memoryContext, mm_TotalRecalls = 1,
                         mm_FailedRecalls = 0\<rparr>) }) }) }) }))"

section \<open>Store\<close>

definition dedupStoreOptions :: "'w memory_config \<Rightarrow> 'w memory_store \<Rightarrow> memory_scope \<Rightarrow> string \<Rightarrow>
    ('w, go_error + store_option list \<times> string) io" where
  "dedupStoreOptions cfg m scope text =
    (let minScore = so_DedupMinScore (mc_Store cfg) in
     if minScore \<le> 0 then State_Monad.return (Inr ([], ''append''))
     else do {
       IncrementCounter MetricMemoryDedupStarted [];
       r \<leftarrow> ext (mem_Load m scope text [WithLoadLimit 1, WithMinScore minScore]);
       (case r of
          Inl err \<Rightarrow> do {
            IncrementCounter MetricMemoryDedupFailed [];
            State_Monad.return (Inl err) }
        | Inr matches \<Rightarrow> do {
            IncrementCounter MetricMemoryDedupCompleted [];
            State_Monad.return (case matches of
                [] \<Rightarrow> Inr ([], ''append'')
              | e # _ \<Rightarrow> Inr ([WithMemoryID (me_ID e)], ''upsert'')) }) })"

definition store_failed :: "string list \<Rightarrow> go_error \<Rightarrow> ('w, go_error option) io" where
  "store_failed attrs err = do {
     IncrementCounter MetricMemoryStoreFailed attrs;
     State_Monad.return (Some err) }"

text \<open>From the chosen options on: the backend call, the hooks after it, and the counters.\<close>

definition store_with :: "'w env \<Rightarrow> 'w runtime \<Rightarrow> 'w memory_config \<Rightarrow> 'w memory_store \<Rightarrow> string \<Rightarrow> int \<Rightarrow>
    memory_scope \<Rightarrow> memory_store_call \<Rightarrow> string \<Rightarrow> string \<Rightarrow> store_option list \<Rightarrow> string \<Rightarrow>
    ('w, go_error option) io" where
  "store_with env rt cfg m runID iteration scope call text kind storeOpts dedupAction = do {
     now \<leftarrow> ext (en_now env);
     (let record = \<lparr>mr_Text = text, mr_Kind = kind, mr_Metadata = mr_Metadata (ms_Record call),
                    mr_ExpiresAt = ExpiresAtForKind cfg kind now\<rparr> in do {
       r \<leftarrow> ext (mem_Store m scope record storeOpts);
       (case r of
          Inl err \<Rightarrow> store_failed [kind] (ErrWrap ''memory store: '' err '''')
        | Inr storedID \<Rightarrow> do {
            after \<leftarrow> runAfterMemoryStoreHooks rt runID iteration
              \<lparr>ms_Scope = scope, ms_Record = record, ms_ID = storedID\<rparr>;
            (case after of
               Some err \<Rightarrow> store_failed [kind] err
             | None \<Rightarrow> do {
                 IncrementCounter MetricMemoryStoreCompleted [kind, dedupAction];
                 State_Monad.return None }) }) }) }"

definition storeRecord :: "'w env \<Rightarrow> 'w runtime \<Rightarrow> 'w memory_config \<Rightarrow> 'w memory_store \<Rightarrow> string \<Rightarrow> int \<Rightarrow>
    memory_scope \<Rightarrow> memory_record \<Rightarrow> ('w, go_error option) io" where
  "storeRecord env rt cfg m runID iteration scope rec = do {
     hooked \<leftarrow> runBeforeMemoryStoreHooks rt runID iteration
       \<lparr>ms_Scope = scope, ms_Record = rec, ms_ID = ''''\<rparr>;
     (case hooked of
        Inl err \<Rightarrow> State_Monad.return (Some err)
      | Inr call \<Rightarrow> (let text = TrimSpace (mr_Text (ms_Record call)) in
          if text = '''' then State_Monad.return None
          else (case ResolveKind (mc_Store cfg) (mr_Kind (ms_Record call)) of
              Inl err \<Rightarrow> store_failed [] (ErrWrap ''memory store: '' err '''')
            | Inr kind \<Rightarrow> do {
                IncrementCounter MetricMemoryStoreStarted [kind];
                (let hookID = TrimSpace (ms_ID call) in
                 if hookID \<noteq> '''' then
                   store_with env rt cfg m runID iteration scope call text kind
                     [WithMemoryID hookID] ''upsert''
                 else do {
                   d \<leftarrow> dedupStoreOptions cfg m scope text;
                   (case d of
                      Inl err \<Rightarrow> store_failed [kind] (ErrWrap ''memory store: dedup: '' err '''')
                    | Inr (storeOpts, dedupAction) \<Rightarrow>
                        store_with env rt cfg m runID iteration scope call text kind
                          storeOpts dedupAction) }) }))) }"

text \<open>The records are stored in order; the first error ends the loop.\<close>

fun store_records :: "(memory_record \<Rightarrow> ('w, go_error option) io) \<Rightarrow> memory_record list \<Rightarrow>
    ('w, go_error option) io" where
  "store_records store [] = State_Monad.return None"
| "store_records store (r # rs) = do {
     e \<leftarrow> store r;
     (case e of Some err \<Rightarrow> State_Monad.return (Some err) | None \<Rightarrow> store_records store rs) }"

definition StoreMemoryRecords :: "'w env \<Rightarrow> 'w runtime \<Rightarrow> string \<Rightarrow> int \<Rightarrow> memory_scope \<Rightarrow>
    memory_record list \<Rightarrow> ('w, go_error option) io" where
  "StoreMemoryRecords env rt runID iteration scope records = (case memory_of rt of
      None \<Rightarrow> State_Monad.return None
    | Some (cfg, m) \<Rightarrow> store_records (storeRecord env rt cfg m runID iteration scope) records)"

section \<open>The save\_memory tool\<close>

definition MemoryToolParamText :: string where "MemoryToolParamText = ''text''"
definition MemoryToolParamKind :: string where "MemoryToolParamKind = ''kind''"

definition parseSaveMemoryToolArgs :: "go_args \<Rightarrow> go_error + memory_record" where
  "parseSaveMemoryToolArgs args = (case arg_string args MemoryToolParamText of
      None \<Rightarrow> Inl (ErrNew (''save_memory: '' @ Quote MemoryToolParamText @ '' parameter required''))
    | Some rawText \<Rightarrow> (let text = TrimSpace rawText in
        if text = '''' then
          Inl (ErrNew (''save_memory: '' @ Quote MemoryToolParamText @ '' must be non-empty''))
        else Inr \<lparr>mr_Text = text,
               mr_Kind = (case arg_string args MemoryToolParamKind of
                   Some rawKind \<Rightarrow> TrimSpace rawKind | None \<Rightarrow> ''''),
               mr_Metadata = [(''source'', SaveMemoryToolName)], mr_ExpiresAt = None\<rparr>))"

definition executeSaveMemoryTool :: "'w env \<Rightarrow> 'w runtime \<Rightarrow> 'w execute_tool_input \<Rightarrow> memory_scope \<Rightarrow>
    ('w, go_error + string) io" where
  "executeSaveMemoryTool env rt input scope = do {
     IncrementCounter MetricToolCallStarted [SaveMemoryToolName];
     (case parseSaveMemoryToolArgs (xt_Args input) of
        Inl err \<Rightarrow> tool_failed SaveMemoryToolName err
      | Inr record \<Rightarrow> do {
          e \<leftarrow> StoreMemoryRecords env rt (xt_RunID input) (xt_Iteration input) scope [record];
          (case e of
             Some err \<Rightarrow> tool_failed SaveMemoryToolName err
           | None \<Rightarrow> tool_completed SaveMemoryToolName ''memory saved'') }) }"

definition ExecuteTool :: "'w env \<Rightarrow> 'w runtime \<Rightarrow> 'w execute_tool_input \<Rightarrow> memory_scope \<Rightarrow>
    ('w, go_error + string) io" where
  "ExecuteTool env rt input memScope =
    (if xt_ToolName input = SaveMemoryToolName \<and> MemoryStoreOnDemand rt
     then executeSaveMemoryTool env rt input memScope
     else executeTool env rt input)"

section \<open>Extraction at run end\<close>

definition memoryExtractSystemPrompt :: string where
  "memoryExtractSystemPrompt = ''Extract durable long-term memories from the conversation. ''
    @ ''Return only facts, preferences, decisions, or instructions worth recalling in future runs. ''
    @ ''Skip greetings, transient context, and tool noise. Return an empty memories array when nothing should persist.''"

definition memoryExtractTurnPrompt :: string where
  "memoryExtractTurnPrompt = ''Extract durable memories from the conversation above.''"

definition messagesForMemoryExtraction :: "message list \<Rightarrow> message list" where
  "messagesForMemoryExtraction messages =
    (let out = filter (\<lambda>m. (msg_Role m = RoleUser \<or> msg_Role m = RoleAssistant) \<and>
                            TrimSpace (msg_Content m) \<noteq> '''') messages
     in if out = [] then []
        else if msg_Role (last out) = RoleAssistant then out @ [mk_message RoleUser memoryExtractTurnPrompt]
        else out)"

definition memoryExtractResponseFormat :: response_format where
  "memoryExtractResponseFormat = \<lparr>rf_Type = ''json'', rf_Name = ''MemoryExtraction'',
     rf_Schema = AObj
       [(''type'', AStr ''object''),
        (''properties'', AObj [(''memories'', AObj
          [(''type'', AStr ''array''),
           (''items'', AObj
             [(''type'', AStr ''object''),
              (''properties'', AObj
                [(''text'', AObj [(''type'', AStr ''string''), (''description'', AStr ''Distilled memory text'')]),
                 (''kind'', AObj [(''type'', AStr ''string''),
                   (''description'', AStr ''Optional kind: preference, fact, decision, instruction, note'')])]),
              (''required'', AArr [AStr ''text'']),
              (''additionalProperties'', ABool False)])])]),
        (''required'', AArr [AStr ''memories'']),
        (''additionalProperties'', ABool False)]\<rparr>"

fun extracted_records :: "(string \<times> string) list \<Rightarrow> memory_record list" where
  "extracted_records [] = []"
| "extracted_records ((t, k) # ms) =
     (let text = TrimSpace t in
      if text = '''' then extracted_records ms
      else \<lparr>mr_Text = text, mr_Kind = TrimSpace k, mr_Metadata = [(''source'', ''extract'')],
             mr_ExpiresAt = None\<rparr> # extracted_records ms)"

definition parseMemoryExtractResponse :: "'w env \<Rightarrow> string \<Rightarrow> go_error + memory_record list" where
  "parseMemoryExtractResponse env raw =
    (let content = TrimSpace raw in
     if content = '''' then Inr []
     else case en_memories env content of
         Inl err \<Rightarrow> Inl (ErrWrap ''memory extract: parse response: '' err '''')
       | Inr memories \<Rightarrow> Inr (extracted_records memories))"

definition extractMemoriesWithLLM :: "'w env \<Rightarrow> 'w llm_client \<Rightarrow> 'w extract_func" where
  "extractMemoriesWithLLM env client messages =
    (let msgs = messagesForMemoryExtraction messages in
     if msgs = [] then State_Monad.return (Inr [])
     else do {
       r \<leftarrow> lc_Generate client
         \<lparr>rq_SystemMessage = memoryExtractSystemPrompt,
          rq_ResponseFormat = Some memoryExtractResponseFormat, rq_Tools = [], rq_Messages = msgs,
          rq_Temperature = None, rq_MaxTokens = 0, rq_TopP = None, rq_TopK = None, rq_Reasoning = None\<rparr>;
       State_Monad.return (case r of
           Inl err \<Rightarrow> Inl (ErrWrap ''memory extract: llm: '' err '''')
         | Inr resp \<Rightarrow> parseMemoryExtractResponse env (rp_Content resp)) })"

text \<open>The client of a runtime is never nil here: a run reads its model before anything else.\<close>

definition resolveMemoryExtractFunc :: "'w env \<Rightarrow> 'w runtime \<Rightarrow> 'w extract_func option" where
  "resolveMemoryExtractFunc env rt = (case memory_of rt of
      None \<Rightarrow> None
    | Some (cfg, m) \<Rightarrow>
        if \<not> RunEndMemoryStoreEnabled rt then None
        else (case so_Extract (mc_Store cfg) of
            Some extract \<Rightarrow> Some extract
          | None \<Rightarrow> Some (extractMemoriesWithLLM env (rt_Client rt))))"

definition extractMemoryRecords :: "'w extract_func \<Rightarrow> message list \<Rightarrow>
    ('w, go_error + memory_record list) io" where
  "extractMemoryRecords extract messages = do {
     IncrementCounter MetricMemoryExtractStarted [];
     r \<leftarrow> ext (extract messages);
     (case r of
        Inl err \<Rightarrow> do {
          IncrementCounter MetricMemoryExtractFailed [];
          State_Monad.return (Inl (ErrWrap ''memory store: extract: '' err '''')) }
      | Inr records \<Rightarrow> do {
          IncrementCounter MetricMemoryExtractCompleted [];
          State_Monad.return (Inr records) }) }"

definition ExecuteMemoryStore :: "'w env \<Rightarrow> 'w runtime \<Rightarrow> string \<Rightarrow> int \<Rightarrow> memory_scope \<Rightarrow>
    message list \<Rightarrow> ('w, go_error option) io" where
  "ExecuteMemoryStore env rt runID iteration scope messages =
    (if \<not> RunEndMemoryStoreEnabled rt then State_Monad.return None
     else case resolveMemoryExtractFunc env rt of
       None \<Rightarrow> do {
         IncrementCounter MetricMemoryExtractFailed [];
         State_Monad.return None }
     | Some extract \<Rightarrow> do {
         r \<leftarrow> extractMemoryRecords extract messages;
         (case r of
            Inl err \<Rightarrow> State_Monad.return (Some err)
          | Inr records \<Rightarrow>
              if records = [] then State_Monad.return None
              else StoreMemoryRecords env rt runID iteration scope records) })"

end
