(* ===== verification/Agent_Tools.thy ===== *)
theory Agent_Tools
  imports A2A_Client Memory_Runtime "HOL-Library.List_Lexorder" "HOL-Library.Char_ord"
begin

text \<open>
  The tools that the SDK builds itself, of \<open>pkg/agent\<close>: MCP tools (\<open>mcp.go\<close>), A2A skills (\<open>a2a.go\<close>),
  sub-agent delegation (\<open>subagent.go\<close>), memory (\<open>memory.go\<close>) and retrievers (\<open>retriever.go\<close>), with
  the names under which the model sees them, and the approval policies (\<open>policy.go\<close>). A wrapper is
  the record of the methods of its \<open>Tool\<close> interface; the clients behind it are interfaces too. JSON,
  and the printed form of a decoded value, are the parameter \<open>tool_codec\<close>.
\<close>

section \<open>Clients\<close>

record 'w mcp_client =
  mc_Name :: string
  mc_ListTools :: "('w, go_error + tool_spec list) state"
  mc_CallTool :: "string \<Rightarrow> string \<Rightarrow> ('w, go_error + string) state"

text \<open>The SDK's own MCP client behind the interface.\<close>

definition as_mcp_client :: "'w mcp_sdk \<Rightarrow> mcp_client_obj \<Rightarrow> 'w mcp_client" where
  "as_mcp_client sdk c = \<lparr>mc_Name = ko_name c, mc_ListTools = mcp_ListTools sdk c,
     mc_CallTool = mcp_CallTool sdk c\<rparr>"

record a2a_part =
  pt_Kind :: string
  pt_Text :: string

record a2a_message =
  am_Role :: string
  am_Parts :: "a2a_part list"

record a2a_task =
  at_ID :: string
  at_Status :: string
  at_Message :: "a2a_message option"

record a2a_send_result =
  as_Message :: "a2a_message option"
  as_Task :: "a2a_task option"

record 'w a2a_client =
  qc_Name :: string
  qc_ListSkills :: "('w, go_error + a2a_skill list) state"
  qc_SendMessage :: "a2a_message \<Rightarrow> ('w, go_error + a2a_send_result) state"

record tool_codec =
  co_marshal_args :: "go_args \<Rightarrow> go_error + string"
  co_unmarshal :: "string \<Rightarrow> go_error + go_any"
  co_value :: "go_any \<Rightarrow> tool_value"
  co_marshal_task :: "a2a_task \<Rightarrow> go_error + string"

definition string_value :: "string \<Rightarrow> tool_value" where
  "string_value s = OtherValue ''string'' s"

section \<open>MCP tools\<close>

definition mcpToolName :: "string \<Rightarrow> string \<Rightarrow> string" where
  "mcpToolName serverName toolName =
    (let sn = TrimSpace serverName; tn = TrimSpace toolName
     in if sn = '''' \<or> tn = '''' then '''' else ''mcp_'' @ sn @ ''_'' @ tn)"

definition mcpToolDisplayName :: "string \<Rightarrow> string \<Rightarrow> string" where
  "mcpToolDisplayName serverName toolName =
    (let sn = TrimSpace serverName; tn = TrimSpace toolName
     in if sn = '''' \<or> tn = '''' then '''' else sn @ '' MCP '' @ tn @ '' Tool'')"

definition spec_schema :: "tool_spec \<Rightarrow> go_any" where
  "spec_schema spec = (if spec_Parameters spec = ANil then default_schema else spec_Parameters spec)"

definition MCPTool_Execute ::
    "tool_codec \<Rightarrow> 'w mcp_client option \<Rightarrow> tool_spec \<Rightarrow> go_args \<Rightarrow> ('w, go_error + tool_value) state" where
  "MCPTool_Execute co client spec args = (case client of
      None \<Rightarrow> State_Monad.return (Inl (ErrNew ''mcp tool: nil client''))
    | Some cl \<Rightarrow> (case co_marshal_args co args of
        Inl err \<Rightarrow> State_Monad.return (Inl err)
      | Inr raw \<Rightarrow> do {
          r \<leftarrow> mc_CallTool cl (spec_Name spec) raw;
          State_Monad.return (case r of
              Inl err \<Rightarrow> Inl err
            | Inr out \<Rightarrow> if length out = 0 then Inr (string_value '''')
                else (case co_unmarshal co out of
                    Inl err \<Rightarrow> Inr (string_value out)
                  | Inr v \<Rightarrow> Inr (co_value co v))) }))"

definition NewMCPTool ::
    "tool_codec \<Rightarrow> string \<Rightarrow> tool_spec \<Rightarrow> 'w mcp_client option \<Rightarrow> 'w tool" where
  "NewMCPTool co serverName spec client =
    \<lparr>tl_Name = mcpToolName serverName (spec_Name spec),
     tl_DisplayName = mcpToolDisplayName serverName (spec_Name spec),
     tl_Description = spec_Description spec, tl_Parameters = spec_schema spec,
     tl_ToolKind = Some ToolKindMCP, tl_ApprovalRequired = None, tl_Authorize = None,
     tl_Execute = (\<lambda>meta. MCPTool_Execute co client spec)\<rparr>"

section \<open>A2A tools\<close>

definition a2aToolName :: "string \<Rightarrow> string \<Rightarrow> string" where
  "a2aToolName serverName skillID =
    (let sn = TrimSpace serverName; sid = TrimSpace skillID
     in if sn = '''' \<or> sid = '''' then '''' else ''a2a_'' @ sn @ ''_'' @ sid)"

definition a2aToolDisplayName :: "string \<Rightarrow> string \<Rightarrow> string" where
  "a2aToolDisplayName serverName skillID =
    (let sn = TrimSpace serverName; sid = TrimSpace skillID
     in if sn = '''' \<or> sid = '''' then '''' else sn @ '' A2A '' @ sid @ '' Tool'')"

text \<open>\<open>sb\<close> is what the builder holds.\<close>

fun collect_parts :: "string \<Rightarrow> a2a_part list \<Rightarrow> string" where
  "collect_parts sb [] = sb"
| "collect_parts sb (p # ps) =
    (if pt_Kind p \<noteq> ''text'' \<or> pt_Text p = '''' then collect_parts sb ps
     else collect_parts ((if length sb > 0 then sb @ nl else sb) @ pt_Text p) ps)"

definition a2aCollectText :: "a2a_message option \<Rightarrow> string" where
  "a2aCollectText msg = (case msg of None \<Rightarrow> '''' | Some m \<Rightarrow> collect_parts '''' (am_Parts m))"

definition A2ATool_Execute ::
    "tool_codec \<Rightarrow> 'w a2a_client option \<Rightarrow> go_args \<Rightarrow> ('w, go_error + tool_value) state" where
  "A2ATool_Execute co client args = (case client of
      None \<Rightarrow> State_Monad.return (Inl (ErrNew ''a2a tool: nil client''))
    | Some cl \<Rightarrow> (case co_marshal_args co args of
        Inl err \<Rightarrow> State_Monad.return (Inl (ErrWrap ''a2a tool: marshal args: '' err ''''))
      | Inr raw \<Rightarrow> do {
          r \<leftarrow> qc_SendMessage cl \<lparr>am_Role = ''user'',
                 am_Parts = [\<lparr>pt_Kind = ''text'', pt_Text = raw\<rparr>]\<rparr>;
          State_Monad.return (case r of
              Inl err \<Rightarrow> Inl err
            | Inr res \<Rightarrow> Inr (string_value
                (if as_Message res \<noteq> None then a2aCollectText (as_Message res)
                 else case as_Task res of None \<Rightarrow> ''''
                 | Some task \<Rightarrow> (case co_marshal_task co task of
                     Inr b \<Rightarrow> b
                   | Inl err \<Rightarrow> ''task:'' @ at_ID task @ '' status:'' @ at_Status task)))) }))"

definition NewA2ATool ::
    "tool_codec \<Rightarrow> string \<Rightarrow> tool_spec \<Rightarrow> 'w a2a_client option \<Rightarrow> 'w tool" where
  "NewA2ATool co serverName spec client =
    \<lparr>tl_Name = a2aToolName serverName (spec_Name spec),
     tl_DisplayName = a2aToolDisplayName serverName (spec_Name spec),
     tl_Description = spec_Description spec, tl_Parameters = spec_schema spec,
     tl_ToolKind = Some ToolKindA2A, tl_ApprovalRequired = None, tl_Authorize = None,
     tl_Execute = (\<lambda>meta. A2ATool_Execute co client)\<rparr>"

section \<open>Parameter schemas\<close>

definition ParamString :: "string \<Rightarrow> go_any" where
  "ParamString description = AObj [(''type'', AStr ''string''), (''description'', AStr description)]"

definition tool_Params :: "(string \<times> go_any) list \<Rightarrow> string list \<Rightarrow> go_any" where
  "tool_Params properties required =
    AObj ([(''type'', AStr ''object''), (''properties'', AObj properties)]
      @ (if length required > 0 then [(''required'', AArr (map AStr required))] else []))"

section \<open>Retriever tools\<close>

definition RetrieverTool_Execute ::
    "'w retriever \<Rightarrow> go_args \<Rightarrow> ('w, go_error + tool_value) state" where
  "RetrieverTool_Execute retr args = (case RetrieverToolParamQueryValue args of
      Inl err \<Rightarrow> State_Monad.return (Inl err)
    | Inr query \<Rightarrow> do {
        r \<leftarrow> rv_Search retr query;
        State_Monad.return (case r of Inl err \<Rightarrow> Inl err | Inr docs \<Rightarrow> Inr (DocsValue docs)) })"

definition NewRetrieverTool :: "'w retriever option \<Rightarrow> 'w tool option" where
  "NewRetrieverTool retr = (case retr of None \<Rightarrow> None
     | Some r \<Rightarrow> (let rn = TrimSpace (rv_Name r) in if rn = '''' then None else Some
        \<lparr>tl_Name = RetrieverToolName rn, tl_DisplayName = RetrieverToolDisplayName rn,
         tl_Description = ''Search the '' @ rn @ '' knowledge base for relevant context. ''
           @ ''Call this when you need external knowledge to answer the user query.'',
         tl_Parameters = tool_Params [(RetrieverToolParamQuery,
             ParamString (''Search query to find relevant knowledge in '' @ rn))]
           [RetrieverToolParamQuery],
         tl_ToolKind = Some ToolKindRetriever, tl_ApprovalRequired = None, tl_Authorize = None,
         tl_Execute = (\<lambda>meta. RetrieverTool_Execute r)\<rparr>))"

section \<open>The memory tool\<close>

definition ErrMemoryToolNotExecutable :: go_error where
  "ErrMemoryToolNotExecutable = ErrNew ''save_memory must be executed via runtime''"

definition MemoryTool_Execute ::
    "(memory_record list \<Rightarrow> ('w, go_error option) state) option \<Rightarrow> go_args \<Rightarrow>
     ('w, go_error + tool_value) state" where
  "MemoryTool_Execute store args = (case store of
      None \<Rightarrow> State_Monad.return (Inl ErrMemoryToolNotExecutable)
    | Some save \<Rightarrow> (case arg_string args MemoryToolParamText of
        None \<Rightarrow> State_Monad.return (Inl (ErrNew (''save_memory: '' @ Quote MemoryToolParamText
          @ '' parameter required'')))
      | Some rawText \<Rightarrow> (let text = TrimSpace rawText in
          if text = '''' then State_Monad.return (Inl (ErrNew (''save_memory: ''
            @ Quote MemoryToolParamText @ '' must be non-empty'')))
          else do {
            let kind = (case arg_string args MemoryToolParamKind of
                          Some rawKind \<Rightarrow> TrimSpace rawKind | None \<Rightarrow> '''');
            r \<leftarrow> save [\<lparr>mr_Text = text, mr_Kind = kind, mr_Metadata = [], mr_ExpiresAt = None\<rparr>];
            State_Monad.return (case r of
              Some err \<Rightarrow> Inl err | None \<Rightarrow> Inr (string_value ''memory saved'')) })))"

definition memory_tool ::
    "(memory_record list \<Rightarrow> ('w, go_error option) state) option \<Rightarrow> 'w tool" where
  "memory_tool store =
    \<lparr>tl_Name = SaveMemoryToolName, tl_DisplayName = ''Save Memory'',
     tl_Description = ''Save a fact, preference, or decision to long-term memory for future runs. ''
       @ ''Required when the user asks to remember, save, or persist something for later ''
       @ [CHR 0xE2, CHR 0x80, CHR 0x94] @ '' call this tool before acknowledging; a text reply alone does not store memory.'',
     tl_Parameters = tool_Params
       [(MemoryToolParamText, ParamString (''The memory text to store (fact, preference, or ''
          @ ''decision distilled from the conversation)'')),
        (MemoryToolParamKind, ParamString (''Optional memory kind (e.g. preference, fact, ''
          @ ''decision, instruction, note)''))] [MemoryToolParamText],
     tl_ToolKind = Some ToolKindMemory, tl_ApprovalRequired = None, tl_Authorize = None,
     tl_Execute = (\<lambda>meta. MemoryTool_Execute store)\<rparr>"

definition NewMemoryTool ::
    "(memory_record list \<Rightarrow> ('w, go_error option) state) option \<Rightarrow> 'w tool option" where
  "NewMemoryTool store = (case store of None \<Rightarrow> None | Some s \<Rightarrow> Some (memory_tool (Some s)))"

definition NewRegisteredMemoryTool :: "'w tool" where
  "NewRegisteredMemoryTool = memory_tool None"

section \<open>Sub-agent tools\<close>

text \<open>What a delegation tool needs of the agent it delegates to.\<close>

record agent_identity =
  id_Name :: string
  id_Description :: string

definition ErrSubAgentToolNotExecutable :: go_error where
  "ErrSubAgentToolNotExecutable = ErrNew (''sub-agent tool must be delegated via runtime (local: ''
     @ ''in-process runner, temporal: child workflow)'')"

definition ErrSubAgentNameInvalid :: go_error where
  "ErrSubAgentNameInvalid = ErrNew ''sub-agent name invalid for delegation tool''"

definition is_ident_char :: "char \<Rightarrow> bool" where
  "is_ident_char c \<longleftrightarrow> is_lower c \<or> is_upper c \<or> is_decimal c"

text \<open>
  \<open>ReplaceAllString\<close> of \<open>[^a-zA-Z0-9]+\<close>: \<open>skip\<close> holds inside a match that has been replaced already. A
  match over the bytes is a match over the characters, as every byte of a longer character matches.
\<close>

fun replace_runs :: "bool \<Rightarrow> string \<Rightarrow> string" where
  "replace_runs skip [] = []"
| "replace_runs skip (c # cs) =
    (if is_ident_char c then c # replace_runs False cs
     else if skip then replace_runs True cs
     else CHR ''_'' # replace_runs True cs)"

definition Trim_char :: "char \<Rightarrow> string \<Rightarrow> string" where
  "Trim_char x s = rev (dropWhile (\<lambda>c. c = x) (rev (dropWhile (\<lambda>c. c = x) s)))"

definition subAgentToolName :: "string \<Rightarrow> go_error + string" where
  "subAgentToolName name =
    (let base = TrimSpace name
     in if base = '''' then
          Inl (ErrWrap '''' ErrSubAgentNameInvalid '': set WithName on the sub-agent'')
        else let safe = Trim_char (CHR ''_'') (replace_runs False base)
          in if safe = '''' then
               Inl (ErrWrap '''' ErrSubAgentNameInvalid ('': name '' @ Quote base
                 @ '' must contain at least one letter or digit''))
             else Inr (''subagent_'' @ safe))"

definition SubAgentTool_Description :: "agent_identity \<Rightarrow> string" where
  "SubAgentTool_Description agent =
    (let d = TrimSpace (id_Description agent)
     in if d \<noteq> '''' then ''Delegate to specialist sub-agent: '' @ d
        else if TrimSpace (id_Name agent) \<noteq> '''' then
          ''Delegate to specialist sub-agent: '' @ id_Name agent
        else ''Delegate to a specialist sub-agent to handle this request.'')"

definition NewSubAgentTool :: "agent_identity option \<Rightarrow> 'w tool option" where
  "NewSubAgentTool sub = (case sub of None \<Rightarrow> None
     | Some agent \<Rightarrow> (case subAgentToolName (id_Name agent) of Inl err \<Rightarrow> None
       | Inr n \<Rightarrow> Some
        \<lparr>tl_Name = n, tl_DisplayName = ''Sub-Agent '' @ id_Name agent,
         tl_Description = SubAgentTool_Description agent,
         tl_Parameters = tool_Params [(SubAgentToolParamQuery,
             ParamString ''Task or question to send to the sub-agent.'')] [SubAgentToolParamQuery],
         tl_ToolKind = Some ToolKindSubAgent, tl_ApprovalRequired = None, tl_Authorize = None,
         tl_Execute = (\<lambda>meta args. State_Monad.return
           (Inl (ErrWrap '''' ErrSubAgentToolNotExecutable ('': '' @ n))))\<rparr>))"

section \<open>Approval policies\<close>

datatype 'w approval_policy =
    RequireAllToolApprovalPolicy
  | AutoToolApproval
  | AllowlistToolApproval (allowed: "string list")
  | CustomApprovalPolicy (cp_Requires: "'w tool \<Rightarrow> bool") (cp_Type: string)

fun policy_RequiresApproval :: "'w approval_policy \<Rightarrow> 'w tool \<Rightarrow> bool" where
  "policy_RequiresApproval RequireAllToolApprovalPolicy t = True"
| "policy_RequiresApproval AutoToolApproval t = False"
| "policy_RequiresApproval (AllowlistToolApproval m) t = (tl_Name t \<notin> set m)"
| "policy_RequiresApproval (CustomApprovalPolicy f ty) t = f t"

record allowlist_config =
  al_ToolNames :: "string list"
  al_SubAgentNames :: "string list"
  al_MCPTools :: "(string \<times> string list) list"

text \<open>The allowed names, a set of keys; \<open>add\<close> of the code.\<close>

definition allow_add :: "string \<Rightarrow> string list \<Rightarrow> string list" where
  "allow_add s m = (let t = TrimSpace s in if t \<noteq> '''' \<and> t \<notin> set m then m @ [t] else m)"

fun allow_sub_agents :: "string list \<Rightarrow> string list \<Rightarrow> go_error + string list" where
  "allow_sub_agents [] m = Inr m"
| "allow_sub_agents (n # ns) m = (case subAgentToolName n of
      Inl err \<Rightarrow> Inl (ErrWrap (''allowlist SubAgentNames entry '' @ Quote n @ '': '') err '''')
    | Inr name \<Rightarrow> allow_sub_agents ns (allow_add name m))"

definition AllowlistToolApprovalPolicy :: "allowlist_config \<Rightarrow> go_error + 'w approval_policy" where
  "AllowlistToolApprovalPolicy c =
    (let m1 = fold allow_add (al_ToolNames c) []
     in case allow_sub_agents (al_SubAgentNames c) m1 of
          Inl err \<Rightarrow> Inl err
        | Inr m2 \<Rightarrow> Inr (AllowlistToolApproval
            (fold (\<lambda>(server, tools) m. fold (\<lambda>tid. allow_add (mcpToolName server tid)) tools m)
              (al_MCPTools c) m2)))"

text \<open>\<open>sort.Strings\<close> orders bytes, as the library's lexicographic order of character lists does.\<close>

fun toolPolicyFingerprint :: "'w approval_policy option \<Rightarrow> string" where
  "toolPolicyFingerprint None = ''nil''"
| "toolPolicyFingerprint (Some RequireAllToolApprovalPolicy) = ''require_all''"
| "toolPolicyFingerprint (Some AutoToolApproval) = ''auto''"
| "toolPolicyFingerprint (Some (AllowlistToolApproval m)) = ''allowlist:'' @ Join (sort m) '',''"
| "toolPolicyFingerprint (Some (CustomApprovalPolicy f ty)) = ''unknown:'' @ ty"

section \<open>What an allowlist allows\<close>

lemma set_allow_add: "set (allow_add s m) = set m \<union> ({TrimSpace s} - {''''})"
  by (auto simp: allow_add_def Let_def)

lemma set_fold_allow_add: "set (fold allow_add ss m) = set m \<union> (TrimSpace ` set ss - {''''})"
  by (induction ss arbitrary: m) (auto simp: set_allow_add)

lemma set_allow_sub_agents:
  "allow_sub_agents ns m = Inr m' \<Longrightarrow>
   set m' = set m \<union> ({TrimSpace x |x n. n \<in> set ns \<and> subAgentToolName n = Inr x} - {''''}) \<and>
   (\<forall>n \<in> set ns. \<exists>x. subAgentToolName n = Inr x)"
  by (induction ns arbitrary: m) (auto simp: set_allow_add split: sum.splits)

lemma set_fold_tools: "set (fold (\<lambda>tid. allow_add (mcpToolName server tid)) tools m) =
    set m \<union> ((\<lambda>tid. TrimSpace (mcpToolName server tid)) ` set tools - {''''})"
  by (induction tools arbitrary: m) (auto simp: set_allow_add)

lemma set_fold_servers:
  "set (fold (\<lambda>(server, tools) m. fold (\<lambda>tid. allow_add (mcpToolName server tid)) tools m) servers m) =
    set m \<union> ((\<Union>(server, tools) \<in> set servers. (\<lambda>tid. TrimSpace (mcpToolName server tid)) ` set tools) - {''''})"
  by (induction servers arbitrary: m) (auto simp: set_fold_tools)

definition allowed_names :: "allowlist_config \<Rightarrow> string set" where
  "allowed_names c = TrimSpace ` set (al_ToolNames c)
     \<union> {TrimSpace x |x n. n \<in> set (al_SubAgentNames c) \<and> subAgentToolName n = Inr x}
     \<union> (\<Union>(server, tools) \<in> set (al_MCPTools c).
          (\<lambda>tid. TrimSpace (mcpToolName server tid)) ` set tools) - {''''}"

lemma AllowlistToolApprovalPolicy_set:
  assumes "AllowlistToolApprovalPolicy c = Inr p"
  shows "\<exists>m. p = AllowlistToolApproval m \<and> set m = allowed_names c"
  using assms set_allow_sub_agents [of "al_SubAgentNames c" "fold allow_add (al_ToolNames c) []"]
  by (auto simp: AllowlistToolApprovalPolicy_def allowed_names_def Let_def set_fold_servers
      set_fold_allow_add split: sum.splits)

text \<open>Names built from trimmed parts are trimmed.\<close>

lemma TrimSpace_id: "s \<noteq> '''' \<Longrightarrow> \<not> is_space (hd s) \<Longrightarrow> \<not> is_space (last s) \<Longrightarrow> TrimSpace s = s"
proof -
  assume a: "s \<noteq> ''''" "\<not> is_space (hd s)" "\<not> is_space (last s)"
  then have "dropWhile is_space s = s" by (cases s) auto
  moreover have "dropWhile is_space (rev s) = rev s"
    using a by (cases s rule: rev_cases) auto
  ultimately show ?thesis by (simp add: TrimSpace_def)
qed

lemma TrimSpace_ends:
  assumes "TrimSpace s = s" "s \<noteq> ''''"
  shows "\<not> is_space (hd s)" "\<not> is_space (last s)"
proof -
  show "\<not> is_space (hd s)" using TrimSpace_hd [of s] assms by simp
  have "rev s = dropWhile is_space (rev (dropWhile is_space s))"
    using assms(1) by (metis TrimSpace_def rev_rev_ident)
  then have "\<not> is_space (hd (rev s))" using assms(2) by (metis hd_dropWhile rev_is_Nil_conv)
  then show "\<not> is_space (last s)" using assms(2) by (simp add: hd_rev)
qed

lemma mcpToolName_trimmed:
  assumes "TrimSpace s = s" "s \<noteq> ''''" "TrimSpace t = t" "t \<noteq> ''''"
  shows "mcpToolName s t = ''mcp_'' @ s @ ''_'' @ t"
    and "TrimSpace (mcpToolName s t) = mcpToolName s t"
proof -
  show n: "mcpToolName s t = ''mcp_'' @ s @ ''_'' @ t" using assms by (simp add: mcpToolName_def)
  show "TrimSpace (mcpToolName s t) = mcpToolName s t"
    unfolding n using TrimSpace_ends(2) [OF assms(3,4)] assms(4)
    by (intro TrimSpace_id) (simp_all add: is_space_def)
qed

lemma TrimSpace_join:
  assumes "TrimSpace a = a" "a \<noteq> ''''" "TrimSpace b = b" "b \<noteq> ''''"
  shows "TrimSpace (a @ ''_'' @ b) = a @ ''_'' @ b"
  using TrimSpace_ends [OF assms(1,2)] TrimSpace_ends [OF assms(3,4)] assms(2,4)
  by (intro TrimSpace_id) simp_all

text \<open>The allowlist policy lets a tool run without approval exactly when the tool's name is one of the
  trimmed tool names, the delegation name of a listed sub-agent, or the name of a listed MCP
  tool; blank entries allow nothing.\<close>

theorem allowlist_exact:
  assumes "AllowlistToolApprovalPolicy c = Inr p"
  shows "policy_RequiresApproval p t \<longleftrightarrow> tl_Name t \<notin> allowed_names c"
  using AllowlistToolApprovalPolicy_set [OF assms] by auto

theorem allowlist_exact_witness:
  "\<exists>p. AllowlistToolApprovalPolicy \<lparr>al_ToolNames = ['' echo '', ''''], al_SubAgentNames = [''data team''],
      al_MCPTools = [(''git'', [''log''])]\<rparr> = Inr p \<and>
    \<not> policy_RequiresApproval p (NewRegisteredMemoryTool\<lparr>tl_Name := ''subagent_data_team''\<rparr>) \<and>
    policy_RequiresApproval p NewRegisteredMemoryTool"
proof -
  let ?c = "\<lparr>al_ToolNames = ['' echo '', ''''], al_SubAgentNames = [''data team''],
      al_MCPTools = [(''git'', [''log''])]\<rparr>"
  let ?p = "AllowlistToolApproval [''echo'', ''subagent_data_team'', ''mcp_git_log'']"
  have s: "subAgentToolName ''data team'' = Inr ''subagent_data_team''" by code_simp
  have t: "TrimSpace '' echo '' = ''echo''" "TrimSpace ''subagent_data_team'' = ''subagent_data_team''"
    "TrimSpace (mcpToolName ''git'' ''log'') = ''mcp_git_log''" by code_simp+
  have p: "AllowlistToolApprovalPolicy ?c = Inr ?p"
    by (simp add: AllowlistToolApprovalPolicy_def allow_add_def s t)
  have "''subagent_data_team'' \<in> allowed_names ?c"
    using s t by (force simp: allowed_names_def)
  with allowlist_exact [OF p, of "NewRegisteredMemoryTool\<lparr>tl_Name := ''subagent_data_team''\<rparr>"] p
  show ?thesis
    by (intro exI [of _ ?p]) (simp add: NewRegisteredMemoryTool_def memory_tool_def SaveMemoryToolName_def)
qed

text \<open>C38. The name of an MCP tool does not tell where the server's key ends: the tool \<open>b\<close> of the server
  \<open>s_a\<close> has the name of the tool \<open>a_b\<close> of the server \<open>s\<close>. An allowlist that names the one tool
  therefore lets the other one, of a different server, run without approval.\<close>

theorem allowlist_crosses_servers:
  assumes "TrimSpace s = s" "s \<noteq> ''''" "TrimSpace a = a" "a \<noteq> ''''"
    and "TrimSpace (spec_Name spec) = spec_Name spec" "spec_Name spec \<noteq> ''''"
    and "AllowlistToolApprovalPolicy c = Inr p"
    and "(s, tools) \<in> set (al_MCPTools c)" "a @ ''_'' @ spec_Name spec \<in> set tools"
  shows "\<not> policy_RequiresApproval p (NewMCPTool co (s @ ''_'' @ a) spec client)"
proof -
  have "tl_Name (NewMCPTool co (s @ ''_'' @ a) spec client) = mcpToolName s (a @ ''_'' @ spec_Name spec)"
    using assms(1-6) TrimSpace_join
    by (simp add: NewMCPTool_def mcpToolName_trimmed)
  moreover have "TrimSpace (mcpToolName s (a @ ''_'' @ spec_Name spec)) =
      mcpToolName s (a @ ''_'' @ spec_Name spec)"
    using assms(4) by (intro mcpToolName_trimmed(2) assms(1,2) TrimSpace_join assms(3-6)) simp
  moreover have "mcpToolName s (a @ ''_'' @ spec_Name spec) \<noteq> ''''"
    using assms(1-6) TrimSpace_join [OF assms(3-6)] by (simp add: mcpToolName_trimmed(1))
  moreover have "TrimSpace (mcpToolName s (a @ ''_'' @ spec_Name spec)) \<in>
      (\<Union>(server, tools) \<in> set (al_MCPTools c). (\<lambda>tid. TrimSpace (mcpToolName server tid)) ` set tools)"
    using assms(8,9) by blast
  ultimately have "tl_Name (NewMCPTool co (s @ ''_'' @ a) spec client) \<in> allowed_names c"
    unfolding allowed_names_def by auto
  then show ?thesis
    using AllowlistToolApprovalPolicy_set [OF assms(7)] by auto
qed

theorem allowlist_crosses_servers_witness:
  "\<exists>p. AllowlistToolApprovalPolicy \<lparr>al_ToolNames = [], al_SubAgentNames = [],
      al_MCPTools = [(''files'', [''admin_delete''])]\<rparr> = Inr p \<and>
    (\<forall>co. \<not> policy_RequiresApproval p (NewMCPTool co ''files_admin''
        \<lparr>spec_Name = ''delete'', spec_Description = '''', spec_Parameters = ANil\<rparr>
        (None :: unit mcp_client option)))"
proof -
  let ?c = "\<lparr>al_ToolNames = [], al_SubAgentNames = [], al_MCPTools = [(''files'', [''admin_delete''])]\<rparr>"
  have t: "TrimSpace ''files'' = ''files''" "TrimSpace ''admin'' = ''admin''"
    "TrimSpace ''delete'' = ''delete''" by code_simp+
  obtain p :: "unit approval_policy" where p: "AllowlistToolApprovalPolicy ?c = Inr p"
    by (simp add: AllowlistToolApprovalPolicy_def)
  from allowlist_crosses_servers [OF t(1) _ t(2) _ _ _ p, where tools = "[''admin_delete'']" and
      spec = "\<lparr>spec_Name = ''delete'', spec_Description = '''', spec_Parameters = ANil\<rparr>"] t p
  show ?thesis by auto
qed

section \<open>Delegation names\<close>

lemma replace_runs_chars: "c \<in> set (replace_runs b s) \<Longrightarrow> is_ident_char c \<or> c = CHR ''_''"
  by (induction b s rule: replace_runs.induct) (auto split: if_splits)

lemma underscore_not_ident [simp]: "\<not> is_ident_char (CHR ''_'')"
  by (simp add: is_ident_char_def is_lower_def is_upper_def is_decimal_def)

lemma replace_runs_ident: "filter is_ident_char (replace_runs b s) = filter is_ident_char s"
  by (induction b s rule: replace_runs.induct) auto

lemma set_Trim_char: "set (Trim_char x s) \<subseteq> set s"
  by (auto simp: Trim_char_def dest!: set_dropWhileD)

lemma ident_not_space: "is_ident_char c \<Longrightarrow> \<not> is_space c"
  by (auto simp: is_ident_char_def is_lower_def is_upper_def is_decimal_def is_space_def)

lemma filter_dropWhile_none: "(\<And>c. P c \<Longrightarrow> \<not> Q c) \<Longrightarrow> filter Q (dropWhile P s) = filter Q s"
  by (induction s) auto

lemma filter_trim_none:
  assumes "\<And>c. P c \<Longrightarrow> \<not> Q c"
  shows "filter Q (rev (dropWhile P (rev (dropWhile P s)))) = filter Q s"
  using filter_dropWhile_none [of P Q, OF assms] by (simp add: rev_filter [symmetric])

lemma filter_Trim_char: "\<not> Q x \<Longrightarrow> filter Q (Trim_char x s) = filter Q s"
  unfolding Trim_char_def by (rule filter_trim_none) simp

lemma filter_TrimSpace: "filter is_ident_char (TrimSpace s) = filter is_ident_char s"
  unfolding TrimSpace_def by (rule filter_trim_none) (auto dest: ident_not_space)

lemma Trim_char_ends:
  assumes "Trim_char x s \<noteq> ''''"
  shows "hd (Trim_char x s) \<noteq> x \<and> last (Trim_char x s) \<noteq> x"
proof -
  let ?d = "dropWhile (\<lambda>c. c = x) s" and ?P = "\<lambda>c. c = x"
  have ne: "dropWhile ?P (rev ?d) \<noteq> []" using assms by (simp add: Trim_char_def)
  then have l: "last (Trim_char x s) \<noteq> x"
    using hd_dropWhile [OF ne] by (simp add: Trim_char_def last_rev)
  have d: "?d \<noteq> []" using ne by (metis dropWhile.simps(1) rev.simps(1))
  obtain zs where "?d = Trim_char x s @ zs"
    unfolding Trim_char_def by (metis rev_append rev_rev_ident takeWhile_dropWhile_id)
  then have "hd (Trim_char x s) = hd ?d" using assms by simp
  with hd_dropWhile [OF d] l show ?thesis by simp
qed

text \<open>The delegation tool of a sub-agent: a name is rejected exactly when it has no letter or digit;
  otherwise the tool's name is the prefix and a word of letters, digits and underscores that
  begins and ends with a letter or digit and keeps the letters and digits of the name in order.\<close>

theorem delegation_name:
  "case subAgentToolName name of
     Inl e \<Rightarrow> filter is_ident_char name = ''''
   | Inr t \<Rightarrow> filter is_ident_char name \<noteq> '''' \<and>
      (\<exists>safe. t = ''subagent_'' @ safe \<and> safe \<noteq> '''' \<and>
        (\<forall>c \<in> set safe. is_ident_char c \<or> c = CHR ''_'') \<and>
        is_ident_char (hd safe) \<and> is_ident_char (last safe) \<and>
        filter is_ident_char safe = filter is_ident_char name)"
proof -
  let ?safe = "Trim_char (CHR ''_'') (replace_runs False (TrimSpace name))"
  have f: "filter is_ident_char ?safe = filter is_ident_char name"
    by (simp add: filter_Trim_char replace_runs_ident filter_TrimSpace)
  have chars: "\<forall>c \<in> set ?safe. is_ident_char c \<or> c = CHR ''_''"
    using set_Trim_char replace_runs_chars by fast
  have ends: "?safe \<noteq> '''' \<Longrightarrow> is_ident_char (hd ?safe) \<and> is_ident_char (last ?safe)"
    using Trim_char_ends [of "CHR ''_''" "replace_runs False (TrimSpace name)"] chars
    by (metis hd_in_set last_in_set)
  have ne: "?safe = '''' \<longleftrightarrow> filter is_ident_char name = ''''"
    using f ends by (metis filter.simps(1) filter_empty_conv hd_in_set)
  have blank: "TrimSpace name = '''' \<Longrightarrow> filter is_ident_char name = ''''"
    by (metis filter.simps(1) filter_TrimSpace)
  have "(\<exists>e. subAgentToolName name = Inl e) \<longleftrightarrow> filter is_ident_char name = ''''"
    using ne blank by (auto simp: subAgentToolName_def Let_def)
  moreover have "\<exists>safe. t = ''subagent_'' @ safe \<and> safe \<noteq> '''' \<and>
        (\<forall>c \<in> set safe. is_ident_char c \<or> c = CHR ''_'') \<and>
        is_ident_char (hd safe) \<and> is_ident_char (last safe) \<and>
        filter is_ident_char safe = filter is_ident_char name"
    if "subAgentToolName name = Inr t" for t
    using that f chars ends
    by (intro exI [of _ ?safe]) (auto simp: subAgentToolName_def Let_def split: if_splits)
  ultimately show ?thesis by (auto split: sum.split)
qed

theorem delegation_name_witness:
  "\<exists>safe. ''subagent_Data_Team_2'' = ''subagent_'' @ safe \<and> is_ident_char (hd safe)"
proof -
  have "subAgentToolName '' Data -- Team (2)'' = Inr ''subagent_Data_Team_2''" by code_simp
  with delegation_name [of "'' Data -- Team (2)''"] show ?thesis by (simp only: sum.case) blast
qed

section \<open>Texts of an A2A reply\<close>

lemma collect_parts_Join:
  "collect_parts sb ps = Join (if sb = '''' then texts else sb # texts) nl"
  if "texts = filter (\<lambda>t. t \<noteq> '''') (map pt_Text (filter (\<lambda>p. pt_Kind p = ''text'') ps))"
  using that
proof (induction ps arbitrary: sb texts)
  case Nil
  then show ?case by simp
next
  case (Cons p ps)
  let ?ts = "filter (\<lambda>t. t \<noteq> '''') (map pt_Text (filter (\<lambda>p. pt_Kind p = ''text'') ps))"
  have join2: "Join ((sb @ nl @ t) # ?ts) nl = Join (sb # t # ?ts) nl" for t
    by (cases ?ts) simp_all
  show ?case
    using Cons.prems Cons.IH [OF refl, of sb] Cons.IH [OF refl, of "sb @ nl @ pt_Text p"]
      Cons.IH [OF refl, of "pt_Text p"] join2 [of "pt_Text p"]
    by auto
qed

text \<open>The text of a reply: its non-empty text parts, one per line.\<close>

lemma a2a_text_joined:
  "a2aCollectText (Some m) =
    Join (filter (\<lambda>t. t \<noteq> '''') (map pt_Text (filter (\<lambda>p. pt_Kind p = ''text'') (am_Parts m)))) nl"
  using collect_parts_Join [OF refl, of "''''" "am_Parts m"] by (simp add: a2aCollectText_def)

section \<open>Fingerprints of policies\<close>

text \<open>The fingerprint by which caller and worker compare their policies does not tell the lists
  apart: a list with the name \<open>a,b\<close> has the fingerprint of a list with the two names \<open>a\<close> and \<open>b\<close>, although
  the two policies disagree on the tool \<open>a\<close>.\<close>

theorem policy_fingerprint_collision:
  assumes "a < b" "CHR '','' \<notin> set a"
  shows "toolPolicyFingerprint (Some (AllowlistToolApproval [a @ '','' @ b])) =
      toolPolicyFingerprint (Some (AllowlistToolApproval [a, b])) \<and>
    (tl_Name t = a \<longrightarrow> policy_RequiresApproval (AllowlistToolApproval [a @ '','' @ b]) t \<and>
      \<not> policy_RequiresApproval (AllowlistToolApproval [a, b]) t)"
  using assms by (auto simp: insort_key.simps)

theorem policy_fingerprint_collision_witness:
  "toolPolicyFingerprint (Some (AllowlistToolApproval [''read,write''])) =
     toolPolicyFingerprint (Some (AllowlistToolApproval [''read'', ''write'']))"
  using policy_fingerprint_collision [of "''read''" "''write''" NewRegisteredMemoryTool]
  by simp

end
