(* ===== verification/Agent_Registry.thy ===== *)
theory Agent_Registry
  imports Agent_Tools
begin

text \<open>
  The registries of an agent: tools, MCP clients, A2A clients and sub-agents (\<open>tool_registry.go\<close>,
  \<open>mcp_registry.go\<close>, \<open>a2a_registry.go\<close>, \<open>subagent_registry.go\<close> of \<open>pkg/agent\<close>). Each is a map and the
  order of registration, under a lock, so a history is a sequence of operations. Their common
  contract is the locale \<open>named_registry\<close>: a registry is an association list in registration order,
  keyed by the trimmed names of its entries. A nil entry is \<open>None\<close>. A failing operation returns the
  registry as it was.
\<close>

section \<open>Errors and helpers\<close>

definition ErrRegistryNotFound :: go_error where
  "ErrRegistryNotFound = ErrNew ''agent: registry entry not found''"
definition ErrRegistryDuplicate :: go_error where
  "ErrRegistryDuplicate = ErrNew ''agent: registry entry already exists''"
definition ErrRegistryInvalidName :: go_error where
  "ErrRegistryInvalidName = ErrNew ''agent: registry name must not be empty''"
definition ErrRegistryNilEntry :: go_error where
  "ErrRegistryNilEntry = ErrNew ''agent: registry entry must not be nil''"

lemmas registry_error_defs = ErrRegistryNotFound_def ErrRegistryDuplicate_def
  ErrRegistryInvalidName_def ErrRegistryNilEntry_def

fun removeFromOrder :: "string list \<Rightarrow> string \<Rightarrow> string list" where
  "removeFromOrder [] name = []"
| "removeFromOrder (n # order) name = (if n = name then order else n # removeFromOrder order name)"

text \<open>The loop of every \<open>List\<close>.\<close>

fun in_order :: "(string \<rightharpoonup> 'e) \<Rightarrow> string list \<Rightarrow> 'e list" where
  "in_order m [] = []"
| "in_order m (name # order) = (case m name of
      Some t \<Rightarrow> t # in_order m order | None \<Rightarrow> in_order m order)"

section \<open>Tools\<close>

record 'w tool_registry =
  tg_tools :: "string \<rightharpoonup> 'w tool"
  tg_order :: "string list"

definition NewToolRegistry :: "'w tool_registry" where
  "NewToolRegistry = \<lparr>tg_tools = Map.empty, tg_order = []\<rparr>"

definition tool_Register ::
    "'w tool option \<Rightarrow> 'w tool_registry \<Rightarrow> go_error option \<times> 'w tool_registry" where
  "tool_Register tool r = (case tool of None \<Rightarrow> (Some ErrRegistryNilEntry, r)
     | Some t \<Rightarrow> (let name = TrimSpace (tl_Name t)
        in if name = '''' then (Some ErrRegistryInvalidName, r)
           else if tg_tools r name \<noteq> None then (Some ErrRegistryDuplicate, r)
           else (None, r\<lparr>tg_order := tg_order r @ [name], tg_tools := (tg_tools r)(name \<mapsto> t)\<rparr>)))"

definition tool_Unregister ::
    "string \<Rightarrow> 'w tool_registry \<Rightarrow> go_error option \<times> 'w tool_registry" where
  "tool_Unregister n r = (let name = TrimSpace n
     in if name = '''' then (Some ErrRegistryInvalidName, r)
        else if tg_tools r name = None then (Some ErrRegistryNotFound, r)
        else (None, r\<lparr>tg_tools := (tg_tools r)(name := None),
                tg_order := removeFromOrder (tg_order r) name\<rparr>))"

definition tool_Get :: "string \<Rightarrow> 'w tool_registry \<Rightarrow> go_error + 'w tool" where
  "tool_Get n r = (let name = TrimSpace n
     in if name = '''' then Inl ErrRegistryInvalidName
        else case tg_tools r name of None \<Rightarrow> Inl ErrRegistryNotFound | Some t \<Rightarrow> Inr t)"

definition tool_List :: "'w tool_registry \<Rightarrow> 'w tool list" where
  "tool_List r = in_order (tg_tools r) (tg_order r)"

fun RegisterTools ::
    "'w tool option list \<Rightarrow> 'w tool_registry \<Rightarrow> go_error option \<times> 'w tool_registry" where
  "RegisterTools [] reg = (None, reg)"
| "RegisterTools (t # tools) reg = (case tool_Register t reg of
      (Some err, reg') \<Rightarrow> (Some err, reg')
    | (None, reg') \<Rightarrow> RegisterTools tools reg')"

section \<open>MCP clients\<close>

record mcp_config =
  mp_Transport :: "mcp_transport option"
  mp_ToolFilter :: mcp_tool_filter
  mp_Timeout :: int
  mp_RetryAttempts :: int

definition newMCPClient :: "string \<Rightarrow> mcp_config \<Rightarrow> go_error + mcp_client_obj" where
  "newMCPClient n cfg = (let name = TrimSpace n
     in if name = '''' then Inl ErrRegistryInvalidName
        else case mp_Transport cfg of
          None \<Rightarrow> Inl (ErrNew (''mcp '' @ Quote name @ '': Transport is required''))
        | Some tr \<Rightarrow>
            (case mcp_NewClient name (Some tr) [Some (mcp_WithTimeout (mp_Timeout cfg)),
                Some (mcp_WithRetryAttempts (mp_RetryAttempts cfg)),
                Some (mcp_WithToolFilter (mp_ToolFilter cfg))] of
               Inl err \<Rightarrow> Inl (ErrWrap (''mcp '' @ Quote name @ '': new client: '') err '''')
             | Inr cl \<Rightarrow> Inr cl))"

record 'w mcp_registry =
  mg_clients :: "string \<rightharpoonup> 'w mcp_client"
  mg_order :: "string list"

definition NewMCPRegistry :: "'w mcp_registry" where
  "NewMCPRegistry = \<lparr>mg_clients = Map.empty, mg_order = []\<rparr>"

definition mcp_registerClientLocked ::
    "'w mcp_client \<Rightarrow> 'w mcp_registry \<Rightarrow> go_error option \<times> 'w mcp_registry" where
  "mcp_registerClientLocked client r = (let name = TrimSpace (mc_Name client)
     in if name = '''' then (Some ErrRegistryInvalidName, r)
        else if mg_clients r name \<noteq> None then (Some ErrRegistryDuplicate, r)
        else (None, r\<lparr>mg_order := mg_order r @ [name], mg_clients := (mg_clients r)(name \<mapsto> client)\<rparr>))"

definition mcp_RegisterClient ::
    "'w mcp_client option \<Rightarrow> 'w mcp_registry \<Rightarrow> go_error option \<times> 'w mcp_registry" where
  "mcp_RegisterClient client r = (case client of None \<Rightarrow> (Some ErrRegistryNilEntry, r)
     | Some cl \<Rightarrow> (let name = TrimSpace (mc_Name cl)
        in if name = '''' then (Some ErrRegistryInvalidName, r) else mcp_registerClientLocked cl r))"

definition mcp_Register ::
    "'w mcp_sdk \<Rightarrow> string \<Rightarrow> mcp_config \<Rightarrow> 'w mcp_registry \<Rightarrow> go_error option \<times> 'w mcp_registry" where
  "mcp_Register sdk name config r = (case newMCPClient name config of
      Inl err \<Rightarrow> (Some err, r)
    | Inr cl \<Rightarrow> mcp_registerClientLocked (as_mcp_client sdk cl) r)"

definition mcp_Unregister ::
    "string \<Rightarrow> 'w mcp_registry \<Rightarrow> go_error option \<times> 'w mcp_registry" where
  "mcp_Unregister n r = (let name = TrimSpace n
     in if name = '''' then (Some ErrRegistryInvalidName, r)
        else if mg_clients r name = None then (Some ErrRegistryNotFound, r)
        else (None, r\<lparr>mg_clients := (mg_clients r)(name := None),
                mg_order := removeFromOrder (mg_order r) name\<rparr>))"

definition mcp_Get :: "string \<Rightarrow> 'w mcp_registry \<Rightarrow> go_error + 'w mcp_client" where
  "mcp_Get n r = (let name = TrimSpace n
     in if name = '''' then Inl ErrRegistryInvalidName
        else case mg_clients r name of None \<Rightarrow> Inl ErrRegistryNotFound | Some c \<Rightarrow> Inr c)"

definition mcp_List :: "'w mcp_registry \<Rightarrow> 'w mcp_client list" where
  "mcp_List r = in_order (mg_clients r) (mg_order r)"

section \<open>A2A clients\<close>

record a2a_config =
  aa_URL :: string
  aa_Timeout :: int
  aa_Token :: string
  aa_Headers :: "nat option"
  aa_SkillFilter :: a2a_skill_filter
  aa_SkipTLSVerify :: bool

definition newA2AClient ::
    "string \<Rightarrow> a2a_config \<Rightarrow> nat \<Rightarrow> header_store \<Rightarrow> (go_error + a2a_client_config) \<times> header_store" where
  "newA2AClient n cfg fresh store = (let name = TrimSpace n
     in if name = '''' then (Inl ErrRegistryInvalidName, store)
        else if TrimSpace (aa_URL cfg) = '''' then
          (Inl (ErrNew (''a2a '' @ Quote name @ '': URL is required'')), store)
        else let opts = [Some (a2a_WithTimeout (aa_Timeout cfg)), Some (a2a_WithToken (aa_Token cfg)),
                Some (a2a_WithHeaders (aa_Headers cfg)), Some (a2a_WithSkillFilter (aa_SkillFilter cfg))]
               @ (if aa_SkipTLSVerify cfg then [Some (a2a_WithSkipTLSVerify True)] else [])
          in case a2a_NewClient name (aa_URL cfg) opts fresh store of
               (Inl err, st) \<Rightarrow> (Inl (ErrWrap (''a2a '' @ Quote name @ '': new client: '') err ''''), st)
             | (Inr cl, st) \<Rightarrow> (Inr cl, st))"

record 'w a2a_registry =
  ag_clients :: "string \<rightharpoonup> 'w a2a_client"
  ag_order :: "string list"

definition NewA2ARegistry :: "'w a2a_registry" where
  "NewA2ARegistry = \<lparr>ag_clients = Map.empty, ag_order = []\<rparr>"

definition a2a_registerClientLocked ::
    "'w a2a_client \<Rightarrow> 'w a2a_registry \<Rightarrow> go_error option \<times> 'w a2a_registry" where
  "a2a_registerClientLocked client r = (let name = TrimSpace (qc_Name client)
     in if name = '''' then (Some ErrRegistryInvalidName, r)
        else if ag_clients r name \<noteq> None then (Some ErrRegistryDuplicate, r)
        else (None, r\<lparr>ag_order := ag_order r @ [name], ag_clients := (ag_clients r)(name \<mapsto> client)\<rparr>))"

definition a2a_RegisterClient ::
    "'w a2a_client option \<Rightarrow> 'w a2a_registry \<Rightarrow> go_error option \<times> 'w a2a_registry" where
  "a2a_RegisterClient client r = (case client of None \<Rightarrow> (Some ErrRegistryNilEntry, r)
     | Some cl \<Rightarrow> a2a_registerClientLocked cl r)"

text \<open>\<open>dial\<close> makes the client of a name, a URL and a configuration; it speaks the protocol.\<close>

definition a2a_Register ::
    "(string \<Rightarrow> string \<Rightarrow> a2a_client_config \<Rightarrow> 'w a2a_client) \<Rightarrow> string \<Rightarrow> a2a_config \<Rightarrow> nat \<Rightarrow>
     'w a2a_registry \<times> header_store \<Rightarrow> go_error option \<times> 'w a2a_registry \<times> header_store" where
  "a2a_Register dial name config fresh rs = (case rs of (r, store) \<Rightarrow>
     (case newA2AClient name config fresh store of
        (Inl err, st) \<Rightarrow> (Some err, r, st)
      | (Inr cl, st) \<Rightarrow>
          (case a2a_registerClientLocked (dial (TrimSpace name) (aa_URL config) cl) r of
             (err, r') \<Rightarrow> (err, r', st))))"

definition a2a_Unregister ::
    "string \<Rightarrow> 'w a2a_registry \<Rightarrow> go_error option \<times> 'w a2a_registry" where
  "a2a_Unregister n r = (let name = TrimSpace n
     in if name = '''' then (Some ErrRegistryInvalidName, r)
        else if ag_clients r name = None then (Some ErrRegistryNotFound, r)
        else (None, r\<lparr>ag_clients := (ag_clients r)(name := None),
                ag_order := removeFromOrder (ag_order r) name\<rparr>))"

definition a2a_Get :: "string \<Rightarrow> 'w a2a_registry \<Rightarrow> go_error + 'w a2a_client" where
  "a2a_Get n r = (let name = TrimSpace n
     in if name = '''' then Inl ErrRegistryInvalidName
        else case ag_clients r name of None \<Rightarrow> Inl ErrRegistryNotFound | Some c \<Rightarrow> Inr c)"

definition a2a_List :: "'w a2a_registry \<Rightarrow> 'w a2a_client list" where
  "a2a_List r = in_order (ag_clients r) (ag_order r)"

section \<open>Sub-agents\<close>

text \<open>An entry is a pointer to an agent, \<open>nm\<close> reads the name that it points to.\<close>

record 'a sub_agent_registry =
  sg_agents :: "string \<rightharpoonup> 'a"
  sg_order :: "string list"

definition NewSubAgentRegistry :: "'a sub_agent_registry" where
  "NewSubAgentRegistry = \<lparr>sg_agents = Map.empty, sg_order = []\<rparr>"

definition sub_Register ::
    "('a \<Rightarrow> string) \<Rightarrow> 'a option \<Rightarrow> 'a sub_agent_registry \<Rightarrow> go_error option \<times> 'a sub_agent_registry" where
  "sub_Register nm sub r = (case sub of None \<Rightarrow> (Some ErrRegistryNilEntry, r)
     | Some s \<Rightarrow> (let name = TrimSpace (nm s)
        in if name = '''' then (Some ErrRegistryInvalidName, r)
           else if sg_agents r name \<noteq> None then (Some ErrRegistryDuplicate, r)
           else (None, r\<lparr>sg_order := sg_order r @ [name], sg_agents := (sg_agents r)(name \<mapsto> s)\<rparr>)))"

definition sub_Unregister ::
    "string \<Rightarrow> 'a sub_agent_registry \<Rightarrow> go_error option \<times> 'a sub_agent_registry" where
  "sub_Unregister n r = (let name = TrimSpace n
     in if name = '''' then (Some ErrRegistryInvalidName, r)
        else if sg_agents r name = None then (Some ErrRegistryNotFound, r)
        else (None, r\<lparr>sg_agents := (sg_agents r)(name := None),
                sg_order := removeFromOrder (sg_order r) name\<rparr>))"

definition sub_Get :: "string \<Rightarrow> 'a sub_agent_registry \<Rightarrow> go_error + 'a" where
  "sub_Get n r = (let name = TrimSpace n
     in if name = '''' then Inl ErrRegistryInvalidName
        else case sg_agents r name of None \<Rightarrow> Inl ErrRegistryNotFound | Some a \<Rightarrow> Inr a)"

definition sub_List :: "'a sub_agent_registry \<Rightarrow> 'a list" where
  "sub_List r = in_order (sg_agents r) (sg_order r)"

section \<open>The contract\<close>

text \<open>
  The key of an entry is its trimmed name; \<open>abs\<close> is the association list that a registry stands for.
\<close>

locale named_registry =
  fixes nm :: "'e \<Rightarrow> string"
    and register :: "'e option \<Rightarrow> 'r \<Rightarrow> go_error option \<times> 'r"
    and unregister :: "string \<Rightarrow> 'r \<Rightarrow> go_error option \<times> 'r"
    and get :: "string \<Rightarrow> 'r \<Rightarrow> go_error + 'e"
    and listed :: "'r \<Rightarrow> 'e list"
    and empty :: 'r
    and abs :: "'r \<Rightarrow> (string \<times> 'e) list"
    and inv :: "'r \<Rightarrow> bool"
  assumes empty: "inv empty" "abs empty = []"
    and register_nil: "register None r = (Some ErrRegistryNilEntry, r)"
    and register_error: "inv r \<Longrightarrow> fst (register (Some e) r) =
      (if TrimSpace (nm e) = '''' then Some ErrRegistryInvalidName
       else if map_of (abs r) (TrimSpace (nm e)) \<noteq> None then Some ErrRegistryDuplicate else None)"
    and register_fails: "fst (register x r) \<noteq> None \<Longrightarrow> snd (register x r) = r"
    and register_adds: "inv r \<Longrightarrow> fst (register (Some e) r) = None \<Longrightarrow>
      inv (snd (register (Some e) r)) \<and>
      abs (snd (register (Some e) r)) = abs r @ [(TrimSpace (nm e), e)]"
    and unregister_error: "inv r \<Longrightarrow> fst (unregister n r) =
      (if TrimSpace n = '''' then Some ErrRegistryInvalidName
       else if map_of (abs r) (TrimSpace n) = None then Some ErrRegistryNotFound else None)"
    and unregister_fails: "fst (unregister n r) \<noteq> None \<Longrightarrow> snd (unregister n r) = r"
    and unregister_removes: "inv r \<Longrightarrow> fst (unregister n r) = None \<Longrightarrow>
      inv (snd (unregister n r)) \<and>
      abs (snd (unregister n r)) = filter (\<lambda>p. fst p \<noteq> TrimSpace n) (abs r)"
    and get_spec: "inv r \<Longrightarrow> get n r =
      (if TrimSpace n = '''' then Inl ErrRegistryInvalidName
       else case map_of (abs r) (TrimSpace n) of None \<Rightarrow> Inl ErrRegistryNotFound | Some e \<Rightarrow> Inr e)"
    and listed_spec: "inv r \<Longrightarrow> listed r = map snd (abs r)"
    and keys: "inv r \<Longrightarrow> distinct (map fst (abs r)) \<and>
      (\<forall>p \<in> set (abs r). fst p = TrimSpace (nm (snd p)) \<and> fst p \<noteq> '''')"
begin

lemma inv_register: "inv r \<Longrightarrow> inv (snd (register x r))"
  using register_adds [of r] register_fails [of x r] register_nil [of r]
  by (cases x; cases "fst (register x r)") auto

lemma inv_unregister: "inv r \<Longrightarrow> inv (snd (unregister n r))"
  using unregister_removes [of r n] unregister_fails [of n r] by (cases "fst (unregister n r)") auto

lemma listed_keys:
  assumes "inv r"
  shows "distinct (map (\<lambda>e. TrimSpace (nm e)) (listed r)) \<and> (\<forall>e \<in> set (listed r). TrimSpace (nm e) \<noteq> '''')"
proof -
  have "map (\<lambda>e. TrimSpace (nm e)) (listed r) = map fst (abs r)"
    using keys [OF assms] by (simp add: listed_spec [OF assms])
  then have "distinct (map (\<lambda>e. TrimSpace (nm e)) (listed r))" using keys [OF assms] by metis
  moreover have "\<forall>e \<in> set (listed r). TrimSpace (nm e) \<noteq> ''''"
    using keys [OF assms] by (auto simp: listed_spec [OF assms])
  ultimately show ?thesis by simp
qed

lemma get_listed: "inv r \<Longrightarrow> get n r = Inr e \<longleftrightarrow> e \<in> set (listed r) \<and> TrimSpace (nm e) = TrimSpace n"
proof -
  assume r: "inv r"
  note k = keys [OF r]
  have "get n r = Inr e \<longleftrightarrow> TrimSpace n \<noteq> '''' \<and> map_of (abs r) (TrimSpace n) = Some e"
    by (simp add: get_spec [OF r] split: option.split)
  also have "\<dots> \<longleftrightarrow> TrimSpace n \<noteq> '''' \<and> (TrimSpace n, e) \<in> set (abs r)"
    using k by (simp add: map_of_eq_Some_iff)
  also have "\<dots> \<longleftrightarrow> e \<in> snd ` set (abs r) \<and> TrimSpace (nm e) = TrimSpace n"
    using k by force
  finally show ?thesis by (simp add: listed_spec [OF r])
qed

lemma get_after_register:
  assumes "inv r" "fst (register (Some e) r) = None"
  shows "get (nm e) (snd (register (Some e) r)) = Inr e"
  using register_adds [OF assms] get_listed [of "snd (register (Some e) r)" "nm e" e]
    listed_spec [of "snd (register (Some e) r)"] by simp

lemma unregister_after_register:
  assumes "inv r" "fst (register (Some e) r) = None"
  shows "fst (unregister (nm e) (snd (register (Some e) r))) = None \<and>
    abs (snd (unregister (nm e) (snd (register (Some e) r)))) = abs r"
proof -
  let ?r = "snd (register (Some e) r)"
  have r: "inv ?r" "abs ?r = abs r @ [(TrimSpace (nm e), e)]" using register_adds [OF assms] by simp_all
  have n: "TrimSpace (nm e) \<noteq> ''''" "map_of (abs r) (TrimSpace (nm e)) = None"
    using register_error [OF assms(1), of e] assms(2) by (auto split: if_splits)
  have "fst (unregister (nm e) ?r) = None"
    using unregister_error [OF r(1), of "nm e"] n r(2) by (simp add: map_of_append)
  moreover have "filter (\<lambda>p. fst p \<noteq> TrimSpace (nm e)) (abs r) = abs r"
    using n(2) by (intro filter_True) (force simp: map_of_eq_None_iff)
  ultimately show ?thesis using unregister_removes [OF r(1), of "nm e"] r(2) by simp
qed

end

text \<open>Registering one entry after another, until the first error.\<close>

fun register_all ::
    "('e option \<Rightarrow> 'r \<Rightarrow> go_error option \<times> 'r) \<Rightarrow> 'e option list \<Rightarrow> 'r \<Rightarrow> go_error option \<times> 'r" where
  "register_all reg [] r = (None, r)"
| "register_all reg (e # es) r = (case reg e r of
      (Some err, r') \<Rightarrow> (Some err, r')
    | (None, r') \<Rightarrow> register_all reg es r')"

lemma RegisterTools_all: "RegisterTools = register_all tool_Register"
  by (intro ext) (rename_tac es r, induct_tac es r rule: RegisterTools.induct, simp_all split: prod.splits option.splits)

context named_registry begin

definition fresh_entries :: "'e list \<Rightarrow> 'r \<Rightarrow> bool" where
  "fresh_entries es r \<longleftrightarrow> distinct (map (\<lambda>e. TrimSpace (nm e)) es) \<and>
     (\<forall>e \<in> set es. TrimSpace (nm e) \<noteq> '''' \<and> map_of (abs r) (TrimSpace (nm e)) = None)"

lemma fresh_entries_Cons:
  assumes "abs r1 = abs r @ [(TrimSpace (nm e), e)]" "TrimSpace (nm e) \<noteq> ''''"
    "map_of (abs r) (TrimSpace (nm e)) = None"
  shows "fresh_entries (e # es) r \<longleftrightarrow> fresh_entries es r1"
proof -
  have "map_of (abs r1) k = None \<longleftrightarrow> map_of (abs r) k = None \<and> k \<noteq> TrimSpace (nm e)" for k
    using assms(1) by (auto simp: map_of_append map_add_def split: option.splits)
  then show ?thesis using assms(2,3) unfolding fresh_entries_def by (simp add: image_iff) metis
qed

lemma register_all_inv: "inv r \<Longrightarrow> inv (snd (register_all register es r))"
proof (induction es arbitrary: r)
  case (Cons e es)
  from inv_register [OF Cons.prems, of e] Cons.IH show ?case
    by (auto split: prod.splits option.splits)
qed simp

lemma register_all_ok:
  "inv r \<Longrightarrow> fst (register_all register es r) = None \<longleftrightarrow>
     None \<notin> set es \<and> fresh_entries (present es) r"
  "inv r \<Longrightarrow> fst (register_all register es r) = None \<Longrightarrow>
     abs (snd (register_all register es r)) = abs r @ map (\<lambda>e. (TrimSpace (nm e), e)) (present es)"
proof (induction es arbitrary: r)
  case Nil
  {
    case 1 then show ?case by (simp add: fresh_entries_def)
  next
    case 2 then show ?case by simp
  }
next
  case (Cons x es)
  {
    case 1
    show ?case
    proof (cases x)
      case None
      then show ?thesis by (simp add: register_nil)
    next
      case (Some e)
      obtain err r1 where r1: "register (Some e) r = (err, r1)" by force
      show ?thesis
      proof (cases err)
        case None
        with register_adds [OF 1, of e] r1 have i: "inv r1" "abs r1 = abs r @ [(TrimSpace (nm e), e)]" by simp_all
        from register_error [OF 1, of e] r1 None
        have n: "TrimSpace (nm e) \<noteq> ''''" "map_of (abs r) (TrimSpace (nm e)) = None"
          by (auto split: if_splits)
        from Cons.IH(1) [OF i(1)] fresh_entries_Cons [OF i(2) n] r1 Some None show ?thesis by simp
      next
        case (Some err')
        with register_error [OF 1, of e] r1 \<open>x = Some e\<close> show ?thesis
          by (auto simp: fresh_entries_def split: if_splits)
      qed
    qed
  next
    case 2
    show ?case
    proof (cases x)
      case None
      with 2 show ?thesis by (simp add: register_nil)
    next
      case (Some e)
      obtain err r1 where r1: "register (Some e) r = (err, r1)" by force
      with 2(2) Some have err: "err = None" by (auto split: option.splits)
      with register_adds [OF 2(1), of e] r1 have i: "inv r1" "abs r1 = abs r @ [(TrimSpace (nm e), e)]"
        by simp_all
      from Cons.IH(2) [OF i(1)] i(2) 2(2) r1 err Some show ?thesis by simp
    qed
  }
qed

end

section \<open>The registries keep the contract\<close>

text \<open>What the four have in common: an index of entries and their order.\<close>

definition index_ok :: "(string \<rightharpoonup> 'e) \<Rightarrow> string list \<Rightarrow> ('e \<Rightarrow> string) \<Rightarrow> bool" where
  "index_ok m order nm \<longleftrightarrow> distinct order \<and> set order = dom m \<and>
     (\<forall>n e. m n = Some e \<longrightarrow> n = TrimSpace (nm e) \<and> n \<noteq> '''')"

definition index_list :: "(string \<rightharpoonup> 'e) \<Rightarrow> string list \<Rightarrow> (string \<times> 'e) list" where
  "index_list m order = map (\<lambda>n. (n, the (m n))) order"

lemma removeFromOrder_remove1: "removeFromOrder order n = remove1 n order"
  by (induction order) auto

lemma in_order_index: "set order \<subseteq> dom m \<Longrightarrow> in_order m order = map snd (index_list m order)"
  by (induction order) (auto simp: index_list_def)

lemma map_of_index: "set order = dom m \<Longrightarrow> map_of (index_list m order) = m"
proof (rule ext)
  fix k assume o: "set order = dom m"
  have "map_of (map (\<lambda>n. (n, the (m n))) order) k = (if k \<in> set order then Some (the (m k)) else None)"
    by (induction order) auto
  with o show "map_of (index_list m order) k = m k" by (auto simp: index_list_def)
qed

lemma index_keys: "index_ok m order nm \<Longrightarrow> distinct (map fst (index_list m order)) \<and>
    (\<forall>p \<in> set (index_list m order). fst p = TrimSpace (nm (snd p)) \<and> fst p \<noteq> '''')"
  by (auto simp: index_ok_def index_list_def comp_def)

lemma index_add:
  assumes "index_ok m order nm" "TrimSpace (nm e) \<noteq> ''''" "m (TrimSpace (nm e)) = None"
  shows "index_ok (m(TrimSpace (nm e) \<mapsto> e)) (order @ [TrimSpace (nm e)]) nm"
    and "index_list (m(TrimSpace (nm e) \<mapsto> e)) (order @ [TrimSpace (nm e)]) =
      index_list m order @ [(TrimSpace (nm e), e)]"
  using assms by (auto simp: index_ok_def index_list_def)

lemma index_remove:
  assumes "index_ok m order nm"
  shows "index_ok (m(n := None)) (removeFromOrder order n) nm"
    and "index_list (m(n := None)) (removeFromOrder order n) = filter (\<lambda>p. fst p \<noteq> n) (index_list m order)"
proof -
  have d: "distinct order" using assms by (simp add: index_ok_def)
  then show "index_ok (m(n := None)) (removeFromOrder order n) nm"
    using assms by (auto simp: index_ok_def removeFromOrder_remove1)
  from d show "index_list (m(n := None)) (removeFromOrder order n) =
      filter (\<lambda>p. fst p \<noteq> n) (index_list m order)"
    by (auto simp: index_list_def removeFromOrder_remove1 distinct_remove1_removeAll
        removeAll_filter_not_eq filter_map comp_def intro!: map_cong filter_cong)
qed

lemma index_key: "p \<in> set (index_list m order) \<Longrightarrow> index_ok m order nm \<Longrightarrow>
    fst p = TrimSpace (nm (snd p)) \<and> TrimSpace (nm (snd p)) \<noteq> ''''"
  using index_keys [of m order nm] by force

lemmas index_facts = index_add index_remove index_keys in_order_index map_of_index

definition tool_inv :: "'w tool_registry \<Rightarrow> bool" where
  "tool_inv r \<longleftrightarrow> index_ok (tg_tools r) (tg_order r) tl_Name"
definition tool_abs :: "'w tool_registry \<Rightarrow> (string \<times> 'w tool) list" where
  "tool_abs r = index_list (tg_tools r) (tg_order r)"

lemma index_ok_dom: "index_ok m order nm \<Longrightarrow> set order = dom m" by (simp add: index_ok_def)

lemma index_empty [simp]: "index_ok Map.empty [] nm" "index_list Map.empty [] = []"
  by (simp_all add: index_ok_def index_list_def)

interpretation tools: named_registry tl_Name tool_Register tool_Unregister tool_Get tool_List
  NewToolRegistry tool_abs tool_inv
  by unfold_locales
    (auto simp: NewToolRegistry_def tool_Register_def tool_Unregister_def tool_Get_def tool_List_def
      tool_inv_def tool_abs_def Let_def index_facts index_ok_dom dest: index_key
      split: option.splits if_splits)

definition mcp_inv :: "'w mcp_registry \<Rightarrow> bool" where
  "mcp_inv r \<longleftrightarrow> index_ok (mg_clients r) (mg_order r) mc_Name"
definition mcp_abs :: "'w mcp_registry \<Rightarrow> (string \<times> 'w mcp_client) list" where
  "mcp_abs r = index_list (mg_clients r) (mg_order r)"

interpretation mcps: named_registry mc_Name mcp_RegisterClient mcp_Unregister mcp_Get mcp_List
  NewMCPRegistry mcp_abs mcp_inv
  by unfold_locales
    (auto simp: NewMCPRegistry_def mcp_RegisterClient_def mcp_registerClientLocked_def
      mcp_Unregister_def mcp_Get_def mcp_List_def mcp_inv_def mcp_abs_def Let_def index_facts
      index_ok_dom dest: index_key split: option.splits if_splits)

definition a2a_inv :: "'w a2a_registry \<Rightarrow> bool" where
  "a2a_inv r \<longleftrightarrow> index_ok (ag_clients r) (ag_order r) qc_Name"
definition a2a_abs :: "'w a2a_registry \<Rightarrow> (string \<times> 'w a2a_client) list" where
  "a2a_abs r = index_list (ag_clients r) (ag_order r)"

interpretation a2as: named_registry qc_Name a2a_RegisterClient a2a_Unregister a2a_Get a2a_List
  NewA2ARegistry a2a_abs a2a_inv
  by unfold_locales
    (auto simp: NewA2ARegistry_def a2a_RegisterClient_def a2a_registerClientLocked_def
      a2a_Unregister_def a2a_Get_def a2a_List_def a2a_inv_def a2a_abs_def Let_def index_facts
      index_ok_dom dest: index_key split: option.splits if_splits)

definition sub_inv :: "('a \<Rightarrow> string) \<Rightarrow> 'a sub_agent_registry \<Rightarrow> bool" where
  "sub_inv nm r \<longleftrightarrow> index_ok (sg_agents r) (sg_order r) nm"
definition sub_abs :: "'a sub_agent_registry \<Rightarrow> (string \<times> 'a) list" where
  "sub_abs r = index_list (sg_agents r) (sg_order r)"

interpretation subs: named_registry nm "sub_Register nm" sub_Unregister sub_Get sub_List
  NewSubAgentRegistry sub_abs "sub_inv nm"
  by unfold_locales
    (auto simp: NewSubAgentRegistry_def sub_Register_def sub_Unregister_def sub_Get_def sub_List_def
      sub_inv_def sub_abs_def Let_def index_facts index_ok_dom dest: index_key
      split: option.splits if_splits)

section \<open>Histories\<close>

text \<open>
  The calls that goroutines make on a registry, in the order of its lock, and what they return;
  \<open>spec_step\<close> is the specification, an association list in registration order.
\<close>

datatype 'e registry_call =
    CallRegister "'e option" | CallUnregister string | CallGet string | CallList

datatype 'e registry_answer =
    AnsError "go_error option" | AnsEntry "go_error + 'e" | AnsEntries "'e list"

fun registry_step ::
    "('e option \<Rightarrow> 'r \<Rightarrow> go_error option \<times> 'r) \<Rightarrow> (string \<Rightarrow> 'r \<Rightarrow> go_error option \<times> 'r) \<Rightarrow>
     (string \<Rightarrow> 'r \<Rightarrow> go_error + 'e) \<Rightarrow> ('r \<Rightarrow> 'e list) \<Rightarrow> 'e registry_call \<Rightarrow> 'r \<Rightarrow>
     'e registry_answer \<times> 'r" where
  "registry_step reg unreg get listed (CallRegister e) r = map_prod AnsError id (reg e r)"
| "registry_step reg unreg get listed (CallUnregister n) r = map_prod AnsError id (unreg n r)"
| "registry_step reg unreg get listed (CallGet n) r = (AnsEntry (get n r), r)"
| "registry_step reg unreg get listed CallList r = (AnsEntries (listed r), r)"

fun answers :: "('c \<Rightarrow> 's \<Rightarrow> 'a \<times> 's) \<Rightarrow> 'c list \<Rightarrow> 's \<Rightarrow> 'a list" where
  "answers step [] s = []"
| "answers step (c # cs) s = (case step c s of (a, s') \<Rightarrow> a # answers step cs s')"

fun spec_step ::
    "('e \<Rightarrow> string) \<Rightarrow> 'e registry_call \<Rightarrow> (string \<times> 'e) list \<Rightarrow>
     'e registry_answer \<times> (string \<times> 'e) list" where
  "spec_step nm (CallRegister None) l = (AnsError (Some ErrRegistryNilEntry), l)"
| "spec_step nm (CallRegister (Some e)) l = (let k = TrimSpace (nm e)
     in if k = '''' then (AnsError (Some ErrRegistryInvalidName), l)
        else if k \<in> fst ` set l then (AnsError (Some ErrRegistryDuplicate), l)
        else (AnsError None, l @ [(k, e)]))"
| "spec_step nm (CallUnregister n) l = (let k = TrimSpace n
     in if k = '''' then (AnsError (Some ErrRegistryInvalidName), l)
        else if k \<notin> fst ` set l then (AnsError (Some ErrRegistryNotFound), l)
        else (AnsError None, filter (\<lambda>p. fst p \<noteq> k) l))"
| "spec_step nm (CallGet n) l = (let k = TrimSpace n
     in (AnsEntry (if k = '''' then Inl ErrRegistryInvalidName
          else case map_of l k of None \<Rightarrow> Inl ErrRegistryNotFound | Some e \<Rightarrow> Inr e), l))"
| "spec_step nm CallList l = (AnsEntries (map snd l), l)"

context named_registry begin

lemma step_refines:
  assumes "inv r"
  shows "case registry_step register unregister get listed c r of (a, r') \<Rightarrow>
    inv r' \<and> spec_step nm c (abs r) = (a, abs r')"
proof (cases c)
  case (CallRegister x)
  show ?thesis
  proof (cases x)
    case None
    with CallRegister assms register_nil show ?thesis by simp
  next
    case (Some e)
    obtain err r1 where r1: "register (Some e) r = (err, r1)" by force
    with register_error [OF assms, of e] register_fails [of "Some e" r] register_adds [OF assms, of e]
    show ?thesis
      using CallRegister Some assms
      by (cases err) (auto simp: Let_def map_of_eq_None_iff split: if_splits)
  qed
next
  case (CallUnregister n)
  obtain err r1 where r1: "unregister n r = (err, r1)" by force
  with unregister_error [OF assms, of n] unregister_fails [of n r] unregister_removes [OF assms, of n]
  show ?thesis
    using CallUnregister assms
    by (cases err) (auto simp: Let_def map_of_eq_None_iff split: if_splits)
qed (use assms in \<open>simp_all add: get_spec listed_spec Let_def\<close>)

lemma history_refines:
  "inv r \<Longrightarrow> answers (registry_step register unregister get listed) cs r = answers (spec_step nm) cs (abs r)"
proof (induction cs arbitrary: r)
  case (Cons c cs)
  obtain a r' where s: "registry_step register unregister get listed c r = (a, r')" by force
  with step_refines [OF Cons.prems, of c] Cons.IH [of r'] show ?case by simp
qed simp

end

text \<open>C37. A tool registry is an association list from trimmed names to tools in the order of registration:
  for every history of calls, every answer is the one that the list gives, errors included. The
  registries of MCP clients, A2A clients and sub-agents satisfy the same contract.\<close>

theorem tool_registry_refines:
  "answers (registry_step tool_Register tool_Unregister tool_Get tool_List) calls NewToolRegistry =
     answers (spec_step tl_Name) calls []"
  using tools.history_refines [OF tools.empty(1)] by (simp add: tools.empty(2))

lemma client_registries_refine:
  "answers (registry_step mcp_RegisterClient mcp_Unregister mcp_Get mcp_List) mcalls NewMCPRegistry =
     answers (spec_step mc_Name) mcalls []"
  "answers (registry_step a2a_RegisterClient a2a_Unregister a2a_Get a2a_List) acalls NewA2ARegistry =
     answers (spec_step qc_Name) acalls []"
  "answers (registry_step (sub_Register nm) sub_Unregister sub_Get sub_List) scalls NewSubAgentRegistry =
     answers (spec_step nm) scalls []"
  using mcps.history_refines [OF mcps.empty(1)] a2as.history_refines [OF a2as.empty(1)]
    subs.history_refines [OF subs.empty(1)]
  by (simp_all add: mcps.empty(2) a2as.empty(2) subs.empty(2))

end
