(* ===== verification/Agent_Loop.thy ===== *)
theory Agent_Loop
  imports Memory_Runtime
begin

text \<open>
  The agent loop of the local runtime, \<open>internal/runtime/local/agent_loop.go\<close> and \<open>subagent.go\<close>,
  without the durable engine (\<open>stepRunner\<close> is nil, so \<open>runStep\<close> calls its function): the life of a
  tool call (authorization, approval, execution or delegation), batches of tool calls, budget
  enforcement, LLM calls with fallback, and the loop itself.

  Waiting for a human is the operation \<open>en_await\<close> on the approval token; an approval handler gets the
  request's value with the token in it and answers through the external world. A sub-agent is
  another run of the same loop; the argument \<open>sub\<close> stands for it, and \<open>executeAgentLoop\<close> closes the
  recursion at the nesting depth.
\<close>

section \<open>Inputs and results\<close>

datatype 'w route = Route (ro_name: string) (ro_runtime: "'w runtime option")
  (ro_children: "(string \<times> 'w route) list") (ro_tools: "'w tool list")

text \<open>A spec's runtime is \<open>None\<close> if it is not a local runtime; a nil spec is \<open>None\<close>.\<close>

datatype 'w sub_agent_spec = SubAgentSpec (sp_Name: string) (sp_ToolName: string)
  (sp_Runtime: "'w runtime option") (sp_Children: "'w sub_agent_spec option list")
  (sp_Tools: "'w tool list")

fun buildSubAgentRoutes :: "'w sub_agent_spec option list \<Rightarrow> (string \<times> 'w route) list" where
  "buildSubAgentRoutes [] = []"
| "buildSubAgentRoutes (None # specs) = buildSubAgentRoutes specs"
| "buildSubAgentRoutes (Some (SubAgentSpec n tn r cs ts) # specs) = (case r of
      None \<Rightarrow> buildSubAgentRoutes specs
    | Some lr \<Rightarrow>
        (if map_of (buildSubAgentRoutes specs) tn = None
         then (tn, Route n (Some lr) (buildSubAgentRoutes cs) ts) # buildSubAgentRoutes specs
         else buildSubAgentRoutes specs))"

record 'w loop_input =
  li_UserPrompt :: string
  li_ConversationID :: string
  li_StreamingEnabled :: bool
  li_Tools :: "'w tool list"
  li_ChannelName :: string
  li_EventTypes :: "string list"
  li_ApprovalHandler :: "(custom_value \<Rightarrow> ('w, unit) state) option"
  li_SubAgentRoutes :: "(string \<times> 'w route) list"
  li_SubAgentDepth :: int
  li_MaxSubAgentDepth :: int
  li_MemoryScope :: memory_scope
  li_RunID :: string
  li_EnforceBudget :: bool
  li_circuitBreaker :: "nat option"
  li_circuitNow :: "int option"

record agent_loop_result =
  al_Content :: string
  al_LLMUsage :: "llm_usage option"
  al_Telemetry :: agent_telemetry

type_synonym loop_outcome = "agent_loop_result option \<times> go_error option"

type_synonym 'w sub_runner = "'w runtime \<Rightarrow> 'w loop_input \<Rightarrow> ('w, loop_outcome) io"

record tool_result =
  to_message :: message
  to_failed :: bool

definition msgToolRejected :: string where
  "msgToolRejected = ''Tool execution was rejected by the user.''"
definition msgToolApprovalUnavailable :: string where
  "msgToolApprovalUnavailable = ''Tool approval could not be completed because no approval handler is configured; continuing without running the tool.''"
definition msgToolUnauthorized :: string where
  "msgToolUnauthorized = ''Tool execution was denied by authorization policy.''"

section \<open>Events\<close>

definition publishEventToChannel :: "'w runtime \<Rightarrow> string \<Rightarrow> agent_event \<Rightarrow> ('w, unit) io" where
  "publishEventToChannel rt channelName ev =
    (if TrimSpace channelName = '''' \<or> \<not> rt_hasBus rt then State_Monad.return ()
     else emit_to channelName ev)"

definition event_allowed :: "string list \<Rightarrow> agent_event \<Rightarrow> bool" where
  "event_allowed types ev \<longleftrightarrow> list_ex (\<lambda>et. et = AgentEventAll \<or> et = event_Type ev) types"

definition emit :: "'w runtime \<Rightarrow> 'w loop_input \<Rightarrow> agent_event \<Rightarrow> ('w, unit) io" where
  "emit rt input ev =
    (if li_EventTypes input = [] then State_Monad.return ()
     else if \<not> event_allowed (li_EventTypes input) ev then State_Monad.return ()
     else publishEventToChannel rt (li_ChannelName input) ev)"

section \<open>Timeouts and policies\<close>

definition MaxApprovalTimeout :: int where "MaxApprovalTimeout = 31 * 24 * hour_ns"

definition approvalTaskTimeout :: "'w runtime \<Rightarrow> int" where
  "approvalTaskTimeout rt =
    (let timeout = (if rt_ApprovalTimeout rt = 0 then MaxApprovalTimeout else rt_ApprovalTimeout rt)
     in if timeout > MaxApprovalTimeout then MaxApprovalTimeout else timeout)"

text \<open>\<open>time.Duration.String\<close>: hours, minutes and seconds, or one sub-second unit.\<close>

definition frac_str :: "nat \<Rightarrow> nat \<Rightarrow> string" where
  "frac_str prec v =
    (let ds = nat_str v;
         padded = replicate (prec - length ds) (CHR ''0'') @ ds;
         kept = rev (dropWhile (\<lambda>c. c = CHR ''0'') (rev padded))
     in if kept = [] then [] else CHR ''.'' # kept)"

definition duration_str :: "int \<Rightarrow> string" where
  "duration_str d =
    (let u = nat \<bar>d\<bar>; sign = (if d < 0 then ''-'' else '''') in
     if u = 0 then ''0s''
     else if u < 1000 then sign @ nat_str u @ ''ns''
     else if u < 1000000 then sign @ nat_str (u div 1000) @ frac_str 3 (u mod 1000) @ [CHR 0xC2, CHR 0xB5, CHR ''s'']
     else if u < 1000000000 then sign @ nat_str (u div 1000000) @ frac_str 6 (u mod 1000000) @ ''ms''
     else let s = u div 1000000000; m = s div 60; h = m div 60 in
       sign @ (if h > 0 then nat_str h @ ''h'' else '''')
       @ (if m > 0 then nat_str (m mod 60) @ ''m'' else '''')
       @ nat_str (s mod 60) @ frac_str 9 (u mod 1000000000) @ ''s'')"

definition executionPolicies :: "'w runtime \<Rightarrow> execution_policies" where
  "executionPolicies rt = ResolveExecutionPolicies (rt_ExecutionConfigs rt)"

definition toolExecutionPolicy :: "string \<Rightarrow> execution_policies \<Rightarrow> execution_policy" where
  "toolExecutionPolicy kind policies =
    (if kind = ToolKindMCP then pol_MCP policies
     else if kind = ToolKindA2A then pol_A2A policies
     else pol_ToolExecute policies)"

definition subAgentExecutionPolicy :: "'w runtime \<Rightarrow> execution_policy" where
  "subAgentExecutionPolicy rt =
    (let policy = pol_SubAgent (executionPolicies rt)
     in if pol_Timeout policy = 0 \<and> rt_Timeout rt > 0 then policy\<lparr>pol_Timeout := rt_Timeout rt\<rparr> else policy)"

section \<open>One tool call\<close>

definition tool_message :: "tool_call_request \<Rightarrow> string \<Rightarrow> message" where
  "tool_message tc content = \<lparr>msg_Role = RoleTool, msg_Content = content,
     msg_ToolName = tr_ToolName tc, msg_ToolCallID = tr_ToolCallID tc, msg_ToolCalls = []\<rparr>"

definition emitToolEndThenResult :: "'w runtime \<Rightarrow> 'w loop_input \<Rightarrow> string \<Rightarrow> tool_call_request \<Rightarrow>
    string \<Rightarrow> ('w, unit) io" where
  "emitToolEndThenResult rt input messageID tc content = do {
     emit rt input (ToolCallEnd (tr_ToolCallID tc));
     emit rt input (ToolCallResult messageID (tr_ToolCallID tc) content RoleTool) }"

text \<open>The end of a call that has an answer: its last two events and its result.\<close>

definition finish_call :: "'w runtime \<Rightarrow> 'w loop_input \<Rightarrow> string \<Rightarrow> tool_call_request \<Rightarrow> string \<Rightarrow> bool \<Rightarrow>
    ('w, go_error + tool_result) io" where
  "finish_call rt input messageID tc content failed = do {
     emitToolEndThenResult rt input messageID tc content;
     State_Monad.return (Inr \<lparr>to_message = tool_message tc content, to_failed = failed\<rparr>) }"

definition emit_args :: "'w env \<Rightarrow> 'w runtime \<Rightarrow> 'w loop_input \<Rightarrow> tool_call_request \<Rightarrow> ('w, unit) io" where
  "emit_args env rt input tc =
    (case en_marshal env (case tr_Args tc of None \<Rightarrow> ANil | Some xs \<Rightarrow> AObj xs) of
       None \<Rightarrow> State_Monad.return ()
     | Some s \<Rightarrow> if s \<noteq> '''' \<and> s \<noteq> ''null'' \<and> s \<noteq> ''{}''
         then emit rt input (ToolCallArgs (tr_ToolCallID tc) s) else State_Monad.return ())"

text \<open>\<open>IsTripped\<close> on the shared breaker; it may clear a tool whose reset time has passed.\<close>

definition check_tripped :: "'w loop_input \<Rightarrow> tool_call_request \<Rightarrow> ('w, bool) io" where
  "check_tripped input tc =
    (if li_circuitBreaker input \<noteq> None \<and> CountsTowardCircuitBreaker (tr_Unknown tc) (tr_ToolKind tc)
     then do {
       c \<leftarrow> read_breaker (li_circuitBreaker input);
       (case IsTripped c (tr_ToolName tc) (li_circuitNow input) of (tripped, c') \<Rightarrow> do {
          write_breaker (li_circuitBreaker input) c';
          State_Monad.return tripped }) }
     else State_Monad.return False)"

definition NoteCircuitSkip :: "string \<Rightarrow> ('w, unit) io" where
  "NoteCircuitSkip toolName = IncrementCounter MetricToolCallCircuitOpen [toolName]"

definition tool_route :: "'w loop_input \<Rightarrow> tool_call_request \<Rightarrow> 'w route option" where
  "tool_route input tc = map_of (li_SubAgentRoutes input) (tr_ToolName tc)"

definition approval_event :: "'w runtime \<Rightarrow> 'w loop_input \<Rightarrow> tool_call_request \<Rightarrow> string \<Rightarrow> agent_event" where
  "approval_event rt input tc token =
    (if tool_route input tc \<noteq> None
     then CustomEvent CustomNameSubAgentDelegation
       (DelegationValue (rt_Name rt) (tr_ToolDisplayName tc) (tr_Args tc) token)
     else CustomEvent CustomNameToolApproval
       (ToolApprovalValue (rt_Name rt) (tr_ToolCallID tc) (tr_ToolName tc) (tr_ToolDisplayName tc)
         (tr_Args tc) token))"

text \<open>The approval gate: the status, or the error of a cancelled or timed-out wait.\<close>

definition await_approval :: "'w env \<Rightarrow> 'w runtime \<Rightarrow> 'w loop_input \<Rightarrow> tool_call_request \<Rightarrow>
    ('w, go_error + string) io" where
  "await_approval env rt input tc =
    (if \<not> tr_NeedsApproval tc then State_Monad.return (Inr ApprovalApproved)
     else if li_ChannelName input = '''' \<and> li_ApprovalHandler input = None
     then State_Monad.return (Inr ApprovalUnavailable)
     else do {
       token \<leftarrow> ext (en_uuid env);
       emit rt input (approval_event rt input tc token);
       (case li_ApprovalHandler input of
          None \<Rightarrow> State_Monad.return ()
        | Some handler \<Rightarrow> ext (handler (ev_Value (approval_event rt input tc token))));
       w \<leftarrow> ext (en_await env token);
       State_Monad.return (case w of
           Responded status \<Rightarrow> Inr status
         | WaitCtxDone err \<Rightarrow> Inl err
         | WaitTimedOut \<Rightarrow> Inl (ErrNew (''tool approval timed out after ''
             @ duration_str (approvalTaskTimeout rt)))) })"

definition delegation_name :: "'w route \<Rightarrow> tool_call_request \<Rightarrow> string" where
  "delegation_name r tc =
    (let name = TrimSpace (ro_name r) in if name = '''' then tr_ToolName tc else name)"

definition child_input :: "'w loop_input \<Rightarrow> 'w route \<Rightarrow> tool_call_request \<Rightarrow> string \<Rightarrow> 'w loop_input" where
  "child_input input r tc runID =
    \<lparr>li_UserPrompt = SubAgentQuery (tr_Args tc), li_ConversationID = '''',
     li_StreamingEnabled = li_StreamingEnabled input, li_Tools = ro_tools r,
     li_ChannelName = li_ChannelName input, li_EventTypes = li_EventTypes input,
     li_ApprovalHandler = li_ApprovalHandler input, li_SubAgentRoutes = ro_children r,
     li_SubAgentDepth = li_SubAgentDepth input + 1, li_MaxSubAgentDepth = li_MaxSubAgentDepth input,
     li_MemoryScope = SubAgentScope (li_MemoryScope input) (delegation_name r tc),
     li_RunID = runID, li_EnforceBudget = False, li_circuitBreaker = li_circuitBreaker input,
     li_circuitNow = None\<rparr>"

text \<open>
  One attempt of a delegation. \<open>executeWithPolicy\<close> drops the value of a failed operation, so the
  partial content of a sub-agent that ran out of budget does not reach the parent.
\<close>

definition delegate_once :: "'w sub_runner \<Rightarrow> 'w env \<Rightarrow> 'w loop_input \<Rightarrow> 'w route \<Rightarrow> 'w runtime \<Rightarrow>
    tool_call_request \<Rightarrow> ('w, go_error + agent_loop_result option) io" where
  "delegate_once sub env input r lr tc = do {
     runID \<leftarrow> ext (en_uuid env);
     outcome \<leftarrow> sub lr (child_input input r tc runID);
     State_Monad.return (case outcome of
         (res, Some err) \<Rightarrow> Inl err
       | (res, None) \<Rightarrow> Inr res) }"

definition delegate :: "'w sub_runner \<Rightarrow> 'w env \<Rightarrow> 'w runtime \<Rightarrow> 'w loop_input \<Rightarrow> 'w route \<Rightarrow>
    tool_call_request \<Rightarrow> ('w, string) io" where
  "delegate sub env rt input r tc =
    (if li_SubAgentDepth input \<ge> li_MaxSubAgentDepth input then
       State_Monad.return (''Sub-agent delegation refused: maximum nesting depth (''
         @ itoa (li_MaxSubAgentDepth input) @ '') reached.'')
     else case ro_runtime r of
       None \<Rightarrow> State_Monad.return ''Sub-agent delegation not available for this runtime.''
     | Some lr \<Rightarrow> do {
         emit rt input (StepStarted (delegation_name r tc));
         res \<leftarrow> executeWithPolicy (en_ctx env) (subAgentExecutionPolicy rt)
                 (delegate_once sub env input r lr tc);
         emit rt input (StepFinished (delegation_name r tc));
         State_Monad.return (case res of
             Inl err \<Rightarrow> if error_is err ErrBudgetExceeded
               then ''Sub-agent stopped: per-run budget exceeded.''
               else ''Sub-agent execution failed: '' @ error_str err
           | Inr None \<Rightarrow> ''''
           | Inr (Some sr) \<Rightarrow> al_Content sr) })"

definition execute_call :: "'w env \<Rightarrow> 'w runtime \<Rightarrow> 'w loop_input \<Rightarrow> int \<Rightarrow> tool_call_request \<Rightarrow>
    execution_policies \<Rightarrow> ('w, string \<times> bool) io" where
  "execute_call env rt input iteration tc policies = do {
     r \<leftarrow> executeWithPolicy (en_ctx env) (toolExecutionPolicy (tr_ToolKind tc) policies)
           (ExecuteTool env rt
             \<lparr>xt_Tools = li_Tools input, xt_ToolName = tr_ToolName tc, xt_Args = tr_Args tc,
              xt_ToolCallID = tr_ToolCallID tc, xt_RunID = li_RunID input, xt_Iteration = iteration\<rparr>
             (li_MemoryScope input));
     State_Monad.return (case r of
         Inl err \<Rightarrow> (''Tool execution failed: '' @ error_str err, True)
       | Inr result \<Rightarrow> (result, False)) }"

text \<open>What follows the gate, by status.\<close>

definition dispatch_call :: "'w sub_runner \<Rightarrow> 'w env \<Rightarrow> 'w runtime \<Rightarrow> 'w loop_input \<Rightarrow> string \<Rightarrow> int \<Rightarrow>
    tool_call_request \<Rightarrow> execution_policies \<Rightarrow> string \<Rightarrow> ('w, go_error + tool_result) io" where
  "dispatch_call sub env rt input messageID iteration tc policies approvalStatus =
    (if approvalStatus = ApprovalApproved then
       (case tool_route input tc of
          Some r \<Rightarrow> do {
            content \<leftarrow> delegate sub env rt input r tc;
            finish_call rt input messageID tc content False }
        | None \<Rightarrow> do {
            cf \<leftarrow> execute_call env rt input iteration tc policies;
            finish_call rt input messageID tc (fst cf) (snd cf) })
     else if approvalStatus = ApprovalRejected then
       finish_call rt input messageID tc msgToolRejected False
     else if approvalStatus = ApprovalUnavailable then
       finish_call rt input messageID tc msgToolApprovalUnavailable False
     else State_Monad.return (Inl (ErrNew (''unexpected approval status '' @ Quote approvalStatus
            @ '' for tool '' @ Quote (tr_ToolName tc)))))"

definition denial_content :: "authorize_result \<Rightarrow> string" where
  "denial_content a = (if ar_Reason a \<noteq> '''' then msgToolUnauthorized @ '' Reason: '' @ ar_Reason a
     else msgToolUnauthorized)"

text \<open>From the authorization check on.\<close>

definition authorized_call :: "'w sub_runner \<Rightarrow> 'w env \<Rightarrow> 'w runtime \<Rightarrow> 'w loop_input \<Rightarrow> string \<Rightarrow> int \<Rightarrow>
    tool_call_request \<Rightarrow> execution_policies \<Rightarrow> ('w, go_error + tool_result) io" where
  "authorized_call sub env rt input messageID iteration tc policies = do {
     auth \<leftarrow> executeWithPolicy (en_ctx env) (pol_ToolAuth policies)
              (AuthorizeTool (li_Tools input) (tr_ToolName tc) (tr_Args tc));
     (case auth of
        Inl err \<Rightarrow> State_Monad.return (Inl (ErrWrap (''tool authorization error for ''
            @ Quote (tr_ToolName tc) @ '': '') err ''''))
      | Inr a \<Rightarrow>
          if \<not> ar_Allowed a then finish_call rt input messageID tc (denial_content a) False
          else do {
            gate \<leftarrow> await_approval env rt input tc;
            (case gate of
               Inl err \<Rightarrow> State_Monad.return (Inl err)
             | Inr status \<Rightarrow> dispatch_call sub env rt input messageID iteration tc policies status) }) }"

definition executeSingleTool :: "'w sub_runner \<Rightarrow> 'w env \<Rightarrow> 'w runtime \<Rightarrow> 'w loop_input \<Rightarrow> string \<Rightarrow>
    int \<Rightarrow> execution_policies \<Rightarrow> tool_call_request \<Rightarrow> ('w, go_error + tool_result) io" where
  "executeSingleTool sub env rt input messageID iteration policies tc = do {
     emit rt input (ToolCallStart (tr_ToolCallID tc) (tr_ToolName tc) messageID);
     emit_args env rt input tc;
     (if IsUnknownTool tc (li_Tools input) then do {
        (if tr_Unknown tc then State_Monad.return () else NoteUnknownTool (tr_ToolName tc));
        finish_call rt input messageID tc (UnknownToolMessage (tr_ToolName tc)) False }
      else do {
        tripped \<leftarrow> check_tripped input tc;
        (if tripped then do {
           NoteCircuitSkip (tr_ToolName tc);
           finish_call rt input messageID tc (CircuitBreakerSkippedMessage (tr_ToolName tc)) False }
         else authorized_call sub env rt input messageID iteration tc policies) }) }"

section \<open>Batches of tool calls\<close>

text \<open>A hard error of a call becomes its tool message; the batch goes on.\<close>

definition settle_call :: "'w sub_runner \<Rightarrow> 'w env \<Rightarrow> 'w runtime \<Rightarrow> 'w loop_input \<Rightarrow> string \<Rightarrow>
    int \<Rightarrow> execution_policies \<Rightarrow> tool_call_request \<Rightarrow> ('w, tool_result) io" where
  "settle_call sub env rt input messageID iteration policies tc = do {
     r \<leftarrow> executeSingleTool sub env rt input messageID iteration policies tc;
     State_Monad.return (case r of
         Inl err \<Rightarrow> \<lparr>to_message = tool_message tc (''Tool execution failed: '' @ error_str err),
                     to_failed = True\<rparr>
       | Inr result \<Rightarrow> result) }"

definition executeToolsParallel :: "'w sub_runner \<Rightarrow> 'w env \<Rightarrow> 'w runtime \<Rightarrow> 'w loop_input \<Rightarrow> string \<Rightarrow>
    int \<Rightarrow> tool_call_request list \<Rightarrow> execution_policies \<Rightarrow> ('w, tool_result list) io" where
  "executeToolsParallel sub env rt input messageID iteration toolCalls policies =
     run_batch env (\<lambda>idx. settle_call sub env rt input messageID iteration policies) toolCalls"

definition executeToolsSequential :: "'w sub_runner \<Rightarrow> 'w env \<Rightarrow> 'w runtime \<Rightarrow> 'w loop_input \<Rightarrow> string \<Rightarrow>
    int \<Rightarrow> tool_call_request list \<Rightarrow> execution_policies \<Rightarrow> ('w, tool_result list) io" where
  "executeToolsSequential sub env rt input messageID iteration toolCalls policies =
     mapM (settle_call sub env rt input messageID iteration policies) toolCalls"

section \<open>Budget enforcement\<close>

definition MetricBudgetExceeded :: string where "MetricBudgetExceeded = ''agent.budget.exceeded''"
definition MetricBudgetApprovalRequested :: string where
  "MetricBudgetApprovalRequested = ''agent.budget.approval.requested''"
definition MetricBudgetApprovalApproved :: string where
  "MetricBudgetApprovalApproved = ''agent.budget.approval.approved''"
definition MetricBudgetApprovalRejected :: string where
  "MetricBudgetApprovalRejected = ''agent.budget.approval.rejected''"
definition MetricBudgetApprovalTimedOut :: string where
  "MetricBudgetApprovalTimedOut = ''agent.budget.approval.timed_out''"
definition MetricBudgetApprovalUnavailable :: string where
  "MetricBudgetApprovalUnavailable = ''agent.budget.approval.unavailable''"
definition MetricBudgetApprovalExhausted :: string where
  "MetricBudgetApprovalExhausted = ''agent.budget.approval.exhausted''"

definition awaitBudgetApprovalStatus :: "'w env \<Rightarrow> 'w runtime \<Rightarrow> 'w loop_input \<Rightarrow> string \<Rightarrow>
    ('w, string) io" where
  "awaitBudgetApprovalStatus env rt input detail =
    (let hasChannel = (TrimSpace (li_ChannelName input) \<noteq> '''') in
     if li_ApprovalHandler input = None \<and> \<not> hasChannel then State_Monad.return ApprovalUnavailable
     else do {
       tracker \<leftarrow> read_tracker;
       token \<leftarrow> ext (en_uuid env);
       (let value = BudgetValue (rt_Name rt) detail (fst (Totals tracker)) (snd (Totals tracker)) token in do {
          publishEventToChannel rt (li_ChannelName input) (CustomEvent CustomNameBudget value);
          (case li_ApprovalHandler input of
             None \<Rightarrow> State_Monad.return ()
           | Some handler \<Rightarrow> ext (handler value)) });
       w \<leftarrow> ext (en_awaitBudget env token);
       State_Monad.return (case w of Some status \<Rightarrow> status | None \<Rightarrow> ApprovalRejected) })"

definition budget_action :: "'w runtime \<Rightarrow> string" where
  "budget_action rt = (case rt_Budget rt of None \<Rightarrow> BudgetStopRun
     | Some cfg \<Rightarrow> if OnExceeded cfg \<noteq> '''' then OnExceeded cfg else BudgetStopRun)"

text \<open>\<open>Some err\<close> stops the run with the finish reason set; \<open>None\<close> is an approved continuation.\<close>

definition applyBudgetExceeded :: "'w env \<Rightarrow> 'w runtime \<Rightarrow> 'w loop_input \<Rightarrow> budget_exceeded_error \<Rightarrow>
    ('w, go_error option) io" where
  "applyBudgetExceeded env rt input budgetErr = do {
     tracker \<leftarrow> read_tracker;
     (let action = budget_action rt;
          kind = be_Kind budgetErr;
          approvalsExhausted = (action = BudgetWaitForApproval \<and> ApprovalsExhausted tracker);
          stop = ErrWrap2 (ErrSentinel ErrBudgetExceeded) '': '' (ErrBudget budgetErr)
      in do {
        IncrementCounter MetricBudgetExceeded [kind, action];
        RunOnBudgetExceeded (rt_Hooks rt)
          \<lparr>bh_RunMeta = \<lparr>rm_RunID = li_RunID input, rm_Iteration = 0, rm_HooksGroup = ''''\<rparr>,
           bh_Kind = kind, bh_TotalTokens = be_TotalTokens budgetErr,
           bh_TotalCostUSD = be_TotalCostUSD budgetErr, bh_Action = action,
           bh_ApprovalCount = ApprovalCount tracker, bh_ApprovalsExhausted = approvalsExhausted\<rparr>;
        (if action = BudgetWaitForApproval \<and> \<not> approvalsExhausted then do {
           IncrementCounter MetricBudgetApprovalRequested [kind];
           status \<leftarrow> awaitBudgetApprovalStatus env rt input (budget_error_str budgetErr);
           (if status = ApprovalApproved then do {
              IncrementCounter MetricBudgetApprovalApproved [kind];
              t \<leftarrow> read_tracker;
              write_tracker (snd (AdvanceWatermark t));
              State_Monad.return None }
            else if status = ApprovalTimedOut then do {
              IncrementCounter MetricBudgetApprovalTimedOut [kind];
              State_Monad.return (Some stop) }
            else if status = ApprovalUnavailable then do {
              IncrementCounter MetricBudgetApprovalUnavailable [kind];
              State_Monad.return (Some (ErrWrap '''' (ErrSentinel ErrBudgetApprovalUnavailable)
                ('': '' @ budget_error_str budgetErr))) }
            else do {
              IncrementCounter MetricBudgetApprovalRejected [kind];
              State_Monad.return (Some stop) }) }
         else if action = BudgetWaitForApproval \<and> approvalsExhausted then do {
           IncrementCounter MetricBudgetApprovalExhausted [kind];
           State_Monad.return (Some stop) }
         else State_Monad.return (Some stop)) }) }"

text \<open>The error of a check, and whether it sets the finish reason of the telemetry.\<close>

definition checkBudget :: "'w env \<Rightarrow> 'w runtime \<Rightarrow> 'w loop_input \<Rightarrow> llm_usage option \<Rightarrow>
    ('w, (bool \<times> go_error) option) io" where
  "checkBudget env rt input usage = do {
     tracker \<leftarrow> read_tracker;
     (if tracker = None then State_Monad.return None
      else (case bt_Add tracker usage of (budgetErr, tracker') \<Rightarrow> do {
        write_tracker tracker';
        (case budgetErr of
           None \<Rightarrow> State_Monad.return None
         | Some e \<Rightarrow>
             if \<not> li_EnforceBudget input then
               State_Monad.return (Some (False,
                 ErrWrap '''' (ErrSentinel ErrBudgetExceeded) ('': '' @ budget_error_str e)))
             else do {
               r \<leftarrow> applyBudgetExceeded env rt input e;
               State_Monad.return (map_option (Pair True) r) }) })) }"

definition enforceBudgetIfExceeded :: "'w env \<Rightarrow> 'w runtime \<Rightarrow> 'w loop_input \<Rightarrow>
    ('w, (bool \<times> go_error) option) io" where
  "enforceBudgetIfExceeded env rt input = do {
     tracker \<leftarrow> read_tracker;
     (if \<not> li_EnforceBudget input \<or> tracker = None then State_Monad.return None
      else case bt_Check tracker of
        None \<Rightarrow> State_Monad.return None
      | Some e \<Rightarrow> do {
          r \<leftarrow> applyBudgetExceeded env rt input e;
          State_Monad.return (map_option (Pair True) r) }) }"

section \<open>LLM calls\<close>

definition invokeLLM :: "'w env \<Rightarrow> 'w runtime \<Rightarrow> 'w loop_input \<Rightarrow> 'w execute_llm_input \<Rightarrow> bool \<Rightarrow>
    execution_policies \<Rightarrow> ('w, go_error + llm_result) io" where
  "invokeLLM env rt input xl useFallback policies =
    (let call = (\<lambda>x. executeWithPolicy (en_ctx env) (pol_LLM policies)
           (if li_StreamingEnabled input then ExecuteLLMStream env rt x else ExecuteLLM rt x))
     in if useFallback then
          (case ResolveLLMClient (rt_Client rt) (rt_ErrorControl rt) (rt_NamedLLMClients rt) True of
             Inl err \<Rightarrow> State_Monad.return (Inl err)
           | Inr client \<Rightarrow> call (xl\<lparr>xl_Client := Some client\<rparr>))
        else call xl)"

definition invokeLLMWithErrorControl :: "'w env \<Rightarrow> 'w runtime \<Rightarrow> 'w loop_input \<Rightarrow>
    'w execute_llm_input \<Rightarrow> bool \<Rightarrow> execution_policies \<Rightarrow> ('w, go_error + llm_result \<times> bool) io" where
  "invokeLLMWithErrorControl env rt input xl useFallback policies = do {
     r \<leftarrow> invokeLLM env rt input xl useFallback policies;
     (case r of
        Inr result \<Rightarrow> State_Monad.return (Inr (result, useFallback))
      | Inl err \<Rightarrow>
          if useFallback then State_Monad.return (Inl err)
          else do {
            dec \<leftarrow> DecideLLMFailure (rt_Client rt) (rt_ErrorControl rt) (rt_NamedLLMClients rt)
              \<lparr>fi_Attempt = LLMPolicyAttempts (pol_MaxAttempts (pol_LLM policies)), fi_Err = err\<rparr>;
            (if ec_Action dec \<noteq> ErrorControlFallbackModel then State_Monad.return (Inl err)
             else do {
               r2 \<leftarrow> invokeLLM env rt input xl True policies;
               State_Monad.return (case r2 of
                   Inl err2 \<Rightarrow> Inl err2 | Inr result \<Rightarrow> Inr (result, True)) }) }) }"

section \<open>Conversation\<close>

definition conversationMemoryEnabled :: "'w runtime \<Rightarrow> 'w loop_input \<Rightarrow> bool" where
  "conversationMemoryEnabled rt input \<longleftrightarrow> li_ConversationID input \<noteq> '''' \<and> rt_Conversation rt \<noteq> None"

text \<open>Failures to add a message are logged and counted, never returned.\<close>

definition persistConversationMessages :: "'w env \<Rightarrow> 'w runtime \<Rightarrow> string \<Rightarrow> message list \<Rightarrow>
    ('w, unit) io" where
  "persistConversationMessages env rt conversationID messages = (case rt_Conversation rt of
      None \<Rightarrow> State_Monad.return ()
    | Some conv \<Rightarrow>
        if messages = [] then State_Monad.return ()
        else do {
          _ \<leftarrow> executeWithPolicyErr (en_ctx env) (pol_Conversation (executionPolicies rt)) (do {
                 _ \<leftarrow> mapM (\<lambda>msg. ext (cv_AddMessage conv conversationID msg)) messages;
                 State_Monad.return None });
          State_Monad.return () })"

section \<open>The loop\<close>

record loop_state =
  lp_messages :: "message list"
  lp_persisted :: nat
  lp_maxIter :: int
  lp_iterationsExtended :: bool
  lp_useFallback :: bool
  lp_lastContent :: string
  lp_llmUsage :: "llm_usage option"
  lp_telemetry :: agent_telemetry

text \<open>How a turn ends: the next turn, \<open>break\<close>, or a return from the run.\<close>

datatype turn_end = Continue loop_state | Break loop_state
  | Return "agent_loop_result option" go_error

definition set_finish :: "string \<Rightarrow> agent_telemetry \<Rightarrow> agent_telemetry" where
  "set_finish reason t = t\<lparr>te_Run := (te_Run t)\<lparr>rn_FinishReason := reason\<rparr>\<rparr>"

definition count_llm_call :: "agent_telemetry \<Rightarrow> agent_telemetry" where
  "count_llm_call t = t\<lparr>te_Run := (te_Run t)\<lparr>rn_TotalLLMCalls := rn_TotalLLMCalls (te_Run t) + 1\<rparr>\<rparr>"

text \<open>What a run that is stopped by its budget returns.\<close>

definition budget_return :: "loop_state \<Rightarrow> bool \<times> go_error \<Rightarrow> turn_end" where
  "budget_return st be = Return (Some \<lparr>al_Content = lp_lastContent st, al_LLMUsage = lp_llmUsage st,
     al_Telemetry = (if fst be then set_finish FinishBudgetExceeded (lp_telemetry st)
                     else lp_telemetry st)\<rparr>) (snd be)"

record run_context =
  cx_memoryContext :: string
  cx_retrieverContext :: string
  cx_originalMaxIter :: int

definition llm_input :: "'w runtime \<Rightarrow> 'w loop_input \<Rightarrow> run_context \<Rightarrow> string \<Rightarrow> int \<Rightarrow> bool \<Rightarrow> message list \<Rightarrow>
    'w execute_llm_input" where
  "llm_input rt input cx messageID iter skipTools messages =
    \<lparr>xl_MessageID = messageID, xl_RunID = li_RunID input, xl_Iteration = iter, xl_Messages = messages,
     xl_SkipTools = skipTools, xl_MemoryContext = cx_memoryContext cx,
     xl_RetrieverContext = cx_retrieverContext cx, xl_Tools = li_Tools input,
     xl_Emit = Some (emit rt input), xl_Client = None\<rparr>"

definition assistant_message :: "string \<Rightarrow> tool_call_request list \<Rightarrow> message" where
  "assistant_message content calls = \<lparr>msg_Role = RoleAssistant, msg_Content = content,
     msg_ToolName = '''', msg_ToolCallID = '''',
     msg_ToolCalls = map (\<lambda>tc. \<lparr>tc_ToolCallID = tr_ToolCallID tc, tc_ToolName = tr_ToolName tc,
       tc_Args = tr_Args tc\<rparr>) calls\<rparr>"

text \<open>The telemetry of one finished call.\<close>

definition record_call :: "tool_call_request \<Rightarrow> bool \<Rightarrow> agent_telemetry \<Rightarrow> agent_telemetry" where
  "record_call tc failed t =
    (let t1 = (if \<not> tr_Unknown tc \<and> CountsTowardToolTelemetry (tr_ToolKind tc)
               then t\<lparr>te_Tools := tool_Record (te_Tools t) (tr_ToolName tc) failed\<rparr> else t);
         t2 = (if tr_ToolKind tc = ToolKindRetriever then
                 t1\<lparr>te_Storage := (te_Storage t1)
                    \<lparr>st_TotalRetrieverSearches := st_TotalRetrieverSearches (te_Storage t1) + 1,
                     st_AgenticSearches := st_AgenticSearches (te_Storage t1) + 1,
                     st_FailedRetrieverSearches := st_FailedRetrieverSearches (te_Storage t1)
                       + (if failed then 1 else 0)\<rparr>\<rparr>
               else t1)
     in if tr_ToolName tc = SaveMemoryToolName then
          (if failed then t2\<lparr>te_Storage := (te_Storage t2)
               \<lparr>st_FailedMemoryStores := st_FailedMemoryStores (te_Storage t2) + 1\<rparr>\<rparr>
           else t2\<lparr>te_Storage := (te_Storage t2)
               \<lparr>st_TotalMemoryStores := st_TotalMemoryStores (te_Storage t2) + 1\<rparr>\<rparr>)
        else t2)"

text \<open>The effect of one finished call on the circuit breaker.\<close>

definition apply_circuit :: "'w env \<Rightarrow> 'w loop_input \<Rightarrow> tool_call_request \<times> bool \<Rightarrow> ('w, unit) io" where
  "apply_circuit env input cf = (case cf of (tc, failed) \<Rightarrow> do {
     c \<leftarrow> read_breaker (li_circuitBreaker input);
     write_breaker (li_circuitBreaker input)
       (ApplyToolCircuitResult c (tr_Unknown tc) (tr_ToolKind tc) (tr_ToolName tc)
          (HashToolArgs (en_marshal env) (en_sha256hex env) (tr_Args tc)) failed
          (case li_circuitNow input of None \<Rightarrow> 0 | Some now \<Rightarrow> now)) })"

text \<open>The snapshot of the breaker is restored at once; it only matters to a resumed durable run.\<close>

definition snapshot_breaker :: "'w loop_input \<Rightarrow> ('w, unit) io" where
  "snapshot_breaker input = do {
     c \<leftarrow> read_breaker (li_circuitBreaker input);
     write_breaker (li_circuitBreaker input) (cb_Restore c (cb_State c)) }"

definition execute_tools :: "'w sub_runner \<Rightarrow> 'w env \<Rightarrow> 'w runtime \<Rightarrow> 'w loop_input \<Rightarrow> string \<Rightarrow> int \<Rightarrow>
    tool_call_request list \<Rightarrow> execution_policies \<Rightarrow> ('w, go_error + tool_result list) io" where
  "execute_tools sub env rt input messageID iter calls policies =
    (let mode = (if rt_ToolExecutionMode rt = '''' then ExecModeParallel else rt_ToolExecutionMode rt) in
     if mode = ExecModeParallel then do {
       rs \<leftarrow> executeToolsParallel sub env rt input messageID iter calls policies;
       State_Monad.return (Inr rs) }
     else if mode = ExecModeSequential then do {
       rs \<leftarrow> executeToolsSequential sub env rt input messageID iter calls policies;
       State_Monad.return (Inr rs) }
     else State_Monad.return (Inl (ErrNew (''invalid tool execution mode '' @ Quote mode @ '': use ''
       @ Quote ExecModeParallel @ '' or '' @ Quote ExecModeSequential))))"

definition persist_new :: "'w env \<Rightarrow> 'w runtime \<Rightarrow> 'w loop_input \<Rightarrow> loop_state \<Rightarrow> ('w, loop_state) io" where
  "persist_new env rt input st =
    (if conversationMemoryEnabled rt input \<and> length (lp_messages st) > lp_persisted st then do {
       persistConversationMessages env rt (li_ConversationID input)
         (drop (lp_persisted st) (lp_messages st));
       State_Monad.return (st\<lparr>lp_persisted := length (lp_messages st)\<rparr>) }
     else State_Monad.return st)"

text \<open>A round of tool calls: the assistant message, the calls, their results and the budget.\<close>

definition tool_round :: "'w sub_runner \<Rightarrow> 'w env \<Rightarrow> 'w runtime \<Rightarrow> 'w loop_input \<Rightarrow> string \<Rightarrow> int \<Rightarrow>
    llm_result \<Rightarrow> execution_policies \<Rightarrow> loop_state \<Rightarrow> ('w, turn_end) io" where
  "tool_round sub env rt input messageID iter result policies st =
    (let calls = lr_ToolCalls result;
         st1 = st\<lparr>lp_messages := lp_messages st @ [assistant_message (lr_Content result) calls]\<rparr> in do {
       r \<leftarrow> execute_tools sub env rt input messageID iter calls policies;
       (case r of
          Inl err \<Rightarrow> State_Monad.return (Return None err)
        | Inr results \<Rightarrow>
            (let outcomes = zip calls (map to_failed results);
                 st2 = st1\<lparr>lp_messages := lp_messages st1 @ map to_message results,
                   lp_telemetry := fold (\<lambda>(tc, failed) t. record_call tc failed t) outcomes (lp_telemetry st1)\<rparr>
             in do {
               _ \<leftarrow> mapM (apply_circuit env input) outcomes;
               snapshot_breaker input;
               b \<leftarrow> enforceBudgetIfExceeded env rt input;
               (case b of
                  Some be \<Rightarrow> State_Monad.return (budget_return st2 be)
                | None \<Rightarrow>
                    if rt_SaveOnIteration rt then do {
                      st3 \<leftarrow> persist_new env rt input st2;
                      State_Monad.return (Continue st3) }
                    else State_Monad.return (Continue st2)) })) })"

text \<open>The last LLM call of a run that used up its iterations: no tools are offered.\<close>

definition final_call :: "'w env \<Rightarrow> 'w runtime \<Rightarrow> 'w loop_input \<Rightarrow> run_context \<Rightarrow> int \<Rightarrow>
    execution_policies \<Rightarrow> loop_state \<Rightarrow> ('w, turn_end) io" where
  "final_call env rt input cx iter policies st = do {
     finalMessageID \<leftarrow> ext (en_uuid env);
     r \<leftarrow> invokeLLMWithErrorControl env rt input
           (llm_input rt input cx finalMessageID iter True (lp_messages st)) (lp_useFallback st) policies;
     (case r of
        Inl err \<Rightarrow> State_Monad.return (Return None (ErrWrap (''llm final call (iter '' @ itoa iter @ ''): '') err ''''))
      | Inr (result, _) \<Rightarrow>
          (let st1 = st\<lparr>lp_llmUsage := MergeLLMUsage (lp_llmUsage st) (lr_Usage result)\<rparr> in do {
             b \<leftarrow> checkBudget env rt input (lr_Usage result);
             State_Monad.return (case b of
                 Some be \<Rightarrow> budget_return st1 be
               | None \<Rightarrow> Break (st1\<lparr>
                   lp_messages := lp_messages st1 @ [mk_message RoleAssistant (lr_Content result)],
                   lp_lastContent := lr_Content result,
                   lp_telemetry := set_finish FinishMaxIterations (count_llm_call (lp_telemetry st1))\<rparr>)) })) }"

text \<open>What a turn does once the model has answered and the budget allows going on.\<close>

definition answered_turn :: "'w sub_runner \<Rightarrow> 'w env \<Rightarrow> 'w runtime \<Rightarrow> 'w loop_input \<Rightarrow> run_context \<Rightarrow>
    execution_policies \<Rightarrow> string \<Rightarrow> int \<Rightarrow> llm_result \<Rightarrow> loop_state \<Rightarrow> ('w, turn_end) io" where
  "answered_turn sub env rt input cx policies messageID iter result st =
    (if lr_ToolCalls result = [] then
       State_Monad.return (Break (st\<lparr>
         lp_messages := lp_messages st @ [mk_message RoleAssistant (lr_Content result)],
         lp_lastContent := lr_Content result\<rparr>))
     else if iter = lp_maxIter st - 1 then do {
       dec \<leftarrow> DecideMaxIterations (rt_ErrorControl rt)
         \<lparr>mi_IterationCount = iter + 1, mi_MaxIterations = cx_originalMaxIter cx,
          mi_LastAction = LastToolAction (map tr_ToolName (lr_ToolCalls result))\<rparr>
         (lp_iterationsExtended st);
       (if ec_Action dec = ErrorControlExtendIterations
        then tool_round sub env rt input messageID iter result policies
               (st\<lparr>lp_maxIter := lp_maxIter st + ec_ExtraIterations dec, lp_iterationsExtended := True\<rparr>)
        else final_call env rt input cx iter policies st) }
     else tool_round sub env rt input messageID iter result policies st)"

definition loop_turn :: "'w sub_runner \<Rightarrow> 'w env \<Rightarrow> 'w runtime \<Rightarrow> 'w loop_input \<Rightarrow> run_context \<Rightarrow>
    execution_policies \<Rightarrow> int \<Rightarrow> loop_state \<Rightarrow> ('w, turn_end) io" where
  "loop_turn sub env rt input0 cx policies iter st = do {
     input \<leftarrow> (if li_circuitBreaker input0 = None then State_Monad.return input0
              else do {
                now \<leftarrow> ext (en_now env);
                State_Monad.return (input0\<lparr>li_circuitNow := Some now\<rparr>) });
     messageID \<leftarrow> ext (en_uuid env);
     r \<leftarrow> invokeLLMWithErrorControl env rt input
           (llm_input rt input cx messageID iter False (lp_messages st)) (lp_useFallback st) policies;
     (case r of
        Inl err \<Rightarrow> State_Monad.return (Return None (ErrWrap (''llm call (iter '' @ itoa iter @ ''): '') err ''''))
      | Inr (result, usedFB) \<Rightarrow>
          (let st1 = st\<lparr>lp_useFallback := (lp_useFallback st \<or> usedFB),
                 lp_telemetry := count_llm_call (lp_telemetry st),
                 lp_llmUsage := MergeLLMUsage (lp_llmUsage st) (lr_Usage result)\<rparr> in do {
             b \<leftarrow> checkBudget env rt input (lr_Usage result);
             (case b of
                Some be \<Rightarrow> State_Monad.return (budget_return st1 be)
              | None \<Rightarrow> answered_turn sub env rt input cx policies messageID iter result st1) })) }"

text \<open>
  The \<open>for\<close> loop, with \<open>n\<close> turns of fuel: \<open>None\<close> if they are used up while the condition holds.
\<close>

fun loop_rounds :: "(int \<Rightarrow> loop_state \<Rightarrow> ('w, turn_end) io) \<Rightarrow> nat \<Rightarrow> int \<Rightarrow> loop_state \<Rightarrow>
    ('w, turn_end option) io" where
  "loop_rounds turn n iter st =
    (if \<not> iter < lp_maxIter st then State_Monad.return (Some (Break st))
     else case n of
       0 \<Rightarrow> State_Monad.return None
     | Suc m \<Rightarrow> do {
         e \<leftarrow> turn iter st;
         (case e of
            Continue st' \<Rightarrow> loop_rounds turn m (iter + 1) st'
          | Break st' \<Rightarrow> State_Monad.return (Some (Break st'))
          | Return res err \<Rightarrow> State_Monad.return (Some (Return res err))) })"

declare loop_rounds.simps [simp del]

section \<open>The run\<close>

text \<open>The first messages: the stored history, if it can be loaded, and the user's prompt.\<close>

definition initial_messages :: "'w runtime \<Rightarrow> 'w loop_input \<Rightarrow> ('w, message list \<times> nat) io" where
  "initial_messages rt input =
    (let messages = [mk_message RoleUser (li_UserPrompt input)] in
     if \<not> conversationMemoryEnabled rt input then State_Monad.return (messages, 0)
     else do {
       r \<leftarrow> FetchConversationMessages rt (li_ConversationID input);
       State_Monad.return (case r of
           Inl err \<Rightarrow> (messages, 0)
         | Inr convMsgs \<Rightarrow> (convMsgs @ messages, length convMsgs)) })"

definition recall_memory :: "'w env \<Rightarrow> 'w runtime \<Rightarrow> 'w loop_input \<Rightarrow> execution_policies \<Rightarrow> agent_telemetry \<Rightarrow>
    ('w, go_error + string \<times> agent_telemetry) io" where
  "recall_memory env rt input policies t =
    (if \<not> (MemoryConfigured rt \<and> RecallEnabled rt) then State_Monad.return (Inr ('''', t))
     else do {
       r \<leftarrow> executeWithPolicy (en_ctx env) (pol_Memory policies)
             (ExecuteMemoryRecall rt (li_RunID input) 0 (li_MemoryScope input) (li_UserPrompt input));
       State_Monad.return (case r of
           Inl err \<Rightarrow> Inl (ErrWrap ''memory recall: '' err '''')
         | Inr res \<Rightarrow> Inr (mm_Context res, t\<lparr>te_Storage := (te_Storage t)
             \<lparr>st_TotalMemoryRecalls := st_TotalMemoryRecalls (te_Storage t) + mm_TotalRecalls res,
              st_FailedMemoryRecalls := st_FailedMemoryRecalls (te_Storage t) + mm_FailedRecalls res\<rparr>\<rparr>)) })"

definition prefetch_documents :: "'w env \<Rightarrow> 'w runtime \<Rightarrow> 'w loop_input \<Rightarrow> execution_policies \<Rightarrow>
    agent_telemetry \<Rightarrow> ('w, go_error + string \<times> agent_telemetry) io" where
  "prefetch_documents env rt input policies t =
    (if \<not> ((rt_RetrieverMode rt = RetrieverModePrefetch \<or> rt_RetrieverMode rt = RetrieverModeHybrid) \<and>
           rt_Retrievers rt \<noteq> []) then State_Monad.return (Inr ('''', t))
     else do {
       r \<leftarrow> executeWithPolicy (en_ctx env) (pol_Retriever policies)
             (ExecuteRetrievers env rt (li_RunID input) 0 (li_UserPrompt input));
       State_Monad.return (case r of
           Inl err \<Rightarrow> Inl (ErrWrap ''retriever prefetch: '' err '''')
         | Inr res \<Rightarrow> Inr (rr_Context res, t\<lparr>te_Storage := (te_Storage t)
             \<lparr>st_TotalRetrieverSearches := st_TotalRetrieverSearches (te_Storage t) + rr_TotalSearches res,
              st_FailedRetrieverSearches := st_FailedRetrieverSearches (te_Storage t) + rr_FailedSearches res,
              st_PrefetchSearches := st_PrefetchSearches (te_Storage t) + rr_TotalSearches res\<rparr>\<rparr>)) })"

definition store_memories :: "'w env \<Rightarrow> 'w runtime \<Rightarrow> 'w loop_input \<Rightarrow> execution_policies \<Rightarrow> message list \<Rightarrow>
    agent_telemetry \<Rightarrow> ('w, agent_telemetry) io" where
  "store_memories env rt input policies messages t =
    (if \<not> RunEndMemoryStoreEnabled rt then State_Monad.return t
     else do {
       e \<leftarrow> executeWithPolicyErr (en_ctx env) (pol_Memory policies)
             (ExecuteMemoryStore env rt (li_RunID input) 0 (li_MemoryScope input) messages);
       State_Monad.return (case e of
           Some err \<Rightarrow> t\<lparr>te_Storage := (te_Storage t)
             \<lparr>st_FailedMemoryStores := st_FailedMemoryStores (te_Storage t) + 1\<rparr>\<rparr>
         | None \<Rightarrow> t\<lparr>te_Storage := (te_Storage t)
             \<lparr>st_TotalMemoryStores := st_TotalMemoryStores (te_Storage t) + 1\<rparr>\<rparr>) })"

text \<open>What follows the loop: the remaining messages are persisted, memories are extracted.\<close>

definition complete_run :: "'w env \<Rightarrow> 'w runtime \<Rightarrow> 'w loop_input \<Rightarrow> execution_policies \<Rightarrow> loop_state \<Rightarrow>
    ('w, loop_outcome) io" where
  "complete_run env rt input policies st = do {
     st1 \<leftarrow> persist_new env rt input st;
     t \<leftarrow> store_memories env rt input policies (lp_messages st1) (lp_telemetry st1);
     now \<leftarrow> ext (en_now env);
     State_Monad.return (Some \<lparr>al_Content = lp_lastContent st1, al_LLMUsage = lp_llmUsage st1,
       al_Telemetry = t\<lparr>te_Run := (te_Run t)\<lparr>rn_CompletedAt := now\<rparr>\<rparr>\<rparr>, None) }"

definition loop_start :: "message list \<times> nat \<Rightarrow> int \<Rightarrow> agent_telemetry \<Rightarrow> loop_state" where
  "loop_start msgs maxIter t = \<lparr>lp_messages = fst msgs, lp_persisted = snd msgs,
     lp_maxIter = maxIter, lp_iterationsExtended = False, lp_useFallback = False,
     lp_lastContent = '''', lp_llmUsage = None, lp_telemetry = t\<rparr>"

text \<open>Fuel of the loop: the iterations can be extended once, by at most as many again.\<close>

definition loop_fuel :: "'w runtime \<Rightarrow> nat" where
  "loop_fuel rt = nat (2 * EffectiveMaxIterations (rt_MaxIterations rt))"

text \<open>The pair of two nils, which no Go path returns, stands for an exhausted fuel.\<close>

definition agent_loop :: "'w sub_runner \<Rightarrow> 'w env \<Rightarrow> 'w runtime \<Rightarrow> 'w loop_input \<Rightarrow> ('w, loop_outcome) io" where
  "agent_loop sub env rt input0 = do {
     startedAt \<leftarrow> ext (en_now env);
     (let policies = executionPolicies rt;
          maxIter = EffectiveMaxIterations (rt_MaxIterations rt)
      in do {
        input \<leftarrow> (if li_circuitBreaker input0 = None then do {
                    ref \<leftarrow> alloc_breaker (NewCircuitBreaker (breaker_config (rt_ErrorControl rt)));
                    State_Monad.return (input0\<lparr>li_circuitBreaker := ref\<rparr>) }
                  else State_Monad.return input0);
        msgs \<leftarrow> initial_messages rt input;
        m \<leftarrow> recall_memory env rt input policies (NewAgentTelemetry startedAt);
        (case m of
           Inl err \<Rightarrow> State_Monad.return (None, Some err)
         | Inr (memoryContext, t1) \<Rightarrow> do {
             d \<leftarrow> prefetch_documents env rt input policies t1;
             (case d of
                Inl err \<Rightarrow> State_Monad.return (None, Some err)
              | Inr (retrieverContext, t2) \<Rightarrow>
                  (let cx = \<lparr>cx_memoryContext = memoryContext, cx_retrieverContext = retrieverContext,
                             cx_originalMaxIter = maxIter\<rparr> in do {
                     e \<leftarrow> loop_rounds (loop_turn sub env rt input cx policies) (loop_fuel rt) 0
                           (loop_start msgs maxIter t2);
                     (case e of
                        None \<Rightarrow> State_Monad.return (None, None)
                      | Some (Return res err) \<Rightarrow> State_Monad.return (res, Some err)
                      | Some (Break st) \<Rightarrow> complete_run env rt input policies st
                      | Some (Continue st) \<Rightarrow> State_Monad.return (None, None)) })) }) }) }"

text \<open>The recursion through sub-agents, with a fuel for the nesting depth.\<close>

primrec executeAgentLoop :: "nat \<Rightarrow> 'w env \<Rightarrow> 'w runtime \<Rightarrow> 'w loop_input \<Rightarrow> ('w, loop_outcome) io" where
  "executeAgentLoop 0 env = agent_loop (\<lambda>rt input. State_Monad.return (None, None)) env"
| "executeAgentLoop (Suc n) env = agent_loop (executeAgentLoop n env) env"

definition depth_left :: "'w loop_input \<Rightarrow> nat" where
  "depth_left input = nat (li_MaxSubAgentDepth input - li_SubAgentDepth input)"

definition runAgentLoop :: "'w env \<Rightarrow> 'w runtime \<Rightarrow> 'w loop_input \<Rightarrow> ('w, loop_outcome) io" where
  "runAgentLoop env rt input = executeAgentLoop (depth_left input) env rt input"

end
