(* ===== verification/Observability.thy ===== *)
theory Observability
  imports MCP_Client
begin

text \<open>
  The settings of \<open>pkg/observability\<close>: the options and defaults of \<open>config.go\<close>, and what
  \<open>NewTracer\<close>, \<open>NewMetrics\<close> and \<open>NewLogs\<close> make of them. The exporters, providers and resources of the
  OpenTelemetry SDK are parameters: \<open>otlp_sdk\<close> says whether they can be made. A logger is known by its
  level and by where it comes from.
\<close>

section \<open>Configuration\<close>

definition OTLPProtocolGRPC :: string where "OTLPProtocolGRPC = ''grpc''"
definition OTLPProtocolHTTP :: string where "OTLPProtocolHTTP = ''http''"

definition DefaultOTLPExportTimeout :: int where "DefaultOTLPExportTimeout = 30 * Second"
definition DefaultOTLPBatchTimeout :: int where "DefaultOTLPBatchTimeout = 5 * Second"
definition DefaultOTLPMetricsInterval :: int where "DefaultOTLPMetricsInterval = 60 * Second"

lemmas otlp_default_defs = DefaultOTLPExportTimeout_def DefaultOTLPBatchTimeout_def
  DefaultOTLPMetricsInterval_def Second_def

text \<open>A logger of the caller, the default one, or one that feeds a log provider too.\<close>

datatype sdk_logger = CallerLogger string | DefaultLogger string | OtelLogger string string

record obs_config =
  os_Logger :: "sdk_logger option"
  os_LogLevel :: string
  os_Endpoint :: string
  os_Name :: string
  os_Protocol :: string
  os_Headers :: "(string \<times> string) list"
  os_Insecure :: bool
  os_ServiceVersion :: string
  os_DeploymentEnvironment :: string
  os_ExportTimeout :: int
  os_BatchTimeout :: int
  os_MetricsInterval :: int
  os_SamplingRatio :: rat

definition empty_obs :: obs_config where
  "empty_obs = \<lparr>os_Logger = None, os_LogLevel = '''', os_Endpoint = '''', os_Name = '''',
     os_Protocol = '''', os_Headers = [], os_Insecure = False, os_ServiceVersion = '''',
     os_DeploymentEnvironment = '''', os_ExportTimeout = 0, os_BatchTimeout = 0,
     os_MetricsInterval = 0, os_SamplingRatio = 0\<rparr>"

type_synonym obs_option = "obs_config \<Rightarrow> obs_config"

definition obs_WithLogger :: "sdk_logger option \<Rightarrow> obs_option" where
  "obs_WithLogger l c = c\<lparr>os_Logger := l\<rparr>"
definition obs_WithLogLevel :: "string \<Rightarrow> obs_option" where
  "obs_WithLogLevel level c = c\<lparr>os_LogLevel := level\<rparr>"
definition obs_WithEndpoint :: "string \<Rightarrow> obs_option" where
  "obs_WithEndpoint endpoint c = c\<lparr>os_Endpoint := endpoint\<rparr>"
definition obs_WithName :: "string \<Rightarrow> obs_option" where
  "obs_WithName name c = c\<lparr>os_Name := name\<rparr>"
definition obs_WithProtocol :: "string \<Rightarrow> obs_option" where
  "obs_WithProtocol p c = c\<lparr>os_Protocol := p\<rparr>"
definition obs_WithHeaders :: "(string \<times> string) list \<Rightarrow> obs_option" where
  "obs_WithHeaders headers c = c\<lparr>os_Headers := headers\<rparr>"
definition obs_WithInsecure :: "bool \<Rightarrow> obs_option" where
  "obs_WithInsecure insecure c = c\<lparr>os_Insecure := insecure\<rparr>"
definition obs_WithServiceVersion :: "string \<Rightarrow> obs_option" where
  "obs_WithServiceVersion v c = c\<lparr>os_ServiceVersion := v\<rparr>"
definition obs_WithDeploymentEnvironment :: "string \<Rightarrow> obs_option" where
  "obs_WithDeploymentEnvironment env c = c\<lparr>os_DeploymentEnvironment := env\<rparr>"
definition obs_WithExportTimeout :: "int \<Rightarrow> obs_option" where
  "obs_WithExportTimeout d c = c\<lparr>os_ExportTimeout := d\<rparr>"
definition obs_WithBatchTimeout :: "int \<Rightarrow> obs_option" where
  "obs_WithBatchTimeout d c = c\<lparr>os_BatchTimeout := d\<rparr>"
definition obs_WithMetricsInterval :: "int \<Rightarrow> obs_option" where
  "obs_WithMetricsInterval d c = c\<lparr>os_MetricsInterval := d\<rparr>"
definition obs_WithSamplingRatio :: "rat \<Rightarrow> obs_option" where
  "obs_WithSamplingRatio r c = c\<lparr>os_SamplingRatio := r\<rparr>"

lemmas obs_option_defs = obs_WithLogger_def obs_WithLogLevel_def obs_WithEndpoint_def
  obs_WithName_def obs_WithProtocol_def obs_WithHeaders_def obs_WithInsecure_def
  obs_WithServiceVersion_def obs_WithDeploymentEnvironment_def obs_WithExportTimeout_def
  obs_WithBatchTimeout_def obs_WithMetricsInterval_def obs_WithSamplingRatio_def

text \<open>A nil option is \<open>None\<close>.\<close>

definition obs_defaults :: "obs_config \<Rightarrow> obs_config" where
  "obs_defaults c0 =
    (let c1 = (if os_Protocol c0 = '''' then c0\<lparr>os_Protocol := OTLPProtocolGRPC\<rparr> else c0);
         c2 = (if os_ExportTimeout c1 \<le> 0
               then c1\<lparr>os_ExportTimeout := DefaultOTLPExportTimeout\<rparr> else c1);
         c3 = (if os_BatchTimeout c2 \<le> 0
               then c2\<lparr>os_BatchTimeout := DefaultOTLPBatchTimeout\<rparr> else c2)
     in if os_MetricsInterval c3 \<le> 0
        then c3\<lparr>os_MetricsInterval := DefaultOTLPMetricsInterval\<rparr> else c3)"

definition obs_BuildConfig :: "obs_option option list \<Rightarrow> go_error + obs_config" where
  "obs_BuildConfig opts =
    (let c0 = fold (\<lambda>opt c. case opt of None \<Rightarrow> c | Some f \<Rightarrow> f c) opts empty_obs;
         c1 = (if os_LogLevel c0 = '''' then c0\<lparr>os_LogLevel := ''error''\<rparr> else c0);
         c2 = (if os_Logger c1 = None
               then c1\<lparr>os_Logger := Some (DefaultLogger (os_LogLevel c1))\<rparr> else c1)
     in if os_Endpoint c2 = '''' then Inl (ErrNew ''observability: endpoint is required'')
        else if os_Name c2 = '''' then Inl (ErrNew ''observability: name is required'')
        else Inr (obs_defaults c2))"

section \<open>Clients\<close>

text \<open>What an exporter is made with; \<open>eo_Timeout\<close> is absent for logs.\<close>

record exporter_options =
  eo_HTTP :: bool
  eo_Endpoint :: string
  eo_Timeout :: "int option"
  eo_Headers :: "(string \<times> string) list option"
  eo_Insecure :: bool

definition exporter_for :: "obs_config \<Rightarrow> int option \<Rightarrow> exporter_options" where
  "exporter_for cfg timeout = \<lparr>eo_HTTP = (os_Protocol cfg = OTLPProtocolHTTP),
     eo_Endpoint = os_Endpoint cfg, eo_Timeout = timeout,
     eo_Headers = (if length (os_Headers cfg) > 0 then Some (os_Headers cfg) else None),
     eo_Insecure = os_Insecure cfg\<rparr>"

definition buildTraceExporter :: "obs_config \<Rightarrow> exporter_options" where
  "buildTraceExporter cfg = exporter_for cfg (Some (os_ExportTimeout cfg))"

definition buildMetricExporter :: "obs_config \<Rightarrow> exporter_options" where
  "buildMetricExporter cfg = exporter_for cfg (Some (os_ExportTimeout cfg))"

definition buildLogExporter :: "obs_config \<Rightarrow> exporter_options" where
  "buildLogExporter cfg = exporter_for cfg None"

definition buildResource :: "obs_config \<Rightarrow> (string \<times> string) list" where
  "buildResource cfg = [(''service.name'', os_Name cfg)]
     @ (if os_ServiceVersion cfg \<noteq> '''' then [(''service.version'', os_ServiceVersion cfg)] else [])
     @ (if os_DeploymentEnvironment cfg \<noteq> ''''
        then [(''deployment.environment'', os_DeploymentEnvironment cfg)] else [])"

text \<open>A sampler keeps everything or a ratio of the traces.\<close>

datatype sampler = AlwaysSample | RatioSample rat

definition buildSampler :: "rat \<Rightarrow> sampler" where
  "buildSampler ratio = (if ratio > 0 \<and> ratio \<le> 1 then RatioSample ratio else AlwaysSample)"

text \<open>
  A client: given by the caller (\<open>OtelLogs\<close> is the concrete log client of this package, with its
  provider), built from options, or the one that does nothing.
\<close>

datatype obs_client =
    CallerClient string
  | OtelLogs string
  | BuiltClient obs_config exporter_options "(string \<times> string) list" "sampler option"
  | NoopClient

record otlp_sdk =
  ot_resource :: "(string \<times> string) list \<Rightarrow> go_error option"
  ot_exporter :: "exporter_options \<Rightarrow> go_error option"
  ot_provider :: "exporter_options \<Rightarrow> (string \<times> string) list \<Rightarrow> string"

definition new_client ::
    "otlp_sdk \<Rightarrow> string \<Rightarrow> string \<Rightarrow> (obs_config \<Rightarrow> exporter_options) \<Rightarrow> obs_option option list \<Rightarrow>
     go_error + obs_config \<times> exporter_options" where
  "new_client sdk res_err exp_err exporter opts = (case obs_BuildConfig opts of
      Inl err \<Rightarrow> Inl err
    | Inr cfg \<Rightarrow> (case ot_resource sdk (buildResource cfg) of
        Some err \<Rightarrow> Inl (ErrWrap res_err err '''')
      | None \<Rightarrow> (case ot_exporter sdk (exporter cfg) of
          Some err \<Rightarrow> Inl (ErrWrap exp_err err '''')
        | None \<Rightarrow> Inr (cfg, exporter cfg))))"

definition NewTracer :: "otlp_sdk \<Rightarrow> obs_option option list \<Rightarrow> go_error + obs_client" where
  "NewTracer sdk opts = (case new_client sdk ''observability: build resource: ''
        ''observability: build trace exporter: '' buildTraceExporter opts of
      Inl err \<Rightarrow> Inl err
    | Inr (cfg, e) \<Rightarrow>
        Inr (BuiltClient cfg e (buildResource cfg) (Some (buildSampler (os_SamplingRatio cfg)))))"

definition NewMetrics :: "otlp_sdk \<Rightarrow> obs_option option list \<Rightarrow> go_error + obs_client" where
  "NewMetrics sdk opts = (case new_client sdk ''observability: build resource: ''
        ''observability: build metric exporter: '' buildMetricExporter opts of
      Inl err \<Rightarrow> Inl err
    | Inr (cfg, e) \<Rightarrow> Inr (BuiltClient cfg e (buildResource cfg) None))"

text \<open>The log client is known by its provider.\<close>

definition NewLogs :: "otlp_sdk \<Rightarrow> obs_option option list \<Rightarrow> go_error + obs_client" where
  "NewLogs sdk opts = (case new_client sdk ''observability: build resource for logs: ''
        ''observability: build log exporter: '' buildLogExporter opts of
      Inl err \<Rightarrow> Inl err
    | Inr (cfg, e) \<Rightarrow> Inr (OtelLogs (ot_provider sdk e (buildResource cfg))))"

text \<open>Every configuration that is built can be used: it names a collector and a service, and its
  intervals are positive.\<close>

lemma obs_defaults_kept:
  "os_Endpoint (obs_defaults c) = os_Endpoint c" "os_Name (obs_defaults c) = os_Name c"
  "os_Logger (obs_defaults c) = os_Logger c"
  by (simp_all add: obs_defaults_def Let_def)

lemma obs_defaults_filled:
  "os_Protocol (obs_defaults c) \<noteq> ''''" "0 < os_ExportTimeout (obs_defaults c)"
  "0 < os_BatchTimeout (obs_defaults c)" "0 < os_MetricsInterval (obs_defaults c)"
  by (simp_all add: obs_defaults_def Let_def otlp_default_defs OTLPProtocolGRPC_def)

lemma obs_BuildConfig_ok:
  assumes "obs_BuildConfig opts = Inr c"
  shows "os_Endpoint c \<noteq> '''' \<and> os_Name c \<noteq> '''' \<and> os_Protocol c \<noteq> '''' \<and> os_Logger c \<noteq> None \<and>
     0 < os_ExportTimeout c \<and> 0 < os_BatchTimeout c \<and> 0 < os_MetricsInterval c"
proof -
  obtain c0 where "c = obs_defaults c0" "os_Endpoint c0 \<noteq> ''''" "os_Name c0 \<noteq> ''''" "os_Logger c0 \<noteq> None"
    using assms by (force simp: obs_BuildConfig_def Let_def split: if_splits)
  then show ?thesis by (simp add: obs_defaults_kept obs_defaults_filled)
qed

lemma NewLogs_otel: "NewLogs sdk opts = Inr l \<Longrightarrow> \<exists>p. l = OtelLogs p"
  by (auto simp: NewLogs_def split: sum.splits)

end
