(* ===== verification/Agent_Config.thy ===== *)
theory Agent_Config
  imports Agent_Registry Agent_Loop Observability
begin

text \<open>
  The configuration of an agent, \<open>pkg/agent/config.go\<close> and \<open>runtime_factory.go\<close>: the options, the
  validation of names, hook groups, retrievers, named clients, error control and the sub-agent graph,
  and the registries that the options fill. A pointer to an agent is a natural number, \<open>'w agents\<close> is
  what the pointers point to. A map is a list of pairs with distinct keys, in the order in which a
  range over it runs. An operation that fails returns its error and the configuration as it left it,
  since registries are shared with the caller.
\<close>

section \<open>The configuration\<close>

record observability_config =
  ob_Endpoint :: string
  ob_Protocol :: string
  ob_Insecure :: bool
  ob_DisableTraces :: bool
  ob_DisableMetrics :: bool
  ob_DisableLogs :: bool

record a2a_agent_card =
  cd_Name :: string
  cd_Description :: string
  cd_Version :: string
  cd_URL :: string
  cd_DocumentationURL :: string
  cd_Skills :: "a2a_skill list"
  cd_InputModes :: "string list"
  cd_OutputModes :: "string list"

record a2a_server_config =
  sv_Hostname :: string
  sv_Port :: int
  sv_BearerTokens :: "string list"
  sv_AgentCard :: "a2a_agent_card option"

text \<open>\<open>vc_IsDistributed\<close> is the answer of the backend's method.\<close>

record 'w conversation_config =
  vc_Conversation :: "'w conversation option"
  vc_IsDistributed :: bool
  vc_Size :: int
  vc_SaveOnIteration :: bool

text \<open>The settings of the local runtime; \<open>lg_Engine\<close> is an engine of the caller's.\<close>

record local_config =
  lg_Durability :: "bool option"
  lg_Engine :: "nat option"
  lg_DataDir :: string
  lg_AutoPurgeAge :: int
  lg_AutoPurgeInterval :: int
  lg_AutoPurgeMaxRuns :: int
  lg_AutoPurgeMaxBytes :: int
  lg_MaxRetries :: int
  lg_Timeout :: int
  lg_LockTimeout :: int

text \<open>A runtime factory: its name and the answer of its \<open>Validate\<close>.\<close>

record runtime_factory =
  fy_Name :: string
  fy_Validate :: "go_error option"

record 'w agent_config =
  gc_ID :: string
  gc_Name :: string
  gc_Description :: string
  gc_SystemPrompt :: string
  gc_runtimeFactory :: "runtime_factory option"
  gc_factoryConflict :: "go_error option"
  gc_localConfig :: "local_config option"
  gc_instanceId :: string
  gc_LLMClient :: "'w llm_client option"
  gc_namedLLMClients :: "(string \<times> 'w llm_client option) list"
  gc_tools :: "'w tool option list"
  gc_toolRegistry :: "'w tool_registry option"
  gc_mcpRegistry :: "'w mcp_registry option"
  gc_a2aRegistry :: "'w a2a_registry option"
  gc_subAgentRegistry :: "nat sub_agent_registry option"
  gc_toolApprovalPolicy :: "'w approval_policy option"
  gc_maxIterations :: int
  gc_logger :: "sdk_logger option"
  gc_logLevel :: string
  gc_approvalHandler :: "(custom_value \<Rightarrow> ('w, unit) state) option"
  gc_timeout :: int
  gc_approvalTimeout :: int
  gc_executionConfigs :: execution_configs
  gc_conversationConfig :: "'w conversation_config option"
  gc_memoryConfig :: "'w memory_config option"
  gc_responseFormat :: "response_format option"
  gc_llmSampling :: "llm_sampling option"
  gc_disableLocalWorker :: bool
  gc_remoteWorker :: bool
  gc_disableFingerprintCheck :: bool
  gc_subAgents :: "nat option list"
  gc_maxSubAgentDepth :: int
  gc_mcpServers :: "(string \<times> mcp_config) list"
  gc_mcpClients :: "'w mcp_client option list"
  gc_a2aServers :: "(string \<times> a2a_config) list"
  gc_a2aClients :: "'w a2a_client option list"
  gc_retrievers :: "'w retriever option list"
  gc_retrieverMode :: string
  gc_a2aServerConfig :: "a2a_server_config option"
  gc_agentMode :: string
  gc_agentToolExecutionMode :: string
  gc_budgetConfig :: "budget_config option"
  gc_observabilityConfig :: "observability_config option"
  gc_tracer :: "obs_client option"
  gc_metrics :: "obs_client option"
  gc_logs :: "obs_client option"
  gc_hooks :: "'w hook_group list"
  gc_errorControl :: "'w error_control_config option"

text \<open>An agent: its configuration, and its runtime if that is a local one.\<close>

record 'w agent =
  ag_config :: "'w agent_config"
  ag_runtime :: "'w runtime option"

type_synonym 'w agents = "nat \<Rightarrow> 'w agent"

abbreviation agent_name :: "'w agents \<Rightarrow> nat \<Rightarrow> string" where
  "agent_name h a \<equiv> gc_Name (ag_config (h a))"

section \<open>Options\<close>

definition no_overrides :: execution_config where
  "no_overrides = \<lparr>xc_Timeout = 0, xc_MaxAttempts = 0\<rparr>"

definition new_config :: "string \<Rightarrow> 'w agent_config" where
  "new_config uuid = \<lparr>gc_ID = uuid, gc_Name = '''', gc_Description = '''', gc_SystemPrompt = '''',
     gc_runtimeFactory = None, gc_factoryConflict = None, gc_localConfig = None, gc_instanceId = '''',
     gc_LLMClient = None, gc_namedLLMClients = [], gc_tools = [], gc_toolRegistry = None,
     gc_mcpRegistry = None, gc_a2aRegistry = None, gc_subAgentRegistry = None,
     gc_toolApprovalPolicy = None, gc_maxIterations = 0, gc_logger = None, gc_logLevel = '''',
     gc_approvalHandler = None, gc_timeout = 0, gc_approvalTimeout = 0,
     gc_executionConfigs = \<lparr>xc_LLM = no_overrides, xc_ToolAuth = no_overrides,
       xc_ToolExecute = no_overrides, xc_MCP = no_overrides, xc_A2A = no_overrides,
       xc_Retriever = no_overrides, xc_Memory = no_overrides, xc_Conversation = no_overrides,
       xc_SubAgent = no_overrides\<rparr>,
     gc_conversationConfig = None, gc_memoryConfig = None, gc_responseFormat = None,
     gc_llmSampling = None, gc_disableLocalWorker = False, gc_remoteWorker = False,
     gc_disableFingerprintCheck = False, gc_subAgents = [], gc_maxSubAgentDepth = 0,
     gc_mcpServers = [], gc_mcpClients = [], gc_a2aServers = [], gc_a2aClients = [],
     gc_retrievers = [], gc_retrieverMode = '''', gc_a2aServerConfig = None, gc_agentMode = '''',
     gc_agentToolExecutionMode = '''', gc_budgetConfig = None, gc_observabilityConfig = None,
     gc_tracer = None, gc_metrics = None, gc_logs = None, gc_hooks = [], gc_errorControl = None\<rparr>"

type_synonym 'w agent_option = "'w agent_config \<Rightarrow> 'w agent_config"

definition WithName :: "string \<Rightarrow> 'w agent_option" where
  "WithName name c = c\<lparr>gc_Name := name\<rparr>"
definition WithDescription :: "string \<Rightarrow> 'w agent_option" where
  "WithDescription desc c = c\<lparr>gc_Description := desc\<rparr>"
definition WithSystemPrompt :: "string \<Rightarrow> 'w agent_option" where
  "WithSystemPrompt prompt c = c\<lparr>gc_SystemPrompt := prompt\<rparr>"
definition WithInstanceId :: "string \<Rightarrow> 'w agent_option" where
  "WithInstanceId i c = c\<lparr>gc_instanceId := i\<rparr>"
definition WithAgentMode :: "string \<Rightarrow> 'w agent_option" where
  "WithAgentMode mode c = c\<lparr>gc_agentMode := mode\<rparr>"
definition WithAgentToolExecutionMode :: "string \<Rightarrow> 'w agent_option" where
  "WithAgentToolExecutionMode mode c = c\<lparr>gc_agentToolExecutionMode := mode\<rparr>"
definition WithLLMClient :: "'w llm_client option \<Rightarrow> 'w agent_option" where
  "WithLLMClient client c = c\<lparr>gc_LLMClient := client\<rparr>"

definition WithNamedLLMClients :: "(string \<times> 'w llm_client option) list \<Rightarrow> 'w agent_option" where
  "WithNamedLLMClients clients c =
    (if length clients = 0 then c else c\<lparr>gc_namedLLMClients := clients\<rparr>)"

definition WithErrorControl :: "'w error_control_config \<Rightarrow> 'w agent_option" where
  "WithErrorControl cfg c = c\<lparr>gc_errorControl := Some cfg\<rparr>"
definition WithToolApprovalPolicy :: "'w approval_policy option \<Rightarrow> 'w agent_option" where
  "WithToolApprovalPolicy policy c = c\<lparr>gc_toolApprovalPolicy := policy\<rparr>"
definition WithTools :: "'w tool option list \<Rightarrow> 'w agent_option" where
  "WithTools tools c = c\<lparr>gc_tools := tools\<rparr>"
definition WithToolRegistry :: "'w tool_registry option \<Rightarrow> 'w agent_option" where
  "WithToolRegistry reg c = c\<lparr>gc_toolRegistry := reg\<rparr>"
definition WithMCPRegistry :: "'w mcp_registry option \<Rightarrow> 'w agent_option" where
  "WithMCPRegistry reg c = c\<lparr>gc_mcpRegistry := reg\<rparr>"
definition WithA2ARegistry :: "'w a2a_registry option \<Rightarrow> 'w agent_option" where
  "WithA2ARegistry reg c = c\<lparr>gc_a2aRegistry := reg\<rparr>"
definition WithSubAgentRegistry :: "nat sub_agent_registry option \<Rightarrow> 'w agent_option" where
  "WithSubAgentRegistry reg c = c\<lparr>gc_subAgentRegistry := reg\<rparr>"
definition WithMaxIterations :: "int \<Rightarrow> 'w agent_option" where
  "WithMaxIterations n c = c\<lparr>gc_maxIterations := n\<rparr>"
definition WithBudget :: "budget_config \<Rightarrow> 'w agent_option" where
  "WithBudget cfg c = c\<lparr>gc_budgetConfig := Some cfg\<rparr>"
definition WithLogger :: "sdk_logger option \<Rightarrow> 'w agent_option" where
  "WithLogger l c = c\<lparr>gc_logger := l\<rparr>"
definition WithLogLevel :: "string \<Rightarrow> 'w agent_option" where
  "WithLogLevel level c = c\<lparr>gc_logLevel := level\<rparr>"
definition WithApprovalHandler :: "(custom_value \<Rightarrow> ('w, unit) state) option \<Rightarrow> 'w agent_option" where
  "WithApprovalHandler fn c = c\<lparr>gc_approvalHandler := fn\<rparr>"
definition WithTimeout :: "int \<Rightarrow> 'w agent_option" where
  "WithTimeout d c = c\<lparr>gc_timeout := d\<rparr>"
definition WithApprovalTimeout :: "int \<Rightarrow> 'w agent_option" where
  "WithApprovalTimeout d c = c\<lparr>gc_approvalTimeout := d\<rparr>"

definition WithLLMExecutionConfig :: "execution_config \<Rightarrow> 'w agent_option" where
  "WithLLMExecutionConfig cfg c =
     c\<lparr>gc_executionConfigs := (gc_executionConfigs c)\<lparr>xc_LLM := cfg\<rparr>\<rparr>"
definition WithToolAuthExecutionConfig :: "execution_config \<Rightarrow> 'w agent_option" where
  "WithToolAuthExecutionConfig cfg c =
     c\<lparr>gc_executionConfigs := (gc_executionConfigs c)\<lparr>xc_ToolAuth := cfg\<rparr>\<rparr>"
definition WithToolExecutionConfig :: "execution_config \<Rightarrow> 'w agent_option" where
  "WithToolExecutionConfig cfg c =
     c\<lparr>gc_executionConfigs := (gc_executionConfigs c)\<lparr>xc_ToolExecute := cfg\<rparr>\<rparr>"
definition WithMCPExecutionConfig :: "execution_config \<Rightarrow> 'w agent_option" where
  "WithMCPExecutionConfig cfg c =
     c\<lparr>gc_executionConfigs := (gc_executionConfigs c)\<lparr>xc_MCP := cfg\<rparr>\<rparr>"
definition WithA2AExecutionConfig :: "execution_config \<Rightarrow> 'w agent_option" where
  "WithA2AExecutionConfig cfg c =
     c\<lparr>gc_executionConfigs := (gc_executionConfigs c)\<lparr>xc_A2A := cfg\<rparr>\<rparr>"
definition WithRetrieverExecutionConfig :: "execution_config \<Rightarrow> 'w agent_option" where
  "WithRetrieverExecutionConfig cfg c =
     c\<lparr>gc_executionConfigs := (gc_executionConfigs c)\<lparr>xc_Retriever := cfg\<rparr>\<rparr>"
definition WithMemoryExecutionConfig :: "execution_config \<Rightarrow> 'w agent_option" where
  "WithMemoryExecutionConfig cfg c =
     c\<lparr>gc_executionConfigs := (gc_executionConfigs c)\<lparr>xc_Memory := cfg\<rparr>\<rparr>"
definition WithConversationExecutionConfig :: "execution_config \<Rightarrow> 'w agent_option" where
  "WithConversationExecutionConfig cfg c =
     c\<lparr>gc_executionConfigs := (gc_executionConfigs c)\<lparr>xc_Conversation := cfg\<rparr>\<rparr>"
definition WithSubAgentExecutionConfig :: "execution_config \<Rightarrow> 'w agent_option" where
  "WithSubAgentExecutionConfig cfg c =
     c\<lparr>gc_executionConfigs := (gc_executionConfigs c)\<lparr>xc_SubAgent := cfg\<rparr>\<rparr>"

definition DisableLocalWorker :: "'w agent_option" where
  "DisableLocalWorker c = c\<lparr>gc_disableLocalWorker := True\<rparr>"
definition WithDisableFingerprintCheck :: "bool \<Rightarrow> 'w agent_option" where
  "WithDisableFingerprintCheck disable c = c\<lparr>gc_disableFingerprintCheck := disable\<rparr>"
definition WithConversation :: "'w conversation_config \<Rightarrow> 'w agent_option" where
  "WithConversation cfg c = c\<lparr>gc_conversationConfig := Some cfg\<rparr>"
definition WithMemory :: "'w memory_config \<Rightarrow> 'w agent_option" where
  "WithMemory cfg c = c\<lparr>gc_memoryConfig := Some cfg\<rparr>"
definition WithResponseFormat :: "response_format option \<Rightarrow> 'w agent_option" where
  "WithResponseFormat rf c = c\<lparr>gc_responseFormat := rf\<rparr>"
definition WithLLMSampling :: "llm_sampling option \<Rightarrow> 'w agent_option" where
  "WithLLMSampling s c = c\<lparr>gc_llmSampling := s\<rparr>"
definition WithSubAgents :: "nat option list \<Rightarrow> 'w agent_option" where
  "WithSubAgents subAgents c = c\<lparr>gc_subAgents := subAgents\<rparr>"
definition WithMaxSubAgentDepth :: "int \<Rightarrow> 'w agent_option" where
  "WithMaxSubAgentDepth depth c = c\<lparr>gc_maxSubAgentDepth := depth\<rparr>"
definition WithMCPConfig :: "(string \<times> mcp_config) list \<Rightarrow> 'w agent_option" where
  "WithMCPConfig servers c = c\<lparr>gc_mcpServers := servers\<rparr>"
definition WithMCPClients :: "'w mcp_client option list \<Rightarrow> 'w agent_option" where
  "WithMCPClients clients c =
    (if length clients = 0 then c\<lparr>gc_mcpClients := []\<rparr> else c\<lparr>gc_mcpClients := clients\<rparr>)"
definition WithA2AConfig :: "(string \<times> a2a_config) list \<Rightarrow> 'w agent_option" where
  "WithA2AConfig servers c = c\<lparr>gc_a2aServers := servers\<rparr>"
definition WithA2AClients :: "'w a2a_client option list \<Rightarrow> 'w agent_option" where
  "WithA2AClients clients c =
    (if length clients = 0 then c\<lparr>gc_a2aClients := []\<rparr> else c\<lparr>gc_a2aClients := clients\<rparr>)"
definition WithRetrievers :: "'w retriever option list \<Rightarrow> 'w agent_option" where
  "WithRetrievers retrievers c =
    (if length retrievers = 0 then c\<lparr>gc_retrievers := []\<rparr> else c\<lparr>gc_retrievers := retrievers\<rparr>)"
definition WithRetrieverMode :: "string \<Rightarrow> 'w agent_option" where
  "WithRetrieverMode mode c = c\<lparr>gc_retrieverMode := mode\<rparr>"

definition defaultA2AHostname :: string where "defaultA2AHostname = ''localhost''"
definition defaultA2APort :: int where "defaultA2APort = 9999"

definition default_server :: a2a_server_config where
  "default_server = \<lparr>sv_Hostname = defaultA2AHostname, sv_Port = defaultA2APort,
     sv_BearerTokens = [], sv_AgentCard = None\<rparr>"

definition WithA2ADefaultServer :: "'w agent_option" where
  "WithA2ADefaultServer c = c\<lparr>gc_a2aServerConfig := Some default_server\<rparr>"

definition WithA2AServer :: "a2a_server_config option \<Rightarrow> 'w agent_option" where
  "WithA2AServer config c =
    (let s0 = (case config of None \<Rightarrow> default_server | Some s \<Rightarrow> s);
         s1 = (if sv_Hostname s0 = '''' then s0\<lparr>sv_Hostname := defaultA2AHostname\<rparr> else s0);
         s2 = (if sv_Port s1 = 0 then s1\<lparr>sv_Port := defaultA2APort\<rparr> else s1)
     in c\<lparr>gc_a2aServerConfig := Some s2\<rparr>)"

definition WithObservabilityConfig :: "observability_config option \<Rightarrow> 'w agent_option" where
  "WithObservabilityConfig config c = c\<lparr>gc_observabilityConfig := config\<rparr>"
definition WithTracer :: "obs_client option \<Rightarrow> 'w agent_option" where
  "WithTracer tracer c = c\<lparr>gc_tracer := tracer\<rparr>"
definition WithMetrics :: "obs_client option \<Rightarrow> 'w agent_option" where
  "WithMetrics metrics c = c\<lparr>gc_metrics := metrics\<rparr>"
definition WithLogs :: "obs_client option \<Rightarrow> 'w agent_option" where
  "WithLogs l c = c\<lparr>gc_logs := l\<rparr>"

definition WithHooks :: "string \<Rightarrow> 'w agent_hooks \<Rightarrow> 'w agent_option" where
  "WithHooks name agentHooks c =
     c\<lparr>gc_hooks := gc_hooks c @ [\<lparr>hg_Name = TrimSpace name, hg_Hooks = agentHooks\<rparr>]\<rparr>"

definition mergedHooks :: "'w agent_config \<Rightarrow> 'w agent_hooks" where
  "mergedHooks c = fold (\<lambda>g out. Merge out (hg_Hooks g)) (gc_hooks c) no_hooks"

section \<open>Choice of the runtime\<close>

definition RuntimeNameTemporal :: string where "RuntimeNameTemporal = ''temporal''"
definition RuntimeNameRestate :: string where "RuntimeNameRestate = ''restate''"

definition withRuntimeFactory :: "runtime_factory option \<Rightarrow> 'w agent_option" where
  "withRuntimeFactory f c = (case f of None \<Rightarrow> c
     | Some fac \<Rightarrow>
        let c1 = (case gc_runtimeFactory c of None \<Rightarrow> c
              | Some old \<Rightarrow> if fy_Name old \<noteq> fy_Name fac
                  then c\<lparr>gc_factoryConflict := Some (ErrNew (''provide either '' @ fy_Name old
                    @ '' or '' @ fy_Name fac @ '', not both''))\<rparr> else c);
            c2 = (if gc_localConfig c1 \<noteq> None
                  then c1\<lparr>gc_factoryConflict := Some (ErrNew (''WithLocalConfig is incompatible with the ''
                    @ fy_Name fac @ '' runtime factory''))\<rparr> else c1)
        in c2\<lparr>gc_runtimeFactory := Some fac\<rparr>)"

definition withLocalConfig :: "local_config option \<Rightarrow> 'w agent_option" where
  "withLocalConfig cfg c = (case cfg of None \<Rightarrow> c
     | Some l \<Rightarrow> (case gc_runtimeFactory c of
         Some fac \<Rightarrow> c\<lparr>gc_factoryConflict := Some (ErrNew (''WithLocalConfig is incompatible with the ''
           @ fy_Name fac @ '' runtime factory''))\<rparr>
       | None \<Rightarrow> c\<lparr>gc_localConfig := Some l\<rparr>))"

definition hasTemporalRuntime :: "'w agent_config \<Rightarrow> bool" where
  "hasTemporalRuntime cfg \<longleftrightarrow> (case gc_runtimeFactory cfg of None \<Rightarrow> False
     | Some f \<Rightarrow> fy_Name f = RuntimeNameTemporal)"

definition hasRestateRuntime :: "'w agent_config \<Rightarrow> bool" where
  "hasRestateRuntime cfg \<longleftrightarrow> (case gc_runtimeFactory cfg of None \<Rightarrow> False
     | Some f \<Rightarrow> fy_Name f = RuntimeNameRestate)"

definition durabilityEnabled :: "local_config option \<Rightarrow> bool" where
  "durabilityEnabled cfg = (case cfg of None \<Rightarrow> True
     | Some l \<Rightarrow> (case lg_Durability l of None \<Rightarrow> True | Some d \<Rightarrow> d))"

text \<open>The options that apply_choice a runtime, in the order in which they are given.\<close>

datatype runtime_choice = ChooseFactory runtime_factory | ChooseLocal local_config

fun apply_choice :: "runtime_choice \<Rightarrow> 'w agent_option" where
  "apply_choice (ChooseFactory f) = withRuntimeFactory (Some f)"
| "apply_choice (ChooseLocal l) = withLocalConfig (Some l)"

definition chosen_names :: "runtime_choice list \<Rightarrow> string set" where
  "chosen_names xs = {fy_Name f |f. ChooseFactory f \<in> set xs}"

definition chosen_local :: "runtime_choice list \<Rightarrow> bool" where
  "chosen_local xs \<longleftrightarrow> (\<exists>l. ChooseLocal l \<in> set xs)"

lemma chosen_snoc [simp]:
  "chosen_names (xs @ [ChooseFactory f]) = insert (fy_Name f) (chosen_names xs)"
  "chosen_names (xs @ [ChooseLocal l]) = chosen_names xs"
  "chosen_local (xs @ [ChooseFactory f]) = chosen_local xs"
  "chosen_local (xs @ [ChooseLocal l])"
  by (auto simp: chosen_names_def chosen_local_def)

text \<open>The configuration after the options, as long as no conflict has been seen.\<close>

lemma choices_state:
  assumes "gc_factoryConflict (fold apply_choice xs (new_config u :: 'w agent_config)) = None"
  shows "(case gc_runtimeFactory (fold apply_choice xs (new_config u :: 'w agent_config)) of
            None \<Rightarrow> chosen_names xs = {} | Some f \<Rightarrow> chosen_names xs = {fy_Name f}) \<and>
         (gc_localConfig (fold apply_choice xs (new_config u :: 'w agent_config)) \<noteq> None) = chosen_local xs \<and>
         (chosen_names xs = {} \<or> \<not> chosen_local xs)"
  using assms
proof (induction xs rule: rev_induct)
  case Nil
  then show ?case by (simp add: new_config_def chosen_names_def chosen_local_def)
next
  case (snoc x xs)
  let ?c = "fold apply_choice xs (new_config u) :: 'w agent_config"
  from snoc.prems have "gc_factoryConflict ?c = None"
    by (cases x) (auto simp: withRuntimeFactory_def withLocalConfig_def Let_def
        split: option.splits if_splits)
  from snoc.IH [OF this] snoc.prems show ?case
    by (cases x) (auto simp: withRuntimeFactory_def withLocalConfig_def Let_def
        split: option.splits if_splits)
qed

lemma conflict_stays:
  "gc_factoryConflict c \<noteq> None \<Longrightarrow> gc_factoryConflict (apply_choice x c) \<noteq> None"
  by (cases x) (auto simp: withRuntimeFactory_def withLocalConfig_def Let_def split: option.splits)


lemma no_conflict_iff:
  "(gc_factoryConflict (fold apply_choice xs (new_config u :: 'w agent_config)) = None) =
     (card (chosen_names xs) \<le> 1 \<and> (chosen_names xs = {} \<or> \<not> chosen_local xs))"
proof (induction xs rule: rev_induct)
  case Nil
  then show ?case by (simp add: new_config_def chosen_names_def chosen_local_def)
next
  case (snoc x xs)
  let ?c = "fold apply_choice xs (new_config u) :: 'w agent_config"
  show ?case
  proof (cases "gc_factoryConflict ?c = None")
    case True
    with snoc.IH choices_state [OF True] show ?thesis
      by (cases x) (auto simp: withRuntimeFactory_def withLocalConfig_def Let_def card_insert_if
          split: option.splits if_splits)
  next
    case False
    have fin: "finite (chosen_names xs)"
      by (rule finite_subset [of _ "(\<lambda>x. case x of ChooseFactory f \<Rightarrow> fy_Name f | _ \<Rightarrow> '''') ` set xs"])
        (force simp: chosen_names_def)+
    from False snoc.IH have "\<not> (card (chosen_names xs) \<le> 1 \<and> (chosen_names xs = {} \<or> \<not> chosen_local xs))"
      by simp
    with conflict_stays [OF False, of x] fin show ?thesis
      by (cases x) (auto simp: card_insert_if)
  qed
qed

text \<open>The choice of a runtime: the options conflict exactly when they name two runtimes, or one
  runtime and a local configuration, in whatever order they are given and however often; without a
  conflict the runtime is the one that was named.\<close>

theorem runtime_choice_conflict:
  "let c = fold apply_choice xs (new_config u :: 'w agent_config)
   in (gc_factoryConflict c = None) =
      (card (chosen_names xs) \<le> 1 \<and> (chosen_names xs = {} \<or> \<not> chosen_local xs)) \<and>
    (gc_factoryConflict c = None \<longrightarrow>
      (\<forall>n. (\<exists>f. gc_runtimeFactory c = Some f \<and> fy_Name f = n) \<longleftrightarrow> n \<in> chosen_names xs))"
  using choices_state [of xs u, where 'w = 'w] no_conflict_iff [of xs u, where 'w = 'w]
  by (auto simp: Let_def split: option.splits)

theorem runtime_choice_conflict_witness:
  "hasTemporalRuntime (fold apply_choice [ChooseFactory \<lparr>fy_Name = ''temporal'', fy_Validate = None\<rparr>]
     (new_config ''u'' :: unit agent_config))"
proof -
  let ?f = "\<lparr>fy_Name = ''temporal'', fy_Validate = None\<rparr>"
  let ?c = "fold apply_choice [ChooseFactory ?f] (new_config ''u'' :: unit agent_config)"
  have n: "chosen_names [ChooseFactory ?f] = {''temporal''}" "\<not> chosen_local [ChooseFactory ?f]"
    by (auto simp: chosen_names_def chosen_local_def)
  with runtime_choice_conflict [of "[ChooseFactory ?f]" "''u''", where 'w = unit]
  have "\<exists>f. gc_runtimeFactory ?c = Some f \<and> fy_Name f = ''temporal''"
    by (simp add: Let_def)
  then show ?thesis
    by (auto simp: hasTemporalRuntime_def RuntimeNameTemporal_def)
qed

section \<open>Names\<close>

text \<open>
  \<open>strings.ToLower\<close> and the range over its characters: the characters below 128. Of the others only the
  Kelvin sign and the capital dotted I have lower case forms among them; the rest are dropped here, as
  the sanitizer would drop them.
\<close>

fun lower_ascii :: "string \<Rightarrow> string" where
  "lower_ascii [] = []"
| "lower_ascii (c # cs) =
    (if (of_char c :: nat) < 128 then to_lower c # lower_ascii cs
     else if c = CHR 0xE2 \<and> take 2 cs = [CHR 0x84, CHR 0xAA] then CHR ''k'' # lower_ascii cs
     else if c = CHR 0xC4 \<and> take 1 cs = [CHR 0xB0] then CHR ''i'' # lower_ascii cs
     else lower_ascii cs)"

definition maxAgentNameLen :: nat where "maxAgentNameLen = 64"

definition write_name_char :: "char \<Rightarrow> string \<Rightarrow> string" where
  "write_name_char r b =
    (if r \<in> {CHR '' '', CHR 0x09, CHR 0x0A, CHR 0x0D} then b @ ''-''
     else if is_lower r \<or> is_decimal r \<or> r = CHR ''-'' \<or> r = CHR ''_'' then b @ [r]
     else b)"

fun sanitize_from :: "string \<Rightarrow> string \<Rightarrow> string" where
  "sanitize_from b [] = b"
| "sanitize_from b (r # rs) =
    (let b' = write_name_char r b
     in if length b' \<ge> maxAgentNameLen then b' else sanitize_from b' rs)"

definition sanitizeName :: "string \<Rightarrow> string" where
  "sanitizeName n =
    (let name = TrimSpace n
     in if name = '''' then ''''
        else let out = sanitize_from '''' (lower_ascii name)
             in if length out > maxAgentNameLen then take maxAgentNameLen out else out)"

definition is_name_char :: "char \<Rightarrow> bool" where
  "is_name_char r \<longleftrightarrow> is_lower r \<or> is_upper r \<or> is_decimal r \<or> r = CHR ''-'' \<or> r = CHR ''_''"

definition validateAgentName :: "string \<Rightarrow> go_error option" where
  "validateAgentName name =
    (if name = '''' then Some (ErrNew ''name is required'')
     else if length name > maxAgentNameLen then
       Some (ErrNew (''name '' @ Quote name @ '' is invalid: max length is '' @ nat_str maxAgentNameLen))
     else if \<not> list_all is_name_char name then
       Some (ErrNew (''name '' @ Quote name @ '' is invalid: use letters, digits, hyphens, or underscores only''))
     else None)"

definition is_canonical_char :: "char \<Rightarrow> bool" where
  "is_canonical_char r \<longleftrightarrow> is_lower r \<or> is_decimal r \<or> r = CHR ''-'' \<or> r = CHR ''_''"

lemma canonical_name_char: "is_canonical_char r \<Longrightarrow> is_name_char r"
  by (auto simp: is_canonical_char_def is_name_char_def)

lemma canonical_not_space: "is_canonical_char r \<Longrightarrow> \<not> is_space r"
  by (auto simp: is_canonical_char_def is_space_def is_lower_def is_decimal_def)

lemma canonical_lower:
  "list_all is_canonical_char s \<Longrightarrow> lower_ascii s = s"
  by (induction s) (auto simp: is_canonical_char_def is_lower_def is_decimal_def to_lower_def
      is_upper_def)

lemma sanitize_from_canonical:
  "list_all is_canonical_char b \<Longrightarrow> list_all is_canonical_char (sanitize_from b rs)"
  by (induction b rs rule: sanitize_from.induct)
    (auto simp: is_canonical_char_def Let_def write_name_char_def)

lemma sanitize_from_length:
  "length b < maxAgentNameLen \<Longrightarrow> length (sanitize_from b rs) \<le> maxAgentNameLen"
proof (induction b rs rule: sanitize_from.induct)
  case (2 b r rs)
  have "length (write_name_char r b) \<le> Suc (length b)" by (simp add: write_name_char_def)
  with 2 show ?case by (auto simp: Let_def)
qed simp

lemma sanitize_from_id:
  "list_all is_canonical_char rs \<Longrightarrow> length b + length rs \<le> maxAgentNameLen \<Longrightarrow>
   sanitize_from b rs = b @ rs"
proof (induction b rs rule: sanitize_from.induct)
  case (2 b r rs)
  from "2.prems" have "is_canonical_char r" by simp
  then have r: "is_lower r \<or> is_decimal r \<or> r = CHR ''-'' \<or> r = CHR ''_''"
    and nsp: "r \<notin> {CHR '' '', CHR 0x09, CHR 0x0A, CHR 0x0D}"
    using canonical_not_space [of r] by (auto simp: is_canonical_char_def is_space_def)
  show ?case
  proof (cases "length (b @ [r]) \<ge> maxAgentNameLen")
    case True
    with "2.prems"(2) have "length rs = 0" by (simp del: length_0_conv)
    then have "rs = []" by simp
    with True r nsp show ?thesis by (simp add: Let_def write_name_char_def)
  next
    case False
    with 2 r nsp show ?thesis by (simp add: Let_def write_name_char_def)
  qed
qed simp

lemma sanitizeName_canonical:
  "list_all is_canonical_char (sanitizeName n)" "length (sanitizeName n) \<le> maxAgentNameLen"
  using sanitize_from_canonical [of "''''"] sanitize_from_length [of "''''"]
  by (simp_all add: sanitizeName_def Let_def list_all_iff maxAgentNameLen_def)

text \<open>Agent names: sanitizing a name is idempotent, and its result is rejected exactly if it is empty,
  never for its length or its characters.\<close>

theorem sanitized_name_valid:
  "sanitizeName (sanitizeName n) = sanitizeName n \<and>
   (validateAgentName (sanitizeName n) = None \<longleftrightarrow> sanitizeName n \<noteq> '''')"
proof -
  let ?s = "sanitizeName n"
  note c = sanitizeName_canonical [of n]
  have "TrimSpace ?s = ?s"
  proof (cases "?s = ''''")
    case False
    then have "is_canonical_char (hd ?s)" "is_canonical_char (last ?s)"
      using c(1) by (simp_all add: list_all_iff)
    with False show ?thesis by (intro TrimSpace_id canonical_not_space)
  qed simp
  then have "sanitizeName ?s = ?s"
    using c canonical_lower [of ?s] sanitize_from_id [of ?s "''''"]
    by (cases "?s = ''''") (simp_all add: sanitizeName_def [of "sanitizeName _"] sanitizeName_def [of "[]"] Let_def)
  moreover have "validateAgentName ?s = None \<longleftrightarrow> ?s \<noteq> ''''"
    using c canonical_name_char by (auto simp: validateAgentName_def list_all_iff)
  ultimately show ?thesis by blast
qed

section \<open>Validation of the parts\<close>

fun hook_groups_error :: "string list \<Rightarrow> 'w hook_group list \<Rightarrow> go_error option" where
  "hook_groups_error seen [] = None"
| "hook_groups_error seen (g # gs) =
    (if hg_Name g = '''' then Some (ErrNew ''WithHooks: hook group name is required'')
     else if hg_Name g \<in> set seen then
       Some (ErrNew (''WithHooks: duplicate hook group name '' @ Quote (hg_Name g)))
     else hook_groups_error (hg_Name g # seen) gs)"

definition validateHookGroups :: "'w agent_config \<Rightarrow> go_error option" where
  "validateHookGroups c = hook_groups_error [] (gc_hooks c)"

lemma hook_groups_error_None:
  "hook_groups_error seen gs = None \<longleftrightarrow>
   '''' \<notin> hg_Name ` set gs \<and> distinct (map hg_Name gs) \<and> hg_Name ` set gs \<inter> set seen = {}"
  by (induction gs arbitrary: seen) auto

lemma validateHookGroups_None:
  "validateHookGroups c = None \<longleftrightarrow>
   '''' \<notin> hg_Name ` set (gc_hooks c) \<and> distinct (map hg_Name (gc_hooks c))"
  by (simp add: validateHookGroups_def hook_groups_error_None)

fun retrievers_error :: "nat \<Rightarrow> 'w retriever option list \<Rightarrow> go_error option" where
  "retrievers_error i [] = None"
| "retrievers_error i (None # rs) =
     Some (ErrNew (''retriever at index '' @ nat_str i @ '' must not be nil''))"
| "retrievers_error i (Some r # rs) = retrievers_error (Suc i) rs"

definition validateRetrievers :: "'w retriever option list \<Rightarrow> go_error option" where
  "validateRetrievers rs = retrievers_error 0 rs"

lemma validateRetrievers_None: "validateRetrievers rs = None \<longleftrightarrow> None \<notin> set rs"
proof -
  have "retrievers_error i rs = None \<longleftrightarrow> None \<notin> set rs" for i
    by (induction i rs rule: retrievers_error.induct) auto
  then show ?thesis by (simp add: validateRetrievers_def)
qed

definition validateRetrieverMode :: "string \<Rightarrow> go_error + string" where
  "validateRetrieverMode m =
    (let mode = (if m = '''' then RetrieverModeAgentic else m)
     in if mode \<in> {RetrieverModeAgentic, RetrieverModePrefetch, RetrieverModeHybrid} then Inr mode
        else Inl (ErrNew (''invalid retriever mode '' @ Quote mode @ '': use ''
          @ Quote RetrieverModeAgentic @ '', '' @ Quote RetrieverModePrefetch @ '', or ''
          @ Quote RetrieverModeHybrid)))"

fun validateNamedLLMClients :: "(string \<times> 'w llm_client option) list \<Rightarrow> go_error option" where
  "validateNamedLLMClients [] = None"
| "validateNamedLLMClients ((name, client) # cs) =
    (if TrimSpace name = '''' then Some (ErrNew ''WithNamedLLMClients: name must not be empty'')
     else if client = None then
       Some (ErrNew (''WithNamedLLMClients: '' @ Quote name @ '' is nil''))
     else validateNamedLLMClients cs)"

lemma validateNamedLLMClients_None:
  "validateNamedLLMClients cs = None \<longleftrightarrow> (\<forall>(n, c) \<in> set cs. TrimSpace n \<noteq> '''' \<and> c \<noteq> None)"
  by (induction cs rule: validateNamedLLMClients.induct) auto

definition breaker_error :: "cb_config \<Rightarrow> go_error option" where
  "breaker_error cb =
    (if MaxConsecutiveSameArgs cb < 0 then
       Some (ErrNew (''WithErrorControl: CircuitBreaker.MaxConsecutiveSameArgs must be >= 0''))
     else if PatternWindowSize cb < 0 then
       Some (ErrNew (''WithErrorControl: CircuitBreaker.PatternWindowSize must be >= 0''))
     else if ResetAfter cb < 0 then
       Some (ErrNew (''WithErrorControl: CircuitBreaker.ResetAfter must be >= 0''))
     else None)"

definition validateErrorControl :: "'w agent_config \<Rightarrow> go_error option" where
  "validateErrorControl c = (case gc_errorControl c of None \<Rightarrow> None
     | Some ec \<Rightarrow>
        let name = ec_FallbackLLMClient ec
        in if name \<noteq> '''' \<and>
              (case map_of (gc_namedLLMClients c) name of Some (Some client) \<Rightarrow> False | _ \<Rightarrow> True)
           then Some (ErrNew (''WithErrorControl: FallbackLLMClient '' @ Quote name
             @ '' is not in WithNamedLLMClients''))
           else case ec_CircuitBreaker ec of None \<Rightarrow> None | Some cb \<Rightarrow> breaker_error cb)"

definition DefaultSize :: int where "DefaultSize = 20"

definition conversation_WithDefaults :: "'w conversation_config \<Rightarrow> 'w conversation_config" where
  "conversation_WithDefaults c = (if vc_Size c \<le> 0 then c\<lparr>vc_Size := DefaultSize\<rparr> else c)"

definition conversation_Validate :: "'w conversation_config \<Rightarrow> go_error option" where
  "conversation_Validate c = (if vc_Conversation c = None then
     Some (ErrNew ''conversation config: Conversation is required'') else None)"

definition ValidateDistributed :: "'w conversation_config \<Rightarrow> bool \<Rightarrow> go_error option" where
  "ValidateDistributed c remoteWorkers =
    (if remoteWorkers \<and> vc_Conversation c \<noteq> None \<and> \<not> vc_IsDistributed c then
       Some (ErrNew (''in-memory conversation cannot be used with remote workers: use distributed ''
         @ ''storage such as redis.NewConversation''))
     else None)"

section \<open>The sub-agent graph\<close>

definition defaultMaxSubAgentDepth :: int where "defaultMaxSubAgentDepth = 2"

definition children_of :: "'w agents \<Rightarrow> nat \<Rightarrow> nat list" where
  "children_of h a = (case gc_subAgentRegistry (ag_config (h a)) of
     None \<Rightarrow> [] | Some reg \<Rightarrow> sub_List reg)"

text \<open>
  \<open>dfsSubAgentDepth\<close> and its loop over the children of \<open>a\<close>. The path is restored after each child, so
  it is an argument; a registry has no nil entries.
\<close>

function dfsSubAgentDepth :: "'w agents \<Rightarrow> int \<Rightarrow> nat \<Rightarrow> nat list \<Rightarrow> int \<Rightarrow> go_error option"
  and dfs_children :: "'w agents \<Rightarrow> int \<Rightarrow> nat \<Rightarrow> nat list \<Rightarrow> int \<Rightarrow> nat list \<Rightarrow> go_error option" where
  "dfsSubAgentDepth h maxDepth a path depth =
    (if depth > maxDepth then
       Some (ErrNew (''sub-agent depth exceeds max ('' @ itoa maxDepth @ ''): at ''
         @ Quote (agent_name h a)))
     else dfs_children h maxDepth a path depth (children_of h a))"
| "dfs_children h maxDepth a path depth [] = None"
| "dfs_children h maxDepth a path depth (child # rest) =
    (if child \<in> set path then
       Some (ErrNew (''sub-agent cycle detected involving '' @ Quote (agent_name h a) @ '' and ''
         @ Quote (agent_name h child)))
     else case dfsSubAgentDepth h maxDepth child (child # path) (depth + 1) of
         Some err \<Rightarrow> Some err
       | None \<Rightarrow> dfs_children h maxDepth a path depth rest)"
  by pat_completeness auto
termination
  by (relation "measures
      [\<lambda>x. case x of Inl (h, m, a, p, d) \<Rightarrow> nat (m + 1 - d) | Inr (h, m, a, p, d, cs) \<Rightarrow> nat (m + 1 - d),
       \<lambda>x. case x of Inl (h, m, a, p, d) \<Rightarrow> if d > m then 0 else 2 | Inr _ \<Rightarrow> 1,
       \<lambda>x. case x of Inl _ \<Rightarrow> 0 | Inr (h, m, a, p, d, cs) \<Rightarrow> length cs]") auto

declare dfsSubAgentDepth.simps [simp del]

text \<open>The loop over the direct children.\<close>

fun roots_error :: "'w agents \<Rightarrow> string \<Rightarrow> nat list \<Rightarrow> string list \<Rightarrow> nat list \<Rightarrow> go_error option" where
  "roots_error h own seen seenNames [] = None"
| "roots_error h own seen seenNames (sa # rest) =
    (if sa \<in> set seen then
       Some (ErrNew (''duplicate sub-agent '' @ Quote (agent_name h sa) @ '' in WithSubAgents''))
     else if agent_name h sa = own then
       Some (ErrNew (''sub-agent name '' @ Quote (agent_name h sa) @ '' must differ from root agent name''))
     else case subAgentToolName (agent_name h sa) of
         Inl err \<Rightarrow> Some (ErrWrap ''WithSubAgents: '' err '''')
       | Inr toolName \<Rightarrow>
          if toolName \<in> set seenNames then
            Some (ErrNew (''duplicate sub-agent tool name '' @ Quote toolName))
          else roots_error h own (sa # seen) (toolName # seenNames) rest)"

fun depths_error :: "'w agents \<Rightarrow> int \<Rightarrow> nat list \<Rightarrow> go_error option" where
  "depths_error h maxDepth [] = None"
| "depths_error h maxDepth (s # rest) = (case dfsSubAgentDepth h maxDepth s [s] 1 of
      Some err \<Rightarrow> Some err | None \<Rightarrow> depths_error h maxDepth rest)"

definition validateSubAgentRegistry ::
    "'w agents \<Rightarrow> 'w agent_config \<Rightarrow> nat sub_agent_registry \<Rightarrow> go_error option" where
  "validateSubAgentRegistry h c reg =
    (let agents = sub_List reg;
         maxDepth = (if gc_maxSubAgentDepth c \<le> 0 then defaultMaxSubAgentDepth
                     else gc_maxSubAgentDepth c)
     in if length agents = 0 then None
        else case roots_error h (gc_Name c) [] [] agents of
            Some err \<Rightarrow> Some err
          | None \<Rightarrow> depths_error h maxDepth agents)"

subsection \<open>What the validation accepts\<close>

text \<open>A chain of delegations: each agent has the next one as a sub-agent.\<close>

fun chain :: "'w agents \<Rightarrow> nat list \<Rightarrow> bool" where
  "chain h [] = True"
| "chain h [a] = True"
| "chain h (a # b # cs) \<longleftrightarrow> b \<in> set (children_of h a) \<and> chain h (b # cs)"

lemma chain_append:
  "chain h (xs @ [a]) \<Longrightarrow> chain h (a # ys) \<Longrightarrow> chain h (xs @ a # ys)"
  by (induction h "xs @ [a]" arbitrary: xs rule: chain.induct)
    (auto simp: append_eq_Cons_conv Cons_eq_append_conv)

text \<open>A cycle gives chains of any length.\<close>

lemma cycle_unbounded:
  assumes "chain h (a # xs @ [a])"
  shows "\<exists>cs. chain h (a # cs) \<and> n \<le> length cs"
proof (induction n)
  case (Suc n)
  then obtain cs where cs: "chain h (a # cs)" "n \<le> length cs" by blast
  from chain_append [of h "a # xs" a cs] assms cs(1) have "chain h (a # xs @ a # cs)" by simp
  with cs(2) show ?case by (intro exI [of _ "xs @ a # cs"]) simp
qed (rule exI [of _ "[]"], simp)

lemma dfs_sound:
  "dfsSubAgentDepth h m a path d = None \<Longrightarrow>
     \<forall>cs. chain h (a # cs) \<longrightarrow> d + int (length cs) \<le> m"
  "dfs_children h m a path d kids = None \<Longrightarrow>
     \<forall>kid \<in> set kids. \<forall>cs. chain h (kid # cs) \<longrightarrow> d + 1 + int (length cs) \<le> m"
proof (induction h m a path d and h m a path d kids rule: dfsSubAgentDepth_dfs_children.induct)
  case (1 h m a path d)
  then have le: "d \<le> m" and kids: "\<forall>kid \<in> set (children_of h a). \<forall>cs. chain h (kid # cs) \<longrightarrow>
      d + 1 + int (length cs) \<le> m"
    by (simp_all add: dfsSubAgentDepth.simps [of h m a] split: if_splits)
  show ?case
  proof (intro allI impI)
    fix cs assume "chain h (a # cs)"
    with le kids show "d + int (length cs) \<le> m" by (cases cs) (auto simp flip: add.assoc)
  qed
qed (auto split: if_splits option.splits)

definition connects :: "'w agents \<Rightarrow> nat \<Rightarrow> nat \<Rightarrow> bool" where
  "connects h p a \<longleftrightarrow> (\<exists>xs. chain h (p # xs) \<and> last (p # xs) = a)"

lemma connects_refl: "connects h a a"
  unfolding connects_def by (rule exI [of _ "[]"]) simp

lemma connects_step:
  assumes "connects h p a" "kid \<in> set (children_of h a)" shows "connects h p kid"
proof -
  from assms(1) obtain xs where xs: "chain h (p # xs)" "last (p # xs) = a"
    unfolding connects_def by blast
  have "chain h (butlast (p # xs) @ a # [kid])"
    by (rule chain_append) (use xs assms(2) in \<open>simp_all add: append_butlast_last_id flip: xs(2)\<close>)
  also have "butlast (p # xs) @ a # [kid] = p # xs @ [kid]"
    using append_butlast_last_id [of "p # xs"] xs(2) by simp
  finally show ?thesis unfolding connects_def by (intro exI [of _ "xs @ [kid]"]) simp
qed

lemma back_edge_unbounded:
  assumes "connects h kid a" "kid \<in> set (children_of h a)"
  shows "\<exists>cs. chain h (a # cs) \<and> n \<le> length cs"
proof -
  from assms(1) obtain xs where xs: "chain h (kid # xs)" "last (kid # xs) = a"
    unfolding connects_def by blast
  then have "chain h (a # butlast (kid # xs) @ [a])"
    using assms(2) append_butlast_last_id [of "kid # xs"] by simp
  then show ?thesis by (rule cycle_unbounded)
qed

lemma dfs_complete:
  "\<forall>cs. chain h (a # cs) \<longrightarrow> d + int (length cs) \<le> m \<Longrightarrow> \<forall>p \<in> set path. connects h p a \<Longrightarrow>
     dfsSubAgentDepth h m a path d = None"
  "\<forall>cs. chain h (a # cs) \<longrightarrow> d + int (length cs) \<le> m \<Longrightarrow> \<forall>p \<in> set path. connects h p a \<Longrightarrow>
     set kids \<subseteq> set (children_of h a) \<Longrightarrow> dfs_children h m a path d kids = None"
proof (induction h m a path d and h m a path d kids rule: dfsSubAgentDepth_dfs_children.induct)
  case (1 h m a path d)
  from "1.prems"(1) have "d \<le> m" by (auto dest: spec [of _ "[]"])
  with 1 show ?case by (simp add: dfsSubAgentDepth.simps [of h m a])
next
  case (3 h m a path d kid rest)
  from "3.prems"(3) have kid: "kid \<in> set (children_of h a)" by simp
  have new: "kid \<notin> set path"
  proof
    assume "kid \<in> set path"
    with "3.prems"(2) have "connects h kid a" by blast
    from back_edge_unbounded [OF this kid, of "nat (m - d) + 1"]
    obtain cs where "chain h (a # cs)" "nat (m - d) + 1 \<le> length cs" by blast
    with "3.prems"(1) have "nat (m - d) + 1 \<le> length cs" "d + int (length cs) \<le> m" by auto
    then show False by linarith
  qed
  have "dfsSubAgentDepth h m kid (kid # path) (d + 1) = None"
  proof (rule "3.IH"(1) [OF new])
    show "\<forall>cs. chain h (kid # cs) \<longrightarrow> d + 1 + int (length cs) \<le> m"
    proof (intro allI impI)
      fix cs assume "chain h (kid # cs)"
      with kid have "chain h (a # kid # cs)" by simp
      with "3.prems"(1) have "d + int (length (kid # cs)) \<le> m" by blast
      then show "d + 1 + int (length cs) \<le> m" by simp
    qed
    show "\<forall>p \<in> set (kid # path). connects h p kid"
      using "3.prems"(2) kid connects_refl [of h kid] connects_step [of h _ a kid] by simp
  qed
  with "3.IH"(2) [OF new this] "3.prems" new show ?case by simp
qed simp

lemma dfs_None_iff:
  "dfsSubAgentDepth h m s [s] 1 = None \<longleftrightarrow> (\<forall>cs. chain h (s # cs) \<longrightarrow> int (length (s # cs)) \<le> m)"
  using dfs_sound(1) [of h m s "[s]" 1] dfs_complete(1) [of h s 1 m "[s]"] connects_refl [of h s]
  by auto

lemma depths_error_None:
  "depths_error h m agents = None \<longleftrightarrow> (\<forall>s \<in> set agents. dfsSubAgentDepth h m s [s] 1 = None)"
  by (induction agents) (auto split: option.splits)

lemma roots_error_None:
  "roots_error h own seen names agents = None \<longleftrightarrow>
     distinct agents \<and> set agents \<inter> set seen = {} \<and>
     (\<forall>s \<in> set agents. agent_name h s \<noteq> own \<and> (\<exists>n. subAgentToolName (agent_name h s) = Inr n)) \<and>
     distinct (map (\<lambda>s. subAgentToolName (agent_name h s)) agents) \<and>
     (\<forall>s \<in> set agents. \<forall>n \<in> set names. subAgentToolName (agent_name h s) \<noteq> Inr n)"
proof (induction h own seen names agents rule: roots_error.induct)
  case (2 h own seen names sa rest)
  show ?case
  proof (cases "sa \<in> set seen \<or> agent_name h sa = own")
    case False
    show ?thesis
    proof (cases "subAgentToolName (agent_name h sa)")
      case (Inr n)
      show ?thesis
      proof (cases "n \<in> set names")
        case new: False
        with 2 False Inr have "roots_error h own (sa # seen) (n # names) rest = None \<longleftrightarrow>
            distinct rest \<and> set rest \<inter> set (sa # seen) = {} \<and>
            (\<forall>s \<in> set rest. agent_name h s \<noteq> own \<and> (\<exists>n. subAgentToolName (agent_name h s) = Inr n)) \<and>
            distinct (map (\<lambda>s. subAgentToolName (agent_name h s)) rest) \<and>
            (\<forall>s \<in> set rest. \<forall>n' \<in> set (n # names). subAgentToolName (agent_name h s) \<noteq> Inr n')"
          by simp
        moreover have "Inr n \<in> (\<lambda>s. subAgentToolName (agent_name h s)) ` set rest \<longleftrightarrow>
            (\<exists>s \<in> set rest. subAgentToolName (agent_name h s) = Inr n)" by force
        ultimately show ?thesis using False Inr new by (simp add: image_iff) blast
      qed (use False Inr in auto)
    qed (use False in auto)
  qed auto
qed simp

definition effective_depth :: "'w agent_config \<Rightarrow> int" where
  "effective_depth c = (if gc_maxSubAgentDepth c \<le> 0 then defaultMaxSubAgentDepth
     else gc_maxSubAgentDepth c)"

lemma validate_parts:
  "validateSubAgentRegistry h c reg = None \<longleftrightarrow>
     roots_error h (gc_Name c) [] [] (sub_List reg) = None \<and>
     (\<forall>s \<in> set (sub_List reg). dfsSubAgentDepth h (effective_depth c) s [s] 1 = None)"
proof (cases "sub_List reg = []")
  case True
  then show ?thesis by (simp add: validateSubAgentRegistry_def)
next
  case False
  then show ?thesis
    by (simp add: validateSubAgentRegistry_def Let_def effective_depth_def depths_error_None
        split: option.split del: if_split)
qed

text \<open>C30. Sub-agents: a registry is accepted exactly if its agents are distinct, none has the name of
  the agent itself, their names make distinct delegation tools, and no chain of delegations that
  starts with one of them has more agents than the maximal depth. So an accepted graph has no cycle.\<close>

theorem sub_agent_graph_accepted:
  "validateSubAgentRegistry h c reg = None \<longleftrightarrow>
     distinct (sub_List reg) \<and>
     (\<forall>s \<in> set (sub_List reg). agent_name h s \<noteq> gc_Name c \<and>
        (\<exists>tool. subAgentToolName (agent_name h s) = Inr tool)) \<and>
     distinct (map (\<lambda>s. subAgentToolName (agent_name h s)) (sub_List reg)) \<and>
     (\<forall>s \<in> set (sub_List reg). \<forall>cs. chain h (s # cs) \<longrightarrow> int (length (s # cs)) \<le> effective_depth c)"
  by (simp only: validate_parts roots_error_None dfs_None_iff) auto

lemma accepted_acyclic:
  assumes "validateSubAgentRegistry h c reg = None" "s \<in> set (sub_List reg)"
  shows "\<not> chain h (s # xs @ [s])"
proof
  assume "chain h (s # xs @ [s])"
  from cycle_unbounded [OF this, of "nat (effective_depth c)"] obtain cs
    where "chain h (s # cs)" "nat (effective_depth c) \<le> length cs" by blast
  moreover have "\<forall>cs. chain h (s # cs) \<longrightarrow> int (length (s # cs)) \<le> effective_depth c"
    using assms by (simp add: validate_parts dfs_None_iff)
  ultimately show False by fastforce
qed

text \<open>An endless line of agents, each with the next one as its sub-agent.\<close>

definition one_sub_agent :: "string \<Rightarrow> nat \<Rightarrow> nat sub_agent_registry" where
  "one_sub_agent name a = \<lparr>sg_agents = [name \<mapsto> a], sg_order = [name]\<rparr>"

definition agent_line :: "unit agents" where
  "agent_line n = \<lparr>ag_config = WithSubAgentRegistry (Some (one_sub_agent (nat_str (Suc n)) (Suc n)))
     (WithName (nat_str n) (new_config ''u'')), ag_runtime = None\<rparr>"

theorem sub_agent_graph_accepted_witness:
  "validateSubAgentRegistry agent_line (ag_config (agent_line 0)) (one_sub_agent ''1'' 1) \<noteq> None"
proof -
  have line: "children_of agent_line n = [Suc n]" for n
    by (simp add: children_of_def agent_line_def one_sub_agent_def WithSubAgentRegistry_def
        WithName_def new_config_def sub_List_def)
  have "chain agent_line (1 # [2, 3])" by (simp add: line numeral_eq_Suc)
  moreover have "1 \<in> set (sub_List (one_sub_agent ''1'' 1))"
    by (simp add: one_sub_agent_def sub_List_def)
  moreover have "effective_depth (ag_config (agent_line 0)) = 2"
    by (simp add: effective_depth_def agent_line_def WithSubAgentRegistry_def WithName_def
        new_config_def defaultMaxSubAgentDepth_def)
  ultimately show ?thesis
    using sub_agent_graph_accepted [of agent_line "ag_config (agent_line 0)" "one_sub_agent ''1'' 1"]
    by fastforce
qed

section \<open>The registries of an agent\<close>

text \<open>
  A registry given by the caller is changed in place, also when a later entry fails: \<open>kept\<close> is what
  the caller's registry holds then, and nothing if there was none.
\<close>

definition kept :: "'r option \<Rightarrow> 'r \<Rightarrow> 'r option" where
  "kept old r = map_option (\<lambda>_. r) old"

definition buildToolRegistry :: "'w agent_config \<Rightarrow> go_error option \<times> 'w agent_config" where
  "buildToolRegistry c =
    (let reg = (case gc_toolRegistry c of None \<Rightarrow> NewToolRegistry | Some r \<Rightarrow> r)
     in case RegisterTools (gc_tools c) reg of
          (Some err, r) \<Rightarrow> (Some (ErrWrap ''WithTools: '' err ''''),
             c\<lparr>gc_toolRegistry := kept (gc_toolRegistry c) r\<rparr>)
        | (None, r) \<Rightarrow> (None, c\<lparr>gc_toolRegistry := Some r, gc_tools := []\<rparr>))"

fun register_mcp_servers ::
    "'w mcp_sdk \<Rightarrow> (string \<times> mcp_config) list \<Rightarrow> 'w mcp_registry \<Rightarrow> go_error option \<times> 'w mcp_registry" where
  "register_mcp_servers sdk [] reg = (None, reg)"
| "register_mcp_servers sdk ((k, cfg) # servers) reg = (case mcp_Register sdk k cfg reg of
      (Some err, r) \<Rightarrow> (Some (ErrWrap ''WithMCPConfig: '' err ''''), r)
    | (None, r) \<Rightarrow> register_mcp_servers sdk servers r)"

fun register_mcp_clients ::
    "'w mcp_client option list \<Rightarrow> 'w mcp_registry \<Rightarrow> go_error option \<times> 'w mcp_registry" where
  "register_mcp_clients [] reg = (None, reg)"
| "register_mcp_clients (None # cls) reg =
     (Some (ErrNew ''WithMCPClients: mcp client must not be nil''), reg)"
| "register_mcp_clients (Some cl # cls) reg = (case mcp_RegisterClient (Some cl) reg of
      (Some err, r) \<Rightarrow> (Some (ErrWrap ''WithMCPClients: '' err ''''), r)
    | (None, r) \<Rightarrow> register_mcp_clients cls r)"

text \<open>The check of the names; a registry has no nil entry.\<close>

fun client_names_error :: "string \<Rightarrow> string list \<Rightarrow> string list \<Rightarrow> go_error option" where
  "client_names_error kind seen [] = None"
| "client_names_error kind seen (n # ns) =
    (let name = TrimSpace n
     in if name = '''' then Some (ErrNew (kind @ '' client name must not be empty''))
        else if name \<in> set seen then
          Some (ErrNew (''duplicate '' @ kind @ '' client name '' @ Quote name))
        else client_names_error kind (name # seen) ns)"

definition validateMCPClients :: "'w mcp_client list \<Rightarrow> go_error option" where
  "validateMCPClients clients = client_names_error ''mcp'' [] (map mc_Name clients)"

definition validateA2AClients :: "'w a2a_client list \<Rightarrow> go_error option" where
  "validateA2AClients clients = client_names_error ''a2a'' [] (map qc_Name clients)"

definition buildMCPRegistry ::
    "'w mcp_sdk \<Rightarrow> 'w agent_config \<Rightarrow> go_error option \<times> 'w agent_config" where
  "buildMCPRegistry sdk c =
    (let reg = (case gc_mcpRegistry c of None \<Rightarrow> NewMCPRegistry | Some r \<Rightarrow> r);
         failed = (\<lambda>err r. (Some err, c\<lparr>gc_mcpRegistry := kept (gc_mcpRegistry c) r\<rparr>))
     in case register_mcp_servers sdk (sort_key fst (gc_mcpServers c)) reg of
          (Some err, r) \<Rightarrow> failed err r
        | (None, r) \<Rightarrow> (case register_mcp_clients (gc_mcpClients c) r of
              (Some err, r) \<Rightarrow> failed err r
            | (None, r) \<Rightarrow> (case validateMCPClients (mcp_List r) of
                  Some err \<Rightarrow> failed err r
                | None \<Rightarrow> (None, c\<lparr>gc_mcpRegistry := Some r\<rparr>))))"

text \<open>The registrations of A2A servers may allocate header maps, from \<open>fresh\<close> on.\<close>

fun register_a2a_servers ::
    "(string \<Rightarrow> string \<Rightarrow> a2a_client_config \<Rightarrow> 'w a2a_client) \<Rightarrow> nat \<Rightarrow> (string \<times> a2a_config) list \<Rightarrow>
     'w a2a_registry \<times> header_store \<Rightarrow> go_error option \<times> 'w a2a_registry \<times> header_store" where
  "register_a2a_servers dial fresh [] rs = (None, rs)"
| "register_a2a_servers dial fresh ((k, cfg) # servers) rs = (case a2a_Register dial k cfg fresh rs of
      (Some err, r) \<Rightarrow> (Some (ErrWrap ''WithA2AConfig: '' err ''''), r)
    | (None, r) \<Rightarrow> register_a2a_servers dial (Suc fresh) servers r)"

fun register_a2a_clients ::
    "'w a2a_client option list \<Rightarrow> 'w a2a_registry \<Rightarrow> go_error option \<times> 'w a2a_registry" where
  "register_a2a_clients [] reg = (None, reg)"
| "register_a2a_clients (None # cls) reg =
     (Some (ErrNew ''WithA2AClients: a2a client must not be nil''), reg)"
| "register_a2a_clients (Some cl # cls) reg = (case a2a_RegisterClient (Some cl) reg of
      (Some err, r) \<Rightarrow> (Some (ErrWrap ''WithA2AClients: '' err ''''), r)
    | (None, r) \<Rightarrow> register_a2a_clients cls r)"

definition buildA2ARegistry ::
    "(string \<Rightarrow> string \<Rightarrow> a2a_client_config \<Rightarrow> 'w a2a_client) \<Rightarrow> nat \<Rightarrow>
     'w agent_config \<times> header_store \<Rightarrow> go_error option \<times> 'w agent_config \<times> header_store" where
  "buildA2ARegistry dial fresh cs = (case cs of (c, store) \<Rightarrow>
     let reg = (case gc_a2aRegistry c of None \<Rightarrow> NewA2ARegistry | Some r \<Rightarrow> r);
         failed = (\<lambda>err r st. (Some err, c\<lparr>gc_a2aRegistry := kept (gc_a2aRegistry c) r\<rparr>, st))
     in case register_a2a_servers dial fresh (sort_key fst (gc_a2aServers c)) (reg, store) of
          (Some err, r, st) \<Rightarrow> failed err r st
        | (None, r, st) \<Rightarrow> (case register_a2a_clients (gc_a2aClients c) r of
              (Some err, r) \<Rightarrow> failed err r st
            | (None, r) \<Rightarrow> (case validateA2AClients (a2a_List r) of
                  Some err \<Rightarrow> failed err r st
                | None \<Rightarrow> (None, c\<lparr>gc_a2aRegistry := Some r\<rparr>, st))))"

fun register_sub_agents ::
    "'w agents \<Rightarrow> nat option list \<Rightarrow> nat sub_agent_registry \<Rightarrow> go_error option \<times> nat sub_agent_registry" where
  "register_sub_agents h [] reg = (None, reg)"
| "register_sub_agents h (sa # rest) reg = (case sub_Register (agent_name h) sa reg of
      (Some err, r) \<Rightarrow> (Some (ErrWrap ''WithSubAgents: '' err ''''), r)
    | (None, r) \<Rightarrow> register_sub_agents h rest r)"

definition buildSubAgentRegistry ::
    "'w agents \<Rightarrow> 'w agent_config \<Rightarrow> go_error option \<times> 'w agent_config" where
  "buildSubAgentRegistry h c =
    (let reg = (case gc_subAgentRegistry c of None \<Rightarrow> NewSubAgentRegistry | Some r \<Rightarrow> r);
         failed = (\<lambda>err r. (Some err, c\<lparr>gc_subAgentRegistry := kept (gc_subAgentRegistry c) r\<rparr>))
     in case register_sub_agents h (gc_subAgents c) reg of
          (Some err, r) \<Rightarrow> failed err r
        | (None, r) \<Rightarrow> (case validateSubAgentRegistry h c r of
              Some err \<Rightarrow> failed err r
            | None \<Rightarrow> (None, c\<lparr>gc_subAgentRegistry := Some r, gc_subAgents := []\<rparr>)))"

definition buildRegistries ::
    "'w mcp_sdk \<Rightarrow> (string \<Rightarrow> string \<Rightarrow> a2a_client_config \<Rightarrow> 'w a2a_client) \<Rightarrow> nat \<Rightarrow> 'w agents \<Rightarrow>
     'w agent_config \<times> header_store \<Rightarrow> go_error option \<times> 'w agent_config \<times> header_store" where
  "buildRegistries sdk dial fresh h cs = (case cs of (c, store) \<Rightarrow>
     (case buildToolRegistry c of
        (Some err, c) \<Rightarrow> (Some err, c, store)
      | (None, c) \<Rightarrow> (case buildMCPRegistry sdk c of
          (Some err, c) \<Rightarrow> (Some err, c, store)
        | (None, c) \<Rightarrow> (case buildA2ARegistry dial fresh (c, store) of
            (Some err, c, store) \<Rightarrow> (Some err, c, store)
          | (None, c, store) \<Rightarrow> (case buildSubAgentRegistry h c of
              (err, c) \<Rightarrow> (err, c, store))))))"

subsection \<open>Registration, and registration again\<close>

context named_registry begin

lemma register_all_keeps_keys:
  "inv r \<Longrightarrow> fst ` set (abs r) \<subseteq> fst ` set (abs (snd (register_all register es r)))"
proof (induction es arbitrary: r)
  case (Cons x es)
  have "fst ` set (abs r) \<subseteq> fst ` set (abs (snd (register x r)))"
    using register_adds [OF Cons.prems] register_fails [of x r] register_nil [of r]
    by (cases x; cases "fst (register x r)") auto
  with Cons.IH [OF inv_register [OF Cons.prems, of x]] show ?case
    by (force split: prod.splits option.splits)
qed simp

lemma register_all_twice:
  assumes "inv r"
  shows "fst (register_all register (x # es) (snd (register_all register (x # es) r))) \<noteq> None"
proof (cases "fst (register x r)")
  case None
  then obtain e where x: "x = Some e" using register_nil by (cases x) auto
  with None have k: "TrimSpace (nm e) \<in> fst ` set (abs (snd (register x r)))"
    using register_adds [OF assms, of e] by force
  let ?r = "snd (register_all register es (snd (register x r)))"
  have i: "inv ?r" using assms by (intro register_all_inv inv_register)
  have "TrimSpace (nm e) \<in> fst ` set (abs ?r)"
    using k register_all_keeps_keys [OF inv_register [OF assms, of x], of es] by blast
  then have "map_of (abs ?r) (TrimSpace (nm e)) \<noteq> None"
    by (auto simp: map_of_eq_None_iff)
  with register_error [OF i, of e] x have "fst (register x ?r) \<noteq> None" by simp
  moreover have "snd (register_all register (x # es) r) = ?r"
    using None by (cases "register x r") simp
  ultimately show ?thesis by (auto split: prod.splits option.splits)
next
  case (Some err)
  then have "snd (register_all register (x # es) r) = r"
    using register_fails [of x r] by (cases "register x r") simp
  with Some show ?thesis by (cases "register x r") simp
qed

end

text \<open>Options and a shared registry: when an agent is built with tools and with a registry of the
  caller, the tools stay in that registry, whether the construction succeeds or fails; so building
  again from the same options, for a retry or for a worker in the same process, always fails.\<close>

theorem same_options_twice:
  assumes "gc_toolRegistry c = Some reg" "tool_inv reg" "gc_tools c \<noteq> []"
    and "gc_toolRegistry d = gc_toolRegistry (snd (buildToolRegistry c))" "gc_tools d = gc_tools c"
  shows "fst (buildToolRegistry d) \<noteq> None"
proof -
  obtain x es where x: "gc_tools c = x # es" using assms(3) by (cases "gc_tools c") auto
  let ?r = "snd (register_all tool_Register (x # es) reg)"
  have "gc_toolRegistry d = Some ?r"
    using assms(1,4) x
    by (auto simp: buildToolRegistry_def kept_def RegisterTools_all split: prod.splits option.splits)
  with tools.register_all_twice [OF assms(2), of x es] assms(5) x show ?thesis
    by (auto simp: buildToolRegistry_def RegisterTools_all split: prod.splits option.splits)
qed

lemma client_names_error_None:
  "client_names_error kind seen ns = None \<longleftrightarrow>
     '''' \<notin> TrimSpace ` set ns \<and> distinct (map TrimSpace ns) \<and> TrimSpace ` set ns \<inter> set seen = {}"
  by (induction ns arbitrary: seen) (auto simp: Let_def)

text \<open>The check of the client names after the registration can not fail: a registry has the names.\<close>

lemma validateMCPClients_registered: "mcp_inv r \<Longrightarrow> validateMCPClients (mcp_List r) = None"
  using mcps.listed_keys [of r] by (force simp: validateMCPClients_def client_names_error_None comp_def)

lemma validateA2AClients_registered: "a2a_inv r \<Longrightarrow> validateA2AClients (a2a_List r) = None"
  using a2as.listed_keys [of r] by (force simp: validateA2AClients_def client_names_error_None comp_def)

lemma mcp_Register_inv: "mcp_inv r \<Longrightarrow> mcp_inv (snd (mcp_Register sdk k cfg r))"
  by (auto simp: mcp_Register_def mcp_registerClientLocked_def mcp_inv_def Let_def index_facts
      split: sum.splits)

lemma register_mcp_inv:
  "mcp_inv r \<Longrightarrow> mcp_inv (snd (register_mcp_servers sdk servers r))"
  "mcp_inv r \<Longrightarrow> mcp_inv (snd (register_mcp_clients clients r))"
  subgoal
    by (induction sdk servers r rule: register_mcp_servers.induct)
      (auto split: prod.splits option.splits, (metis mcp_Register_inv snd_conv)+)
  subgoal
    by (induction clients r rule: register_mcp_clients.induct)
      (auto split: prod.splits option.splits, (metis mcps.inv_register snd_conv)+)
  done

lemma a2a_Register_inv: "a2a_inv (fst rs) \<Longrightarrow> a2a_inv (fst (snd (a2a_Register dial k cfg fresh rs)))"
  by (auto simp: a2a_Register_def a2a_registerClientLocked_def a2a_inv_def Let_def index_facts
      split: sum.splits prod.splits)

lemma register_a2a_inv:
  "a2a_inv (fst rs) \<Longrightarrow> a2a_inv (fst (snd (register_a2a_servers dial fresh servers rs)))"
  "a2a_inv r \<Longrightarrow> a2a_inv (snd (register_a2a_clients clients r))"
  subgoal
    by (induction dial fresh servers rs rule: register_a2a_servers.induct)
      (auto split: prod.splits option.splits, (metis a2a_Register_inv fst_conv snd_conv)+)
  subgoal
    by (induction clients r rule: register_a2a_clients.induct)
      (auto split: prod.splits option.splits, (metis a2as.inv_register snd_conv)+)
  done

definition shared_tools :: "unit agent_config" where
  "shared_tools = WithTools [Some NewRegisteredMemoryTool]
     (WithToolRegistry (Some NewToolRegistry) (new_config ''u''))"

theorem same_options_twice_witness:
  "fst (buildToolRegistry shared_tools) = None \<and>
   fst (buildToolRegistry (WithTools [Some NewRegisteredMemoryTool]
     (WithToolRegistry (gc_toolRegistry (snd (buildToolRegistry shared_tools))) (new_config ''v'')))) \<noteq> None"
proof -
  note defs = shared_tools_def WithTools_def WithToolRegistry_def new_config_def
  have "TrimSpace (tl_Name (NewRegisteredMemoryTool :: unit tool)) \<noteq> ''''"
    by (simp add: NewRegisteredMemoryTool_def memory_tool_def SaveMemoryToolName_def
        TrimSpace_eq_Nil_iff is_space_def)
  then have "fst (buildToolRegistry shared_tools) = None"
    by (simp add: buildToolRegistry_def defs tool_Register_def NewToolRegistry_def Let_def)
  moreover have "fst (buildToolRegistry (WithTools [Some NewRegisteredMemoryTool]
     (WithToolRegistry (gc_toolRegistry (snd (buildToolRegistry shared_tools))) (new_config ''v'')))) \<noteq> None"
    by (rule same_options_twice [of shared_tools NewToolRegistry])
      (simp_all add: defs tools.empty del: append_Nil)
  ultimately show ?thesis by simp
qed

end
