(* ===== verification/Samples.thy ===== *)
theory Samples
  imports Base_Runtime
begin

text \<open>
  A concrete runtime for the witnesses: the external world counts the calls made so far, the
  model is a script of responses, tools echo, and the memory backend holds one entry per scope.
\<close>

definition quiet_ctx :: "nat ctx_ops" where
  "quiet_ctx = \<lparr>ctx_err = State_Monad.return None, sleep = (\<lambda>d. State_Monad.return None)\<rparr>"

definition tick :: "(nat, nat) state" where "tick = State (\<lambda>n. (n, Suc n))"

lemma run_tick [simp]: "run_state tick n = (n, Suc n)" by (simp add: tick_def)

definition sample_env :: "nat env" where
  "sample_env = \<lparr>en_now = State_Monad.return 1000, en_uuid = State_Monad.return ''id'',
     en_ctx = quiet_ctx, en_marshal = (\<lambda>_. Some ''{}''), en_sha256hex = (\<lambda>s. s),
     en_sprint_docs = (\<lambda>_. ''docs''), en_memories = (\<lambda>_. Inr []),
     en_order = (\<lambda>n. State_Monad.return (rev [0..<n])),
     en_await = (\<lambda>_. State_Monad.return (Responded ApprovalRejected)),
     en_awaitBudget = (\<lambda>_. State_Monad.return (Some ApprovalRejected))\<rparr>"

definition text_response :: "string \<Rightarrow> llm_response" where
  "text_response t = \<lparr>rp_Content = t, rp_Usage = None, rp_ToolCalls = []\<rparr>"

definition call_response :: "string \<Rightarrow> string \<Rightarrow> llm_response" where
  "call_response i name = \<lparr>rp_Content = '''', rp_Usage = None, rp_ToolCalls =
     [Some \<lparr>tc_ToolCallID = i, tc_ToolName = name, tc_Args = None\<rparr>]\<rparr>"

definition sample_stream :: llm_stream where
  "sample_stream = \<lparr>ls_Chunks = [Some \<lparr>ck_ContentDelta = '''', ck_ThinkingDelta = ''hm''\<rparr>, None,
       Some \<lparr>ck_ContentDelta = ''he'', ck_ThinkingDelta = ''''\<rparr>,
       Some \<lparr>ck_ContentDelta = ''y'', ck_ThinkingDelta = ''''\<rparr>],
     ls_Err = None, ls_Result = Some (text_response ''hey'')\<rparr>"

definition sample_client :: "(nat \<Rightarrow> llm_response) \<Rightarrow> nat llm_client" where
  "sample_client script = \<lparr>lc_Model = ''m'', lc_Provider = ''p'', lc_IsStreamSupported = True,
     lc_Generate = (\<lambda>req. State (\<lambda>n. (Inr (script n), Suc n))),
     lc_GenerateStream = (\<lambda>req. State_Monad.return (Inr sample_stream))\<rparr>"

definition echo_tool :: "string \<Rightarrow> nat tool" where
  "echo_tool name = \<lparr>tl_Name = name, tl_DisplayName = '''', tl_Description = '''', tl_Parameters = ANil,
     tl_ToolKind = None, tl_ApprovalRequired = None, tl_Authorize = None,
     tl_Execute = (\<lambda>meta args. State_Monad.return (Inr (OtherValue ''string'' ''echo'')))\<rparr>"

definition no_configs :: execution_configs where
  "no_configs = (let c = \<lparr>xc_Timeout = 0, xc_MaxAttempts = 1\<rparr> in
     \<lparr>xc_LLM = c, xc_ToolAuth = c, xc_ToolExecute = c, xc_MCP = c, xc_A2A = c, xc_Retriever = c,
      xc_Memory = c, xc_Conversation = c, xc_SubAgent = c\<rparr>)"

definition sample_runtime :: "(nat \<Rightarrow> llm_response) \<Rightarrow> nat runtime" where
  "sample_runtime script = \<lparr>rt_Name = ''agent'', rt_SystemPrompt = ''be brief'',
     rt_ResponseFormat = None, rt_Client = sample_client script, rt_Sampling = None,
     rt_ToolApprovalPolicy = None, rt_Retrievers = [], rt_RetrieverMode = '''',
     rt_Conversation = None, rt_ConversationSize = 0, rt_SaveOnIteration = False, rt_Memory = None,
     rt_MaxIterations = 3, rt_Timeout = 0, rt_ApprovalTimeout = 0, rt_Budget = None,
     rt_ExecutionConfigs = no_configs, rt_Hooks = [], rt_NamedLLMClients = Map.empty,
     rt_ErrorControl = None, rt_ToolExecutionMode = '''', rt_hasBus = True\<rparr>"

definition sample_backend :: "memory_scope \<Rightarrow> nat memory_store" where
  "sample_backend own = \<lparr>mem_Store = (\<lambda>scope rec opts. if scope = own then State (\<lambda>n. (Inr ''new'', Suc n))
       else State_Monad.return (Inl (ErrNew ''foreign''))),
     mem_Load = (\<lambda>scope q opts. State_Monad.return (Inr []))\<rparr>"

definition sample_memory :: "memory_scope \<Rightarrow> nat memory_config" where
  "sample_memory own = memory_DefaultConfig (Some (sample_backend own))"

end
