(* ===== verification/Agent_Build.thy ===== *)
theory Agent_Build
  imports Agent_Config Samples
begin

text \<open>
  The construction of an agent: \<open>resolveTools\<close> and its parts, \<open>buildAgentConfig\<close>, the views that the
  runtimes are made of (\<open>pkg/agent/config.go\<close>, \<open>runtime_factory.go\<close>), and \<open>NewAgentWorker\<close>
  (\<open>worker.go\<close>). Listing the tools of MCP servers and the skills of A2A servers are operations of the
  outside world. Logs are not modelled; the wiring of the logger to the log exporter is.
\<close>

section \<open>Tools of a run\<close>

fun list_mcp_tools ::
    "tool_codec \<Rightarrow> 'w mcp_client list \<Rightarrow> 'w tool list \<Rightarrow> ('w, go_error + 'w tool list) state" where
  "list_mcp_tools co [] tools = State_Monad.return (Inr tools)"
| "list_mcp_tools co (cl # clients) tools = do {
     let serverKey = TrimSpace (mc_Name cl);
     r \<leftarrow> mc_ListTools cl;
     (case r of
        Inl err \<Rightarrow> State_Monad.return
          (Inl (ErrWrap (''mcp '' @ Quote serverKey @ '': list tools: '') err ''''))
      | Inr specs \<Rightarrow> list_mcp_tools co clients
          (tools @ map (\<lambda>spec. NewMCPTool co serverKey spec (Some cl)) specs)) }"

definition resolveMCPTools ::
    "tool_codec \<Rightarrow> 'w agent_config \<Rightarrow> ('w, go_error + 'w tool list) state" where
  "resolveMCPTools co c = (case gc_mcpRegistry c of
      None \<Rightarrow> State_Monad.return (Inr [])
    | Some reg \<Rightarrow> list_mcp_tools co (mcp_List reg) [])"

definition skill_tool_spec :: "a2a_skill \<Rightarrow> tool_spec" where
  "skill_tool_spec skill = \<lparr>spec_Name = sk_ID skill, spec_Description = sk_Description skill,
     spec_Parameters = ANil\<rparr>"

fun list_a2a_tools ::
    "tool_codec \<Rightarrow> 'w a2a_client list \<Rightarrow> 'w tool list \<Rightarrow> ('w, go_error + 'w tool list) state" where
  "list_a2a_tools co [] tools = State_Monad.return (Inr tools)"
| "list_a2a_tools co (cl # clients) tools = do {
     let serverKey = TrimSpace (qc_Name cl);
     r \<leftarrow> qc_ListSkills cl;
     (case r of
        Inl err \<Rightarrow> State_Monad.return
          (Inl (ErrWrap (''a2a '' @ Quote serverKey @ '': list skills: '') err ''''))
      | Inr skills \<Rightarrow> list_a2a_tools co clients
          (tools @ map (\<lambda>skill. NewA2ATool co serverKey (skill_tool_spec skill) (Some cl)) skills)) }"

definition resolveA2ATools ::
    "tool_codec \<Rightarrow> 'w agent_config \<Rightarrow> ('w, go_error + 'w tool list) state" where
  "resolveA2ATools co c = (case gc_a2aRegistry c of
      None \<Rightarrow> State_Monad.return (Inr [])
    | Some reg \<Rightarrow> list_a2a_tools co (a2a_List reg) [])"

definition agent_id :: "'w agents \<Rightarrow> nat \<Rightarrow> agent_identity" where
  "agent_id h a = \<lparr>id_Name = agent_name h a, id_Description = gc_Description (ag_config (h a))\<rparr>"

definition resolveSubAgentTools :: "'w agents \<Rightarrow> 'w agent_config \<Rightarrow> 'w tool list" where
  "resolveSubAgentTools h c = (case gc_subAgentRegistry c of None \<Rightarrow> []
     | Some reg \<Rightarrow> present (map (\<lambda>sa. NewSubAgentTool (Some (agent_id h sa))) (sub_List reg)))"

definition resolveMemoryTools :: "'w agent_config \<Rightarrow> 'w tool list" where
  "resolveMemoryTools c = (case gc_memoryConfig c of None \<Rightarrow> []
     | Some m \<Rightarrow> (let cfg = memory_WithDefaults m
         in if mc_Memory cfg = None \<or> so_Mode (mc_Store cfg) \<noteq> StoreModeOnDemand then []
            else [NewRegisteredMemoryTool]))"

text \<open>The retrievers were validated, so none of them is nil.\<close>

fun retriever_tools ::
    "string list \<Rightarrow> 'w tool list \<Rightarrow> 'w retriever list \<Rightarrow> go_error + 'w tool list" where
  "retriever_tools seen tools [] = Inr tools"
| "retriever_tools seen tools (retriever # rest) =
    (let name = TrimSpace (rv_Name retriever)
     in if name = '''' then Inl (ErrNew ''retriever name must not be empty'')
        else if name \<in> set seen then Inl (ErrNew (''duplicate retriever name '' @ Quote name))
        else case NewRetrieverTool (Some retriever) of
            None \<Rightarrow> Inl (ErrNew (''retriever '' @ Quote name @ '': failed to build tool''))
          | Some tool \<Rightarrow> retriever_tools (name # seen) (tools @ [tool]) rest)"

definition resolveRetrieverTools :: "'w agent_config \<Rightarrow> go_error + 'w tool list" where
  "resolveRetrieverTools c =
    (if gc_retrieverMode c \<noteq> RetrieverModeAgentic \<and> gc_retrieverMode c \<noteq> RetrieverModeHybrid
     then Inr [] else retriever_tools [] [] (present (gc_retrievers c)))"

text \<open>\<open>seen\<close> maps a name to the kind of the tool that has it.\<close>

fun tool_names_error :: "(string \<times> string) list \<Rightarrow> 'w tool list \<Rightarrow> go_error option" where
  "tool_names_error seen [] = None"
| "tool_names_error seen (tool # tools) =
    (let name = tl_Name tool; kind = KindOf (tl_ToolKind tool)
     in case map_of seen name of
          Some prev \<Rightarrow> Some (ErrNew (''duplicate tool name '' @ Quote name @ '': '' @ kind
            @ '' tool conflicts with an existing '' @ prev @ '' tool''))
        | None \<Rightarrow> tool_names_error ((name, kind) # seen) tools)"

definition validateToolNames :: "'w tool list \<Rightarrow> go_error option" where
  "validateToolNames tools = tool_names_error [] tools"

definition registered_tools :: "'w agent_config \<Rightarrow> 'w tool list" where
  "registered_tools c = (case gc_toolRegistry c of None \<Rightarrow> [] | Some reg \<Rightarrow> tool_List reg)"

definition resolveTools ::
    "tool_codec \<Rightarrow> 'w agents \<Rightarrow> 'w agent_config \<Rightarrow> ('w, go_error + 'w tool list) state" where
  "resolveTools co h c = do {
     mcp \<leftarrow> resolveMCPTools co c;
     (case mcp of Inl err \<Rightarrow> State_Monad.return (Inl err)
      | Inr mcpTools \<Rightarrow> do {
          a2a \<leftarrow> resolveA2ATools co c;
          State_Monad.return (case a2a of Inl err \<Rightarrow> Inl err
            | Inr a2aTools \<Rightarrow>
               (case resolveRetrieverTools c of Inl err \<Rightarrow> Inl err
                | Inr retrieverTools \<Rightarrow>
                   let tools = registered_tools c @ mcpTools @ a2aTools @ resolveSubAgentTools h c
                         @ resolveMemoryTools c @ retrieverTools
                   in case validateToolNames tools of Some err \<Rightarrow> Inl err
                      | None \<Rightarrow> (case gc_subAgentRegistry c of None \<Rightarrow> Inr tools
                          | Some reg \<Rightarrow> (case validateSubAgentRegistry h c reg of
                              Some err \<Rightarrow> Inl err | None \<Rightarrow> Inr tools)))) }) }"

lemma tool_names_error_None:
  "tool_names_error seen tools = None \<longleftrightarrow>
     distinct (map tl_Name tools) \<and> tl_Name ` set tools \<inter> fst ` set seen = {}"
proof (induction seen tools rule: tool_names_error.induct)
  case (2 seen tool tools)
  show ?case
  proof (cases "map_of seen (tl_Name tool)")
    case None
    then have "tl_Name tool \<notin> fst ` set seen" by (simp add: map_of_eq_None_iff)
    with 2 [OF refl refl None] None show ?thesis by (auto simp: Let_def)
  next
    case (Some k)
    then have "tl_Name tool \<in> fst ` set seen" by (force dest: map_of_SomeD)
    with Some show ?thesis by auto
  qed
qed simp

text \<open>What a successful resolution has checked.\<close>

lemma resolveTools_checked:
  assumes "run_state (resolveTools co h c) w = (Inr tools, w')"
  shows "distinct (map tl_Name tools) \<and>
    (\<forall>reg. gc_subAgentRegistry c = Some reg \<longrightarrow> validateSubAgentRegistry h c reg = None)"
  using assms
  by (auto simp: resolveTools_def Let_def validateToolNames_def tool_names_error_None
      split: sum.splits prod.splits option.splits)

section \<open>Construction of the configuration\<close>

record 'w build_env =
  bd_uuid :: string
  bd_mcp :: "'w mcp_sdk"
  bd_dial :: "string \<Rightarrow> string \<Rightarrow> a2a_client_config \<Rightarrow> 'w a2a_client"
  bd_fresh :: nat
  bd_codec :: tool_codec
  bd_otlp :: otlp_sdk
  bd_fmtv :: "rat \<Rightarrow> string"

text \<open>The statements of \<open>buildAgentConfig\<close>, each with the error that it returns; \<open>run_steps\<close> is their
  sequence.\<close>

type_synonym 'w config_step = "'w agent_config \<Rightarrow> go_error option \<times> 'w agent_config"

fun run_steps :: "('c \<Rightarrow> go_error option \<times> 'c) list \<Rightarrow> 'c \<Rightarrow> go_error option \<times> 'c" where
  "run_steps [] c = (None, c)"
| "run_steps (f # fs) c = (case f c of (Some err, c') \<Rightarrow> (Some err, c') | (None, c') \<Rightarrow> run_steps fs c')"

definition AgentModeInteractive :: string where "AgentModeInteractive = ''interactive''"
definition AgentModeAutonomous :: string where "AgentModeAutonomous = ''autonomous''"

definition step_name :: "'w config_step" where
  "step_name c = (let c1 = c\<lparr>gc_Name := sanitizeName (gc_Name c)\<rparr>
     in (validateAgentName (gc_Name c1), c1))"

definition step_defaults :: "'w config_step" where
  "step_defaults c =
    (let level = (if gc_logLevel c = '''' then ''error'' else gc_logLevel c)
     in (None, c\<lparr>gc_instanceId := TrimSpace (gc_instanceId c), gc_logLevel := level,
          gc_logger := Some (case gc_logger c of None \<Rightarrow> DefaultLogger level | Some l \<Rightarrow> l),
          gc_Description := (if gc_Description c = '''' then gc_Name c @ '' is an AI agent.''
            else gc_Description c),
          gc_toolApprovalPolicy := Some (case gc_toolApprovalPolicy c of
            None \<Rightarrow> RequireAllToolApprovalPolicy | Some p \<Rightarrow> p)\<rparr>))"

definition step_hooks :: "'w config_step" where
  "step_hooks c = (validateHookGroups c, c)"

definition step_factory :: "'w config_step" where
  "step_factory c = (case gc_factoryConflict c of Some err \<Rightarrow> (Some err, c)
     | None \<Rightarrow> (case gc_runtimeFactory c of None \<Rightarrow> (None, c) | Some f \<Rightarrow> (fy_Validate f, c)))"

definition step_llm :: "'w config_step" where
  "step_llm c = (if gc_LLMClient c = None then (Some (ErrNew ''LLM client is required''), c)
     else (None, c))"

definition step_conversation :: "'w config_step" where
  "step_conversation c = (case gc_conversationConfig c of None \<Rightarrow> (None, c)
     | Some v \<Rightarrow> (let cfg = conversation_WithDefaults v
         in case conversation_Validate cfg of Some err \<Rightarrow> (Some err, c)
            | None \<Rightarrow> (case ValidateDistributed cfg (gc_disableLocalWorker c) of
                Some err \<Rightarrow> (Some err, c)
              | None \<Rightarrow> (None, c\<lparr>gc_conversationConfig := Some cfg\<rparr>))))"

definition step_memory :: "(rat \<Rightarrow> string) \<Rightarrow> 'w config_step" where
  "step_memory fmtv c = (case gc_memoryConfig c of None \<Rightarrow> (None, c)
     | Some m \<Rightarrow> (let cfg = memory_WithDefaults m
         in case memory_Validate fmtv cfg of Some err \<Rightarrow> (Some err, c)
            | None \<Rightarrow> (None, c\<lparr>gc_memoryConfig := Some cfg\<rparr>)))"

definition step_mode :: "'w config_step" where
  "step_mode c =
    (let c1 = (if gc_agentMode c = '''' then c\<lparr>gc_agentMode := AgentModeInteractive\<rparr> else c)
     in if gc_agentMode c1 \<in> {AgentModeInteractive, AgentModeAutonomous} then (None, c1)
        else (Some (ErrNew (''invalid agent mode '' @ Quote (gc_agentMode c1) @ '': use ''
          @ Quote AgentModeInteractive @ '' or '' @ Quote AgentModeAutonomous)), c1))"

definition step_exec_mode :: "'w config_step" where
  "step_exec_mode c =
    (let c1 = (if gc_agentToolExecutionMode c = ''''
               then c\<lparr>gc_agentToolExecutionMode := ExecModeParallel\<rparr> else c)
     in if gc_agentToolExecutionMode c1 \<in> {ExecModeSequential, ExecModeParallel} then (None, c1)
        else (Some (ErrNew (''invalid tool execution mode '' @ Quote (gc_agentToolExecutionMode c1)
          @ '': use '' @ Quote ExecModeSequential @ '' or '' @ Quote ExecModeParallel)), c1))"

definition step_depth :: "'w config_step" where
  "step_depth c = (None, if gc_maxSubAgentDepth c \<le> 0
     then c\<lparr>gc_maxSubAgentDepth := defaultMaxSubAgentDepth\<rparr> else c)"

definition step_retrievers :: "'w config_step" where
  "step_retrievers c = (case validateRetrievers (gc_retrievers c) of
      Some err \<Rightarrow> (Some err, c)
    | None \<Rightarrow> (case validateRetrieverMode (gc_retrieverMode c) of
        Inl err \<Rightarrow> (Some err, c)
      | Inr mode \<Rightarrow> (None, c\<lparr>gc_retrieverMode := mode\<rparr>)))"

definition defaultTimeoutInteractive :: int where "defaultTimeoutInteractive = 5 * minute_ns"
definition defaultTimeoutAutonomous :: int where "defaultTimeoutAutonomous = 60 * minute_ns"
definition defaultMaxIterations :: int where "defaultMaxIterations = 5"

definition step_timeout :: "'w config_step" where
  "step_timeout c = (None, if gc_timeout c = 0
     then (if gc_agentMode c = AgentModeAutonomous then c\<lparr>gc_timeout := defaultTimeoutAutonomous\<rparr>
           else c\<lparr>gc_timeout := defaultTimeoutInteractive\<rparr>)
     else c)"

definition step_approval_timeout :: "'w config_step" where
  "step_approval_timeout c =
    (let c1 = (if gc_approvalTimeout c = 0
               then c\<lparr>gc_approvalTimeout := gc_timeout c - 30 * second_ns\<rparr> else c)
     in if gc_approvalTimeout c1 \<ge> gc_timeout c1 then
          (Some (ErrNew (''approvalTimeout ('' @ duration_str (gc_approvalTimeout c1)
            @ '') must be less than agent timeout ('' @ duration_str (gc_timeout c1) @ '')'')), c1)
        else if gc_approvalTimeout c1 > MaxApprovalTimeout then
          (Some (ErrNew (''approvalTimeout ('' @ duration_str (gc_approvalTimeout c1)
            @ '') exceeds max ('' @ duration_str MaxApprovalTimeout @ '')'')), c1)
        else (None, c1))"

definition step_iterations :: "'w config_step" where
  "step_iterations c = (None, if gc_maxIterations c \<le> 0
     then c\<lparr>gc_maxIterations := defaultMaxIterations\<rparr> else c)"

definition step_budget :: "'w config_step" where
  "step_budget c = (case validateBudget (gc_budgetConfig c) of
      Inl e \<Rightarrow> (Some (ErrNew (budget_config_error_str e)), c)
    | Inr b \<Rightarrow> (None, c\<lparr>gc_budgetConfig := b\<rparr>))"

definition step_named :: "'w config_step" where
  "step_named c = (validateNamedLLMClients (gc_namedLLMClients c), c)"

definition step_error_control :: "'w config_step" where
  "step_error_control c = (validateErrorControl c, c)"

subsection \<open>Observability\<close>

definition obs_protocol :: "observability_config \<Rightarrow> string" where
  "obs_protocol obs = (let proto = TrimSpace (ob_Protocol obs)
     in if proto = '''' then OTLPProtocolGRPC else proto)"

definition observabilityOptions :: "'w agent_config \<Rightarrow> obs_option option list" where
  "observabilityOptions c = (case gc_observabilityConfig c of None \<Rightarrow> []
     | Some obs \<Rightarrow>
        [Some (obs_WithLogger (gc_logger c)), Some (obs_WithName (TrimSpace (gc_Name c))),
         Some (obs_WithEndpoint (TrimSpace (ob_Endpoint obs))),
         Some (obs_WithExportTimeout DefaultOTLPExportTimeout),
         Some (obs_WithBatchTimeout DefaultOTLPBatchTimeout),
         Some (obs_WithMetricsInterval DefaultOTLPMetricsInterval),
         Some (obs_WithProtocol (obs_protocol obs))]
        @ (if ob_Insecure obs then [Some (obs_WithInsecure True)] else []))"

text \<open>\<open>userLogger\<close>: the caller gave a logger. The provider of a log client that \<open>NewLogs\<close> made:\<close>

fun logs_provider :: "obs_client option \<Rightarrow> string option" where
  "logs_provider (Some (OtelLogs p)) = Some p"
| "logs_provider _ = None"

definition wire_logger :: "'w agent_config \<Rightarrow> 'w agent_config" where
  "wire_logger c = (case logs_provider (gc_logs c) of None \<Rightarrow> c
     | Some p \<Rightarrow> c\<lparr>gc_logger := Some (OtelLogger (gc_logLevel c) p)\<rparr>)"

definition step_logs :: "otlp_sdk \<Rightarrow> bool \<Rightarrow> observability_config \<Rightarrow> obs_option option list \<Rightarrow> 'w config_step" where
  "step_logs otlp userLogger obs opts c =
    (if ob_DisableLogs obs \<or> userLogger then (None, c)
     else case NewLogs otlp opts of Inl err \<Rightarrow> (Some err, c)
        | Inr lp \<Rightarrow> (None, wire_logger (c\<lparr>gc_logs := Some lp\<rparr>)))"

definition step_tracer :: "otlp_sdk \<Rightarrow> observability_config \<Rightarrow> obs_option option list \<Rightarrow> 'w config_step" where
  "step_tracer otlp obs opts c =
    (if ob_DisableTraces obs then (None, c)
     else case NewTracer otlp opts of Inl err \<Rightarrow> (Some err, c)
        | Inr t \<Rightarrow> (None, c\<lparr>gc_tracer := Some t\<rparr>))"

definition step_metrics :: "otlp_sdk \<Rightarrow> observability_config \<Rightarrow> obs_option option list \<Rightarrow> 'w config_step" where
  "step_metrics otlp obs opts c =
    (if ob_DisableMetrics obs then (None, c)
     else case NewMetrics otlp opts of Inl err \<Rightarrow> (Some err, c)
        | Inr m \<Rightarrow> (None, c\<lparr>gc_metrics := Some m\<rparr>))"

definition step_observability :: "otlp_sdk \<Rightarrow> bool \<Rightarrow> 'w config_step" where
  "step_observability otlp userLogger c = (case gc_observabilityConfig c of None \<Rightarrow> (None, c)
     | Some obs \<Rightarrow> (let opts = observabilityOptions c
         in run_steps [step_logs otlp userLogger obs opts, step_tracer otlp obs opts,
              step_metrics otlp obs opts] c))"

text \<open>A logger that is wired to a log client is not wired again.\<close>

definition step_logger :: "bool \<Rightarrow> 'w config_step" where
  "step_logger userLogger c =
    (let otelLoggerWired = (case gc_logger c of Some (OtelLogger l p) \<Rightarrow> True | _ \<Rightarrow> False)
     in (None, if \<not> userLogger \<and> \<not> otelLoggerWired then wire_logger c else c))"

definition step_noop :: "'w config_step" where
  "step_noop c = (None, c\<lparr>gc_tracer := Some (case gc_tracer c of None \<Rightarrow> NoopClient | Some t \<Rightarrow> t),
     gc_metrics := Some (case gc_metrics c of None \<Rightarrow> NoopClient | Some m \<Rightarrow> m),
     gc_logs := Some (case gc_logs c of None \<Rightarrow> NoopClient | Some l \<Rightarrow> l)\<rparr>)"

subsection \<open>The whole\<close>

definition prepare_steps :: "(rat \<Rightarrow> string) \<Rightarrow> 'w config_step list" where
  "prepare_steps fmtv = [step_name, step_defaults, step_hooks, step_factory, step_llm,
     step_conversation, step_memory fmtv, step_mode, step_exec_mode, step_depth]"

definition limit_steps :: "otlp_sdk \<Rightarrow> bool \<Rightarrow> 'w config_step list" where
  "limit_steps otlp userLogger = [step_timeout, step_approval_timeout, step_iterations, step_budget,
     step_named, step_error_control, step_observability otlp userLogger, step_logger userLogger,
     step_noop]"

definition buildAgentConfig ::
    "'w build_env \<Rightarrow> 'w agents \<Rightarrow> 'w agent_option list \<Rightarrow> header_store \<Rightarrow>
     ('w, go_error option \<times> 'w agent_config \<times> header_store) state" where
  "buildAgentConfig bd h opts store =
    (let c0 = fold (\<lambda>opt c. opt c) opts (new_config (bd_uuid bd));
         userLogger = gc_logger c0 \<noteq> None
     in case run_steps (prepare_steps (bd_fmtv bd)) c0 of
          (Some err, c) \<Rightarrow> State_Monad.return (Some err, c, store)
        | (None, c) \<Rightarrow>
           (case buildRegistries (bd_mcp bd) (bd_dial bd) (bd_fresh bd) h (c, store) of
              (Some err, c, st) \<Rightarrow> State_Monad.return (Some err, c, st)
            | (None, c, st) \<Rightarrow>
               (case step_retrievers c of
                  (Some err, c) \<Rightarrow> State_Monad.return (Some err, c, st)
                | (None, c) \<Rightarrow> do {
                    tools \<leftarrow> resolveTools (bd_codec bd) h c;
                    State_Monad.return (case tools of
                        Inl err \<Rightarrow> (Some err, c, st)
                      | Inr ts \<Rightarrow>
                          (case run_steps (limit_steps (bd_otlp bd) userLogger) c of
                             (err, c) \<Rightarrow> (err, c, st))) })))"

section \<open>What an accepted configuration satisfies\<close>

text \<open>The checks of the preparation, by the step after which they hold.\<close>

definition prepared :: "nat \<Rightarrow> (rat \<Rightarrow> string) \<Rightarrow> 'w agent_config \<Rightarrow> bool" where
  "prepared n fmtv c \<longleftrightarrow>
     (n \<ge> 1 \<longrightarrow> validateAgentName (gc_Name c) = None) \<and>
     (n \<ge> 2 \<longrightarrow> gc_toolApprovalPolicy c \<noteq> None \<and> gc_Description c \<noteq> '''') \<and>
     (n \<ge> 3 \<longrightarrow> '''' \<notin> hg_Name ` set (gc_hooks c) \<and> distinct (map hg_Name (gc_hooks c))) \<and>
     (n \<ge> 4 \<longrightarrow> gc_factoryConflict c = None \<and>
        (\<forall>f. gc_runtimeFactory c = Some f \<longrightarrow> fy_Validate f = None)) \<and>
     (n \<ge> 5 \<longrightarrow> gc_LLMClient c \<noteq> None) \<and>
     (n \<ge> 6 \<longrightarrow> (\<forall>v. gc_conversationConfig c = Some v \<longrightarrow> vc_Conversation v \<noteq> None \<and> 0 < vc_Size v \<and>
        (gc_disableLocalWorker c \<longrightarrow> vc_IsDistributed v))) \<and>
     (n \<ge> 7 \<longrightarrow> (\<forall>m. gc_memoryConfig c = Some m \<longrightarrow> memory_Validate fmtv m = None)) \<and>
     (n \<ge> 8 \<longrightarrow> gc_agentMode c \<in> {AgentModeInteractive, AgentModeAutonomous}) \<and>
     (n \<ge> 9 \<longrightarrow> gc_agentToolExecutionMode c \<in> {ExecModeSequential, ExecModeParallel}) \<and>
     (n \<ge> 10 \<longrightarrow> 0 < gc_maxSubAgentDepth c)"

lemma run_steps_Cons:
  "run_steps (f # fs) c = (None, c'') \<longleftrightarrow> (\<exists>c'. f c = (None, c') \<and> run_steps fs c' = (None, c''))"
  by (auto split: prod.splits option.splits)

lemma run_steps_Nil: "run_steps [] c = (None, c'') \<longleftrightarrow> c'' = c"
  by auto

lemma prepared_step_1: "step_name c = (None, c') \<Longrightarrow> prepared 1 fmtv c'"
  by (auto simp: step_name_def prepared_def Let_def)

lemma prepared_step_2: "step_defaults c = (None, c') \<Longrightarrow> prepared 1 fmtv c \<Longrightarrow> prepared 2 fmtv c'"
  by (auto simp: step_defaults_def prepared_def Let_def split: if_splits)

lemma prepared_step_3: "step_hooks c = (None, c') \<Longrightarrow> prepared 2 fmtv c \<Longrightarrow> prepared 3 fmtv c'"
  by (auto simp: step_hooks_def prepared_def validateHookGroups_None)

lemma prepared_step_4: "step_factory c = (None, c') \<Longrightarrow> prepared 3 fmtv c \<Longrightarrow> prepared 4 fmtv c'"
  by (auto simp: step_factory_def prepared_def split: option.splits)

lemma prepared_step_5: "step_llm c = (None, c') \<Longrightarrow> prepared 4 fmtv c \<Longrightarrow> prepared 5 fmtv c'"
  by (auto simp: step_llm_def prepared_def split: if_splits)

lemma prepared_step_6: "step_conversation c = (None, c') \<Longrightarrow> prepared 5 fmtv c \<Longrightarrow> prepared 6 fmtv c'"
  by (auto simp: step_conversation_def prepared_def Let_def conversation_Validate_def
      ValidateDistributed_def conversation_WithDefaults_def DefaultSize_def
      split: option.splits if_splits)

lemma prepared_step_7: "step_memory fmtv c = (None, c') \<Longrightarrow> prepared 6 fmtv c \<Longrightarrow> prepared 7 fmtv c'"
  by (auto simp: step_memory_def prepared_def Let_def split: option.splits)

lemma prepared_step_8: "step_mode c = (None, c') \<Longrightarrow> prepared 7 fmtv c \<Longrightarrow> prepared 8 fmtv c'"
  by (auto simp: step_mode_def prepared_def Let_def split: if_splits)

lemma prepared_step_9: "step_exec_mode c = (None, c') \<Longrightarrow> prepared 8 fmtv c \<Longrightarrow> prepared 9 fmtv c'"
  by (auto simp: step_exec_mode_def prepared_def Let_def split: if_splits)

lemma prepared_step_10: "step_depth c = (None, c') \<Longrightarrow> prepared 9 fmtv c \<Longrightarrow> prepared 10 fmtv c'"
  by (auto simp: step_depth_def prepared_def Let_def defaultMaxSubAgentDepth_def split: if_splits)

lemma prepare_steps_ok:
  "run_steps (prepare_steps fmtv) c = (None, c') \<Longrightarrow> prepared 10 fmtv c'"
  unfolding prepare_steps_def
  by (simp only: run_steps_Cons run_steps_Nil)
    (blast intro: prepared_step_1 prepared_step_2 prepared_step_3 prepared_step_4 prepared_step_5
      prepared_step_6 prepared_step_7 prepared_step_8 prepared_step_9 prepared_step_10)

text \<open>The registries, once built; the later statements do not touch them.\<close>

definition registries_built :: "'w agents \<Rightarrow> 'w agent_config \<Rightarrow> bool" where
  "registries_built h c \<longleftrightarrow> gc_toolRegistry c \<noteq> None \<and> gc_mcpRegistry c \<noteq> None \<and>
     gc_a2aRegistry c \<noteq> None \<and> gc_tools c = [] \<and> gc_subAgents c = [] \<and>
     (\<exists>reg. gc_subAgentRegistry c = Some reg \<and> validateSubAgentRegistry h c reg = None)"

lemma validate_registry_cong:
  "gc_Name c = gc_Name c' \<Longrightarrow> gc_maxSubAgentDepth c = gc_maxSubAgentDepth c' \<Longrightarrow>
   validateSubAgentRegistry h c reg = validateSubAgentRegistry h c' reg"
  unfolding validateSubAgentRegistry_def by (simp only:)

lemma buildRegistries_ok:
  assumes "buildRegistries sdk dial fresh h (c, st) = (None, c', st')"
  shows "registries_built h c'" and "prepared n fmtv c \<Longrightarrow> prepared n fmtv c'"
proof -
  obtain c1 c2 c3 st3 where 1: "buildToolRegistry c = (None, c1)" and 2: "buildMCPRegistry sdk c1 = (None, c2)"
    and 3: "buildA2ARegistry dial fresh (c2, st) = (None, c3, st3)"
    and 4: "buildSubAgentRegistry h c3 = (None, c')"
    using assms by (auto simp: buildRegistries_def split: prod.splits option.splits)
  from 1 obtain r1 where c1: "c1 = c\<lparr>gc_toolRegistry := Some r1, gc_tools := []\<rparr>"
    by (auto simp: buildToolRegistry_def split: prod.splits option.splits)
  from 2 obtain r2 where c2: "c2 = c1\<lparr>gc_mcpRegistry := Some r2\<rparr>"
    by (auto simp: buildMCPRegistry_def split: prod.splits option.splits)
  from 3 obtain r3 where c3: "c3 = c2\<lparr>gc_a2aRegistry := Some r3\<rparr>"
    by (auto simp: buildA2ARegistry_def Let_def split: prod.splits option.splits)
  from 4 obtain r4 where c': "c' = c3\<lparr>gc_subAgentRegistry := Some r4, gc_subAgents := []\<rparr>"
    and v: "validateSubAgentRegistry h c3 r4 = None"
    by (auto simp: buildSubAgentRegistry_def split: prod.splits option.splits)
  from v validate_registry_cong [of c3 c' h r4] c' have "validateSubAgentRegistry h c' r4 = None" by simp
  then show "registries_built h c'" using c1 c2 c3 c' by (simp add: registries_built_def)
  show "prepared n fmtv c \<Longrightarrow> prepared n fmtv c'"
    using c1 c2 c3 c' by (simp add: prepared_def)
qed

definition limits_set :: "nat \<Rightarrow> 'w agent_config \<Rightarrow> bool" where
  "limits_set n c \<longleftrightarrow>
     (n \<ge> 1 \<longrightarrow> gc_timeout c \<noteq> 0) \<and>
     (n \<ge> 2 \<longrightarrow> gc_approvalTimeout c < gc_timeout c \<and> gc_approvalTimeout c \<le> MaxApprovalTimeout) \<and>
     (n \<ge> 3 \<longrightarrow> 0 < gc_maxIterations c) \<and>
     (n \<ge> 4 \<longrightarrow> (\<forall>b. gc_budgetConfig c = Some b \<longrightarrow> valid_budget b)) \<and>
     (n \<ge> 5 \<longrightarrow> (\<forall>(name, cl) \<in> set (gc_namedLLMClients c). TrimSpace name \<noteq> '''' \<and> cl \<noteq> None)) \<and>
     (n \<ge> 6 \<longrightarrow> (\<forall>ec. gc_errorControl c = Some ec \<longrightarrow>
        (ec_FallbackLLMClient ec = '''' \<or>
          (\<exists>cl. map_of (gc_namedLLMClients c) (ec_FallbackLLMClient ec) = Some (Some cl))) \<and>
        (\<forall>cb. ec_CircuitBreaker ec = Some cb \<longrightarrow>
          0 \<le> MaxConsecutiveSameArgs cb \<and> 0 \<le> PatternWindowSize cb \<and> 0 \<le> ResetAfter cb))) \<and>
     (n \<ge> 9 \<longrightarrow> gc_tracer c \<noteq> None \<and> gc_metrics c \<noteq> None \<and> gc_logs c \<noteq> None)"

lemma limits_step_1: "step_timeout c = (None, c') \<Longrightarrow> limits_set 1 c'"
  by (auto simp: step_timeout_def limits_set_def defaultTimeoutAutonomous_def
      defaultTimeoutInteractive_def minute_ns_def second_ns_def split: if_splits)

lemma limits_step_2: "step_approval_timeout c = (None, c') \<Longrightarrow> limits_set 1 c \<Longrightarrow> limits_set 2 c'"
  by (auto simp: step_approval_timeout_def limits_set_def Let_def split: if_splits)

lemma limits_step_3: "step_iterations c = (None, c') \<Longrightarrow> limits_set 2 c \<Longrightarrow> limits_set 3 c'"
  by (auto simp: step_iterations_def limits_set_def defaultMaxIterations_def split: if_splits)

lemma limits_step_4: "step_budget c = (None, c') \<Longrightarrow> limits_set 3 c \<Longrightarrow> limits_set 4 c'"
  by (cases "gc_budgetConfig c")
    (auto simp: step_budget_def limits_set_def validateBudget_def [of None] split: sum.splits
      dest: validateBudget_valid)

lemma limits_step_5: "step_named c = (None, c') \<Longrightarrow> limits_set 4 c \<Longrightarrow> limits_set 5 c'"
  by (auto simp: step_named_def limits_set_def validateNamedLLMClients_None)

lemma limits_step_6: "step_error_control c = (None, c') \<Longrightarrow> limits_set 5 c \<Longrightarrow> limits_set 6 c'"
  by (auto simp: step_error_control_def limits_set_def validateErrorControl_def breaker_error_def Let_def
      split: option.splits if_splits)

definition retrievers_ok :: "'w agent_config \<Rightarrow> bool" where
  "retrievers_ok c \<longleftrightarrow> None \<notin> set (gc_retrievers c) \<and>
     gc_retrieverMode c \<in> {RetrieverModeAgentic, RetrieverModePrefetch, RetrieverModeHybrid}"

definition checked :: "(rat \<Rightarrow> string) \<Rightarrow> 'w agents \<Rightarrow> 'w agent_config \<Rightarrow> bool" where
  "checked fmtv h c \<longleftrightarrow> prepared 10 fmtv c \<and> registries_built h c \<and> retrievers_ok c"

lemma step_retrievers_checked:
  assumes "step_retrievers c = (None, c')" "prepared 10 fmtv c" "registries_built h c"
  shows "checked fmtv h c'"
proof -
  obtain mode where c': "c' = c\<lparr>gc_retrieverMode := mode\<rparr>" and m: "validateRetrieverMode (gc_retrieverMode c) = Inr mode"
    and r: "validateRetrievers (gc_retrievers c) = None"
    using assms(1) by (auto simp: step_retrievers_def split: option.splits sum.splits)
  have "registries_built h c'"
    using assms(3) validate_registry_cong [of c c' h] c' by (auto simp: registries_built_def)
  then show ?thesis
    using c' m r assms(2)
    by (auto simp: checked_def prepared_def retrievers_ok_def validateRetrievers_None
        validateRetrieverMode_def Let_def split: if_splits)
qed

text \<open>The remaining steps keep what has been checked: they change other fields.\<close>

lemma checked_cong:
  assumes "checked fmtv h c"
    and "gc_Name c' = gc_Name c" "gc_toolApprovalPolicy c' = gc_toolApprovalPolicy c"
      "gc_Description c' = gc_Description c" "gc_hooks c' = gc_hooks c"
      "gc_factoryConflict c' = gc_factoryConflict c" "gc_runtimeFactory c' = gc_runtimeFactory c"
      "gc_LLMClient c' = gc_LLMClient c" "gc_conversationConfig c' = gc_conversationConfig c"
      "gc_disableLocalWorker c' = gc_disableLocalWorker c" "gc_memoryConfig c' = gc_memoryConfig c"
      "gc_agentMode c' = gc_agentMode c" "gc_agentToolExecutionMode c' = gc_agentToolExecutionMode c"
      "gc_maxSubAgentDepth c' = gc_maxSubAgentDepth c" "gc_toolRegistry c' = gc_toolRegistry c"
      "gc_mcpRegistry c' = gc_mcpRegistry c" "gc_a2aRegistry c' = gc_a2aRegistry c"
      "gc_tools c' = gc_tools c" "gc_subAgents c' = gc_subAgents c"
      "gc_subAgentRegistry c' = gc_subAgentRegistry c" "gc_retrievers c' = gc_retrievers c"
      "gc_retrieverMode c' = gc_retrieverMode c"
  shows "checked fmtv h c'"
  using assms(1) validate_registry_cong [of c c' h]
  unfolding checked_def prepared_def registries_built_def retrievers_ok_def
  by (simp only: assms(2-)) metis

lemma wire_logger_frame:
  "checked fmtv h (wire_logger c) = checked fmtv h c" "limits_set 6 (wire_logger c) = limits_set 6 c"
  subgoal
    by (rule iffI; erule checked_cong) (simp_all add: wire_logger_def split: option.split)
  subgoal by (simp add: limits_set_def wire_logger_def split: option.split)
  done

lemma checked_steps:
  "step_timeout c = (None, c') \<Longrightarrow> checked fmtv h c \<Longrightarrow> checked fmtv h c'"
  "step_approval_timeout c = (None, c') \<Longrightarrow> checked fmtv h c \<Longrightarrow> checked fmtv h c'"
  "step_iterations c = (None, c') \<Longrightarrow> checked fmtv h c \<Longrightarrow> checked fmtv h c'"
  "step_budget c = (None, c') \<Longrightarrow> checked fmtv h c \<Longrightarrow> checked fmtv h c'"
  "step_named c = (None, c') \<Longrightarrow> checked fmtv h c \<Longrightarrow> checked fmtv h c'"
  "step_error_control c = (None, c') \<Longrightarrow> checked fmtv h c \<Longrightarrow> checked fmtv h c'"
  "step_noop c = (None, c') \<Longrightarrow> checked fmtv h c \<Longrightarrow> checked fmtv h c'"
  by (erule checked_cong; auto simp: step_timeout_def step_approval_timeout_def step_iterations_def
      step_budget_def step_named_def step_error_control_def step_noop_def Let_def
      split: if_splits sum.splits)+

lemma client_frame:
  "checked fmtv h (c\<lparr>gc_logs := x\<rparr>) = checked fmtv h c"
  "checked fmtv h (c\<lparr>gc_tracer := x\<rparr>) = checked fmtv h c"
  "checked fmtv h (c\<lparr>gc_metrics := x\<rparr>) = checked fmtv h c"
  "limits_set 6 (c\<lparr>gc_logs := x\<rparr>) = limits_set 6 c"
  "limits_set 6 (c\<lparr>gc_tracer := x\<rparr>) = limits_set 6 c"
  "limits_set 6 (c\<lparr>gc_metrics := x\<rparr>) = limits_set 6 c"
  by (rule iffI; erule checked_cong; simp)+ (simp_all add: limits_set_def)

lemma observed_steps:
  "step_logs otlp u obs opts c = (None, c') \<Longrightarrow>
     checked fmtv h c' = checked fmtv h c \<and> limits_set 6 c' = limits_set 6 c"
  "step_tracer otlp obs opts c = (None, c') \<Longrightarrow>
     checked fmtv h c' = checked fmtv h c \<and> limits_set 6 c' = limits_set 6 c"
  "step_metrics otlp obs opts c = (None, c') \<Longrightarrow>
     checked fmtv h c' = checked fmtv h c \<and> limits_set 6 c' = limits_set 6 c"
  "step_logger u c = (None, c') \<Longrightarrow>
     checked fmtv h c' = checked fmtv h c \<and> limits_set 6 c' = limits_set 6 c"
  by (auto simp: step_logs_def step_tracer_def step_metrics_def step_logger_def wire_logger_frame
      client_frame split: if_splits sum.splits)

lemma observability_step:
  assumes "step_observability otlp u c = (None, c')"
  shows "checked fmtv h c' = checked fmtv h c \<and> limits_set 6 c' = limits_set 6 c"
proof (cases "gc_observabilityConfig c")
  case None
  with assms show ?thesis by (simp add: step_observability_def)
next
  case (Some obs)
  let ?o = "observabilityOptions c"
  obtain c1 c2 where s: "step_logs otlp u obs ?o c = (None, c1)" "step_tracer otlp obs ?o c1 = (None, c2)"
      "step_metrics otlp obs ?o c2 = (None, c')"
    using assms unfolding step_observability_def Some option.case Let_def run_steps_Cons run_steps_Nil
    by blast
  with observed_steps(1) [OF s(1), of fmtv h] observed_steps(2) [OF s(2), of fmtv h]
    observed_steps(3) [OF s(3), of fmtv h] show ?thesis by blast
qed

lemma noop_step: "step_noop c = (None, c') \<Longrightarrow> limits_set 6 c \<Longrightarrow> limits_set 9 c'"
  by (auto simp: step_noop_def limits_set_def)

lemma limit_steps_ok:
  assumes "run_steps (limit_steps otlp u) c = (None, c')" "checked fmtv h c"
  shows "checked fmtv h c'" "limits_set 9 c'"
proof -
  obtain c1 c2 c3 c4 c5 c6 c7 c8 where s: "step_timeout c = (None, c1)" "step_approval_timeout c1 = (None, c2)"
      "step_iterations c2 = (None, c3)" "step_budget c3 = (None, c4)" "step_named c4 = (None, c5)"
      "step_error_control c5 = (None, c6)" "step_observability otlp u c6 = (None, c7)"
      "step_logger u c7 = (None, c8)" "step_noop c8 = (None, c')"
    using assms(1) unfolding limit_steps_def by (simp only: run_steps_Cons run_steps_Nil) blast
  have c6: "checked fmtv h c6"
    by (rule checked_steps(6) [OF s(6) checked_steps(5) [OF s(5) checked_steps(4) [OF s(4)
      checked_steps(3) [OF s(3) checked_steps(2) [OF s(2) checked_steps(1) [OF s(1) assms(2)]]]]]])
  have l6: "limits_set 6 c6"
    by (rule limits_step_6 [OF s(6) limits_step_5 [OF s(5) limits_step_4 [OF s(4)
      limits_step_3 [OF s(3) limits_step_2 [OF s(2) limits_step_1 [OF s(1)]]]]]])
  note o7 = observability_step [OF s(7), of fmtv h] and o8 = observed_steps(4) [OF s(8), of fmtv h]
  have c8: "checked fmtv h c8" "limits_set 6 c8" using o7 o8 c6 l6 by simp_all
  show "checked fmtv h c'" by (rule checked_steps(7) [OF s(9) c8(1)])
  show "limits_set 9 c'" by (rule noop_step [OF s(9) c8(2)])
qed

lemma buildAgentConfig_ok:
  assumes "run_state (buildAgentConfig bd h opts store) w = ((None, c, st), w')"
  shows "checked (bd_fmtv bd) h c \<and> limits_set 9 c"
proof -
  let ?u = "gc_logger (fold (\<lambda>opt c. opt c) opts (new_config (bd_uuid bd))) \<noteq> None"
  obtain c1 c2 c3 st2 where 1: "run_steps (prepare_steps (bd_fmtv bd))
        (fold (\<lambda>opt c. opt c) opts (new_config (bd_uuid bd))) = (None, c1)"
    and 2: "buildRegistries (bd_mcp bd) (bd_dial bd) (bd_fresh bd) h (c1, store) = (None, c2, st2)"
    and 3: "step_retrievers c2 = (None, c3)" and 4: "run_steps (limit_steps (bd_otlp bd) ?u) c3 = (None, c)"
    using assms by (auto simp: buildAgentConfig_def Let_def split: prod.splits option.splits sum.splits)
  have "checked (bd_fmtv bd) h c3"
    using step_retrievers_checked [OF 3] buildRegistries_ok [OF 2] prepare_steps_ok [OF 1] by blast
  with limit_steps_ok [OF 4] show ?thesis by blast
qed

text \<open>What holds of every configuration that \<open>buildAgentConfig\<close> returns.\<close>

definition accepted_config :: "(rat \<Rightarrow> string) \<Rightarrow> 'w agents \<Rightarrow> 'w agent_config \<Rightarrow> bool" where
  "accepted_config fmtv h c \<longleftrightarrow>
     validateAgentName (gc_Name c) = None \<and> gc_Description c \<noteq> '''' \<and>
     gc_LLMClient c \<noteq> None \<and> gc_toolApprovalPolicy c \<noteq> None \<and>
     '''' \<notin> hg_Name ` set (gc_hooks c) \<and> distinct (map hg_Name (gc_hooks c)) \<and>
     gc_factoryConflict c = None \<and> (\<forall>f. gc_runtimeFactory c = Some f \<longrightarrow> fy_Validate f = None) \<and>
     (\<forall>v. gc_conversationConfig c = Some v \<longrightarrow> vc_Conversation v \<noteq> None \<and> 0 < vc_Size v \<and>
        (gc_disableLocalWorker c \<longrightarrow> vc_IsDistributed v)) \<and>
     (\<forall>m. gc_memoryConfig c = Some m \<longrightarrow> memory_Validate fmtv m = None) \<and>
     gc_agentMode c \<in> {AgentModeInteractive, AgentModeAutonomous} \<and>
     gc_agentToolExecutionMode c \<in> {ExecModeSequential, ExecModeParallel} \<and>
     0 < gc_maxSubAgentDepth c \<and> 0 < gc_maxIterations c \<and>
     gc_approvalTimeout c < gc_timeout c \<and> gc_approvalTimeout c \<le> MaxApprovalTimeout \<and>
     (\<forall>b. gc_budgetConfig c = Some b \<longrightarrow> valid_budget b) \<and>
     (\<forall>(name, cl) \<in> set (gc_namedLLMClients c). TrimSpace name \<noteq> '''' \<and> cl \<noteq> None) \<and>
     (\<forall>ec. gc_errorControl c = Some ec \<longrightarrow> ec_FallbackLLMClient ec = '''' \<or>
        (\<exists>cl. map_of (gc_namedLLMClients c) (ec_FallbackLLMClient ec) = Some (Some cl))) \<and>
     None \<notin> set (gc_retrievers c) \<and>
     gc_retrieverMode c \<in> {RetrieverModeAgentic, RetrieverModePrefetch, RetrieverModeHybrid} \<and>
     gc_toolRegistry c \<noteq> None \<and> gc_mcpRegistry c \<noteq> None \<and> gc_a2aRegistry c \<noteq> None \<and>
     (\<exists>reg. gc_subAgentRegistry c = Some reg \<and> validateSubAgentRegistry h c reg = None) \<and>
     gc_tracer c \<noteq> None \<and> gc_metrics c \<noteq> None \<and> gc_logs c \<noteq> None"

definition sample_agents :: "nat agents" where
  "sample_agents = (\<lambda>_. \<lparr>ag_config = new_config ''s'', ag_runtime = None\<rparr>)"

definition sample_build :: "nat build_env" where
  "sample_build = \<lparr>bd_uuid = ''u'',
     bd_mcp = \<lparr>sdk_Connect = (\<lambda>_ _. State_Monad.return (Inl (ErrNew ''offline''))),
       sdk_wait = (\<lambda>_. State_Monad.return None), sdk_Marshal = (\<lambda>_. Inr ''{}''),
       sdk_Unmarshal = (\<lambda>_. Inr ANil)\<rparr>,
     bd_dial = (\<lambda>n _ _. \<lparr>qc_Name = n, qc_ListSkills = State_Monad.return (Inr []),
       qc_SendMessage = (\<lambda>_. State_Monad.return (Inl (ErrNew ''offline'')))\<rparr>),
     bd_fresh = 0, bd_codec = \<lparr>co_marshal_args = (\<lambda>_. Inr ''{}''), co_unmarshal = (\<lambda>_. Inr ANil),
       co_value = (\<lambda>_. OtherValue '''' ''''), co_marshal_task = (\<lambda>_. Inr ''{}'')\<rparr>,
     bd_otlp = \<lparr>ot_resource = (\<lambda>_. None), ot_exporter = (\<lambda>_. None), ot_provider = (\<lambda>_ _. ''otlp'')\<rparr>,
     bd_fmtv = (\<lambda>_. '''')\<rparr>"

definition sample_options :: "nat agent_option list" where
  "sample_options = [WithName ''Desk Bot'', WithLLMClient (Some (sample_client (\<lambda>_. text_response ''hi'')))]"

lemma sample_built:
  "fst (fst (run_state (buildAgentConfig sample_build sample_agents sample_options (\<lambda>_. [])) 0)) = None"
  by code_simp

text \<open>C13. A configuration that \<open>buildAgentConfig\<close> returns without an error is complete and consistent,
  whatever the options were: a valid name, a model client and an approval policy, hook groups with
  distinct names, no conflict of runtimes, distributed conversations where the worker is remote, known
  modes, positive depth and iteration limits, an approval timeout below the timeout, a valid budget,
  a resolvable fallback client, retrievers that are there, all registries, an accepted sub-agent
  graph, and the three telemetry clients.\<close>

theorem built_config_accepted:
  assumes "run_state (buildAgentConfig bd h opts store) w = ((None, c, st), w')"
  shows "accepted_config (bd_fmtv bd) h c"
  using buildAgentConfig_ok [OF assms]
  unfolding accepted_config_def checked_def prepared_def registries_built_def retrievers_ok_def
    limits_set_def by simp

theorem built_config_accepted_witness:
  "accepted_config (\<lambda>_. '''') sample_agents
     (fst (snd (fst (run_state (buildAgentConfig sample_build sample_agents sample_options (\<lambda>_. [])) 0))))"
proof -
  obtain e c st w' where r: "run_state (buildAgentConfig sample_build sample_agents sample_options
      (\<lambda>_. [])) 0 = ((e, c, st), w')"
    by (metis prod.exhaust)
  with sample_built have "run_state (buildAgentConfig sample_build sample_agents sample_options
      (\<lambda>_. [])) 0 = ((None, c, st), w')" by simp
  from built_config_accepted [OF this] r show ?thesis by (simp add: sample_build_def)
qed

text \<open>Neither the approval timeout nor the timeout needs to be positive.\<close>

lemma approval_timeout_not_positive:
  "step_approval_timeout c = (None, c') \<Longrightarrow> gc_approvalTimeout c = 0 \<Longrightarrow> gc_timeout c \<le> 30 * second_ns \<Longrightarrow>
     gc_approvalTimeout c' \<le> 0"
  by (auto simp: step_approval_timeout_def Let_def split: if_splits)

section \<open>The logger and the log client\<close>

text \<open>Two configurations that log alike. The steps that do not concern the logs keep this view.\<close>

definition log_view :: "'w agent_config \<Rightarrow> sdk_logger option \<times> string \<times> obs_client option" where
  "log_view c = (gc_logger c, gc_logLevel c, gc_logs c)"

lemma quiet_steps:
  "log_view (snd (step_name c)) = log_view c" "log_view (snd (step_hooks c)) = log_view c"
  "log_view (snd (step_factory c)) = log_view c" "log_view (snd (step_llm c)) = log_view c"
  "log_view (snd (step_conversation c)) = log_view c" "log_view (snd (step_memory fmtv c)) = log_view c"
  "log_view (snd (step_mode c)) = log_view c" "log_view (snd (step_exec_mode c)) = log_view c"
  "log_view (snd (step_depth c)) = log_view c" "log_view (snd (step_retrievers c)) = log_view c"
  "log_view (snd (step_timeout c)) = log_view c" "log_view (snd (step_approval_timeout c)) = log_view c"
  "log_view (snd (step_iterations c)) = log_view c" "log_view (snd (step_budget c)) = log_view c"
  "log_view (snd (step_named c)) = log_view c" "log_view (snd (step_error_control c)) = log_view c"
  subgoal by (simp add: step_name_def log_view_def Let_def split: option.split sum.split)
  subgoal by (simp add: step_hooks_def log_view_def Let_def split: option.split sum.split)
  subgoal by (simp add: step_factory_def log_view_def Let_def split: option.split sum.split)
  subgoal by (simp add: step_llm_def log_view_def Let_def split: option.split sum.split)
  subgoal by (simp add: step_conversation_def log_view_def Let_def split: option.split sum.split)
  subgoal by (simp add: step_memory_def log_view_def Let_def split: option.split sum.split)
  subgoal by (simp add: step_mode_def log_view_def Let_def split: option.split sum.split)
  subgoal by (simp add: step_exec_mode_def log_view_def Let_def split: option.split sum.split)
  subgoal by (simp add: step_depth_def log_view_def Let_def split: option.split sum.split)
  subgoal by (simp add: step_retrievers_def log_view_def Let_def split: option.split sum.split)
  subgoal by (simp add: step_timeout_def log_view_def Let_def split: option.split sum.split)
  subgoal by (simp add: step_approval_timeout_def log_view_def Let_def split: option.split sum.split)
  subgoal by (simp add: step_iterations_def log_view_def Let_def split: option.split sum.split)
  subgoal by (simp add: step_budget_def log_view_def Let_def split: option.split sum.split)
  subgoal by (simp add: step_named_def log_view_def Let_def split: option.split sum.split)
  subgoal by (simp add: step_error_control_def log_view_def Let_def split: option.split sum.split)
  done

lemma registries_log_view:
  assumes "buildRegistries sdk dial fresh h (c, st) = (None, c', st')"
  shows "log_view c' = log_view c"
proof -
  obtain c1 c2 c3 st3 where 1: "buildToolRegistry c = (None, c1)" and 2: "buildMCPRegistry sdk c1 = (None, c2)"
    and 3: "buildA2ARegistry dial fresh (c2, st) = (None, c3, st3)"
    and 4: "buildSubAgentRegistry h c3 = (None, c')"
    using assms by (auto simp: buildRegistries_def split: prod.splits option.splits)
  from 1 have "log_view c1 = log_view c"
    by (auto simp: buildToolRegistry_def log_view_def split: prod.splits option.splits)
  moreover from 2 have "log_view c2 = log_view c1"
    by (auto simp: buildMCPRegistry_def log_view_def split: prod.splits option.splits)
  moreover from 3 have "log_view c3 = log_view c2"
    by (auto simp: buildA2ARegistry_def Let_def log_view_def split: prod.splits option.splits)
  moreover from 4 have "log_view c' = log_view c3"
    by (auto simp: buildSubAgentRegistry_def log_view_def split: prod.splits option.splits)
  ultimately show ?thesis by simp
qed

lemma prepare_log_view:
  assumes "run_steps (prepare_steps fmtv) c = (None, c')"
  shows "log_view c' = log_view (snd (step_defaults (snd (step_name c))))"
proof -
  obtain c1 c2 c3 c4 c5 c6 c7 c8 c9 where s: "step_name c = (None, c1)" "step_defaults c1 = (None, c2)"
      "step_hooks c2 = (None, c3)" "step_factory c3 = (None, c4)" "step_llm c4 = (None, c5)"
      "step_conversation c5 = (None, c6)" "step_memory fmtv c6 = (None, c7)" "step_mode c7 = (None, c8)"
      "step_exec_mode c8 = (None, c9)" "step_depth c9 = (None, c')"
    using assms unfolding prepare_steps_def by (simp only: run_steps_Cons run_steps_Nil) blast
  note q = quiet_steps(2) [of c2] quiet_steps(3) [of c3] quiet_steps(4) [of c4] quiet_steps(5) [of c5]
    quiet_steps(6) [of fmtv c6] quiet_steps(7) [of c7] quiet_steps(8) [of c8] quiet_steps(9) [of c9]
  from q have "log_view c' = log_view c2" by (simp add: s)
  then show ?thesis by (simp add: s(1,2))
qed

text \<open>The logger of the SDK, from the caller's logger and the log client.\<close>

definition sdk_logger_for :: "sdk_logger option \<Rightarrow> string \<Rightarrow> obs_client option \<Rightarrow> sdk_logger" where
  "sdk_logger_for own level logs = (case own of Some l \<Rightarrow> l
     | None \<Rightarrow> (case logs_provider logs of None \<Rightarrow> DefaultLogger level | Some p \<Rightarrow> OtelLogger level p))"

definition wired :: "sdk_logger option \<Rightarrow> obs_client option \<Rightarrow> 'w agent_config \<Rightarrow> bool" where
  "wired own injected c \<longleftrightarrow> (case own of
      Some l \<Rightarrow> gc_logger c = Some l \<and> gc_logs c = injected
    | None \<Rightarrow> gc_logger c = Some (DefaultLogger (gc_logLevel c)) \<or>
        (\<exists>p. gc_logger c = Some (OtelLogger (gc_logLevel c) p) \<and> gc_logs c = Some (OtelLogs p)))"

lemma wired_view: "log_view c' = log_view c \<Longrightarrow> wired own injected c' = wired own injected c"
  by (simp add: wired_def log_view_def split: option.split)

lemma observability_log_view:
  assumes "step_observability otlp (own \<noteq> None) c = (None, c')" "wired own injected c"
  shows "wired own injected c'"
proof (cases "gc_observabilityConfig c")
  case None
  with assms show ?thesis by (simp add: step_observability_def)
next
  case (Some obs)
  let ?o = "observabilityOptions c"
  obtain c1 c2 where s: "step_logs otlp (own \<noteq> None) obs ?o c = (None, c1)"
      "step_tracer otlp obs ?o c1 = (None, c2)" "step_metrics otlp obs ?o c2 = (None, c')"
    using assms(1) unfolding step_observability_def Some option.case Let_def run_steps_Cons run_steps_Nil
    by blast
  have "wired own injected c1"
    using s(1) assms(2)
    by (auto simp: step_logs_def wired_def wire_logger_def split: if_splits sum.splits option.splits
        dest!: NewLogs_otel)
  moreover have "log_view c2 = log_view c1" "log_view c' = log_view c2"
    using s(2,3) by (auto simp: step_tracer_def step_metrics_def log_view_def split: if_splits sum.splits)
  ultimately show ?thesis using wired_view by metis
qed

lemma logger_step_final:
  assumes "step_logger (own \<noteq> None) c = (None, c')" "wired own injected c"
  shows "gc_logger c' = Some (sdk_logger_for own (gc_logLevel c') (gc_logs c'))"
    and "own \<noteq> None \<Longrightarrow> gc_logs c' = injected"
  using assms
  by (auto simp: step_logger_def wired_def wire_logger_def sdk_logger_for_def Let_def
      split: option.splits sdk_logger.splits if_splits)

lemma limits_wired:
  assumes "run_steps (limit_steps otlp (own \<noteq> None)) c = (None, c')" "wired own injected c"
  shows "gc_logger c' = Some (sdk_logger_for own (gc_logLevel c') (gc_logs c'))"
    and "own \<noteq> None \<Longrightarrow> gc_logs c' = Some (case injected of None \<Rightarrow> NoopClient | Some l \<Rightarrow> l)"
proof -
  obtain c1 c2 c3 c4 c5 c6 c7 c8 where s: "step_timeout c = (None, c1)" "step_approval_timeout c1 = (None, c2)"
      "step_iterations c2 = (None, c3)" "step_budget c3 = (None, c4)" "step_named c4 = (None, c5)"
      "step_error_control c5 = (None, c6)" "step_observability otlp (own \<noteq> None) c6 = (None, c7)"
      "step_logger (own \<noteq> None) c7 = (None, c8)" "step_noop c8 = (None, c')"
    using assms(1) unfolding limit_steps_def by (simp only: run_steps_Cons run_steps_Nil) blast
  have "log_view c6 = log_view c"
    using quiet_steps(11) [of c] quiet_steps(12) [of c1] quiet_steps(13) [of c2] quiet_steps(14) [of c3]
      quiet_steps(15) [of c4] quiet_steps(16) [of c5] by (simp add: s)
  with assms(2) have "wired own injected c6" using wired_view by metis
  from observability_log_view [OF s(7) this] have 7: "wired own injected c7" .
  note f = logger_step_final [OF s(8) 7]
  show "gc_logger c' = Some (sdk_logger_for own (gc_logLevel c') (gc_logs c'))"
    using f(1) s(9) by (auto simp: step_noop_def sdk_logger_for_def split: option.splits)
  show "own \<noteq> None \<Longrightarrow> gc_logs c' = Some (case injected of None \<Rightarrow> NoopClient | Some l \<Rightarrow> l)"
    using f(2) s(9) by (auto simp: step_noop_def split: option.splits)
qed

text \<open>The logger of an agent: a logger that the caller gives is never replaced, and then a log
  client that the caller gives stays too, even if the observability configuration enables log export.
  Without one, the SDK's logger writes to the provider of the log client that the agent shuts down,
  and is the plain default logger exactly when that client has no provider.\<close>

theorem logger_follows_logs:
  assumes "run_state (buildAgentConfig bd h opts store) w = ((None, c, st), w')"
    and "c0 = fold (\<lambda>opt c. opt c) opts (new_config (bd_uuid bd))"
  shows "gc_logger c = Some (sdk_logger_for (gc_logger c0) (gc_logLevel c) (gc_logs c)) \<and>
    (gc_logger c0 \<noteq> None \<longrightarrow> gc_logs c = Some (case gc_logs c0 of None \<Rightarrow> NoopClient | Some l \<Rightarrow> l))"
proof -
  obtain c1 c2 c3 st2 where 1: "run_steps (prepare_steps (bd_fmtv bd)) c0 = (None, c1)"
    and 2: "buildRegistries (bd_mcp bd) (bd_dial bd) (bd_fresh bd) h (c1, store) = (None, c2, st2)"
    and 3: "step_retrievers c2 = (None, c3)"
    and 4: "run_steps (limit_steps (bd_otlp bd) (gc_logger c0 \<noteq> None)) c3 = (None, c)"
    using assms by (auto simp: buildAgentConfig_def Let_def split: prod.splits option.splits sum.splits)
  have "log_view c3 = log_view (snd (step_defaults (snd (step_name c0))))"
    using prepare_log_view [OF 1] registries_log_view [OF 2] quiet_steps(10) [of c2] 3 by simp
  moreover have "wired (gc_logger c0) (gc_logs c0) (snd (step_defaults (snd (step_name c0))))"
    by (auto simp: step_defaults_def step_name_def wired_def Let_def split: option.split)
  ultimately have "wired (gc_logger c0) (gc_logs c0) c3" using wired_view by metis
  from limits_wired [OF 4 this] show ?thesis by simp
qed

theorem logger_follows_logs_witness:
  "gc_logger (fst (snd (fst (run_state (buildAgentConfig sample_build sample_agents sample_options
     (\<lambda>_. [])) 0)))) \<noteq> None"
proof -
  obtain e c st w' where r: "run_state (buildAgentConfig sample_build sample_agents sample_options
      (\<lambda>_. [])) 0 = ((e, c, st), w')"
    by (metis prod.exhaust)
  with sample_built have "run_state (buildAgentConfig sample_build sample_agents sample_options
      (\<lambda>_. [])) 0 = ((None, c, st), w')" by simp
  from logger_follows_logs [OF this refl] r show ?thesis by simp
qed

section \<open>The agent's runtime\<close>

definition ResponseFormatText :: string where "ResponseFormatText = ''text''"

definition responseFormatForLLM :: "'w agent_config \<Rightarrow> response_format" where
  "responseFormatForLLM c = (case gc_responseFormat c of Some rf \<Rightarrow> rf
     | None \<Rightarrow> \<lparr>rf_Type = ResponseFormatText, rf_Name = '''', rf_Schema = ANil\<rparr>)"

record agent_spec =
  as_Name :: string
  as_Description :: string
  as_SystemPrompt :: string
  as_ResponseFormat :: response_format

definition runtimeAgentSpec :: "'w agent_config \<Rightarrow> agent_spec" where
  "runtimeAgentSpec c = \<lparr>as_Name = gc_Name c, as_Description = gc_Description c,
     as_SystemPrompt = gc_SystemPrompt c, as_ResponseFormat = responseFormatForLLM c\<rparr>"

definition runtimeAgentMemory :: "'w agent_config \<Rightarrow> 'w memory_config option" where
  "runtimeAgentMemory c = map_option memory_WithDefaults (gc_memoryConfig c)"

record 'w agent_session =
  se_Conversation :: "'w conversation option"
  se_ConversationSize :: int
  se_SaveOnIteration :: bool

definition runtimeAgentSession :: "'w agent_config \<Rightarrow> 'w agent_session" where
  "runtimeAgentSession c = (case gc_conversationConfig c of
      None \<Rightarrow> \<lparr>se_Conversation = None, se_ConversationSize = 0, se_SaveOnIteration = False\<rparr>
    | Some v \<Rightarrow> \<lparr>se_Conversation = vc_Conversation v, se_ConversationSize = vc_Size v,
        se_SaveOnIteration = vc_SaveOnIteration v\<rparr>)"

text \<open>A clone of a value is the value.\<close>

definition cloneNamedLLMClients ::
    "(string \<times> 'w llm_client option) list \<Rightarrow> string \<rightharpoonup> 'w llm_client option" where
  "cloneNamedLLMClients named = map_of named"

definition llmSamplingRuntimeView :: "llm_sampling option \<Rightarrow> llm_sampling option" where
  "llmSamplingRuntimeView s = (case s of None \<Rightarrow> None
     | Some p \<Rightarrow> Some \<lparr>sm_Temperature = sm_Temperature p, sm_MaxTokens = sm_MaxTokens p,
         sm_TopP = sm_TopP p, sm_TopK = sm_TopK p, sm_Reasoning = sm_Reasoning p\<rparr>)"

definition runtimeHookGroups :: "'w agent_config \<Rightarrow> 'w hook_group list" where
  "runtimeHookGroups c = (if gc_hooks c = [] then [] else gc_hooks c)"

text \<open>The specification and the configuration of the runtime in one record, with the model client that
  \<open>buildAgentConfig\<close> required.\<close>

definition runtimeAgentConfig :: "'w agent_config \<Rightarrow> 'w llm_client \<Rightarrow> 'w runtime" where
  "runtimeAgentConfig c client =
    (let spec = runtimeAgentSpec c; session = runtimeAgentSession c
     in \<lparr>rt_Name = as_Name spec, rt_SystemPrompt = as_SystemPrompt spec,
       rt_ResponseFormat = Some (as_ResponseFormat spec), rt_Client = client,
       rt_Sampling = llmSamplingRuntimeView (gc_llmSampling c),
       rt_ToolApprovalPolicy = map_option policy_RequiresApproval (gc_toolApprovalPolicy c),
       rt_Retrievers = present (gc_retrievers c), rt_RetrieverMode = gc_retrieverMode c,
       rt_Conversation = se_Conversation session, rt_ConversationSize = se_ConversationSize session,
       rt_SaveOnIteration = se_SaveOnIteration session, rt_Memory = runtimeAgentMemory c,
       rt_MaxIterations = gc_maxIterations c, rt_Timeout = gc_timeout c,
       rt_ApprovalTimeout = gc_approvalTimeout c, rt_Budget = gc_budgetConfig c,
       rt_ExecutionConfigs = gc_executionConfigs c, rt_Hooks = runtimeHookGroups c,
       rt_NamedLLMClients = cloneNamedLLMClients (gc_namedLLMClients c),
       rt_ErrorControl = gc_errorControl c, rt_ToolExecutionMode = gc_agentToolExecutionMode c,
       rt_hasBus = True\<rparr>)"

definition requiresApproval :: "'w agent_config \<Rightarrow> 'w tool \<Rightarrow> bool" where
  "requiresApproval c tool = (case gc_toolApprovalPolicy c of
      None \<Rightarrow> (case tl_ApprovalRequired tool of None \<Rightarrow> False | Some b \<Rightarrow> b)
    | Some policy \<Rightarrow> policy_RequiresApproval policy tool)"

definition hasApprovalTools :: "'w agent_config \<Rightarrow> 'w tool list \<Rightarrow> bool" where
  "hasApprovalTools c tools \<longleftrightarrow> list_ex (requiresApproval c) tools"

definition applySamplingToRequest :: "'w agent_config \<Rightarrow> llm_request \<Rightarrow> llm_request" where
  "applySamplingToRequest c req = (case gc_llmSampling c of None \<Rightarrow> req
     | Some s \<Rightarrow>
        let r1 = (case sm_Temperature s of None \<Rightarrow> req | Some t \<Rightarrow> req\<lparr>rq_Temperature := Some t\<rparr>);
            r2 = (if sm_MaxTokens s > 0 then r1\<lparr>rq_MaxTokens := sm_MaxTokens s\<rparr> else r1);
            r3 = (case sm_TopP s of None \<Rightarrow> r2 | Some p \<Rightarrow> r2\<lparr>rq_TopP := Some p\<rparr>);
            r4 = (case sm_TopK s of None \<Rightarrow> r3 | Some k \<Rightarrow> r3\<lparr>rq_TopK := Some k\<rparr>)
        in (case sm_Reasoning s of None \<Rightarrow> r4 | Some r \<Rightarrow> r4\<lparr>rq_Reasoning := Some r\<rparr>))"

section \<open>Workers\<close>

text \<open>The checks of \<open>NewAgentWorker\<close> before it asks the factory for a runtime.\<close>

definition worker_config :: "go_error option \<times> 'w agent_config \<Rightarrow> go_error + 'w agent_config" where
  "worker_config r = (case r of (Some err, c) \<Rightarrow> Inl err
    | (None, c) \<Rightarrow>
        if \<not> hasTemporalRuntime c then
          Inl (ErrNew ''AgentWorker requires a Temporal backend: use WithTemporalConfig, WithTemporalClient, or pkg/agent/runtime/temporal'')
        else if gc_disableFingerprintCheck c then
          Inl (ErrNew ''WithDisableFingerprintCheck is not allowed on AgentWorker (remote worker process)'')
        else Inr (c\<lparr>gc_remoteWorker := True\<rparr>))"

section \<open>The agent and its runtime agree\<close>

lemma runtime_requires_approval:
  "RequiresApproval (runtimeAgentConfig c client) tool = requiresApproval c tool"
  by (auto simp: RequiresApproval_def runtimeAgentConfig_def requiresApproval_def Let_def split: option.split)

lemma sampling_view [simp]: "llmSamplingRuntimeView s = s"
  by (auto simp: llmSamplingRuntimeView_def split: option.split)

lemma runtime_sampling:
  "applySamplingToRequest c req = ApplyLLMSampling (rt_Sampling (runtimeAgentConfig c client)) req"
proof (cases "gc_llmSampling c")
  case None
  then show ?thesis by (simp add: applySamplingToRequest_def ApplyLLMSampling_def runtimeAgentConfig_def Let_def)
next
  case (Some s)
  have "rt_Sampling (runtimeAgentConfig c client) = Some s"
    using Some by (simp add: runtimeAgentConfig_def Let_def)
  then show ?thesis
    using Some unfolding applySamplingToRequest_def ApplyLLMSampling_def Let_def
    by (cases "sm_Temperature s"; cases "sm_TopP s"; cases "sm_TopK s"; cases "sm_Reasoning s") simp_all
qed

end
