(* ===== verification/Trace.thy ===== *)
theory Trace
  imports Effects
begin

text \<open>
  Reasoning about what a computation publishes and counts. The triple \<open>traced g ch m Q\<close> says that
  \<open>m\<close> appends events to the channel \<open>ch\<close>, those of them that the filter \<open>g\<close> lets through, and
  increments counters, and that \<open>Q\<close> relates its result to both lists. The rules are syntax
  directed. The locale \<open>event_sink\<close> is the interface of the emit functions that the runtime passes
  around; the protocol that consumers of a stream expect is the automaton \<open>proto_step\<close>.
\<close>

section \<open>Traces\<close>

type_synonym counter_log = "(string \<times> string list) list"

definition traced :: "(agent_event \<Rightarrow> bool) \<Rightarrow> string \<Rightarrow> ('w, 'a) io \<Rightarrow>
    ('a \<Rightarrow> agent_event list \<Rightarrow> counter_log \<Rightarrow> bool) \<Rightarrow> bool" where
  "traced g ch m Q \<longleftrightarrow> (\<forall>s a s'. run_state m s = (a, s') \<longrightarrow>
     (\<exists>evs cs. w_events s' = w_events s @ map (Pair ch) (filter g evs) \<and>
        w_counters s' = w_counters s @ cs \<and> Q a evs cs))"

lemma tracedI: "(\<And>s a s'. run_state m s = (a, s') \<Longrightarrow>
     \<exists>evs cs. w_events s' = w_events s @ map (Pair ch) (filter g evs) \<and>
        w_counters s' = w_counters s @ cs \<and> Q a evs cs) \<Longrightarrow> traced g ch m Q"
  by (simp add: traced_def)

lemma tracedD: "traced g ch m Q \<Longrightarrow> run_state m s = (a, s') \<Longrightarrow>
     \<exists>evs cs. w_events s' = w_events s @ map (Pair ch) (filter g evs) \<and>
        w_counters s' = w_counters s @ cs \<and> Q a evs cs"
  by (simp add: traced_def)

lemma traced_exact: "(\<And>s a s'. run_state m s = (a, s') \<Longrightarrow> Q a evs cs \<and>
     w_events s' = w_events s @ map (Pair ch) (filter g evs) \<and> w_counters s' = w_counters s @ cs) \<Longrightarrow>
   traced g ch m Q"
  by (rule tracedI) blast

lemma traced_weaken: "traced g ch m P \<Longrightarrow> (\<And>a evs cs. P a evs cs \<Longrightarrow> Q a evs cs) \<Longrightarrow> traced g ch m Q"
  unfolding traced_def by blast

lemma traced_bind:
  assumes "traced g ch m P"
    and "\<And>a evs cs. P a evs cs \<Longrightarrow> traced g ch (f a) (\<lambda>b evs' cs'. Q b (evs @ evs') (cs @ cs'))"
  shows "traced g ch (State_Monad.bind m f) Q"
proof (rule tracedI)
  fix s b s' assume "run_state (State_Monad.bind m f) s = (b, s')"
  then obtain a s1 where 1: "run_state m s = (a, s1)" and 2: "run_state (f a) s1 = (b, s')"
    by (auto split: prod.splits)
  from tracedD [OF assms(1) 1] obtain evs cs where
    e: "w_events s1 = w_events s @ map (Pair ch) (filter g evs)"
       "w_counters s1 = w_counters s @ cs" "P a evs cs" by blast
  from tracedD [OF assms(2) [OF e(3)] 2] e(1,2)
  show "\<exists>evs cs. w_events s' = w_events s @ map (Pair ch) (filter g evs) \<and>
      w_counters s' = w_counters s @ cs \<and> Q b evs cs"
    by (metis append.assoc filter_append map_append)
qed

named_theorems traced_rules \<open>syntax-directed rules of the trace triples\<close>

lemma traced_return [traced_rules]: "Q a [] [] \<Longrightarrow> traced g ch (State_Monad.return a) Q"
  by (rule traced_exact [where evs = "[]" and cs = "[]"]) simp

lemma traced_quiet: "keeps ext_only m \<Longrightarrow> (\<And>a. Q a [] []) \<Longrightarrow> traced g ch m Q"
  by (rule traced_exact [where evs = "[]" and cs = "[]"]) (auto dest!: keepsD simp: ext_only_def)

lemma traced_ext [traced_rules]: "(\<And>a. Q a [] []) \<Longrightarrow> traced g ch (ext m) Q"
  by (rule traced_quiet) (simp_all add: keeps_ext)

lemma traced_counter [traced_rules]: "Q () [] [(n, as)] \<Longrightarrow> traced g ch (IncrementCounter n as) Q"
  by (rule traced_exact [where evs = "[]" and cs = "[(n, as)]"]) auto

lemma traced_bind_quiet: "keeps ext_only m \<Longrightarrow> (\<And>a. traced g ch (f a) Q) \<Longrightarrow>
    traced g ch (State_Monad.bind m f) Q"
  by (rule traced_bind [where P = "\<lambda>_ evs cs. evs = [] \<and> cs = []"]) (auto intro: traced_quiet)

lemma traced_bind_ext [traced_rules]: "(\<And>a. traced g ch (f a) Q) \<Longrightarrow>
    traced g ch (State_Monad.bind (ext m) f) Q"
  by (rule traced_bind_quiet) (simp_all add: keeps_ext)

lemma traced_bind_counter [traced_rules]: "traced g ch (f ()) (\<lambda>b evs cs. Q b evs ((n, as) # cs)) \<Longrightarrow>
    traced g ch (State_Monad.bind (IncrementCounter n as) f) Q"
  by (rule traced_bind [where P = "\<lambda>_ evs cs. evs = [] \<and> cs = [(n, as)]"]) (auto intro: traced_counter)

lemma traced_if [traced_rules]: "(c \<Longrightarrow> traced g ch m Q) \<Longrightarrow> (\<not> c \<Longrightarrow> traced g ch n Q) \<Longrightarrow>
    traced g ch (if c then m else n) Q"
  by simp

lemma traced_case_sum [traced_rules]: "(\<And>e. x = Inl e \<Longrightarrow> traced g ch (f e) Q) \<Longrightarrow>
    (\<And>a. x = Inr a \<Longrightarrow> traced g ch (h a) Q) \<Longrightarrow> traced g ch (case x of Inl e \<Rightarrow> f e | Inr a \<Rightarrow> h a) Q"
  by (cases x) simp_all

lemma traced_case_option [traced_rules]: "(x = None \<Longrightarrow> traced g ch m Q) \<Longrightarrow>
    (\<And>a. x = Some a \<Longrightarrow> traced g ch (f a) Q) \<Longrightarrow> traced g ch (case x of None \<Rightarrow> m | Some a \<Rightarrow> f a) Q"
  by (cases x) simp_all

lemma traced_case_prod [traced_rules]: "(\<And>a b. x = (a, b) \<Longrightarrow> traced g ch (f a b) Q) \<Longrightarrow>
    traced g ch (case x of (a, b) \<Rightarrow> f a b) Q"
  by (cases x) simp

lemma traced_Let [traced_rules]: "traced g ch (f x) Q \<Longrightarrow> traced g ch (let y = x in f y) Q"
  by simp

text \<open>Loops.\<close>

lemma traced_foldM:
  assumes "\<And>ys x b evs cs. x \<in> set xs \<Longrightarrow> I ys b evs cs \<Longrightarrow>
      traced g ch (f b x) (\<lambda>b' evs' cs'. I (ys @ [x]) b' (evs @ evs') (cs @ cs'))"
    and "I [] b [] []"
  shows "traced g ch (foldM f b xs) (I xs)"
  using assms(1)
proof (induction xs rule: rev_induct)
  case (snoc x xs)
  have "traced g ch (foldM f b xs) (I xs)" using snoc by simp
  moreover have "traced g ch (foldM f b' [x]) (\<lambda>b'' evs' cs'. I (xs @ [x]) b'' (evs @ evs') (cs @ cs'))"
    if "I xs b' evs cs" for b' evs cs
    using snoc.prems that by (simp only: foldM.simps bind_right_identity) simp
  ultimately show ?case unfolding foldM_append by (rule traced_bind)
qed (auto intro: traced_return assms(2))

lemma traced_mapM:
  assumes "\<And>x. x \<in> set xs \<Longrightarrow> traced g ch (f x) (\<lambda>y evs cs. R y evs cs)"
    and "Q [] [] []"
    and "\<And>y ys evs cs evs' cs'. R y evs cs \<Longrightarrow> Q ys evs' cs' \<Longrightarrow> Q (y # ys) (evs @ evs') (cs @ cs')"
  shows "traced g ch (mapM f xs) Q"
  using assms(1)
proof (induction xs)
  case (Cons x xs)
  have "traced g ch (mapM f xs) Q" using Cons by simp
  with Cons.prems show ?case unfolding mapM.simps
    by (intro traced_bind [of g ch "f x" R] traced_bind [of g ch "mapM f xs" Q] traced_return)
      (auto intro: assms(3))
qed (auto intro: traced_return assms(2))

section \<open>Counters\<close>

definition hits :: "string \<Rightarrow> counter_log \<Rightarrow> nat" where
  "hits name cs = length (filter (\<lambda>c. fst c = name) cs)"

lemma hits_simps [simp]:
  "hits name [] = 0"
  "hits name ((n, as) # cs) = (if n = name then Suc (hits name cs) else hits name cs)"
  "hits name (cs @ ds) = hits name cs + hits name ds"
  by (simp_all add: hits_def)

lemma counter_hits: "w_counters s' = w_counters s @ cs \<Longrightarrow> counter name s' = counter name s + hits name cs"
  by (simp add: counter_def hits_def)

section \<open>Emitting events\<close>

locale event_sink =
  fixes emit :: "agent_event \<Rightarrow> ('w, unit) io"
    and allowed :: "agent_event \<Rightarrow> bool"
    and ch :: string
  assumes run_emit: "run_state (emit ev) s =
    ((), s\<lparr>w_events := w_events s @ map (Pair ch) (filter allowed [ev])\<rparr>)"
begin

lemma traced_emit: "Q () [ev] [] \<Longrightarrow> traced allowed ch (emit ev) Q"
  by (rule traced_exact [where evs = "[ev]" and cs = "[]"]) (auto simp: run_emit)

lemma traced_bind_emit: "traced allowed ch (f ()) (\<lambda>b evs cs. Q b (ev # evs) cs) \<Longrightarrow>
    traced allowed ch (State_Monad.bind (emit ev) f) Q"
  by (rule traced_bind [where P = "\<lambda>_ evs cs. evs = [ev] \<and> cs = []"]) (auto intro: traced_emit)

end

interpretation direct: event_sink "emit_to ch" "\<lambda>_. True" ch for ch
  by unfold_locales simp

section \<open>The message protocol\<close>

text \<open>
  What a consumer keeps track of: the open assistant message, and the open reasoning block with
  whether its message is open. Reasoning may open while the assistant message is open, but text
  is only sent while no reasoning is open.
\<close>

record proto =
  pr_text :: "string option"
  pr_reasoning :: "(string \<times> bool) option"

definition proto_idle :: proto where "proto_idle = \<lparr>pr_text = None, pr_reasoning = None\<rparr>"

fun proto_step :: "proto \<Rightarrow> agent_event \<Rightarrow> proto option" where
  "proto_step p (TextMessageStart m r) =
     (if p = proto_idle then Some (p\<lparr>pr_text := Some m\<rparr>) else None)"
| "proto_step p (TextMessageContent m d) =
     (if pr_text p = Some m \<and> pr_reasoning p = None then Some p else None)"
| "proto_step p (TextMessageEnd m) =
     (if pr_text p = Some m \<and> pr_reasoning p = None then Some (p\<lparr>pr_text := None\<rparr>) else None)"
| "proto_step p (ReasoningStart m) =
     (if pr_reasoning p = None then Some (p\<lparr>pr_reasoning := Some (m, False)\<rparr>) else None)"
| "proto_step p (ReasoningMessageStart m r) =
     (if pr_reasoning p = Some (m, False) then Some (p\<lparr>pr_reasoning := Some (m, True)\<rparr>) else None)"
| "proto_step p (ReasoningMessageContent m d) =
     (if pr_reasoning p = Some (m, True) then Some p else None)"
| "proto_step p (ReasoningMessageEnd m) =
     (if pr_reasoning p = Some (m, True) then Some (p\<lparr>pr_reasoning := Some (m, False)\<rparr>) else None)"
| "proto_step p (ReasoningEnd m) =
     (if pr_reasoning p = Some (m, False) then Some (p\<lparr>pr_reasoning := None\<rparr>) else None)"
| "proto_step p e = None"

fun proto_run :: "proto \<Rightarrow> agent_event list \<Rightarrow> proto option" where
  "proto_run p [] = Some p"
| "proto_run p (e # es) = (case proto_step p e of None \<Rightarrow> None | Some q \<Rightarrow> proto_run q es)"

lemma proto_run_append: "proto_run p (es @ fs) =
    (case proto_run p es of None \<Rightarrow> None | Some q \<Rightarrow> proto_run q fs)"
  by (induction es arbitrary: p) (auto split: option.splits)

text \<open>The text that the consumer assembles.\<close>

fun text_of :: "agent_event list \<Rightarrow> string" where
  "text_of [] = []"
| "text_of (TextMessageContent m d # es) = d @ text_of es"
| "text_of (e # es) = text_of es"

lemma text_of_append [simp]: "text_of (es @ fs) = text_of es @ text_of fs"
  by (induction es rule: text_of.induct) simp_all

end
