(* ===== verification/Run_Events.thy ===== *)
theory Run_Events
  imports Trace Base_Runtime "HOL-Library.Multiset"
begin

text \<open>
  What LLM and tool calls of the runtime core publish and count: the protocol of a streamed
  message, the text a consumer sees, and the metrics of calls.
\<close>

section \<open>Frames of the hooks\<close>

lemma hook_frames [simp]:
  "keeps ext_only (runBeforeLLMRequest rt runID iter req)"
  "keeps ext_only (runAfterLLMResponse rt runID iter resp)"
  "keeps ext_only (runBeforeToolHooks rt xt tool)"
  "keeps ext_only (runAfterToolHooks rt xt call content execErr)"
  "keeps ext_only (runBeforeRetrieveHooks rt runID iter q mode name)"
  "keeps ext_only (runAfterRetrieveHooks rt runID iter rc docs)"
  by (simp_all add: runBeforeLLMRequest_def runAfterLLMResponse_def runBeforeToolHooks_def
      runAfterToolHooks_def runBeforeRetrieveHooks_def runAfterRetrieveHooks_def Let_def keeps_return
      before_llm.run_frame after_llm.run_frame before_retrieve.run_frame after_retrieve.run_frame
      RunBeforeTool_def RunAfterTool_def before_tool.run_frame after_tool.run_frame keeps_bind)

lemmas hook_binds = hook_frames [THEN traced_bind_quiet]

section \<open>The streamed message\<close>

definition stream_ok :: "stream_state \<Rightarrow> bool" where
  "stream_ok st \<longleftrightarrow> ss_reasoningMsgOpen st = ss_reasoningPhaseOpen st"

definition stream_proto :: "string \<Rightarrow> stream_state \<Rightarrow> proto" where
  "stream_proto messageID st =
    \<lparr>pr_text = (if ss_textMsgOpen st then Some messageID else None),
     pr_reasoning = (if ss_reasoningPhaseOpen st then Some (ss_reasoningMID st, True) else None)\<rparr>"

definition content_delta :: "stream_chunk option \<Rightarrow> string" where
  "content_delta chunk = (case chunk of None \<Rightarrow> '''' | Some c \<Rightarrow> ck_ContentDelta c)"

lemma stream_start_simps [simp]: "stream_ok stream_start" "stream_proto m stream_start = proto_idle"
  "\<not> ss_textMsgOpen stream_start"
  by (simp_all add: stream_ok_def stream_start_def stream_proto_def proto_idle_def)

lemmas stream_defs = stream_turn_def stream_text_def stream_thinking_def flushReasoning_def
  openTextMsg_def closeTextMsg_def openReasoning_def emitEvent_def

context event_sink begin

lemmas emit_rules = traced_rules traced_emit traced_bind_emit

lemma stream_turn_traced:
  assumes "stream_ok st"
  shows "traced allowed ch (stream_turn env (Some emit) mid st chunk) (\<lambda>st' evs cs.
     cs = [] \<and> stream_ok st' \<and> proto_run (stream_proto mid st) evs = Some (stream_proto mid st') \<and>
     text_of evs = content_delta chunk \<and>
     (ss_textMsgOpen st' \<longleftrightarrow> ss_textMsgOpen st \<or> content_delta chunk \<noteq> ''''))"
  using assms
  by (cases "ss_textMsgOpen st"; cases "ss_reasoningPhaseOpen st"; cases chunk)
    (auto simp: stream_defs stream_ok_def stream_proto_def content_delta_def proto_idle_def
      intro!: emit_rules)

lemma flushReasoning_traced:
  assumes "stream_ok st"
  shows "traced allowed ch (flushReasoning (Some emit) st) (\<lambda>st' evs cs.
     cs = [] \<and> \<not> ss_reasoningPhaseOpen st' \<and> ss_textMsgOpen st' = ss_textMsgOpen st \<and>
     proto_run (stream_proto mid st) evs = Some (stream_proto mid st') \<and> text_of evs = '''')"
  using assms
  by (cases "ss_reasoningPhaseOpen st")
    (auto simp: stream_defs stream_ok_def stream_proto_def intro!: emit_rules)

lemma finalizeAssistantText_traced:
  assumes "\<not> ss_reasoningPhaseOpen st"
  shows "traced allowed ch (finalizeAssistantText (Some emit) mid result st) (\<lambda>st' evs cs.
     cs = [] \<and> proto_run (stream_proto mid st) evs = Some proto_idle \<and>
     text_of evs = (if ss_textMsgOpen st then '''' else lr_Content result))"
  using assms
  by (cases "ss_textMsgOpen st")
    (auto simp: finalizeAssistantText_def stream_defs stream_proto_def proto_idle_def intro!: emit_rules)

lemma emit_message_traced:
  "traced allowed ch (emit_message (Some emit) mid content) (\<lambda>_ evs cs.
     cs = [] \<and> proto_run proto_idle evs = Some proto_idle \<and> text_of evs = content)"
  by (auto simp: emit_message_def emitEvent_def proto_idle_def intro!: emit_rules)

lemma stream_chunks_traced:
  "traced allowed ch (foldM (stream_turn env (Some emit) mid) stream_start chunks) (\<lambda>st evs cs.
     cs = [] \<and> stream_ok st \<and> proto_run proto_idle evs = Some (stream_proto mid st) \<and>
     text_of evs = concat (map content_delta chunks) \<and> (ss_textMsgOpen st \<longleftrightarrow> text_of evs \<noteq> ''''))"
  by (rule traced_foldM [where I = "\<lambda>chunks st evs cs. cs = [] \<and> stream_ok st \<and>
        proto_run proto_idle evs = Some (stream_proto mid st) \<and>
        text_of evs = concat (map content_delta chunks) \<and> (ss_textMsgOpen st \<longleftrightarrow> text_of evs \<noteq> '''')"])
    (auto intro!: traced_weaken [OF stream_turn_traced] simp: proto_run_append)

end

section \<open>Metrics of LLM calls\<close>

text \<open>The counters of a call whose result is \<open>r\<close>, after it was counted as started.\<close>

definition settled :: "('e + 'a) \<Rightarrow> counter_log \<Rightarrow> bool" where
  "settled r cs \<longleftrightarrow> hits MetricLLMCallStarted cs = 0 \<and>
     hits MetricLLMCallCompleted cs = (case r of Inl _ \<Rightarrow> 0 | Inr _ \<Rightarrow> 1) \<and>
     hits MetricLLMCallFailed cs = (case r of Inl _ \<Rightarrow> 1 | Inr _ \<Rightarrow> 0)"

definition only_unknown :: "counter_log \<Rightarrow> bool" where
  "only_unknown cs \<longleftrightarrow> (\<forall>c \<in> set cs. fst c = MetricToolCallUnknown)"

lemma only_unknown_simps [simp]: "only_unknown []" "only_unknown (cs @ ds) \<longleftrightarrow> only_unknown cs \<and> only_unknown ds"
  by (auto simp: only_unknown_def)

lemma only_unknown_hits: "only_unknown cs \<Longrightarrow> n \<noteq> MetricToolCallUnknown \<Longrightarrow> hits n cs = 0"
  by (auto simp: only_unknown_def hits_def filter_empty_conv)

lemma resolve_call_traced:
  "traced g ch (resolve_call rt tools tc) (\<lambda>r evs cs. evs = [] \<and> only_unknown cs)"
  by (auto simp: resolve_call_def NoteUnknownTool_def only_unknown_def intro!: traced_rules)

lemma llmResponseToResult_traced:
  "traced g ch (llmResponseToResult rt resp tools) (\<lambda>r evs cs.
     evs = [] \<and> only_unknown cs \<and> lr_Content r = rp_Content resp)"
  unfolding llmResponseToResult_def
  by (rule traced_bind [OF traced_mapM [where Q = "\<lambda>_ evs cs. evs = [] \<and> only_unknown cs"]])
    (auto intro!: resolve_call_traced traced_rules)

section \<open>A whole call\<close>

text \<open>
  What a consumer has seen of a call with message id \<open>mid\<close> when it is over: reasoning is closed;
  if the call succeeded, one message is complete and holds the text sent by the provider, or the
  content of the result if none was sent; if it failed, a message may be left open and holds what
  was sent.
\<close>

definition shown :: "string \<Rightarrow> string \<Rightarrow> 'e + llm_result \<Rightarrow> agent_event list \<Rightarrow> bool" where
  "shown mid sent r evs = (case r of
      Inl e \<Rightarrow> proto_run proto_idle evs \<in> {Some proto_idle, Some (proto_idle\<lparr>pr_text := Some mid\<rparr>)} \<and>
        text_of evs = sent
    | Inr res \<Rightarrow> proto_run proto_idle evs = Some proto_idle \<and>
        text_of evs = (if sent = '''' then lr_Content res else sent))"

lemma stream_proto_idle: "\<not> ss_reasoningPhaseOpen st \<Longrightarrow>
    stream_proto mid st = (if ss_textMsgOpen st then proto_idle\<lparr>pr_text := Some mid\<rparr> else proto_idle)"
  by (simp add: stream_proto_def proto_idle_def)

lemma settled_simps [simp]:
  "only_unknown cs \<Longrightarrow> settled r (cs @ ds) = settled r ds"
  "settled (Inl e) [(MetricLLMCallFailed, as)]"
  "settled (Inr a) [(MetricLLMCallCompleted, as)]"
  by (auto simp: settled_def llm_metric_defs only_unknown_hits MetricToolCallUnknown_def split: sum.splits)

context event_sink begin

lemma stream_complete_traced:
  assumes "xl_Emit input = Some emit" "\<not> ss_reasoningPhaseOpen st"
  shows "traced allowed ch (stream_complete rt input client st resp) (\<lambda>r evs cs. settled r cs \<and>
     (case r of Inl e \<Rightarrow> evs = []
      | Inr res \<Rightarrow> proto_run (stream_proto (xl_MessageID input) st) evs = Some proto_idle \<and>
          text_of evs = (if ss_textMsgOpen st then '''' else lr_Content res)))"
    unfolding stream_complete_def stream_failed_def
  by (auto simp: assms(1) intro!: emit_rules hook_binds traced_bind [OF llmResponseToResult_traced]
      traced_bind [OF finalizeAssistantText_traced [OF assms(2)]])

lemma stream_body_traced:
  "traced allowed ch (do {
       st \<leftarrow> foldM (stream_turn env (Some emit) mid) stream_start chunks;
       flushReasoning (Some emit) st }) (\<lambda>st evs cs.
     cs = [] \<and> \<not> ss_reasoningPhaseOpen st \<and> proto_run proto_idle evs = Some (stream_proto mid st) \<and>
     text_of evs = concat (map content_delta chunks) \<and> (ss_textMsgOpen st \<longleftrightarrow> text_of evs \<noteq> ''''))"
  by (rule traced_bind [OF stream_chunks_traced])
    (auto intro!: traced_weaken [OF flushReasoning_traced [where mid = mid]] simp: proto_run_append)

lemma stream_consume_traced:
  assumes emit: "xl_Emit input = Some emit"
  shows "traced allowed ch (stream_consume env rt input client stream) (\<lambda>r evs cs. settled r cs \<and>
     shown (xl_MessageID input) (concat (map content_delta (ls_Chunks stream))) r evs)"
proof -
  let ?sent = "concat (map content_delta (ls_Chunks stream))"
  let ?rest = "\<lambda>st. case ls_Err stream of Some err \<Rightarrow> stream_failed client err
      | None \<Rightarrow> (case ls_Result stream of
          None \<Rightarrow> stream_failed client (ErrNew ''stream completed without result'')
        | Some resp \<Rightarrow> stream_complete rt input client st resp)"
  have "traced allowed ch (?rest st) (\<lambda>r evs' cs'. settled r (cs @ cs') \<and>
      shown (xl_MessageID input) ?sent r (evs @ evs'))"
    if "cs = []" and p: "\<not> ss_reasoningPhaseOpen st"
      "proto_run proto_idle evs = Some (stream_proto (xl_MessageID input) st)"
      "text_of evs = ?sent" "ss_textMsgOpen st \<longleftrightarrow> text_of evs \<noteq> ''''" for st evs cs
    using that unfolding stream_failed_def
    by (auto intro!: emit_rules traced_weaken [OF stream_complete_traced [OF emit p(1)]]
        simp: shown_def proto_run_append stream_proto_idle split: sum.splits
        simp del: concat_eq_Nil_conv)
  then show ?thesis
    unfolding stream_consume_def emit bind_assoc [symmetric]
    by (intro traced_bind [OF stream_body_traced]) blast
qed

end

text \<open>A call that fails before the provider is asked leaves no trace.\<close>

definition llm_counts :: "('e + 'a) \<Rightarrow> counter_log \<Rightarrow> bool" where
  "llm_counts r cs \<longleftrightarrow> (cs = [] \<and> (\<exists>e. r = Inl e)) \<or>
     (\<exists>as cs'. cs = (MetricLLMCallStarted, as) # cs' \<and> settled r cs')"

context event_sink begin

lemma ExecuteLLMStream_traced:
  assumes emit: "xl_Emit input = Some emit"
  shows "traced allowed ch (ExecuteLLMStream env rt input) (\<lambda>r evs cs.
     llm_counts r cs \<and> (\<exists>sent. shown (xl_MessageID input) sent r evs))"
proof -
  have "traced allowed ch (stream_complete rt input client stream_start resp) (\<lambda>r evs cs.
      settled r cs \<and> (\<exists>sent. shown (xl_MessageID input) sent r evs))" for client resp
    by (rule traced_weaken [OF stream_complete_traced [OF emit]])
      (auto simp: shown_def stream_start_def stream_proto_idle split: sum.splits)
  moreover have "traced allowed ch (stream_consume env rt input client stream) (\<lambda>r evs cs.
      settled r cs \<and> (\<exists>sent. shown (xl_MessageID input) sent r evs))" for client stream
    by (rule traced_weaken [OF stream_consume_traced [OF emit]]) blast
  moreover have "traced allowed ch (stream_failed client err) (\<lambda>r evs cs.
      settled r cs \<and> (\<exists>sent. shown (xl_MessageID input) sent r evs))" for client err
    by (auto simp: stream_failed_def shown_def intro!: traced_rules)
  moreover have "\<exists>sent. shown (xl_MessageID input) sent (Inl err) []" for err :: go_error
    by (simp add: shown_def)
  ultimately show ?thesis
    unfolding ExecuteLLMStream_def
    by (auto intro!: hook_binds traced_rules simp: llm_counts_def)
qed

text \<open>
  Without streaming there is no counter for an \<open>AfterLLM\<close> hook that fails: the call stays
  counted as started only.
\<close>

lemma ExecuteLLM_traced:
  assumes emit: "xl_Emit input = Some emit"
  shows "traced allowed ch (ExecuteLLM rt input) (\<lambda>r evs cs.
     (llm_counts r cs \<or> (\<exists>e as. r = Inl e \<and> cs = [(MetricLLMCallStarted, as)])) \<and>
     shown (xl_MessageID input) '''' r evs)"
  unfolding ExecuteLLM_def emit
  by (auto intro!: hook_binds traced_rules traced_bind [OF llmResponseToResult_traced]
      traced_bind [OF emit_message_traced] simp: shown_def llm_counts_def settled_def
      llm_metric_defs MetricToolCallUnknown_def only_unknown_hits)

end

section \<open>Tool calls\<close>

text \<open>The counters of a tool call with result \<open>r\<close>: at most one execution, settled by its result.\<close>

definition tool_settled :: "(go_error + 'a) \<Rightarrow> counter_log \<Rightarrow> bool" where
  "tool_settled r cs \<longleftrightarrow>
     hits MetricToolCallCompleted cs + hits MetricToolCallFailed cs = hits MetricToolCallStarted cs \<and>
     hits MetricToolCallStarted cs \<le> 1 \<and> hits MetricToolCallCompleted cs \<le> (case r of Inl _ \<Rightarrow> 0 | Inr _ \<Rightarrow> 1) \<and>
     hits MetricToolCallFailed cs \<le> (case r of Inl _ \<Rightarrow> 1 | Inr _ \<Rightarrow> 0)"

lemma executeRetrieverTool_frame [simp]: "keeps ext_only (executeRetrieverTool rt input tool args)"
  unfolding executeRetrieverTool_def
  by (auto intro!: keeps_bind keeps_splits keeps_return keeps_ext hook_frames split: tool_value.splits)

lemmas tool_binds = hook_binds executeRetrieverTool_frame [THEN traced_bind_quiet]

lemma execute_and_hook_traced:
  "traced g ch (execute_and_hook env rt input tool hooked args) (\<lambda>r evs cs. evs = [] \<and>
     cs = [((case r of Inl _ \<Rightarrow> MetricToolCallFailed | Inr _ \<Rightarrow> MetricToolCallCompleted), [xt_ToolName input])])"
  unfolding execute_and_hook_def tool_failed_def tool_completed_def Let_def
  by (auto intro!: tool_binds traced_rules split: option.splits)

lemma executeTool_traced:
  "traced g ch (executeTool env rt input) (\<lambda>r evs cs. evs = [] \<and> tool_settled r cs)"
  unfolding executeTool_def run_tool_def tool_failed_def tool_completed_def NoteUnknownTool_def
  by (auto intro!: tool_binds traced_rules traced_weaken [OF execute_and_hook_traced]
      simp: tool_settled_def tool_metric_defs split: sum.splits option.splits)

section \<open>Batches\<close>

lemma schedule_perm: "mset (schedule n order) = mset [0..<n]"
  by (simp add: schedule_def) (metis mset_sort mset_upt)

lemma schedule_simps [simp]: "set (schedule n order) = {0..<n}" "distinct (schedule n order)"
  using schedule_perm [of n order] by (metis set_mset_mset set_upt, metis distinct_upt mset_eq_imp_distinct_iff)

text \<open>
  The trace of a batch: every goroutine has its own trace, the traces are put together in the
  scheduled order, and the result of goroutine \<open>i\<close> is in slot \<open>i\<close>.
\<close>

definition batch_trace :: "(nat \<Rightarrow> 'b \<Rightarrow> agent_event list \<Rightarrow> counter_log \<Rightarrow> bool) \<Rightarrow> nat \<Rightarrow> 'b list \<Rightarrow>
    agent_event list \<Rightarrow> counter_log \<Rightarrow> bool" where
  "batch_trace R n rs evs cs \<longleftrightarrow> length rs = n \<and> (\<exists>E C is. mset is = mset [0..<n] \<and>
     evs = concat (map E is) \<and> cs = concat (map C is) \<and> (\<forall>i < n. R i (rs ! i) (E i) (C i)))"

lemma batch_slots_traced:
  assumes "\<And>i. i < length xs \<Longrightarrow> traced g ch (f i (xs ! i)) (R i)" "distinct is" "set is \<subseteq> {0..<length xs}"
  shows "traced g ch (foldM (batch_slot f xs) Map.empty is) (\<lambda>slots evs cs. \<exists>E C.
     evs = concat (map E is) \<and> cs = concat (map C is) \<and>
     (\<forall>i \<in> set is. \<exists>r. slots i = Some r \<and> R i r (E i) (C i)))"
  using assms(2,3)
proof (induction "is" rule: rev_induct)
  case (snoc i js)
  have i: "i < length xs" "i \<notin> set js" using snoc.prems by auto
  show ?case
    unfolding foldM_append
  proof (rule traced_bind [OF snoc.IH])
    fix slots evs cs assume "\<exists>E C. evs = concat (map E js) \<and> cs = concat (map C js) \<and>
        (\<forall>i \<in> set js. \<exists>r. slots i = Some r \<and> R i r (E i) (C i))"
    then obtain E C where EC: "evs = concat (map E js)" "cs = concat (map C js)"
        "\<forall>i \<in> set js. \<exists>r. slots i = Some r \<and> R i r (E i) (C i)" by blast
    have post: "\<exists>E C. evs @ e = concat (map E (js @ [i])) \<and> cs @ c = concat (map C (js @ [i])) \<and>
        (\<forall>k \<in> set (js @ [i]). \<exists>r. (slots(i \<mapsto> r')) k = Some r \<and> R k r (E k) (C k))"
      if "R i r' e c" for r' e c
    proof (intro exI conjI)
      show "evs @ e = concat (map (E(i := e)) (js @ [i]))" "cs @ c = concat (map (C(i := c)) (js @ [i]))"
        using EC(1,2) i(2) by (simp_all add: map_fun_upd)
      show "\<forall>k \<in> set (js @ [i]). \<exists>r. (slots(i \<mapsto> r')) k = Some r \<and> R k r ((E(i := e)) k) ((C(i := c)) k)"
        using EC(3) that i(2) by auto
    qed
    show "traced g ch (foldM (batch_slot f xs) slots [i]) (\<lambda>slots' evs' cs'. \<exists>E C.
        evs @ evs' = concat (map E (js @ [i])) \<and> cs @ cs' = concat (map C (js @ [i])) \<and>
        (\<forall>k \<in> set (js @ [i]). \<exists>r. slots' k = Some r \<and> R k r (E k) (C k)))"
      unfolding foldM.simps bind_right_identity batch_slot_def
      by (rule traced_bind [OF assms(1) [OF i(1)]], rule traced_return) (simp only: append_Nil2 post)
  qed (use snoc.prems in auto)
qed (auto intro: traced_return)

lemma run_batch_traced:
  assumes "\<And>i. i < length xs \<Longrightarrow> traced g ch (f i (xs ! i)) (R i)"
  shows "traced g ch (run_batch env f xs) (batch_trace R (length xs))"
proof -
  let ?n = "length xs"
  have "traced g ch (do {
        slots \<leftarrow> foldM (batch_slot f xs) Map.empty is;
        State_Monad.return (map (\<lambda>i. the (slots i)) [0..<?n]) }) (batch_trace R ?n)"
    if p: "mset is = mset [0..<?n]" for "is"
  proof -
    have s: "set is = {0..<?n}" "distinct is"
      using p by (metis set_mset_mset set_upt, metis distinct_upt mset_eq_imp_distinct_iff)
    have post: "batch_trace R ?n (map (\<lambda>i. the (slots i)) [0..<?n]) (concat (map E is)) (concat (map C is))"
      if "\<forall>i \<in> set is. \<exists>r. slots i = Some r \<and> R i r (E i) (C i)" for slots E C
    proof -
      have "R i (the (slots i)) (E i) (C i)" if "i < ?n" for i
        using \<open>\<forall>i \<in> set is. _ i\<close> s(1) that by (metis atLeastLessThan_iff le0 option.sel)
      then show ?thesis
        unfolding batch_trace_def using p by (intro conjI exI [of _ E] exI [of _ C] exI [of _ "is"]) simp_all
    qed
    have "traced g ch (foldM (batch_slot f xs) Map.empty is) (\<lambda>slots evs cs. \<exists>E C.
       evs = concat (map E is) \<and> cs = concat (map C is) \<and>
       (\<forall>i \<in> set is. \<exists>r. slots i = Some r \<and> R i r (E i) (C i)))"
      using s by (intro batch_slots_traced assms) auto
    then show ?thesis
      by (rule traced_bind) (use post in \<open>auto intro!: traced_return\<close>)
  qed
  then show ?thesis
    unfolding run_batch_def by (intro traced_bind_ext) (simp only: schedule_perm)
qed

lemma batch_hits:
  assumes "mset is = mset [0..<n]" "cs = concat (map C is)"
  shows "hits name cs = (\<Sum>i<n. hits name (C i))"
proof -
  have "hits name cs = sum_list (map (\<lambda>i. hits name (C i)) is)"
    unfolding assms(2) by (induction "is") simp_all
  also have "\<dots> = sum_mset (image_mset (\<lambda>i. hits name (C i)) (mset is))"
    by (metis mset_map sum_mset_sum_list)
  also have "\<dots> = (\<Sum>i<n. hits name (C i))"
    unfolding assms(1) by (simp add: atLeast0LessThan sum_unfold_sum_mset)
  finally show ?thesis .
qed

section \<open>Retriever prefetch\<close>

definition search_counts :: "string \<times> (go_error + document list) \<Rightarrow> counter_log \<Rightarrow> bool" where
  "search_counts res cs \<longleftrightarrow> hits MetricRetrieverCallStarted cs = 1 \<and>
     hits MetricRetrieverCallFailed cs = (if is_failed res then 1 else 0) \<and>
     hits MetricRetrieverCallCompleted cs = (if is_failed res then 0 else 1)"

lemma run_retriever_traced:
  "traced g ch (run_retriever rt runID iter query i ret) (\<lambda>res evs cs.
     evs = [] \<and> search_counts res cs \<and> fst res = rv_Name ret)"
  unfolding run_retriever_def retrieve_failed_def Let_def
  by (auto intro!: hook_binds traced_rules simp: search_counts_def is_failed_def retriever_metric_defs)

lemma length_filter_nth: "length (filter P xs) = (\<Sum>i<length xs. if P (xs ! i) then 1 else 0)"
  by (simp add: length_filter_conv_card flip: sum.inter_filter)

lemma ExecuteRetrievers_traced:
  "traced g ch (ExecuteRetrievers env rt runID iter query) (\<lambda>r evs cs. evs = [] \<and>
     (\<exists>res. r = Inr res \<and> rr_TotalSearches res = int (length (rt_Retrievers rt)) \<and>
        hits MetricRetrieverCallStarted cs = length (rt_Retrievers rt) \<and>
        rr_FailedSearches res = int (hits MetricRetrieverCallFailed cs) \<and>
        hits MetricRetrieverCallCompleted cs + hits MetricRetrieverCallFailed cs = length (rt_Retrievers rt)))"
proof -
  let ?R = "\<lambda>i res evs cs. evs = [] \<and> search_counts res cs"
  let ?n = "length (rt_Retrievers rt)"
  have b: "traced g ch (run_batch env (run_retriever rt runID iter query) (rt_Retrievers rt)) (batch_trace ?R ?n)"
    by (rule run_batch_traced) (rule traced_weaken [OF run_retriever_traced], simp)
  have "evs = [] \<and> hits MetricRetrieverCallStarted cs = ?n \<and>
      int (length (filter is_failed rs)) = int (hits MetricRetrieverCallFailed cs) \<and>
      hits MetricRetrieverCallCompleted cs + hits MetricRetrieverCallFailed cs = ?n"
    if "batch_trace ?R ?n rs evs cs" for rs evs cs
  proof -
    from that obtain E C "is" where B: "length rs = ?n" "mset is = mset [0..<?n]"
      "evs = concat (map E is)" "cs = concat (map C is)" "\<And>i. i < ?n \<Longrightarrow> E i = [] \<and> search_counts (rs ! i) (C i)"
      unfolding batch_trace_def by blast
    have "set is = {0..<?n}" using B(2) by (metis set_mset_mset set_upt)
    then have "evs = []" using B(3,5) by simp
    moreover have "(\<Sum>i<?n. hits MetricRetrieverCallStarted (C i)) = (\<Sum>i<?n. 1)"
      using B(5) by (intro sum.cong) (simp_all add: search_counts_def)
    moreover have "(\<Sum>i<?n. hits MetricRetrieverCallFailed (C i)) = (\<Sum>i<?n. if is_failed (rs ! i) then 1 else 0)"
      using B(5) by (intro sum.cong) (simp_all add: search_counts_def)
    moreover have "(\<Sum>i<?n. hits MetricRetrieverCallCompleted (C i) + hits MetricRetrieverCallFailed (C i)) = (\<Sum>i<?n. 1)"
      using B(5) by (intro sum.cong) (simp_all add: search_counts_def)
    ultimately show ?thesis
      using B(1) by (simp add: batch_hits [OF B(2,4)] length_filter_nth sum.distrib)
  qed
  then show ?thesis
    unfolding ExecuteRetrievers_def Let_def
    by (auto intro!: traced_rules traced_bind [OF b])
qed

text \<open>A prefetch never fails as a whole, whichever retrievers fail and in whatever order they
  run: it counts one search started per retriever, the failures it reports are the failed searches
  it counted, every other one is counted as completed, and it publishes nothing.\<close>

theorem prefetch_partial_failure:
  "case run_state (ExecuteRetrievers env rt runID iter query) s of (r, s') \<Rightarrow>
     w_events s' = w_events s \<and>
     (\<exists>res cs. r = Inr res \<and> w_counters s' = w_counters s @ cs \<and>
        rr_TotalSearches res = int (length (rt_Retrievers rt)) \<and>
        hits MetricRetrieverCallStarted cs = length (rt_Retrievers rt) \<and>
        rr_FailedSearches res = int (hits MetricRetrieverCallFailed cs) \<and>
        hits MetricRetrieverCallCompleted cs + hits MetricRetrieverCallFailed cs = length (rt_Retrievers rt))"
proof (cases "run_state (ExecuteRetrievers env rt runID iter query) s")
  case (Pair r s')
  from tracedD [OF ExecuteRetrievers_traced [where ch = "''''" and g = "\<lambda>_. True"] this] show ?thesis
    unfolding Pair by auto
qed

end
