(* ===== verification/Run_Memory.thy ===== *)
theory Run_Memory
  imports Run_Events Memory_Runtime Samples
begin

text \<open>
  What a run does to long-term memory: records reach the backend only in the run's scope and in
  normal form, recall depends on nothing but that scope, and memory operations publish no events.
\<close>

section \<open>Confinement to the scope\<close>

text \<open>What the store path lets through: trimmed text and an admitted kind.\<close>

definition good_record :: "'w memory_config \<Rightarrow> memory_record \<Rightarrow> bool" where
  "good_record cfg rec \<longleftrightarrow> mr_Text rec \<noteq> '''' \<and> TrimSpace (mr_Text rec) = mr_Text rec \<and>
     ResolveKind (mc_Store cfg) (mr_Kind rec) = Inr (mr_Kind rec)"

text \<open>Two backends that agree on one scope, and on good records only as far as storing goes.\<close>

definition agree_on :: "'w memory_config \<Rightarrow> memory_scope \<Rightarrow> 'w memory_store \<Rightarrow> 'w memory_store \<Rightarrow> bool" where
  "agree_on cfg scope m m' \<longleftrightarrow>
     (\<forall>rec opts. good_record cfg rec \<longrightarrow> mem_Store m' scope rec opts = mem_Store m scope rec opts) \<and>
     (\<forall>q opts. mem_Load m' scope q opts = mem_Load m scope q opts)"

definition with_backend :: "'w memory_store \<Rightarrow> 'w runtime \<Rightarrow> 'w runtime" where
  "with_backend m rt = rt\<lparr>rt_Memory := map_option (\<lambda>cfg. cfg\<lparr>mc_Memory := Some m\<rparr>) (rt_Memory rt)\<rparr>"

lemma with_backend_memory: "memory_of rt = Some (cfg, m) \<Longrightarrow>
    memory_of (with_backend m' rt) = Some (cfg\<lparr>mc_Memory := Some m'\<rparr>, m')"
  by (auto simp: memory_of_def with_backend_def split: option.splits)

lemma with_backend_fields [simp]: "rt_Hooks (with_backend m' rt) = rt_Hooks rt"
  "rt_Client (with_backend m' rt) = rt_Client rt"
  by (simp_all add: with_backend_def)

lemma ExpiresAtForKind_backend [simp]:
  "ExpiresAtForKind (cfg\<lparr>mc_Memory := x\<rparr>) kind now = ExpiresAtForKind cfg kind now"
  by (simp add: ExpiresAtForKind_def cong: sum.case_cong)

lemmas branch_congs = sum.case_cong option.case_cong if_cong list.case_cong

lemma store_with_confined:
  assumes "agree_on cfg scope m m'" "text \<noteq> ''''" "TrimSpace text = text"
    "ResolveKind (mc_Store cfg) kind = Inr kind"
  shows "store_with env (with_backend m' rt) (cfg\<lparr>mc_Memory := Some m'\<rparr>) m' runID iter scope call text kind opts act =
    store_with env rt cfg m runID iter scope call text kind opts act"
proof -
  have "mem_Store m' scope rec opts = mem_Store m scope rec opts" if "mr_Text rec = text" "mr_Kind rec = kind" for rec
    using assms that by (simp add: agree_on_def good_record_def)
  then show ?thesis
    by (simp add: store_with_def Let_def runAfterMemoryStoreHooks_def cong: branch_congs)
qed

lemma dedup_confined: "agree_on cfg scope m m' \<Longrightarrow>
    dedupStoreOptions (cfg\<lparr>mc_Memory := Some m'\<rparr>) m' scope text = dedupStoreOptions cfg m scope text"
  by (simp add: dedupStoreOptions_def agree_on_def Let_def)

lemma TrimSpace_twice: "TrimSpace (TrimSpace s) = TrimSpace s"
  by (rule TrimSpace_idem)

lemma storeRecord_confined:
  assumes "agree_on cfg scope m m'"
  shows "storeRecord env (with_backend m' rt) (cfg\<lparr>mc_Memory := Some m'\<rparr>) m' runID iter scope rec =
    storeRecord env rt cfg m runID iter scope rec"
proof -
  have "store_with env (with_backend m' rt) (cfg\<lparr>mc_Memory := Some m'\<rparr>) m' runID iter scope call (TrimSpace t) kind opts act =
      store_with env rt cfg m runID iter scope call (TrimSpace t) kind opts act"
    if "TrimSpace t \<noteq> ''''" "ResolveKind (mc_Store cfg) k = Inr kind" for call t k kind opts act
    using that by (intro store_with_confined assms) (simp_all add: TrimSpace_twice ResolveKind_idem)
  then show ?thesis
    by (simp add: storeRecord_def runBeforeMemoryStoreHooks_def dedup_confined [OF assms] Let_def
        split_def cong: branch_congs)
qed

lemma StoreMemoryRecords_confined:
  assumes "memory_of rt = Some (cfg, m)" "agree_on cfg scope m m'"
  shows "StoreMemoryRecords env (with_backend m' rt) runID iter scope recs =
    StoreMemoryRecords env rt runID iter scope recs"
proof -
  have "storeRecord env (with_backend m' rt) (cfg\<lparr>mc_Memory := Some m'\<rparr>) m' runID iter scope =
      storeRecord env rt cfg m runID iter scope"
    by (rule HOL.ext) (rule storeRecord_confined [OF assms(2)])
  then show ?thesis
    by (simp add: StoreMemoryRecords_def assms(1) with_backend_memory [OF assms(1)])
qed

lemma recall_confined:
  assumes "memory_of rt = Some (cfg, m)" "agree_on cfg scope m m'" "rt_Hooks rt = []"
  shows "ExecuteMemoryRecall (with_backend m' rt) runID iter scope query =
    ExecuteMemoryRecall rt runID iter scope query"
  using assms(2,3)
  by (simp add: ExecuteMemoryRecall_def assms(1) with_backend_memory [OF assms(1)] Let_def load_or_recent_def
      runBeforeMemoryLoadHooks_def runAfterMemoryLoadHooks_def agree_on_def cong: branch_congs)


definition alice :: memory_scope where
  "alice = \<lparr>sc_UserID = ''alice'', sc_TenantID = ''acme'', sc_AgentID = ''bot'', sc_Tags = []\<rparr>"

text \<open>A backend that differs from the sample one on foreign scopes and on blank records.\<close>

definition hostile_backend :: "nat memory_store" where
  "hostile_backend = \<lparr>mem_Store = (\<lambda>scope rec opts. if scope = alice \<and> mr_Text rec \<noteq> ''''
       then State (\<lambda>n. (Inr ''new'', Suc n)) else State_Monad.return (Inr ''leak'')),
     mem_Load = (\<lambda>scope q opts. State_Monad.return (Inr (if scope = alice then [] else
       [\<lparr>me_ID = ''x'', me_Text = ''secret'', me_Kind = '''', me_Scope = scope, me_Metadata = [],
        me_ExpiresAt = None, me_Score = 1\<rparr>])))\<rparr>"

definition alice_runtime :: "nat runtime" where
  "alice_runtime = (sample_runtime (\<lambda>_. text_response ''ok''))\<lparr>rt_Memory := Some (sample_memory alice)\<rparr>"

definition save_call :: "nat execute_tool_input" where
  "save_call = \<lparr>xt_Tools = [], xt_ToolName = SaveMemoryToolName,
     xt_Args = Some [(''text'', AStr ''likes tea'')], xt_ToolCallID = ''c'', xt_RunID = ''r'', xt_Iteration = 0\<rparr>"


section \<open>Traces of memory operations\<close>

definition memory_counter :: "string \<times> string list \<Rightarrow> bool" where
  "memory_counter c \<longleftrightarrow> HasPrefix (fst c) ''agent.memory.''"

lemmas memory_metric_defs = MetricMemoryRecallStarted_def MetricMemoryRecallCompleted_def
  MetricMemoryRecallFailed_def MetricMemoryStoreStarted_def MetricMemoryStoreCompleted_def
  MetricMemoryStoreFailed_def MetricMemoryDedupStarted_def MetricMemoryDedupCompleted_def
  MetricMemoryDedupFailed_def MetricMemoryExtractStarted_def MetricMemoryExtractCompleted_def
  MetricMemoryExtractFailed_def

definition memory_trace :: "'a \<Rightarrow> agent_event list \<Rightarrow> counter_log \<Rightarrow> bool" where
  "memory_trace r evs cs \<longleftrightarrow> evs = [] \<and> list_all memory_counter cs"

lemma memory_trace_simps [simp]:
  "memory_trace r [] []"
  "memory_trace r evs ((n, as) # cs) \<longleftrightarrow> memory_counter (n, as) \<and> memory_trace r evs cs"
  by (auto simp: memory_trace_def)

lemma memory_metrics [simp]:
  "memory_counter (MetricMemoryRecallStarted, as)" "memory_counter (MetricMemoryRecallCompleted, as)"
  "memory_counter (MetricMemoryRecallFailed, as)" "memory_counter (MetricMemoryStoreStarted, as)"
  "memory_counter (MetricMemoryStoreCompleted, as)" "memory_counter (MetricMemoryStoreFailed, as)"
  "memory_counter (MetricMemoryDedupStarted, as)" "memory_counter (MetricMemoryDedupCompleted, as)"
  "memory_counter (MetricMemoryDedupFailed, as)" "memory_counter (MetricMemoryExtractStarted, as)"
  "memory_counter (MetricMemoryExtractCompleted, as)" "memory_counter (MetricMemoryExtractFailed, as)"
  by (simp_all add: memory_counter_def memory_metric_defs HasPrefix_def)

lemma memory_bind:
  assumes "traced g ch m memory_trace" "\<And>a. traced g ch (f a) memory_trace"
  shows "traced g ch (State_Monad.bind m f) memory_trace"
  by (rule traced_bind [OF assms(1)], rule traced_weaken [OF assms(2)]) (simp add: memory_trace_def)

lemma memory_hook_frames [simp]:
  "keeps ext_only (runBeforeMemoryLoadHooks rt runID iter lc)"
  "keeps ext_only (runAfterMemoryLoadHooks rt runID iter lc ctx)"
  "keeps ext_only (runBeforeMemoryStoreHooks rt runID iter sc)"
  "keeps ext_only (runAfterMemoryStoreHooks rt runID iter sc)"
  by (simp_all add: runBeforeMemoryLoadHooks_def runAfterMemoryLoadHooks_def runBeforeMemoryStoreHooks_def
      runAfterMemoryStoreHooks_def keeps_return before_load.run_frame after_load.run_frame
      before_store.run_frame RunAfterMemoryStore_def after_store.run_frame keeps_bind)

lemmas memory_binds = memory_hook_frames [THEN traced_bind_quiet]

lemma dedup_traced: "traced g ch (dedupStoreOptions cfg m scope text) memory_trace"
  by (auto simp: dedupStoreOptions_def Let_def intro!: traced_rules)

lemma store_with_traced:
  "traced g ch (store_with env rt cfg m runID iter scope call text kind opts act) memory_trace"
  by (auto simp: store_with_def store_failed_def Let_def intro!: traced_rules memory_binds)

lemma storeRecord_traced: "traced g ch (storeRecord env rt cfg m runID iter scope rec) memory_trace"
  unfolding storeRecord_def store_failed_def Let_def
  by (auto intro!: traced_rules memory_binds memory_bind [OF dedup_traced]
      traced_weaken [OF store_with_traced])

lemma store_records_traced:
  "(\<And>r. traced g ch (store r) memory_trace) \<Longrightarrow> traced g ch (store_records store rs) memory_trace"
  by (induction rs) (auto intro!: traced_rules memory_bind)

lemma StoreMemoryRecords_traced:
  "traced g ch (StoreMemoryRecords env rt runID iter scope recs) memory_trace"
  by (auto simp: StoreMemoryRecords_def intro!: traced_rules store_records_traced storeRecord_traced
      split: option.splits)

lemma load_or_recent_frame: "keeps ext_only (load_or_recent cfg m call)"
  unfolding load_or_recent_def by (intro keeps_bind keeps_splits keeps_ext keeps_return) simp_all

lemma recall_traced: "traced g ch (ExecuteMemoryRecall rt runID iter scope query) memory_trace"
  unfolding ExecuteMemoryRecall_def recall_failed_def Let_def
  by (auto intro!: traced_rules memory_binds traced_bind_quiet [OF load_or_recent_frame] split: option.splits)

lemma extractMemoryRecords_traced: "traced g ch (extractMemoryRecords extract msgs) memory_trace"
  by (auto simp: extractMemoryRecords_def intro!: traced_rules)

lemma ExecuteMemoryStore_traced:
  "traced g ch (ExecuteMemoryStore env rt runID iter scope msgs) memory_trace"
  unfolding ExecuteMemoryStore_def
  by (auto intro!: traced_rules memory_bind [OF extractMemoryRecords_traced] StoreMemoryRecords_traced)

lemma memory_hits: "list_all memory_counter cs \<Longrightarrow>
    hits MetricToolCallStarted cs = 0 \<and> hits MetricToolCallCompleted cs = 0 \<and> hits MetricToolCallFailed cs = 0"
  by (induction cs) (auto simp: memory_counter_def tool_metric_defs HasPrefix_def)

lemma tool_settled_memory:
  assumes "list_all memory_counter cs"
  shows "tool_settled (Inl e) ((MetricToolCallStarted, as) # cs @ [(MetricToolCallFailed, as)])"
    "tool_settled (Inr a) ((MetricToolCallStarted, as) # cs @ [(MetricToolCallCompleted, as)])"
  using memory_hits [OF assms] by (simp_all add: tool_settled_def) (simp_all add: tool_metric_defs)

lemma executeSaveMemoryTool_traced:
  "traced g ch (executeSaveMemoryTool env rt input scope) (\<lambda>r evs cs. evs = [] \<and> tool_settled r cs)"
  unfolding executeSaveMemoryTool_def tool_failed_def tool_completed_def
  by (auto intro!: traced_rules traced_bind [OF StoreMemoryRecords_traced] simp: memory_trace_def
      tool_settled_memory tool_settled_memory(1) [where cs = "[]", simplified])

lemma ExecuteTool_traced:
  "traced g ch (ExecuteTool env rt input scope) (\<lambda>r evs cs. evs = [] \<and> tool_settled r cs)"
  unfolding ExecuteTool_def by (intro traced_if executeSaveMemoryTool_traced executeTool_traced)

end
