(* ===== verification/Run_Calls.thy ===== *)
theory Run_Calls
  imports Agent_Loop Run_Memory
begin

text \<open>
  The calls of a run as its consumers and its tools see them: the events of an LLM call and of a
  tool call, the metrics of LLM calls, and what a call that is not allowed leaves undone.
\<close>

section \<open>The run's emitter\<close>

definition published :: "'w runtime \<Rightarrow> 'w loop_input \<Rightarrow> agent_event \<Rightarrow> bool" where
  "published rt input ev \<longleftrightarrow> event_allowed (li_EventTypes input) ev \<and>
     TrimSpace (li_ChannelName input) \<noteq> '''' \<and> rt_hasBus rt"

lemma run_emit: "run_state (emit rt input ev) s =
    ((), s\<lparr>w_events := w_events s @ map (Pair (li_ChannelName input)) (filter (published rt input) [ev])\<rparr>)"
  by (auto simp: emit_def published_def publishEventToChannel_def event_allowed_def)

interpretation sink: event_sink "emit rt input" "published rt input" "li_ChannelName input" for rt input
  by unfold_locales (rule run_emit)

lemmas call_rules = traced_rules sink.traced_emit sink.traced_bind_emit

section \<open>LLM calls\<close>

text \<open>C19. Whatever a provider streams and however the call ends, what is published for it follows
  the message protocol, up to the run's filter: reasoning blocks are opened and closed around
  their content, text is sent only inside the assistant message and outside reasoning, no
  reasoning is left open, and a successful call leaves exactly one complete assistant message.
  Only a failed call may leave its assistant message open.\<close>

theorem stream_follows_protocol:
  "case run_state (ExecuteLLMStream env rt (llm_input rt input cx mid iter skip msgs)) s of (r, s') \<Rightarrow>
     \<exists>evs. w_events s' = w_events s @ map (Pair (li_ChannelName input)) (filter (published rt input) evs) \<and>
       proto_run proto_idle evs \<in> (case r of
           Inr res \<Rightarrow> {Some proto_idle}
         | Inl err \<Rightarrow> {Some proto_idle, Some (proto_idle\<lparr>pr_text := Some mid\<rparr>)})"
proof -
  let ?in = "llm_input rt input cx mid iter skip msgs"
  obtain r s' where r: "run_state (ExecuteLLMStream env rt ?in) s = (r, s')" by fastforce
  have "xl_Emit ?in = Some (emit rt input)" "xl_MessageID ?in = mid" by (simp_all add: llm_input_def)
  with tracedD [OF sink.ExecuteLLMStream_traced r, of rt input] show ?thesis
    unfolding r by (auto simp: shown_def split: sum.splits)
qed

text \<open>C20. A consumer of a streamed answer reads what the provider sent: the text of the published
  message is the concatenation of the content deltas of all chunks in order, nil chunks and
  reasoning aside, or, if the provider sent no content at all, the content of the result. If the
  call fails, it has read everything sent before the failure.\<close>

theorem streamed_text_complete:
  "case run_state (stream_consume env rt (llm_input rt input cx mid iter skip msgs) client stream) s of (r, s') \<Rightarrow>
     \<exists>evs. w_events s' = w_events s @ map (Pair (li_ChannelName input)) (filter (published rt input) evs) \<and>
       text_of evs = (let sent = concat (map content_delta (ls_Chunks stream))
         in case r of Inl err \<Rightarrow> sent | Inr res \<Rightarrow> if sent = '''' then lr_Content res else sent)"
proof -
  let ?in = "llm_input rt input cx mid iter skip msgs"
  obtain r s' where r: "run_state (stream_consume env rt ?in client stream) s = (r, s')" by fastforce
  have "xl_Emit ?in = Some (emit rt input)" by (simp add: llm_input_def)
  from tracedD [OF sink.stream_consume_traced [OF this] r] obtain evs where
    "w_events s' = w_events s @ map (Pair (li_ChannelName input)) (filter (published rt input) evs)"
    "shown mid (concat (map content_delta (ls_Chunks stream))) r evs"
    by (auto simp: llm_input_def)
  then show ?thesis
    unfolding r prod.case by (intro exI [of _ evs]) (simp add: shown_def Let_def split: sum.splits)
qed

text \<open>The metrics of LLM calls add up: a streamed call that is counted as started is counted as
  completed if it succeeds and as failed if it fails, never both and never twice; without
  streaming the same holds except that a call whose \<open>AfterLLM\<close> hook fails is counted only as
  started.\<close>

theorem llm_calls_accounted:
  "case run_state (if streaming then ExecuteLLMStream env rt (llm_input rt input cx mid iter skip msgs)
                   else ExecuteLLM rt (llm_input rt input cx mid iter skip msgs)) s of (r, s') \<Rightarrow>
     let started = counter MetricLLMCallStarted s' - counter MetricLLMCallStarted s;
         completed = counter MetricLLMCallCompleted s' - counter MetricLLMCallCompleted s;
         failed = counter MetricLLMCallFailed s' - counter MetricLLMCallFailed s
     in case r of
       Inr res \<Rightarrow> started = 1 \<and> completed = 1 \<and> failed = 0
     | Inl err \<Rightarrow> started \<le> 1 \<and> completed = 0 \<and>
         (if streaming then failed = started else failed \<le> started)"
proof -
  let ?in = "llm_input rt input cx mid iter skip msgs"
  let ?m = "if streaming then ExecuteLLMStream env rt ?in else ExecuteLLM rt ?in"
  obtain r s' where r: "run_state ?m s = (r, s')" by fastforce
  have e: "xl_Emit ?in = Some (emit rt input)" by (simp add: llm_input_def)
  have "traced (published rt input) (li_ChannelName input) ?m (\<lambda>r evs cs. llm_counts r cs \<or>
      \<not> streaming \<and> (\<exists>err as. r = Inl err \<and> cs = [(MetricLLMCallStarted, as)]))"
    by (auto intro: traced_weaken [OF sink.ExecuteLLMStream_traced [OF e]]
        traced_weaken [OF sink.ExecuteLLM_traced [OF e]])
  from tracedD [OF this r] obtain cs where "w_counters s' = w_counters s @ cs"
    and cs: "llm_counts r cs \<or> \<not> streaming \<and> (\<exists>err as. r = Inl err \<and> cs = [(MetricLLMCallStarted, as)])"
    by blast
  then have "counter n s' - counter n s = hits n cs" for n by (simp add: counter_hits)
  with cs show ?thesis
    unfolding r by (auto simp: llm_counts_def settled_def llm_metric_defs split: sum.splits)
qed

section \<open>Retried operations\<close>

definition moved :: "(agent_event \<Rightarrow> bool) \<Rightarrow> string \<Rightarrow> (agent_event list \<Rightarrow> counter_log \<Rightarrow> bool) \<Rightarrow>
    'w world \<Rightarrow> 'w world \<Rightarrow> bool" where
  "moved g ch I s s' \<longleftrightarrow> (\<exists>evs cs. w_events s' = w_events s @ map (Pair ch) (filter g evs) \<and>
     w_counters s' = w_counters s @ cs \<and> I evs cs)"

lemma traced_iff_moved: "traced g ch m (\<lambda>_. I) \<longleftrightarrow> keeps (moved g ch I) m"
  unfolding traced_def keeps_def moved_def by (metis prod.collapse snd_conv)

lemma movedI: "w_events s' = w_events s @ map (Pair ch) (filter g evs) \<Longrightarrow>
    w_counters s' = w_counters s @ cs \<Longrightarrow> I evs cs \<Longrightarrow> moved g ch I s s'"
  unfolding moved_def by blast

lemma executeWithPolicy_traced:
  assumes "traced g ch op (\<lambda>_. I)" "I [] []"
    and "\<And>evs cs evs' cs'. I evs cs \<Longrightarrow> I evs' cs' \<Longrightarrow> I (evs @ evs') (cs @ cs')"
  shows "traced g ch (executeWithPolicy ctx p op) (\<lambda>_. I)"
  unfolding traced_iff_moved
proof (rule executeWithPolicy_keeps)
  show "reflp (moved g ch I)" "\<And>s w. moved g ch I s (s\<lparr>w_ext := w\<rparr>)"
    using assms(2) by (auto simp: reflp_def intro!: movedI [where evs = "[]" and cs = "[]"])
  show "transp (moved g ch I)"
  proof (rule transpI)
    fix s1 s2 s3 assume "moved g ch I s1 s2" "moved g ch I s2 s3"
    then obtain evs cs evs' cs' where
      "w_events s2 = w_events s1 @ map (Pair ch) (filter g evs)" "w_counters s2 = w_counters s1 @ cs" "I evs cs"
      "w_events s3 = w_events s2 @ map (Pair ch) (filter g evs')" "w_counters s3 = w_counters s2 @ cs'" "I evs' cs'"
      unfolding moved_def by blast
    then show "moved g ch I s1 s3"
      by (intro movedI [where evs = "evs @ evs'" and cs = "cs @ cs'"]) (simp_all add: assms(3))
  qed
qed (use assms(1) in \<open>simp add: traced_iff_moved\<close>)

section \<open>The life of a tool call\<close>

text \<open>
  What is published for a call that is not a delegation: a start, perhaps its arguments, perhaps
  a request for approval, and, if the call has an answer, its end and that answer.
\<close>

definition call_tail :: "string \<Rightarrow> tool_call_request \<Rightarrow> go_error + tool_result \<Rightarrow> agent_event list \<Rightarrow> bool" where
  "call_tail mid tc r evs = (case r of
      Inl _ \<Rightarrow> evs = []
    | Inr res \<Rightarrow> (\<exists>content. to_message res = tool_message tc content \<and>
        evs = [ToolCallEnd (tr_ToolCallID tc), ToolCallResult mid (tr_ToolCallID tc) content RoleTool]))"

definition call_shape :: "string \<Rightarrow> tool_call_request \<Rightarrow> go_error + tool_result \<Rightarrow> agent_event list \<Rightarrow> bool" where
  "call_shape mid tc r evs \<longleftrightarrow> (\<exists>args gate tail.
     evs = ToolCallStart (tr_ToolCallID tc) (tr_ToolName tc) mid # args @ gate @ tail \<and>
     (args = [] \<or> (\<exists>a. args = [ToolCallArgs (tr_ToolCallID tc) a])) \<and>
     (gate = [] \<or> tr_NeedsApproval tc \<and> (\<exists>v. gate = [CustomEvent CustomNameToolApproval v])) \<and>
     call_tail mid tc r tail)"

lemma tool_message_content [simp]: "msg_Content (tool_message tc content) = content"
  by (simp add: tool_message_def)

lemma finish_call_traced:
  "traced (published rt input) (li_ChannelName input) (finish_call rt input mid tc content failed)
    (\<lambda>r evs cs. r = Inr \<lparr>to_message = tool_message tc content, to_failed = failed\<rparr> \<and> cs = [] \<and>
       evs = [ToolCallEnd (tr_ToolCallID tc), ToolCallResult mid (tr_ToolCallID tc) content RoleTool])"
  by (auto simp: finish_call_def emitToolEndThenResult_def intro!: call_rules)

lemma emit_args_traced:
  "traced (published rt input) (li_ChannelName input) (emit_args env rt input tc)
    (\<lambda>_ evs cs. cs = [] \<and> (evs = [] \<or> (\<exists>a. evs = [ToolCallArgs (tr_ToolCallID tc) a])))"
  by (auto simp: emit_args_def intro!: call_rules split: option.splits)

lemma check_tripped_traced: "traced g ch (check_tripped input tc) (\<lambda>_ evs cs. evs = [] \<and> cs = [])"
  by (rule traced_exact [where evs = "[]" and cs = "[]"])
    (auto simp: check_tripped_def split: if_splits prod.splits option.splits)

lemma AuthorizeTool_frame: "keeps ext_only (AuthorizeTool tools name args)"
  unfolding AuthorizeTool_def by (auto intro!: keeps_bind keeps_ext keeps_return split: option.splits)

lemma authorize_traced:
  "traced g ch (executeWithPolicy ctx p (AuthorizeTool tools name args)) (\<lambda>_ evs cs. evs = [] \<and> cs = [])"
  by (rule executeWithPolicy_traced) (auto intro: traced_quiet [OF AuthorizeTool_frame])

lemma execute_call_traced:
  "traced g ch (execute_call env rt input iter tc policies) (\<lambda>_ evs cs. evs = [])"
  unfolding execute_call_def
  by (rule traced_bind [OF executeWithPolicy_traced [where I = "\<lambda>evs cs. evs = []"]])
    (auto intro!: traced_weaken [OF ExecuteTool_traced] traced_rules)

lemma await_approval_traced:
  assumes "tool_route input tc = None"
  shows "traced (published rt input) (li_ChannelName input) (await_approval env rt input tc)
    (\<lambda>r evs cs. cs = [] \<and> (evs = [] \<or> tr_NeedsApproval tc \<and> (\<exists>v. evs = [CustomEvent CustomNameToolApproval v])))"
  using assms by (auto simp: await_approval_def approval_event_def intro!: call_rules split: option.splits)

lemma finish_tail: "traced (published rt input) (li_ChannelName input) (finish_call rt input mid tc content failed)
    (\<lambda>r evs cs. call_tail mid tc r evs)"
  by (rule traced_weaken [OF finish_call_traced]) (simp add: call_tail_def)

lemma dispatch_traced:
  assumes "tool_route input tc = None"
  shows "traced (published rt input) (li_ChannelName input)
    (dispatch_call sub env rt input mid iter tc policies status) (\<lambda>r evs cs. call_tail mid tc r evs)"
  unfolding dispatch_call_def assms
  by (auto intro!: call_rules finish_tail traced_bind [OF execute_call_traced]
      traced_weaken [OF finish_tail]) (simp add: call_tail_def)

text \<open>From the authorization on: the gate's event, if any, and the tail.\<close>

definition gated_tail :: "string \<Rightarrow> tool_call_request \<Rightarrow> go_error + tool_result \<Rightarrow> agent_event list \<Rightarrow> bool" where
  "gated_tail mid tc r evs \<longleftrightarrow> (\<exists>gate tail. evs = gate @ tail \<and>
     (gate = [] \<or> tr_NeedsApproval tc \<and> (\<exists>v. gate = [CustomEvent CustomNameToolApproval v])) \<and>
     call_tail mid tc r tail)"

lemma gated_tail_simps [simp]: "call_tail mid tc r evs \<Longrightarrow> gated_tail mid tc r evs"
  "gated_tail mid tc (Inl e) []"
  by (auto simp: gated_tail_def) (simp add: call_tail_def)

lemma authorized_call_traced:
  assumes route: "tool_route input tc = None"
  shows "traced (published rt input) (li_ChannelName input)
    (authorized_call sub env rt input mid iter tc policies) (\<lambda>r evs cs. gated_tail mid tc r evs)"
proof -
  have d: "traced (published rt input) (li_ChannelName input)
      (dispatch_call sub env rt input mid iter tc policies status) (\<lambda>r evs' cs'. gated_tail mid tc r (evs @ evs'))"
    if "evs = [] \<or> tr_NeedsApproval tc \<and> (\<exists>v. evs = [CustomEvent CustomNameToolApproval v])" for evs status
    using that by (intro traced_weaken [OF dispatch_traced [OF route]]) (auto simp: gated_tail_def)
  have e: "gated_tail mid tc (Inl err) evs"
    if "evs = [] \<or> tr_NeedsApproval tc \<and> (\<exists>v. evs = [CustomEvent CustomNameToolApproval v])" for evs err
    using that by (auto simp: gated_tail_def call_tail_def)
  have g: "traced (published rt input) (li_ChannelName input) (do {
        gate \<leftarrow> await_approval env rt input tc;
        (case gate of Inl err \<Rightarrow> State_Monad.return (Inl err)
         | Inr status \<Rightarrow> dispatch_call sub env rt input mid iter tc policies status) })
      (\<lambda>r evs cs. gated_tail mid tc r evs)"
    by (rule traced_bind [OF await_approval_traced [OF route]])
      (auto split: sum.splits intro!: d traced_return e)
  show ?thesis
    unfolding authorized_call_def
    by (auto intro!: call_rules g traced_bind [OF authorize_traced] traced_weaken [OF finish_tail])
qed

lemma executeSingleTool_traced:
  assumes route: "tool_route input tc = None"
  shows "traced (published rt input) (li_ChannelName input)
    (executeSingleTool sub env rt input mid iter policies tc) (\<lambda>r evs cs. call_shape mid tc r evs)"
proof -
  let ?ok = "\<lambda>args r evs. call_shape mid tc r (ToolCallStart (tr_ToolCallID tc) (tr_ToolName tc) mid # args @ evs)"
  have s: "?ok args r evs" if "gated_tail mid tc r evs" "args = [] \<or> (\<exists>a. args = [ToolCallArgs (tr_ToolCallID tc) a])"
    for args r evs using that unfolding call_shape_def gated_tail_def by blast
  show ?thesis
    unfolding executeSingleTool_def NoteUnknownTool_def NoteCircuitSkip_def
    by (auto intro!: call_rules traced_bind [OF emit_args_traced] traced_bind [OF check_tripped_traced]
        traced_weaken [OF finish_tail] traced_weaken [OF authorized_call_traced [OF route]]
        dest: gated_tail_simps(1) simp: s [where args = "[]", simplified] s [where args = "[ToolCallArgs _ _]", simplified])
qed


text \<open>A run with one tool, and a call of it that needs an approval.\<close>

definition sample_input :: "nat loop_input" where
  "sample_input = \<lparr>li_UserPrompt = ''hello'', li_ConversationID = '''', li_StreamingEnabled = False,
     li_Tools = [echo_tool ''echo''], li_ChannelName = ''run'', li_EventTypes = [AgentEventAll],
     li_ApprovalHandler = None, li_SubAgentRoutes = [], li_SubAgentDepth = 0, li_MaxSubAgentDepth = 2,
     li_MemoryScope = alice, li_RunID = ''r'', li_EnforceBudget = True, li_circuitBreaker = None,
     li_circuitNow = None\<rparr>"

definition gated_call :: tool_call_request where
  "gated_call = \<lparr>tr_ToolCallID = ''c1'', tr_ToolName = ''echo'', tr_ToolDisplayName = ''echo'',
     tr_ToolKind = ToolKindNative, tr_Args = None, tr_NeedsApproval = True, tr_Unknown = False\<rparr>"

definition sample_sub :: "nat sub_runner" where
  "sample_sub = (\<lambda>rt input. State_Monad.return (None, None))"

definition ok_runtime :: "nat runtime" where
  "ok_runtime = sample_runtime (\<lambda>_. text_response ''ok'')"


section \<open>Calls that are not allowed\<close>

text \<open>The same tools with other implementations.\<close>

definition rearm :: "(string \<Rightarrow> tool_exec_meta option \<Rightarrow> go_args \<Rightarrow> ('w, go_error + tool_value) state) \<Rightarrow>
    'w tool list \<Rightarrow> 'w tool list" where
  "rearm f tools = map (\<lambda>t. t\<lparr>tl_Execute := f (tl_Name t)\<rparr>) tools"

lemma FindToolByName_rearm: "FindToolByName (rearm f tools) name =
    map_option (\<lambda>t. t\<lparr>tl_Execute := f (tl_Name t)\<rparr>) (FindToolByName tools name)"
  by (induction tools) (simp_all add: rearm_def)

lemma rearm_simps [simp]:
  "IsUnknownTool tc (rearm f tools) = IsUnknownTool tc tools"
  "AuthorizeTool (rearm f tools) name args = AuthorizeTool tools name args"
  by (simp_all add: IsUnknownTool_def AuthorizeTool_def FindToolByName_rearm)
    (cases "FindToolByName tools name"; simp)

text \<open>A call that must not be executed in a world: its name is unknown, its circuit is open, its
  tool's authorizer never allows it, or it needs an approval that never comes.\<close>

definition never_authorized :: "'w loop_input \<Rightarrow> tool_call_request \<Rightarrow> bool" where
  "never_authorized input tc \<longleftrightarrow> (\<exists>tool f. FindToolByName (li_Tools input) (tr_ToolName tc) = Some tool \<and>
     tl_Authorize tool = Some f \<and>
     (\<forall>w. case fst (run_state (f (tr_Args tc)) w) of Inl err \<Rightarrow> True | Inr d \<Rightarrow> \<not> ad_Allow d))"

definition never_approved :: "'w env \<Rightarrow> 'w loop_input \<Rightarrow> tool_call_request \<Rightarrow> bool" where
  "never_approved env input tc \<longleftrightarrow> tr_NeedsApproval tc \<and>
     (\<forall>token w. fst (run_state (en_await env token) w) \<noteq> Responded ApprovalApproved)"

definition circuit_open :: "'w loop_input \<Rightarrow> tool_call_request \<Rightarrow> 'w world \<Rightarrow> bool" where
  "circuit_open input tc s \<longleftrightarrow> li_circuitBreaker input \<noteq> None \<and>
     CountsTowardCircuitBreaker (tr_Unknown tc) (tr_ToolKind tc) \<and>
     fst (IsTripped (breaker_at s (li_circuitBreaker input)) (tr_ToolName tc) (li_circuitNow input))"

definition barred :: "'w env \<Rightarrow> 'w loop_input \<Rightarrow> tool_call_request \<Rightarrow> 'w world \<Rightarrow> bool" where
  "barred env input tc s \<longleftrightarrow> IsUnknownTool tc (li_Tools input) \<or> circuit_open input tc s \<or>
     never_authorized input tc \<or> never_approved env input tc"

lemma bind_run_cong:
  assumes "\<And>a s'. run_state m s = (a, s') \<Longrightarrow> run_state (f a) s' = run_state (h a) s'"
  shows "run_state (State_Monad.bind m f) s = run_state (State_Monad.bind m h) s"
  using assms by (auto split: prod.splits)

lemma other_tools_simps [simp]:
  "emit rt (input\<lparr>li_Tools := ts\<rparr>) = emit rt input"
  "tool_route (input\<lparr>li_Tools := ts\<rparr>) tc = tool_route input tc"
  "emit_args env rt (input\<lparr>li_Tools := ts\<rparr>) tc = emit_args env rt input tc"
  "check_tripped (input\<lparr>li_Tools := ts\<rparr>) tc = check_tripped input tc"
  "finish_call rt (input\<lparr>li_Tools := ts\<rparr>) = finish_call rt input"
  "await_approval env rt (input\<lparr>li_Tools := ts\<rparr>) tc = await_approval env rt input tc"
  by (simp_all add: fun_eq_iff emit_def tool_route_def emit_args_def check_tripped_def finish_call_def
      emitToolEndThenResult_def await_approval_def approval_event_def cong: branch_congs)

lemma dispatch_unapproved: "status \<noteq> ApprovalApproved \<Longrightarrow>
    dispatch_call sub env rt (input\<lparr>li_Tools := ts\<rparr>) mid iter tc policies status =
    dispatch_call sub' env rt input mid iter tc policies status"
  by (simp add: dispatch_call_def)

lemma never_authorized_denied:
  assumes "never_authorized input tc"
    and "run_state (executeWithPolicy ctx p (AuthorizeTool (li_Tools input) (tr_ToolName tc) (tr_Args tc))) s = (Inr a, s')"
  shows "\<not> ar_Allowed a"
proof -
  let ?op = "AuthorizeTool (li_Tools input) (tr_ToolName tc) (tr_Args tc)"
  from attempt_loop_outcome [OF assms(2) [unfolded executeWithPolicy_def]]
  obtain s0 where op: "run_state ?op s0 = (Inr a, s')" by (auto simp: policy_outcome_def)
  from assms(1) obtain tool f where t: "FindToolByName (li_Tools input) (tr_ToolName tc) = Some tool"
    "tl_Authorize tool = Some f"
    and n: "case fst (run_state (f (tr_Args tc)) (w_ext s0)) of Inl err \<Rightarrow> True | Inr d \<Rightarrow> \<not> ad_Allow d"
    unfolding never_authorized_def by blast
  from op n show ?thesis
    by (auto simp: AuthorizeTool_def t split: prod.splits sum.split_asm if_splits)
qed

lemma never_approved_denied:
  assumes "never_approved env input tc" "run_state (await_approval env rt input tc) s = (Inr status, s')"
  shows "status \<noteq> ApprovalApproved"
proof -
  have n: "ApprovalUnavailable \<noteq> ApprovalApproved" by (simp add: ApprovalUnavailable_def ApprovalApproved_def)
  show ?thesis
    using assms n unfolding never_approved_def await_approval_def
    by (auto simp: run_emit split: prod.splits if_splits option.splits wait_outcome.splits)
      (metis fst_conv)+
qed

lemma barred_authorized_call:
  assumes "never_authorized input tc \<or> never_approved env input tc"
  shows "run_state (authorized_call sub env rt (input\<lparr>li_Tools := rearm f (li_Tools input)\<rparr>) mid iter tc policies) s =
    run_state (authorized_call sub' env rt input mid iter tc policies) s"
proof -
  let ?ts = "rearm f (li_Tools input)"
  let ?auth = "executeWithPolicy (en_ctx env) (pol_ToolAuth policies)
      (AuthorizeTool (li_Tools input) (tr_ToolName tc) (tr_Args tc))"
  have gate: "run_state (State_Monad.bind (await_approval env rt input tc) (case_sum (\<lambda>err. State_Monad.return (Inl err))
        (dispatch_call sub env rt (input\<lparr>li_Tools := ?ts\<rparr>) mid iter tc policies))) s1 =
      run_state (State_Monad.bind (await_approval env rt input tc) (case_sum (\<lambda>err. State_Monad.return (Inl err))
        (dispatch_call sub' env rt input mid iter tc policies))) s1"
    if "never_approved env input tc" for s1
    by (rule bind_run_cong)
      (auto simp: dispatch_unapproved [where sub' = sub'] dest: never_approved_denied [OF that] split: sum.splits)
  have allowed: "never_approved env input tc" if "run_state ?auth s = (Inr a, s1)" "ar_Allowed a" for a s1
    using assms never_authorized_denied [OF _ that(1)] that(2) by blast
  have e: "AuthorizeTool (li_Tools (input\<lparr>li_Tools := ?ts\<rparr>)) (tr_ToolName tc) (tr_Args tc) =
      AuthorizeTool (li_Tools input) (tr_ToolName tc) (tr_Args tc)" by simp
  show ?thesis
    unfolding authorized_call_def other_tools_simps e
    by (rule bind_run_cong) (auto simp: gate dest: allowed split: sum.splits simp del: run_state_bind)
qed

lemma check_tripped_open:
  assumes "circuit_open input tc s" "run_state (check_tripped input tc) s = (tripped, s')"
  shows "tripped"
  using assms by (auto simp: circuit_open_def check_tripped_def split: prod.splits)

lemma circuit_open_events: "circuit_open input tc (s\<lparr>w_events := es\<rparr>) = circuit_open input tc s"
  by (simp add: circuit_open_def breaker_at_def cong: branch_congs)

lemma emit_args_world: "run_state (emit_args env rt input tc) s = ((), s') \<Longrightarrow> \<exists>es. s' = s\<lparr>w_events := es\<rparr>"
  by (auto simp: emit_args_def run_emit split: option.splits if_splits intro: exI [of _ "w_events s"])

text \<open>C4. A call that is not allowed runs nothing: if its tool is unknown, if its circuit is open, if
  its authorizer never allows it, or if it needs an approval and none is ever given, then the
  call ends in the same result and the same world whatever the tools' implementations are and
  whatever a sub-agent would do. Neither a tool's code nor a sub-agent is entered.\<close>

theorem barred_call_runs_nothing:
  assumes "barred env input tc s"
  shows "run_state (executeSingleTool sub env rt (input\<lparr>li_Tools := rearm f (li_Tools input)\<rparr>) mid iter policies tc) s =
    run_state (executeSingleTool sub' env rt input mid iter policies tc) s"
proof -
  let ?in = "input\<lparr>li_Tools := rearm f (li_Tools input)\<rparr>"
  have r: "run_state (State_Monad.bind (check_tripped input tc) (\<lambda>tripped. if tripped then skip
        else authorized_call sub env rt ?in mid iter tc policies)) s1 =
      run_state (State_Monad.bind (check_tripped input tc) (\<lambda>tripped. if tripped then skip
        else authorized_call sub' env rt input mid iter tc policies)) s1"
    if "\<not> IsUnknownTool tc (li_Tools input)" "circuit_open input tc s1 = circuit_open input tc s" for s1 skip
    using assms that by (intro bind_run_cong)
      (auto simp: barred_def barred_authorized_call [where sub' = sub'] dest: check_tripped_open)
  have u: "IsUnknownTool tc (li_Tools ?in) = IsUnknownTool tc (li_Tools input)" by simp
  show ?thesis
    unfolding executeSingleTool_def other_tools_simps u
    by (intro bind_run_cong)
      (auto simp: run_emit circuit_open_events intro!: r dest!: emit_args_world simp del: run_state_bind)
qed

text \<open>A tool that would fail if it ran.\<close>

definition boom :: "string \<Rightarrow> tool_exec_meta option \<Rightarrow> go_args \<Rightarrow> (nat, go_error + tool_value) state" where
  "boom = (\<lambda>name meta args. State_Monad.return (Inl (ErrNew ''boom'')))"

theorem barred_call_runs_nothing_witness:
  "run_state (executeSingleTool sample_sub sample_env ok_runtime
      (sample_input\<lparr>li_Tools := rearm boom (li_Tools sample_input)\<rparr>)
      ''m'' 0 (executionPolicies ok_runtime) gated_call) (new_world 0) =
   run_state (executeSingleTool (\<lambda>rt input. State_Monad.return (None, Some (ErrNew ''other''))) sample_env
      ok_runtime sample_input ''m'' 0 (executionPolicies ok_runtime) gated_call) (new_world 0)"
proof (rule barred_call_runs_nothing)
  have "ApprovalRejected \<noteq> ApprovalApproved" by (simp add: ApprovalRejected_def ApprovalApproved_def)
  then show "barred sample_env sample_input gated_call (new_world 0)"
    by (simp add: barred_def never_approved_def gated_call_def sample_env_def)
qed

end
