(* ===== verification/Run_Loop.thy ===== *)
theory Run_Loop
  imports Run_Calls
begin

text \<open>
  The run as a whole: the recursion through sub-agents, termination and the number of LLM calls,
  the transcript of messages, the budget, and the channel a run publishes on.
\<close>

section \<open>Sub-agents\<close>

text \<open>Two runners that agree on every run an input can delegate to.\<close>

definition sub_agree :: "'w loop_input \<Rightarrow> 'w sub_runner \<Rightarrow> 'w sub_runner \<Rightarrow> bool" where
  "sub_agree input sub sub' \<longleftrightarrow> (li_SubAgentDepth input < li_MaxSubAgentDepth input \<longrightarrow>
     (\<forall>lr child. li_SubAgentDepth child = li_SubAgentDepth input + 1 \<and>
        li_MaxSubAgentDepth child = li_MaxSubAgentDepth input \<longrightarrow> sub lr child = sub' lr child))"

lemma sub_agree_simps [simp]:
  "sub_agree (input\<lparr>li_circuitBreaker := c\<rparr>) = sub_agree input"
  "sub_agree (input\<lparr>li_circuitNow := t\<rparr>) = sub_agree input"
  by (simp_all add: fun_eq_iff sub_agree_def)

lemma delegate_cong:
  assumes "sub_agree input sub sub'"
  shows "delegate sub env rt input r tc = delegate sub' env rt input r tc"
proof (cases "li_SubAgentDepth input < li_MaxSubAgentDepth input")
  case True
  then have "delegate_once sub env input r lr tc = delegate_once sub' env input r lr tc" for lr
    using assms by (simp add: delegate_once_def sub_agree_def child_input_def)
  then show ?thesis by (simp add: delegate_def cong: branch_congs)
qed (simp add: delegate_def)

lemma executeSingleTool_cong: "sub_agree input sub sub' \<Longrightarrow>
    executeSingleTool sub env rt input mid iter policies tc = executeSingleTool sub' env rt input mid iter policies tc"
  by (simp add: executeSingleTool_def authorized_call_def dispatch_call_def delegate_cong cong: branch_congs)

lemma execute_tools_cong:
  assumes "sub_agree input sub sub'"
  shows "execute_tools sub env rt input mid iter calls policies = execute_tools sub' env rt input mid iter calls policies"
proof -
  have "settle_call sub env rt input mid iter policies = settle_call sub' env rt input mid iter policies"
    by (intro HOL.ext) (simp add: settle_call_def executeSingleTool_cong [OF assms])
  then show ?thesis
    by (simp add: execute_tools_def executeToolsParallel_def executeToolsSequential_def Let_def)
qed

lemma loop_turn_cong:
  assumes "sub_agree input sub sub'"
  shows "loop_turn sub env rt input cx policies iter st = loop_turn sub' env rt input cx policies iter st"
proof -
  have "answered_turn sub env rt input' cx policies mid iter res st' =
      answered_turn sub' env rt input' cx policies mid iter res st'"
    if "sub_agree input' sub sub'" for input' mid res st'
    using that by (simp add: answered_turn_def tool_round_def execute_tools_cong cong: branch_congs)
  with assms show ?thesis by (simp add: loop_turn_def cong: branch_congs)
qed

lemma agent_loop_cong:
  assumes "sub_agree input sub sub'"
  shows "agent_loop sub env rt input = agent_loop sub' env rt input"
proof -
  have "loop_turn sub env rt input' cx policies = loop_turn sub' env rt input' cx policies"
    if "sub_agree input' sub sub'" for input' cx policies
    by (intro HOL.ext loop_turn_cong that)
  with assms show ?thesis by (simp add: agent_loop_def Let_def cong: branch_congs)
qed

lemma depth_left_child: "depth_left input \<le> Suc n \<Longrightarrow> li_SubAgentDepth input < li_MaxSubAgentDepth input \<Longrightarrow>
    li_SubAgentDepth child = li_SubAgentDepth input + 1 \<Longrightarrow>
    li_MaxSubAgentDepth child = li_MaxSubAgentDepth input \<Longrightarrow> depth_left child \<le> n"
  by (simp add: depth_left_def)

lemma executeAgentLoop_enough:
  fixes input :: "'w loop_input"
  shows "depth_left input \<le> n \<Longrightarrow> depth_left input \<le> m \<Longrightarrow>
    executeAgentLoop n env rt input = executeAgentLoop m env rt input"
proof (induction n arbitrary: m rt input)
  case 0
  then have "sub_agree input sub sub'" for sub sub' :: "'w sub_runner"
    by (simp add: sub_agree_def depth_left_def)
  then show ?case by (cases m) (auto intro: agent_loop_cong)
next
  case (Suc n)
  show ?case
  proof (cases m)
    case 0
    with Suc.prems have "sub_agree input sub sub'" for sub sub' :: "'w sub_runner"
      by (simp add: sub_agree_def depth_left_def)
    with 0 show ?thesis by (auto intro: agent_loop_cong)
  next
    case (Suc k)
    have "sub_agree input (executeAgentLoop n env) (executeAgentLoop k env)"
      unfolding sub_agree_def
      using Suc.IH Suc.prems Suc by (auto intro!: Suc.IH dest: depth_left_child)
    then show ?thesis using Suc by (auto intro: agent_loop_cong)
  qed
qed

lemma runAgentLoop_fuel: "executeAgentLoop (depth_left input + k) env rt input = runAgentLoop env rt input"
  unfolding runAgentLoop_def by (rule executeAgentLoop_enough) simp_all

lemma runAgentLoop_unfold: "runAgentLoop env rt input = agent_loop (runAgentLoop env) env rt input"
proof -
  have "runAgentLoop env rt input = agent_loop (executeAgentLoop (depth_left input) env) env rt input"
    using runAgentLoop_fuel [of input 1 env rt] by simp
  also have "\<dots> = agent_loop (runAgentLoop env) env rt input"
    by (rule agent_loop_cong)
      (auto simp: sub_agree_def runAgentLoop_def depth_left_def intro!: executeAgentLoop_enough)
  finally show ?thesis .
qed

text \<open>The model's fuelled recursion is the code's recursion: a run is the loop in which every
  delegation starts a run of the sub-agent by the same function. The nesting depth left bounds
  the recursion, whatever the routes are, cyclic ones included, and any larger fuel gives the
  same run.\<close>

theorem run_unfolds:
  "runAgentLoop env rt input = agent_loop (runAgentLoop env) env rt input \<and>
   executeAgentLoop (depth_left input + k) env rt input = runAgentLoop env rt input"
  using runAgentLoop_unfold runAgentLoop_fuel by blast

section \<open>Results of computations\<close>

text \<open>\<open>yields m P\<close>: every result of \<open>m\<close> satisfies \<open>P\<close>, whatever the world.\<close>

definition yields :: "('s, 'a) state \<Rightarrow> ('a \<Rightarrow> bool) \<Rightarrow> bool" where
  "yields m P \<longleftrightarrow> (\<forall>s. P (fst (run_state m s)))"

lemma yieldsD: "yields m P \<Longrightarrow> run_state m s = (a, s') \<Longrightarrow> P a"
  by (metis fst_conv yields_def)

named_theorems yields_rules \<open>syntax-directed rules for results\<close>

lemma yields_return [yields_rules]: "P a \<Longrightarrow> yields (State_Monad.return a) P"
  by (simp add: yields_def)

lemma yields_bind_with: "yields m R \<Longrightarrow> (\<And>a. R a \<Longrightarrow> yields (f a) P) \<Longrightarrow> yields (State_Monad.bind m f) P"
  by (auto simp: yields_def split: prod.splits) (metis fst_conv)

lemma yields_bind [yields_rules]: "(\<And>a. yields (f a) P) \<Longrightarrow> yields (State_Monad.bind m f) P"
  by (auto simp: yields_def split: prod.splits)

lemma yields_if [yields_rules]: "(c \<Longrightarrow> yields m P) \<Longrightarrow> (\<not> c \<Longrightarrow> yields n P) \<Longrightarrow> yields (if c then m else n) P"
  by simp

lemma yields_case_sum [yields_rules]: "(\<And>e. x = Inl e \<Longrightarrow> yields (f e) P) \<Longrightarrow>
    (\<And>a. x = Inr a \<Longrightarrow> yields (h a) P) \<Longrightarrow> yields (case x of Inl e \<Rightarrow> f e | Inr a \<Rightarrow> h a) P"
  by (cases x) simp_all

lemma yields_case_option [yields_rules]: "(x = None \<Longrightarrow> yields m P) \<Longrightarrow>
    (\<And>a. x = Some a \<Longrightarrow> yields (f a) P) \<Longrightarrow> yields (case x of None \<Rightarrow> m | Some a \<Rightarrow> f a) P"
  by (cases x) simp_all

lemma yields_case_prod [yields_rules]: "(\<And>a b. x = (a, b) \<Longrightarrow> yields (f a b) P) \<Longrightarrow>
    yields (case x of (a, b) \<Rightarrow> f a b) P"
  by (cases x) simp

lemma yields_Let [yields_rules]: "yields (f x) P \<Longrightarrow> yields (let y = x in f y) P" by simp

lemma yields_weaken: "yields m P \<Longrightarrow> (\<And>a. P a \<Longrightarrow> Q a) \<Longrightarrow> yields m Q"
  by (simp add: yields_def)

section \<open>Termination\<close>

definition llm_calls :: "loop_state \<Rightarrow> int" where
  "llm_calls st = rn_TotalLLMCalls (te_Run (lp_telemetry st))"

text \<open>The turns a loop has left: an extension grants at most as many again as it started with.\<close>

definition turns_left :: "int \<Rightarrow> int \<Rightarrow> loop_state \<Rightarrow> int" where
  "turns_left orig iter st = lp_maxIter st - iter + (if lp_iterationsExtended st then 0 else orig)"

definition loop_inv :: "int \<Rightarrow> int \<Rightarrow> loop_state \<Rightarrow> bool" where
  "loop_inv orig iter st \<longleftrightarrow> 0 \<le> iter \<and> 0 \<le> turns_left orig iter st \<and>
     iter + turns_left orig iter st \<le> 2 * orig \<and> llm_calls st = iter"

text \<open>What the result of a run reports.\<close>

definition calls_within :: "int \<Rightarrow> loop_outcome \<Rightarrow> bool" where
  "calls_within bound out = (case out of
      (None, err) \<Rightarrow> err \<noteq> None
    | (Some res, err) \<Rightarrow> 0 \<le> rn_TotalLLMCalls (te_Run (al_Telemetry res)) \<and>
        rn_TotalLLMCalls (te_Run (al_Telemetry res)) \<le> bound)"

definition turn_ok :: "int \<Rightarrow> int \<Rightarrow> turn_end \<Rightarrow> bool" where
  "turn_ok orig iter e = (case e of
      Continue st \<Rightarrow> loop_inv orig (iter + 1) st
    | Break st \<Rightarrow> 0 \<le> llm_calls st \<and> llm_calls st \<le> 2 * orig + 1
    | Return res err \<Rightarrow> calls_within (2 * orig + 1) (res, Some err))"

lemma llm_calls_simps [simp]:
  "llm_calls (st\<lparr>lp_messages := m\<rparr>) = llm_calls st" "llm_calls (st\<lparr>lp_persisted := k\<rparr>) = llm_calls st"
  "llm_calls (st\<lparr>lp_maxIter := i\<rparr>) = llm_calls st" "llm_calls (st\<lparr>lp_iterationsExtended := b\<rparr>) = llm_calls st"
  "llm_calls (st\<lparr>lp_lastContent := c\<rparr>) = llm_calls st" "llm_calls (st\<lparr>lp_llmUsage := u\<rparr>) = llm_calls st"
  "llm_calls (st\<lparr>lp_useFallback := b\<rparr>) = llm_calls st"
  "llm_calls (st\<lparr>lp_telemetry := t\<rparr>) = rn_TotalLLMCalls (te_Run t)"
  by (simp_all add: llm_calls_def)

lemma telemetry_calls [simp]:
  "rn_TotalLLMCalls (te_Run (set_finish reason t)) = rn_TotalLLMCalls (te_Run t)"
  "rn_TotalLLMCalls (te_Run (count_llm_call t)) = rn_TotalLLMCalls (te_Run t) + 1"
  "rn_TotalLLMCalls (te_Run (record_call tc failed t)) = rn_TotalLLMCalls (te_Run t)"
  by (simp_all add: set_finish_def count_llm_call_def record_call_def Let_def)

lemma fold_record_calls [simp]: "rn_TotalLLMCalls (te_Run (fold (\<lambda>(tc, failed) t. record_call tc failed t) xs t)) =
    rn_TotalLLMCalls (te_Run t)"
  by (induction xs arbitrary: t) (auto simp: record_call_def Let_def)

lemma turns_left_simps [simp]:
  "turns_left orig iter (st\<lparr>lp_messages := m\<rparr>) = turns_left orig iter st"
  "turns_left orig iter (st\<lparr>lp_persisted := k\<rparr>) = turns_left orig iter st"
  "turns_left orig iter (st\<lparr>lp_telemetry := t\<rparr>) = turns_left orig iter st"
  "turns_left orig iter (st\<lparr>lp_llmUsage := u\<rparr>) = turns_left orig iter st"
  "turns_left orig iter (st\<lparr>lp_useFallback := b\<rparr>) = turns_left orig iter st"
  by (simp_all add: turns_left_def)

lemma turns_left_step: "turns_left orig (iter + 1) st = turns_left orig iter st - 1"
  by (simp add: turns_left_def)

lemma budget_return_ok: "0 \<le> llm_calls st \<Longrightarrow> llm_calls st \<le> 2 * orig + 1 \<Longrightarrow> turn_ok orig iter (budget_return st be)"
  by (simp add: turn_ok_def budget_return_def calls_within_def llm_calls_def)

text \<open>The turn's own call has been counted: \<open>llm_calls st = iter + 1\<close>.\<close>

lemma persist_new_yields: "yields (persist_new env rt input st) (\<lambda>st'. \<exists>k. st' = st\<lparr>lp_persisted := k\<rparr>)"
proof -
  have "st = st\<lparr>lp_persisted := lp_persisted st\<rparr>" by simp
  then show ?thesis
    unfolding persist_new_def by (intro yields_rules) blast+
qed

lemma tool_round_yields:
  assumes "loop_inv orig (iter + 1) st"
  shows "yields (tool_round sub env rt input mid iter result policies st) (turn_ok orig iter)"
proof -
  let ?ok = "\<lambda>st'. turns_left orig iter st' = turns_left orig iter st \<and> llm_calls st' = llm_calls st"
  have inv: "turn_ok orig iter (Continue st')" "turn_ok orig iter (budget_return st' be)" if "?ok st'" for st' be
  proof -
    show "turn_ok orig iter (Continue st')"
      using assms that by (simp add: turn_ok_def loop_inv_def turns_left_step)
    show "turn_ok orig iter (budget_return st' be)"
      using assms that by (intro budget_return_ok) (simp_all add: loop_inv_def turns_left_step)
  qed
  show ?thesis
    unfolding tool_round_def Let_def
    by (intro yields_rules yields_bind_with [OF persist_new_yields])
      (auto intro!: inv simp: calls_within_def turn_ok_def [of _ _ "Return _ _"] simp flip: llm_calls_def)
qed

lemma final_call_yields:
  assumes "loop_inv orig (iter + 1) st"
  shows "yields (final_call env rt input cx iter policies st) (turn_ok orig iter)"
  unfolding final_call_def Let_def using assms
  by (intro yields_rules)
    (auto simp: calls_within_def turn_ok_def loop_inv_def llm_calls_def budget_return_def split: option.splits)

lemma decision_yields: "yields (DecideMaxIterations cfg info already) (\<lambda>d.
    ec_Action d = ErrorControlExtendIterations \<longrightarrow> \<not> already \<and> 1 \<le> ec_ExtraIterations d \<and>
      ec_ExtraIterations d \<le> EffectiveMaxIterations (mi_MaxIterations info))"
proof -
  have n: "ErrorControlContinueWithFinalCall \<noteq> ErrorControlExtendIterations"
    by (simp add: ErrorControlExtendIterations_def ErrorControlContinueWithFinalCall_def)
  have "ec_Action d = ErrorControlExtendIterations \<longrightarrow> \<not> already \<and> 1 \<le> ec_ExtraIterations d \<and>
      ec_ExtraIterations d \<le> EffectiveMaxIterations (mi_MaxIterations info)"
    if "run_state (DecideMaxIterations cfg info already) s = (d, s')" for s d s'
    using max_iterations_decision [OF that] n by metis
  then show ?thesis unfolding yields_def by (metis prod.collapse)
qed

lemma answered_turn_yields:
  assumes "loop_inv orig (iter + 1) st" "cx_originalMaxIter cx = orig" "0 < orig"
  shows "yields (answered_turn sub env rt input cx policies mid iter result st) (turn_ok orig iter)"
proof -
  have "loop_inv orig (iter + 1) (st\<lparr>lp_maxIter := lp_maxIter st + extra, lp_iterationsExtended := True\<rparr>)"
    if "iter = lp_maxIter st - 1" "\<not> lp_iterationsExtended st" "1 \<le> extra" "extra \<le> orig" for extra
    using assms(1) that by (simp add: loop_inv_def turns_left_def)
  moreover have "EffectiveMaxIterations orig = orig" using assms(3) by (simp add: EffectiveMaxIterations_def)
  moreover have "turn_ok orig iter (Break (st\<lparr>lp_messages := m, lp_lastContent := c\<rparr>))" for m c
    using assms(1) by (simp add: turn_ok_def loop_inv_def)
  ultimately show ?thesis
    unfolding answered_turn_def using assms
    by (intro yields_if yields_return yields_bind_with [OF decision_yields] tool_round_yields
      final_call_yields) simp_all
qed

lemma loop_turn_yields:
  assumes "loop_inv orig iter st" "iter < lp_maxIter st" "cx_originalMaxIter cx = orig" "0 < orig"
  shows "yields (loop_turn sub env rt input cx policies iter st) (turn_ok orig iter)"
proof -
  have counted: "loop_inv orig (iter + 1) (st\<lparr>lp_useFallback := f, lp_telemetry := count_llm_call (lp_telemetry st),
      lp_llmUsage := u\<rparr>)" for f u
    using assms by (simp add: loop_inv_def turns_left_def llm_calls_def)
  then have stopped: "turn_ok orig iter (budget_return (st\<lparr>lp_useFallback := f,
      lp_telemetry := count_llm_call (lp_telemetry st), lp_llmUsage := u\<rparr>) be)" for f u be
    using assms by (intro budget_return_ok) (auto simp: loop_inv_def turns_left_def llm_calls_def split: if_splits)
  have "turn_ok orig iter (Return None err)" for err
    by (simp add: turn_ok_def calls_within_def)
  with counted stopped show ?thesis
    unfolding loop_turn_def Let_def using assms
    by (intro yields_rules answered_turn_yields) simp_all
qed

definition loop_done :: "int \<Rightarrow> turn_end option \<Rightarrow> bool" where
  "loop_done orig e = (case e of
      Some (Break st) \<Rightarrow> 0 \<le> llm_calls st \<and> llm_calls st \<le> 2 * orig + 1
    | Some (Return res err) \<Rightarrow> calls_within (2 * orig + 1) (res, Some err)
    | _ \<Rightarrow> False)"

lemma loop_rounds_yields:
  assumes "\<And>iter st. loop_inv orig iter st \<Longrightarrow> iter < lp_maxIter st \<Longrightarrow> yields (turn iter st) (turn_ok orig iter)"
  shows "loop_inv orig iter st \<Longrightarrow> 2 * orig \<le> iter + int n \<Longrightarrow> 0 \<le> orig \<Longrightarrow>
    yields (loop_rounds turn n iter st) (loop_done orig)"
proof (induction n arbitrary: iter st)
  case 0
  then have "\<not> iter < lp_maxIter st" by (auto simp: loop_inv_def turns_left_def split: if_splits)
  with 0 show ?case
    by (subst loop_rounds.simps) (auto simp: loop_done_def loop_inv_def intro!: yields_return)
next
  case (Suc n)
  have stop: "loop_done orig (Some (Break st))"
    using Suc.prems by (auto simp: loop_done_def loop_inv_def)
  have "yields (case e of Continue st' \<Rightarrow> loop_rounds turn n (iter + 1) st'
        | Break st' \<Rightarrow> State_Monad.return (Some (Break st'))
        | Return res err \<Rightarrow> State_Monad.return (Some (Return res err))) (loop_done orig)"
    if "turn_ok orig iter e" for e
    using that Suc.prems
    by (cases e) (auto simp: turn_ok_def loop_done_def intro!: yields_return Suc.IH)
  then show ?case
    by (subst loop_rounds.simps)
      (auto intro!: yields_if yields_return stop yields_bind_with [OF assms [OF Suc.prems(1)]])
qed

lemma store_memories_yields: "yields (store_memories env rt input policies messages t)
    (\<lambda>t'. rn_TotalLLMCalls (te_Run t') = rn_TotalLLMCalls (te_Run t))"
  unfolding store_memories_def by (intro yields_rules) (auto split: option.splits)

lemma complete_run_yields:
  assumes "0 \<le> llm_calls st" "llm_calls st \<le> bound"
  shows "yields (complete_run env rt input policies st) (calls_within bound)"
  unfolding complete_run_def
  by (intro yields_bind_with [OF persist_new_yields] yields_bind_with [OF store_memories_yields] yields_rules)
    (use assms in \<open>auto simp: calls_within_def llm_calls_def\<close>)

lemma recall_memory_yields: "yields (recall_memory env rt input policies t)
    (\<lambda>r. case r of Inl _ \<Rightarrow> True | Inr (_, t') \<Rightarrow> te_Run t' = te_Run t)"
  unfolding recall_memory_def by (intro yields_rules) (auto split: sum.splits)

lemma prefetch_documents_yields: "yields (prefetch_documents env rt input policies t)
    (\<lambda>r. case r of Inl _ \<Rightarrow> True | Inr (_, t') \<Rightarrow> te_Run t' = te_Run t)"
  unfolding prefetch_documents_def by (intro yields_rules) (auto split: sum.splits)

lemma agent_loop_yields:
  "yields (agent_loop sub env rt input) (calls_within (2 * EffectiveMaxIterations (rt_MaxIterations rt) + 1))"
    (is "yields _ ?P")
proof -
  let ?orig = "EffectiveMaxIterations (rt_MaxIterations rt)"
  have pos: "0 < ?orig" by (simp add: EffectiveMaxIterations_def)
  have failed: "?P (None, Some err)" for err by (simp add: calls_within_def)
  have ended: "yields (case e of
        None \<Rightarrow> State_Monad.return (None, None)
      | Some (Return res err) \<Rightarrow> State_Monad.return (res, Some err)
      | Some (Break st) \<Rightarrow> complete_run env rt input' policies st
      | Some (Continue st) \<Rightarrow> State_Monad.return (None, None)) ?P"
    if "loop_done ?orig e" for e input' policies
    using that
    by (auto simp: loop_done_def split: option.splits turn_end.splits
        intro!: yields_return complete_run_yields)
  have rounds: "yields (loop_rounds (loop_turn sub env rt input' cx policies) (loop_fuel rt) 0
        (loop_start msgs ?orig t)) (loop_done ?orig)"
    if "te_Run t = te_Run (NewAgentTelemetry started)" "cx_originalMaxIter cx = ?orig"
    for input' cx policies msgs t started
  proof (rule loop_rounds_yields)
    show "loop_inv ?orig 0 (loop_start msgs ?orig t)"
      using pos that by (simp add: loop_inv_def turns_left_def loop_start_def llm_calls_def NewAgentTelemetry_def)
  qed (use pos that in \<open>auto simp: loop_fuel_def intro: loop_turn_yields\<close>)
  show ?thesis
    unfolding agent_loop_def Let_def
    by (intro yields_bind yields_bind_with [OF recall_memory_yields] yields_bind_with [OF prefetch_documents_yields]
        yields_bind_with [OF rounds ended] yields_case_sum yields_case_prod) (auto intro: yields_return failed)
qed

text \<open>C1. A run ends, whatever the model, the tools, the approvals and the error-control handler
  do: the loop never uses up its fuel, so it yields a result or an error, and the LLM calls it
  reports are at most twice the configured iterations plus the final call without tools. (Each
  call of the external world is taken to return.)\<close>

theorem run_terminates:
  "case run_state (runAgentLoop env rt input) s of (out, s') \<Rightarrow>
     calls_within (2 * EffectiveMaxIterations (rt_MaxIterations rt) + 1) out \<and> out \<noteq> (None, None)"
proof -
  have "yields (runAgentLoop env rt input)
      (calls_within (2 * EffectiveMaxIterations (rt_MaxIterations rt) + 1))"
    by (subst runAgentLoop_unfold) (rule agent_loop_yields)
  moreover have "\<not> calls_within n (None, None)" for n by (simp add: calls_within_def)
  ultimately show ?thesis by (auto dest: yieldsD)
qed

end
