(* ===== verification/Run_Frames.thy ===== *)
theory Run_Frames
  imports Run_Loop
begin

text \<open>
  What a run leaves alone. A frame is a relation between the world before and after that the
  primitive effects respect; the locales \<open>world_frame\<close> and \<open>run_frame\<close> carry it from the primitive
  effects through LLM calls, tools, memory and delegation to the whole run. It is interpreted by
  confinement to a channel, for any run, and by an untouched budget tracker, for the parts of a
  run that do not spend.
\<close>

section \<open>Frames\<close>

locale world_frame =
  fixes R :: "'w world \<Rightarrow> 'w world \<Rightarrow> bool"
    and ok :: "string \<Rightarrow> agent_event \<Rightarrow> bool"
  assumes R_refl: "reflp R"
    and R_trans: "transp R"
    and R_ext: "R s (s\<lparr>w_ext := w\<rparr>)"
    and R_counter: "R s (s\<lparr>w_counters := w_counters s @ [c]\<rparr>)"
    and R_breakers: "R s (s\<lparr>w_breakers := b\<rparr>)"
    and R_event: "ok ch ev \<Longrightarrow> R s (s\<lparr>w_events := w_events s @ [(ch, ev)]\<rparr>)"
begin

lemma frame_return: "keeps R (State_Monad.return a)"
  by (rule keeps_return [OF R_refl])

lemma frame_bind: "keeps R m \<Longrightarrow> (\<And>a. keeps R (f a)) \<Longrightarrow> keeps R (State_Monad.bind m f)"
  by (rule keeps_bind [OF R_trans])

lemma frame_bind_with: "yields m P \<Longrightarrow> keeps R m \<Longrightarrow> (\<And>a. P a \<Longrightarrow> keeps R (f a)) \<Longrightarrow>
    keeps R (State_Monad.bind m f)"
  unfolding keeps_def yields_def by (auto split: prod.splits) (metis R_trans fst_conv snd_conv transpD)

lemma frame_ext: "keeps R (ext m)"
  by (intro keeps_ext R_ext)

lemma frame_counter: "keeps R (IncrementCounter n as)"
  by (simp add: keeps_def R_counter)

lemma frame_emit: "ok ch ev \<Longrightarrow> keeps R (emit_to ch ev)"
  by (simp add: keeps_def R_event)

lemma frame_ext_only: "keeps ext_only m \<Longrightarrow> keeps R m"
proof (rule keepsI)
  fix s a s' assume "keeps ext_only m" "run_state m s = (a, s')"
  then have "s' = s\<lparr>w_ext := w_ext s'\<rparr>" by (auto simp: ext_only_def dest!: keepsD)
  then show "R s s'" by (metis R_ext)
qed

lemma frame_read: "keeps R read_tracker" "keeps R (read_breaker r)"
  using R_refl by (simp_all add: keeps_def reflpD)

lemma frame_write_breaker: "keeps R (write_breaker r c)"
  using R_refl by (auto simp: keeps_def R_breakers reflpD split: option.split)

lemma frame_alloc_breaker: "keeps R (alloc_breaker c)"
  using R_refl by (auto simp: keeps_def R_breakers reflpD split: option.split)

lemma frame_mapM: "(\<And>x. keeps R (f x)) \<Longrightarrow> keeps R (mapM f xs)"
  by (rule keeps_mapM [OF R_refl R_trans])

lemma frame_foldM: "(\<And>b x. keeps R (f b x)) \<Longrightarrow> keeps R (foldM f b xs)"
  by (rule keeps_foldM [OF R_refl R_trans])

lemma frame_policy: "keeps R op \<Longrightarrow> keeps R (executeWithPolicy ctx p op)"
  by (intro executeWithPolicy_keeps R_refl R_trans R_ext)

lemma frame_policy_err: "keeps R op \<Longrightarrow> keeps R (executeWithPolicyErr ctx p op)"
  unfolding executeWithPolicyErr_def
  by (intro frame_bind frame_policy frame_return keeps_splits)

lemmas frame_basic = keeps_splits frame_bind frame_return frame_ext frame_counter frame_read
  frame_write_breaker frame_alloc_breaker frame_mapM frame_foldM frame_policy frame_policy_err

text \<open>Hooks only reach the external world.\<close>

lemmas frame_hooks = hook_frames [THEN frame_ext_only] memory_hook_frames [THEN frame_ext_only]
  load_or_recent_frame [THEN frame_ext_only] executeRetrieverTool_frame [THEN frame_ext_only]
  AuthorizeTool_frame [THEN frame_ext_only]

lemmas frame_rules = frame_basic frame_hooks

text \<open>LLM calls, given that what they publish is in the frame.\<close>

definition emits_ok :: "(agent_event \<Rightarrow> ('w, unit) io) option \<Rightarrow> bool" where
  "emits_ok fn \<longleftrightarrow> (\<forall>f ev. fn = Some f \<longrightarrow> keeps R (f ev))"

lemma frame_emitEvent: "emits_ok fn \<Longrightarrow> keeps R (emitEvent fn ev)"
  unfolding emitEvent_def emits_ok_def by (intro frame_rules) simp

lemma frame_llmResponse: "keeps R (llmResponseToResult rt resp tools)"
  unfolding llmResponseToResult_def resolve_call_def NoteUnknownTool_def by (intro frame_rules)

lemma frame_ExecuteLLM: "emits_ok (xl_Emit xl) \<Longrightarrow> keeps R (ExecuteLLM rt xl)"
  unfolding ExecuteLLM_def emit_message_def Let_def
  by (intro frame_rules frame_llmResponse frame_emitEvent)

lemma frame_flushReasoning: "emits_ok fn \<Longrightarrow> keeps R (flushReasoning fn st)"
  unfolding flushReasoning_def by (intro frame_rules frame_emitEvent)

lemma frame_stream_turn: "emits_ok fn \<Longrightarrow> keeps R (stream_turn env fn mid st chunk)"
  unfolding stream_turn_def stream_text_def stream_thinking_def openTextMsg_def openReasoning_def
  by (intro frame_rules frame_emitEvent frame_flushReasoning)

lemma frame_stream_complete: "emits_ok (xl_Emit xl) \<Longrightarrow> keeps R (stream_complete rt xl client st resp)"
  unfolding stream_complete_def stream_failed_def finalizeAssistantText_def openTextMsg_def closeTextMsg_def
  by (intro frame_rules frame_emitEvent frame_llmResponse)

lemma frame_ExecuteLLMStream: "emits_ok (xl_Emit xl) \<Longrightarrow> keeps R (ExecuteLLMStream env rt xl)"
  unfolding ExecuteLLMStream_def stream_consume_def stream_failed_def Let_def
  by (intro frame_rules frame_flushReasoning frame_stream_turn frame_stream_complete)

text \<open>Memory.\<close>

lemma frame_storeRecord: "keeps R (storeRecord env rt cfg m runID iter scope rec)"
  unfolding storeRecord_def store_with_def dedupStoreOptions_def store_failed_def Let_def
  by (intro frame_rules)

lemma frame_StoreMemoryRecords: "keeps R (StoreMemoryRecords env rt runID iter scope recs)"
proof -
  have "keeps R (store_records (storeRecord env rt cfg m runID iter scope) recs)" for cfg m
    by (induction recs) (auto intro!: frame_rules frame_storeRecord)
  then show ?thesis unfolding StoreMemoryRecords_def by (intro frame_rules)
qed

lemma frame_ExecuteMemoryStore: "keeps R (ExecuteMemoryStore env rt runID iter scope msgs)"
  unfolding ExecuteMemoryStore_def extractMemoryRecords_def by (intro frame_rules frame_StoreMemoryRecords)

lemma frame_ExecuteMemoryRecall: "keeps R (ExecuteMemoryRecall rt runID iter scope query)"
  unfolding ExecuteMemoryRecall_def recall_failed_def Let_def by (intro frame_rules)

text \<open>Tools and retrievers.\<close>

lemma frame_ExecuteTool: "keeps R (ExecuteTool env rt xt scope)"
  unfolding ExecuteTool_def executeSaveMemoryTool_def executeTool_def run_tool_def execute_and_hook_def
    tool_failed_def tool_completed_def NoteUnknownTool_def Let_def
  by (intro frame_rules frame_StoreMemoryRecords)

lemma frame_run_batch: "(\<And>i x. keeps R (f i x)) \<Longrightarrow> keeps R (run_batch env f xs)"
  unfolding run_batch_def batch_slot_def by (intro frame_rules)

lemma frame_ExecuteRetrievers: "keeps R (ExecuteRetrievers env rt runID iter query)"
  unfolding ExecuteRetrievers_def run_retriever_def retrieve_failed_def Let_def
  by (intro frame_rules frame_run_batch)

text \<open>The parts of a run that neither publish nor spend.\<close>

lemma frame_persist_new: "keeps R (persist_new env rt input st)"
  unfolding persist_new_def persistConversationMessages_def by (intro frame_rules)

lemma frame_store_memories: "keeps R (store_memories env rt input policies msgs t)"
  unfolding store_memories_def by (intro frame_rules frame_ExecuteMemoryStore)

lemma frame_complete_run: "keeps R (complete_run env rt input policies st)"
  unfolding complete_run_def by (intro frame_rules frame_persist_new frame_store_memories)

lemma frame_recall_memory: "keeps R (recall_memory env rt input policies t)"
  unfolding recall_memory_def by (intro frame_rules frame_ExecuteMemoryRecall)

lemma frame_prefetch_documents: "keeps R (prefetch_documents env rt input policies t)"
  unfolding prefetch_documents_def by (intro frame_rules frame_ExecuteRetrievers)

lemma frame_initial_messages: "keeps R (initial_messages rt input)"
  unfolding initial_messages_def FetchConversationMessages_def Let_def by (intro frame_rules)

text \<open>The events of a run that the frame admits.\<close>

definition admits :: "'w loop_input \<Rightarrow> bool" where
  "admits input \<longleftrightarrow> (\<forall>ev. event_allowed (li_EventTypes input) ev \<longrightarrow> ok (li_ChannelName input) ev) \<and>
     (li_EnforceBudget input \<longrightarrow> (\<forall>v. ok (li_ChannelName input) (CustomEvent CustomNameBudget v)))"

lemma admits_simps [simp]:
  "admits (input\<lparr>li_circuitBreaker := c\<rparr>) = admits input"
  "admits (input\<lparr>li_circuitNow := n\<rparr>) = admits input"
  "admits input \<Longrightarrow> admits (child_input input r tc runID)"
  by (simp_all add: admits_def child_input_def)

lemma frame_emit_in: "admits input \<Longrightarrow> keeps R (emit rt input ev)"
  unfolding emit_def publishEventToChannel_def
  by (intro frame_rules frame_emit) (simp add: admits_def)

lemma frame_invokeLLM: "admits input \<Longrightarrow> keeps R (invokeLLM env rt input (llm_input rt input cx mid iter skip msgs) fb policies)"
proof -
  assume "admits input"
  then have "emits_ok (xl_Emit (llm_input rt input cx mid iter skip msgs))"
    by (simp add: emits_ok_def llm_input_def frame_emit_in)
  then show ?thesis
    unfolding invokeLLM_def Let_def
    by (intro frame_rules frame_ExecuteLLM frame_ExecuteLLMStream) simp_all
qed

lemma frame_DecideLLMFailure: "keeps R (DecideLLMFailure client cfg named info)"
  unfolding DecideLLMFailure_def Let_def by (intro frame_rules)

lemma frame_DecideMaxIterations: "keeps R (DecideMaxIterations cfg info already)"
  unfolding DecideMaxIterations_def Let_def by (intro frame_rules)

lemma frame_invokeLLM_control: "admits input \<Longrightarrow>
    keeps R (invokeLLMWithErrorControl env rt input (llm_input rt input cx mid iter skip msgs) fb policies)"
  unfolding invokeLLMWithErrorControl_def
  by (intro frame_rules frame_invokeLLM frame_DecideLLMFailure)

end

text \<open>Runs may spend and, once a budget continuation is approved, move the watermark.\<close>

locale run_frame = world_frame R ok for R :: "'w world \<Rightarrow> 'w world \<Rightarrow> bool" and ok +
  assumes R_spend: "R s (s\<lparr>w_tracker := snd (bt_Add (w_tracker s) u)\<rparr>)"
    and R_advance: "R s (s\<lparr>w_tracker := snd (AdvanceWatermark (w_tracker s))\<rparr>)"
begin

text \<open>Budget.\<close>

lemma frame_spend: "(\<And>e. keeps R (f e)) \<Longrightarrow> keeps R (do { tracker \<leftarrow> read_tracker;
    (if tracker = None then State_Monad.return None
     else (case bt_Add tracker usage of (e, tracker') \<Rightarrow> do { write_tracker tracker'; f e })) })"
  using R_spend [of _ usage] R_refl unfolding keeps_def
  by (auto split: prod.splits dest: reflpD) (metis R_trans snd_conv transpD)

lemma frame_advance: "keeps R (do { t \<leftarrow> read_tracker; write_tracker (snd (AdvanceWatermark t));
    State_Monad.return a })"
  using R_advance by (simp add: keeps_def)

lemma frame_awaitBudget: "admits input \<Longrightarrow> li_EnforceBudget input \<Longrightarrow>
    keeps R (awaitBudgetApprovalStatus env rt input detail)"
  unfolding awaitBudgetApprovalStatus_def publishEventToChannel_def Let_def
  by (intro frame_rules frame_emit) (simp_all add: admits_def)

lemma frame_applyBudget: "admits input \<Longrightarrow> li_EnforceBudget input \<Longrightarrow>
    keeps R (applyBudgetExceeded env rt input e)"
  unfolding applyBudgetExceeded_def Let_def RunOnBudgetExceeded_def
  by (intro frame_advance frame_rules frame_awaitBudget)

lemma frame_checkBudget: "admits input \<Longrightarrow> keeps R (checkBudget env rt input usage)"
  unfolding checkBudget_def
  by (intro frame_spend keeps_splits frame_return frame_bind frame_applyBudget) simp_all

lemma frame_enforceBudget: "admits input \<Longrightarrow> keeps R (enforceBudgetIfExceeded env rt input)"
  unfolding enforceBudgetIfExceeded_def
  by (intro frame_rules frame_applyBudget) simp_all

text \<open>Tool calls and delegation, given that the runs of sub-agents are in the frame.\<close>

definition sub_in_frame :: "'w sub_runner \<Rightarrow> bool" where
  "sub_in_frame sub \<longleftrightarrow> (\<forall>lr child. admits child \<longrightarrow> keeps R (sub lr child))"

lemma frame_delegate:
  assumes "sub_in_frame sub" "admits input"
  shows "keeps R (delegate sub env rt input r tc)"
proof -
  have "keeps R (sub lr (child_input input r tc runID))" for lr runID
    using assms by (simp add: sub_in_frame_def)
  with assms show ?thesis
    unfolding delegate_def delegate_once_def by (intro frame_rules frame_emit_in)
qed

lemma frame_finish_call: "admits input \<Longrightarrow> keeps R (finish_call rt input mid tc content failed)"
  unfolding finish_call_def emitToolEndThenResult_def by (intro frame_rules frame_emit_in)

lemma frame_executeSingleTool: "sub_in_frame sub \<Longrightarrow> admits input \<Longrightarrow>
    keeps R (executeSingleTool sub env rt input mid iter policies tc)"
  unfolding executeSingleTool_def authorized_call_def dispatch_call_def await_approval_def execute_call_def
    emit_args_def check_tripped_def NoteCircuitSkip_def NoteUnknownTool_def
  by (intro frame_rules frame_finish_call frame_emit_in frame_delegate frame_ExecuteTool)

lemma frame_execute_tools: "sub_in_frame sub \<Longrightarrow> admits input \<Longrightarrow>
    keeps R (execute_tools sub env rt input mid iter calls policies)"
  unfolding execute_tools_def executeToolsParallel_def executeToolsSequential_def settle_call_def Let_def
  by (intro frame_rules frame_run_batch frame_executeSingleTool)

text \<open>The loop.\<close>

lemma frame_tool_round: "sub_in_frame sub \<Longrightarrow> admits input \<Longrightarrow>
    keeps R (tool_round sub env rt input mid iter result policies st)"
  unfolding tool_round_def apply_circuit_def snapshot_breaker_def Let_def
  by (intro frame_rules frame_execute_tools frame_enforceBudget frame_persist_new)

lemma frame_final_call: "admits input \<Longrightarrow> keeps R (final_call env rt input cx iter policies st)"
  unfolding final_call_def Let_def
  by (intro frame_rules frame_invokeLLM_control frame_checkBudget)

lemma frame_loop_turn:
  assumes "sub_in_frame sub" "admits input"
  shows "keeps R (loop_turn sub env rt input cx policies iter st)"
proof -
  have answered: "keeps R (answered_turn sub env rt input' cx policies mid iter result st')"
    if "admits input'" for input' mid result st'
    using assms(1) that unfolding answered_turn_def
    by (intro frame_rules frame_tool_round frame_final_call frame_DecideMaxIterations)
  show ?thesis
    unfolding loop_turn_def Let_def
    by (rule frame_bind_with [where P = admits])
      (use assms in \<open>auto intro!: yields_rules frame_rules frame_invokeLLM_control frame_checkBudget answered\<close>)
qed

lemma frame_loop_rounds: "(\<And>i st. keeps R (turn i st)) \<Longrightarrow> keeps R (loop_rounds turn n iter st)"
  by (induction n arbitrary: iter st)
    (subst loop_rounds.simps, auto intro!: frame_rules split: turn_end.split)+

lemma frame_agent_loop:
  assumes "sub_in_frame sub" "admits input"
  shows "keeps R (agent_loop sub env rt input)"
proof -
  have finish: "keeps R (case e of None \<Rightarrow> State_Monad.return (None, None)
      | Some (Return res err) \<Rightarrow> State_Monad.return (res, Some err)
      | Some (Break st) \<Rightarrow> complete_run env rt input' policies st
      | Some (Continue st) \<Rightarrow> State_Monad.return (None, None))" for e input' policies
    by (auto intro: frame_return frame_complete_run split: option.split turn_end.split)
  show ?thesis
    unfolding agent_loop_def Let_def
    by (rule frame_bind [OF frame_ext], rule frame_bind_with [where P = admits])
      (use assms in \<open>auto intro!: yields_rules frame_rules frame_initial_messages frame_recall_memory
        frame_prefetch_documents frame_loop_rounds frame_loop_turn finish\<close>)
qed

lemma frame_executeAgentLoop: "admits input \<Longrightarrow> keeps R (executeAgentLoop n env rt input)"
proof (induction n arbitrary: rt input)
  case 0
  then show ?case by (auto intro!: frame_agent_loop frame_return simp: sub_in_frame_def)
next
  case (Suc n)
  then show ?case by (auto intro!: frame_agent_loop simp: sub_in_frame_def)
qed

theorem frame_runAgentLoop: "admits input \<Longrightarrow> keeps R (runAgentLoop env rt input)"
  unfolding runAgentLoop_def by (rule frame_executeAgentLoop)

end

section \<open>The channel of a run\<close>

text \<open>The events a run may publish: those its filter lets through, and requests to continue a run
  that enforces its budget, which skip the filter; all on its own channel.\<close>

definition run_event :: "'w loop_input \<Rightarrow> string \<times> agent_event \<Rightarrow> bool" where
  "run_event input ce \<longleftrightarrow> fst ce = li_ChannelName input \<and>
     (event_allowed (li_EventTypes input) (snd ce) \<or>
      li_EnforceBudget input \<and> (\<exists>v. snd ce = CustomEvent CustomNameBudget v))"

definition publishes_only :: "(string \<times> agent_event \<Rightarrow> bool) \<Rightarrow> 'w world \<Rightarrow> 'w world \<Rightarrow> bool" where
  "publishes_only P s s' \<longleftrightarrow> (\<exists>evs. w_events s' = w_events s @ evs \<and> list_all P evs)"

interpretation channel: run_frame "publishes_only P" "\<lambda>ch ev. P (ch, ev)" for P
proof
  show "transp (publishes_only P)"
    by (rule transpI) (auto simp: publishes_only_def)
qed (auto simp: publishes_only_def reflp_def)

text \<open>C14. Whatever a run does, its sub-agents at every depth, its tools and its memory included, it
  only appends to the published events, and every event it adds is on the run's own channel and
  of a type its filter lets through; the one exception are the budget continuation requests, and
  they come from a run that enforces its budget. A run without event types publishes nothing
  else.\<close>

theorem run_stays_on_channel:
  "case run_state (runAgentLoop env rt input) s of (out, s') \<Rightarrow> publishes_only (run_event input) s s'"
proof -
  have "channel.admits (run_event input) input"
    unfolding channel.admits_def by (auto simp: run_event_def)
  from keepsD [OF channel.frame_runAgentLoop [OF this]] show ?thesis
    by (simp split: prod.split)
qed

section \<open>The budget of a run\<close>

interpretation unspent: world_frame "\<lambda>s s'. w_tracker s' = w_tracker s" "\<lambda>_ _. True"
  by unfold_locales (auto simp: reflp_def transp_def)

definition solvent :: "'w world \<Rightarrow> bool" where
  "solvent s \<longleftrightarrow> bt_Check (w_tracker s) = None"

text \<open>A turn that goes on or ends the loop has passed a check since the last spending.\<close>

definition turn_solvent :: "turn_end \<Rightarrow> 'w world \<Rightarrow> bool" where
  "turn_solvent e s = (case e of Return res err \<Rightarrow> True | _ \<Rightarrow> solvent s)"

lemma hoare_unspent: "keeps (\<lambda>s s'. w_tracker s' = w_tracker s) m \<Longrightarrow> hoare solvent m (\<lambda>_. solvent)"
  by (rule hoareI) (auto dest!: keepsD simp: solvent_def)

lemma hoare_True: "hoare P m (\<lambda>_ _. True)"
  by (rule hoareI) simp

lemma applyBudgetExceeded_stops: "budget_action rt = BudgetStopRun \<Longrightarrow>
    yields (applyBudgetExceeded env rt input e) (\<lambda>r. r \<noteq> None)"
  unfolding applyBudgetExceeded_def Let_def
  by (auto intro!: yields_rules simp: BudgetStopRun_def BudgetWaitForApproval_def)

lemma unspent_invoke: "keeps (\<lambda>s s'. w_tracker s' = w_tracker s)
    (invokeLLMWithErrorControl env rt input (llm_input rt input cx mid iter skip msgs) fb policies)"
  by (rule unspent.frame_invokeLLM_control)
    (simp add: unspent.admits_def)

lemma checkBudget_solvent: "budget_action rt = BudgetStopRun \<Longrightarrow> li_EnforceBudget input \<Longrightarrow>
    hoare solvent (checkBudget env rt input usage) (\<lambda>r s. r = None \<longrightarrow> solvent s)"
proof (rule hoareI)
  fix s r s'
  assume a: "budget_action rt = BudgetStopRun" "li_EnforceBudget input" "solvent s"
    and run: "run_state (checkBudget env rt input usage) s = (r, s')"
  show "r = None \<longrightarrow> solvent s'"
  proof (cases "bt_Add (w_tracker s) usage")
    case (Pair e t')
    then have "e = None \<Longrightarrow> bt_Check t' = None" using a(3)
      by (auto simp: bt_Add_def bt_Check_def solvent_def Let_def split: option.splits)
    with Pair run a show ?thesis
      by (auto simp: checkBudget_def solvent_def split: if_splits option.splits prod.splits
          dest!: yieldsD [OF applyBudgetExceeded_stops])
  qed
qed

lemma enforceBudget_solvent: "budget_action rt = BudgetStopRun \<Longrightarrow> li_EnforceBudget input \<Longrightarrow>
    hoare (\<lambda>_. True) (enforceBudgetIfExceeded env rt input) (\<lambda>r s. r = None \<longrightarrow> solvent s)"
  by (rule hoareI)
    (auto simp: enforceBudgetIfExceeded_def solvent_def bt_Check_def split: if_splits option.splits prod.splits
      dest!: yieldsD [OF applyBudgetExceeded_stops])

lemma turn_solvent_simps [simp]:
  "turn_solvent (Return res err) s" "turn_solvent (budget_return st be) s"
  "turn_solvent (Continue st) = solvent" "turn_solvent (Break st) = solvent"
  by (simp_all add: fun_eq_iff turn_solvent_def budget_return_def)

lemma hoare_bind_any: "(\<And>a. hoare (\<lambda>_. True) (f a) Q) \<Longrightarrow> hoare P (State_Monad.bind m f) Q"
  by (rule hoare_bind [OF hoare_True])

lemma hoare_bind_with: "yields m C \<Longrightarrow> hoare P m R \<Longrightarrow> (\<And>a. C a \<Longrightarrow> hoare (R a) (f a) Q) \<Longrightarrow>
    hoare P (State_Monad.bind m f) Q"
  by (rule hoareI) (auto split: prod.splits dest: yieldsD hoareD)

lemma hoare_splits:
  "(c \<Longrightarrow> hoare P m Q) \<Longrightarrow> (\<not> c \<Longrightarrow> hoare P n Q) \<Longrightarrow> hoare P (if c then m else n) Q"
  "(\<And>e. x = Inl e \<Longrightarrow> hoare P (f e) Q) \<Longrightarrow> (\<And>a. x = Inr a \<Longrightarrow> hoare P (h a) Q) \<Longrightarrow>
     hoare P (case x of Inl e \<Rightarrow> f e | Inr a \<Rightarrow> h a) Q"
  "(y = None \<Longrightarrow> hoare P m Q) \<Longrightarrow> (\<And>a. y = Some a \<Longrightarrow> hoare P (k a) Q) \<Longrightarrow>
     hoare P (case y of None \<Rightarrow> m | Some a \<Rightarrow> k a) Q"
  by (simp_all split: sum.split option.split)

lemma tool_round_solvent:
  assumes "budget_action rt = BudgetStopRun" "li_EnforceBudget input"
  shows "hoare P (tool_round sub env rt input mid iter result policies st) turn_solvent"
proof -
  have stop: "hoare P' (State_Monad.return (Return None err)) turn_solvent" for P' err
    by (simp add: hoare_def)
  have go: "hoare (\<lambda>s. b = None \<longrightarrow> solvent s) (case b of
      Some be \<Rightarrow> State_Monad.return (budget_return st2 be)
    | None \<Rightarrow> if rt_SaveOnIteration rt then do { st3 \<leftarrow> persist_new env rt input st2; State_Monad.return (Continue st3) }
        else State_Monad.return (Continue st2)) turn_solvent" for b st2
  proof (cases b)
    case None
    then show ?thesis
      by (auto intro!: hoare_bind [OF hoare_unspent [OF unspent.frame_persist_new]] hoare_return)
  qed (simp add: hoare_def)
  show ?thesis
    unfolding tool_round_def Let_def
    by (intro hoare_bind_any hoare_splits stop hoare_bind [OF enforceBudget_solvent [OF assms]] go)
qed

lemma final_call_solvent:
  assumes "budget_action rt = BudgetStopRun" "li_EnforceBudget input"
  shows "hoare solvent (final_call env rt input cx iter policies st) turn_solvent"
proof -
  have "hoare (\<lambda>s. b = None \<longrightarrow> solvent s) (State_Monad.return (case b of
      Some be \<Rightarrow> budget_return st1 be | None \<Rightarrow> Break st2)) turn_solvent" for b st1 st2
    by (cases b) (simp_all add: hoare_def)
  note checked = hoare_bind [OF checkBudget_solvent [OF assms] this]
  have "hoare solvent (State_Monad.return (Return None err)) turn_solvent" for err
    by (simp add: hoare_def)
  with checked show ?thesis
    unfolding final_call_def Let_def
    by (auto intro!: hoare_bind [OF hoare_unspent [OF unspent.frame_ext]]
        hoare_bind [OF hoare_unspent [OF unspent_invoke]] split: sum.split prod.split)
qed

lemma answered_turn_solvent:
  assumes "budget_action rt = BudgetStopRun" "li_EnforceBudget input"
  shows "hoare solvent (answered_turn sub env rt input cx policies mid iter result st) turn_solvent"
  unfolding answered_turn_def
  by (intro hoare_splits hoare_bind [OF hoare_unspent [OF unspent.frame_DecideMaxIterations]]
      tool_round_solvent [OF assms] final_call_solvent [OF assms] hoare_return) simp

lemma loop_turn_solvent:
  assumes "budget_action rt = BudgetStopRun" "li_EnforceBudget input"
  shows "hoare solvent (loop_turn sub env rt input cx policies iter st) turn_solvent"
proof -
  have checked: "hoare (\<lambda>s. b = None \<longrightarrow> solvent s) (case b of
      Some be \<Rightarrow> State_Monad.return (budget_return st1 be)
    | None \<Rightarrow> answered_turn sub env rt input' cx policies mid iter result st1) turn_solvent"
    if "li_EnforceBudget input'" for input' mid result st1 b
    by (cases b) (auto simp: hoare_def [of _ "State_Monad.return _"] intro!: answered_turn_solvent assms that)
  have failed: "hoare solvent (State_Monad.return (Return None err)) turn_solvent" for err
    by (simp add: hoare_def)
  have rest: "hoare solvent (do {
      messageID \<leftarrow> ext (en_uuid env);
      r \<leftarrow> invokeLLMWithErrorControl env rt input'
            (llm_input rt input' cx messageID iter False (lp_messages st)) (lp_useFallback st) policies;
      (case r of Inl err \<Rightarrow> State_Monad.return (Return None (wrap err))
       | Inr (result, usedFB) \<Rightarrow> do {
           b \<leftarrow> checkBudget env rt input' (lr_Usage result);
           (case b of Some be \<Rightarrow> State_Monad.return (budget_return (next result usedFB) be)
            | None \<Rightarrow> answered_turn sub env rt input' cx policies messageID iter result (next result usedFB)) }) })
      turn_solvent" if "li_EnforceBudget input'" for input' wrap "next"
    by (intro hoare_bind [OF hoare_unspent [OF unspent.frame_ext]] hoare_bind [OF hoare_unspent [OF unspent_invoke]]
        hoare_splits failed)
      (auto intro!: hoare_bind [OF checkBudget_solvent [OF assms(1) that]] checked that split: prod.split)
  show ?thesis
    unfolding loop_turn_def Let_def
    using rest [of input] rest [of "input\<lparr>li_circuitNow := Some now\<rparr>" for now] assms(2)
    by (cases "li_circuitBreaker input = None")
      (simp_all, (rule hoare_bind [OF hoare_unspent [OF unspent.frame_ext]], simp)?)
qed

lemma loop_rounds_solvent:
  assumes "\<And>i st. hoare solvent (turn i st) turn_solvent"
  shows "hoare solvent (loop_rounds turn n iter st)
    (\<lambda>e s. case e of Some (Break st') \<Rightarrow> solvent s | _ \<Rightarrow> True)"
proof (induction n arbitrary: iter st)
  case (Suc n)
  have "hoare (turn_solvent e) (case e of Continue st' \<Rightarrow> loop_rounds turn n (iter + 1) st'
        | Break st' \<Rightarrow> State_Monad.return (Some (Break st'))
        | Return res err \<Rightarrow> State_Monad.return (Some (Return res err)))
      (\<lambda>e s. case e of Some (Break st') \<Rightarrow> solvent s | _ \<Rightarrow> True)" for e
    by (cases e) (simp_all add: Suc.IH, simp_all add: hoare_def)
  then show ?case
    by (subst loop_rounds.simps) (auto intro!: hoare_splits hoare_bind [OF assms] hoare_return)
qed (subst loop_rounds.simps, auto intro!: hoare_return)

definition run_solvent :: "loop_outcome \<Rightarrow> 'w world \<Rightarrow> bool" where
  "run_solvent out s = (case out of (Some res, None) \<Rightarrow> solvent s | _ \<Rightarrow> True)"

text \<open>C7. A run that enforces its budget and stops when it is exceeded ends without an error only
  within the budget: if it starts within the budget, the totals it leaves, the spending of its
  sub-agents and of the final call without tools included, pass the check.\<close>

theorem completed_run_within_budget:
  assumes "li_EnforceBudget input" "budget_action rt = BudgetStopRun" "bt_Check (w_tracker s) = None"
  shows "case run_state (runAgentLoop env rt input) s of
      ((Some res, None), s') \<Rightarrow> bt_Check (w_tracker s') = None | _ \<Rightarrow> True"
proof -
  have failed: "hoare P (State_Monad.return (res, Some err)) run_solvent" for P and res :: "agent_loop_result option" and err
    by (cases res) (simp_all add: hoare_def run_solvent_def)
  have "hoare solvent (complete_run env rt input' policies st) run_solvent" for input' policies st
    by (rule hoare_weaken [OF hoare_unspent [OF unspent.frame_complete_run]])
      (auto simp: run_solvent_def split: option.split)
  then have finish: "hoare (\<lambda>s. case e of Some (Break st') \<Rightarrow> solvent s | _ \<Rightarrow> True)
     (case e of None \<Rightarrow> State_Monad.return (None, None)
      | Some (Return res err) \<Rightarrow> State_Monad.return (res, Some err)
      | Some (Break st) \<Rightarrow> complete_run env rt input' policies st
      | Some (Continue st) \<Rightarrow> State_Monad.return (None, None)) run_solvent" for e input' policies
    by (auto intro!: failed hoare_return simp: run_solvent_def split: option.split turn_end.split)
  have input_ok: "yields (if li_circuitBreaker input = None then do {
        ref \<leftarrow> alloc_breaker c; State_Monad.return (input\<lparr>li_circuitBreaker := ref\<rparr>) }
      else State_Monad.return input) li_EnforceBudget" for c
    using assms(1) by (auto intro!: yields_rules)
  have "hoare solvent (agent_loop (runAgentLoop env) env rt input) run_solvent"
    unfolding agent_loop_def Let_def
    by (rule hoare_bind [OF hoare_unspent [OF unspent.frame_ext]],
        rule hoare_bind_with [OF input_ok hoare_unspent])
      (auto intro!: unspent.frame_rules hoare_splits failed
        hoare_bind [OF hoare_unspent [OF unspent.frame_initial_messages]]
        hoare_bind [OF hoare_unspent [OF unspent.frame_recall_memory]]
        hoare_bind [OF hoare_unspent [OF unspent.frame_prefetch_documents]]
        hoare_bind [OF loop_rounds_solvent finish] loop_turn_solvent assms(2) split: prod.split)
  then have "hoare solvent (runAgentLoop env rt input) run_solvent"
    by (subst runAgentLoop_unfold)
  with assms(3) have "case run_state (runAgentLoop env rt input) s of (out, s') \<Rightarrow> run_solvent out s'"
    by (simp add: hoare_def solvent_def)
  then show ?thesis
    by (simp add: solvent_def run_solvent_def split: prod.splits option.splits)
qed

definition capped_runtime :: "nat runtime" where
  "capped_runtime = ok_runtime\<lparr>rt_Budget := Some (sample_cfg\<lparr>OnExceeded := BudgetStopRun\<rparr>)\<rparr>"

theorem completed_run_within_budget_witness:
  "case run_state (runAgentLoop sample_env capped_runtime sample_input)
     ((new_world 0)\<lparr>w_tracker := NewBudgetTracker (rt_Budget capped_runtime)\<rparr>) of
      ((Some res, None), s') \<Rightarrow> bt_Check (w_tracker s') = None | _ \<Rightarrow> True"
proof (rule completed_run_within_budget)
  show "bt_Check (w_tracker ((new_world 0)\<lparr>w_tracker := NewBudgetTracker (rt_Budget capped_runtime)\<rparr>)) = None"
    by (simp add: capped_runtime_def NewBudgetTracker_def bt_Check_def checkLimits_def sample_defs int64_id Let_def)
qed (simp_all add: sample_input_def budget_action_def capped_runtime_def)

end
