(* ===== verification/Agent_Facade.thy ===== *)
theory Agent_Facade
  imports Agent_Build Run_Frames
begin

text \<open>
  The calls of an agent's user, \<open>pkg/agent/agent.go\<close>: the checks before a run, the request that the
  runtime gets with the tree of sub-agents, and the drivers of a run and of a stream in the local
  runtime without its durable engine (\<open>internal/runtime/local/runtime.go\<close>). Spans, histograms and
  logs are not modelled. \<open>resolveSubAgentSpecs\<close> follows the sub-agents that are registered now, so its
  recursion has a fuel; \<open>None\<close> is a recursion that has used it up. A panic in the loop, which the
  drivers turn into an error, is not modelled.
\<close>

section \<open>Options of a call\<close>

record agent_run_options =
  ao_ConversationOptions :: "string option"

record agent_stream_options =
  so_ConversationOptions :: "string option"
  so_DisableTokenStreaming :: bool

definition conversationIDFromOpts :: "agent_run_options option \<Rightarrow> string" where
  "conversationIDFromOpts opts = (case opts of None \<Rightarrow> ''''
     | Some o1 \<Rightarrow> (case ao_ConversationOptions o1 of None \<Rightarrow> '''' | Some i \<Rightarrow> i))"

definition conversationIDFromStreamOpts :: "agent_stream_options option \<Rightarrow> string" where
  "conversationIDFromStreamOpts opts = (case opts of None \<Rightarrow> ''''
     | Some o1 \<Rightarrow> (case so_ConversationOptions o1 of None \<Rightarrow> '''' | Some i \<Rightarrow> i))"

definition validateConversationID :: "'w agent_config \<Rightarrow> string \<Rightarrow> go_error option" where
  "validateConversationID c conversationID =
    (if conversationID \<noteq> '''' \<and> gc_conversationConfig c = None then
       Some (ErrNew (''conversationID '' @ conversationID @ '' requires conversation configuration''))
     else if conversationID = '''' \<and> gc_conversationConfig c \<noteq> None then
       Some (ErrNew ''conversationID is required when using conversation'')
     else None)"

section \<open>The request\<close>

record 'w run_request =
  qq_UserPrompt :: string
  qq_ConversationID :: string
  qq_EnableLLMStream :: bool
  qq_EventTypes :: "string list"
  qq_SubAgents :: "'w sub_agent_spec option list"
  qq_MaxSubAgentDepth :: int
  qq_Tools :: "'w tool list"

definition createRunRequest ::
    "'w agent_config \<Rightarrow> string \<Rightarrow> string \<Rightarrow> bool \<Rightarrow> 'w tool list \<Rightarrow> 'w sub_agent_spec option list \<Rightarrow>
     'w run_request" where
  "createRunRequest c userPrompt conversationID enableLLMStream tools subAgents =
    \<lparr>qq_UserPrompt = userPrompt, qq_ConversationID = conversationID,
     qq_EnableLLMStream = enableLLMStream, qq_EventTypes = [], qq_SubAgents = subAgents,
     qq_MaxSubAgentDepth = gc_maxSubAgentDepth c, qq_Tools = tools\<rparr>"

type_synonym 'w specs = "(go_error + 'w sub_agent_spec option list) option"

text \<open>The loop over the registered sub-agents; \<open>rec\<close> resolves the specs of one of them.\<close>

fun sub_agent_specs ::
    "(nat \<Rightarrow> ('w, 'w specs) state) \<Rightarrow> tool_codec \<Rightarrow> 'w agents \<Rightarrow> nat list \<Rightarrow>
     'w sub_agent_spec option list \<Rightarrow> ('w, 'w specs) state" where
  "sub_agent_specs rec co h [] out = State_Monad.return (Some (Inr out))"
| "sub_agent_specs rec co h (sub # subs) out = (case subAgentToolName (agent_name h sub) of
      Inl err \<Rightarrow> sub_agent_specs rec co h subs out
    | Inr toolName \<Rightarrow>
       if toolName = '''' then sub_agent_specs rec co h subs out
       else do {
         tools \<leftarrow> resolveTools co h (ag_config (h sub));
         (case tools of Inl err \<Rightarrow> State_Monad.return (Some (Inl err))
          | Inr ts \<Rightarrow> do {
              children \<leftarrow> rec sub;
              (case children of
                 None \<Rightarrow> State_Monad.return None
               | Some (Inl err) \<Rightarrow> State_Monad.return (Some (Inl err))
               | Some (Inr cs) \<Rightarrow> sub_agent_specs rec co h subs
                   (out @ [Some (SubAgentSpec (agent_name h sub) toolName (ag_runtime (h sub)) cs ts)])) }) })"

primrec resolveSubAgentSpecs ::
    "nat \<Rightarrow> tool_codec \<Rightarrow> 'w agents \<Rightarrow> nat \<Rightarrow> ('w, 'w specs) state" where
  "resolveSubAgentSpecs 0 co h a = State_Monad.return None"
| "resolveSubAgentSpecs (Suc n) co h a =
     sub_agent_specs (resolveSubAgentSpecs n co h) co h (children_of h a) []"

text \<open>The checks of \<open>Run\<close>, up to its call of the runtime.\<close>

definition budget_waits :: "'w agent_config \<Rightarrow> bool" where
  "budget_waits c \<longleftrightarrow> (case gc_budgetConfig c of None \<Rightarrow> False
     | Some b \<Rightarrow> OnExceeded b = BudgetWaitForApproval)"

definition prepareRun ::
    "nat \<Rightarrow> tool_codec \<Rightarrow> 'w agents \<Rightarrow> nat \<Rightarrow> string \<Rightarrow> agent_run_options option \<Rightarrow>
     ('w, (go_error + 'w run_request) option) state" where
  "prepareRun fuel co h a input opts =
    (let c = ag_config (h a); conversationID = conversationIDFromOpts opts
     in case validateConversationID c conversationID of
          Some err \<Rightarrow> State_Monad.return (Some (Inl err))
        | None \<Rightarrow> do {
            tools \<leftarrow> resolveTools co h c;
            (case tools of Inl err \<Rightarrow> State_Monad.return (Some (Inl err))
             | Inr ts \<Rightarrow>
                if hasApprovalTools c ts \<and> gc_approvalHandler c = None then
                  State_Monad.return (Some (Inl (ErrNew
                    ''tools require approval but WithApprovalHandler was not set (required for Run)'')))
                else if budget_waits c \<and> gc_approvalHandler c = None then
                  State_Monad.return (Some (Inl (ErrNew (''WithBudget: OnExceeded ''
                    @ Quote BudgetWaitForApproval
                    @ '' requires WithApprovalHandler when calling Run; for stream-only use no handler is needed''))))
                else do {
                  subAgents \<leftarrow> resolveSubAgentSpecs fuel co h a;
                  State_Monad.return (map_option (map_sum id
                    (createRunRequest c input conversationID False ts)) subAgents) }) })"

text \<open>The checks of \<open>Stream\<close>; the label is that of the failure counter.\<close>

definition prepareStream ::
    "nat \<Rightarrow> tool_codec \<Rightarrow> 'w agents \<Rightarrow> nat \<Rightarrow> string \<Rightarrow> agent_stream_options option \<Rightarrow>
     ('w, (string \<times> go_error + 'w run_request) option) state" where
  "prepareStream fuel co h a input opts =
    (let c = ag_config (h a); conversationID = conversationIDFromStreamOpts opts;
         enableLLMStream = (case opts of None \<Rightarrow> True | Some o1 \<Rightarrow> \<not> so_DisableTokenStreaming o1)
     in case validateConversationID c conversationID of
          Some err \<Rightarrow> State_Monad.return (Some (Inl (''conversation_id_invalid'', err)))
        | None \<Rightarrow> do {
            tools \<leftarrow> resolveTools co h c;
            (case tools of Inl err \<Rightarrow> State_Monad.return (Some (Inl (''tools_list_failed'', err)))
             | Inr ts \<Rightarrow> do {
                  subAgents \<leftarrow> resolveSubAgentSpecs fuel co h a;
                  State_Monad.return (map_option (map_sum (Pair ''build_sub_agent_specs_failed'')
                    (createRunRequest c input conversationID enableLLMStream ts)) subAgents) }) })"

section \<open>The tree of sub-agents\<close>

text \<open>The fuel of \<open>resolveSubAgentSpecs\<close> is enough if it exceeds the longest chain of delegations.\<close>

definition returned :: "'a option \<Rightarrow> bool" where "returned r \<longleftrightarrow> r \<noteq> None"

lemma sub_agent_specs_return:
  "(\<And>s. s \<in> set subs \<Longrightarrow> yields (rec s) returned) \<Longrightarrow>
     yields (sub_agent_specs rec co h subs out) returned"
proof (induction subs arbitrary: out)
  case (Cons s subs)
  then have IH: "yields (sub_agent_specs rec co h subs out') returned" for out' by simp
  have some: "returned (Some x)" for x :: "go_error + 'a sub_agent_spec option list" by (simp add: returned_def)
  have now: "yields (rec s) returned" by (rule Cons.prems) simp
  have "yields (case children of
        None \<Rightarrow> State_Monad.return None
      | Some (Inl err) \<Rightarrow> State_Monad.return (Some (Inl err))
      | Some (Inr cs) \<Rightarrow> sub_agent_specs rec co h subs (out @ [spec cs])) returned"
    if "returned children" for children and spec :: "'a sub_agent_spec option list \<Rightarrow> 'a sub_agent_spec option"
    using that IH some by (auto simp: returned_def [of children] intro!: yields_rules split: sum.split)
  then show ?case
    using IH some
    by (auto intro!: yields_bind yields_bind_with [OF now] yields_return split: sum.split)
qed (simp add: yields_return returned_def)

lemma specs_return:
  "\<forall>cs. chain h (a # cs) \<longrightarrow> length cs < n \<Longrightarrow> yields (resolveSubAgentSpecs n co h a) returned"
proof (induction n arbitrary: a)
  case 0
  then show ?case by (auto dest: spec [of _ "[]"])
next
  case (Suc n)
  have "yields (resolveSubAgentSpecs n co h s) returned" if "s \<in> set (children_of h a)" for s
  proof (rule Suc.IH, intro allI impI)
    fix cs assume "chain h (s # cs)"
    with that have "chain h (a # s # cs)" by simp
    with Suc.prems have "length (s # cs) < Suc n" by blast
    then show "length cs < n" by simp
  qed
  then show ?case by (simp add: sub_agent_specs_return)
qed

lemma validated_chains:
  assumes "\<forall>reg. gc_subAgentRegistry (ag_config (h a)) = Some reg \<longrightarrow>
      validateSubAgentRegistry h (ag_config (h a)) reg = None"
    and "chain h (a # cs)"
  shows "length cs \<le> nat (effective_depth (ag_config (h a)))"
proof (cases cs)
  case (Cons s cs')
  with assms(2) have s: "s \<in> set (children_of h a)" "chain h (s # cs')" by simp_all
  then obtain reg where reg: "gc_subAgentRegistry (ag_config (h a)) = Some reg" "s \<in> set (sub_List reg)"
    by (cases "gc_subAgentRegistry (ag_config (h a))") (auto simp: children_of_def)
  with assms(1) have "validateSubAgentRegistry h (ag_config (h a)) reg = None" by blast
  with reg(2) s(2) have "int (length (s # cs')) \<le> effective_depth (ag_config (h a))"
    by (simp add: validate_parts dfs_None_iff)
  with Cons show ?thesis by simp
qed simp

text \<open>What the specs of a validated agent are: one for each sub-agent, in order.\<close>

definition spec_of :: "'w agents \<Rightarrow> nat \<Rightarrow> 'w sub_agent_spec option \<Rightarrow> bool" where
  "spec_of h s spec \<longleftrightarrow> (\<exists>tn cs ts. subAgentToolName (agent_name h s) = Inr tn \<and>
     spec = Some (SubAgentSpec (agent_name h s) tn (ag_runtime (h s)) cs ts))"

lemma subAgentToolName_nonempty: "subAgentToolName n \<noteq> Inr ''''"
  by (auto simp: subAgentToolName_def Let_def)

lemma sub_agent_specs_shape:
  "\<forall>s \<in> set subs. \<exists>tn. subAgentToolName (agent_name h s) = Inr tn \<Longrightarrow>
     yields (sub_agent_specs rec co h subs out)
       (\<lambda>r. \<forall>specs. r = Some (Inr specs) \<longrightarrow> (\<exists>new. specs = out @ new \<and> list_all2 (spec_of h) subs new))"
proof (induction subs arbitrary: out)
  case (Cons s subs)
  then obtain tn where tn: "subAgentToolName (agent_name h s) = Inr tn" by auto
  have "yields (sub_agent_specs rec co h subs (out @ [Some (SubAgentSpec (agent_name h s) tn
        (ag_runtime (h s)) cs ts)]))
      (\<lambda>r. \<forall>specs. r = Some (Inr specs) \<longrightarrow> (\<exists>new. specs = out @ new \<and> list_all2 (spec_of h) (s # subs) new))"
    for cs ts
  proof (rule yields_weaken [OF Cons.IH])
    show "\<forall>s \<in> set subs. \<exists>tn. subAgentToolName (agent_name h s) = Inr tn" using Cons.prems by simp
    have "spec_of h s (Some (SubAgentSpec (agent_name h s) tn (ag_runtime (h s)) cs ts))"
      using tn by (simp add: spec_of_def)
    then show "\<forall>specs. r = Some (Inr specs) \<longrightarrow> (\<exists>new. specs = out @ new \<and> list_all2 (spec_of h) (s # subs) new)"
      if "\<forall>specs. r = Some (Inr specs) \<longrightarrow> (\<exists>new. specs = (out @ [Some (SubAgentSpec (agent_name h s) tn
        (ag_runtime (h s)) cs ts)]) @ new \<and> list_all2 (spec_of h) subs new)" for r
      using that by auto
  qed
  with tn subAgentToolName_nonempty [of "agent_name h s"] show ?case
    by (auto intro!: yields_rules split: sum.split)
qed (simp add: yields_return)

text \<open>The routes of such specs.\<close>

lemma routes_keys: "map_of (buildSubAgentRoutes specs) tn \<noteq> None \<Longrightarrow>
    \<exists>spec. Some spec \<in> set specs \<and> sp_ToolName spec = tn"
proof (induction specs rule: buildSubAgentRoutes.induct)
  case (3 n tn' r cs ts specs)
  then show ?case by (cases r) (auto split: if_splits)
qed auto

lemma routes_find:
  assumes "list_all2 (spec_of h) subs specs" "s \<in> set subs" "ag_runtime (h s) \<noteq> None"
    and "distinct (map (\<lambda>s. subAgentToolName (agent_name h s)) subs)"
    and "subAgentToolName (agent_name h s) = Inr tn"
  shows "\<exists>cs ts. map_of (buildSubAgentRoutes specs) tn =
    Some (Route (agent_name h s) (ag_runtime (h s)) cs ts)"
  using assms
proof (induction subs specs rule: list_all2_induct)
  case (Cons u subs spec specs)
  then obtain un cs ts where u: "subAgentToolName (agent_name h u) = Inr un"
      "spec = Some (SubAgentSpec (agent_name h u) un (ag_runtime (h u)) cs ts)"
    unfolding spec_of_def by blast
  show ?case
  proof (cases "u = s")
    case True
    then have un: "un = tn" using u(1) Cons.prems(4) by simp
    have "map_of (buildSubAgentRoutes specs) tn = None"
    proof (rule ccontr)
      assume "map_of (buildSubAgentRoutes specs) tn \<noteq> None"
      from routes_keys [OF this] obtain sp where sp: "Some sp \<in> set specs" "sp_ToolName sp = tn" by blast
      with Cons.hyps(2) obtain v where "v \<in> set subs" "spec_of h v (Some sp)"
        by (metis (no_types, lifting) list_all2_conv_all_nth in_set_conv_nth)
      with sp(2) have "v \<in> set subs" "subAgentToolName (agent_name h v) = Inr tn"
        by (auto simp: spec_of_def)
      with Cons.prems(3,4) True show False by force
    qed
    with u(2) un True Cons.prems(2) show ?thesis by (auto split: option.split)
  next
    case False
    with Cons.prems have s: "s \<in> set subs" and ne: "un \<noteq> tn" using u(1) by force+
    from Cons.IH [OF s Cons.prems(2) _ Cons.prems(4)] Cons.prems(3) obtain cs' ts' where
      "map_of (buildSubAgentRoutes specs) tn = Some (Route (agent_name h s) (ag_runtime (h s)) cs' ts')" by auto
    with u(2) ne show ?thesis by (auto split: option.split)
  qed
qed simp

section \<open>The request of an accepted call\<close>

lemma prepareRun_steps:
  assumes "run_state (prepareRun fuel co h a input opts) w = (Some (Inr req), w')"
  shows "\<exists>w1 specs. run_state (resolveTools co h (ag_config (h a))) w = (Inr (qq_Tools req), w1) \<and>
     run_state (resolveSubAgentSpecs fuel co h a) w1 = (Some (Inr specs), w') \<and>
     validateConversationID (ag_config (h a)) (conversationIDFromOpts opts) = None \<and>
     (gc_approvalHandler (ag_config (h a)) = None \<longrightarrow>
        \<not> hasApprovalTools (ag_config (h a)) (qq_Tools req) \<and> \<not> budget_waits (ag_config (h a))) \<and>
     qq_SubAgents req = specs"
proof -
  let ?c = "ag_config (h a)"
  from assms have v: "validateConversationID ?c (conversationIDFromOpts opts) = None"
    by (auto simp: prepareRun_def Let_def split: option.splits)
  obtain r w1 where t: "run_state (resolveTools co h ?c) w = (r, w1)" by fastforce
  from assms v t obtain ts where ts: "r = Inr ts"
    by (cases r) (auto simp: prepareRun_def Let_def)
  obtain ss w2 where ss: "run_state (resolveSubAgentSpecs fuel co h a) w1 = (ss, w2)" by fastforce
  have g: "\<not> (hasApprovalTools ?c ts \<and> gc_approvalHandler ?c = None)"
      "\<not> (budget_waits ?c \<and> gc_approvalHandler ?c = None)"
    using assms v t ts by (auto simp: prepareRun_def Let_def split: if_splits)
  have "map_option (map_sum id (createRunRequest ?c input (conversationIDFromOpts opts) False ts)) ss
      = Some (Inr req)" "w' = w2"
    using assms v t ts ss g by (auto simp: prepareRun_def Let_def split: if_splits)
  then obtain specs where "ss = Some (Inr specs)"
      "req = createRunRequest ?c input (conversationIDFromOpts opts) False ts specs" "w' = w2"
    by (cases ss; cases "the ss") auto
  then show ?thesis using v t ts ss g by (auto simp: createRunRequest_def)
qed
section \<open>The drivers of the local runtime\<close>

record agent_run_result =
  rz_Content :: string
  rz_AgentName :: string
  rz_Model :: string
  rz_RunID :: string
  rz_LLMUsage :: "llm_usage option"
  rz_Telemetry :: agent_telemetry

text \<open>What a subscriber of a stream receives.\<close>

datatype stream_event =
    RunStarted (se_ThreadID: string) (se_RunID: string)
  | LoopEvent agent_event
  | RunFinished (se_ThreadID: string) (se_RunID: string) (se_Result: agent_run_result)
  | RunError (se_Message: string)

definition localChannelName :: "string \<Rightarrow> string" where
  "localChannelName runID = ''agent-event-'' @ runID"

definition attachMemoryScopeContext :: "'w agent_config \<Rightarrow> context_values \<Rightarrow> context_values" where
  "attachMemoryScopeContext c ctx = (if gc_Name c \<noteq> '''' then WithContextAgentID ctx (gc_Name c) else ctx)"

type_synonym 'w handler = "(custom_value \<Rightarrow> ('w, unit) state) option"

definition drive_input ::
    "'w runtime \<Rightarrow> 'w handler \<Rightarrow> context_values \<Rightarrow> 'w run_request \<Rightarrow> string \<Rightarrow> bool \<Rightarrow> string \<Rightarrow>
     string list \<Rightarrow> 'w loop_input" where
  "drive_input rt approvalHandler ctx req runID streaming channel eventTypes =
    \<lparr>li_UserPrompt = qq_UserPrompt req, li_ConversationID = qq_ConversationID req,
     li_StreamingEnabled = streaming, li_Tools = qq_Tools req, li_ChannelName = channel,
     li_EventTypes = eventTypes, li_ApprovalHandler = approvalHandler,
     li_SubAgentRoutes = buildSubAgentRoutes (qq_SubAgents req), li_SubAgentDepth = 0,
     li_MaxSubAgentDepth = qq_MaxSubAgentDepth req,
     li_MemoryScope = (case ResolveMemoryScope rt ctx of Inl err \<Rightarrow> empty_scope | Inr scope \<Rightarrow> scope),
     li_RunID = runID, li_EnforceBudget = NewBudgetTracker (rt_Budget rt) \<noteq> None,
     li_circuitBreaker = None, li_circuitNow = None\<rparr>"

text \<open>The loop on a fresh budget tracker, and the result that the handle gets. The pair of two nils
  does not occur.\<close>

definition drive_loop :: "'w env \<Rightarrow> 'w runtime \<Rightarrow> 'w loop_input \<Rightarrow> ('w, go_error + agent_run_result) io" where
  "drive_loop env rt input = do {
     write_tracker (NewBudgetTracker (rt_Budget rt));
     out \<leftarrow> runAgentLoop env rt input;
     State_Monad.return (case out of
         (_, Some err) \<Rightarrow> Inl err
       | (Some res, None) \<Rightarrow> Inr \<lparr>rz_Content = al_Content res, rz_AgentName = TrimSpace (rt_Name rt),
           rz_Model = lc_Model (rt_Client rt), rz_RunID = li_RunID input,
           rz_LLMUsage = al_LLMUsage res, rz_Telemetry = al_Telemetry res\<rparr>
       | (None, None) \<Rightarrow> Inl (ErrNew ''no outcome'')) }"

definition driveRun ::
    "'w env \<Rightarrow> 'w runtime \<Rightarrow> 'w handler \<Rightarrow> context_values \<Rightarrow> 'w run_request \<Rightarrow> string \<Rightarrow>
     ('w, go_error + agent_run_result) io" where
  "driveRun env rt approvalHandler ctx req runID = drive_loop env rt
     (drive_input rt approvalHandler ctx req runID False ''''
       (if approvalHandler \<noteq> None then [''CUSTOM''] else []))"

definition events_on :: "string \<Rightarrow> (string \<times> agent_event) list \<Rightarrow> stream_event list" where
  "events_on channel evs = map (LoopEvent \<circ> snd) (filter (\<lambda>(ch, ev). ch = channel) evs)"

definition terminal_event :: "string \<Rightarrow> string \<Rightarrow> go_error + agent_run_result \<Rightarrow> stream_event" where
  "terminal_event threadID runID r = (case r of
      Inl err \<Rightarrow> RunError (error_str err) | Inr res \<Rightarrow> RunFinished threadID runID res)"

text \<open>\<open>Stream\<close> publishes the start and the driver the end; between them stands what the loop publishes
  on the channel of the run.\<close>

definition driveStream ::
    "'w env \<Rightarrow> 'w runtime \<Rightarrow> 'w handler \<Rightarrow> context_values \<Rightarrow> 'w run_request \<Rightarrow> string \<Rightarrow>
     ('w, stream_event list \<times> (go_error + agent_run_result)) io" where
  "driveStream env rt approvalHandler ctx req runID =
    (let threadID = (if qq_ConversationID req = '''' then runID else qq_ConversationID req);
         channel = localChannelName runID;
         input = drive_input rt approvalHandler ctx req runID (qq_EnableLLMStream req) channel
           (if qq_EventTypes req \<noteq> [] then qq_EventTypes req else [AgentEventAll])
     in State (\<lambda>s. case run_state (drive_loop env rt input) s of
          (r, s') \<Rightarrow> ((RunStarted threadID runID
              # events_on channel (drop (length (w_events s)) (w_events s'))
              @ [terminal_event threadID runID r], r), s')))"

section \<open>Run and Stream\<close>

definition MetricRunStarted :: string where "MetricRunStarted = ''agent.run.started''"
definition MetricRunCompleted :: string where "MetricRunCompleted = ''agent.run.completed''"
definition MetricStreamStarted :: string where "MetricStreamStarted = ''agent.stream.started''"
definition MetricStreamDispatched :: string where "MetricStreamDispatched = ''agent.stream.dispatched''"
definition MetricStreamFailed :: string where "MetricStreamFailed = ''agent.stream.failed''"

text \<open>\<open>Run\<close> on an agent with a local runtime: it mints the run's identifier and returns the request that
  the driver then works on. \<open>runtime.Run\<close> fails for a nil request only.\<close>

definition agent_Run ::
    "nat \<Rightarrow> 'w env \<Rightarrow> tool_codec \<Rightarrow> 'w agents \<Rightarrow> nat \<Rightarrow> string \<Rightarrow> agent_run_options option \<Rightarrow>
     ('w, (go_error + string \<times> 'w run_request) option) io" where
  "agent_Run fuel env co h a input opts = do {
     p \<leftarrow> ext (prepareRun fuel co h a input opts);
     (case p of
        None \<Rightarrow> State_Monad.return None
      | Some (Inl err) \<Rightarrow> State_Monad.return (Some (Inl err))
      | Some (Inr req) \<Rightarrow> do {
          IncrementCounter MetricRunStarted [];
          runID \<leftarrow> ext (en_uuid env);
          IncrementCounter MetricRunCompleted [];
          State_Monad.return (Some (Inr (runID, req))) }) }"

definition agent_Stream ::
    "nat \<Rightarrow> 'w env \<Rightarrow> tool_codec \<Rightarrow> 'w agents \<Rightarrow> nat \<Rightarrow> string \<Rightarrow> agent_stream_options option \<Rightarrow>
     go_error option \<Rightarrow> ('w, (go_error + string \<times> 'w run_request) option) io" where
  "agent_Stream fuel env co h a input opts ctxErr = do {
     IncrementCounter MetricStreamStarted [];
     p \<leftarrow> ext (prepareStream fuel co h a input opts);
     (case p of
        None \<Rightarrow> State_Monad.return None
      | Some (Inl (label, err)) \<Rightarrow> do {
          IncrementCounter MetricStreamFailed [label];
          State_Monad.return (Some (Inl err)) }
      | Some (Inr req) \<Rightarrow> (case ctxErr of
          Some err \<Rightarrow> do {
            IncrementCounter MetricStreamFailed [''runtime_stream_failed''];
            State_Monad.return (Some (Inl err)) }
        | None \<Rightarrow> do {
            runID \<leftarrow> ext (en_uuid env);
            IncrementCounter MetricStreamDispatched [];
            State_Monad.return (Some (Inr (runID, req))) })) }"
section \<open>The finish reason of a delivered result\<close>

definition ended_normally :: "agent_telemetry \<Rightarrow> bool" where
  "ended_normally t \<longleftrightarrow> rn_FinishReason (te_Run t) \<in> {FinishComplete, FinishMaxIterations}"

lemma ended_normally_simps [simp]:
  "ended_normally (count_llm_call t) = ended_normally t"
  "ended_normally (record_call tc failed t) = ended_normally t"
  "ended_normally (set_finish FinishMaxIterations t)"
  "ended_normally (NewAgentTelemetry started)"
  "ended_normally (t\<lparr>te_Storage := u\<rparr>) = ended_normally t"
  "ended_normally (t\<lparr>te_Run := (te_Run t)\<lparr>rn_CompletedAt := now\<rparr>\<rparr>) = ended_normally t"
  by (simp_all add: ended_normally_def count_llm_call_def record_call_def set_finish_def
      NewAgentTelemetry_def Let_def)

lemma ended_normally_fold [simp]:
  "ended_normally (fold (\<lambda>(tc, failed) t. record_call tc failed t) xs t) = ended_normally t"
  by (induction xs arbitrary: t) (auto split: prod.split)

definition turn_normal :: "turn_end \<Rightarrow> bool" where
  "turn_normal e = (case e of Continue st \<Rightarrow> ended_normally (lp_telemetry st)
     | Break st \<Rightarrow> ended_normally (lp_telemetry st) | Return res err \<Rightarrow> True)"

lemma turn_normal_simps [simp]:
  "turn_normal (Continue st) = ended_normally (lp_telemetry st)"
  "turn_normal (Break st) = ended_normally (lp_telemetry st)"
  "turn_normal (Return res err)" "turn_normal (budget_return st be)"
  by (simp_all add: turn_normal_def budget_return_def)

lemma tool_round_normal:
  "ended_normally (lp_telemetry st) \<Longrightarrow>
     yields (tool_round sub env rt input mid iter result policies st) turn_normal"
  unfolding tool_round_def Let_def
  by (intro yields_rules yields_bind_with [OF persist_new_yields]) auto

lemma final_call_normal:
  "ended_normally (lp_telemetry st) \<Longrightarrow> yields (final_call env rt input cx iter policies st) turn_normal"
  unfolding final_call_def Let_def by (intro yields_rules) (auto split: option.splits)

lemma loop_turn_normal:
  "ended_normally (lp_telemetry st) \<Longrightarrow>
     yields (loop_turn sub env rt input cx policies iter st) turn_normal"
  unfolding loop_turn_def answered_turn_def Let_def
  by (intro yields_rules tool_round_normal final_call_normal) simp_all

lemma loop_rounds_normal:
  assumes "\<And>iter st. ended_normally (lp_telemetry st) \<Longrightarrow> yields (turn iter st) turn_normal"
  shows "ended_normally (lp_telemetry st) \<Longrightarrow>
    yields (loop_rounds turn n iter st) (\<lambda>e. \<forall>t. e = Some t \<longrightarrow> turn_normal t)"
proof (induction n arbitrary: iter st)
  case 0
  then show ?case by (subst loop_rounds.simps) (auto intro!: yields_return)
next
  case (Suc n)
  have "yields (case e of Continue st' \<Rightarrow> loop_rounds turn n (iter + 1) st'
        | Break st' \<Rightarrow> State_Monad.return (Some (Break st'))
        | Return res err \<Rightarrow> State_Monad.return (Some (Return res err)))
      (\<lambda>e. \<forall>t. e = Some t \<longrightarrow> turn_normal t)"
    if "turn_normal e" for e
    using that by (cases e) (auto intro!: yields_return Suc.IH)
  then show ?case
    by (subst loop_rounds.simps)
      (use Suc.prems in \<open>auto intro!: yields_if yields_return yields_bind_with [OF assms [OF Suc.prems]]\<close>)
qed

lemma store_memories_normal:
  "yields (store_memories env rt input policies messages t) (\<lambda>t'. ended_normally t' = ended_normally t)"
  unfolding store_memories_def by (intro yields_rules) (auto split: option.splits)

definition outcome_normal :: "loop_outcome \<Rightarrow> bool" where
  "outcome_normal out \<longleftrightarrow> (\<forall>res. out = (Some res, None) \<longrightarrow> ended_normally (al_Telemetry res))"

lemma complete_run_normal:
  assumes "ended_normally (lp_telemetry st)"
  shows "yields (complete_run env rt input policies st) outcome_normal"
  unfolding complete_run_def
  by (intro yields_bind_with [OF persist_new_yields] yields_bind_with [OF store_memories_normal] yields_rules)
    (use assms in \<open>auto simp: outcome_normal_def\<close>)

lemma prefix_normal:
  "yields (recall_memory env rt input policies t)
     (\<lambda>r. case r of Inl _ \<Rightarrow> True | Inr (_, t') \<Rightarrow> ended_normally t' = ended_normally t)"
  "yields (prefetch_documents env rt input policies t)
     (\<lambda>r. case r of Inl _ \<Rightarrow> True | Inr (_, t') \<Rightarrow> ended_normally t' = ended_normally t)"
  by (rule yields_weaken [OF recall_memory_yields], simp add: ended_normally_def split: sum.splits prod.splits)
    (rule yields_weaken [OF prefetch_documents_yields], simp add: ended_normally_def split: sum.splits prod.splits)

lemma agent_loop_normal: "yields (agent_loop sub env rt input) outcome_normal"
proof -
  have failed: "outcome_normal (res, Some err)" "outcome_normal (None, None)" for res err
    by (simp_all add: outcome_normal_def)
  have ended: "yields (case e of
        None \<Rightarrow> State_Monad.return (None, None)
      | Some (Return res err) \<Rightarrow> State_Monad.return (res, Some err)
      | Some (Break st) \<Rightarrow> complete_run env rt input' policies st
      | Some (Continue st) \<Rightarrow> State_Monad.return (None, None)) outcome_normal"
    if "\<forall>t. e = Some t \<longrightarrow> turn_normal t" for e input' policies
    using that by (auto intro!: yields_return complete_run_normal failed split: option.splits turn_end.splits)
  have rounds: "yields (loop_rounds (loop_turn sub env rt input' cx policies) n 0 (loop_start msgs m t))
      (\<lambda>e. \<forall>t. e = Some t \<longrightarrow> turn_normal t)" if "ended_normally t" for input' cx policies n msgs m t
    by (rule loop_rounds_normal [OF loop_turn_normal]) (use that in \<open>simp_all add: loop_start_def\<close>)
  show ?thesis
    unfolding agent_loop_def Let_def
    by (intro yields_bind yields_bind_with [OF prefix_normal(1)] yields_bind_with [OF prefix_normal(2)]
        yields_bind_with [OF rounds ended] yields_case_sum yields_case_prod)
      (auto intro: yields_return failed)
qed

lemma runAgentLoop_normal: "yields (runAgentLoop env rt input) outcome_normal"
  by (subst runAgentLoop_unfold) (rule agent_loop_normal)

lemma runAgentLoop_outcome: "yields (runAgentLoop env rt input) (\<lambda>out. out \<noteq> (None, None))"
  by (subst runAgentLoop_unfold) (rule yields_weaken [OF agent_loop_yields], auto simp: calls_within_def)
section \<open>What the checks guarantee\<close>

lemma resolved_graph:
  assumes "run_state (resolveTools co h (ag_config (h a))) w = (Inr tools, w')"
  shows "chain h (a # cs) \<Longrightarrow> length cs \<le> nat (effective_depth (ag_config (h a)))"
  using validated_chains resolveTools_checked [OF assms] by blast

text \<open>C17. The checks of \<open>Run\<close> return: whatever the registries hold by now, cycles included, the tools
  are resolved first, and then no chain of sub-agents is longer than the maximal depth, which
  bounds the recursion that builds the tree of sub-agents.\<close>

theorem run_request_returns:
  assumes "nat (effective_depth (ag_config (h a))) < fuel"
  shows "fst (run_state (prepareRun fuel co h a input opts) w) \<noteq> None"
proof -
  have "fst (run_state (resolveSubAgentSpecs fuel co h a) w1) \<noteq> None"
    if "run_state (resolveTools co h (ag_config (h a))) w = (Inr ts, w1)" for ts w1
  proof -
    have "yields (resolveSubAgentSpecs fuel co h a) returned"
      by (rule specs_return) (use resolved_graph [OF that] assms in \<open>auto dest: le_less_trans\<close>)
    then show ?thesis by (auto simp: yields_def returned_def)
  qed
  then show ?thesis
    by (auto simp: prepareRun_def Let_def split: option.split sum.split prod.split)
qed

lemma resolveTools_value:
  assumes "run_state (resolveTools co h c) w = (Inr tools, w')"
  shows "\<exists>mcp a2a rets. tools = registered_tools c @ mcp @ a2a @ resolveSubAgentTools h c
    @ resolveMemoryTools c @ rets"
  using assms
  by (auto simp: resolveTools_def Let_def split: prod.splits sum.splits option.splits)

lemma FindToolByName_distinct:
  "distinct (map tl_Name ts) \<Longrightarrow> t \<in> set ts \<Longrightarrow> FindToolByName ts (tl_Name t) = Some t"
  by (induction ts) force+

text \<open>C12. Delegation: in the request of an accepted run whose sub-agents have local runtimes, every
  registered sub-agent is offered to the model as a tool of its own, the tool is found by its name,
  and a call of that name is routed to this sub-agent and its runtime.\<close>

theorem delegations_routed:
  assumes "run_state (prepareRun fuel co h a input opts) w = (Some (Inr req), w')"
    and "\<forall>s \<in> set (children_of h a). ag_runtime (h s) \<noteq> None"
    and "s \<in> set (children_of h a)"
  shows "\<exists>tool route. NewSubAgentTool (Some (agent_id h s)) = Some tool \<and>
    FindToolByName (qq_Tools req) (tl_Name tool) = Some tool \<and>
    map_of (buildSubAgentRoutes (qq_SubAgents req)) (tl_Name tool) = Some route \<and>
    ro_name route = agent_name h s \<and> ro_runtime route = ag_runtime (h s)"
proof -
  let ?c = "ag_config (h a)"
  from prepareRun_steps [OF assms(1)] obtain w1 specs
    where t: "run_state (resolveTools co h ?c) w = (Inr (qq_Tools req), w1)"
      and ss: "run_state (resolveSubAgentSpecs fuel co h a) w1 = (Some (Inr specs), w')"
      and req: "qq_SubAgents req = specs"
    by blast
  from assms(3) obtain reg where reg: "gc_subAgentRegistry ?c = Some reg" "children_of h a = sub_List reg"
    by (cases "gc_subAgentRegistry ?c") (auto simp: children_of_def)
  with resolveTools_checked [OF t] have v: "roots_error h (gc_Name ?c) [] [] (children_of h a) = None"
    and dist: "distinct (map tl_Name (qq_Tools req))"
    by (simp_all add: validate_parts)
  from v have named: "\<forall>s \<in> set (children_of h a). \<exists>tn. subAgentToolName (agent_name h s) = Inr tn"
    and sep: "distinct (map (\<lambda>s. subAgentToolName (agent_name h s)) (children_of h a))"
    by (auto simp: roots_error_None)
  from named assms(3) obtain tn where tn: "subAgentToolName (agent_name h s) = Inr tn" by blast
  obtain n where n: "fuel = Suc n" using ss by (cases fuel) auto
  have "list_all2 (spec_of h) (children_of h a) specs"
    using yieldsD [OF sub_agent_specs_shape [OF named] ss [unfolded n resolveSubAgentSpecs.simps]] by auto
  from routes_find [OF this assms(3) _ sep tn] assms(2,3) obtain cs ts
    where route: "map_of (buildSubAgentRoutes specs) tn = Some (Route (agent_name h s) (ag_runtime (h s)) cs ts)"
    by blast
  obtain tool :: "'a tool" where tool: "NewSubAgentTool (Some (agent_id h s)) = Some tool" "tl_Name tool = tn"
    using tn by (auto simp: NewSubAgentTool_def agent_id_def)
  have "tool \<in> set (resolveSubAgentTools h ?c)"
    using reg assms(3) tool(1) by (force simp: resolveSubAgentTools_def present_def)
  then have mem: "tool \<in> set (qq_Tools req)"
    using resolveTools_value [OF t] by auto
  then have "FindToolByName (qq_Tools req) tn = Some tool"
    using FindToolByName_distinct [OF dist] tool(2) by blast
  with tool route req show ?thesis by auto
qed

text \<open>C26. A run that is accepted without an approval handler needs none at its top level: whatever
  tool of the request the model calls, the runtime does not ask for an approval, and running out
  of budget does not wait for one. Tools of sub-agents are not covered by the check.\<close>

theorem accepted_run_needs_no_handler:
  assumes "run_state (prepareRun fuel co h a input opts) w = (Some (Inr req), w')"
    and "gc_approvalHandler (ag_config (h a)) = None"
    and "rt = runtimeAgentConfig (ag_config (h a)) client"
  shows "yields (resolve_call rt (qq_Tools req) tc) (\<lambda>call. \<not> tr_NeedsApproval call) \<and>
    budget_action rt \<noteq> BudgetWaitForApproval"
proof -
  have g: "\<not> hasApprovalTools (ag_config (h a)) (qq_Tools req)" "\<not> budget_waits (ag_config (h a))"
    using prepareRun_steps [OF assms(1)] assms(2) by auto
  have "\<not> RequiresApproval rt tool" if "FindToolByName (qq_Tools req) n = Some tool" for n tool
    using g(1) FindToolByName_Some [OF that] assms(3)
    by (auto simp: hasApprovalTools_def list_ex_iff runtime_requires_approval)
  then have "yields (resolve_call rt (qq_Tools req) tc) (\<lambda>call. \<not> tr_NeedsApproval call)"
    unfolding resolve_call_def by (intro yields_rules) simp_all
  moreover have "budget_action rt \<noteq> BudgetWaitForApproval"
    using g(2) assms(3)
    by (auto simp: budget_action_def budget_waits_def runtimeAgentConfig_def Let_def
        BudgetStopRun_def BudgetWaitForApproval_def split: option.splits)
  ultimately show ?thesis by blast
qed

section \<open>What a run delivers\<close>

lemma drive_loop_result:
  assumes "run_state (drive_loop env rt input) s = (r, s')"
  shows "\<exists>out s0. w_events s0 = w_events s \<and> run_state (runAgentLoop env rt input) s0 = (out, s') \<and>
    out \<noteq> (None, None) \<and> outcome_normal out \<and>
    (\<forall>err. snd out = Some err \<longrightarrow> r = Inl err) \<and>
    (\<forall>res. out = (Some res, None) \<longrightarrow> (\<exists>z. r = Inr z \<and> rz_Telemetry z = al_Telemetry res \<and>
       rz_Content z = al_Content res \<and> rz_RunID z = li_RunID input))"
proof -
  let ?s0 = "s\<lparr>w_tracker := NewBudgetTracker (rt_Budget rt)\<rparr>"
  obtain out s1 where o1: "run_state (runAgentLoop env rt input) ?s0 = (out, s1)" by fastforce
  note f = yieldsD [OF runAgentLoop_outcome o1] yieldsD [OF runAgentLoop_normal o1]
  with assms o1 show ?thesis
    by (intro exI [of _ out] exI [of _ ?s0])
      (auto simp: drive_loop_def split: prod.splits option.splits)
qed

text \<open>A run that its budget stops delivers no result: the loop ends with the partial content, the
  usage and the finish reason \<open>budget_exceeded\<close>, but the driver hands on the error alone. So no
  delivered result ever has that finish reason, only \<open>complete\<close> or \<open>max_iterations\<close>.\<close>

theorem budget_stop_delivers_nothing:
  "case run_state (driveRun env rt approvalHandler ctx req runID) s of (r, s') \<Rightarrow>
     (\<forall>z. r = Inr z \<longrightarrow> rn_FinishReason (te_Run (rz_Telemetry z)) \<noteq> FinishBudgetExceeded \<and>
        rn_FinishReason (te_Run (rz_Telemetry z)) \<in> {FinishComplete, FinishMaxIterations})"
proof -
  obtain r s' where d: "run_state (driveRun env rt approvalHandler ctx req runID) s = (r, s')" by fastforce
  from drive_loop_result [OF this [unfolded driveRun_def]] obtain out
    where o1: "out \<noteq> (None, None)" "outcome_normal out" "\<forall>err. snd out = Some err \<longrightarrow> r = Inl err"
      "\<forall>res. out = (Some res, None) \<longrightarrow> (\<exists>z. r = Inr z \<and> rz_Telemetry z = al_Telemetry res)"
    by blast
  have "ended_normally (rz_Telemetry z)" if "r = Inr z" for z
    using o1 that by (cases out; cases "snd out"; cases "fst out") (auto simp: outcome_normal_def)
  moreover have "\<not> ended_normally t" if "rn_FinishReason (te_Run t) = FinishBudgetExceeded" for t
    using that by (simp add: ended_normally_def FinishComplete_def FinishMaxIterations_def FinishBudgetExceeded_def)
  ultimately show ?thesis using d by (auto simp: ended_normally_def)
qed

section \<open>Witnesses\<close>

text \<open>An agent with one sub-agent, both on local runtimes.\<close>

definition desk_agents :: "nat agents" where
  "desk_agents n = \<lparr>ag_config = (if n = 0
       then WithSubAgentRegistry (Some (one_sub_agent ''helper'' 1)) (WithName ''desk'' (new_config ''u''))
       else WithName ''helper'' (new_config ''v'')),
     ag_runtime = Some (sample_runtime (\<lambda>_. text_response ''hi''))\<rparr>"

definition desk_call :: "(nat, (go_error + nat run_request) option) state" where
  "desk_call = prepareRun 3 (bd_codec sample_build) desk_agents 0 ''hello'' None"

lemma desk_accepted: "case fst (run_state desk_call 0) of Some (Inr req) \<Rightarrow> True | _ \<Rightarrow> False"
  by code_simp

lemma desk_request: "\<exists>req w'. run_state (prepareRun 3 (bd_codec sample_build) desk_agents 0 ''hello'' None) 0
    = (Some (Inr req), w')"
  using desk_accepted unfolding desk_call_def
  by (auto split: option.splits sum.splits) (metis prod.collapse)

theorem run_request_returns_witness:
  "fst (run_state (prepareRun 3 (bd_codec sample_build) desk_agents 0 ''hello'' None) 0) \<noteq> None"
  by (rule run_request_returns)
    (simp add: effective_depth_def desk_agents_def WithSubAgentRegistry_def WithName_def new_config_def
      defaultMaxSubAgentDepth_def)

lemma desk_children: "children_of desk_agents 0 = [1]"
  by (simp add: children_of_def desk_agents_def one_sub_agent_def WithSubAgentRegistry_def
      WithName_def new_config_def sub_List_def)

theorem delegations_routed_witness:
  "\<exists>(req :: nat run_request) tool route. FindToolByName (qq_Tools req) (tl_Name tool) = Some tool \<and>
     map_of (buildSubAgentRoutes (qq_SubAgents req)) (tl_Name (tool :: nat tool)) = Some route \<and>
     ro_name route = ''helper''"
proof -
  obtain req w' where r: "run_state (prepareRun 3 (bd_codec sample_build) desk_agents 0 ''hello'' None) 0
      = (Some (Inr req), w')" using desk_request by blast
  have "agent_name desk_agents 1 = ''helper''" by (simp add: desk_agents_def WithName_def)
  then show ?thesis using delegations_routed [OF r, of 1] by (auto simp: desk_children desk_agents_def)
qed

theorem accepted_run_needs_no_handler_witness:
  "\<exists>req :: nat run_request. yields (resolve_call (runtimeAgentConfig (ag_config (desk_agents 0)) (sample_client (\<lambda>_. text_response ''hi'')))
     (qq_Tools req) \<lparr>tc_ToolCallID = ''1'', tc_ToolName = ''subagent_helper'', tc_Args = None\<rparr>)
     (\<lambda>call. \<not> tr_NeedsApproval call)"
proof -
  obtain req w' where r: "run_state (prepareRun 3 (bd_codec sample_build) desk_agents 0 ''hello'' None) 0
      = (Some (Inr req), w')" using desk_request by blast
  have "gc_approvalHandler (ag_config (desk_agents 0)) = None"
    by (simp add: desk_agents_def WithSubAgentRegistry_def WithName_def new_config_def)
  from accepted_run_needs_no_handler [OF r this refl] show ?thesis by blast
qed

definition plain_request :: "nat run_request" where
  "plain_request = createRunRequest (new_config ''u'') ''hello'' '''' True [] []"


definition plain_run :: "(nat, go_error + agent_run_result) io" where
  "plain_run = driveRun sample_env (sample_runtime (\<lambda>_. text_response ''hi'')) None Map.empty plain_request ''r''"

lemma plain_run_delivers: "case fst (run_state plain_run (new_world 0)) of Inr z \<Rightarrow> True | Inl e \<Rightarrow> False"
  by code_simp

theorem budget_stop_delivers_nothing_witness:
  "\<exists>z. fst (run_state plain_run (new_world 0)) = Inr z \<and>
     rn_FinishReason (te_Run (rz_Telemetry z)) \<noteq> FinishBudgetExceeded"
proof -
  obtain z where z: "fst (run_state plain_run (new_world 0)) = Inr z"
    using plain_run_delivers by (auto split: sum.splits)
  with budget_stop_delivers_nothing [of sample_env "sample_runtime (\<lambda>_. text_response ''hi'')" None Map.empty
      plain_request "''r''" "new_world 0"]
  show ?thesis by (auto simp: plain_run_def split: prod.splits)
qed

end
