(* ===== verification/Run_Handle.thy ===== *)
theory Run_Handle
  imports Agent_Facade KV_Store
begin

text \<open>
  The handle of a run and what may happen to it concurrently: \<open>internal/runtime/local/run_handle.go\<close>,
  \<open>stream_handle.go\<close> and \<open>approve\<close> of \<open>runtime.go\<close>, the registry of live runs of
  \<open>pkg/agent/agent_run.go\<close>, \<open>agent_stream.go\<close> and \<open>GetAgentRun\<close>. An operation that holds a lock, or
  runs in a \<open>sync.Once\<close>, is one step; \<open>markDone\<close> has three, between which every other operation may
  run. The relations give the interleavings.
\<close>

section \<open>Errors and states\<close>

definition ErrApprovalAlreadyResolved :: go_error where
  "ErrApprovalAlreadyResolved = ErrNew ''runtime: approval already resolved''"
definition ErrRunNotFound :: go_error where
  "ErrRunNotFound = ErrNew ''runtime: run not found (unknown runID)''"
definition ErrStreamNotFound :: go_error where
  "ErrStreamNotFound = ErrNew ''runtime: stream not found (unknown runID)''"
definition ErrStreamOffsetNotSupported :: go_error where
  "ErrStreamOffsetNotSupported = ErrNew ''runtime: stream offset not supported by this runtime''"
definition ErrStreamAlreadyConsumed :: go_error where
  "ErrStreamAlreadyConsumed = ErrNew ''runtime: stream events already consumed on this handle''"
definition ErrRunAlreadyCompleted :: go_error where
  "ErrRunAlreadyCompleted = ErrNew ''runtime: run already completed, stream unavailable''"

definition StatusRunning :: string where "StatusRunning = ''running''"
definition StatusCompleted :: string where "StatusCompleted = ''completed''"
definition StatusFailed :: string where "StatusFailed = ''failed''"
definition StatusCancelled :: string where "StatusCancelled = ''cancelled''"

definition IsTerminal :: "string \<Rightarrow> bool" where
  "IsTerminal s \<longleftrightarrow> s = StatusCompleted \<or> s = StatusFailed \<or> s = StatusCancelled"

lemmas status_defs = StatusRunning_def StatusCompleted_def StatusFailed_def StatusCancelled_def

section \<open>The handle\<close>

text \<open>\<open>hn_cancelled\<close>: \<open>cancelOnce\<close> has run, so the run's context is cancelled; \<open>hn_done\<close>: the channel
  of \<open>Done\<close> is closed; \<open>hn_consumed\<close>: \<open>eventsOnce\<close> has run.\<close>

record run_handle =
  hn_id :: string
  hn_status :: string
  hn_res :: "agent_run_result option"
  hn_err :: "go_error option"
  hn_cancelled :: bool
  hn_done :: bool
  hn_consumed :: bool

definition newRunHandle :: "string \<Rightarrow> run_handle" where
  "newRunHandle i = \<lparr>hn_id = i, hn_status = StatusRunning, hn_res = None, hn_err = None,
     hn_cancelled = False, hn_done = False, hn_consumed = False\<rparr>"

text \<open>\<open>Cancel\<close> of a run without the durable engine, and with it: \<open>engineErr\<close> is the answer of the
  engine's \<open>CancelRun\<close>, \<open>finished\<close> recognizes its error for a run that is over.\<close>

definition handle_Cancel :: "run_handle \<Rightarrow> go_error option \<times> run_handle" where
  "handle_Cancel h = (if hn_cancelled h then (Some ErrRunAlreadyCompleted, h)
     else (None, h\<lparr>hn_cancelled := True\<rparr>))"

definition handle_CancelDurable ::
    "(go_error \<Rightarrow> bool) \<Rightarrow> go_error option \<Rightarrow> run_handle \<Rightarrow> go_error option \<times> run_handle" where
  "handle_CancelDurable finished engineErr h =
    ((case engineErr of None \<Rightarrow> None
      | Some err \<Rightarrow> if finished err then Some ErrRunAlreadyCompleted else Some err),
     h\<lparr>hn_cancelled := True\<rparr>)"

text \<open>The status of a finished run; \<open>engine_cancelled\<close> recognizes the engine's \<open>ErrRunCancelled\<close>.\<close>

definition done_status :: "(go_error \<Rightarrow> bool) \<Rightarrow> go_error option \<Rightarrow> string" where
  "done_status engine_cancelled err = (case err of None \<Rightarrow> StatusCompleted
     | Some e \<Rightarrow> if error_is e ContextCanceled \<or> engine_cancelled e then StatusCancelled
         else StatusFailed)"

definition mark_result ::
    "(go_error \<Rightarrow> bool) \<Rightarrow> agent_run_result option \<Rightarrow> go_error option \<Rightarrow> run_handle \<Rightarrow> run_handle" where
  "mark_result engine_cancelled res err h =
     h\<lparr>hn_res := res, hn_err := err, hn_status := done_status engine_cancelled err\<rparr>"

definition mark_cancel :: "run_handle \<Rightarrow> run_handle" where
  "mark_cancel h = h\<lparr>hn_cancelled := True\<rparr>"

definition mark_close :: "run_handle \<Rightarrow> run_handle" where
  "mark_close h = h\<lparr>hn_done := True\<rparr>"

definition markDone ::
    "(go_error \<Rightarrow> bool) \<Rightarrow> agent_run_result option \<Rightarrow> go_error option \<Rightarrow> run_handle \<Rightarrow> run_handle" where
  "markDone engine_cancelled res err h = mark_close (mark_cancel (mark_result engine_cancelled res err h))"

text \<open>\<open>Events\<close>: the check under the lock, then the channel, which is handed out once.\<close>

definition events_check :: "int \<Rightarrow> run_handle \<Rightarrow> go_error option" where
  "events_check fromOffset h = (if fromOffset > 0 then Some ErrStreamOffsetNotSupported
     else if IsTerminal (hn_status h) then Some ErrRunAlreadyCompleted else None)"

definition events_take :: "run_handle \<Rightarrow> go_error option \<times> run_handle" where
  "events_take h = (if hn_consumed h then (Some ErrStreamAlreadyConsumed, h)
     else (None, h\<lparr>hn_consumed := True\<rparr>))"

section \<open>Concurrent use of a handle\<close>

text \<open>What a goroutine sees: the answer of a call that returns, or a step of the driver's \<open>markDone\<close>.
  A \<open>Get\<close> answers when the channel of \<open>Done\<close> is closed; one that waits may also give up with its own
  context's error, which is a step of its own.\<close>

datatype handle_event =
    StatusIs string
  | CancelSays "go_error option"
  | GetSays "agent_run_result option" "go_error option"
  | GetGivesUp go_error
  | EventsSay "go_error option"
  | Marks "agent_run_result option" "go_error option"
  | Releases
  | Closes

text \<open>How far the driver is with \<open>markDone\<close>, which it calls once.\<close>

datatype drive_pc = Running | Marked | Released | Closed

inductive handle_step ::
    "(go_error \<Rightarrow> bool) \<Rightarrow> drive_pc \<times> run_handle \<Rightarrow> handle_event \<Rightarrow> drive_pc \<times> run_handle \<Rightarrow> bool"
  for ec :: "go_error \<Rightarrow> bool" where
  status: "handle_step ec (pc, h) (StatusIs (hn_status h)) (pc, h)"
| cancel: "handle_Cancel h = (r, h') \<Longrightarrow> handle_step ec (pc, h) (CancelSays r) (pc, h')"
| get: "hn_done h \<Longrightarrow> handle_step ec (pc, h) (GetSays (hn_res h) (hn_err h)) (pc, h)"
| give_up: "handle_step ec (pc, h) (GetGivesUp e) (pc, h)"
| refuse: "events_check off h = Some e \<Longrightarrow> handle_step ec (pc, h) (EventsSay (Some e)) (pc, h)"
| take: "events_take h = (r, h') \<Longrightarrow> handle_step ec (pc, h) (EventsSay r) (pc, h')"
| mark: "handle_step ec (Running, h) (Marks res err) (Marked, mark_result ec res err h)"
| release: "handle_step ec (Marked, h) Releases (Released, mark_cancel h)"
| close: "handle_step ec (Released, h) Closes (Closed, mark_close h)"

inductive handle_run ::
    "(go_error \<Rightarrow> bool) \<Rightarrow> drive_pc \<times> run_handle \<Rightarrow> handle_event list \<Rightarrow> drive_pc \<times> run_handle \<Rightarrow> bool"
  for ec :: "go_error \<Rightarrow> bool" where
  start: "handle_run ec s [] s"
| more: "handle_run ec s evs s' \<Longrightarrow> handle_step ec s' e s'' \<Longrightarrow> handle_run ec s (evs @ [e]) s''"



text \<open>The value that the handle will answer with, once the driver has decided it.\<close>

definition settled_status :: "(go_error \<Rightarrow> bool) \<Rightarrow> drive_pc \<times> run_handle \<Rightarrow> handle_event list \<Rightarrow> bool" where
  "settled_status ec s evs \<longleftrightarrow> (case s of (pc, h) \<Rightarrow>
     (if pc = Running then hn_status h = StatusRunning else hn_status h = done_status ec (hn_err h)) \<and>
     (\<forall>st. StatusIs st \<in> set evs \<longrightarrow> st \<in> {StatusRunning, hn_status h}))"

definition settled_answers :: "drive_pc \<times> run_handle \<Rightarrow> handle_event list \<Rightarrow> bool" where
  "settled_answers s evs \<longleftrightarrow> (case s of (pc, h) \<Rightarrow> (hn_done h \<longleftrightarrow> pc = Closed) \<and>
     (\<forall>res err. Marks res err \<in> set evs \<longrightarrow> pc \<noteq> Running \<and> hn_res h = res \<and> hn_err h = err) \<and>
     (\<forall>res err. GetSays res err \<in> set evs \<longrightarrow> pc = Closed \<and> hn_res h = res \<and> hn_err h = err))"

definition settled_counts :: "drive_pc \<times> run_handle \<Rightarrow> handle_event list \<Rightarrow> bool" where
  "settled_counts s evs \<longleftrightarrow>
     length (filter (\<lambda>e. e = CancelSays None) evs) \<le> (if hn_cancelled (snd s) then 1 else 0) \<and>
     length (filter (\<lambda>e. e = EventsSay None) evs) = (if hn_consumed (snd s) then 1 else 0)"

lemma done_status_not_running [simp]: "done_status ec err \<noteq> StatusRunning"
  by (simp add: done_status_def status_defs split: option.split)

lemma settled_start:
  "settled_status ec (Running, newRunHandle i) []" "settled_answers (Running, newRunHandle i) []"
  "settled_counts (Running, newRunHandle i) []"
  by (simp_all add: settled_status_def settled_answers_def settled_counts_def newRunHandle_def)

lemma settled_status_step: "handle_step ec s e s' \<Longrightarrow> settled_status ec s evs \<Longrightarrow> settled_status ec s' (evs @ [e])"
  by (induction rule: handle_step.induct)
    (auto simp: settled_status_def handle_Cancel_def events_take_def mark_result_def mark_cancel_def
      mark_close_def split: if_splits)

lemma settled_answers_step: "handle_step ec s e s' \<Longrightarrow> settled_answers s evs \<Longrightarrow> settled_answers s' (evs @ [e])"
  by (induction rule: handle_step.induct)
    (auto simp: settled_answers_def handle_Cancel_def events_take_def mark_result_def mark_cancel_def
      mark_close_def split: if_splits)

lemma settled_counts_step: "handle_step ec s e s' \<Longrightarrow> settled_counts s evs \<Longrightarrow> settled_counts s' (evs @ [e])"
  by (induction rule: handle_step.induct)
    (auto simp: settled_counts_def handle_Cancel_def events_take_def mark_result_def mark_cancel_def
      mark_close_def split: if_splits)

lemma settled_run:
  "handle_run ec s evs s' \<Longrightarrow> settled_status ec s [] \<Longrightarrow> settled_status ec s' evs"
  "handle_run ec s evs s' \<Longrightarrow> settled_answers s [] \<Longrightarrow> settled_answers s' evs"
  "handle_run ec s evs s' \<Longrightarrow> settled_counts s [] \<Longrightarrow> settled_counts s' evs"
  subgoal by (induction rule: handle_run.induct) (auto intro: settled_status_step)
  subgoal by (induction rule: handle_run.induct) (auto intro: settled_answers_step)
  subgoal by (induction rule: handle_run.induct) (auto intro: settled_counts_step)
  done


text \<open>A second \<open>Cancel\<close> says that the run has already completed while it is still running.\<close>

lemma second_cancel_while_running:
  "handle_run ec (Running, newRunHandle i)
     [CancelSays None, CancelSays (Some ErrRunAlreadyCompleted), StatusIs StatusRunning]
     (Running, (newRunHandle i)\<lparr>hn_cancelled := True\<rparr>)"
proof -
  let ?h = "(newRunHandle i)\<lparr>hn_cancelled := True\<rparr>"
  have 1: "handle_step ec (Running, newRunHandle i) (CancelSays None) (Running, ?h)"
    by (rule cancel) (simp add: handle_Cancel_def newRunHandle_def)
  have 2: "handle_step ec (Running, ?h) (CancelSays (Some ErrRunAlreadyCompleted)) (Running, ?h)"
    by (rule cancel) (simp add: handle_Cancel_def)
  have 3: "handle_step ec (Running, ?h) (StatusIs StatusRunning) (Running, ?h)"
    using status [of ec Running ?h] by (simp add: newRunHandle_def)
  show ?thesis
    using more [OF more [OF more [OF start 1] 2] 3] by simp
qed


section \<open>The registry of live runs\<close>

text \<open>
  The handles of an agent are numbers; \<open>rg_run\<close> is a handle's run. \<open>rg_done\<close> holds those whose channel
  of \<open>Done\<close> is closed, \<open>rg_waiters\<close> those whose goroutine \<open>awaitCompletion\<close> has not finished,
  \<open>rg_lookups\<close> what calls of \<open>GetAgentRun\<close> have found and not examined yet.
\<close>

record reg_state =
  rg_runs :: "(string, nat) kv"
  rg_run :: "nat \<Rightarrow> string"
  rg_created :: "nat set"
  rg_done :: "nat set"
  rg_waiters :: "nat set"
  rg_lookups :: "(string \<times> nat) set"

definition newAgentRun :: "nat \<Rightarrow> reg_state \<Rightarrow> reg_state" where
  "newAgentRun r s = s\<lparr>rg_runs := kv_Set (rg_run s r) r (rg_runs s),
     rg_created := insert r (rg_created s), rg_waiters := insert r (rg_waiters s)\<rparr>"

definition awaitCompletion :: "nat \<Rightarrow> reg_state \<Rightarrow> reg_state" where
  "awaitCompletion r s = s\<lparr>rg_runs := snd (kv_DeleteIf (rg_run s r) r (rg_runs s)),
     rg_waiters := rg_waiters s - {r}\<rparr>"

text \<open>\<open>GetAgentRun\<close>, and \<open>GetAgentStream\<close>, which is the same code on the registry of streams. Its look-up
  in the registry and the deletion are two steps, and so is the call of the runtime, which gives a
  fresh handle \<open>r\<close> of the run or an error.\<close>

definition reconnect_lookup :: "string \<Rightarrow> reg_state \<Rightarrow> nat option" where
  "reconnect_lookup runID s = kv_Get runID (rg_runs s)"

definition reconnect_found :: "string \<Rightarrow> nat \<Rightarrow> reg_state \<Rightarrow> (go_error + nat) \<times> reg_state" where
  "reconnect_found runID existing s =
    (if existing \<in> rg_done s then
       (Inl ErrRunAlreadyCompleted, s\<lparr>rg_runs := kv_Delete runID (rg_runs s)\<rparr>)
     else (Inr existing, s))"

definition reconnect_runtime :: "string \<Rightarrow> go_error + nat \<Rightarrow> reg_state \<Rightarrow> (go_error + nat) \<times> reg_state" where
  "reconnect_runtime runID answer s = (case answer of
      Inl err \<Rightarrow> (Inl (if err = ErrRunAlreadyCompleted then ErrRunAlreadyCompleted else err), s)
    | Inr r \<Rightarrow> (Inr r, newAgentRun r s))"

datatype reg_event = Starts nat | Finishes nat | Unregisters nat | Finds string nat
  | Reconnects string "go_error + nat"

inductive reg_step :: "reg_state \<Rightarrow> reg_event \<Rightarrow> reg_state \<Rightarrow> bool" where
  run: "r \<notin> rg_created s \<Longrightarrow> reg_step s (Starts r) (newAgentRun r s)"
| finish: "r \<in> rg_created s \<Longrightarrow> reg_step s (Finishes r) (s\<lparr>rg_done := insert r (rg_done s)\<rparr>)"
| unregister: "r \<in> rg_waiters s \<Longrightarrow> r \<in> rg_done s \<Longrightarrow> reg_step s (Unregisters r) (awaitCompletion r s)"
| finds: "reconnect_lookup runID s = Some r \<Longrightarrow>
    reg_step s (Finds runID r) (s\<lparr>rg_lookups := insert (runID, r) (rg_lookups s)\<rparr>)"
| found: "(runID, r) \<in> rg_lookups s \<Longrightarrow> reconnect_found runID r s = (a, s') \<Longrightarrow>
    reg_step s (Reconnects runID a) s'"
| runtime: "(\<forall>r. answer = Inr r \<longrightarrow> r \<notin> rg_created s \<and> rg_run s r = runID) \<Longrightarrow>
    reconnect_runtime runID answer s = (a, s') \<Longrightarrow> reg_step s (Reconnects runID a) s'"

definition reg_start :: "(nat \<Rightarrow> string) \<Rightarrow> reg_state" where
  "reg_start f = \<lparr>rg_runs = NewKV, rg_run = f, rg_created = {}, rg_done = {}, rg_waiters = {},
     rg_lookups = {}\<rparr>"

inductive reg_reach :: "(nat \<Rightarrow> string) \<Rightarrow> reg_state \<Rightarrow> bool" for f :: "nat \<Rightarrow> string" where
  start: "reg_reach f (reg_start f)"
| step: "reg_reach f s \<Longrightarrow> reg_step s e s' \<Longrightarrow> reg_reach f s'"

text \<open>Every entry has its waiter, which will remove it.\<close>

definition reg_inv :: "reg_state \<Rightarrow> bool" where
  "reg_inv s \<longleftrightarrow> kv_inv (rg_runs s) \<and> rg_waiters s \<subseteq> rg_created s \<and>
     (\<forall>k r. kv_Get k (rg_runs s) = Some r \<longrightarrow> r \<in> rg_waiters s \<and> rg_run s r = k) \<and>
     (\<forall>(k, r) \<in> rg_lookups s. r \<in> rg_created s \<and> rg_run s r = k)"

lemma kv_DeleteIf_get:
  "kv_Get j (snd (kv_DeleteIf k v m)) = (if j = k \<and> kv_Get k m = Some v then None else kv_Get j m)"
  by (auto simp: kv_DeleteIf_def kv_Get_def map_of_Delete split: option.split)

lemma kv_inv_DeleteIf [intro]: "kv_inv m \<Longrightarrow> kv_inv (snd (kv_DeleteIf k v m))"
  by (auto simp: kv_DeleteIf_def split: option.split)

lemma reg_inv_new: "reg_inv s \<Longrightarrow> reg_inv (newAgentRun r s)"
  by (auto simp: reg_inv_def newAgentRun_def kv.get_put split: if_splits)

lemma reg_inv_await: "reg_inv s \<Longrightarrow> reg_inv (awaitCompletion r s)"
  by (auto simp: reg_inv_def awaitCompletion_def kv_DeleteIf_get split: if_splits)

lemma reg_inv_step: "reg_step s e s' \<Longrightarrow> reg_inv s \<Longrightarrow> reg_inv s'"
proof (induction rule: reg_step.induct)
  case (finds runID s r)
  then have "r \<in> rg_waiters s" "rg_run s r = runID"
    by (auto simp: reg_inv_def reconnect_lookup_def)
  with finds show ?case by (auto simp: reg_inv_def)
next
  case (found runID r s a s')
  then show ?case
    by (auto simp: reconnect_found_def reg_inv_def kv.get_del split: if_splits)
next
  case (runtime answer s runID a s')
  then show ?case by (auto simp: reconnect_runtime_def reg_inv_new split: sum.splits)
qed (auto simp: reg_inv_new reg_inv_await, auto simp: reg_inv_def)

lemma reg_inv_start: "reg_inv (reg_start f)"
  by (simp add: reg_start_def reg_inv_def NewKV_def kv_inv_def kv_Get_def)

lemma reg_inv_reach: "reg_reach f s \<Longrightarrow> reg_inv s"
  by (induction rule: reg_reach.induct) (blast intro: reg_inv_start reg_inv_step)+

text \<open>C27. The registry of live runs: an entry is a handle of the run it is filed under, and its waiter
  is still there to remove it, so once every waiter is through the registry is empty, whatever
  reconnects ran in between; and a reconnect gives a handle of the run it asked for, never one
  that is known to be done.\<close>

theorem registry_drains:
  assumes "reg_reach f s"
  shows "(\<forall>k r. kv_Get k (rg_runs s) = Some r \<longrightarrow> r \<in> rg_waiters s \<and> rg_run s r = k) \<and>
    (rg_waiters s = {} \<longrightarrow> rg_runs s = []) \<and>
    (\<forall>k r s'. reg_step s (Reconnects k (Inr r)) s' \<longrightarrow>
       rg_run s r = k \<and> (r \<in> rg_created s \<longrightarrow> r \<notin> rg_done s))"
proof -
  from assms have inv: "reg_inv s" by (rule reg_inv_reach)
  have "rg_runs s = []" if "rg_waiters s = {}"
  proof (cases "rg_runs s")
    case (Cons p ps)
    then have "kv_Get (fst p) (rg_runs s) = Some (snd p)" by (simp add: kv_Get_def)
    with inv that show ?thesis by (auto simp: reg_inv_def)
  qed simp
  moreover have "rg_run s r = k \<and> (r \<in> rg_created s \<longrightarrow> r \<notin> rg_done s)"
    if "reg_step s (Reconnects k (Inr r)) s'" for k r s'
    using that
  proof (cases rule: reg_step.cases)
    case (found r')
    with inv show ?thesis by (auto simp: reg_inv_def reconnect_found_def split: if_splits)
  next
    case (runtime answer)
    then show ?thesis by (auto simp: reconnect_runtime_def split: sum.splits)
  qed
  ultimately show ?thesis using inv by (auto simp: reg_inv_def)
qed

theorem registry_drains_witness:
  "kv_Get ''a'' (rg_runs (newAgentRun 0 (reg_start (\<lambda>_. ''a'')))) = Some 0 \<and>
   0 \<in> rg_waiters (newAgentRun 0 (reg_start (\<lambda>_. ''a'')))"
proof -
  let ?s = "newAgentRun 0 (reg_start (\<lambda>_. ''a''))"
  have "reg_reach (\<lambda>_. ''a'') ?s"
    by (rule reg_reach.step [OF reg_reach.start]) (rule reg_step.run, simp add: reg_start_def)
  moreover have "kv_Get ''a'' (rg_runs ?s) = Some 0"
    by (simp add: newAgentRun_def reg_start_def kv_Set_def kv_Get_def)
  ultimately show ?thesis using registry_drains [of "\<lambda>_. ''a''" ?s] by blast
qed
section \<open>Approvals\<close>

text \<open>
  One approval of a tool call or a delegation in \<open>executeSingleTool\<close>, without the durable engine. The
  token's channel holds one answer. The loop first calls the approval handler, if there is one, and
  only then waits; \<open>InHandler xs\<close> is a loop whose handler will still call \<open>Respond\<close> with each of
  \<open>xs\<close>, which blocks while the channel is full. \<open>approve\<close> takes the token out of the pending ones and
  then sends: \<open>ap_senders\<close> are the answers that wait to be sent.
\<close>

datatype approval_pc = InHandler "string list" | Selecting | Decided string | GaveUp

record approval =
  ap_pending :: bool
  ap_channel :: "string option"
  ap_senders :: "string list"
  ap_loop :: approval_pc

definition approval_start :: "string list \<Rightarrow> approval" where
  "approval_start responses = \<lparr>ap_pending = True, ap_channel = None, ap_senders = [],
     ap_loop = InHandler responses\<rparr>"

text \<open>\<open>LoadAndDelete\<close> of the token: the error of \<open>approve\<close>, or the obligation to send.\<close>

definition approve_take :: "string \<Rightarrow> approval \<Rightarrow> go_error option \<times> approval" where
  "approve_take st a = (if ap_pending a
     then (None, a\<lparr>ap_pending := False, ap_senders := ap_senders a @ [st]\<rparr>)
     else (Some ErrApprovalAlreadyResolved, a))"

inductive approval_step :: "approval \<Rightarrow> approval \<Rightarrow> bool" where
  respond: "ap_loop a = InHandler (x # xs) \<Longrightarrow> ap_channel a = None \<Longrightarrow>
    approval_step a (a\<lparr>ap_channel := Some x, ap_loop := InHandler xs\<rparr>)"
| handled: "ap_loop a = InHandler [] \<Longrightarrow> approval_step a (a\<lparr>ap_loop := Selecting\<rparr>)"
| approve: "approve_take st a = (None, a') \<Longrightarrow> approval_step a a'"
| send: "ap_senders a = ss @ st # ts \<Longrightarrow> ap_channel a = None \<Longrightarrow>
    approval_step a (a\<lparr>ap_channel := Some st, ap_senders := ss @ ts\<rparr>)"
| receive: "ap_loop a = Selecting \<Longrightarrow> ap_channel a = Some st \<Longrightarrow>
    approval_step a (a\<lparr>ap_channel := None, ap_loop := Decided st, ap_pending := False\<rparr>)"
| give_up: "ap_loop a = Selecting \<Longrightarrow> approval_step a (a\<lparr>ap_loop := GaveUp, ap_pending := False\<rparr>)"

text \<open>The loop of the run hangs: no step, of anyone, will ever take it out of its handler.\<close>

definition hangs :: "approval \<Rightarrow> bool" where
  "hangs a \<longleftrightarrow> (\<forall>b. approval_step\<^sup>*\<^sup>* a b \<longrightarrow> (\<exists>xs. ap_loop b = InHandler xs))"

lemma two_steps: "r a b \<Longrightarrow> r b c \<Longrightarrow> r\<^sup>*\<^sup>* a c"
  by (blast intro: rtranclp.rtrancl_into_rtrancl)

lemma full_channel_hangs:
  assumes "ap_loop a = InHandler (x # xs)" "ap_channel a = Some y"
  shows "hangs a"
proof -
  have "ap_loop b = InHandler (x # xs) \<and> ap_channel b = Some y" if "approval_step\<^sup>*\<^sup>* a b" for b
    using that
  proof (induction rule: rtranclp_induct)
    case (step b c)
    from step(2,3) show ?case
      by (cases rule: approval_step.cases) (auto simp: approve_take_def split: if_splits)
  qed (use assms in simp)
  then show ?thesis by (auto simp: hangs_def)
qed

text \<open>With one answer in sight at most, from the handler or from a call of \<open>approve\<close>, nothing hangs.\<close>

definition answers_in_sight :: "approval \<Rightarrow> nat" where
  "answers_in_sight a = (if ap_pending a then 1 else 0) + length (ap_senders a) +
     (if ap_channel a = None then 0 else 1) +
     (case ap_loop a of InHandler xs \<Rightarrow> length xs | _ \<Rightarrow> 0)"

lemma answers_decrease: "approval_step a b \<Longrightarrow> answers_in_sight b \<le> answers_in_sight a"
  by (cases rule: approval_step.cases)
    (auto simp: answers_in_sight_def approve_take_def split: if_splits)

lemma answers_reach: "approval_step\<^sup>*\<^sup>* a b \<Longrightarrow> answers_in_sight b \<le> answers_in_sight a"
  by (induction rule: rtranclp_induct) (auto dest: answers_decrease)

lemma handler_finishes:
  assumes "ap_loop a = InHandler xs" "answers_in_sight a \<le> 1"
  shows "\<exists>b. approval_step\<^sup>*\<^sup>* a b \<and> ap_loop b = Selecting"
proof (cases xs)
  case Nil
  with assms(1) have "approval_step a (a\<lparr>ap_loop := Selecting\<rparr>)" by (simp add: handled)
  then have "approval_step\<^sup>*\<^sup>* a (a\<lparr>ap_loop := Selecting\<rparr>)" by blast
  then show ?thesis by (intro exI [of _ "a\<lparr>ap_loop := Selecting\<rparr>"]) simp
next
  case (Cons x ys)
  with assms have e: "ys = []" "ap_channel a = None"
    by (auto simp: answers_in_sight_def split: if_splits)
  let ?b = "a\<lparr>ap_channel := Some x, ap_loop := InHandler []\<rparr>"
  have "approval_step a ?b" using assms(1) Cons e by (auto intro: respond)
  moreover have "approval_step ?b (?b\<lparr>ap_loop := Selecting\<rparr>)" by (rule handled) simp
  ultimately have "approval_step\<^sup>*\<^sup>* a (?b\<lparr>ap_loop := Selecting\<rparr>)" by (rule two_steps)
  then show ?thesis by (intro exI [of _ "?b\<lparr>ap_loop := Selecting\<rparr>"]) simp
qed

text \<open>An approval whose token nobody calls \<open>approve\<close> with.\<close>

definition private_token :: "approval \<Rightarrow> approval" where
  "private_token a = a\<lparr>ap_pending := False\<rparr>"

text \<open>C29. Approvals can hang a run. A handler that answers is enough, once somebody else may answer the
  same token through \<open>approve\<close>, as in a stream of an agent that has an approval handler: the answer
  that comes first fills the channel, the loop is still in the handler, and the other answer blocks
  for ever; no timeout and no cancellation helps. The same happens if the handler responds twice.
  Without a second answer, that is with a handler that responds at most once to a token nobody else
  can resolve, or with no handler, the loop always gets to its wait.\<close>

theorem approval_may_hang:
  "(responses \<noteq> [] \<longrightarrow> (\<exists>a. approval_step\<^sup>*\<^sup>* (approval_start responses) a \<and> hangs a)) \<and>
   (2 \<le> length responses \<longrightarrow>
     (\<exists>a. approval_step\<^sup>*\<^sup>* (private_token (approval_start responses)) a \<and> hangs a)) \<and>
   (length responses \<le> 1 \<longrightarrow>
     (\<forall>a xs. approval_step\<^sup>*\<^sup>* (private_token (approval_start responses)) a \<and> ap_loop a = InHandler xs \<longrightarrow>
        (\<exists>b. approval_step\<^sup>*\<^sup>* a b \<and> ap_loop b = Selecting))) \<and>
   (\<forall>a xs. approval_step\<^sup>*\<^sup>* (approval_start []) a \<and> ap_loop a = InHandler xs \<longrightarrow>
        (\<exists>b. approval_step\<^sup>*\<^sup>* a b \<and> ap_loop b = Selecting))"
proof (intro conjI impI allI; (elim conjE)?)
  assume "responses \<noteq> []"
  then obtain x xs where r: "responses = x # xs" by (cases responses) auto
  let ?a0 = "approval_start responses"
  let ?a1 = "?a0\<lparr>ap_pending := False, ap_senders := [ApprovalApproved]\<rparr>"
  let ?a2 = "?a1\<lparr>ap_channel := Some ApprovalApproved, ap_senders := []\<rparr>"
  have "approval_step ?a0 ?a1" by (rule approve) (simp add: approve_take_def approval_start_def)
  moreover have "approval_step ?a1 ?a2"
    using send [of ?a1 "[]" ApprovalApproved "[]"] by (simp add: approval_start_def)
  ultimately have "approval_step\<^sup>*\<^sup>* ?a0 ?a2" by (rule two_steps)
  moreover have "hangs ?a2"
    by (rule full_channel_hangs [of _ x xs ApprovalApproved]) (simp_all add: approval_start_def r)
  ultimately show "\<exists>a. approval_step\<^sup>*\<^sup>* ?a0 a \<and> hangs a" by blast
next
  assume "2 \<le> length responses"
  then obtain x y xs where r: "responses = x # y # xs"
    by (cases responses; cases "tl responses") auto
  let ?a0 = "private_token (approval_start responses)"
  let ?a1 = "?a0\<lparr>ap_channel := Some x, ap_loop := InHandler (y # xs)\<rparr>"
  have "approval_step ?a0 ?a1"
    by (rule respond) (simp_all add: private_token_def approval_start_def r)
  then have "approval_step\<^sup>*\<^sup>* ?a0 ?a1" by blast
  moreover have "hangs ?a1" by (rule full_channel_hangs) simp_all
  ultimately show "\<exists>a. approval_step\<^sup>*\<^sup>* ?a0 a \<and> hangs a" by blast
next
  fix a xs
  assume "length responses \<le> 1" "approval_step\<^sup>*\<^sup>* (private_token (approval_start responses)) a"
    "ap_loop a = InHandler xs"
  moreover from this(1,2) have "answers_in_sight a \<le> 1"
    using answers_reach [of "private_token (approval_start responses)" a]
    by (simp add: answers_in_sight_def private_token_def approval_start_def)
  ultimately show "\<exists>b. approval_step\<^sup>*\<^sup>* a b \<and> ap_loop b = Selecting" by (blast intro: handler_finishes)
next
  fix a xs
  assume "approval_step\<^sup>*\<^sup>* (approval_start []) a" "ap_loop a = InHandler xs"
  moreover from this(1) have "answers_in_sight a \<le> 1"
    using answers_reach [of "approval_start []" a] by (simp add: answers_in_sight_def approval_start_def)
  ultimately show "\<exists>b. approval_step\<^sup>*\<^sup>* a b \<and> ap_loop b = Selecting" by (blast intro: handler_finishes)
qed

theorem approval_may_hang_witness:
  "\<exists>a. approval_step\<^sup>*\<^sup>* (approval_start [ApprovalRejected]) a \<and> hangs a"
  using approval_may_hang [of "[ApprovalRejected]"] by blast

end
