(* ===== verification/Durable_Runs.thy ===== *)
theory Durable_Runs
  imports Run_Handle
begin

text \<open>
  The local runtime on its durable engine, \<open>internal/runtime/local/durable_config.go\<close> and
  \<open>durable_engine.go\<close>: the settings of the engine, the input of a run's loop when the engine executes
  it, and the goroutines that drive a run or attach to the one that does. The engine is the package
  \<open>durable-go\<close>: its constructor, its registration and the outcome of a run are arguments. What the
  engine memoizes within a run is not modelled.
\<close>

section \<open>Identifiers\<close>

text \<open>The bytes of the first character of a string, as a range over it decodes them; an invalid byte is
  a character of its own.\<close>

definition cont_byte :: "nat \<Rightarrow> nat \<Rightarrow> char \<Rightarrow> bool" where
  "cont_byte lo hi c \<longleftrightarrow> lo \<le> of_char c \<and> (of_char c :: nat) \<le> hi"

definition rune_conts :: "char \<Rightarrow> (nat \<times> nat) list" where
  "rune_conts c =
    (let b = (of_char c :: nat); any = (0x80, 0xBF)
     in if 0xC2 \<le> b \<and> b \<le> 0xDF then [any]
        else if b = 0xE0 then [(0xA0, 0xBF), any]
        else if b = 0xED then [(0x80, 0x9F), any]
        else if 0xE1 \<le> b \<and> b \<le> 0xEF then [any, any]
        else if b = 0xF0 then [(0x90, 0xBF), any, any]
        else if 0xF1 \<le> b \<and> b \<le> 0xF3 then [any, any, any]
        else if b = 0xF4 then [(0x80, 0x8F), any, any]
        else [])"

definition rune_size :: "char \<Rightarrow> string \<Rightarrow> nat" where
  "rune_size c cs =
    (let conts = rune_conts c
     in if length conts \<le> length cs \<and> list_all (\<lambda>((lo, hi), d). cont_byte lo hi d) (zip conts cs)
        then 1 + length conts else 1)"

definition is_id_char :: "char \<Rightarrow> bool" where
  "is_id_char r \<longleftrightarrow> is_lower r \<or> is_upper r \<or> is_decimal r \<or> r = CHR ''-'' \<or> r = CHR ''_''"

fun map_id_runes :: "nat \<Rightarrow> string \<Rightarrow> string" where
  "map_id_runes skip [] = []"
| "map_id_runes (Suc skip) (c # cs) = map_id_runes skip cs"
| "map_id_runes 0 (c # cs) =
    (if is_id_char c then c else CHR ''-'') # map_id_runes (rune_size c cs - 1) cs"

definition sanitizeDurableID :: "string \<Rightarrow> string" where
  "sanitizeDurableID name =
    (let out = Trim_char (CHR ''-'') (map_id_runes 0 (TrimSpace name))
     in if out = '''' then ''default'' else out)"

definition defaultDataDir :: "string \<Rightarrow> string" where
  "defaultDataDir agentName = ''./agent_data/'' @ sanitizeDurableID agentName"

section \<open>The engine\<close>

datatype durable_option =
    WithAutoPurge int int
  | WithAutoPurgeMaxRuns int
  | WithAutoPurgeMaxBytes int
  | WithMaxRetries int
  | WithEngineTimeout int
  | WithLockTimeout int
  | WithEngineLogger

definition defaultAutoPurgeAge :: int where "defaultAutoPurgeAge = 7 * 24 * hour_ns"
definition defaultAutoPurgeInterval :: int where "defaultAutoPurgeInterval = hour_ns"

text \<open>\<open>slog\<close>: the runtime's logger is one of the SDK's.\<close>

definition engine_options :: "local_config option \<Rightarrow> bool \<Rightarrow> durable_option list" where
  "engine_options cfg slog =
    (case cfg of None \<Rightarrow> [WithAutoPurge defaultAutoPurgeAge defaultAutoPurgeInterval]
     | Some l \<Rightarrow>
        (if lg_AutoPurgeAge l < 0 then []
         else if lg_AutoPurgeAge l > 0 \<or> lg_AutoPurgeInterval l > 0 then
           [WithAutoPurge (if lg_AutoPurgeAge l \<le> 0 then defaultAutoPurgeAge else lg_AutoPurgeAge l)
              (if lg_AutoPurgeInterval l \<le> 0 then defaultAutoPurgeInterval else lg_AutoPurgeInterval l)]
         else [WithAutoPurge defaultAutoPurgeAge defaultAutoPurgeInterval])
        @ (if lg_AutoPurgeMaxRuns l > 0 then [WithAutoPurgeMaxRuns (lg_AutoPurgeMaxRuns l)] else [])
        @ (if lg_AutoPurgeMaxBytes l > 0 then [WithAutoPurgeMaxBytes (lg_AutoPurgeMaxBytes l)] else [])
        @ (if lg_MaxRetries l > 0 then [WithMaxRetries (lg_MaxRetries l)] else [])
        @ (if lg_Timeout l > 0 then [WithEngineTimeout (lg_Timeout l)] else [])
        @ (if lg_LockTimeout l > 0 then [WithLockTimeout (lg_LockTimeout l)] else []))
    @ (if slog then [WithEngineLogger] else [])"

text \<open>The engine of a runtime, whether the runtime owns it, and the task it is registered under.\<close>

record durable_setup =
  du_engine :: nat
  du_ownsEngine :: bool
  du_taskID :: string

definition setupDurability ::
    "(string \<Rightarrow> durable_option list \<Rightarrow> go_error + nat) \<Rightarrow> (nat \<Rightarrow> string \<Rightarrow> go_error option) \<Rightarrow>
     local_config option \<Rightarrow> bool \<Rightarrow> string \<Rightarrow> go_error + durable_setup option" where
  "setupDurability newEngine registerTask cfg slog agentName =
    (if \<not> durabilityEnabled cfg then Inr None
     else
       let callers = (case cfg of None \<Rightarrow> None | Some l \<Rightarrow> lg_Engine l);
           dir = (case cfg of None \<Rightarrow> '''' | Some l \<Rightarrow> lg_DataDir l);
           dataDir = (if dir = '''' then defaultDataDir agentName else dir);
           taskID = sanitizeDurableID agentName;
           engine = (case callers of Some e \<Rightarrow> Inr (e, False)
             | None \<Rightarrow> (case newEngine dataDir (engine_options cfg slog) of
                 Inl err \<Rightarrow> Inl (ErrWrap (''local: durable engine construction failed (dataDir ''
                   @ Quote dataDir @ ''): '') err '''')
               | Inr e \<Rightarrow> Inr (e, True)))
       in case engine of Inl err \<Rightarrow> Inl err
          | Inr (e, owns) \<Rightarrow> (case registerTask e taskID of
              Some err \<Rightarrow> Inl (ErrWrap (''local: durable RegisterTask('' @ Quote taskID @ '') failed: '') err '''')
            | None \<Rightarrow> Inr (Some \<lparr>du_engine = e, du_ownsEngine = owns, du_taskID = taskID\<rparr>)))"

section \<open>The input of a durable run\<close>

record durable_run_input =
  di_UserPrompt :: string
  di_ConversationID :: string
  di_IsStream :: bool
  di_StreamingEnabled :: bool
  di_EventTypes :: "string list"
  di_MaxSubAgentDepth :: int
  di_MemoryScope :: memory_scope
  di_Budget :: "budget_config option"

definition buildDurableRunInput ::
    "'w runtime \<Rightarrow> 'w handler \<Rightarrow> context_values \<Rightarrow> 'w run_request \<Rightarrow> bool \<Rightarrow> durable_run_input" where
  "buildDurableRunInput rt approvalHandler ctx req isStream =
    \<lparr>di_UserPrompt = qq_UserPrompt req, di_ConversationID = qq_ConversationID req,
     di_IsStream = isStream, di_StreamingEnabled = qq_EnableLLMStream req,
     di_EventTypes = (if isStream then (if qq_EventTypes req \<noteq> [] then qq_EventTypes req else [AgentEventAll])
       else if approvalHandler \<noteq> None then [''CUSTOM''] else []),
     di_MaxSubAgentDepth = qq_MaxSubAgentDepth req,
     di_MemoryScope = (case ResolveMemoryScope rt ctx of Inl err \<Rightarrow> empty_scope | Inr scope \<Rightarrow> scope),
     di_Budget = rt_Budget rt\<rparr>"

record 'w live_run_extras =
  lx_tools :: "'w tool list"
  lx_subAgentRoutes :: "(string \<times> 'w route) list"
  lx_channelName :: string

definition storeLiveRunExtras ::
    "'w tool list \<Rightarrow> 'w sub_agent_spec option list \<Rightarrow> string \<Rightarrow> 'w live_run_extras" where
  "storeLiveRunExtras tools subAgents channelName = \<lparr>lx_tools = tools,
     lx_subAgentRoutes = buildSubAgentRoutes subAgents, lx_channelName = channelName\<rparr>"

text \<open>The loop input of \<open>durableExec\<close>. \<open>extras\<close> is what this process still holds of the run; \<open>resolved\<close>
  is the answer of the tools resolver, if there is one, which is asked only without extras.\<close>

definition durable_loop_input ::
    "'w handler \<Rightarrow> 'w live_run_extras option \<Rightarrow> (go_error + 'w tool list) option \<Rightarrow> string \<Rightarrow>
     durable_run_input \<Rightarrow> 'w loop_input" where
  "durable_loop_input approvalHandler extras resolved runID inp =
    (let channel0 = (if di_IsStream inp then localChannelName runID else '''');
         tools = (case extras of Some x \<Rightarrow> lx_tools x
           | None \<Rightarrow> (case resolved of Some (Inr ts) \<Rightarrow> ts | _ \<Rightarrow> []));
         routes = (case extras of Some x \<Rightarrow> lx_subAgentRoutes x | None \<Rightarrow> []);
         channel = (case extras of Some x \<Rightarrow> if lx_channelName x \<noteq> '''' then lx_channelName x else channel0
           | None \<Rightarrow> channel0);
         eventTypes = (if \<not> di_IsStream inp \<and> approvalHandler \<noteq> None then [''CUSTOM'']
           else if di_IsStream inp then
             (if di_EventTypes inp = [] then [AgentEventAll] else di_EventTypes inp)
           else [])
     in \<lparr>li_UserPrompt = di_UserPrompt inp, li_ConversationID = di_ConversationID inp,
         li_StreamingEnabled = di_StreamingEnabled inp, li_Tools = tools, li_ChannelName = channel,
         li_EventTypes = eventTypes, li_ApprovalHandler = approvalHandler,
         li_SubAgentRoutes = routes, li_SubAgentDepth = 0,
         li_MaxSubAgentDepth = di_MaxSubAgentDepth inp, li_MemoryScope = di_MemoryScope inp,
         li_RunID = runID, li_EnforceBudget = NewBudgetTracker (di_Budget inp) \<noteq> None,
         li_circuitBreaker = None, li_circuitNow = None\<rparr>)"

text \<open>The deadline that a run gets on the engine.\<close>

definition runOptions :: "'w runtime \<Rightarrow> int option" where
  "runOptions rt = (if rt_Timeout rt > 0 then Some (rt_Timeout rt) else None)"

section \<open>The same input with and without the engine\<close>

text \<open>The durable and the in-memory path run the same loop: for a run started in this process the
  engine executes the loop on exactly the input that the drivers without the engine use, for a run
  and for a stream.\<close>

theorem durable_input_agrees:
  "(\<not> qq_EnableLLMStream req \<longrightarrow>
     durable_loop_input handler (Some (storeLiveRunExtras (qq_Tools req) (qq_SubAgents req) '''')) resolved runID
       (buildDurableRunInput rt handler ctx req False) =
     drive_input rt handler ctx req runID False '''' (if handler \<noteq> None then [''CUSTOM''] else [])) \<and>
   durable_loop_input handler
     (Some (storeLiveRunExtras (qq_Tools req) (qq_SubAgents req) (localChannelName runID))) resolved runID
     (buildDurableRunInput rt handler ctx req True) =
   drive_input rt handler ctx req runID (qq_EnableLLMStream req) (localChannelName runID)
     (if qq_EventTypes req \<noteq> [] then qq_EventTypes req else [AgentEventAll])"
  by (simp add: durable_loop_input_def storeLiveRunExtras_def buildDurableRunInput_def drive_input_def
      localChannelName_def Let_def)

theorem durable_input_agrees_witness:
  "durable_loop_input None (Some (storeLiveRunExtras [] [] '''')) None ''r''
     (buildDurableRunInput (sample_runtime (\<lambda>_. text_response ''hi'')) None Map.empty
       (plain_request\<lparr>qq_EnableLLMStream := False\<rparr>) False) =
   drive_input (sample_runtime (\<lambda>_. text_response ''hi'')) None Map.empty
     (plain_request\<lparr>qq_EnableLLMStream := False\<rparr>) ''r'' False '''' []"
proof -
  let ?req = "plain_request\<lparr>qq_EnableLLMStream := False\<rparr>"
  have f: "qq_Tools ?req = []" "qq_SubAgents ?req = []" "\<not> qq_EnableLLMStream ?req"
    by (simp_all add: plain_request_def createRunRequest_def)
  show ?thesis
    using durable_input_agrees [of ?req None None "''r''" "sample_runtime (\<lambda>_. text_response ''hi'')" Map.empty] f
    by simp
qed

section \<open>Task identifiers\<close>

lemma map_id_runes_chars: "c \<in> set (map_id_runes k s) \<Longrightarrow> is_id_char c"
  by (induction k s rule: map_id_runes.induct) (auto simp: is_id_char_def Let_def split: if_splits)

lemma map_id_runes_fixed: "list_all is_id_char s \<Longrightarrow> map_id_runes 0 s = s"
proof (induction s)
  case (Cons c cs)
  then have "rune_conts c = []"
    by (auto simp: rune_conts_def is_id_char_def is_lower_def is_upper_def is_decimal_def Let_def)
  with Cons show ?case by (simp add: rune_size_def)
qed simp

lemma Trim_char_id: "s = '''' \<or> hd s \<noteq> x \<and> last s \<noteq> x \<Longrightarrow> Trim_char x s = s"
proof -
  assume a: "s = '''' \<or> hd s \<noteq> x \<and> last s \<noteq> x"
  then have "dropWhile (\<lambda>c. c = x) s = s" by (cases s) auto
  moreover have "dropWhile (\<lambda>c. c = x) (rev s) = rev s"
    using a by (cases "rev s") (auto simp: hd_rev [symmetric])
  ultimately show ?thesis by (simp add: Trim_char_def)
qed

definition valid_task_id :: "string \<Rightarrow> bool" where
  "valid_task_id s \<longleftrightarrow> s \<noteq> '''' \<and> list_all is_id_char s \<and> hd s \<noteq> CHR ''-'' \<and> last s \<noteq> CHR ''-''"

lemma is_space_not_id: "is_id_char c \<Longrightarrow> \<not> is_space c"
  by (auto simp: is_id_char_def is_lower_def is_upper_def is_decimal_def is_space_def)

text \<open>Task identifiers: whatever the name of the agent, its task gets a non-empty identifier of
  letters, digits, hyphens and underscores without a hyphen at either end, so no separator, dot or
  colon can reach the engine's paths; such an identifier is kept as it is. Names that differ only
  in outer hyphens share the identifier, and with it the journal directory.\<close>

theorem task_id_valid:
  "valid_task_id (sanitizeDurableID n) \<and>
   (valid_task_id n \<longrightarrow> sanitizeDurableID n = n) \<and>
   (list_all is_id_char n \<longrightarrow> sanitizeDurableID (''-'' @ n @ ''-'') = sanitizeDurableID n)"
proof (intro conjI impI)
  let ?m = "map_id_runes 0 (TrimSpace n)"
  have d: "valid_task_id ''default''" by code_simp
  have "list_all is_id_char (Trim_char (CHR ''-'') ?m)"
    using set_Trim_char [of "CHR ''-''" ?m] map_id_runes_chars by (auto simp: list_all_iff)
  with d Trim_char_ends [of "CHR ''-''" ?m] show "valid_task_id (sanitizeDurableID n)"
    by (simp add: sanitizeDurableID_def valid_task_id_def Let_def)
next
  have same: "map_id_runes 0 (TrimSpace s) = s" if "list_all is_id_char s" for s
  proof -
    have "TrimSpace s = s"
    proof (cases "s = []")
      case False
      with that show ?thesis
        by (intro TrimSpace_id is_space_not_id) (simp_all add: list_all_iff)
    qed simp
    with map_id_runes_fixed [OF that] show ?thesis by simp
  qed
  show "sanitizeDurableID n = n" if "valid_task_id n"
    using that same [of n] Trim_char_id [of n "CHR ''-''"]
    by (simp add: sanitizeDurableID_def valid_task_id_def Let_def)
  assume n: "list_all is_id_char n"
  then have "list_all is_id_char (''-'' @ n @ ''-'')" by (simp add: is_id_char_def)
  moreover have "Trim_char (CHR ''-'') (''-'' @ n @ ''-'') = Trim_char (CHR ''-'') n"
  proof (cases "dropWhile (\<lambda>c. c = CHR ''-'') n")
    case Nil
    then have "\<forall>c \<in> set n. c = CHR ''-''" by (simp add: dropWhile_eq_Nil_conv)
    then show ?thesis by (simp add: Trim_char_def dropWhile_append Nil)
  next
    case (Cons c cs)
    then have "\<exists>c \<in> set n. c \<noteq> CHR ''-''" by (metis (mono_tags) dropWhile_eq_Nil_conv list.distinct(1))
    then show ?thesis by (auto simp: Trim_char_def dropWhile_append)
  qed
  ultimately show "sanitizeDurableID (''-'' @ n @ ''-'') = sanitizeDurableID n"
    using same [of n] same [of "''-'' @ n @ ''-''"] n by (simp add: sanitizeDurableID_def Let_def)
qed

theorem task_id_valid_witness:
  "sanitizeDurableID ''-bot-'' = ''bot'' \<and> sanitizeDurableID ''bot'' = ''bot''"
proof -
  have "list_all is_id_char ''bot''" "valid_task_id ''bot''" by code_simp+
  with task_id_valid [of "''bot''"] show ?thesis by simp
qed

section \<open>The engine's settings\<close>

text \<open>Age-based purging is set at most once, with positive values if the defaults are, and is off exactly
  for a negative age.\<close>

lemma purge_options:
  "WithAutoPurge age interval \<in> set (engine_options cfg slog) \<Longrightarrow> 0 < age \<and> 0 < interval"
  "(\<exists>age interval. WithAutoPurge age interval \<in> set (engine_options (Some l) slog)) \<longleftrightarrow> 0 \<le> lg_AutoPurgeAge l"
  by (auto simp: engine_options_def defaultAutoPurgeAge_def defaultAutoPurgeInterval_def hour_ns_def
      minute_ns_def second_ns_def split: option.splits if_splits)

text \<open>An engine of the caller's is used as it is, and never owned.\<close>

lemma setup_callers_engine:
  "durabilityEnabled (Some l) \<Longrightarrow> lg_Engine l = Some e \<Longrightarrow>
   setupDurability ne rg (Some l) slog name = Inr (Some d) \<Longrightarrow> du_engine d = e \<and> \<not> du_ownsEngine d"
  by (auto simp: setupDurability_def Let_def split: option.splits)

end
