(* ===== verification/Transcript.thy ===== *)
theory Transcript
  imports Run_Loop
begin

text \<open>
  The transcript of a run: the messages that are sent to the model and stored with the
  conversation. Providers reject a transcript in which a tool call has no answer or an answer no
  call; the automaton \<open>paired\<close> reads that off the list.
\<close>

section \<open>Calls and answers\<close>

definition answers :: "tool_call \<Rightarrow> message \<Rightarrow> bool" where
  "answers c m \<longleftrightarrow> msg_Role m = RoleTool \<and> msg_ToolCallID m = tc_ToolCallID c \<and>
     msg_ToolName m = tc_ToolName c \<and> msg_ToolCalls m = []"

text \<open>The calls still to be answered, in order, and the rest of the transcript.\<close>

fun paired :: "tool_call list \<Rightarrow> message list \<Rightarrow> bool" where
  "paired pending [] \<longleftrightarrow> pending = []"
| "paired [] (m # ms) \<longleftrightarrow> msg_Role m \<noteq> RoleTool \<and> paired (msg_ToolCalls m) ms"
| "paired (c # cs) (m # ms) \<longleftrightarrow> answers c m \<and> paired cs ms"

lemma paired_append: "paired pending xs \<Longrightarrow> paired pending (xs @ ys) = paired [] ys"
  by (induction pending xs rule: paired.induct) auto

lemma paired_answers: "list_all2 answers cs ms \<Longrightarrow> paired cs ms"
  by (induction rule: list_all2_induct) auto

lemma RoleAssistant_not_tool [simp]: "RoleAssistant \<noteq> RoleTool"
  by (simp add: RoleAssistant_def RoleTool_def)

lemma mk_message_fields [simp]: "msg_Role (mk_message role text) = role" "msg_ToolCalls (mk_message role text) = []"
  by (simp_all add: mk_message_def)

text \<open>A round: the assistant's calls followed by the messages that settle them, in the order of
  the calls.\<close>

definition settles :: "tool_call_request \<Rightarrow> tool_result \<Rightarrow> bool" where
  "settles tc r \<longleftrightarrow> (\<exists>c. to_message r = tool_message tc c)"

lemma paired_round:
  assumes "list_all2 settles calls rs"
  shows "paired [] (assistant_message text calls # map to_message rs)"
proof -
  have "list_all2 answers (msg_ToolCalls (assistant_message text calls)) (map to_message rs)"
    using assms by (induction rule: list_all2_induct)
      (auto simp: assistant_message_def answers_def settles_def tool_message_def)
  then show ?thesis
    by (simp add: paired_answers) (simp add: assistant_message_def)
qed

section \<open>Every call of a batch is answered\<close>

lemma yields_finish: "yields (finish_call rt input mid tc content failed)
    (\<lambda>r. case r of Inl _ \<Rightarrow> True | Inr res \<Rightarrow> settles tc res)"
  unfolding finish_call_def by (intro yields_rules) (auto simp: settles_def)

lemma executeSingleTool_settles: "yields (executeSingleTool sub env rt input mid iter policies tc)
    (\<lambda>r. case r of Inl _ \<Rightarrow> True | Inr res \<Rightarrow> settles tc res)"
  unfolding executeSingleTool_def authorized_call_def dispatch_call_def
  by (intro yields_rules yields_finish) simp_all

lemma settle_call_settles: "yields (settle_call sub env rt input mid iter policies tc) (settles tc)"
  unfolding settle_call_def
  by (intro yields_bind_with [OF executeSingleTool_settles] yields_return) (auto simp: settles_def split: sum.splits)

lemma mapM_yields: "(\<And>x. yields (f x) (P x)) \<Longrightarrow> yields (mapM f xs) (list_all2 P xs)"
  by (induction xs) (auto intro!: yields_return intro: yields_bind_with)

definition filled :: "('a \<Rightarrow> 'b \<Rightarrow> bool) \<Rightarrow> 'a list \<Rightarrow> nat set \<Rightarrow> (nat \<rightharpoonup> 'b) \<Rightarrow> bool" where
  "filled P xs I slots \<longleftrightarrow> (\<forall>i\<in>I. \<exists>y. slots i = Some y \<and> P (xs ! i) y)"

lemma slots_yields:
  assumes "\<And>i x. yields (f i x) (P x)"
  shows "filled P xs I slots \<Longrightarrow> yields (foldM (batch_slot f xs) slots js) (filled P xs (I \<union> set js))"
proof (induction js arbitrary: I slots)
  case (Cons j js)
  have "yields (batch_slot f xs slots j) (filled P xs (insert j I))"
    unfolding batch_slot_def using Cons.prems
    by (intro yields_bind_with [OF assms] yields_return) (auto simp: filled_def)
  then have "yields (foldM (batch_slot f xs) slots (j # js)) (filled P xs (insert j I \<union> set js))"
    unfolding foldM.simps by (rule yields_bind_with) (rule Cons.IH)
  then show ?case by simp
qed (auto intro: yields_return)

lemma run_batch_yields:
  assumes "\<And>i x. yields (f i x) (P x)"
  shows "yields (run_batch env f xs) (list_all2 P xs)"
proof -
  have "filled P xs {} Map.empty" by (simp add: filled_def)
  then have "yields (foldM (batch_slot f xs) Map.empty js) (filled P xs ({} \<union> set js))" for js
    by (rule slots_yields [OF assms])
  note fill = yields_bind_with [OF this]
  show ?thesis
    unfolding run_batch_def
    by (intro yields_bind fill yields_return) (force simp: list_all2_conv_all_nth filled_def)
qed

lemma execute_tools_settles: "yields (execute_tools sub env rt input mid iter calls policies)
    (\<lambda>r. case r of Inl _ \<Rightarrow> True | Inr rs \<Rightarrow> list_all2 settles calls rs)"
  unfolding execute_tools_def executeToolsParallel_def executeToolsSequential_def Let_def
  by (intro yields_if yields_bind_with [OF run_batch_yields] yields_bind_with [OF mapM_yields]
      settle_call_settles yields_return) (simp_all add: settle_call_settles)

section \<open>The transcript of the loop\<close>

text \<open>The messages grow by a paired transcript, and what is counted as stored is a prefix.\<close>

definition well_told :: "loop_state \<Rightarrow> bool" where
  "well_told st \<longleftrightarrow> paired [] (lp_messages st) \<and> lp_persisted st \<le> length (lp_messages st)"

definition told_on :: "loop_state \<Rightarrow> loop_state \<Rightarrow> bool" where
  "told_on st st' \<longleftrightarrow> well_told st' \<and> (\<exists>more. lp_messages st' = lp_messages st @ more)"

definition turn_told :: "loop_state \<Rightarrow> turn_end \<Rightarrow> bool" where
  "turn_told st e = (case e of Continue st' \<Rightarrow> told_on st st' \<and> lp_messages st' \<noteq> lp_messages st
     | Break st' \<Rightarrow> told_on st st' | Return res err \<Rightarrow> True)"

lemma turn_told_return [simp]: "turn_told st (Return res err)" "turn_told st (budget_return st' be)"
  by (simp_all add: turn_told_def budget_return_def)

lemma turn_told_fields [simp]:
  "turn_told (st\<lparr>lp_maxIter := i, lp_iterationsExtended := b\<rparr>) = turn_told st"
  "turn_told (st\<lparr>lp_useFallback := f, lp_telemetry := t, lp_llmUsage := u\<rparr>) = turn_told st"
  "well_told (st\<lparr>lp_maxIter := i, lp_iterationsExtended := b\<rparr>) = well_told st"
  "well_told (st\<lparr>lp_useFallback := f, lp_telemetry := t, lp_llmUsage := u\<rparr>) = well_told st"
  by (simp_all add: fun_eq_iff turn_told_def told_on_def well_told_def split: turn_end.split)

lemma turn_told_answer: "well_told st \<Longrightarrow>
    turn_told st (Break (st\<lparr>lp_messages := lp_messages st @ [mk_message RoleAssistant text], lp_lastContent := c\<rparr>))"
  by (simp add: turn_told_def told_on_def well_told_def paired_append)

lemma persist_new_told: "turn_told st (Continue st') \<Longrightarrow>
    yields (persist_new env rt input st') (\<lambda>st''. turn_told st (Continue st''))"
  unfolding persist_new_def
  by (intro yields_rules) (auto simp: turn_told_def told_on_def well_told_def)

lemma tool_round_told:
  assumes "well_told st"
  shows "yields (tool_round sub env rt input mid iter result policies st) (turn_told st)"
proof -
  have told: "turn_told st (Continue (st\<lparr>lp_messages := lp_messages st
        @ assistant_message (lr_Content result) (lr_ToolCalls result) # map to_message rs, lp_telemetry := t\<rparr>))"
    if "list_all2 settles (lr_ToolCalls result) rs" for rs t
    using assms paired_round [OF that, of "lr_Content result"]
    by (simp add: turn_told_def told_on_def well_told_def paired_append)
  show ?thesis
    unfolding tool_round_def Let_def
    by (intro yields_bind_with [OF execute_tools_settles] yields_bind_with [OF persist_new_told]
        yields_rules) (simp_all add: told)
qed

lemma final_call_told: "well_told st \<Longrightarrow> yields (final_call env rt input cx iter policies st) (turn_told st)"
  unfolding final_call_def Let_def
  by (intro yields_rules)
    (auto simp: turn_told_def told_on_def well_told_def paired_append
      budget_return_def split: option.splits)

lemma loop_turn_told:
  assumes "well_told st"
  shows "yields (loop_turn sub env rt input cx policies iter st) (turn_told st)"
proof -
  have answered: "yields (answered_turn sub env rt input' cx policies mid iter result st') (turn_told st')"
    if "well_told st'" for input' mid result st'
  proof -
    have "yields (tool_round sub env rt input' mid iter result policies
        (st'\<lparr>lp_maxIter := i, lp_iterationsExtended := b\<rparr>)) (turn_told st')" for i b
      using tool_round_told [of "st'\<lparr>lp_maxIter := i, lp_iterationsExtended := b\<rparr>"] that by simp
    with that show ?thesis
      unfolding answered_turn_def
      by (intro yields_rules tool_round_told final_call_told) (simp_all add: turn_told_answer)
  qed
  have "yields (answered_turn sub env rt input' cx policies mid iter result
      (st\<lparr>lp_useFallback := f, lp_telemetry := t, lp_llmUsage := u\<rparr>)) (turn_told st)"
    for input' mid result f t u
    using answered [of "st\<lparr>lp_useFallback := f, lp_telemetry := t, lp_llmUsage := u\<rparr>"] assms by simp
  then show ?thesis
    unfolding loop_turn_def Let_def by (intro yields_rules) simp_all
qed

lemma bind_yields_cong: "yields m P \<Longrightarrow> (\<And>a. P a \<Longrightarrow> f a = g a) \<Longrightarrow> State_Monad.bind m f = State_Monad.bind m g"
  by (rule state_ext) (auto dest: yieldsD split: prod.splits)

lemma loop_rounds_guard:
  assumes "\<And>iter st. I st \<Longrightarrow> yields (turn iter st) (\<lambda>e. \<forall>st'. e = Continue st' \<longrightarrow> I st')"
  shows "I st \<Longrightarrow> loop_rounds (\<lambda>i st'. if I st' then turn i st' else panic) n iter st = loop_rounds turn n iter st"
proof (induction n arbitrary: iter st)
  case (Suc n)
  then show ?case
    by (subst (1 2) loop_rounds.simps)
      (auto intro!: bind_yields_cong [OF assms [OF Suc.prems]] split: turn_end.split)
qed (simp add: loop_rounds.simps)

lemma loop_rounds_ends:
  assumes "\<And>iter st. I st \<Longrightarrow> yields (turn iter st) (\<lambda>e. \<forall>st'. e = Continue st' \<or> e = Break st' \<longrightarrow> I st')"
  shows "I st \<Longrightarrow> yields (loop_rounds turn n iter st) (\<lambda>e. \<forall>st'. e = Some (Break st') \<longrightarrow> I st')"
proof (induction n arbitrary: iter st)
  case (Suc n)
  then show ?case
    by (subst loop_rounds.simps)
      (auto intro!: yields_if yields_bind_with [OF assms [OF Suc.prems]] yields_return Suc.IH split: turn_end.split)
qed (simp add: loop_rounds.simps yields_return)

text \<open>C8. From a transcript in which every tool call is answered, by its own tool message and in
  the order of the calls, the loop only appends, and every later transcript is such a one: a loop
  that checks this before each turn (and so before each request to the model), and that the stored
  prefix is within it, is the same loop, and the transcript at the end passes the check. This is
  so for rejected, denied, failed, skipped and unknown calls, in both execution modes and for
  every schedule of a parallel batch.\<close>

theorem transcript_wellformed:
  assumes "well_told st"
  shows "loop_rounds (\<lambda>i st'. if told_on st st' then loop_turn sub env rt input cx policies i st' else panic) n iter st =
       loop_rounds (loop_turn sub env rt input cx policies) n iter st \<and>
     (case run_state (loop_rounds (loop_turn sub env rt input cx policies) n iter st) s of
        (Some (Break st'), s') \<Rightarrow> told_on st st' | _ \<Rightarrow> True)"
proof -
  have start: "told_on st st" using assms by (simp add: told_on_def)
  have step: "told_on st st''" if "told_on st st'" "told_on st' st''" for st' st''
    using that by (auto simp: told_on_def)
  have turn: "yields (loop_turn sub env rt input cx policies i st')
      (\<lambda>e. \<forall>st''. e = Continue st'' \<or> e = Break st'' \<longrightarrow> told_on st st'')" if "told_on st st'" for i st'
  proof (rule yields_weaken [OF loop_turn_told])
    show "well_told st'" using that by (simp add: told_on_def)
  qed (use step [OF that] in \<open>auto simp: turn_told_def\<close>)
  have "yields (loop_turn sub env rt input cx policies i st')
      (\<lambda>e. \<forall>st''. e = Continue st'' \<longrightarrow> told_on st st'')" if "told_on st st'" for i st'
    using that by (intro yields_weaken [OF turn]) auto
  from loop_rounds_guard [where I = "told_on st", OF this start]
    yieldsD [OF loop_rounds_ends [where I = "told_on st", OF turn start]]
  show ?thesis
    by (cases "run_state (loop_rounds (loop_turn sub env rt input cx policies) n iter st) s")
      (simp split: option.split turn_end.split)
qed

definition calling_runtime :: "nat runtime" where
  "calling_runtime = sample_runtime (\<lambda>n. if n = 0 then call_response ''c1'' ''echo'' else text_response ''done'')"

theorem transcript_wellformed_witness:
  "let st = loop_start ([mk_message RoleUser ''hello''], 0) 3 (NewAgentTelemetry 0);
       turn = loop_turn sample_sub sample_env calling_runtime sample_input \<lparr>cx_memoryContext = '''',
         cx_retrieverContext = '''', cx_originalMaxIter = 3\<rparr> (executionPolicies calling_runtime)
   in loop_rounds (\<lambda>i st'. if told_on st st' then turn i st'
         else State_Monad.return (Return None (ErrNew ''unpaired''))) 6 0 st =
       loop_rounds turn 6 0 st"
proof -
  have "well_told (loop_start ([mk_message RoleUser ''hello''], 0) 3 (NewAgentTelemetry 0))"
    by (simp add: well_told_def loop_start_def RoleUser_def RoleTool_def)
  then show ?thesis unfolding Let_def by (intro conjunct1 [OF transcript_wellformed])
qed

end
