(* ===== verification/Event_Log.thy ===== *)
theory Event_Log
  imports Sanitize
begin

text \<open>
  The durable event log of the Restate runtime, \<open>internal/runtime/restate/event_log.go\<close>: one virtual
  object per run, to which the run publishes its events and from which streams and approval loops
  pull them, from any process. \<open>Publish\<close>, \<open>Subscribe\<close> and \<open>Clear\<close> are exclusive handlers, which run
  one after the other; \<open>Pull\<close> is a shared one, which runs at the same time as they do. The object's
  state is loaded lazily, so a \<open>Pull\<close> may read its metadata and each message at different times.
\<close>

section \<open>The log\<close>

definition errAgentEventLogClearedMsg :: string where
  "errAgentEventLogClearedMsg = ''pubsub: agent event log already cleared''"

definition ErrAgentEventLogCleared :: go_error where
  "ErrAgentEventLogCleared = ErrNew errAgentEventLogClearedMsg"

text \<open>\<open>errors.Is\<close> for an error that is a value of the package.\<close>

fun error_wraps :: "go_error \<Rightarrow> go_error \<Rightarrow> bool" where
  "error_wraps (ErrWrap pre e post) t = (ErrWrap pre e post = t \<or> error_wraps e t)"
| "error_wraps (ErrWrap2 a m b) t = (ErrWrap2 a m b = t \<or> error_wraps a t \<or> error_wraps b t)"
| "error_wraps e t = (e = t)"

definition isAgentEventLogCleared :: "go_error option \<Rightarrow> bool" where
  "isAgentEventLogCleared err = (case err of None \<Rightarrow> False
     | Some e \<Rightarrow> error_wraps e ErrAgentEventLogCleared \<or> Contains (error_str e) errAgentEventLogClearedMsg)"

record pubsub_metadata =
  ps_Head :: int
  ps_Tail :: int

record pubsub_subscription =
  sb_Offset :: int
  sb_ID :: string

record pubsub_notification =
  nt_NewOffset :: int
  nt_NewMessages :: "string list"

text \<open>A nil \<open>Offset\<close> asks for new messages only.\<close>

record pull_request =
  pq_Offset :: "int option"
  pq_Wait :: bool

record pull_response =
  pr_Messages :: "string list"
  pr_NextOffset :: int

text \<open>The keys of the object's state: the metadata, the subscriptions and one key per message.\<close>

record event_log =
  el_meta :: "pubsub_metadata option"
  el_subs :: "pubsub_subscription list"
  el_messages :: "string \<Rightarrow> string option"

definition empty_log :: event_log where
  "empty_log = \<lparr>el_meta = None, el_subs = [], el_messages = Map.empty\<rparr>"

definition messageKey :: "int \<Rightarrow> string" where "messageKey i = ''m_'' @ itoa i"

definition getMetadata :: "event_log \<Rightarrow> pubsub_metadata" where
  "getMetadata s = (case el_meta s of None \<Rightarrow> \<lparr>ps_Head = 0, ps_Tail = 0\<rparr> | Some m \<Rightarrow> m)"

text \<open>Reading a key that is not set gives no bytes. A read of a shared handler may fail.\<close>

type_synonym log_reader = "string \<Rightarrow> go_error + string"

definition reads :: "event_log \<Rightarrow> log_reader" where
  "reads s k = Inr (case el_messages s k of None \<Rightarrow> '''' | Some m \<Rightarrow> m)"

definition missing_message :: "int \<Rightarrow> go_error" where
  "missing_message i = ErrNew (''pubsub: missing message at offset '' @ itoa i)"

fun load_messages :: "log_reader \<Rightarrow> nat \<Rightarrow> int \<Rightarrow> go_error + string list" where
  "load_messages get 0 i = Inr []"
| "load_messages get (Suc n) i = (case get (messageKey i) of
      Inl err \<Rightarrow> Inl err
    | Inr msg \<Rightarrow> if msg = '''' then Inl (missing_message i)
        else (case load_messages get n (i + 1) of Inl err \<Rightarrow> Inl err | Inr ms \<Rightarrow> Inr (msg # ms)))"

definition loadMessagesInRange :: "log_reader \<Rightarrow> int \<Rightarrow> int \<Rightarrow> go_error + string list" where
  "loadMessagesInRange get fromIncluded toExcluded =
    (if fromIncluded \<ge> toExcluded then Inr [] else load_messages get (nat (toExcluded - fromIncluded)) fromIncluded)"

section \<open>The handlers\<close>

text \<open>\<open>Pull\<close> answers, or subscribes from an offset and waits for a notification or the timeout.\<close>

datatype pull_outcome = PullReturns "go_error + pull_response" | PullWaits int

definition Pull :: "pubsub_metadata \<Rightarrow> log_reader \<Rightarrow> pull_request \<Rightarrow> pull_outcome" where
  "Pull meta get req =
    (let wait = (\<lambda>from. if \<not> pq_Wait req then PullReturns (Inr \<lparr>pr_Messages = [], pr_NextOffset = from\<rparr>)
                  else PullWaits from)
     in case pq_Offset req of None \<Rightarrow> wait (ps_Tail meta)
        | Some waitFrom \<Rightarrow>
           if waitFrom < ps_Head meta then
             PullReturns (Inl (ErrWrap '''' ErrAgentEventLogCleared
               ('' (offset '' @ itoa waitFrom @ '' < head '' @ itoa (ps_Head meta) @ '')'')))
           else if waitFrom < ps_Tail meta then
             PullReturns (case loadMessagesInRange get waitFrom (ps_Tail meta) of
                 Inr ms \<Rightarrow> Inr \<lparr>pr_Messages = ms, pr_NextOffset = ps_Tail meta\<rparr>
               | Inl err \<Rightarrow> if Contains (error_str err) ''missing message''
                   then Inl (ErrWrap '''' ErrAgentEventLogCleared ('': '' @ error_str err))
                   else Inl err)
           else wait waitFrom)"

text \<open>How a waiting \<open>Pull\<close> ends.\<close>

definition pull_timeout :: "go_error + pull_response" where
  "pull_timeout = Inl (ErrNew ''pubsub: pull timeout'')"

definition pull_notified :: "go_error + pubsub_notification \<Rightarrow> go_error + pull_response" where
  "pull_notified r = (case r of Inl err \<Rightarrow> Inl err
     | Inr note \<Rightarrow> Inr \<lparr>pr_Messages = nt_NewMessages note, pr_NextOffset = nt_NewOffset note\<rparr>)"

text \<open>What the exclusive handlers send to waiting pulls.\<close>

datatype log_signal = ResolveAwakeable string pubsub_notification | RejectAwakeable string go_error

fun notify_subs ::
    "log_reader \<Rightarrow> int \<Rightarrow> pubsub_subscription list \<Rightarrow> go_error option \<times> log_signal list" where
  "notify_subs get tail [] = (None, [])"
| "notify_subs get tail (sub # subs) = (case loadMessagesInRange get (sb_Offset sub) tail of
      Inl err \<Rightarrow> (Some err, [])
    | Inr ms \<Rightarrow> (case notify_subs get tail subs of (err, sigs) \<Rightarrow>
        (err, ResolveAwakeable (sb_ID sub) \<lparr>nt_NewOffset = tail, nt_NewMessages = ms\<rparr> # sigs)))"

definition Publish :: "string \<Rightarrow> event_log \<Rightarrow> go_error option \<times> log_signal list \<times> event_log" where
  "Publish message s =
    (let meta = getMetadata s; tail = ps_Tail meta + 1;
         s1 = s\<lparr>el_messages := (el_messages s)(messageKey (ps_Tail meta) \<mapsto> message),
                el_meta := Some (meta\<lparr>ps_Tail := tail\<rparr>)\<rparr>
     in case notify_subs (reads s1) tail (el_subs s) of
          (Some err, sigs) \<Rightarrow> (Some err, sigs, s1)
        | (None, sigs) \<Rightarrow> (None, sigs, s1\<lparr>el_subs := []\<rparr>))"

definition lower_than_head :: "int \<Rightarrow> int \<Rightarrow> go_error" where
  "lower_than_head offset head =
     ErrNew (''pubsub: offset '' @ itoa offset @ '' is lower than the head '' @ itoa head)"

definition log_Subscribe ::
    "pubsub_subscription \<Rightarrow> event_log \<Rightarrow> go_error option \<times> log_signal list \<times> event_log" where
  "log_Subscribe sub s =
    (let meta = getMetadata s
     in if sb_Offset sub < ps_Head meta then
          (None, [RejectAwakeable (sb_ID sub) (lower_than_head (sb_Offset sub) (ps_Head meta))], s)
        else if sb_Offset sub < ps_Tail meta then
          (case loadMessagesInRange (reads s) (sb_Offset sub) (ps_Tail meta) of
             Inl err \<Rightarrow> (Some err, [], s)
           | Inr ms \<Rightarrow> (None, [ResolveAwakeable (sb_ID sub)
               \<lparr>nt_NewOffset = ps_Tail meta, nt_NewMessages = ms\<rparr>], s))
        else (None, [], s\<lparr>el_subs := el_subs s @ [sub]\<rparr>))"

fun clear_keys :: "nat \<Rightarrow> int \<Rightarrow> (string \<Rightarrow> string option) \<Rightarrow> string \<Rightarrow> string option" where
  "clear_keys 0 i m = m"
| "clear_keys (Suc n) i m = clear_keys n (i + 1) (m(messageKey i := None))"

definition log_Clear :: "event_log \<Rightarrow> go_error option \<times> log_signal list \<times> event_log" where
  "log_Clear s =
    (let meta = getMetadata s; newHead = ps_Tail meta
     in if ps_Tail meta = 0 \<and> ps_Head meta = 0 then (None, [], s)
        else (None,
          map (\<lambda>sub. RejectAwakeable (sb_ID sub) (lower_than_head (sb_Offset sub) newHead))
            (filter (\<lambda>sub. sb_Offset sub < newHead) (el_subs s)),
          s\<lparr>el_messages := clear_keys (nat (newHead - ps_Head meta)) (ps_Head meta) (el_messages s),
            el_meta := Some (meta\<lparr>ps_Head := newHead\<rparr>), el_subs := []\<rparr>))"

section \<open>Histories\<close>

text \<open>The exclusive calls of a log, in the order in which they run. An empty message does not occur:
  the code publishes JSON.\<close>

datatype log_call = PublishCall string | SubscribeCall pubsub_subscription | ClearCall

fun log_do :: "log_call \<Rightarrow> event_log \<Rightarrow> go_error option \<times> log_signal list \<times> event_log" where
  "log_do (PublishCall m) s = Publish m s"
| "log_do (SubscribeCall sub) s = log_Subscribe sub s"
| "log_do ClearCall s = log_Clear s"

text \<open>The latest call comes first.\<close>

primrec log_after :: "log_call list \<Rightarrow> event_log" where
  "log_after [] = empty_log"
| "log_after (c # cs) = snd (snd (log_do c (log_after cs)))"

fun real_call :: "log_call \<Rightarrow> bool" where
  "real_call (PublishCall m) \<longleftrightarrow> m \<noteq> ''''"
| "real_call c \<longleftrightarrow> True"

text \<open>The specification: all messages ever published, and how many of them have been cleared.\<close>

primrec log_history :: "log_call list \<Rightarrow> string list" where
  "log_history [] = []"
| "log_history (c # cs) = log_history cs @ (case c of PublishCall m \<Rightarrow> [m] | _ \<Rightarrow> [])"

primrec log_cleared :: "log_call list \<Rightarrow> nat" where
  "log_cleared [] = 0"
| "log_cleared (c # cs) = (case c of ClearCall \<Rightarrow> length (log_history cs) | _ \<Rightarrow> log_cleared cs)"

text \<open>The state holds exactly the messages that are not cleared, and a subscription waits for messages
  that do not exist yet.\<close>

definition log_inv :: "log_call list \<Rightarrow> event_log \<Rightarrow> bool" where
  "log_inv cs s \<longleftrightarrow> log_cleared cs \<le> length (log_history cs) \<and>
     getMetadata s = \<lparr>ps_Head = int (log_cleared cs), ps_Tail = int (length (log_history cs))\<rparr> \<and>
     (\<forall>i. el_messages s (messageKey i) =
        (if int (log_cleared cs) \<le> i \<and> i < int (length (log_history cs)) then Some (log_history cs ! nat i) else None)) \<and>
     (\<forall>sub \<in> set (el_subs s). int (length (log_history cs)) \<le> sb_Offset sub)"

lemma messageKey_inj [simp]: "messageKey i = messageKey j \<longleftrightarrow> i = j"
  by (auto simp: messageKey_def dest: itoa_inj)

lemma load_messages_ok:
  assumes "\<And>j. from \<le> j \<Longrightarrow> j < from + n \<Longrightarrow> get (messageKey (int j)) = Inr (h ! j)"
    and "from + n \<le> length h" and "'''' \<notin> set h"
  shows "load_messages get n (int from) = Inr (take n (drop from h))"
  using assms
proof (induction n arbitrary: "from")
  case (Suc n)
  have "h ! from \<in> set h" using Suc.prems(2) by simp
  then have g: "get (messageKey (int from)) = Inr (h ! from)" "h ! from \<noteq> ''''"
    using Suc.prems(1) [of "from"] Suc.prems(3) by auto
  have "load_messages get n (int (Suc from)) = Inr (take n (drop (Suc from) h))"
    by (rule Suc.IH) (use Suc.prems in auto)
  moreover have "take (Suc n) (drop from h) = h ! from # take n (drop (Suc from) h)"
    using Suc.prems(2) by (simp add: Cons_nth_drop_Suc [symmetric])
  ultimately show ?case using g by (simp add: add.commute)
qed simp

lemma load_range_ok:
  assumes "\<And>j. from \<le> j \<Longrightarrow> j < to \<Longrightarrow> get (messageKey (int j)) = Inr (h ! j)"
    and "to \<le> length h" and "'''' \<notin> set h"
  shows "loadMessagesInRange get (int from) (int to) = Inr (take (to - from) (drop from h))"
  using load_messages_ok [of "from" "to - from" get h] assms
  by (auto simp: loadMessagesInRange_def nat_minus_as_int of_nat_diff)

lemma reads_message: "el_messages s k = Some m \<Longrightarrow> reads s k = Inr m"
  by (simp add: reads_def)

lemma loads_history:
  assumes "log_inv cs s" "'''' \<notin> set (log_history cs)" "log_cleared cs \<le> from" "to \<le> length (log_history cs)"
  shows "loadMessagesInRange (reads s) (int from) (int to) = Inr (take (to - from) (drop from (log_history cs)))"
  by (rule load_range_ok) (use assms in \<open>auto simp: log_inv_def intro!: reads_message\<close>)

lemma published_real: "list_all real_call cs \<Longrightarrow> '''' \<notin> set (log_history cs)"
  by (induction cs) (auto split: log_call.splits)

lemma clear_keys_get:
  "clear_keys n i m (messageKey j) = (if i \<le> j \<and> j < i + int n then None else m (messageKey j))"
  by (induction n arbitrary: i m) auto

lemma log_inv_empty: "log_inv [] empty_log"
  by (simp add: log_inv_def empty_log_def getMetadata_def)

text \<open>The answers of a call to the waiting pulls, when the state is as specified.\<close>

definition notice :: "string list \<Rightarrow> pubsub_subscription \<Rightarrow> log_signal" where
  "notice h sub = ResolveAwakeable (sb_ID sub)
     \<lparr>nt_NewOffset = int (length h), nt_NewMessages = drop (nat (sb_Offset sub)) h\<rparr>"

lemma notify_subs_ok:
  assumes "\<And>j. from \<le> j \<Longrightarrow> j < length h \<Longrightarrow> get (messageKey (int j)) = Inr (h ! j)" "'''' \<notin> set h"
    and "\<forall>sub \<in> set subs. int from \<le> sb_Offset sub"
  shows "notify_subs get (int (length h)) subs = (None, map (notice h) subs)"
  using assms(3)
proof (induction subs)
  case (Cons sub subs)
  obtain k where k: "sb_Offset sub = int k" "from \<le> k"
    using Cons.prems by (metis list.set_intros(1) nonneg_int_cases of_nat_0_le_iff of_nat_le_iff order_trans)
  have "loadMessagesInRange get (int k) (int (length h)) = Inr (drop k h)"
    using load_range_ok [of k "length h" get h] assms k(2) by simp
  with k Cons show ?case by (simp add: notice_def)
qed simp

lemma publish_inv:
  assumes "log_inv cs s" "'''' \<notin> set (log_history cs)" "m \<noteq> ''''"
  shows "\<exists>s'. Publish m s = (None, map (notice (log_history cs @ [m])) (el_subs s), s') \<and>
    log_inv (PublishCall m # cs) s'"
proof -
  let ?h = "log_history cs" and ?meta = "getMetadata s"
  let ?s1 = "s\<lparr>el_messages := (el_messages s)(messageKey (ps_Tail ?meta) \<mapsto> m),
     el_meta := Some (?meta\<lparr>ps_Tail := ps_Tail ?meta + 1\<rparr>)\<rparr>"
  have meta: "?meta = \<lparr>ps_Head = int (log_cleared cs), ps_Tail = int (length ?h)\<rparr>"
    using assms(1) by (simp add: log_inv_def)
  have "reads ?s1 (messageKey (int j)) = Inr ((?h @ [m]) ! j)"
    if "length ?h \<le> j" "j < length (?h @ [m])" for j
    using that meta by (auto simp: reads_def nth_append)
  moreover have "\<forall>sub \<in> set (el_subs s). int (length ?h) \<le> sb_Offset sub"
    using assms(1) by (simp add: log_inv_def)
  ultimately have "notify_subs (reads ?s1) (int (length (?h @ [m]))) (el_subs s)
      = (None, map (notice (?h @ [m])) (el_subs s))"
    using assms(2,3) by (intro notify_subs_ok) auto
  then have "Publish m s = (None, map (notice (?h @ [m])) (el_subs s), ?s1\<lparr>el_subs := []\<rparr>)"
    using meta by (simp add: Publish_def Let_def add.commute)
  moreover have "log_inv (PublishCall m # cs) (?s1\<lparr>el_subs := []\<rparr>)"
    using assms(1) meta by (auto simp: log_inv_def getMetadata_def nth_append)
  ultimately show ?thesis by blast
qed

lemma subscribe_inv:
  assumes "log_inv cs s" "'''' \<notin> set (log_history cs)"
  shows "\<exists>sigs s'. log_Subscribe sub s = (None, sigs, s') \<and> log_inv (SubscribeCall sub # cs) s' \<and>
    sigs = (if sb_Offset sub < int (log_cleared cs)
              then [RejectAwakeable (sb_ID sub) (lower_than_head (sb_Offset sub) (int (log_cleared cs)))]
            else if sb_Offset sub < int (length (log_history cs)) then [notice (log_history cs) sub] else []) \<and>
    el_subs s' = el_subs s @ (if sb_Offset sub < int (length (log_history cs)) then [] else [sub])"
proof -
  have meta: "getMetadata s = \<lparr>ps_Head = int (log_cleared cs), ps_Tail = int (length (log_history cs))\<rparr>"
    and c: "log_cleared cs \<le> length (log_history cs)"
    using assms(1) by (simp_all add: log_inv_def)
  have "loadMessagesInRange (reads s) (sb_Offset sub) (int (length (log_history cs)))
      = Inr (drop (nat (sb_Offset sub)) (log_history cs))" if "int (log_cleared cs) \<le> sb_Offset sub"
    using loads_history [OF assms, of "nat (sb_Offset sub)" "length (log_history cs)"] that
    by simp
  moreover have "log_inv (SubscribeCall sub # cs) s"
    "int (length (log_history cs)) \<le> sb_Offset sub \<Longrightarrow>
     log_inv (SubscribeCall sub # cs) (s\<lparr>el_subs := el_subs s @ [sub]\<rparr>)"
    using assms(1) by (auto simp: log_inv_def getMetadata_def)
  ultimately show ?thesis
    using meta c by (auto simp: log_Subscribe_def notice_def Let_def)
qed

lemma clear_inv:
  assumes "log_inv cs s"
  shows "fst (log_Clear s) = None" "fst (snd (log_Clear s)) = []"
    "log_inv (ClearCall # cs) (snd (snd (log_Clear s)))"
proof -
  have meta: "getMetadata s = \<lparr>ps_Head = int (log_cleared cs), ps_Tail = int (length (log_history cs))\<rparr>"
    and subs: "\<forall>sub \<in> set (el_subs s). int (length (log_history cs)) \<le> sb_Offset sub"
    and c: "log_cleared cs \<le> length (log_history cs)"
    using assms by (auto simp: log_inv_def)
  show "fst (log_Clear s) = None" by (simp add: log_Clear_def Let_def)
  show "fst (snd (log_Clear s)) = []"
    using subs meta by (auto simp: log_Clear_def Let_def filter_empty_conv)
  show "log_inv (ClearCall # cs) (snd (snd (log_Clear s)))"
    using assms meta c
    by (auto simp: log_Clear_def log_inv_def Let_def getMetadata_def clear_keys_get nat_minus_as_int of_nat_diff)
qed

lemma log_inv_after: "list_all real_call cs \<Longrightarrow> log_inv cs (log_after cs)"
proof (induction cs)
  case (Cons c cs)
  then have inv: "log_inv cs (log_after cs)" and ne: "'''' \<notin> set (log_history cs)"
    using published_real by auto
  show ?case
  proof (cases c)
    case (PublishCall m)
    with publish_inv [OF inv ne, of m] Cons.prems show ?thesis by auto
  next
    case (SubscribeCall sub)
    with subscribe_inv [OF inv ne, of sub] show ?thesis by auto
  next
    case ClearCall
    with clear_inv(3) [OF inv] show ?thesis by simp
  qed
qed (simp add: log_inv_empty)

section \<open>What a pull answers\<close>

text \<open>The reads of a \<open>Pull\<close> that has taken its metadata after the calls \<open>cs\<close>: each of them fails, or
  sees the state after these and any later calls.\<close>

definition late_reader :: "log_call list \<Rightarrow> log_reader \<Rightarrow> bool" where
  "late_reader cs get \<longleftrightarrow> (\<forall>k. (\<exists>err. get k = Inl err) \<or>
     (\<exists>ds. list_all real_call ds \<and> get k = reads (log_after (ds @ cs)) k))"

lemma published_later: "\<exists>ms. log_history (ds @ cs) = log_history cs @ ms"
  by (induction ds) auto

lemma cleared_later: "list_all real_call (ds @ cs) \<Longrightarrow> log_cleared cs \<le> log_cleared (ds @ cs)"
proof (induction ds)
  case (Cons d ds)
  moreover have "log_cleared (ds @ cs) \<le> length (log_history (ds @ cs))"
    using log_inv_after [of "ds @ cs"] Cons.prems by (simp add: log_inv_def)
  ultimately show ?case by (auto split: log_call.split)
qed simp

lemma late_read:
  assumes "list_all real_call cs" "late_reader cs get" "j < length (log_history cs)"
  shows "get (messageKey (int j)) = Inr (log_history cs ! j) \<or> get (messageKey (int j)) = Inr '''' \<or>
    (\<exists>err. get (messageKey (int j)) = Inl err)"
proof -
  have "get (messageKey (int j)) = Inr (log_history cs ! j) \<or> get (messageKey (int j)) = Inr ''''"
    if ds: "list_all real_call ds" "get (messageKey (int j)) = reads (log_after (ds @ cs)) (messageKey (int j))" for ds
  proof -
    have inv: "log_inv (ds @ cs) (log_after (ds @ cs))"
      using assms(1) ds(1) by (intro log_inv_after) simp
    obtain ms where "log_history (ds @ cs) = log_history cs @ ms" using published_later by blast
    then have "log_history (ds @ cs) ! j = log_history cs ! j" using assms(3) by (simp add: nth_append)
    with inv ds(2) show ?thesis by (simp add: log_inv_def reads_def)
  qed
  then show ?thesis using assms(2) unfolding late_reader_def by metis
qed

lemma load_messages_late:
  assumes "\<And>j. from \<le> j \<Longrightarrow> j < from + n \<Longrightarrow> get (messageKey (int j)) = Inr (h ! j) \<or>
      get (messageKey (int j)) = Inr '''' \<or> (\<exists>err. get (messageKey (int j)) = Inl err)"
    and "from + n \<le> length h" and "'''' \<notin> set h"
  shows "load_messages get n (int from) = Inr (take n (drop from h)) \<or>
    (\<exists>j. load_messages get n (int from) = Inl (missing_message (int j))) \<or>
    (\<exists>k err. load_messages get n (int from) = Inl err \<and> get k = Inl err)"
  using assms
proof (induction n arbitrary: "from")
  case (Suc n)
  have "h ! from \<in> set h" using Suc.prems(2) by simp
  then have ne: "h ! from \<noteq> ''''" using Suc.prems(3) by auto
  have IH: "load_messages get n (int (Suc from)) = Inr (take n (drop (Suc from) h)) \<or>
    (\<exists>j. load_messages get n (int (Suc from)) = Inl (missing_message (int j))) \<or>
    (\<exists>k err. load_messages get n (int (Suc from)) = Inl err \<and> get k = Inl err)"
    by (rule Suc.IH) (use Suc.prems in auto)
  have t: "take (Suc n) (drop from h) = h ! from # take n (drop (Suc from) h)"
    using Suc.prems(2) by (simp add: Cons_nth_drop_Suc [symmetric])
  have a: "1 + int from = int (Suc from)" by simp
  from Suc.prems(1) [of "from"] consider
      "get (messageKey (int from)) = Inr (h ! from)"
    | "get (messageKey (int from)) = Inr ''''"
    | err where "get (messageKey (int from)) = Inl err" by auto
  then show ?case
  proof cases
    case 1
    with IH ne t show ?thesis by (auto simp: add.commute)
  next
    case 2
    then show ?thesis by auto
  next
    case (3 err)
    then show ?thesis by auto
  qed
qed simp

lemma HasPrefix_self: "HasPrefix (s @ t) s"
  by (simp add: HasPrefix_def)

lemma Contains_middle: "Contains (a @ s @ b) s"
  by (induction a) (cases s; cases b; simp add: HasPrefix_def)+

lemma missing_recognized: "Contains (error_str (missing_message i)) ''missing message''"
  using Contains_middle [of "''pubsub: ''" "''missing message''" "'' at offset '' @ itoa i"]
  by (simp add: missing_message_def)

lemma pull_results:
  assumes "list_all real_call cs" "late_reader cs get"
    and "Pull (getMetadata (log_after cs)) get \<lparr>pq_Offset = Some (int k), pq_Wait = False\<rparr> = PullReturns r"
  shows "r = Inr resp \<Longrightarrow> log_cleared cs \<le> k \<and> pr_Messages resp = drop k (log_history cs) \<and>
      pr_NextOffset resp = int (max k (length (log_history cs)))"
    and "r = Inl err \<Longrightarrow> isAgentEventLogCleared (Some err) \<or> (\<exists>key. get key = Inl err)"
    and "get = reads (log_after cs) \<Longrightarrow> log_cleared cs \<le> k \<Longrightarrow> \<exists>resp. r = Inr resp"
proof -
  let ?h = "log_history cs"
  have inv: "log_inv cs (log_after cs)" and ne: "'''' \<notin> set ?h"
    using assms(1) by (rule log_inv_after, rule published_real)
  have meta: "getMetadata (log_after cs) = \<lparr>ps_Head = int (log_cleared cs), ps_Tail = int (length ?h)\<rparr>"
    using inv by (simp add: log_inv_def)
  have range: "loadMessagesInRange get (int k) (int (length ?h)) = load_messages get (length ?h - k) (int k)"
    if "k < length ?h" using that by (auto simp: loadMessagesInRange_def nat_minus_as_int of_nat_diff)
  have late: "k < length ?h \<Longrightarrow> load_messages get (length ?h - k) (int k) = Inr (drop k ?h) \<or>
    (\<exists>j. load_messages get (length ?h - k) (int k) = Inl (missing_message (int j))) \<or>
    (\<exists>key err. load_messages get (length ?h - k) (int k) = Inl err \<and> get key = Inl err)"
    using load_messages_late [of k "length ?h - k" get ?h] late_read [OF assms(1,2)] ne by auto
  have exact: "load_messages get (length ?h - k) (int k) = Inr (drop k ?h)"
    if "get = reads (log_after cs)" "log_cleared cs \<le> k" "k < length ?h"
    using loads_history [OF inv ne that(2), of "length ?h"] range that by simp
  note facts = assms(3) meta late range exact
  note defs = Pull_def Let_def isAgentEventLogCleared_def ErrAgentEventLogCleared_def missing_recognized max_def
  show "r = Inr resp \<Longrightarrow> log_cleared cs \<le> k \<and> pr_Messages resp = drop k (log_history cs) \<and>
      pr_NextOffset resp = int (max k (length (log_history cs)))"
    using facts by (auto simp: defs split: if_splits sum.splits)
  show "r = Inl err \<Longrightarrow> isAgentEventLogCleared (Some err) \<or> (\<exists>key. get key = Inl err)"
    using facts by (auto simp: defs split: if_splits sum.splits)
  show "get = reads (log_after cs) \<Longrightarrow> log_cleared cs \<le> k \<Longrightarrow> \<exists>resp. r = Inr resp"
    using facts by (auto simp: defs split: if_splits sum.splits)
qed

text \<open>C25. A pull sees the log as one list: without waiting it answers with exactly the messages from its
  offset to the end of the log at the time it read the metadata, or with the error that the log is
  cleared, or with the error of a failed read, even if messages are published and the log is cleared
  while it reads. The offset it returns continues after the last message, and it never goes back.
  With reads that do not fail and no concurrent \<open>Clear\<close>, it only fails below the cleared part.\<close>

theorem pull_exact:
  assumes "list_all real_call cs" "late_reader cs get"
    and "Pull (getMetadata (log_after cs)) get \<lparr>pq_Offset = Some (int k), pq_Wait = False\<rparr> = PullReturns r"
  shows "(\<forall>resp. r = Inr resp \<longrightarrow> log_cleared cs \<le> k \<and> pr_Messages resp = drop k (log_history cs) \<and>
      pr_NextOffset resp = int (max k (length (log_history cs)))) \<and>
    (\<forall>err. r = Inl err \<longrightarrow> isAgentEventLogCleared (Some err) \<or> (\<exists>key. get key = Inl err)) \<and>
    (get = reads (log_after cs) \<and> log_cleared cs \<le> k \<longrightarrow> (\<exists>resp. r = Inr resp))"
  using pull_results [OF assms] by blast

lemma reads_late: "late_reader cs (reads (log_after cs))"
  unfolding late_reader_def by (intro allI disjI2 exI [of _ "[]"]) simp

theorem pull_exact_witness:
  "Pull (getMetadata (log_after [PublishCall ''b'', PublishCall ''a''])) (reads (log_after [PublishCall ''b'', PublishCall ''a'']))
     \<lparr>pq_Offset = Some 1, pq_Wait = False\<rparr> = PullReturns (Inr \<lparr>pr_Messages = [''b''], pr_NextOffset = 2\<rparr>)"
proof -
  let ?cs = "[PublishCall ''b'', PublishCall ''a'']"
  let ?p = "Pull (getMetadata (log_after ?cs)) (reads (log_after ?cs)) \<lparr>pq_Offset = Some (int 1), pq_Wait = False\<rparr>"
  obtain r where r: "?p = PullReturns r"
    by (cases ?p) (simp_all add: Pull_def Let_def split: if_splits)
  from pull_exact [OF _ reads_late this] obtain resp where
    "r = Inr resp" "pr_Messages resp = [''b'']" "pr_NextOffset resp = 2" by auto
  with r show ?thesis by (cases resp) simp
qed

section \<open>Waiting pulls\<close>

text \<open>The subscriptions that wait: those since the last message or clearing that ask for later messages.\<close>

primrec waiting :: "log_call list \<Rightarrow> pubsub_subscription list" where
  "waiting [] = []"
| "waiting (c # cs) = (case c of
      SubscribeCall sub \<Rightarrow> waiting cs @ (if sb_Offset sub < int (length (log_history cs)) then [] else [sub])
    | ClearCall \<Rightarrow> (if log_history cs = [] then waiting cs else [])
    | PublishCall m \<Rightarrow> [])"

lemma subs_waiting: "list_all real_call cs \<Longrightarrow> el_subs (log_after cs) = waiting cs"
proof (induction cs)
  case (Cons c cs)
  then have inv: "log_inv cs (log_after cs)" and ne: "'''' \<notin> set (log_history cs)"
    using log_inv_after published_real by auto
  show ?case
  proof (cases c)
    case (PublishCall m)
    then show ?thesis
      using publish_inv [OF inv ne, of m] Cons.prems
      by (auto simp: Publish_def Let_def split: prod.splits option.splits)
  next
    case (SubscribeCall sub)
    with subscribe_inv [OF inv ne, of sub] Cons show ?thesis by auto
  next
    case ClearCall
    have "getMetadata (log_after cs) = \<lparr>ps_Head = int (log_cleared cs), ps_Tail = int (length (log_history cs))\<rparr>"
      "log_cleared cs \<le> length (log_history cs)" using inv by (simp_all add: log_inv_def)
    with ClearCall Cons show ?thesis by (auto simp: log_Clear_def Let_def)
  qed
qed (simp add: empty_log_def)

text \<open>C28. Waiting pulls: a published message is sent to exactly the pulls that wait, each with all
  messages from its own offset to the end, so nobody misses one; a subscription that comes too late
  is answered at once with what is there, and rejected below the cleared part. No call fails. But
  \<open>Clear\<close> answers nobody: it drops the pulls that wait, which learn nothing before their timeout.\<close>

theorem waiters_notified:
  assumes "list_all real_call (c # cs)"
  shows "fst (log_do c (log_after cs)) = None \<and>
    fst (snd (log_do c (log_after cs))) = (case c of
        PublishCall m \<Rightarrow> map (notice (log_history cs @ [m])) (waiting cs)
      | SubscribeCall sub \<Rightarrow>
          if sb_Offset sub < int (log_cleared cs)
            then [RejectAwakeable (sb_ID sub) (lower_than_head (sb_Offset sub) (int (log_cleared cs)))]
          else if sb_Offset sub < int (length (log_history cs)) then [notice (log_history cs) sub] else []
      | ClearCall \<Rightarrow> [])"
proof -
  from assms have inv: "log_inv cs (log_after cs)" and ne: "'''' \<notin> set (log_history cs)"
    using log_inv_after published_real by auto
  have w: "el_subs (log_after cs) = waiting cs" using assms by (simp add: subs_waiting)
  show ?thesis
  proof (cases c)
    case (PublishCall m)
    with publish_inv [OF inv ne, of m] assms w show ?thesis by auto
  next
    case (SubscribeCall sub)
    with subscribe_inv [OF inv ne, of sub] show ?thesis by auto
  next
    case ClearCall
    with clear_inv [OF inv] show ?thesis by simp
  qed
qed

theorem waiters_notified_witness:
  "fst (snd (log_do (PublishCall ''a'') (log_after [SubscribeCall \<lparr>sb_Offset = 0, sb_ID = ''w''\<rparr>]))) =
     [ResolveAwakeable ''w'' \<lparr>nt_NewOffset = 1, nt_NewMessages = [''a'']\<rparr>] \<and>
   fst (snd (log_do ClearCall (log_after [SubscribeCall \<lparr>sb_Offset = 1, sb_ID = ''w''\<rparr>, PublishCall ''a'']))) = []"
  using waiters_notified [of "PublishCall ''a''" "[SubscribeCall \<lparr>sb_Offset = 0, sb_ID = ''w''\<rparr>]"]
    waiters_notified [of ClearCall "[SubscribeCall \<lparr>sb_Offset = 1, sb_ID = ''w''\<rparr>, PublishCall ''a'']"]
  by (simp add: notice_def)

section \<open>Reading a log\<close>

text \<open>
  The contract between the log and its readers. A reader pulls again and again, each time from the
  offset of the last answer; between two pulls the log may grow. \<open>follows\<close>: a list of states and
  answers is such a session; \<open>read_from\<close> collects what the reader has.
\<close>

fun follows ::
    "('s \<Rightarrow> int \<Rightarrow> go_error + pull_response \<Rightarrow> bool) \<Rightarrow> ('s \<Rightarrow> 's \<Rightarrow> bool) \<Rightarrow> 's \<Rightarrow> int \<Rightarrow>
     ('s \<times> (go_error + pull_response)) list \<Rightarrow> bool" where
  "follows answer later s offset [] \<longleftrightarrow> True"
| "follows answer later s offset ((t, r) # xs) \<longleftrightarrow> later s t \<and> answer t offset r \<and>
     (case r of Inl err \<Rightarrow> follows answer later t offset xs
      | Inr resp \<Rightarrow> follows answer later t (pr_NextOffset resp) xs)"

fun read_from :: "int \<Rightarrow> (go_error + pull_response) list \<Rightarrow> string list \<times> int" where
  "read_from offset [] = ([], offset)"
| "read_from offset (Inl err # rs) = read_from offset rs"
| "read_from offset (Inr resp # rs) = (case read_from (pr_NextOffset resp) rs of
     (ms, offset') \<Rightarrow> (pr_Messages resp @ ms, offset'))"

lemma follows_take:
  "follows answer later s offset xs \<Longrightarrow> follows answer later s offset (take n xs)"
proof (induction xs arbitrary: s offset n)
  case (Cons x xs)
  then show ?case by (cases n; cases x) (auto split: sum.splits)
qed simp

locale event_source =
  fixes answer :: "'s \<Rightarrow> int \<Rightarrow> go_error + pull_response \<Rightarrow> bool"
    and later :: "'s \<Rightarrow> 's \<Rightarrow> bool"
    and history :: "'s \<Rightarrow> string list"
  assumes answer_exact: "answer s (int k) (Inr resp) \<Longrightarrow>
      pr_Messages resp = drop k (history s) \<and> pr_NextOffset resp = int (max k (length (history s)))"
    and later_grows: "later s t \<Longrightarrow> \<exists>ms. history t = history s @ ms"
begin

lemma session_grows:
  "follows answer later s offset xs \<Longrightarrow> \<exists>ms. history (last (s # map fst xs)) = history s @ ms"
proof (induction xs arbitrary: s offset)
  case (Cons x xs)
  obtain t r where x: "x = (t, r)" by (cases x)
  with Cons.prems obtain offset' where "later s t" "follows answer later t offset' xs"
    by (auto split: sum.splits)
  with Cons.IH [of t offset'] obtain ns where "history (last (t # map fst xs)) = history t @ ns" by blast
  with later_grows [OF \<open>later s t\<close>] x show ?case by auto
qed simp

text \<open>A session reads the history of the log without gap and without repetition, up to the end if its
  last answer is a success.\<close>

lemma session_contiguous:
  assumes "follows answer later s (int k) xs" "k \<le> length (history s)"
  shows "\<exists>m. k \<le> m \<and> m \<le> length (history (last (s # map fst xs))) \<and>
    read_from (int k) (map snd xs) = (take (m - k) (drop k (history (last (s # map fst xs)))), int m) \<and>
    (xs \<noteq> [] \<longrightarrow> (\<exists>resp. snd (last xs) = Inr resp) \<longrightarrow> m = length (history (last (s # map fst xs))))"
  using assms
proof (induction xs arbitrary: s k)
  case (Cons x xs)
  obtain t r where x: "x = (t, r)" by (cases x)
  with Cons.prems have later: "later s t" and ans: "answer t (int k) r" by auto
  from later_grows [OF later] obtain ms where h: "history t = history s @ ms" by blast
  with Cons.prems(2) have k: "k \<le> length (history t)" by simp
  show ?case
  proof (cases r)
    case (Inl err)
    with Cons.prems x have f: "follows answer later t (int k) xs" by simp
    have l: "last (s # map fst (x # xs)) = last (t # map fst xs)" using x by simp
    from Cons.IH [OF f k] Inl x h show ?thesis by (auto split: if_splits)
  next
    case (Inr resp)
    with answer_exact ans have resp: "pr_Messages resp = drop k (history t)"
      "pr_NextOffset resp = int (length (history t))"
      using k by (auto simp: max_def)
    with Cons.prems x Inr have f: "follows answer later t (int (length (history t))) xs" by simp
    let ?l = "last (t # map fst xs)"
    from Cons.IH [OF f order.refl] obtain m where m: "length (history t) \<le> m" "m \<le> length (history ?l)"
      "read_from (int (length (history t))) (map snd xs)
         = (take (m - length (history t)) (drop (length (history t)) (history ?l)), int m)"
      "xs \<noteq> [] \<Longrightarrow> \<exists>resp. snd (last xs) = Inr resp \<Longrightarrow> m = length (history ?l)" by blast
    obtain ns where l: "history ?l = history t @ ns" using session_grows [OF f] by blast
    have "read_from (int k) (map snd (x # xs))
        = (drop k (history t) @ take (m - length (history t)) (drop (length (history t)) (history ?l)), int m)"
      using x Inr resp m(3) by simp
    also have "drop k (history t) @ take (m - length (history t)) (drop (length (history t)) (history ?l))
        = take (m - k) (drop k (history ?l))"
      using m(1) k by (simp only: l) simp
    finally have "read_from (int k) (map snd (x # xs)) = (take (m - k) (drop k (history ?l)), int m)" .
    moreover have "last (s # map fst (x # xs)) = ?l" using x by simp
    moreover have "m = length (history ?l)" if "\<exists>resp. snd (last (x # xs)) = Inr resp"
    proof (cases "xs = []")
      case True
      with m(3) l show ?thesis by simp
    next
      case False
      with m(4) that show ?thesis by simp
    qed
    ultimately show ?thesis using m(1,2) k by (intro exI [of _ m]) auto
  qed
qed (use assms in auto)

end

text \<open>The answers of \<open>Pull\<close> to a reader that does not wait.\<close>

definition pull_answer :: "log_call list \<Rightarrow> int \<Rightarrow> go_error + pull_response \<Rightarrow> bool" where
  "pull_answer cs offset r \<longleftrightarrow> list_all real_call cs \<and> (\<exists>get. late_reader cs get \<and>
     Pull (getMetadata (log_after cs)) get \<lparr>pq_Offset = Some offset, pq_Wait = False\<rparr> = PullReturns r)"

definition log_later :: "log_call list \<Rightarrow> log_call list \<Rightarrow> bool" where
  "log_later cs cs' \<longleftrightarrow> (\<exists>ds. cs' = ds @ cs)"

lemma pull_answer_ok: "pull_answer cs (int k) (Inr resp) \<Longrightarrow>
  pr_Messages resp = drop k (log_history cs) \<and> pr_NextOffset resp = int (max k (length (log_history cs)))"
  using pull_results(1) unfolding pull_answer_def by blast

interpretation restate_log: event_source pull_answer log_later log_history
  by unfold_locales (auto simp: log_later_def published_later dest: pull_answer_ok)

end
