(* ===== verification/Restate_Client.thy ===== *)
theory Restate_Client
  imports Event_Log Run_Handle
begin

text \<open>
  The client side of the Restate runtime, \<open>internal/runtime/restate\<close>: the event stream of a run
  (\<open>stream_handle.go\<close>), its handle (\<open>run_handle.go\<close>), the calls of Restate's ingress with their
  retries (\<open>ingress.go\<close>), the approval loop (\<open>ingress.go\<close>, \<open>approval.go\<close>) and the configuration
  (\<open>options.go\<close>). A loop that polls is a function of what its polls see, one record per turn; the
  turns end where the observation ends.
\<close>

section \<open>Streams\<close>

text \<open>What a client of a stream receives: the synthetic events of the run's start and end, and decoded
  events with the offset that \<open>SetOffset\<close> attaches. A decoder gives no event for a message that is
  not one.\<close>

datatype finished_result = FullResult agent_run_result | OnlyName string | NoResult

datatype remote_event =
    RemoteStarted string string
  | RemoteEvent stream_event int
  | RemoteFinished string string finished_result
  | RemoteError string

type_synonym event_decoder = "string \<Rightarrow> stream_event option"

definition pubsubDrainEmptyPeeks :: nat where "pubsubDrainEmptyPeeks = 3"

text \<open>The send of an event: it is taken, or the caller's context is done first; then a buffer of the
  channel may still have room.\<close>

datatype send_result = Taken | CallerGone bool

fun deliver_batch ::
    "event_decoder \<Rightarrow> bool \<Rightarrow> int \<Rightarrow> (nat \<Rightarrow> send_result) \<Rightarrow> string list \<Rightarrow> remote_event list \<times> bool" where
  "deliver_batch decode runDone msgOffset sends [] = ([], True)"
| "deliver_batch decode runDone msgOffset sends (raw # raws) =
    (let rest = deliver_batch decode runDone (msgOffset + 1) (\<lambda>i. sends (Suc i)) raws
     in case decode raw of None \<Rightarrow> rest
        | Some ev \<Rightarrow> (case sends 0 of
            Taken \<Rightarrow> (RemoteEvent ev msgOffset # fst rest, snd rest)
          | CallerGone room \<Rightarrow>
              if \<not> runDone then ([], False)
              else ((if room then [RemoteEvent ev msgOffset] else []) @ fst rest, snd rest)))"

text \<open>A turn of the loop: whether the run is done and the caller's context is done when it begins, the
  answer of the pull, whether the context is done after it, what ends the wait after an empty
  answer, and how the sends end.\<close>

datatype wake = WakeRunDone | WakeCaller | WakeTick

record pull_turn =
  tn_runDone :: bool
  tn_cancelled :: bool
  tn_answer :: "go_error + pull_response"
  tn_cancelledThen :: bool
  tn_wake :: wake
  tn_sends :: "nat \<Rightarrow> send_result"

fun runPullLoop ::
    "event_decoder \<Rightarrow> int \<Rightarrow> nat \<Rightarrow> pull_turn list \<Rightarrow> remote_event list \<times> bool option" where
  "runPullLoop decode offset emptyAfterDone [] = ([], None)"
| "runPullLoop decode offset emptyAfterDone (t # ts) =
    (if tn_cancelled t \<and> \<not> tn_runDone t then ([], Some False)
     else case tn_answer t of
       Inl err \<Rightarrow>
         if tn_cancelledThen t \<and> \<not> tn_runDone t then ([], Some False)
         else if isAgentEventLogCleared (Some err) then ([], Some True)
         else ([], Some True)
     | Inr resp \<Rightarrow>
         (let offset' = pr_NextOffset resp
          in if pr_Messages resp = [] then
               if tn_runDone t then
                 if pubsubDrainEmptyPeeks \<le> emptyAfterDone + 1 then ([], Some True)
                 else if tn_wake t = WakeCaller then ([], Some True)
                 else runPullLoop decode offset' (emptyAfterDone + 1) ts
               else if tn_wake t = WakeCaller then ([], Some False)
               else runPullLoop decode offset' emptyAfterDone ts
             else case deliver_batch decode (tn_runDone t) offset' (tn_sends t) (pr_Messages resp) of
               (evs, False) \<Rightarrow> (evs, Some False)
             | (evs, True) \<Rightarrow> (case runPullLoop decode offset' 0 ts of (evs', r) \<Rightarrow> (evs @ evs', r))))"

definition terminalStreamErrorMessage :: "go_error \<Rightarrow> string" where
  "terminalStreamErrorMessage e =
    (if error_is e DeadlineExceeded then ''context deadline exceeded''
     else if error_is e ContextCanceled then ''context canceled''
     else error_str e)"

definition syntheticStreamCompleteEvent ::
    "agent_run_result option \<Rightarrow> string \<Rightarrow> string \<Rightarrow> string \<Rightarrow> remote_event" where
  "syntheticStreamCompleteEvent result threadID runID rootName =
    RemoteFinished threadID runID (case result of
        Some r \<Rightarrow> FullResult (if TrimSpace (rz_AgentName r) \<noteq> '''' then r\<lparr>rz_AgentName := TrimSpace (rz_AgentName r)\<rparr>
          else if rootName \<noteq> '''' then r\<lparr>rz_AgentName := rootName\<rparr> else r)
      | None \<Rightarrow> if rootName \<noteq> '''' then OnlyName rootName else NoResult)"

text \<open>\<open>got\<close> is what \<open>Get\<close> returns once the run is done. A loop that has not ended has delivered its
  events so far.\<close>

definition terminal_remote :: "string \<Rightarrow> string \<Rightarrow> go_error + agent_run_result option \<Rightarrow> remote_event" where
  "terminal_remote agentName runID got = (case got of
      Inl err \<Rightarrow> RemoteError (terminalStreamErrorMessage err)
    | Inr result \<Rightarrow> syntheticStreamCompleteEvent result '''' runID (TrimSpace agentName))"

definition deliverEvents ::
    "event_decoder \<Rightarrow> string \<Rightarrow> string \<Rightarrow> int \<Rightarrow> pull_turn list \<Rightarrow> go_error + agent_run_result option \<Rightarrow>
     remote_event list" where
  "deliverEvents decode agentName runID fromOffset turns got =
    (case runPullLoop decode fromOffset 0 turns of (evs, r) \<Rightarrow>
       (if fromOffset = 0 then [RemoteStarted '''' runID] else []) @ evs
       @ (if r = Some True then [terminal_remote agentName runID got] else []))"

text \<open>The checks of \<open>Events\<close>: whether the handle is configured, the caller's context, the offset, and
  the status of the run. It subscribes if they pass.\<close>

definition stream_Events :: "string \<Rightarrow> bool \<Rightarrow> go_error option \<Rightarrow> int \<Rightarrow> go_error + string \<Rightarrow> go_error option" where
  "stream_Events runID configured ctxErr fromOffset status =
    (if \<not> configured then Some (ErrNew (''restate: stream handle '' @ Quote runID @ '' is not configured for Events''))
     else case ctxErr of Some err \<Rightarrow> Some err
     | None \<Rightarrow> if fromOffset < 0 then Some (ErrNew ''restate: fromOffset must be >= 0'')
       else case status of Inl err \<Rightarrow> Some err
       | Inr st \<Rightarrow> if IsTerminal st then Some ErrRunAlreadyCompleted else None)"

section \<open>What a stream delivers\<close>

text \<open>A turn that the caller does not disturb, and the events behind the offsets.\<close>

definition undisturbed :: "pull_turn \<Rightarrow> bool" where
  "undisturbed t \<longleftrightarrow> \<not> tn_cancelled t \<and> \<not> tn_cancelledThen t \<and> tn_wake t \<noteq> WakeCaller \<and> tn_sends t = (\<lambda>_. Taken)"

fun payloads :: "remote_event list \<Rightarrow> stream_event list" where
  "payloads [] = []"
| "payloads (RemoteEvent ev off # es) = ev # payloads es"
| "payloads (e # es) = payloads es"

lemma payloads_append [simp]: "payloads (xs @ ys) = payloads xs @ payloads ys"
  by (induction xs rule: payloads.induct) auto

abbreviation decoded :: "event_decoder \<Rightarrow> string list \<Rightarrow> stream_event list" where
  "decoded decode \<equiv> List.map_filter decode"

lemma decoded_append [simp]: "decoded decode (xs @ ys) = decoded decode xs @ decoded decode ys"
  by (simp add: List.map_filter_def)

lemma deliver_all:
  "snd (deliver_batch decode rd off (\<lambda>_. Taken) raws)"
  "payloads (fst (deliver_batch decode rd off (\<lambda>_. Taken) raws)) = decoded decode raws"
  by (induction raws arbitrary: off) (auto simp: Let_def split: option.splits)

lemma deliver_labels:
  "i < length raws \<Longrightarrow> decode (raws ! i) = Some ev \<Longrightarrow>
   RemoteEvent ev (off + int i) \<in> set (fst (deliver_batch decode rd off (\<lambda>_. Taken) raws))"
proof (induction raws arbitrary: i off)
  case (Cons raw raws)
  show ?case
  proof (cases i)
    case 0
    with Cons.prems show ?thesis by (simp add: Let_def)
  next
    case (Suc i')
    with Cons.prems have "RemoteEvent ev (off + 1 + int i') \<in>
        set (fst (deliver_batch decode rd (off + 1) (\<lambda>_. Taken) raws))"
      by (intro Cons.IH) auto
    with Suc show ?thesis by (auto simp: Let_def algebra_simps split: option.split)
  qed
qed simp

text \<open>How an undisturbed loop ends: with an error of the log, or quiet after the end of the run.\<close>

definition ends_loop :: "pull_turn \<Rightarrow> bool" where
  "ends_loop t \<longleftrightarrow> (case tn_answer t of Inl err \<Rightarrow> True
     | Inr resp \<Rightarrow> tn_runDone t \<and> pr_Messages resp = [])"

lemma loop_reads:
  assumes "\<forall>t \<in> set ts. undisturbed t" "runPullLoop decode off e ts = (evs, r)"
  shows "\<exists>n \<le> length ts. payloads evs = decoded decode (fst (read_from off (map tn_answer (take n ts)))) \<and>
    (r = None \<and> n = length ts \<or> r = Some True \<and> 0 < n \<and> ends_loop (ts ! (n - 1)))"
  using assms
proof (induction ts arbitrary: off e evs r)
  case (Cons t ts)
  then have u: "undisturbed t" and us: "\<forall>t \<in> set ts. undisturbed t" by auto
  have first: ?case if "payloads evs = []" "r = Some True" "ends_loop t"
      "\<And>resp. tn_answer t = Inr resp \<Longrightarrow> pr_Messages resp = []"
    using that by (intro exI [of _ 1]) (cases "tn_answer t"; simp)
  have later: ?case if "runPullLoop decode off' e' ts = (evs', r)"
      "payloads evs = decoded decode (pr_Messages resp) @ payloads evs'" "tn_answer t = Inr resp"
      "pr_NextOffset resp = off'" for off' e' evs' resp
  proof -
    from Cons.IH [OF us that(1)] obtain n where n: "n \<le> length ts"
      "payloads evs' = decoded decode (fst (read_from off' (map tn_answer (take n ts))))"
      "r = None \<and> n = length ts \<or> r = Some True \<and> 0 < n \<and> ends_loop (ts ! (n - 1))" by blast
    then show ?thesis
      using that(2-4) by (intro exI [of _ "Suc n"]) (auto simp: nth_Cons' split: prod.split)
  qed
  show ?case
  proof (cases "tn_answer t")
    case (Inl err)
    with Cons.prems(2) u show ?thesis
      by (intro first) (auto simp: undisturbed_def ends_loop_def split: if_splits)
  next
    case (Inr resp)
    show ?thesis
    proof (cases "pr_Messages resp = []")
      case True
      have "evs = [] \<and> r = Some True \<and> tn_runDone t \<or>
          runPullLoop decode (pr_NextOffset resp) (e + 1) ts = (evs, r) \<or>
          runPullLoop decode (pr_NextOffset resp) e ts = (evs, r)"
        using Inr Cons.prems(2) u True by (simp add: undisturbed_def Let_def split: if_splits)
      then consider
          "evs = []" "r = Some True" "tn_runDone t"
        | e' where "runPullLoop decode (pr_NextOffset resp) e' ts = (evs, r)"
        by blast
      then show ?thesis
      proof cases
        case 1
        with True Inr show ?thesis by (intro first) (simp_all add: ends_loop_def)
      next
        case (2 e')
        show ?thesis by (rule later [OF 2 _ Inr refl]) (simp add: True)
      qed
    next
      case False
      let ?d = "deliver_batch decode (tn_runDone t) (pr_NextOffset resp) (\<lambda>_. Taken) (pr_Messages resp)"
      have d: "?d = (fst ?d, True)" "payloads (fst ?d) = decoded decode (pr_Messages resp)"
        using deliver_all by (metis prod.collapse, blast)
      obtain evs' r' where l: "runPullLoop decode (pr_NextOffset resp) 0 ts = (evs', r')" by fastforce
      have "evs = fst ?d @ evs'" "r = r'"
        using Cons.prems(2) Inr False u l d(1) by (auto simp: undisturbed_def Let_def split: prod.splits bool.splits)
      then have l': "runPullLoop decode (pr_NextOffset resp) 0 ts = (evs', r)"
        and "payloads evs = decoded decode (pr_Messages resp) @ payloads evs'"
        using l d(2) by simp_all
      from later [OF this Inr refl] show ?thesis .
    qed
  qed
qed simp

lemma stream_session:
  assumes "\<forall>t \<in> set ts. undisturbed t" "runPullLoop decode (int k) 0 ts = (evs, r)"
    and "follows pull_answer log_later cs (int k) (zip ss (map tn_answer ts))" "length ss = length ts"
    and "k \<le> length (log_history cs)"
  shows "\<exists>n m. n \<le> length ts \<and> k \<le> m \<and> m \<le> length (log_history (last (cs # take n ss))) \<and>
    payloads evs = decoded decode (take (m - k) (drop k (log_history (last (cs # take n ss))))) \<and>
    (r = None \<and> n = length ts \<or>
     r = Some True \<and> 0 < n \<and> ends_loop (ts ! (n - 1)) \<and>
       (\<forall>resp. tn_answer (ts ! (n - 1)) = Inr resp \<longrightarrow> m = length (log_history (last (cs # take n ss)))))"
proof -
  obtain n where n: "n \<le> length ts"
    "payloads evs = decoded decode (fst (read_from (int k) (map tn_answer (take n ts))))"
    "r = None \<and> n = length ts \<or> r = Some True \<and> 0 < n \<and> ends_loop (ts ! (n - 1))"
    using loop_reads [OF assms(1,2)] by blast
  let ?xs = "zip (take n ss) (map tn_answer (take n ts))"
  have xs: "?xs = take n (zip ss (map tn_answer ts))" by (simp add: take_zip take_map)
  have f: "follows pull_answer log_later cs (int k) ?xs"
    unfolding xs by (rule follows_take [OF assms(3)])
  have maps: "map fst ?xs = take n ss" "map snd ?xs = map tn_answer (take n ts)"
    using n(1) assms(4) by simp_all
  obtain m where m: "k \<le> m" "m \<le> length (log_history (last (cs # take n ss)))"
    "read_from (int k) (map tn_answer (take n ts)) = (take (m - k) (drop k (log_history (last (cs # take n ss)))), int m)"
    "?xs \<noteq> [] \<Longrightarrow> \<exists>resp. snd (last ?xs) = Inr resp \<Longrightarrow> m = length (log_history (last (cs # take n ss)))"
    using restate_log.session_contiguous [OF f assms(5)] unfolding maps by blast
  have "m = length (log_history (last (cs # take n ss)))"
    if "tn_answer (ts ! (n - 1)) = Inr resp" "0 < n" for resp
  proof (rule m(4))
    show ne: "?xs \<noteq> []" using that(2) n(1) assms(4) by auto
    have "snd (last ?xs) = tn_answer (ts ! (n - 1))"
      using ne that(2) n(1) assms(4) by (simp add: last_conv_nth)
    with that(1) show "\<exists>resp. snd (last ?xs) = Inr resp" by simp
  qed
  with n m show ?thesis by (intro exI [of _ n] exI [of _ m]) auto
qed

lemma delivered_shape:
  assumes "runPullLoop decode off e ts = (evs, r)"
  shows "\<forall>x \<in> set evs. \<exists>ev l. x = RemoteEvent ev l"
proof -
  have d: "\<forall>x \<in> set (fst (deliver_batch decode rd off sends raws)). \<exists>ev l. x = RemoteEvent ev l" for rd off sends raws
    by (induction raws arbitrary: off sends) (auto simp: Let_def split: option.splits send_result.splits)
  show ?thesis
    using assms
  proof (induction ts arbitrary: off e evs r)
    case (Cons t ts)
    show ?case
    proof (cases "tn_answer t")
      case (Inr resp)
      have D: "\<forall>x \<in> set (fst (deliver_batch decode (tn_runDone t) (pr_NextOffset resp) (tn_sends t) (pr_Messages resp))).
          \<exists>ev l. x = RemoteEvent ev l" by (rule d)
      obtain evs' r' where l: "runPullLoop decode (pr_NextOffset resp) 0 ts = (evs', r')" by fastforce
      have "evs = [] \<or> (\<exists>e'. runPullLoop decode (pr_NextOffset resp) e' ts = (evs, r)) \<or>
          evs = fst (deliver_batch decode (tn_runDone t) (pr_NextOffset resp) (tn_sends t) (pr_Messages resp)) \<or>
          evs = fst (deliver_batch decode (tn_runDone t) (pr_NextOffset resp) (tn_sends t) (pr_Messages resp)) @ evs'"
        using l Inr Cons.prems by (auto simp: Let_def split: if_splits prod.splits bool.splits)
      then show ?thesis
      proof (elim disjE exE)
        assume "evs = []" then show ?thesis by simp
      next
        fix e' assume "runPullLoop decode (pr_NextOffset resp) e' ts = (evs, r)"
        then show ?thesis by (rule Cons.IH)
      next
        assume "evs = fst (deliver_batch decode (tn_runDone t) (pr_NextOffset resp) (tn_sends t) (pr_Messages resp))"
        with D show ?thesis by (simp only:)
      next
        assume "evs = fst (deliver_batch decode (tn_runDone t) (pr_NextOffset resp) (tn_sends t) (pr_Messages resp)) @ evs'"
        with D Cons.IH [OF l] show ?thesis by (simp only: set_append ball_Un)
      qed
    qed (use Cons.prems in \<open>auto split: if_splits\<close>)
  qed simp
qed


text \<open>A stream over a log that does not change any more.\<close>

definition quiet_turn :: "bool \<Rightarrow> go_error + pull_response \<Rightarrow> pull_turn" where
  "quiet_turn done answer = \<lparr>tn_runDone = done, tn_cancelled = False, tn_answer = answer,
     tn_cancelledThen = False, tn_wake = WakeTick, tn_sends = (\<lambda>_. Taken)\<rparr>"

lemma undisturbed_quiet [simp]: "undisturbed (quiet_turn done answer)"
  by (simp add: undisturbed_def quiet_turn_def)

lemma pull_all:
  assumes "list_all real_call cs" "log_cleared cs \<le> k"
  shows "pull_answer cs (int k) (Inr \<lparr>pr_Messages = drop k (log_history cs),
    pr_NextOffset = int (max k (length (log_history cs)))\<rparr>)"
proof -
  let ?get = "reads (log_after cs)"
  let ?p = "Pull (getMetadata (log_after cs)) ?get \<lparr>pq_Offset = Some (int k), pq_Wait = False\<rparr>"
  obtain r where r: "?p = PullReturns r"
    by (cases ?p) (simp_all add: Pull_def Let_def split: if_splits)
  note results = pull_results [OF assms(1) reads_late r]
  from results(3) assms(2) obtain resp where "r = Inr resp" by blast
  with results(1) [of resp] r assms(1) show ?thesis
    unfolding pull_answer_def using reads_late by (cases resp) auto
qed

text \<open>C23. Resuming a stream loses events. The offset attached to an event is not its position in the log:
  it is ahead by the number of messages that came in the same pull, because the start of the batch
  is taken after the offset has moved on. A client that resumes at the offset of the event it saw last,
  as \<open>WithOffset\<close> documents, gets only what stands at that later position and after: of the messages
  in between, those up to the end of the batch that it had not seen, and as many new ones as the batch
  had before the event, are never delivered.\<close>

theorem resume_loses_events:
  assumes "pull_answer cs (int k) (Inr resp)" "k + j < length (log_history cs)"
    and "decode (log_history cs ! (k + j)) = Some ev"
    and "\<forall>t \<in> set ts. undisturbed t" "length ss = length ts"
    and "follows pull_answer log_later cs' (int (length (log_history cs) + j)) (zip ss (map tn_answer ts))"
    and "length (log_history cs) + j \<le> length (log_history cs')"
  shows "RemoteEvent ev (int (length (log_history cs) + j)) \<in>
      set (deliverEvents decode agentName runID (int k) [quiet_turn False (Inr resp)] got) \<and>
    (\<exists>n m. payloads (deliverEvents decode agentName runID (int (length (log_history cs) + j)) ts got) =
       decoded decode (take m (drop (length (log_history cs) + j) (log_history (last (cs' # take n ss))))))"
proof -
  let ?h = "log_history cs"
  from pull_answer_ok [OF assms(1)] assms(2) have resp: "pr_Messages resp = drop k ?h"
    "pr_NextOffset resp = int (length ?h)" by simp_all
  have "RemoteEvent ev (int (length ?h) + int j) \<in>
      set (fst (deliver_batch decode False (int (length ?h)) (\<lambda>_. Taken) (drop k ?h)))"
    using assms(2,3) by (intro deliver_labels) auto
  moreover have "drop k ?h \<noteq> []" using assms(2) by simp
  moreover have "snd (deliver_batch decode False (int (length ?h)) (\<lambda>_. Taken) (drop k ?h))"
    by (rule deliver_all)
  ultimately have "RemoteEvent ev (int (length ?h + j)) \<in>
      set (deliverEvents decode agentName runID (int k) [quiet_turn False (Inr resp)] got)"
    by (auto simp: deliverEvents_def quiet_turn_def resp Let_def split: prod.splits bool.splits)
  moreover obtain evs r where l: "runPullLoop decode (int (length ?h + j)) 0 ts = (evs, r)" by fastforce
  from stream_session [OF assms(4) l assms(6,5,7)] obtain n m where
    "payloads evs = decoded decode (take (m - (length ?h + j)) (drop (length ?h + j) (log_history (last (cs' # take n ss)))))"
    by blast
  moreover have "payloads (deliverEvents decode agentName runID (int (length ?h + j)) ts got) = payloads evs"
    unfolding deliverEvents_def l by (auto simp: terminal_remote_def syntheticStreamCompleteEvent_def split: sum.split)
  ultimately show ?thesis by metis
qed

text \<open>Three messages are read in one pull, the client stops at the second and resumes at its offset: the
  third, and the first two of those published since, never come.\<close>

definition sample_decode :: event_decoder where
  "sample_decode m = (if m = '''' then None else Some (LoopEvent (StepStarted m)))"

definition three_messages :: "log_call list" where
  "three_messages = [PublishCall ''c'', PublishCall ''b'', PublishCall ''a'']"

definition six_messages :: "log_call list" where
  "six_messages = [PublishCall ''f'', PublishCall ''e'', PublishCall ''d''] @ three_messages"

lemma sample_logs:
  "log_history three_messages = [''a'', ''b'', ''c'']"
  "log_history six_messages = [''a'', ''b'', ''c'', ''d'', ''e'', ''f'']"
  "log_cleared three_messages = 0" "log_cleared six_messages = 0"
  "list_all real_call three_messages" "list_all real_call six_messages"
  by (simp_all add: three_messages_def six_messages_def)

theorem resume_loses_events_witness:
  "RemoteEvent (LoopEvent (StepStarted ''b'')) 4 \<in> set (deliverEvents sample_decode ''bot'' ''r'' 0
     [quiet_turn False (Inr \<lparr>pr_Messages = [''a'', ''b'', ''c''], pr_NextOffset = 3\<rparr>)] (Inr None)) \<and>
   (\<exists>m. payloads (deliverEvents sample_decode ''bot'' ''r'' 4
     [quiet_turn False (Inr \<lparr>pr_Messages = [''e'', ''f''], pr_NextOffset = 6\<rparr>)] (Inr None)) =
     decoded sample_decode (take m [''e'', ''f'']))"
proof -
  let ?r = "Inr \<lparr>pr_Messages = [''e'', ''f''], pr_NextOffset = 6\<rparr> :: go_error + pull_response"
  have a: "pull_answer three_messages (int 0) (Inr \<lparr>pr_Messages = [''a'', ''b'', ''c''], pr_NextOffset = 3\<rparr>)"
    using pull_all [of three_messages 0] by (simp add: sample_logs)
  have four: "length (log_history three_messages) + 1 = 4" by (simp add: sample_logs)
  have "pull_answer six_messages (int 4) ?r"
    using pull_all [of six_messages 4] by (simp add: sample_logs)
  then have f: "follows pull_answer log_later six_messages (int (length (log_history three_messages) + 1))
      (zip [six_messages] (map tn_answer [quiet_turn False ?r]))"
    unfolding four by (simp add: quiet_turn_def log_later_def)
  have hyps: "0 + 1 < length (log_history three_messages)"
    "sample_decode (log_history three_messages ! (0 + 1)) = Some (LoopEvent (StepStarted ''b''))"
    "\<forall>t \<in> set [quiet_turn False ?r]. undisturbed t" "length [six_messages] = length [quiet_turn False ?r]"
    "length (log_history three_messages) + 1 \<le> length (log_history six_messages)"
    by (simp_all add: sample_logs sample_decode_def)
  from resume_loses_events [where k = 0 and j = 1 and ts = "[quiet_turn False ?r]" and ss = "[six_messages]"
      and cs = three_messages and cs' = six_messages and decode = sample_decode
      and ev = "LoopEvent (StepStarted ''b'')"
      and resp = "\<lparr>pr_Messages = [''a'', ''b'', ''c''], pr_NextOffset = 3\<rparr>"
      and agentName = "''bot''" and runID = "''r''" and got = "Inr None", OF a hyps(1-4) f hyps(5)]
  obtain n m where *: "RemoteEvent (LoopEvent (StepStarted ''b'')) (int 4) \<in> set (deliverEvents sample_decode ''bot'' ''r'' (int 0)
      [quiet_turn False (Inr \<lparr>pr_Messages = [''a'', ''b'', ''c''], pr_NextOffset = 3\<rparr>)] (Inr None))"
    "payloads (deliverEvents sample_decode ''bot'' ''r'' (int 4) [quiet_turn False ?r] (Inr None)) =
      decoded sample_decode (take m (drop 4 (log_history (last (six_messages # take n [six_messages])))))"
    unfolding four by blast
  have "last (six_messages # take n [six_messages]) = six_messages" by (cases n) simp_all
  moreover have "drop 4 (log_history six_messages) = [''e'', ''f'']" by (simp add: sample_logs)
  ultimately show ?thesis using * by auto
qed


end
