(* ===== verification/Restate_Loop.thy ===== *)
theory Restate_Loop
  imports Agent_Facade
begin

text \<open>
  The agent loop of the Restate runtime, \<open>internal/runtime/restate/agent_loop.go\<close> and \<open>subagent.go\<close>: the
  handler of the \<open>AgentLoop\<close> service, the loop with its durable steps, tool calls one by one and in
  parallel, approvals by awakeables, the budget, delegation to other services, and the events.

  Restate itself is the record \<open>durable\<close>: \<open>restatesdk.Run\<close>, which runs a step by its options and
  journals the value; awakeables; calls of other services; timers. The model is one execution of the
  handler. What the code shares with the other runtimes (\<open>internal/runtime/base\<close>) is the same
  definitions as there. A publication of an event is recorded under \<open>service/topic\<close>, the address of
  the \<open>AgentEventLog\<close> object that it is sent to.
\<close>

section \<open>Durable steps\<close>

text \<open>A journaled value: one constructor per type at which the code runs a step.\<close>

datatype journal_value =
    JMessages "message list"
  | JMemory memory_result
  | JRetrieved retriever_result
  | JTime int
  | JString string
  | JLLM llm_result
  | JDecision ec_decision
  | JAuth authorize_result
  | JBool bool
  | JBreaker "cb_tools option"
  | JUnit

record run_options =
  opt_Name :: string
  opt_MaxRetryAttempts :: "int option"
  opt_InitialRetryInterval :: "int option"
  opt_MaxRetryInterval :: "int option"
  opt_RetryIntervalFactor :: "rat option"
  opt_MaxRetryDuration :: "int option"

text \<open>The factor is a \<open>float32\<close> there; the SDK's policies all have the coefficient 2.\<close>

definition policyToRunOpts :: "string \<Rightarrow> execution_policy \<Rightarrow> run_options" where
  "policyToRunOpts name policy =
    \<lparr>opt_Name = name,
     opt_MaxRetryAttempts = (if pol_MaxAttempts policy > 0 then Some (pol_MaxAttempts policy) else None),
     opt_InitialRetryInterval = (if InitialInterval (pol_Retry policy) > 0
       then Some (InitialInterval (pol_Retry policy)) else None),
     opt_MaxRetryInterval = (if MaximumInterval (pol_Retry policy) > 0
       then Some (MaximumInterval (pol_Retry policy)) else None),
     opt_RetryIntervalFactor = (if BackoffCoefficient (pol_Retry policy) > 0
       then Some (BackoffCoefficient (pol_Retry policy)) else None),
     opt_MaxRetryDuration = (if pol_Timeout policy > 0 \<and> pol_MaxAttempts policy > 0
       then Some (int64 (pol_MaxAttempts policy * pol_Timeout policy)) else None)\<rparr>"

text \<open>The policy \<open>ExecutionPolicy{MaxAttempts: 1}\<close>.\<close>

definition once :: execution_policy where
  "once = \<lparr>pol_Timeout = 0, pol_MaxAttempts = 1,
     pol_Retry = \<lparr>InitialInterval = 0, BackoffCoefficient = 0, MaximumInterval = 0\<rparr>\<rparr>"

section \<open>What Restate provides\<close>

datatype restate_route = RestateRoute (sr_Name: string) (sr_ToolName: string)
  (sr_ServiceName: string) (sr_ChildRoutes: "(string \<times> restate_route) list")

record agent_loop_core =
  ac_RunID :: string
  ac_UserPrompt :: string
  ac_ConversationID :: string
  ac_EventTopic :: string
  ac_EventLogService :: string
  ac_EventTypes :: "string list"
  ac_MaxSubAgentDepth :: int
  ac_SubAgentDepth :: int
  ac_SubAgentRoutes :: "(string \<times> restate_route) list"
  ac_MemoryScope :: memory_scope

record agent_loop_request =
  aq_core :: agent_loop_core
  aq_AgentName :: string
  aq_LLMStreamEnabled :: bool
  aq_StreamHandler :: bool

text \<open>A response; \<open>None\<close> is the nil pointer, for the response and for its result.\<close>

type_synonym agent_loop_response = "agent_run_result option option"

text \<open>How \<open>WaitFirst\<close> on an awakeable and a timer ends, and on a call and a timer; the call's
  invocation has an identifier.\<close>

datatype wait_first =
    WaitErr go_error
  | TimerFirst "go_error option"
  | AwakeFirst "go_error + string"

datatype call_first =
    CallWaitErr go_error
  | CallTimer "go_error option" string
  | CallFirst "go_error + agent_loop_response"

record 'w durable =
  ds_run :: "run_options \<Rightarrow> ('w, go_error + journal_value) io \<Rightarrow> ('w, go_error + journal_value) io"
  ds_decodeError :: "journal_value \<Rightarrow> go_error"
  ds_awakeable :: "('w, string) state"
  ds_wait :: "string \<Rightarrow> int \<Rightarrow> ('w, wait_first) state"
  ds_request :: "string \<Rightarrow> string \<Rightarrow> agent_loop_request \<Rightarrow> ('w, go_error + agent_loop_response) state"
  ds_requestFuture :: "string \<Rightarrow> string \<Rightarrow> agent_loop_request \<Rightarrow> int \<Rightarrow> ('w, call_first) state"
  ds_cancelInvocation :: "string \<Rightarrow> ('w, unit) state"
  ds_sleep :: "int \<Rightarrow> ('w, go_error option) state"
  ds_sendClear :: "string \<Rightarrow> string \<Rightarrow> int \<Rightarrow> ('w, unit) state"
  ds_isTerminal :: "go_error \<Rightarrow> bool"
  ds_toTerminal :: "go_error \<Rightarrow> go_error"

text \<open>A step at the type \<open>'a\<close>, by its encoding as a journaled value; a step run asynchronously gives its
  error as it is, a named step puts its name before it.\<close>

type_synonym 'a journal_type = "('a \<Rightarrow> journal_value) \<times> (journal_value \<Rightarrow> 'a option)"

definition runAsync :: "'w durable \<Rightarrow> 'a journal_type \<Rightarrow> run_options \<Rightarrow> ('w, go_error + 'a) io \<Rightarrow>
    ('w, go_error + 'a) io" where
  "runAsync d ty opts op = do {
     r \<leftarrow> ds_run d opts (do { x \<leftarrow> op; State_Monad.return (map_sum id (fst ty) x) });
     State_Monad.return (case r of
         Inl err \<Rightarrow> Inl err
       | Inr v \<Rightarrow> (case snd ty v of Some a \<Rightarrow> Inr a | None \<Rightarrow> Inl (ds_decodeError d v))) }"

definition step_with :: "'w durable \<Rightarrow> 'a journal_type \<Rightarrow> string \<Rightarrow> execution_policy \<Rightarrow>
    ('w, go_error + 'a) io \<Rightarrow> ('w, go_error + 'a) io" where
  "step_with d ty name policy op = do {
     r \<leftarrow> runAsync d ty (policyToRunOpts name policy) op;
     State_Monad.return (case r of Inl err \<Rightarrow> Inl (ErrWrap (name @ '': '') err '''') | Inr a \<Rightarrow> Inr a) }"

definition as_messages :: "message list journal_type" where
  "as_messages = (JMessages, \<lambda>v. case v of JMessages x \<Rightarrow> Some x | _ \<Rightarrow> None)"
definition as_memory :: "memory_result journal_type" where
  "as_memory = (JMemory, \<lambda>v. case v of JMemory x \<Rightarrow> Some x | _ \<Rightarrow> None)"
definition as_retrieved :: "retriever_result journal_type" where
  "as_retrieved = (JRetrieved, \<lambda>v. case v of JRetrieved x \<Rightarrow> Some x | _ \<Rightarrow> None)"
definition as_time :: "int journal_type" where
  "as_time = (JTime, \<lambda>v. case v of JTime x \<Rightarrow> Some x | _ \<Rightarrow> None)"
definition as_string :: "string journal_type" where
  "as_string = (JString, \<lambda>v. case v of JString x \<Rightarrow> Some x | _ \<Rightarrow> None)"
definition as_llm :: "llm_result journal_type" where
  "as_llm = (JLLM, \<lambda>v. case v of JLLM x \<Rightarrow> Some x | _ \<Rightarrow> None)"
definition as_decision :: "ec_decision journal_type" where
  "as_decision = (JDecision, \<lambda>v. case v of JDecision x \<Rightarrow> Some x | _ \<Rightarrow> None)"
definition as_auth :: "authorize_result journal_type" where
  "as_auth = (JAuth, \<lambda>v. case v of JAuth x \<Rightarrow> Some x | _ \<Rightarrow> None)"
definition as_bool :: "bool journal_type" where
  "as_bool = (JBool, \<lambda>v. case v of JBool x \<Rightarrow> Some x | _ \<Rightarrow> None)"
definition as_breaker :: "cb_tools option journal_type" where
  "as_breaker = (JBreaker, \<lambda>v. case v of JBreaker x \<Rightarrow> Some x | _ \<Rightarrow> None)"
definition as_unit :: "unit journal_type" where
  "as_unit = ((\<lambda>_. JUnit), \<lambda>v. case v of JUnit \<Rightarrow> Some () | _ \<Rightarrow> None)"

lemmas journal_types = as_messages_def as_memory_def as_retrieved_def as_time_def as_string_def as_llm_def
  as_decision_def as_auth_def as_bool_def as_breaker_def as_unit_def

text \<open>The wrapper for steps that return only an error.\<close>

definition step_err :: "'w durable \<Rightarrow> string \<Rightarrow> execution_policy \<Rightarrow> ('w, go_error option) io \<Rightarrow>
    ('w, go_error option) io" where
  "step_err d name policy op = do {
     r \<leftarrow> step_with d as_unit name policy (do {
       e \<leftarrow> op;
       State_Monad.return (case e of None \<Rightarrow> Inr () | Some err \<Rightarrow> Inl err) });
     State_Monad.return (case r of Inl err \<Rightarrow> Some err | Inr _ \<Rightarrow> None) }"

text \<open>An operation that reads the outside, such as the clock or the generator of UUIDs.\<close>

definition fresh :: "('w, 'a) state \<Rightarrow> ('w, go_error + 'a) io" where
  "fresh m = do { x \<leftarrow> ext m; State_Monad.return (Inr x) }"

section \<open>The runtime and a run's input\<close>

record 'w restate_runtime =
  rx_base :: "'w runtime"
  rx_hasApprovalHandler :: bool
  rx_agentLoopServiceName :: string
  rx_eventLogServiceName :: string
  rx_hasIngress :: bool
  rx_DisableClear :: bool
  rx_TTL :: int
  rx_resolver :: "('w, go_error + 'w tool list) state option"

record 'w restate_input =
  ri_core :: agent_loop_core
  ri_StreamingEnabled :: bool
  ri_IsStreamHandler :: bool
  ri_Tools :: "'w tool list"
  ri_circuitBreaker :: "nat option"
  ri_circuitNow :: int

definition agentLoopRunHandler :: string where "agentLoopRunHandler = ''Run''"
definition agentLoopStreamHandler :: string where "agentLoopStreamHandler = ''Stream''"

definition msgToolApprovalTimedOut :: string where
  "msgToolApprovalTimedOut = ''Tool approval timed out; continuing without running the tool.''"

section \<open>Events\<close>

text \<open>The topic and the service of a run: its own ones unless they are inherited from a parent.\<close>

definition run_address :: "'w restate_runtime \<Rightarrow> agent_loop_core \<Rightarrow> string \<times> string" where
  "run_address rx c =
    (if TrimSpace (ac_EventLogService c) = '''' then rx_eventLogServiceName rx else TrimSpace (ac_EventLogService c),
     if TrimSpace (ac_EventTopic c) = '''' then ac_RunID c else TrimSpace (ac_EventTopic c))"

definition event_object :: "'w restate_runtime \<Rightarrow> string \<times> string \<Rightarrow> string" where
  "event_object rx a =
    (if TrimSpace (fst a) = '''' then rx_eventLogServiceName rx else TrimSpace (fst a)) @ ''/'' @ snd a"

definition emitEvent_rs :: "'w restate_runtime \<Rightarrow> string \<times> string \<Rightarrow> string list \<Rightarrow> agent_event \<Rightarrow> ('w, unit) io" where
  "emitEvent_rs rx a eventTypes ev =
    (if \<not> event_allowed eventTypes ev \<or> TrimSpace (snd a) = '''' then State_Monad.return ()
     else emit_to (event_object rx a) ev)"

definition emitEventIngress :: "'w restate_runtime \<Rightarrow> string \<times> string \<Rightarrow> string list \<Rightarrow> agent_event \<Rightarrow>
    ('w, unit) io" where
  "emitEventIngress rx a eventTypes ev =
    (if \<not> rx_hasIngress rx \<or> \<not> event_allowed eventTypes ev \<or> TrimSpace (snd a) = '''' then State_Monad.return ()
     else emit_to (event_object rx a) ev)"

text \<open>The loop's \<open>emit\<close>.\<close>

definition emit_rs :: "'w restate_runtime \<Rightarrow> 'w restate_input \<Rightarrow> agent_event \<Rightarrow> ('w, unit) io" where
  "emit_rs rx input = emitEvent_rs rx (run_address rx (ri_core input)) (ac_EventTypes (ri_core input))"

definition emitToolComplete :: "'w restate_runtime \<Rightarrow> 'w restate_input \<Rightarrow> string \<Rightarrow> string \<Rightarrow> string \<Rightarrow>
    ('w, unit) io" where
  "emitToolComplete rx input messageID toolCallID content = do {
     emit_rs rx input (ToolCallEnd toolCallID);
     emit_rs rx input (ToolCallResult messageID toolCallID content RoleTool) }"

definition announce_call :: "'w env \<Rightarrow> 'w restate_runtime \<Rightarrow> 'w restate_input \<Rightarrow> string \<Rightarrow> tool_call_request \<Rightarrow>
    ('w, unit) io" where
  "announce_call env rx input messageID tc = do {
     emit_rs rx input (ToolCallStart (tr_ToolCallID tc) (tr_ToolName tc) messageID);
     (case en_marshal env (case tr_Args tc of None \<Rightarrow> ANil | Some xs \<Rightarrow> AObj xs) of
       None \<Rightarrow> State_Monad.return ()
     | Some s \<Rightarrow> if s \<noteq> '''' \<and> s \<noteq> ''null'' \<and> s \<noteq> ''{}''
         then emit_rs rx input (ToolCallArgs (tr_ToolCallID tc) s) else State_Monad.return ()) }"

section \<open>Timeouts and policies\<close>

definition approvalTaskTimeout_rs :: "'w restate_runtime \<Rightarrow> int" where
  "approvalTaskTimeout_rs rx = (let timeout = rt_ApprovalTimeout (rx_base rx)
     in if timeout \<le> 0 \<or> timeout > MaxApprovalTimeout then MaxApprovalTimeout else timeout)"

definition executionPolicies_rs :: "'w restate_runtime \<Rightarrow> execution_policies" where
  "executionPolicies_rs rx = ResolveExecutionPolicies (rt_ExecutionConfigs (rx_base rx))"

definition toolExecutionPolicy_rs :: "string \<Rightarrow> execution_policies \<Rightarrow> execution_policy" where
  "toolExecutionPolicy_rs kind policies =
    (if kind = ToolKindMCP then pol_MCP policies
     else if kind = ToolKindA2A then pol_A2A policies
     else pol_ToolExecute policies)"

definition subAgentExecutionPolicy_rs :: "'w restate_runtime \<Rightarrow> execution_policy" where
  "subAgentExecutionPolicy_rs rx = (let policy = pol_SubAgent (executionPolicies_rs rx)
     in if pol_Timeout policy = 0 \<and> rt_Timeout (rx_base rx) > 0
        then policy\<lparr>pol_Timeout := rt_Timeout (rx_base rx)\<rparr> else policy)"

section \<open>Sub-agents\<close>

text \<open>A spec: its name, the name of its tool, the service of its runtime (\<open>None\<close> if that is not a Restate
  runtime), its children; a nil spec is \<open>None\<close>.\<close>

datatype restate_spec = RestateSpec (rp_Name: string) (rp_ToolName: string) (rp_Service: "string option")
  (rp_Children: "restate_spec option list")

fun buildSubAgentRoutes_rs :: "restate_spec option list \<Rightarrow> (string \<times> restate_route) list" where
  "buildSubAgentRoutes_rs [] = []"
| "buildSubAgentRoutes_rs (None # specs) = buildSubAgentRoutes_rs specs"
| "buildSubAgentRoutes_rs (Some (RestateSpec n tn service children) # specs) =
    (case service of None \<Rightarrow> buildSubAgentRoutes_rs specs
     | Some svc \<Rightarrow>
         if TrimSpace n = '''' \<or> map_of (buildSubAgentRoutes_rs specs) tn \<noteq> None
         then buildSubAgentRoutes_rs specs
         else (tn, RestateRoute (TrimSpace n) tn svc (buildSubAgentRoutes_rs children))
           # buildSubAgentRoutes_rs specs)"

definition invokeSubAgentHandler :: "'w durable \<Rightarrow> string \<Rightarrow> string \<Rightarrow> agent_loop_request \<Rightarrow> int \<Rightarrow>
    ('w, go_error + agent_loop_response) io" where
  "invokeSubAgentHandler d serviceName handler childReq timeout =
    (if timeout \<le> 0 then ext (ds_request d serviceName handler childReq)
     else do {
       first \<leftarrow> ext (ds_requestFuture d serviceName handler childReq timeout);
       (case first of
          CallWaitErr err \<Rightarrow> State_Monad.return (Inl err)
        | CallTimer (Some err) i \<Rightarrow> State_Monad.return (Inl err)
        | CallTimer None i \<Rightarrow> do {
            (if i \<noteq> '''' then ext (ds_cancelInvocation d i) else State_Monad.return ());
            State_Monad.return (Inl (ErrNew (''sub-agent timed out after '' @ duration_str timeout))) }
        | CallFirst r \<Rightarrow> State_Monad.return r) })"

definition delegation_name_rs :: "restate_route \<Rightarrow> tool_call_request \<Rightarrow> string" where
  "delegation_name_rs route tc =
    (if TrimSpace (sr_Name route) = '''' then tr_ToolName tc else TrimSpace (sr_Name route))"

definition child_request :: "'w restate_runtime \<Rightarrow> 'w restate_input \<Rightarrow> restate_route \<Rightarrow> tool_call_request \<Rightarrow>
    string \<Rightarrow> agent_loop_request" where
  "child_request rx input route tc childRunID = (let c = ri_core input in
    \<lparr>aq_core = \<lparr>ac_RunID = childRunID, ac_UserPrompt = SubAgentQuery (tr_Args tc), ac_ConversationID = '''',
       ac_EventTopic = (if TrimSpace (ac_EventTopic c) = '''' then ac_RunID c else TrimSpace (ac_EventTopic c)),
       ac_EventLogService = (if TrimSpace (ac_EventLogService c) = '''' then TrimSpace (rx_eventLogServiceName rx)
         else TrimSpace (ac_EventLogService c)),
       ac_EventTypes = ac_EventTypes c, ac_MaxSubAgentDepth = ac_MaxSubAgentDepth c,
       ac_SubAgentDepth = ac_SubAgentDepth c + 1, ac_SubAgentRoutes = sr_ChildRoutes route,
       ac_MemoryScope = SubAgentScope (ac_MemoryScope c) (delegation_name_rs route tc)\<rparr>,
     aq_AgentName = delegation_name_rs route tc, aq_LLMStreamEnabled = ri_StreamingEnabled input,
     aq_StreamHandler = ri_IsStreamHandler input\<rparr>)"

definition next_backoff_rs :: "retry_policy \<Rightarrow> int \<Rightarrow> int" where
  "next_backoff_rs r backoff =
    (let next = int64_of_float (trunc_rat (fl64 (fl64 (of_int backoff) * BackoffCoefficient r)))
     in if MaximumInterval r > 0 \<and> next > MaximumInterval r then MaximumInterval r
        else if next > 0 then next else backoff)"

definition response_text :: "agent_loop_response \<Rightarrow> string \<times> llm_usage option" where
  "response_text resp = (case resp of Some (Some r) \<Rightarrow> (rz_Content r, rz_LLMUsage r) | _ \<Rightarrow> ('''', None))"

text \<open>\<open>delegate_attempts \<dots> n k b\<close>: attempt \<open>k\<close> and at most \<open>n\<close> more, the next after a wait of \<open>b\<close>.\<close>

fun delegate_attempts :: "'w durable \<Rightarrow> 'w env \<Rightarrow> 'w restate_runtime \<Rightarrow> 'w restate_input \<Rightarrow> restate_route \<Rightarrow>
    tool_call_request \<Rightarrow> nat \<Rightarrow> nat \<Rightarrow> int \<Rightarrow> ('w, go_error + string \<times> llm_usage option) io" where
  "delegate_attempts d env rx input route tc left k backoff = do {
     runID \<leftarrow> step_with d as_string (''subagent-run-id-'' @ tr_ToolCallID tc @ ''-'' @ nat_str k) once (fresh (en_uuid env));
     (case runID of
        Inl idErr \<Rightarrow> State_Monad.return (Inl idErr)
      | Inr childRunID \<Rightarrow> do {
          r \<leftarrow> invokeSubAgentHandler d (TrimSpace (sr_ServiceName route))
                 (if ri_IsStreamHandler input then agentLoopStreamHandler else agentLoopRunHandler)
                 (child_request rx input route tc childRunID) (pol_Timeout (subAgentExecutionPolicy_rs rx));
          (case r of
             Inr resp \<Rightarrow> State_Monad.return (Inr (response_text resp))
           | Inl err \<Rightarrow> (case left of
               0 \<Rightarrow> State_Monad.return (Inr (''Sub-agent execution failed: '' @ error_str err, None))
             | Suc m \<Rightarrow>
                 if backoff > 0 then do {
                   slept \<leftarrow> ext (ds_sleep d backoff);
                   (case slept of
                      Some sleepErr \<Rightarrow>
                        State_Monad.return (Inr (''Sub-agent execution failed: '' @ error_str sleepErr, None))
                    | None \<Rightarrow> delegate_attempts d env rx input route tc m (k + 1)
                        (next_backoff_rs (pol_Retry (subAgentExecutionPolicy_rs rx)) backoff)) }
                 else delegate_attempts d env rx input route tc m (k + 1) backoff)) }) }"

declare delegate_attempts.simps [simp del]

definition delegateToSubAgent :: "'w durable \<Rightarrow> 'w env \<Rightarrow> 'w restate_runtime \<Rightarrow> 'w restate_input \<Rightarrow> tool_call_request \<Rightarrow>
    restate_route \<Rightarrow> ('w, go_error + string \<times> llm_usage option) io" where
  "delegateToSubAgent d env rx input tc route =
    (if TrimSpace (sr_ServiceName route) = '''' then
       State_Monad.return (Inr (''Sub-agent delegation failed: sub-agent AgentLoop service is not configured.'', None))
     else if ac_SubAgentDepth (ri_core input) \<ge> ac_MaxSubAgentDepth (ri_core input) then
       State_Monad.return (Inr (''Sub-agent delegation refused: maximum nesting depth (''
         @ itoa (ac_MaxSubAgentDepth (ri_core input)) @ '') reached.'', None))
     else do {
       emit_rs rx input (StepStarted (delegation_name_rs route tc));
       r \<leftarrow> delegate_attempts d env rx input route tc (policy_attempts (subAgentExecutionPolicy_rs rx) - 1) 1
              (InitialInterval (pol_Retry (subAgentExecutionPolicy_rs rx)));
       emit_rs rx input (StepFinished (delegation_name_rs route tc));
       State_Monad.return r })"

section \<open>Approvals\<close>

definition sub_route :: "'w restate_input \<Rightarrow> tool_call_request \<Rightarrow> restate_route option" where
  "sub_route input tc = map_of (ac_SubAgentRoutes (ri_core input)) (tr_ToolName tc)"

definition emitApprovalRequest :: "'w durable \<Rightarrow> 'w restate_runtime \<Rightarrow> 'w restate_input \<Rightarrow> tool_call_request \<Rightarrow>
    ('w, string) io" where
  "emitApprovalRequest d rx input tc = do {
     token \<leftarrow> ext (ds_awakeable d);
     emit_rs rx input (if sub_route input tc \<noteq> None
       then CustomEvent CustomNameSubAgentDelegation
         (DelegationValue (rt_Name (rx_base rx)) (tr_ToolDisplayName tc) (tr_Args tc) token)
       else CustomEvent CustomNameToolApproval
         (ToolApprovalValue (rt_Name (rx_base rx)) (tr_ToolCallID tc) (tr_ToolName tc) (tr_ToolDisplayName tc)
           (tr_Args tc) token));
     State_Monad.return token }"

definition approval_of_wait :: "wait_first \<Rightarrow> go_error + string" where
  "approval_of_wait w = (case w of
      WaitErr err \<Rightarrow> Inl err
    | TimerFirst (Some err) \<Rightarrow> Inl err
    | TimerFirst None \<Rightarrow> Inr ApprovalTimedOut
    | AwakeFirst r \<Rightarrow> r)"

definition awaitApproval :: "'w durable \<Rightarrow> 'w restate_runtime \<Rightarrow> 'w restate_input \<Rightarrow> tool_call_request \<Rightarrow>
    ('w, go_error + string) io" where
  "awaitApproval d rx input tc = do {
     token \<leftarrow> emitApprovalRequest d rx input tc;
     w \<leftarrow> ext (ds_wait d token (approvalTaskTimeout_rs rx));
     State_Monad.return (approval_of_wait w) }"

text \<open>Whether nobody could answer: a run without a stream needs an approval handler.\<close>

definition no_approver :: "'w restate_runtime \<Rightarrow> 'w restate_input \<Rightarrow> bool" where
  "no_approver rx input \<longleftrightarrow> \<not> ri_IsStreamHandler input \<and> \<not> rx_hasApprovalHandler rx"

section \<open>One tool call\<close>

record restate_result = tool_result +
  to_llmUsage :: "llm_usage option"

definition call_result :: "tool_call_request \<Rightarrow> string \<Rightarrow> bool \<Rightarrow> llm_usage option \<Rightarrow> restate_result" where
  "call_result tc content failed usage =
    \<lparr>to_message = tool_message tc content, to_failed = failed, to_llmUsage = usage\<rparr>"

definition finish_call_rs :: "'w restate_runtime \<Rightarrow> 'w restate_input \<Rightarrow> string \<Rightarrow> tool_call_request \<Rightarrow> string \<Rightarrow>
    bool \<Rightarrow> llm_usage option \<Rightarrow> ('w, go_error + restate_result) io" where
  "finish_call_rs rx input messageID tc content failed usage = do {
     emitToolComplete rx input messageID (tr_ToolCallID tc) content;
     State_Monad.return (Inr (call_result tc content failed usage)) }"

definition check_tripped_rs :: "'w restate_input \<Rightarrow> tool_call_request \<Rightarrow> ('w, bool) io" where
  "check_tripped_rs input tc =
    (if ri_circuitBreaker input \<noteq> None \<and> CountsTowardCircuitBreaker (tr_Unknown tc) (tr_ToolKind tc)
     then do {
       c \<leftarrow> read_breaker (ri_circuitBreaker input);
       (case IsTripped c (tr_ToolName tc) (Some (ri_circuitNow input)) of (tripped, c') \<Rightarrow> do {
          write_breaker (ri_circuitBreaker input) c';
          State_Monad.return tripped }) }
     else State_Monad.return False)"

definition execute_input :: "'w restate_input \<Rightarrow> int \<Rightarrow> tool_call_request \<Rightarrow> 'w execute_tool_input" where
  "execute_input input iteration tc =
    \<lparr>xt_Tools = ri_Tools input, xt_ToolName = tr_ToolName tc, xt_Args = tr_Args tc,
     xt_ToolCallID = tr_ToolCallID tc, xt_RunID = ac_RunID (ri_core input), xt_Iteration = iteration\<rparr>"

text \<open>What follows the approval.\<close>

definition dispatch_rs :: "'w durable \<Rightarrow> 'w env \<Rightarrow> 'w restate_runtime \<Rightarrow> 'w restate_input \<Rightarrow> string \<Rightarrow> int \<Rightarrow>
    execution_policies \<Rightarrow> tool_call_request \<Rightarrow> string \<Rightarrow> ('w, go_error + restate_result) io" where
  "dispatch_rs d env rx input messageID iteration policies tc status =
    (if status = ApprovalApproved then
       (case sub_route input tc of
          Some route \<Rightarrow> do {
            r \<leftarrow> delegateToSubAgent d env rx input tc route;
            (case r of
               Inl err \<Rightarrow> State_Monad.return (Inl err)
             | Inr (content, usage) \<Rightarrow> finish_call_rs rx input messageID tc content False usage) }
        | None \<Rightarrow> do {
            r \<leftarrow> step_with d as_string (''tool-exec-'' @ tr_ToolCallID tc)
                   (toolExecutionPolicy_rs (tr_ToolKind tc) policies)
                   (ExecuteTool env (rx_base rx) (execute_input input iteration tc) (ac_MemoryScope (ri_core input)));
            (case r of
               Inl err \<Rightarrow> finish_call_rs rx input messageID tc (''Tool execution failed: '' @ error_str err) True None
             | Inr content \<Rightarrow> finish_call_rs rx input messageID tc content False None) })
     else if status = ApprovalRejected then finish_call_rs rx input messageID tc msgToolRejected False None
     else if status = ApprovalUnavailable then
       finish_call_rs rx input messageID tc msgToolApprovalUnavailable False None
     else if status = ApprovalTimedOut then
       finish_call_rs rx input messageID tc msgToolApprovalTimedOut False None
     else State_Monad.return (Inl (ErrNew (''unexpected approval status '' @ Quote status @ '' for tool ''
       @ Quote (tr_ToolName tc)))))"

definition authorized_rs :: "'w durable \<Rightarrow> 'w env \<Rightarrow> 'w restate_runtime \<Rightarrow> 'w restate_input \<Rightarrow> string \<Rightarrow> int \<Rightarrow>
    execution_policies \<Rightarrow> tool_call_request \<Rightarrow> ('w, go_error + restate_result) io" where
  "authorized_rs d env rx input messageID iteration policies tc = do {
     auth \<leftarrow> step_with d as_auth (''tool-auth-'' @ tr_ToolCallID tc) (pol_ToolAuth policies)
               (AuthorizeTool (ri_Tools input) (tr_ToolName tc) (tr_Args tc));
     (case auth of
        Inl err \<Rightarrow> State_Monad.return (Inl (ErrWrap (''tool authorization error for '' @ Quote (tr_ToolName tc)
            @ '': '') err ''''))
      | Inr a \<Rightarrow>
          if \<not> ar_Allowed a then finish_call_rs rx input messageID tc (denial_content a) False None
          else do {
            status \<leftarrow> (if \<not> tr_NeedsApproval tc then State_Monad.return (Inr ApprovalApproved)
                      else if no_approver rx input then State_Monad.return (Inr ApprovalUnavailable)
                      else awaitApproval d rx input tc);
            (case status of
               Inl err \<Rightarrow> State_Monad.return (Inl err)
             | Inr st \<Rightarrow> dispatch_rs d env rx input messageID iteration policies tc st) }) }"

definition executeSingleTool_rs :: "'w durable \<Rightarrow> 'w env \<Rightarrow> 'w restate_runtime \<Rightarrow> 'w restate_input \<Rightarrow> string \<Rightarrow> int \<Rightarrow>
    execution_policies \<Rightarrow> tool_call_request \<Rightarrow> ('w, go_error + restate_result) io" where
  "executeSingleTool_rs d env rx input messageID iteration policies tc = do {
     announce_call env rx input messageID tc;
     (if IsUnknownTool tc (ri_Tools input) then do {
        (if tr_Unknown tc then State_Monad.return () else NoteUnknownTool (tr_ToolName tc));
        finish_call_rs rx input messageID tc (UnknownToolMessage (tr_ToolName tc)) False None }
      else do {
        tripped \<leftarrow> check_tripped_rs input tc;
        (if tripped then do {
           NoteCircuitSkip (tr_ToolName tc);
           finish_call_rs rx input messageID tc (CircuitBreakerSkippedMessage (tr_ToolName tc)) False None }
         else authorized_rs d env rx input messageID iteration policies tc) }) }"

definition settle_rs :: "'w durable \<Rightarrow> 'w env \<Rightarrow> 'w restate_runtime \<Rightarrow> 'w restate_input \<Rightarrow> string \<Rightarrow> int \<Rightarrow>
    execution_policies \<Rightarrow> tool_call_request \<Rightarrow> ('w, restate_result) io" where
  "settle_rs d env rx input messageID iteration policies tc = do {
     r \<leftarrow> executeSingleTool_rs d env rx input messageID iteration policies tc;
     State_Monad.return (case r of
         Inl err \<Rightarrow> call_result tc (''Tool execution failed: '' @ error_str err) True None
       | Inr result \<Rightarrow> result) }"

definition executeToolsSequential_rs :: "'w durable \<Rightarrow> 'w env \<Rightarrow> 'w restate_runtime \<Rightarrow> 'w restate_input \<Rightarrow> string \<Rightarrow>
    int \<Rightarrow> execution_policies \<Rightarrow> tool_call_request list \<Rightarrow> ('w, restate_result list) io" where
  "executeToolsSequential_rs d env rx input messageID iteration policies toolCalls =
     mapM (settle_rs d env rx input messageID iteration policies) toolCalls"

section \<open>Parallel tool calls\<close>

text \<open>\<open>states\<close> and \<open>results\<close>: the calls with their approval and whether they are done, and the results
  written so far.\<close>

record call_state =
  ts_tc :: tool_call_request
  ts_approval :: string
  ts_done :: bool

record batch_state =
  bs_states :: "call_state list"
  bs_results :: "restate_result list"

abbreviation call_at :: "batch_state \<Rightarrow> nat \<Rightarrow> tool_call_request" where
  "call_at b i \<equiv> ts_tc (bs_states b ! i)"

abbreviation done_at :: "batch_state \<Rightarrow> nat \<Rightarrow> bool" where
  "done_at b i \<equiv> ts_done (bs_states b ! i)"

definition empty_result :: restate_result where
  "empty_result = \<lparr>to_message = mk_message '''' '''', to_failed = False, to_llmUsage = None\<rparr>"

definition batch_start :: "tool_call_request list \<Rightarrow> batch_state" where
  "batch_start toolCalls =
    \<lparr>bs_states = map (\<lambda>tc. \<lparr>ts_tc = tc, ts_approval = ApprovalApproved, ts_done = False\<rparr>) toolCalls,
     bs_results = map (\<lambda>_. empty_result) toolCalls\<rparr>"

definition put_result :: "nat \<Rightarrow> string \<Rightarrow> bool \<Rightarrow> llm_usage option \<Rightarrow> batch_state \<Rightarrow> batch_state" where
  "put_result i content failed usage b =
    b\<lparr>bs_results := (bs_results b)[i := call_result (call_at b i) content failed usage],
      bs_states := (bs_states b)[i := (bs_states b ! i)\<lparr>ts_done := True\<rparr>]\<rparr>"

definition set_approval :: "nat \<Rightarrow> string \<Rightarrow> batch_state \<Rightarrow> batch_state" where
  "set_approval i status b = b\<lparr>bs_states := (bs_states b)[i := (bs_states b ! i)\<lparr>ts_approval := status\<rparr>]\<rparr>"

text \<open>\<open>writeResult\<close>; the usage is that of a sub-agent, which is set right after it.\<close>

definition writeResult :: "'w restate_runtime \<Rightarrow> 'w restate_input \<Rightarrow> string \<Rightarrow> nat \<Rightarrow> string \<Rightarrow> bool \<Rightarrow>
    llm_usage option \<Rightarrow> batch_state \<Rightarrow> ('w, batch_state) io" where
  "writeResult rx input messageID i content failed usage b = do {
     emitToolComplete rx input messageID (tr_ToolCallID (call_at b i)) content;
     State_Monad.return (put_result i content failed usage b) }"

abbreviation write_failed :: "'w restate_runtime \<Rightarrow> 'w restate_input \<Rightarrow> string \<Rightarrow> nat \<Rightarrow> go_error \<Rightarrow> batch_state \<Rightarrow>
    ('w, batch_state) io" where
  "write_failed rx input messageID i err \<equiv>
     writeResult rx input messageID i (''Tool execution failed: '' @ error_str err) True None"

definition unknown_call :: "'w restate_runtime \<Rightarrow> 'w restate_input \<Rightarrow> string \<Rightarrow> batch_state \<Rightarrow> nat \<Rightarrow>
    ('w, batch_state) io" where
  "unknown_call rx input messageID b i =
    (if \<not> IsUnknownTool (call_at b i) (ri_Tools input) then State_Monad.return b
     else do {
       (if tr_Unknown (call_at b i) then State_Monad.return () else NoteUnknownTool (tr_ToolName (call_at b i)));
       writeResult rx input messageID i (UnknownToolMessage (tr_ToolName (call_at b i))) False None b })"

definition tripped_call :: "'w restate_runtime \<Rightarrow> 'w restate_input \<Rightarrow> string \<Rightarrow> batch_state \<Rightarrow> nat \<Rightarrow>
    ('w, batch_state) io" where
  "tripped_call rx input messageID b i =
    (if done_at b i then State_Monad.return b
     else do {
       tripped \<leftarrow> check_tripped_rs input (call_at b i);
       (if \<not> tripped then State_Monad.return b
        else do {
          NoteCircuitSkip (tr_ToolName (call_at b i));
          writeResult rx input messageID i (CircuitBreakerSkippedMessage (tr_ToolName (call_at b i))) False None b }) })"

text \<open>The indices that are not done, and the futures of a group of them, run in the order of the
  scheduler.\<close>

definition open_calls :: "batch_state \<Rightarrow> nat list" where
  "open_calls b = filter (\<lambda>i. \<not> done_at b i) [0..<length (bs_states b)]"

definition authorize_calls :: "'w durable \<Rightarrow> 'w env \<Rightarrow> 'w restate_input \<Rightarrow> execution_policies \<Rightarrow> batch_state \<Rightarrow>
    ('w, (go_error + authorize_result) list) io" where
  "authorize_calls d env input policies b =
     run_batch env (\<lambda>_ i. runAsync d as_auth
       (policyToRunOpts (''tool-auth-'' @ tr_ToolCallID (call_at b i)) (pol_ToolAuth policies))
       (AuthorizeTool (ri_Tools input) (tr_ToolName (call_at b i)) (tr_Args (call_at b i)))) (open_calls b)"

definition collect_auth :: "'w restate_runtime \<Rightarrow> 'w restate_input \<Rightarrow> string \<Rightarrow> batch_state \<Rightarrow>
    nat \<times> (go_error + authorize_result) \<Rightarrow> ('w, batch_state) io" where
  "collect_auth rx input messageID b ir = (case ir of (i, r) \<Rightarrow> (case r of
      Inl err \<Rightarrow> write_failed rx input messageID i err b
    | Inr a \<Rightarrow> if ar_Allowed a then State_Monad.return b
        else writeResult rx input messageID i (denial_content a) False None b))"

text \<open>The approvals: all are requested, then the answers are awaited one after the other.\<close>

definition request_approval :: "'w durable \<Rightarrow> 'w restate_runtime \<Rightarrow> 'w restate_input \<Rightarrow>
    batch_state \<times> (nat \<times> string) list \<Rightarrow> nat \<Rightarrow> ('w, batch_state \<times> (nat \<times> string) list) io" where
  "request_approval d rx input bp i = (case bp of (b, pending) \<Rightarrow>
    if done_at b i \<or> \<not> tr_NeedsApproval (call_at b i) then State_Monad.return (b, pending)
    else if no_approver rx input then State_Monad.return (set_approval i ApprovalUnavailable b, pending)
    else do {
      token \<leftarrow> emitApprovalRequest d rx input (call_at b i);
      State_Monad.return (b, pending @ [(i, token)]) })"

definition collect_approval :: "'w durable \<Rightarrow> 'w restate_runtime \<Rightarrow> 'w restate_input \<Rightarrow> string \<Rightarrow> batch_state \<Rightarrow>
    nat \<times> string \<Rightarrow> ('w, batch_state) io" where
  "collect_approval d rx input messageID b p = (case p of (i, token) \<Rightarrow> do {
     w \<leftarrow> ext (ds_wait d token (approvalTaskTimeout_rs rx));
     (case approval_of_wait w of
        Inl err \<Rightarrow> write_failed rx input messageID i err b
      | Inr status \<Rightarrow> State_Monad.return (set_approval i status b)) })"

text \<open>The dispatch by status; approved calls are left to their futures, delegations to the end.\<close>

definition settle_status :: "'w restate_runtime \<Rightarrow> 'w restate_input \<Rightarrow> string \<Rightarrow> batch_state \<Rightarrow> nat \<Rightarrow>
    ('w, batch_state) io" where
  "settle_status rx input messageID b i = (let status = ts_approval (bs_states b ! i) in
    if done_at b i \<or> status = ApprovalApproved then State_Monad.return b
    else if status = ApprovalRejected then writeResult rx input messageID i msgToolRejected False None b
    else if status = ApprovalUnavailable then writeResult rx input messageID i msgToolApprovalUnavailable False None b
    else if status = ApprovalTimedOut then writeResult rx input messageID i msgToolApprovalTimedOut False None b
    else writeResult rx input messageID i (''unexpected approval status '' @ Quote status @ '' for tool ''
           @ Quote (tr_ToolName (call_at b i))) True None b)"

definition execute_calls :: "'w durable \<Rightarrow> 'w env \<Rightarrow> 'w restate_runtime \<Rightarrow> 'w restate_input \<Rightarrow> int \<Rightarrow>
    execution_policies \<Rightarrow> batch_state \<Rightarrow> nat list \<Rightarrow> ('w, (go_error + string) list) io" where
  "execute_calls d env rx input iteration policies b is =
     run_batch env (\<lambda>_ i. runAsync d as_string
       (policyToRunOpts (''tool-exec-'' @ tr_ToolCallID (call_at b i))
         (toolExecutionPolicy_rs (tr_ToolKind (call_at b i)) policies))
       (ExecuteTool env (rx_base rx) (execute_input input iteration (call_at b i))
         (ac_MemoryScope (ri_core input)))) is"

definition collect_result :: "'w restate_runtime \<Rightarrow> 'w restate_input \<Rightarrow> string \<Rightarrow> batch_state \<Rightarrow>
    nat \<times> (go_error + string) \<Rightarrow> ('w, batch_state) io" where
  "collect_result rx input messageID b ir = (case ir of (i, r) \<Rightarrow> (case r of
      Inl err \<Rightarrow> write_failed rx input messageID i err b
    | Inr content \<Rightarrow> writeResult rx input messageID i content False None b))"

definition delegate_call :: "'w durable \<Rightarrow> 'w env \<Rightarrow> 'w restate_runtime \<Rightarrow> 'w restate_input \<Rightarrow> string \<Rightarrow>
    batch_state \<Rightarrow> nat \<Rightarrow> ('w, batch_state) io" where
  "delegate_call d env rx input messageID b i = (case sub_route input (call_at b i) of
      None \<Rightarrow> State_Monad.return b
    | Some route \<Rightarrow>
        if done_at b i then State_Monad.return b
        else do {
          r \<leftarrow> delegateToSubAgent d env rx input (call_at b i) route;
          (case r of
             Inl err \<Rightarrow> write_failed rx input messageID i err b
           | Inr (content, usage) \<Rightarrow> writeResult rx input messageID i content False usage b) })"

definition run_calls :: "'w durable \<Rightarrow> 'w env \<Rightarrow> 'w restate_runtime \<Rightarrow> 'w restate_input \<Rightarrow> string \<Rightarrow> int \<Rightarrow>
    execution_policies \<Rightarrow> batch_state \<Rightarrow> ('w, batch_state) io" where
  "run_calls d env rx input messageID iteration policies b0 =
    (let approved = filter (\<lambda>i. ts_approval (bs_states b0 ! i) = ApprovalApproved) (open_calls b0);
         subAgents = filter (\<lambda>i. sub_route input (call_at b0 i) \<noteq> None) approved;
         natives = filter (\<lambda>i. sub_route input (call_at b0 i) = None) approved
     in do {
       rs \<leftarrow> execute_calls d env rx input iteration policies b0 natives;
       b1 \<leftarrow> foldM (settle_status rx input messageID) b0 [0..<length (bs_states b0)];
       b2 \<leftarrow> foldM (collect_result rx input messageID) b1 (zip natives rs);
       foldM (delegate_call d env rx input messageID) b2 subAgents })"

text \<open>Up to the approvals, and the whole batch.\<close>

definition gate_calls :: "'w durable \<Rightarrow> 'w env \<Rightarrow> 'w restate_runtime \<Rightarrow> 'w restate_input \<Rightarrow> string \<Rightarrow>
    execution_policies \<Rightarrow> tool_call_request list \<Rightarrow> ('w, batch_state) io" where
  "gate_calls d env rx input messageID policies toolCalls =
    (let idxs = [0..<length toolCalls] in do {
       b1 \<leftarrow> foldM (unknown_call rx input messageID) (batch_start toolCalls) idxs;
       b2 \<leftarrow> foldM (tripped_call rx input messageID) b1 idxs;
       auths \<leftarrow> authorize_calls d env input policies b2;
       b3 \<leftarrow> foldM (collect_auth rx input messageID) b2 (zip (open_calls b2) auths);
       bp \<leftarrow> foldM (request_approval d rx input) (b3, []) idxs;
       foldM (collect_approval d rx input messageID) (fst bp) (snd bp) })"

definition run_parallel :: "'w durable \<Rightarrow> 'w env \<Rightarrow> 'w restate_runtime \<Rightarrow> 'w restate_input \<Rightarrow> string \<Rightarrow> int \<Rightarrow>
    execution_policies \<Rightarrow> tool_call_request list \<Rightarrow> ('w, batch_state) io" where
  "run_parallel d env rx input messageID iteration policies toolCalls = do {
     _ \<leftarrow> mapM (announce_call env rx input messageID) toolCalls;
     b \<leftarrow> gate_calls d env rx input messageID policies toolCalls;
     run_calls d env rx input messageID iteration policies b }"

definition executeToolsParallel_rs :: "'w durable \<Rightarrow> 'w env \<Rightarrow> 'w restate_runtime \<Rightarrow> 'w restate_input \<Rightarrow> string \<Rightarrow>
    int \<Rightarrow> execution_policies \<Rightarrow> tool_call_request list \<Rightarrow> ('w, restate_result list) io" where
  "executeToolsParallel_rs d env rx input messageID iteration policies toolCalls =
    (if length toolCalls = 0 then State_Monad.return []
     else if length toolCalls = 1 then executeToolsSequential_rs d env rx input messageID iteration policies toolCalls
     else do {
       b \<leftarrow> run_parallel d env rx input messageID iteration policies toolCalls;
       State_Monad.return (bs_results b) })"

section \<open>The budget\<close>

definition awaitBudgetApproval :: "'w durable \<Rightarrow> 'w restate_runtime \<Rightarrow> 'w restate_input \<Rightarrow> string \<Rightarrow>
    ('w, go_error + bool) io" where
  "awaitBudgetApproval d rx input detail = do {
     token \<leftarrow> ext (ds_awakeable d);
     tracker \<leftarrow> read_tracker;
     emit_rs rx input (CustomEvent CustomNameBudget
       (BudgetValue (rt_Name (rx_base rx)) detail (fst (Totals tracker)) (snd (Totals tracker)) token));
     w \<leftarrow> ext (ds_wait d token (approvalTaskTimeout_rs rx));
     State_Monad.return (case w of
         WaitErr err \<Rightarrow> Inl err
       | TimerFirst (Some err) \<Rightarrow> Inl err
       | TimerFirst None \<Rightarrow> Inr False
       | AwakeFirst (Inl err) \<Rightarrow> Inl err
       | AwakeFirst (Inr status) \<Rightarrow> Inr (status = ApprovalApproved)) }"

text \<open>\<open>Some err\<close> stops the run; it also sets the finish reason, see \<open>budget_return\<close>.\<close>

definition handleBudgetExceeded :: "'w durable \<Rightarrow> 'w restate_runtime \<Rightarrow> 'w restate_input \<Rightarrow>
    budget_exceeded_error \<Rightarrow> ('w, go_error option) io" where
  "handleBudgetExceeded d rx input budgetErr =
    (let stop = ErrWrap '''' (ErrSentinel ErrBudgetExceeded) ('': '' @ budget_error_str budgetErr) in
     if budget_action (rx_base rx) = BudgetWaitForApproval then do {
       r \<leftarrow> awaitBudgetApproval d rx input (budget_error_str budgetErr);
       (case r of
          Inl waitErr \<Rightarrow> State_Monad.return (Some stop)
        | Inr approved \<Rightarrow>
            if approved then do {
              t \<leftarrow> read_tracker;
              write_tracker (snd (AdvanceWatermark t));
              State_Monad.return None }
            else State_Monad.return (Some stop)) }
     else State_Monad.return (Some stop))"

definition checkBudget_rs :: "'w durable \<Rightarrow> 'w restate_runtime \<Rightarrow> 'w restate_input \<Rightarrow> llm_usage option \<Rightarrow>
    ('w, go_error option) io" where
  "checkBudget_rs d rx input usage = do {
     tracker \<leftarrow> read_tracker;
     (if tracker = None then State_Monad.return None
      else (case bt_Add tracker usage of (budgetErr, tracker') \<Rightarrow> do {
        write_tracker tracker';
        (case budgetErr of
           None \<Rightarrow> State_Monad.return None
         | Some e \<Rightarrow>
             if ac_SubAgentDepth (ri_core input) \<noteq> 0 then State_Monad.return None
             else handleBudgetExceeded d rx input e) })) }"

section \<open>LLM calls\<close>

definition executeLLMStep :: "'w durable \<Rightarrow> 'w env \<Rightarrow> 'w restate_runtime \<Rightarrow> 'w restate_input \<Rightarrow>
    execution_policy \<Rightarrow> 'w execute_llm_input \<Rightarrow> int \<Rightarrow> string \<Rightarrow> bool \<Rightarrow> ('w, go_error + llm_result) io" where
  "executeLLMStep d env rx input policy xl iter stepPrefix useFallback =
    (let rt = rx_base rx;
         step = (\<lambda>x. step_with d as_llm (''llm-'' @ stepPrefix @ itoa iter) policy
           (if ri_StreamingEnabled input then
              ExecuteLLMStream env rt (x\<lparr>xl_Emit := Some (emitEventIngress rx
                (run_address rx (ri_core input)) (ac_EventTypes (ri_core input)))\<rparr>)
            else ExecuteLLM rt x))
     in if useFallback then
          (case ResolveLLMClient (rt_Client rt) (rt_ErrorControl rt) (rt_NamedLLMClients rt) True of
             Inl err \<Rightarrow> State_Monad.return (Inl err)
           | Inr client \<Rightarrow> step (xl\<lparr>xl_Client := Some client\<rparr>))
        else step xl)"

definition executeLLMStepWithErrorControl :: "'w durable \<Rightarrow> 'w env \<Rightarrow> 'w restate_runtime \<Rightarrow> 'w restate_input \<Rightarrow>
    execution_policy \<Rightarrow> 'w execute_llm_input \<Rightarrow> int \<Rightarrow> string \<Rightarrow> bool \<Rightarrow> ('w, go_error + llm_result \<times> bool) io" where
  "executeLLMStepWithErrorControl d env rx input policy xl iter stepPrefix useFallback = do {
     r \<leftarrow> executeLLMStep d env rx input policy xl iter stepPrefix useFallback;
     (case r of
        Inr result \<Rightarrow> State_Monad.return (Inr (result, useFallback))
      | Inl err \<Rightarrow>
          if useFallback then State_Monad.return (Inl err)
          else do {
            fb \<leftarrow> step_with d as_bool (''llm-failure-'' @ stepPrefix @ itoa iter) once (do {
              dec \<leftarrow> DecideLLMFailure (rt_Client (rx_base rx)) (rt_ErrorControl (rx_base rx))
                (rt_NamedLLMClients (rx_base rx))
                \<lparr>fi_Attempt = LLMPolicyAttempts (pol_MaxAttempts policy), fi_Err = err\<rparr>;
              State_Monad.return (if ec_Action dec \<noteq> ErrorControlFallbackModel then Inl err else Inr True) });
            (case fb of
               Inl recErr \<Rightarrow> State_Monad.return (Inl recErr)
             | Inr useFB \<Rightarrow> do {
                 r2 \<leftarrow> executeLLMStep d env rx input policy xl iter (stepPrefix @ ''fallback-'') True;
                 State_Monad.return (case r2 of
                     Inl err2 \<Rightarrow> Inl err2 | Inr result \<Rightarrow> Inr (result, useFB)) }) }) }"

section \<open>Conversation\<close>

definition conversationMemoryEnabled_rs :: "'w restate_runtime \<Rightarrow> 'w restate_input \<Rightarrow> bool" where
  "conversationMemoryEnabled_rs rx input \<longleftrightarrow>
     ac_ConversationID (ri_core input) \<noteq> '''' \<and> rt_Conversation (rx_base rx) \<noteq> None"

definition persistConversationMessages_rs :: "'w durable \<Rightarrow> 'w restate_runtime \<Rightarrow> string \<Rightarrow> message list \<Rightarrow>
    execution_policy \<Rightarrow> ('w, unit) io" where
  "persistConversationMessages_rs d rx conversationID messages policy = (case rt_Conversation (rx_base rx) of
      None \<Rightarrow> State_Monad.return ()
    | Some conv \<Rightarrow>
        if messages = [] then State_Monad.return ()
        else do {
          _ \<leftarrow> step_err d ''conversation-save'' policy (do {
                 _ \<leftarrow> mapM (\<lambda>msg. ext (cv_AddMessage conv conversationID msg)) messages;
                 State_Monad.return None });
          State_Monad.return () })"

definition persist_new_rs :: "'w durable \<Rightarrow> 'w restate_runtime \<Rightarrow> 'w restate_input \<Rightarrow> execution_policies \<Rightarrow>
    loop_state \<Rightarrow> ('w, loop_state) io" where
  "persist_new_rs d rx input policies st =
    (if conversationMemoryEnabled_rs rx input \<and> length (lp_messages st) > lp_persisted st then do {
       persistConversationMessages_rs d rx (ac_ConversationID (ri_core input))
         (drop (lp_persisted st) (lp_messages st)) (pol_Conversation policies);
       State_Monad.return (st\<lparr>lp_persisted := length (lp_messages st)\<rparr>) }
     else State_Monad.return st)"

section \<open>The loop\<close>

definition llm_input_rs :: "'w restate_input \<Rightarrow> run_context \<Rightarrow> string \<Rightarrow> int \<Rightarrow> bool \<Rightarrow> message list \<Rightarrow>
    'w execute_llm_input" where
  "llm_input_rs input cx messageID iter skipTools messages =
    \<lparr>xl_MessageID = messageID, xl_RunID = ac_RunID (ri_core input), xl_Iteration = iter, xl_Messages = messages,
     xl_SkipTools = skipTools, xl_MemoryContext = cx_memoryContext cx,
     xl_RetrieverContext = cx_retrieverContext cx, xl_Tools = ri_Tools input,
     xl_Emit = None, xl_Client = None\<rparr>"

definition apply_circuit_rs :: "'w env \<Rightarrow> 'w restate_input \<Rightarrow> tool_call_request \<Rightarrow> bool \<Rightarrow> ('w, unit) io" where
  "apply_circuit_rs env input tc failed = do {
     c \<leftarrow> read_breaker (ri_circuitBreaker input);
     write_breaker (ri_circuitBreaker input)
       (ApplyToolCircuitResult c (tr_Unknown tc) (tr_ToolKind tc) (tr_ToolName tc)
          (HashToolArgs (en_marshal env) (en_sha256hex env) (tr_Args tc)) failed (ri_circuitNow input)) }"

text \<open>The loop over the results of a round: an error of the budget ends it, and the run.\<close>

fun take_results :: "'w durable \<Rightarrow> 'w env \<Rightarrow> 'w restate_runtime \<Rightarrow> 'w restate_input \<Rightarrow>
    (tool_call_request \<times> restate_result) list \<Rightarrow> loop_state \<Rightarrow> ('w, loop_state \<times> go_error option) io" where
  "take_results d env rx input [] st = State_Monad.return (st, None)"
| "take_results d env rx input ((tc, res) # rest) st = do {
     apply_circuit_rs env input tc (to_failed res);
     (let st1 = st\<lparr>lp_messages := lp_messages st @ [to_message res],
            lp_telemetry := record_call tc (to_failed res) (lp_telemetry st)\<rparr>
      in if to_llmUsage res = None then take_results d env rx input rest st1
         else let st2 = st1\<lparr>lp_llmUsage := MergeLLMUsage (lp_llmUsage st1) (to_llmUsage res)\<rparr> in do {
           b \<leftarrow> checkBudget_rs d rx input (to_llmUsage res);
           (case b of
              Some err \<Rightarrow> State_Monad.return (st2, Some err)
            | None \<Rightarrow> take_results d env rx input rest st2) }) }"

definition execute_tools_rs :: "'w durable \<Rightarrow> 'w env \<Rightarrow> 'w restate_runtime \<Rightarrow> 'w restate_input \<Rightarrow> string \<Rightarrow> int \<Rightarrow>
    execution_policies \<Rightarrow> tool_call_request list \<Rightarrow> ('w, go_error + restate_result list) io" where
  "execute_tools_rs d env rx input messageID iter policies calls =
    (let mode = (if rt_ToolExecutionMode (rx_base rx) = '''' then ExecModeParallel
                 else rt_ToolExecutionMode (rx_base rx)) in
     if mode = ExecModeParallel then do {
       rs \<leftarrow> executeToolsParallel_rs d env rx input messageID iter policies calls;
       State_Monad.return (Inr rs) }
     else if mode = ExecModeSequential then do {
       rs \<leftarrow> executeToolsSequential_rs d env rx input messageID iter policies calls;
       State_Monad.return (Inr rs) }
     else State_Monad.return (Inl (ErrNew (''invalid tool execution mode '' @ Quote mode @ '': use ''
       @ Quote ExecModeParallel @ '' or '' @ Quote ExecModeSequential))))"

text \<open>The snapshot of the breaker is journaled, and restored from the journal.\<close>

definition snapshot_breaker_rs :: "'w durable \<Rightarrow> 'w restate_input \<Rightarrow> int \<Rightarrow> ('w, go_error option) io" where
  "snapshot_breaker_rs d input iter =
    (if ri_circuitBreaker input = None then State_Monad.return None
     else do {
       snap \<leftarrow> step_with d as_breaker (''cb-'' @ itoa iter) once (do {
         c \<leftarrow> read_breaker (ri_circuitBreaker input);
         State_Monad.return (Inr (cb_State c)) });
       (case snap of
          Inl err \<Rightarrow> State_Monad.return (Some err)
        | Inr state \<Rightarrow> do {
            c \<leftarrow> read_breaker (ri_circuitBreaker input);
            write_breaker (ri_circuitBreaker input) (cb_Restore c state);
            State_Monad.return None }) })"

definition tool_round_rs :: "'w durable \<Rightarrow> 'w env \<Rightarrow> 'w restate_runtime \<Rightarrow> 'w restate_input \<Rightarrow> string \<Rightarrow> int \<Rightarrow>
    llm_result \<Rightarrow> execution_policies \<Rightarrow> loop_state \<Rightarrow> ('w, turn_end) io" where
  "tool_round_rs d env rx input messageID iter result policies st =
    (let calls = lr_ToolCalls result;
         st1 = st\<lparr>lp_messages := lp_messages st @ [assistant_message (lr_Content result) calls]\<rparr> in do {
       r \<leftarrow> execute_tools_rs d env rx input messageID iter policies calls;
       (case r of
          Inl err \<Rightarrow> State_Monad.return (Return None err)
        | Inr results \<Rightarrow> do {
            t \<leftarrow> take_results d env rx input (zip calls results) st1;
            (case t of
               (st2, Some err) \<Rightarrow> State_Monad.return (budget_return st2 (True, err))
             | (st2, None) \<Rightarrow> do {
                 snapErr \<leftarrow> snapshot_breaker_rs d input iter;
                 (case snapErr of
                    Some err \<Rightarrow> State_Monad.return (Return None err)
                  | None \<Rightarrow>
                      if rt_SaveOnIteration (rx_base rx) then do {
                        st3 \<leftarrow> persist_new_rs d rx input policies st2;
                        State_Monad.return (Continue st3) }
                      else State_Monad.return (Continue st2)) }) }) })"

definition final_call_rs :: "'w durable \<Rightarrow> 'w env \<Rightarrow> 'w restate_runtime \<Rightarrow> 'w restate_input \<Rightarrow> run_context \<Rightarrow> int \<Rightarrow>
    execution_policies \<Rightarrow> loop_state \<Rightarrow> ('w, turn_end) io" where
  "final_call_rs d env rx input cx iter policies st = do {
     i \<leftarrow> step_with d as_string (''message-id-final-'' @ itoa iter) once (fresh (en_uuid env));
     (case i of
        Inl idErr \<Rightarrow> State_Monad.return (Return None idErr)
      | Inr finalMsgID \<Rightarrow> do {
          r \<leftarrow> executeLLMStepWithErrorControl d env rx input (pol_LLM policies)
                (llm_input_rs input cx finalMsgID iter True (lp_messages st)) iter ''final-'' (lp_useFallback st);
          (case r of
             Inl err \<Rightarrow> State_Monad.return (Return None (ErrWrap (''llm final call (iter '' @ itoa iter @ ''): '') err ''''))
           | Inr (result, _) \<Rightarrow>
               (let st1 = st\<lparr>lp_llmUsage := MergeLLMUsage (lp_llmUsage st) (lr_Usage result)\<rparr> in do {
                  b \<leftarrow> checkBudget_rs d rx input (lr_Usage result);
                  State_Monad.return (case b of
                      Some err \<Rightarrow> budget_return st1 (True, err)
                    | None \<Rightarrow> Break (st1\<lparr>
                        lp_messages := lp_messages st1 @ [mk_message RoleAssistant (lr_Content result)],
                        lp_lastContent := lr_Content result,
                        lp_telemetry := set_finish FinishMaxIterations (count_llm_call (lp_telemetry st1))\<rparr>)) })) }) }"

definition answered_turn_rs :: "'w durable \<Rightarrow> 'w env \<Rightarrow> 'w restate_runtime \<Rightarrow> 'w restate_input \<Rightarrow> run_context \<Rightarrow>
    execution_policies \<Rightarrow> string \<Rightarrow> int \<Rightarrow> llm_result \<Rightarrow> loop_state \<Rightarrow> ('w, turn_end) io" where
  "answered_turn_rs d env rx input cx policies messageID iter result st =
    (if lr_ToolCalls result = [] then
       State_Monad.return (Break (st\<lparr>
         lp_messages := lp_messages st @ [mk_message RoleAssistant (lr_Content result)],
         lp_lastContent := lr_Content result\<rparr>))
     else if iter = lp_maxIter st - 1 then do {
       dec \<leftarrow> step_with d as_decision (''max-iter-'' @ itoa iter) once (do {
         x \<leftarrow> DecideMaxIterations (rt_ErrorControl (rx_base rx))
           \<lparr>mi_IterationCount = iter + 1, mi_MaxIterations = cx_originalMaxIter cx,
            mi_LastAction = LastToolAction (map tr_ToolName (lr_ToolCalls result))\<rparr>
           (lp_iterationsExtended st);
         State_Monad.return (Inr x) });
       (case dec of
          Inl decErr \<Rightarrow> State_Monad.return (Return None decErr)
        | Inr x \<Rightarrow>
            if ec_Action x = ErrorControlExtendIterations
            then tool_round_rs d env rx input messageID iter result policies
                   (st\<lparr>lp_maxIter := lp_maxIter st + ec_ExtraIterations x, lp_iterationsExtended := True\<rparr>)
            else final_call_rs d env rx input cx iter policies st) }
     else tool_round_rs d env rx input messageID iter result policies st)"

text \<open>The time of a turn, for the circuit breaker.\<close>

definition turn_time :: "'w durable \<Rightarrow> 'w env \<Rightarrow> 'w restate_input \<Rightarrow> int \<Rightarrow> ('w, go_error + 'w restate_input) io" where
  "turn_time d env input iter =
    (if ri_circuitBreaker input = None then State_Monad.return (Inr input)
     else do {
       now \<leftarrow> step_with d as_time (''cb-now-'' @ itoa iter) once (fresh (en_now env));
       State_Monad.return (case now of Inl err \<Rightarrow> Inl err | Inr t \<Rightarrow> Inr (input\<lparr>ri_circuitNow := t\<rparr>)) })"

definition loop_turn_rs :: "'w durable \<Rightarrow> 'w env \<Rightarrow> 'w restate_runtime \<Rightarrow> 'w restate_input \<Rightarrow> run_context \<Rightarrow>
    execution_policies \<Rightarrow> int \<Rightarrow> loop_state \<Rightarrow> ('w, turn_end) io" where
  "loop_turn_rs d env rx input0 cx policies iter st = do {
     timed \<leftarrow> turn_time d env input0 iter;
     (case timed of
        Inl nowErr \<Rightarrow> State_Monad.return (Return None nowErr)
      | Inr input \<Rightarrow> do {
          i \<leftarrow> step_with d as_string (''message-id-'' @ itoa iter) once (fresh (en_uuid env));
          (case i of
             Inl idErr \<Rightarrow> State_Monad.return (Return None idErr)
           | Inr messageID \<Rightarrow> do {
               r \<leftarrow> executeLLMStepWithErrorControl d env rx input (pol_LLM policies)
                     (llm_input_rs input cx messageID iter False (lp_messages st)) iter '''' (lp_useFallback st);
               (case r of
                  Inl err \<Rightarrow> State_Monad.return (Return None err)
                | Inr (result, usedFB) \<Rightarrow>
                    (let st1 = st\<lparr>lp_useFallback := (lp_useFallback st \<or> usedFB),
                           lp_telemetry := count_llm_call (lp_telemetry st),
                           lp_llmUsage := MergeLLMUsage (lp_llmUsage st) (lr_Usage result)\<rparr> in do {
                       b \<leftarrow> checkBudget_rs d rx input (lr_Usage result);
                       (case b of
                          Some be \<Rightarrow> State_Monad.return (budget_return st1 (True, be))
                        | None \<Rightarrow> answered_turn_rs d env rx input cx policies messageID iter result st1) })) }) }) }"

section \<open>The run\<close>

definition initial_messages_rs :: "'w durable \<Rightarrow> 'w restate_runtime \<Rightarrow> 'w restate_input \<Rightarrow> execution_policies \<Rightarrow>
    ('w, message list \<times> nat) io" where
  "initial_messages_rs d rx input policies =
    (let messages = [mk_message RoleUser (ac_UserPrompt (ri_core input))] in
     if \<not> conversationMemoryEnabled_rs rx input then State_Monad.return (messages, 0)
     else do {
       r \<leftarrow> step_with d as_messages ''conversation-load'' (pol_Conversation policies)
             (FetchConversationMessages (rx_base rx) (ac_ConversationID (ri_core input)));
       State_Monad.return (case r of
           Inl err \<Rightarrow> (messages, 0)
         | Inr convMsgs \<Rightarrow> (convMsgs @ messages, length convMsgs)) })"

definition recall_memory_rs :: "'w durable \<Rightarrow> 'w restate_runtime \<Rightarrow> 'w restate_input \<Rightarrow> execution_policies \<Rightarrow>
    agent_telemetry \<Rightarrow> ('w, go_error + string \<times> agent_telemetry) io" where
  "recall_memory_rs d rx input policies t =
    (if \<not> (MemoryConfigured (rx_base rx) \<and> RecallEnabled (rx_base rx)) then State_Monad.return (Inr ('''', t))
     else do {
       r \<leftarrow> step_with d as_memory ''memory-recall'' (pol_Memory policies)
             (ExecuteMemoryRecall (rx_base rx) (ac_RunID (ri_core input)) 0 (ac_MemoryScope (ri_core input))
               (ac_UserPrompt (ri_core input)));
       State_Monad.return (case r of
           Inl err \<Rightarrow> Inl (ErrWrap ''memory recall: '' err '''')
         | Inr res \<Rightarrow> Inr (mm_Context res, t\<lparr>te_Storage := (te_Storage t)
             \<lparr>st_TotalMemoryRecalls := st_TotalMemoryRecalls (te_Storage t) + mm_TotalRecalls res,
              st_FailedMemoryRecalls := st_FailedMemoryRecalls (te_Storage t) + mm_FailedRecalls res\<rparr>\<rparr>)) })"

definition prefetch_documents_rs :: "'w durable \<Rightarrow> 'w env \<Rightarrow> 'w restate_runtime \<Rightarrow> 'w restate_input \<Rightarrow>
    execution_policies \<Rightarrow> agent_telemetry \<Rightarrow> ('w, go_error + string \<times> agent_telemetry) io" where
  "prefetch_documents_rs d env rx input policies t =
    (let rt = rx_base rx in
     if \<not> ((rt_RetrieverMode rt = RetrieverModePrefetch \<or> rt_RetrieverMode rt = RetrieverModeHybrid) \<and>
           rt_Retrievers rt \<noteq> []) then State_Monad.return (Inr ('''', t))
     else do {
       r \<leftarrow> step_with d as_retrieved ''retriever-prefetch'' (pol_Retriever policies)
             (ExecuteRetrievers env rt (ac_RunID (ri_core input)) 0 (ac_UserPrompt (ri_core input)));
       State_Monad.return (case r of
           Inl err \<Rightarrow> Inl (ErrWrap ''retriever prefetch: '' err '''')
         | Inr res \<Rightarrow> Inr (rr_Context res, t\<lparr>te_Storage := (te_Storage t)
             \<lparr>st_TotalRetrieverSearches := st_TotalRetrieverSearches (te_Storage t) + rr_TotalSearches res,
              st_FailedRetrieverSearches := st_FailedRetrieverSearches (te_Storage t) + rr_FailedSearches res,
              st_PrefetchSearches := st_PrefetchSearches (te_Storage t) + rr_TotalSearches res\<rparr>\<rparr>)) })"

definition store_memories_rs :: "'w durable \<Rightarrow> 'w env \<Rightarrow> 'w restate_runtime \<Rightarrow> 'w restate_input \<Rightarrow> execution_policies \<Rightarrow>
    message list \<Rightarrow> agent_telemetry \<Rightarrow> ('w, agent_telemetry) io" where
  "store_memories_rs d env rx input policies messages t =
    (if \<not> RunEndMemoryStoreEnabled (rx_base rx) then State_Monad.return t
     else do {
       e \<leftarrow> step_err d ''memory-store'' (pol_Memory policies)
             (ExecuteMemoryStore env (rx_base rx) (ac_RunID (ri_core input)) 0 (ac_MemoryScope (ri_core input)) messages);
       State_Monad.return (case e of
           Some err \<Rightarrow> t\<lparr>te_Storage := (te_Storage t)
             \<lparr>st_FailedMemoryStores := st_FailedMemoryStores (te_Storage t) + 1\<rparr>\<rparr>
         | None \<Rightarrow> t\<lparr>te_Storage := (te_Storage t)
             \<lparr>st_TotalMemoryStores := st_TotalMemoryStores (te_Storage t) + 1\<rparr>\<rparr>) })"

definition complete_run_rs :: "'w durable \<Rightarrow> 'w env \<Rightarrow> 'w restate_runtime \<Rightarrow> 'w restate_input \<Rightarrow> execution_policies \<Rightarrow>
    loop_state \<Rightarrow> ('w, loop_outcome) io" where
  "complete_run_rs d env rx input policies st = do {
     st1 \<leftarrow> persist_new_rs d rx input policies st;
     t \<leftarrow> store_memories_rs d env rx input policies (lp_messages st1) (lp_telemetry st1);
     now \<leftarrow> ext (en_now env);
     State_Monad.return (Some \<lparr>al_Content = lp_lastContent st1, al_LLMUsage = lp_llmUsage st1,
       al_Telemetry = t\<lparr>te_Run := (te_Run t)\<lparr>rn_CompletedAt := now\<rparr>\<rparr>\<rparr>, None) }"

text \<open>The tracker of the budget and the circuit breaker are the run's own. As in the local loop, the
  pair of two nils stands for an exhausted fuel.\<close>

definition executeAgentLoop_rs :: "'w durable \<Rightarrow> 'w env \<Rightarrow> 'w restate_runtime \<Rightarrow> 'w restate_input \<Rightarrow>
    ('w, loop_outcome) io" where
  "executeAgentLoop_rs d env rx input0 = do {
     startedAt \<leftarrow> ext (en_now env);
     (let policies = executionPolicies_rs rx;
          maxIter = EffectiveMaxIterations (rt_MaxIterations (rx_base rx))
      in do {
        input \<leftarrow> (if ri_circuitBreaker input0 = None then do {
                    ref \<leftarrow> alloc_breaker (NewCircuitBreaker (breaker_config (rt_ErrorControl (rx_base rx))));
                    State_Monad.return (input0\<lparr>ri_circuitBreaker := ref\<rparr>) }
                  else State_Monad.return input0);
        msgs \<leftarrow> initial_messages_rs d rx input policies;
        m \<leftarrow> recall_memory_rs d rx input policies (NewAgentTelemetry startedAt);
        (case m of
           Inl err \<Rightarrow> State_Monad.return (None, Some err)
         | Inr (memoryContext, t1) \<Rightarrow> do {
             docs \<leftarrow> prefetch_documents_rs d env rx input policies t1;
             (case docs of
                Inl err \<Rightarrow> State_Monad.return (None, Some err)
              | Inr (retrieverContext, t2) \<Rightarrow>
                  (let cx = \<lparr>cx_memoryContext = memoryContext, cx_retrieverContext = retrieverContext,
                             cx_originalMaxIter = maxIter\<rparr> in do {
                     write_tracker (NewBudgetTracker (rt_Budget (rx_base rx)));
                     e \<leftarrow> loop_rounds (loop_turn_rs d env rx input cx policies) (loop_fuel (rx_base rx)) 0
                           (loop_start msgs maxIter t2);
                     (case e of
                        None \<Rightarrow> State_Monad.return (None, None)
                      | Some (Return res err) \<Rightarrow> State_Monad.return (res, Some err)
                      | Some (Break st) \<Rightarrow> complete_run_rs d env rx input policies st
                      | Some (Continue st) \<Rightarrow> State_Monad.return (None, None)) })) }) }) }"

section \<open>The handler\<close>

record 'w staged_run =
  sg_tools :: "'w tool list"
  sg_eventTypes :: "string list"
  sg_maxSubAgentDepth :: int

type_synonym 'w stash = "string \<Rightarrow> 'w staged_run option"

definition loadStagedRun :: "'w stash \<Rightarrow> string \<Rightarrow> 'w staged_run" where
  "loadStagedRun stash runID = (case stash runID of
      None \<Rightarrow> \<lparr>sg_tools = [], sg_eventTypes = [], sg_maxSubAgentDepth = 0\<rparr> | Some entry \<Rightarrow> entry)"

definition resolveTools :: "'w restate_runtime \<Rightarrow> 'w stash \<Rightarrow> string \<Rightarrow> ('w, go_error + 'w tool list) io" where
  "resolveTools rx stash runID =
    (if sg_tools (loadStagedRun stash runID) \<noteq> [] then State_Monad.return (Inr (sg_tools (loadStagedRun stash runID)))
     else case rx_resolver rx of
       Some resolver \<Rightarrow> ext resolver
     | None \<Rightarrow> State_Monad.return (Inr []))"

text \<open>\<open>strings.EqualFold\<close> is taken on ASCII names.\<close>

definition validateAgentName :: "'w restate_runtime \<Rightarrow> string \<Rightarrow> go_error option" where
  "validateAgentName rx agentName =
    (let a = TrimSpace agentName; own = TrimSpace (rt_Name (rx_base rx)) in
     if a = '''' \<or> map to_lower a = map to_lower own then None
     else Some (ErrNew (''restate: agent name '' @ Quote a @ '' does not match this AgentLoop (''
       @ Quote (rt_Name (rx_base rx)) @ '')'')))"

definition isApplicationLoopError :: "go_error \<Rightarrow> bool" where
  "isApplicationLoopError err \<longleftrightarrow> error_is err ErrBudgetExceeded \<or> error_is err ErrBudgetApprovalUnavailable"

definition terminalLoopError :: "'w durable \<Rightarrow> go_error \<Rightarrow> go_error" where
  "terminalLoopError d err =
    (if ds_isTerminal d err then err
     else if error_is err ErrBudgetExceeded then
       ErrWrap2 (ErrSentinel ErrBudgetExceeded) '': '' (ds_toTerminal d err)
     else if error_is err ErrBudgetApprovalUnavailable then
       ErrWrap2 (ErrSentinel ErrBudgetApprovalUnavailable) '': '' (ds_toTerminal d err)
     else err)"

definition isMemoryScopeSet :: "memory_scope \<Rightarrow> bool" where
  "isMemoryScopeSet scope \<longleftrightarrow> TrimSpace (sc_UserID scope) \<noteq> '''' \<or> TrimSpace (sc_TenantID scope) \<noteq> '''' \<or>
     TrimSpace (sc_AgentID scope) \<noteq> '''' \<or> sc_Tags scope \<noteq> []"

text \<open>The types of events that a run publishes, and its input. \<open>ctx\<close> are the values of the handler's
  context.\<close>

definition run_event_types :: "'w restate_runtime \<Rightarrow> 'w staged_run \<Rightarrow> agent_loop_request \<Rightarrow> string list" where
  "run_event_types rx staged req =
    (if sg_eventTypes staged \<noteq> [] then sg_eventTypes staged
     else if ac_EventTypes (aq_core req) \<noteq> [] then ac_EventTypes (aq_core req)
     else if aq_StreamHandler req then [AgentEventAll]
     else if rx_hasApprovalHandler rx then [''CUSTOM''] else [])"

definition run_topic :: "agent_loop_request \<Rightarrow> string" where
  "run_topic req = (let c = aq_core req in
     if TrimSpace (ac_EventTopic c) = '''' then ac_RunID c else TrimSpace (ac_EventTopic c))"

definition handler_input :: "'w restate_runtime \<Rightarrow> context_values \<Rightarrow> 'w staged_run \<Rightarrow> 'w tool list \<Rightarrow>
    agent_loop_request \<Rightarrow> 'w restate_input" where
  "handler_input rx ctx staged tools req = (let c = aq_core req in
    \<lparr>ri_core = c\<lparr>ac_EventTypes := run_event_types rx staged req,
       ac_MemoryScope := (if isMemoryScopeSet (ac_MemoryScope c) then ac_MemoryScope c
         else case ResolveMemoryScope (rx_base rx) ctx of Inl err \<Rightarrow> empty_scope | Inr scope \<Rightarrow> scope),
       ac_EventTopic := run_topic req, ac_EventLogService := TrimSpace (ac_EventLogService c),
       ac_MaxSubAgentDepth := (if sg_maxSubAgentDepth staged = 0 then ac_MaxSubAgentDepth c
         else sg_maxSubAgentDepth staged)\<rparr>,
     ri_StreamingEnabled = (aq_LLMStreamEnabled req \<and> aq_StreamHandler req),
     ri_IsStreamHandler = aq_StreamHandler req,
     ri_Tools = (if tools = [] then sg_tools staged else tools),
     ri_circuitBreaker = None, ri_circuitNow = 0\<rparr>)"

text \<open>Whether a successful run schedules the \<open>Clear\<close> of its log.\<close>

definition clears_log :: "'w restate_runtime \<Rightarrow> 'w staged_run \<Rightarrow> agent_loop_request \<Rightarrow> bool" where
  "clears_log rx staged req \<longleftrightarrow> \<not> rx_DisableClear rx \<and> run_topic req \<noteq> '''' \<and>
     ac_SubAgentDepth (aq_core req) = 0 \<and> (aq_StreamHandler req \<or> run_event_types rx staged req \<noteq> [])"

definition defaultEventLogTTL :: int where "defaultEventLogTTL = 90 * second_ns"

definition eventLogTTL :: "'w restate_runtime \<Rightarrow> int" where
  "eventLogTTL rx = (if rx_TTL rx \<le> 0 then defaultEventLogTTL else rx_TTL rx)"

definition handle_run :: "'w durable \<Rightarrow> 'w env \<Rightarrow> 'w restate_runtime \<Rightarrow> context_values \<Rightarrow> 'w stash \<Rightarrow>
    agent_loop_request \<Rightarrow> ('w, (go_error + agent_run_result) \<times> 'w stash) io" where
  "handle_run d env rx ctx stash req =
    (case validateAgentName rx (aq_AgentName req) of
       Some err \<Rightarrow> State_Monad.return (Inl err, stash)
     | None \<Rightarrow> (let runID = ac_RunID (aq_core req); staged = loadStagedRun stash runID in do {
         found \<leftarrow> resolveTools rx stash runID;
         (case found of
            Inl err \<Rightarrow> State_Monad.return (Inl err, stash)
          | Inr tools \<Rightarrow> do {
              out \<leftarrow> executeAgentLoop_rs d env rx (handler_input rx ctx staged tools req);
              (case out of
                 (_, Some err) \<Rightarrow> State_Monad.return (Inl (terminalLoopError d err),
                   if isApplicationLoopError err then stash(runID := None) else stash)
               | (None, None) \<Rightarrow> State_Monad.return (Inl (ErrNew ''no outcome''), stash)
               | (Some res, None) \<Rightarrow> do {
                   (if clears_log rx staged req
                    then ext (ds_sendClear d (rx_eventLogServiceName rx) (run_topic req) (eventLogTTL rx))
                    else State_Monad.return ());
                   State_Monad.return (Inr \<lparr>rz_Content = al_Content res, rz_AgentName = TrimSpace (rt_Name (rx_base rx)),
                     rz_Model = lc_Model (rt_Client (rx_base rx)), rz_RunID = runID,
                     rz_LLMUsage = al_LLMUsage res, rz_Telemetry = al_Telemetry res\<rparr>,
                     stash(runID := None)) }) }) }))"

text \<open>The handlers \<open>Run\<close>, \<open>Stream\<close> and \<open>Cancel\<close>.\<close>

definition AgentLoop_Run :: "'w durable \<Rightarrow> 'w env \<Rightarrow> 'w restate_runtime \<Rightarrow> context_values \<Rightarrow> 'w stash \<Rightarrow>
    agent_loop_request \<Rightarrow> ('w, (go_error + agent_run_result) \<times> 'w stash) io" where
  "AgentLoop_Run d env rx ctx stash req = handle_run d env rx ctx stash (req\<lparr>aq_StreamHandler := False\<rparr>)"

definition AgentLoop_Stream :: "'w durable \<Rightarrow> 'w env \<Rightarrow> 'w restate_runtime \<Rightarrow> context_values \<Rightarrow> 'w stash \<Rightarrow>
    agent_loop_request \<Rightarrow> ('w, (go_error + agent_run_result) \<times> 'w stash) io" where
  "AgentLoop_Stream d env rx ctx stash req = handle_run d env rx ctx stash (req\<lparr>aq_StreamHandler := True\<rparr>)"

definition AgentLoop_Cancel :: "'w durable \<Rightarrow> string \<Rightarrow> ('w, go_error option) io" where
  "AgentLoop_Cancel d invocationID =
    (if TrimSpace invocationID = '''' then
       State_Monad.return (Some (ErrNew ''restate: Cancel requires invocation_id''))
     else do {
       ext (ds_cancelInvocation d (TrimSpace invocationID));
       State_Monad.return None })"

end
