(* ===== verification/Restate_Calls.thy ===== *)
theory Restate_Calls
  imports Restate_Loop Transcript
begin

text \<open>
  Tool calls of the Restate runtime: what a parallel batch publishes and returns, and which calls are
  never executed. The locale \<open>durable_engine\<close> is the interface that the loop expects of Restate's
  durable steps; the retry loop of the local runtime has it too.
\<close>

section \<open>The engine of durable steps\<close>

text \<open>A value of a step is one that its operation returned, in this execution or, journaled, in an
  earlier one; and a step moves the world only as repeated executions of its operation do.\<close>

locale durable_engine =
  fixes run :: "run_options \<Rightarrow> ('w, go_error + journal_value) io \<Rightarrow> ('w, go_error + journal_value) io"
  assumes run_result: "run_state (run opts op) s = (Inr v, s') \<Longrightarrow> \<exists>s1 s2. run_state op s1 = (Inr v, s2)"
    and run_frame: "reflp R \<Longrightarrow> transp R \<Longrightarrow> (\<And>s w. R s (s\<lparr>w_ext := w\<rparr>)) \<Longrightarrow> keeps R op \<Longrightarrow> keeps R (run opts op)"
begin

lemma runAsync_result:
  assumes "ds_run d = run" "\<And>a. snd ty (fst ty a) = Some a" "run_state (runAsync d ty opts op) s = (Inr a, s')"
  shows "\<exists>s1 s2. run_state op s1 = (Inr a, s2)"
proof -
  let ?op = "do { x \<leftarrow> op; State_Monad.return (map_sum id (fst ty) x) }"
  from assms(1,3) obtain v where v: "run_state (run opts ?op) s = (Inr v, s')" "snd ty v = Some a"
    by (auto simp: runAsync_def split: prod.splits sum.splits option.splits)
  from run_result [OF v(1)] obtain s1 s2 where "run_state ?op s1 = (Inr v, s2)" by blast
  then obtain x where x: "run_state op s1 = (x, s2)" "map_sum id (fst ty) x = Inr v" by (auto split: prod.splits)
  from x(2) obtain b where "x = Inr b" "v = fst ty b" by (cases x) simp_all
  with x(1) v(2) assms(2) show ?thesis by auto
qed

lemma step_result:
  assumes "ds_run d = run" "\<And>a. snd ty (fst ty a) = Some a" "run_state (step_with d ty name policy op) s = (Inr a, s')"
  shows "\<exists>s1 s2. run_state op s1 = (Inr a, s2)"
proof -
  from assms(3) have "run_state (runAsync d ty (policyToRunOpts name policy) op) s = (Inr a, s')"
    by (auto simp: step_with_def split: prod.splits sum.splits)
  with assms(1,2) show ?thesis by (rule runAsync_result)
qed

lemma runAsync_frame:
  assumes "ds_run d = run" "reflp R" "transp R" "\<And>s w. R s (s\<lparr>w_ext := w\<rparr>)" "keeps R op"
  shows "keeps R (runAsync d ty opts op)"
  unfolding runAsync_def assms(1)
  by (intro keeps_bind [OF assms(3)] keeps_return [OF assms(2)] run_frame assms)

lemma step_frame:
  assumes "ds_run d = run" "reflp R" "transp R" "\<And>s w. R s (s\<lparr>w_ext := w\<rparr>)" "keeps R op"
  shows "keeps R (step_with d ty name policy op)"
  unfolding step_with_def
  by (intro keeps_bind [OF assms(3)] keeps_return [OF assms(2)] runAsync_frame assms)

end

lemma journal_types_ok [simp]:
  "snd as_messages (fst as_messages x1) = Some x1" "snd as_memory (fst as_memory x2) = Some x2"
  "snd as_retrieved (fst as_retrieved x3) = Some x3" "snd as_time (fst as_time x4) = Some x4"
  "snd as_string (fst as_string x5) = Some x5" "snd as_llm (fst as_llm x6) = Some x6"
  "snd as_decision (fst as_decision x7) = Some x7" "snd as_auth (fst as_auth x8) = Some x8"
  "snd as_bool (fst as_bool x9) = Some x9" "snd as_breaker (fst as_breaker x10) = Some x10"
  "snd as_unit (fst as_unit ()) = Some ()"
  by (simp_all add: journal_types)

text \<open>The local runtime's retry loop is such an engine.\<close>

interpretation retrying: durable_engine "\<lambda>opts. executeWithPolicy ctx (p opts)" for ctx p
proof (unfold_locales, goal_cases)
  case (1 opts op s v s')
  from attempt_loop_outcome [OF this [unfolded executeWithPolicy_def]] show ?case
    by (auto simp: policy_outcome_def)
next
  case (2 R op opts)
  then show ?case by (intro executeWithPolicy_keeps) auto
qed

section \<open>What calls publish\<close>

definition published_rs :: "'w restate_runtime \<Rightarrow> 'w restate_input \<Rightarrow> agent_event \<Rightarrow> bool" where
  "published_rs rx input ev \<longleftrightarrow> event_allowed (ac_EventTypes (ri_core input)) ev \<and>
     TrimSpace (snd (run_address rx (ri_core input))) \<noteq> ''''"

abbreviation run_object :: "'w restate_runtime \<Rightarrow> 'w restate_input \<Rightarrow> string" where
  "run_object rx input \<equiv> event_object rx (run_address rx (ri_core input))"

interpretation restate_sink: event_sink "emit_rs rx input" "published_rs rx input" "run_object rx input" for rx input
  by unfold_locales (simp add: emit_rs_def emitEvent_rs_def published_rs_def)

lemmas emit_rules = traced_rules restate_sink.traced_emit restate_sink.traced_bind_emit

lemma traced_foldM_prefix:
  assumes "\<And>ys x zs b evs cs. xs = ys @ x # zs \<Longrightarrow> I ys b evs cs \<Longrightarrow>
      traced g ch (f b x) (\<lambda>b' evs' cs'. I (ys @ [x]) b' (evs @ evs') (cs @ cs'))"
    and "I [] b [] []"
  shows "traced g ch (foldM f b xs) (I xs)"
proof -
  have "traced g ch (foldM f b ys) (I ys)" if "xs = ys @ zs" for ys zs
    using that
  proof (induction ys arbitrary: zs rule: rev_induct)
    case (snoc x ys)
    then have "traced g ch (foldM f b ys) (I ys)" by simp
    moreover have "traced g ch (foldM f b' [x]) (\<lambda>b'' evs' cs'. I (ys @ [x]) b'' (evs @ evs') (cs @ cs'))"
      if "I ys b' evs cs" for b' evs cs
      using assms(1) [OF _ that, of x zs] snoc.prems by (simp only: foldM.simps bind_right_identity) simp
    ultimately show ?case unfolding foldM_append by (rule traced_bind)
  qed (auto intro: traced_return assms(2))
  from this [of xs "[]"] show ?thesis by simp
qed

text \<open>The same, continuing a trace.\<close>

lemma traced_foldM_from:
  assumes "\<And>ys x zs b evs. xs = ys @ x # zs \<Longrightarrow> I ys b evs \<Longrightarrow>
      traced g ch (f b x) (\<lambda>b' evs' cs'. I (ys @ [x]) b' (evs @ evs'))"
    and "I [] b evs0"
  shows "traced g ch (foldM f b xs) (\<lambda>b' evs cs. I xs b' (evs0 @ evs))"
proof (rule traced_foldM_prefix [where I = "\<lambda>ys b evs cs. I ys b (evs0 @ evs)"])
  fix ys x zs b' evs cs assume "xs = ys @ x # zs" "I ys b' (evs0 @ evs)"
  from assms(1) [OF this]
  show "traced g ch (f b' x) (\<lambda>b'' evs' cs'. I (ys @ [x]) b'' (evs0 @ evs @ evs'))" by simp
qed (use assms(2) in simp)

text \<open>Steps that publish nothing.\<close>

definition no_events :: "agent_event list \<Rightarrow> counter_log \<Rightarrow> bool" where "no_events evs cs \<longleftrightarrow> evs = []"

lemma no_events_moved: "reflp (moved g ch no_events)" "transp (moved g ch no_events)"
  "moved g ch no_events s (s\<lparr>w_ext := w\<rparr>)"
proof -
  show "reflp (moved g ch no_events)" "moved g ch no_events s (s\<lparr>w_ext := w\<rparr>)"
    by (auto simp: reflp_def no_events_def intro!: movedI [where evs = "[]" and cs = "[]"])
  show "transp (moved g ch no_events)"
    by (rule transpI) (auto simp: moved_def no_events_def)
qed

lemma runAsync_silent:
  assumes "durable_engine (ds_run d)" "traced g ch op (\<lambda>_. no_events)"
  shows "traced g ch (runAsync d ty opts op) (\<lambda>_. no_events)"
  using assms(2) unfolding traced_iff_moved
  by (intro durable_engine.runAsync_frame [OF assms(1)] no_events_moved) simp_all

lemma step_silent:
  assumes "durable_engine (ds_run d)" "traced g ch op (\<lambda>_. no_events)"
  shows "traced g ch (step_with d ty name policy op) (\<lambda>_. no_events)"
  using assms(2) unfolding traced_iff_moved
  by (intro durable_engine.step_frame [OF assms(1)] no_events_moved) simp_all

lemma silent_ops:
  "traced g ch (AuthorizeTool tools name args) (\<lambda>_. no_events)"
  "traced g ch (ExecuteTool env rt xt scope) (\<lambda>_. no_events)"
  "traced g ch (fresh m) (\<lambda>_. no_events)"
  by (auto simp: no_events_def fresh_def intro!: traced_quiet [OF AuthorizeTool_frame]
      traced_weaken [OF ExecuteTool_traced] traced_rules)

lemma check_tripped_silent: "traced g ch (check_tripped_rs input tc) (\<lambda>_. no_events)"
  unfolding no_events_def
  by (rule traced_exact [where evs = "[]" and cs = "[]"])
    (auto simp: check_tripped_rs_def split: if_splits prod.splits option.splits)

lemma batch_silent:
  assumes "\<And>x. traced g ch (f x) (\<lambda>_. no_events)"
  shows "traced g ch (run_batch env (\<lambda>_ x. f x) xs) (\<lambda>rs evs cs. length rs = length xs \<and> evs = [])"
proof (rule traced_weaken [OF run_batch_traced [where R = "\<lambda>_ _. no_events"]])
  fix rs evs cs assume "batch_trace (\<lambda>_ _. no_events) (length xs) rs evs cs"
  then obtain E "is" where e: "length rs = length xs" "mset is = mset [0..<length xs]"
    "evs = concat (map E is)" "\<forall>i < length xs. E i = []"
    unfolding batch_trace_def no_events_def by blast
  then have "set is = {0..<length xs}" by (metis set_mset_mset set_upt)
  with e show "length rs = length xs \<and> evs = []" by simp
qed (rule assms)

section \<open>Closing every call of a batch\<close>

definition is_closing :: "agent_event \<Rightarrow> bool" where
  "is_closing ev \<longleftrightarrow> (case ev of ToolCallEnd _ \<Rightarrow> True | ToolCallResult _ _ _ _ \<Rightarrow> True | _ \<Rightarrow> False)"

lemma is_closing_simps [simp]:
  "is_closing (ToolCallEnd i)" "is_closing (ToolCallResult m i c r)" "\<not> is_closing (CustomEvent n v)"
  "\<not> is_closing (StepStarted x)" "\<not> is_closing (StepFinished x)" "\<not> is_closing (ToolCallStart i x m)"
  "\<not> is_closing (ToolCallArgs i a)"
  by (simp_all add: is_closing_def)

definition closing :: "string \<Rightarrow> tool_call_request \<Rightarrow> restate_result \<Rightarrow> agent_event list" where
  "closing mid tc r = [ToolCallEnd (tr_ToolCallID tc),
     ToolCallResult mid (tr_ToolCallID tc) (msg_Content (to_message r)) RoleTool]"

definition answers_call :: "tool_call_request \<Rightarrow> restate_result \<Rightarrow> bool" where
  "answers_call tc r \<longleftrightarrow> to_message r = tool_message tc (msg_Content (to_message r))"

text \<open>The state of a batch and the events since the announcements: the calls that are done have been
  closed, each once, in some order.\<close>

definition closed_by :: "string \<Rightarrow> tool_call_request list \<Rightarrow> batch_state \<Rightarrow> agent_event list \<Rightarrow> nat list \<Rightarrow> bool" where
  "closed_by mid calls b evs order \<longleftrightarrow> distinct order \<and> set order = {i. i < length calls \<and> done_at b i} \<and>
     filter is_closing evs = concat (map (\<lambda>i. closing mid (calls ! i) (bs_results b ! i)) order) \<and>
     (\<forall>i \<in> set order. answers_call (calls ! i) (bs_results b ! i))"

definition batch_ok :: "string \<Rightarrow> tool_call_request list \<Rightarrow> batch_state \<Rightarrow> agent_event list \<Rightarrow> bool" where
  "batch_ok mid calls b evs \<longleftrightarrow> map ts_tc (bs_states b) = calls \<and> length (bs_results b) = length calls \<and>
     (\<exists>order. closed_by mid calls b evs order)"

text \<open>The indices that are done, and the approvals.\<close>

definition done_set :: "batch_state \<Rightarrow> nat set" where
  "done_set b = {i. i < length (bs_states b) \<and> done_at b i}"

definition approvals :: "batch_state \<Rightarrow> string list" where
  "approvals b = map ts_approval (bs_states b)"

lemma batch_ok_call: "batch_ok mid calls b evs \<Longrightarrow> i < length calls \<Longrightarrow> call_at b i = calls ! i"
  by (metis batch_ok_def length_map nth_map)

lemma batch_ok_length: "batch_ok mid calls b evs \<Longrightarrow> length (bs_states b) = length calls"
  by (metis batch_ok_def length_map)

lemma batch_ok_start: "batch_ok mid calls (batch_start calls) []"
  unfolding batch_ok_def closed_by_def
  by (intro conjI exI [of _ "[]"]) (auto simp: batch_start_def comp_def)

lemma batch_ok_quiet: "batch_ok mid calls b evs \<Longrightarrow> filter is_closing evs' = [] \<Longrightarrow> batch_ok mid calls b (evs @ evs')"
  by (auto simp: batch_ok_def closed_by_def)

lemma done_set_simps:
  "i < length (bs_states b) \<Longrightarrow> done_set (put_result i c f u b) = insert i (done_set b)"
  "done_set (set_approval i st b) = done_set b"
  "done_set (batch_start calls) = {}"
  by (auto simp: done_set_def put_result_def set_approval_def batch_start_def nth_list_update)
    (metis nth_list_update_eq nth_list_update_neq call_state.select_convs(3) call_state.surjective call_state.update_convs(2))+

lemma map_update_same: "f y = f (xs ! i) \<Longrightarrow> map f (xs[i := y]) = map f xs"
proof (cases "i < length xs")
  case False
  then show ?thesis using list_update_beyond [of xs i y] by simp
qed (simp add: map_update list_update_same_conv)

lemma approvals_simps [simp]:
  "approvals (put_result i c f u b) = approvals b"
  "approvals (set_approval i st b) = (approvals b)[i := st]"
  "length (approvals b) = length (bs_states b)"
  by (simp_all add: approvals_def put_result_def set_approval_def map_update_same) (simp add: map_update)

lemma lengths_simps [simp]:
  "length (bs_states (put_result i c f u b)) = length (bs_states b)"
  "length (bs_states (set_approval i st b)) = length (bs_states b)"
  by (simp_all add: put_result_def set_approval_def)

lemma batch_ok_approval: "batch_ok mid calls b evs \<Longrightarrow> batch_ok mid calls (set_approval i st b) evs"
proof -
  assume ok: "batch_ok mid calls b evs"
  have "map ts_tc (bs_states (set_approval i st b)) = map ts_tc (bs_states b)"
    by (simp add: set_approval_def map_update_same)
  moreover have "done_at (set_approval i st b) j = done_at b j" if "j < length calls" for j
    using that batch_ok_length [OF ok] by (cases "i = j") (simp_all add: set_approval_def)
  moreover have "bs_results (set_approval i st b) = bs_results b" by (simp add: set_approval_def)
  ultimately show ?thesis
    using ok unfolding batch_ok_def closed_by_def by (simp cong: conj_cong)
qed

lemma batch_ok_put:
  assumes ok: "batch_ok mid calls b evs" and i: "i < length calls" "i \<notin> done_set b"
  shows "batch_ok mid calls (put_result i content failed usage b)
    (evs @ [ToolCallEnd (tr_ToolCallID (calls ! i)), ToolCallResult mid (tr_ToolCallID (calls ! i)) content RoleTool])"
proof -
  let ?b = "put_result i content failed usage b"
  from ok obtain order where o: "closed_by mid calls b evs order"
    and s: "map ts_tc (bs_states b) = calls" "length (bs_results b) = length calls"
    unfolding batch_ok_def by blast
  have l: "length (bs_states b) = length calls" by (rule batch_ok_length [OF ok])
  have d: "done_at ?b j \<longleftrightarrow> j = i \<or> done_at b j" if "j < length calls" for j
    using that l i(1) by (auto simp: put_result_def nth_list_update)
  have r: "bs_results ?b ! i = call_result (calls ! i) content failed usage"
    using i(1) s(2) batch_ok_call [OF ok i(1)] by (simp add: put_result_def)
  have r': "bs_results ?b ! j = bs_results b ! j" if "j \<noteq> i" for j
    using that by (simp add: put_result_def)
  have ni: "i \<notin> set order" using o i l by (auto simp: closed_by_def done_set_def)
  have ne: "j \<noteq> i" if "j \<in> set order" for j using ni that by auto
  have "closed_by mid calls ?b (evs @ [ToolCallEnd (tr_ToolCallID (calls ! i)),
      ToolCallResult mid (tr_ToolCallID (calls ! i)) content RoleTool]) (order @ [i])"
    unfolding closed_by_def
  proof (intro conjI)
    show "distinct (order @ [i])" using o ni by (simp add: closed_by_def)
    show "set (order @ [i]) = {j. j < length calls \<and> done_at ?b j}" using o i(1) d by (auto simp: closed_by_def)
    have "map (\<lambda>j. closing mid (calls ! j) (bs_results ?b ! j)) order =
        map (\<lambda>j. closing mid (calls ! j) (bs_results b ! j)) order"
      using ne by (simp add: r' cong: map_cong)
    with o have E: "concat (map (\<lambda>j. closing mid (calls ! j) (bs_results ?b ! j)) order) = filter is_closing evs"
      by (simp only: closed_by_def)
    have C: "closing mid (calls ! i) (bs_results ?b ! i) =
        [ToolCallEnd (tr_ToolCallID (calls ! i)), ToolCallResult mid (tr_ToolCallID (calls ! i)) content RoleTool]"
      by (simp add: r closing_def call_result_def tool_message_def)
    show "filter is_closing (evs @ [ToolCallEnd (tr_ToolCallID (calls ! i)),
        ToolCallResult mid (tr_ToolCallID (calls ! i)) content RoleTool]) =
      concat (map (\<lambda>j. closing mid (calls ! j) (bs_results ?b ! j)) (order @ [i]))"
      by (simp add: E C)
    have "answers_call (calls ! j) (bs_results ?b ! j)" if "j \<in> set order" for j
      using o that unfolding r' [OF ne [OF that]] closed_by_def by blast
    moreover have "answers_call (calls ! i) (bs_results ?b ! i)"
      by (simp add: r answers_call_def call_result_def tool_message_def)
    ultimately show "\<forall>j \<in> set (order @ [i]). answers_call (calls ! j) (bs_results ?b ! j)" by simp
  qed
  moreover have "map ts_tc (bs_states ?b) = calls"
    using s(1) by (simp add: put_result_def map_update_same)
  moreover have "length (bs_results ?b) = length calls" using s(2) by (simp add: put_result_def)
  ultimately show ?thesis unfolding batch_ok_def by blast
qed

section \<open>The phases of a batch\<close>

text \<open>A phase keeps the batch in order and marks only the indices in \<open>D\<close> as done.\<close>

lemma writeResult_traced:
  assumes ok: "batch_ok mid calls b evs" and i: "i < length calls" "i \<notin> done_set b"
  shows "traced (published_rs rx input) (run_object rx input) (writeResult rx input mid i content failed usage b)
    (\<lambda>b' evs' cs. batch_ok mid calls b' (evs @ evs') \<and> done_set b' = insert i (done_set b) \<and> approvals b' = approvals b)"
proof -
  have c: "call_at b i = calls ! i" by (rule batch_ok_call [OF ok i(1)])
  have l: "i < length (bs_states b)" using batch_ok_length [OF ok] i(1) by simp
  show ?thesis
    unfolding writeResult_def emitToolComplete_def c State_Monad.bind_assoc
    by (intro emit_rules conjI) (use batch_ok_put [OF assms] in \<open>simp_all add: done_set_simps(1) [OF l]\<close>)
qed

lemma traced_return_from: "I b evs \<Longrightarrow> traced g ch (State_Monad.return b) (\<lambda>b' evs' cs. I b' (evs @ evs'))"
  by (rule traced_return) simp

abbreviation batch_traced :: "'w restate_runtime \<Rightarrow> 'w restate_input \<Rightarrow> string \<Rightarrow> tool_call_request list \<Rightarrow>
    agent_event list \<Rightarrow> (batch_state \<Rightarrow> bool) \<Rightarrow> ('w, batch_state) io \<Rightarrow> bool" where
  "batch_traced rx input mid calls evs P m \<equiv> traced (published_rs rx input) (run_object rx input) m
     (\<lambda>b' evs' cs. batch_ok mid calls b' (evs @ evs') \<and> P b')"

lemma write_phase:
  assumes xs: "distinct (map ix xs)" and fresh: "\<And>x. x \<in> set xs \<Longrightarrow> ix x < length calls \<and> (W x \<longrightarrow> ix x \<notin> done_set b0)"
    and ok: "batch_ok mid calls b0 evs0"
    and step: "\<And>b x evs. x \<in> set xs \<Longrightarrow> batch_ok mid calls b evs \<Longrightarrow> approvals b = approvals b0 \<Longrightarrow>
      (ix x \<in> done_set b \<longleftrightarrow> ix x \<in> done_set b0) \<Longrightarrow>
      batch_traced rx input mid calls evs (\<lambda>b'. approvals b' = approvals b \<and>
        done_set b' = (if W x then insert (ix x) (done_set b) else done_set b)) (f b x)"
  shows "batch_traced rx input mid calls evs0 (\<lambda>b. approvals b = approvals b0 \<and>
    done_set b = done_set b0 \<union> ix ` {x \<in> set xs. W x}) (foldM f b0 xs)"
proof -
  let ?I = "\<lambda>ys b evs. batch_ok mid calls b evs \<and> approvals b = approvals b0 \<and>
    done_set b = done_set b0 \<union> ix ` {x \<in> set ys. W x}"
  show ?thesis
  proof (rule traced_foldM_from [where I = ?I])
    fix ys x zs b evs assume x: "xs = ys @ x # zs" and I: "?I ys b evs"
    from x xs have "ix x \<notin> ix ` set ys" by auto
    with I have "ix x \<in> done_set b \<longleftrightarrow> ix x \<in> done_set b0" by auto
    with x I have "batch_traced rx input mid calls evs (\<lambda>b'. approvals b' = approvals b \<and>
        done_set b' = (if W x then insert (ix x) (done_set b) else done_set b)) (f b x)"
      by (intro step) auto
    then show "traced (published_rs rx input) (run_object rx input) (f b x)
        (\<lambda>b' evs' cs. ?I (ys @ [x]) b' (evs @ evs'))"
      by (rule traced_weaken) (use I in \<open>auto split: if_splits\<close>)
  qed (use ok in simp)
qed

lemma write_step:
  assumes "batch_ok mid calls b evs" "i < length calls" "i \<notin> done_set b"
  shows "batch_traced rx input mid calls evs (\<lambda>b'. approvals b' = approvals b \<and> done_set b' = insert i (done_set b))
    (writeResult rx input mid i content failed usage b)"
  by (rule traced_weaken [OF writeResult_traced [OF assms]]) simp

lemma return_step: "batch_ok mid calls b evs \<Longrightarrow> P b \<Longrightarrow> batch_traced rx input mid calls evs P (State_Monad.return b)"
  by (rule traced_return) simp

lemma not_done: "batch_ok mid calls b evs \<Longrightarrow> i < length calls \<Longrightarrow> done_at b i \<longleftrightarrow> i \<in> done_set b"
  using batch_ok_length by (fastforce simp: done_set_def)

lemma unknown_phase:
  "batch_traced rx input mid calls []
     (\<lambda>b. \<forall>i < length calls. IsUnknownTool (calls ! i) (ri_Tools input) \<longrightarrow> i \<in> done_set b)
     (foldM (unknown_call rx input mid) (batch_start calls) [0..<length calls])"
proof -
  let ?W = "\<lambda>i. IsUnknownTool (calls ! i) (ri_Tools input)"
  have start: "done_set (batch_start calls) = {}" by (simp add: done_set_simps)
  have "batch_traced rx input mid calls [] (\<lambda>b. approvals b = approvals (batch_start calls) \<and>
      done_set b = done_set (batch_start calls) \<union> (\<lambda>i. i) ` {i \<in> set [0..<length calls]. ?W i})
     (foldM (unknown_call rx input mid) (batch_start calls) [0..<length calls])"
  proof (rule write_phase)
    fix b i evs assume i: "i \<in> set [0..<length calls]" and ok: "batch_ok mid calls b evs"
      and d: "i \<in> done_set b \<longleftrightarrow> i \<in> done_set (batch_start calls)"
    then have i': "i < length calls" "i \<notin> done_set b" by (auto simp: start)
    note w = write_step [OF ok i']
    show "batch_traced rx input mid calls evs (\<lambda>b'. approvals b' = approvals b \<and>
        done_set b' = (if ?W i then insert i (done_set b) else done_set b)) (unknown_call rx input mid b i)"
      unfolding unknown_call_def NoteUnknownTool_def batch_ok_call [OF ok i'(1)]
      by (auto intro!: traced_rules return_step ok w)
  qed (simp_all add: start batch_ok_start)
  then show ?thesis by (rule traced_weaken) auto
qed

lemma tripped_phase:
  assumes "batch_ok mid calls b0 evs0"
  shows "batch_traced rx input mid calls evs0 (\<lambda>b. done_set b0 \<subseteq> done_set b)
    (foldM (tripped_call rx input mid) b0 [0..<length calls])"
proof (rule traced_foldM_from [where I = "\<lambda>ys b evs. batch_ok mid calls b evs \<and> done_set b0 \<subseteq> done_set b"])
  fix ys i zs b evs assume "[0..<length calls] = ys @ i # zs"
    and I: "batch_ok mid calls b evs \<and> done_set b0 \<subseteq> done_set b"
  then have i: "i < length calls" by (metis atLeastLessThan_iff in_set_conv_decomp set_upt)
  let ?T = "batch_traced rx input mid calls evs (\<lambda>b'. done_set b0 \<subseteq> done_set b')"
  have w: "?T (writeResult rx input mid i c f u b)" if "\<not> done_at b i" for c f u
    using I that not_done [OF _ i] by (intro traced_weaken [OF write_step [OF _ i]]) auto
  show "?T (tripped_call rx input mid b i)"
    unfolding tripped_call_def NoteCircuitSkip_def
  proof (rule traced_if)
    assume nd: "\<not> done_at b i"
    show "?T (do {
       tripped \<leftarrow> check_tripped_rs input (call_at b i);
       (if \<not> tripped then State_Monad.return b
        else do {
          IncrementCounter MetricToolCallCircuitOpen [tr_ToolName (call_at b i)];
          writeResult rx input mid i (CircuitBreakerSkippedMessage (tr_ToolName (call_at b i))) False None b }) })"
      by (rule traced_bind [OF check_tripped_silent])
        (use I w [OF nd] in \<open>auto simp: no_events_def intro!: traced_rules\<close>)
  qed (use I in \<open>auto intro: return_step\<close>)
qed (use assms in simp)

lemma open_calls_set: "set (open_calls b) = {i. i < length (bs_states b) \<and> i \<notin> done_set b}" "distinct (open_calls b)"
  by (auto simp: open_calls_def done_set_def)

definition denied :: "go_error + authorize_result \<Rightarrow> bool" where
  "denied r \<longleftrightarrow> (case r of Inl _ \<Rightarrow> True | Inr a \<Rightarrow> \<not> ar_Allowed a)"

lemma auth_phase:
  assumes ok: "batch_ok mid calls b0 evs0" and l: "length rs = length (open_calls b0)"
  shows "batch_traced rx input mid calls evs0 (\<lambda>b. done_set b0 \<subseteq> done_set b \<and>
      (\<forall>ir \<in> set (zip (open_calls b0) rs). denied (snd ir) \<longrightarrow> fst ir \<in> done_set b))
    (foldM (collect_auth rx input mid) b0 (zip (open_calls b0) rs))"
proof -
  let ?W = "\<lambda>ir. denied (snd ir)"
  have x: "fst ir < length calls \<and> fst ir \<notin> done_set b0" if "ir \<in> set (zip (open_calls b0) rs)" for ir
  proof -
    from that have "fst ir \<in> set (open_calls b0)" by (metis prod.collapse set_zip_leftD)
    then show ?thesis unfolding open_calls_set(1) batch_ok_length [OF ok] by simp
  qed
  have "batch_traced rx input mid calls evs0 (\<lambda>b. approvals b = approvals b0 \<and>
      done_set b = done_set b0 \<union> fst ` {ir \<in> set (zip (open_calls b0) rs). ?W ir})
     (foldM (collect_auth rx input mid) b0 (zip (open_calls b0) rs))"
  proof (rule write_phase)
    fix b evs and ir :: "nat \<times> (go_error + authorize_result)"
    assume ir: "ir \<in> set (zip (open_calls b0) rs)" and okb: "batch_ok mid calls b evs"
      and d: "fst ir \<in> done_set b \<longleftrightarrow> fst ir \<in> done_set b0"
    obtain i r where p: "ir = (i, r)" by fastforce
    with x [OF ir] d have i: "i < length calls" "i \<notin> done_set b" by auto
    note w = write_step [OF okb i]
    show "batch_traced rx input mid calls evs (\<lambda>b'. approvals b' = approvals b \<and>
        done_set b' = (if ?W ir then insert (fst ir) (done_set b) else done_set b)) (collect_auth rx input mid b ir)"
      unfolding collect_auth_def p by (cases r) (auto intro!: return_step okb w simp: denied_def)
  qed (use x ok l open_calls_set(2) in \<open>auto simp: map_fst_zip\<close>)
  then show ?thesis by (rule traced_weaken) force
qed
text \<open>The requests publish custom events; each pending index is open and pending once, and a call that
  needs an approval has one pending, or none can come.\<close>

lemma emitApprovalRequest_traced:
  "traced (published_rs rx input) (run_object rx input) (emitApprovalRequest d rx input tc)
    (\<lambda>_ evs cs. filter is_closing evs = [])"
  unfolding emitApprovalRequest_def by (intro emit_rules) simp_all

definition pending_ok :: "tool_call_request list \<Rightarrow> bool \<Rightarrow> nat set \<Rightarrow> batch_state \<times> (nat \<times> string) list \<Rightarrow> bool" where
  "pending_ok calls nobody I bp \<longleftrightarrow> distinct (map fst (snd bp)) \<and>
     fst ` set (snd bp) \<subseteq> {i \<in> I. i < length calls \<and> i \<notin> done_set (fst bp)} \<and>
     (nobody \<longrightarrow> snd bp = []) \<and>
     (\<forall>i \<in> I. i < length calls \<and> i \<notin> done_set (fst bp) \<and> tr_NeedsApproval (calls ! i) \<longrightarrow>
        (if nobody then approvals (fst bp) ! i = ApprovalUnavailable else i \<in> fst ` set (snd bp)))"

lemma pending_ok_keep: "pending_ok calls nobody I (b, p) \<Longrightarrow> i \<in> done_set b \<or> \<not> tr_NeedsApproval (calls ! i) \<Longrightarrow>
    pending_ok calls nobody (insert i I) (b, p)"
  by (auto simp: pending_ok_def)

lemma pending_ok_unavailable: "pending_ok calls True I (b, p) \<Longrightarrow> length (bs_states b) = length calls \<Longrightarrow> i < length calls \<Longrightarrow>
    pending_ok calls True (insert i I) (set_approval i ApprovalUnavailable b, p)"
  by (auto simp: pending_ok_def done_set_simps nth_list_update)

lemma pending_ok_request: "pending_ok calls False I (b, p) \<Longrightarrow> i < length calls \<Longrightarrow> i \<notin> I \<Longrightarrow> i \<notin> done_set b \<Longrightarrow>
    pending_ok calls False (insert i I) (b, p @ [(i, token)])"
  by (auto simp: pending_ok_def)

lemma request_phase:
  assumes "batch_ok mid calls b0 evs0"
  shows "traced (published_rs rx input) (run_object rx input)
    (foldM (request_approval d rx input) (b0, []) [0..<length calls])
    (\<lambda>bp evs cs. batch_ok mid calls (fst bp) (evs0 @ evs) \<and> done_set (fst bp) = done_set b0 \<and>
       pending_ok calls (no_approver rx input) {..<length calls} bp)"
proof -
  let ?I = "\<lambda>ys bp evs. batch_ok mid calls (fst bp) evs \<and> done_set (fst bp) = done_set b0 \<and>
    pending_ok calls (no_approver rx input) (set ys) bp"
  have "traced (published_rs rx input) (run_object rx input)
    (foldM (request_approval d rx input) (b0, []) [0..<length calls]) (\<lambda>bp evs cs. ?I [0..<length calls] bp (evs0 @ evs))"
  proof (rule traced_foldM_from [where I = ?I])
    fix ys i zs bp evs assume x: "[0..<length calls] = ys @ i # zs" and I: "?I ys bp evs"
    obtain b p where bp: "bp = (b, p)" by fastforce
    from x have i: "i < length calls" by (metis atLeastLessThan_iff in_set_conv_decomp set_upt)
    have "distinct (ys @ i # zs)" using x by (metis distinct_upt)
    then have fr: "i \<notin> set ys" by simp
    have ok: "batch_ok mid calls b evs" and ds: "done_set b = done_set b0"
      and pd: "pending_ok calls (no_approver rx input) (set ys) (b, p)" using I bp by simp_all
    note call = batch_ok_call [OF ok i] and nd = not_done [OF ok i]
    have keep: "?I (ys @ [i]) (b, p) evs" if "done_at b i \<or> \<not> tr_NeedsApproval (call_at b i)"
      using ok ds pending_ok_keep [OF pd, of i] that call nd by auto
    have una: "?I (ys @ [i]) (set_approval i ApprovalUnavailable b, p) evs" if "no_approver rx input"
      using ds batch_ok_approval [OF ok] pending_ok_unavailable [of calls "set ys" b p i] pd that i batch_ok_length [OF ok]
      by (simp add: done_set_simps)
    have req: "?I (ys @ [i]) (b, p @ [(i, token)]) (evs @ evs')"
      if "\<not> no_approver rx input" "\<not> done_at b i" "filter is_closing evs' = []" for token evs'
      using ds batch_ok_quiet [OF ok that(3)] pending_ok_request [of calls "set ys" b p i token] pd that nd fr i by simp
    show "traced (published_rs rx input) (run_object rx input) (request_approval d rx input bp i)
        (\<lambda>bp' evs' cs. ?I (ys @ [i]) bp' (evs @ evs'))"
      unfolding request_approval_def bp prod.case
      by (intro traced_if traced_return traced_bind [OF emitApprovalRequest_traced]) (use keep una req in auto)
  qed (use assms in \<open>simp add: pending_ok_def\<close>)
  moreover have "set [0..<length calls] = {..<length calls}" by auto
  ultimately show ?thesis by (simp only:)
qed

text \<open>A status that a wait can give.\<close>

definition can_answer :: "'w durable \<Rightarrow> 'w restate_runtime \<Rightarrow> string \<Rightarrow> bool" where
  "can_answer d rx status \<longleftrightarrow> (\<exists>token w. approval_of_wait (fst (run_state (ds_wait d token (approvalTaskTimeout_rs rx)) w)) = Inr status)"

lemma traced_bind_ext_result: "(\<And>w. traced g ch (f (fst (run_state m w))) Q) \<Longrightarrow> traced g ch (State_Monad.bind (ext m) f) Q"
proof (rule tracedI)
  fix s a s' assume f: "\<And>w. traced g ch (f (fst (run_state m w))) Q" and r: "run_state (State_Monad.bind (ext m) f) s = (a, s')"
  let ?s1 = "s\<lparr>w_ext := snd (run_state m (w_ext s))\<rparr>"
  have "run_state (f (fst (run_state m (w_ext s)))) ?s1 = (a, s')" using r by (simp split: prod.splits)
  from tracedD [OF f this] show "\<exists>evs cs. w_events s' = w_events s @ map (Pair ch) (filter g evs) \<and>
      w_counters s' = w_counters s @ cs \<and> Q a evs cs" by simp
qed

lemma collect_phase:
  assumes ok0: "batch_ok mid calls (fst bp) evs0" and pd: "pending_ok calls nobody I bp"
  shows "batch_traced rx input mid calls evs0 (\<lambda>b. done_set (fst bp) \<subseteq> done_set b \<and>
      (\<forall>i < length calls. i \<in> done_set b \<or> (if i \<in> fst ` set (snd bp) then can_answer d rx (approvals b ! i)
         else approvals b ! i = approvals (fst bp) ! i)))
    (foldM (collect_approval d rx input mid) (fst bp) (snd bp))"
proof -
  let ?I = "\<lambda>ps b evs. batch_ok mid calls b evs \<and> done_set (fst bp) \<subseteq> done_set b \<and>
    done_set b \<subseteq> done_set (fst bp) \<union> fst ` set ps \<and>
    (\<forall>i < length calls. i \<in> done_set b \<or> (if i \<in> fst ` set ps then can_answer d rx (approvals b ! i)
         else approvals b ! i = approvals (fst bp) ! i))"
  have "traced (published_rs rx input) (run_object rx input)
    (foldM (collect_approval d rx input mid) (fst bp) (snd bp)) (\<lambda>b evs cs. ?I (snd bp) b (evs0 @ evs))"
  proof (rule traced_foldM_from [where I = ?I])
    fix ps p zs b evs assume x: "snd bp = ps @ p # zs" and I: "?I ps b evs"
    obtain i token where p: "p = (i, token)" by fastforce
    from pd x p have "i < length calls" "i \<notin> done_set (fst bp)" "i \<notin> fst ` set ps"
      by (auto simp: pending_ok_def)
    with I have i: "i < length calls" "i \<notin> done_set b" by auto
    from I have ok: "batch_ok mid calls b evs" by simp
    have li: "i < length (approvals b)" using i(1) batch_ok_length [OF ok] by simp
    have w: "traced (published_rs rx input) (run_object rx input) (write_failed rx input mid i err b)
        (\<lambda>b' evs' cs. ?I (ps @ [p]) b' (evs @ evs'))" for err
    proof (rule traced_weaken [OF write_step [OF ok i]])
      define F where "F = fst ` set ps"
      have F: "fst ` set (ps @ [p]) = insert i F" by (simp add: F_def p)
      fix b' evs' and cs :: counter_log
      assume "batch_ok mid calls b' (evs @ evs') \<and> approvals b' = approvals b \<and> done_set b' = insert i (done_set b)"
      with I show "?I (ps @ [p]) b' (evs @ evs')" unfolding F F_def [symmetric] by auto
    qed
    have a: "?I (ps @ [p]) (set_approval i status b) evs" if "can_answer d rx status" for status
    proof -
      define F where "F = fst ` set ps"
      have F: "fst ` set (ps @ [p]) = insert i F" by (simp add: F_def p)
      show ?thesis
        using I li that batch_ok_approval [OF ok] unfolding F F_def [symmetric]
        by (auto simp: done_set_simps nth_list_update)
    qed
    show "traced (published_rs rx input) (run_object rx input) (collect_approval d rx input mid b p)
        (\<lambda>b' evs' cs. ?I (ps @ [p]) b' (evs @ evs'))"
      unfolding collect_approval_def p prod.case
    proof (rule traced_bind_ext_result)
      fix wd
      let ?r = "approval_of_wait (fst (run_state (ds_wait d token (approvalTaskTimeout_rs rx)) wd))"
      have "can_answer d rx status" if "?r = Inr status" for status using that by (auto simp: can_answer_def)
      then show "traced (published_rs rx input) (run_object rx input)
         (case ?r of Inl err \<Rightarrow> write_failed rx input mid i err b | Inr status \<Rightarrow> State_Monad.return (set_approval i status b))
         (\<lambda>b' evs' cs. ?I (ps @ [(i, token)]) b' (evs @ evs'))"
        unfolding p [symmetric] by (intro traced_case_sum traced_return w) (simp only: append_Nil2, rule a, simp)
    qed
  qed (use ok0 in auto)
  then show ?thesis by (rule traced_weaken) auto
qed

text \<open>The last phase leaves no call open.\<close>

lemma settle_phase:
  assumes ok: "batch_ok mid calls b0 evs0"
  shows "batch_traced rx input mid calls evs0 (\<lambda>b. approvals b = approvals b0 \<and>
      done_set b = done_set b0 \<union> {i. i < length calls \<and> i \<notin> done_set b0 \<and> approvals b0 ! i \<noteq> ApprovalApproved})
    (foldM (settle_status rx input mid) b0 [0..<length calls])"
proof -
  let ?W = "\<lambda>i. i \<notin> done_set b0 \<and> approvals b0 ! i \<noteq> ApprovalApproved"
  have "batch_traced rx input mid calls evs0 (\<lambda>b. approvals b = approvals b0 \<and>
      done_set b = done_set b0 \<union> (\<lambda>i. i) ` {i \<in> set [0..<length calls]. ?W i})
    (foldM (settle_status rx input mid) b0 [0..<length calls])"
  proof (rule write_phase [OF _ _ ok])
    fix b i evs assume i: "i \<in> set [0..<length calls]" and okb: "batch_ok mid calls b evs"
      and ap: "approvals b = approvals b0" and d: "i \<in> done_set b \<longleftrightarrow> i \<in> done_set b0"
    then have l: "i < length calls" by simp
    have st: "ts_approval (bs_states b ! i) = approvals b0 ! i"
      using l batch_ok_length [OF okb] unfolding ap [symmetric] by (simp add: approvals_def)
    have dn: "done_at b i \<longleftrightarrow> i \<in> done_set b0" using not_done [OF okb l] d by simp
    have w: "?W i \<Longrightarrow> batch_traced rx input mid calls evs (\<lambda>b'. approvals b' = approvals b \<and>
        done_set b' = (if ?W i then insert i (done_set b) else done_set b)) (writeResult rx input mid i c f u b)" for c f u
      by (rule traced_weaken [OF write_step [OF okb l]]) (use d in auto)
    show "batch_traced rx input mid calls evs (\<lambda>b'. approvals b' = approvals b \<and>
        done_set b' = (if ?W i then insert i (done_set b) else done_set b)) (settle_status rx input mid b i)"
      unfolding settle_status_def Let_def st dn
      by (intro traced_if w return_step [OF okb]) auto
  qed auto
  then show ?thesis by (rule traced_weaken) auto
qed

lemma result_phase:
  assumes ok: "batch_ok mid calls b0 evs0" and "is": "distinct is" "\<And>i. i \<in> set is \<Longrightarrow> i < length calls \<and> i \<notin> done_set b0"
    and l: "length rs = length is"
  shows "batch_traced rx input mid calls evs0 (\<lambda>b. approvals b = approvals b0 \<and> done_set b = done_set b0 \<union> set is)
    (foldM (collect_result rx input mid) b0 (zip is rs))"
proof -
  have fst_in: "fst ir \<in> set is" if "ir \<in> set (zip is rs)" for ir using that by (metis prod.collapse set_zip_leftD)
  have img: "fst ` set (zip is rs) = set is" using l by (metis list.set_map map_fst_zip)
  have "batch_traced rx input mid calls evs0 (\<lambda>b. approvals b = approvals b0 \<and>
      done_set b = done_set b0 \<union> fst ` {ir \<in> set (zip is rs). True}) (foldM (collect_result rx input mid) b0 (zip is rs))"
  proof (rule write_phase [OF _ _ ok])
    fix b evs and ir :: "nat \<times> (go_error + string)"
    assume ir: "ir \<in> set (zip is rs)" and okb: "batch_ok mid calls b evs"
      and d: "fst ir \<in> done_set b \<longleftrightarrow> fst ir \<in> done_set b0"
    obtain i r where p: "ir = (i, r)" by fastforce
    with fst_in [OF ir] "is"(2) d have i: "i < length calls" "i \<notin> done_set b" by auto
    show "batch_traced rx input mid calls evs (\<lambda>b'. approvals b' = approvals b \<and>
        done_set b' = (if True then insert (fst ir) (done_set b) else done_set b)) (collect_result rx input mid b ir)"
      unfolding collect_result_def p by (cases r) (use write_step [OF okb i] in simp_all)
  qed (use fst_in "is" l in \<open>auto simp: map_fst_zip\<close>)
  then show ?thesis by (rule traced_weaken) (simp add: img)
qed
lemma invoke_silent: "traced g ch (invokeSubAgentHandler d svc h req timeout) (\<lambda>_. no_events)"
proof -
  have "traced g ch (invokeSubAgentHandler d svc h req timeout) (\<lambda>_ evs cs. evs = [] \<and> cs = [])"
    unfolding invokeSubAgentHandler_def
    by (auto intro!: traced_rules traced_bind [where P = "\<lambda>_ evs cs. evs = [] \<and> cs = []"]
        split: call_first.splits option.splits)
  then show ?thesis by (rule traced_weaken) (simp add: no_events_def)
qed

lemma bind_silent: "traced g ch m (\<lambda>_. no_events) \<Longrightarrow> (\<And>a. traced g ch (f a) (\<lambda>_. no_events)) \<Longrightarrow>
    traced g ch (State_Monad.bind m f) (\<lambda>_. no_events)"
  unfolding no_events_def by (rule traced_bind [where P = "\<lambda>_ evs cs. evs = []"]) auto

lemma delegate_attempts_silent:
  assumes "durable_engine (ds_run d)"
  shows "traced g ch (delegate_attempts d env rx input route tc n k b) (\<lambda>_. no_events)"
proof (induction n arbitrary: k b)
  case 0
  show ?case
    by (subst delegate_attempts.simps)
      (auto simp: no_events_def intro!: bind_silent step_silent [OF assms] silent_ops invoke_silent traced_return
        split: sum.split)
next
  case (Suc n)
  show ?case
    by (subst delegate_attempts.simps)
      (auto intro!: bind_silent step_silent [OF assms] silent_ops invoke_silent Suc.IH traced_return traced_ext
        split: sum.split option.split simp: no_events_def)
qed

lemma delegate_traced:
  assumes "durable_engine (ds_run d)"
  shows "traced (published_rs rx input) (run_object rx input) (delegateToSubAgent d env rx input tc route)
    (\<lambda>_ evs cs. filter is_closing evs = [])"
  unfolding delegateToSubAgent_def
  by (intro emit_rules traced_bind [OF delegate_attempts_silent [OF assms]]) (auto simp: no_events_def intro!: emit_rules)

lemma delegate_phase:
  assumes eng: "durable_engine (ds_run d)" and ok: "batch_ok mid calls b0 evs0"
    and "is": "distinct is" "\<And>i. i \<in> set is \<Longrightarrow> i < length calls \<and> i \<notin> done_set b0 \<and> sub_route input (calls ! i) \<noteq> None"
  shows "batch_traced rx input mid calls evs0 (\<lambda>b. done_set b = done_set b0 \<union> set is)
    (foldM (delegate_call d env rx input mid) b0 is)"
proof -
  have "batch_traced rx input mid calls evs0 (\<lambda>b. approvals b = approvals b0 \<and>
      done_set b = done_set b0 \<union> (\<lambda>i. i) ` {i \<in> set is. True}) (foldM (delegate_call d env rx input mid) b0 is)"
  proof (rule write_phase [OF _ _ ok])
    fix b evs i assume mem: "i \<in> set is" and okb: "batch_ok mid calls b evs" and d: "i \<in> done_set b \<longleftrightarrow> i \<in> done_set b0"
    with "is"(2) have i: "i < length calls" "i \<notin> done_set b" by auto
    from "is"(2) [OF mem] obtain route where route: "sub_route input (calls ! i) = Some route" by auto
    have nd: "\<not> done_at b i" using i not_done [OF okb i(1)] by simp
    let ?P = "\<lambda>b'. approvals b' = approvals b \<and> done_set b' = (if True then insert i (done_set b) else done_set b)"
    have w: "traced (published_rs rx input) (run_object rx input) (writeResult rx input mid i c f u b)
        (\<lambda>b' evs' cs. batch_ok mid calls b' (evs @ e @ evs') \<and> ?P b')" if "filter is_closing e = []" for c f u e
      using write_step [OF batch_ok_quiet [OF okb that] i] by simp
    show "batch_traced rx input mid calls evs ?P (delegate_call d env rx input mid b i)"
      unfolding delegate_call_def batch_ok_call [OF okb i(1)] route option.case if_not_P [OF nd]
      by (rule traced_bind [OF delegate_traced [OF eng]]) (use w in \<open>auto split: sum.split\<close>)
  qed (use "is" in auto)
  then show ?thesis by (rule traced_weaken) simp
qed

lemma execute_calls_traced:
  assumes "durable_engine (ds_run d)"
  shows "traced g ch (execute_calls d env rx input iter policies b is) (\<lambda>rs evs cs. length rs = length is \<and> evs = [])"
  unfolding execute_calls_def by (intro batch_silent runAsync_silent assms silent_ops)

lemma authorize_calls_traced:
  assumes "durable_engine (ds_run d)"
  shows "traced g ch (authorize_calls d env input policies b) (\<lambda>rs evs cs. length rs = length (open_calls b) \<and> evs = [])"
  unfolding authorize_calls_def by (intro batch_silent runAsync_silent assms silent_ops)

lemma run_calls_traced:
  assumes eng: "durable_engine (ds_run d)" and ok: "batch_ok mid calls b0 evs0"
  shows "batch_traced rx input mid calls evs0 (\<lambda>b. done_set b = {..<length calls})
    (run_calls d env rx input mid iter policies b0)"
proof -
  let ?n = "length calls"
  have l: "length (bs_states b0) = ?n" by (rule batch_ok_length [OF ok])
  let ?A = "filter (\<lambda>i. ts_approval (bs_states b0 ! i) = ApprovalApproved) (open_calls b0)"
  let ?S = "filter (\<lambda>i. sub_route input (call_at b0 i) \<noteq> None) ?A"
  let ?N = "filter (\<lambda>i. sub_route input (call_at b0 i) = None) ?A"
  have A: "i \<in> set ?A \<longleftrightarrow> i < ?n \<and> i \<notin> done_set b0 \<and> approvals b0 ! i = ApprovalApproved" for i
    using l by (auto simp: open_calls_set approvals_def)
  have D: "done_set b0 \<subseteq> {..<?n}" using l by (auto simp: done_set_def)
  have dist: "distinct ?S" "distinct ?N" using open_calls_set(2) [of b0] by simp_all
  let ?D1 = "done_set b0 \<union> {i. i < ?n \<and> i \<notin> done_set b0 \<and> approvals b0 ! i \<noteq> ApprovalApproved}"
  have N: "i < ?n \<and> i \<notin> ?D1" if "i \<in> set ?N" for i using that A [of i] by simp
  have S: "i < ?n \<and> i \<notin> ?D1 \<union> set ?N \<and> sub_route input (calls ! i) \<noteq> None" if "i \<in> set ?S" for i
    using that A [of i] batch_ok_call [OF ok, of i] by auto
  have all: "?D1 \<union> set ?N \<union> set ?S = {..<?n}" using A D by auto
  have last: "traced (published_rs rx input) (run_object rx input) (foldM (delegate_call d env rx input mid) b2 ?S)
      (\<lambda>b evs' cs. batch_ok mid calls b (e @ evs') \<and> done_set b = {..<?n})"
    if "batch_ok mid calls b2 e" "done_set b2 = ?D1 \<union> set ?N" for b2 e
    by (rule traced_weaken [OF delegate_phase [OF eng that(1) dist(1)]]) (use S all that(2) in auto)
  have mid2: "traced (published_rs rx input) (run_object rx input) (do {
        b2 \<leftarrow> foldM (collect_result rx input mid) b1 (zip ?N rs);
        foldM (delegate_call d env rx input mid) b2 ?S })
      (\<lambda>b evs' cs. batch_ok mid calls b (e @ evs') \<and> done_set b = {..<?n})"
    if "batch_ok mid calls b1 e" "done_set b1 = ?D1" "length rs = length ?N" for b1 e rs
  proof (rule traced_bind)
    show "batch_traced rx input mid calls e (\<lambda>b. approvals b = approvals b1 \<and> done_set b = done_set b1 \<union> set ?N)
        (foldM (collect_result rx input mid) b1 (zip ?N rs))"
      by (rule result_phase [OF that(1) dist(2) _ that(3)]) (use N that(2) in blast)
  next
    fix b2 evs cs assume "batch_ok mid calls b2 (e @ evs) \<and> approvals b2 = approvals b1 \<and> done_set b2 = done_set b1 \<union> set ?N"
    with that(2) have "batch_ok mid calls b2 (e @ evs)" "done_set b2 = ?D1 \<union> set ?N" by simp_all
    from last [OF this] show "traced (published_rs rx input) (run_object rx input)
        (foldM (delegate_call d env rx input mid) b2 ?S)
        (\<lambda>b evs' cs. batch_ok mid calls b (e @ evs @ evs') \<and> done_set b = {..<?n})" by simp
  qed
  have mid1: "traced (published_rs rx input) (run_object rx input) (do {
        b1 \<leftarrow> foldM (settle_status rx input mid) b0 [0..<length (bs_states b0)];
        b2 \<leftarrow> foldM (collect_result rx input mid) b1 (zip ?N rs);
        foldM (delegate_call d env rx input mid) b2 ?S })
      (\<lambda>b evs' cs. batch_ok mid calls b (evs0 @ evs') \<and> done_set b = {..<?n})"
    if "length rs = length ?N" for rs
    unfolding l
  proof (rule traced_bind [OF settle_phase [OF ok]])
    fix b1 evs cs assume "batch_ok mid calls b1 (evs0 @ evs) \<and> approvals b1 = approvals b0 \<and> done_set b1 = ?D1"
    then have "batch_ok mid calls b1 (evs0 @ evs)" "done_set b1 = ?D1" by simp_all
    from mid2 [OF this that] show "traced (published_rs rx input) (run_object rx input) (do {
        b2 \<leftarrow> foldM (collect_result rx input mid) b1 (zip ?N rs);
        foldM (delegate_call d env rx input mid) b2 ?S })
      (\<lambda>b evs' cs. batch_ok mid calls b (evs0 @ evs @ evs') \<and> done_set b = {..<?n})" by simp
  qed
  show ?thesis
    unfolding run_calls_def Let_def
    by (rule traced_bind [OF execute_calls_traced [OF eng]]) (use mid1 in auto)
qed
section \<open>A parallel batch\<close>

definition announced :: "string \<Rightarrow> tool_call_request \<Rightarrow> agent_event list \<Rightarrow> bool" where
  "announced mid tc evs \<longleftrightarrow> (\<exists>args. evs = ToolCallStart (tr_ToolCallID tc) (tr_ToolName tc) mid # args \<and>
     (args = [] \<or> (\<exists>a. args = [ToolCallArgs (tr_ToolCallID tc) a])))"

lemma announce_traced:
  "traced (published_rs rx input) (run_object rx input) (announce_call env rx input mid tc)
    (\<lambda>_ evs cs. announced mid tc evs)"
  unfolding announce_call_def by (auto simp: announced_def intro!: emit_rules split: option.splits)

lemma announce_all_traced:
  "traced (published_rs rx input) (run_object rx input) (mapM (announce_call env rx input mid) calls)
    (\<lambda>us evs cs. \<exists>anns. list_all2 (announced mid) calls anns \<and> evs = concat anns)"
proof (induction calls)
  case (Cons tc calls)
  have "\<exists>anns'. list_all2 (announced mid) (tc # calls) anns' \<and> evs @ evs' = concat anns'"
    if "announced mid tc evs" "list_all2 (announced mid) calls anns" "evs' = concat anns" for evs evs' anns
    using that by (intro exI [of _ "evs # anns"]) simp
  then show ?case
    unfolding mapM.simps by (intro traced_bind [OF announce_traced] traced_bind [OF Cons.IH] traced_return) fastforce
qed (auto intro: traced_return)

lemma batch_bind:
  assumes "batch_traced rx input mid calls e P m"
    and "\<And>b e'. batch_ok mid calls b (e @ e') \<Longrightarrow> P b \<Longrightarrow> batch_traced rx input mid calls (e @ e') Q (f b)"
  shows "batch_traced rx input mid calls e Q (State_Monad.bind m f)"
  by (rule traced_bind [OF assms(1)]) (use assms(2) in \<open>simp only: append.assoc\<close>)

text \<open>A call that is still open before it would run: its tool is known, its authorization was not
  denied, and if it needs an approval, one has come or can come.\<close>

definition may_run :: "'w durable \<Rightarrow> 'w restate_runtime \<Rightarrow> 'w restate_input \<Rightarrow> tool_call_request \<Rightarrow> string \<Rightarrow> bool" where
  "may_run d rx input tc status \<longleftrightarrow> \<not> IsUnknownTool tc (ri_Tools input) \<and>
     (\<exists>s1 s2 a. run_state (AuthorizeTool (ri_Tools input) (tr_ToolName tc) (tr_Args tc)) s1 = (Inr a, s2) \<and> ar_Allowed a) \<and>
     (tr_NeedsApproval tc \<longrightarrow> status = ApprovalUnavailable \<or> \<not> no_approver rx input \<and> can_answer d rx status)"

definition authorizable :: "'w restate_input \<Rightarrow> tool_call_request \<Rightarrow> bool" where
  "authorizable input tc \<longleftrightarrow>
     (\<exists>s1 s2 a. run_state (AuthorizeTool (ri_Tools input) (tr_ToolName tc) (tr_Args tc)) s1 = (Inr a, s2) \<and> ar_Allowed a)"

lemma traced_yields: "traced g ch m Q \<Longrightarrow> yields m P \<Longrightarrow> traced g ch m (\<lambda>a evs cs. Q a evs cs \<and> P a)"
  unfolding traced_def by (meson yieldsD)

lemma list_all2_at_zip: "list_all2 P xs ys \<Longrightarrow> z \<in> set (zip xs ys) \<Longrightarrow> P (fst z) (snd z)"
  by (auto simp: list_all2_iff)

lemma authorize_calls_traced':
  assumes eng: "durable_engine (ds_run d)"
  shows "traced g ch (authorize_calls d env input policies b) (\<lambda>rs evs cs. length rs = length (open_calls b) \<and> evs = [] \<and>
    (\<forall>ir \<in> set (zip (open_calls b) rs). denied (snd ir) \<or> authorizable input (call_at b (fst ir))))"
proof -
  let ?step = "\<lambda>i. runAsync d as_auth (policyToRunOpts (''tool-auth-'' @ tr_ToolCallID (call_at b i)) (pol_ToolAuth policies))
    (AuthorizeTool (ri_Tools input) (tr_ToolName (call_at b i)) (tr_Args (call_at b i)))"
  let ?P = "\<lambda>i r. denied r \<or> authorizable input (call_at b i)"
  have "yields (?step i) (?P i)" for i
    unfolding yields_def
  proof (intro allI)
    fix s
    show "?P i (fst (run_state (?step i) s))"
    proof (cases "run_state (?step i) s")
      case (Pair r s')
      show ?thesis
      proof (cases r)
        case (Inr a)
        from durable_engine.runAsync_result [OF eng refl _ Pair [unfolded Inr]]
        have "\<exists>s1 s2. run_state (AuthorizeTool (ri_Tools input) (tr_ToolName (call_at b i)) (tr_Args (call_at b i))) s1 =
            (Inr a, s2)" by simp
        then show ?thesis unfolding Pair Inr denied_def authorizable_def by auto
      next
        case (Inl e)
        show ?thesis unfolding Pair Inl denied_def by simp
      qed
    qed
  qed
  then have "yields (run_batch env (\<lambda>_. ?step) (open_calls b)) (list_all2 ?P (open_calls b))"
    by (rule run_batch_yields)
  then have "yields (authorize_calls d env input policies b) (list_all2 ?P (open_calls b))"
    unfolding authorize_calls_def .
  from traced_yields [OF authorize_calls_traced [OF eng] this] show ?thesis
  proof (rule traced_weaken)
    fix rs and evs :: "agent_event list" and cs :: counter_log
    assume h: "(length rs = length (open_calls b) \<and> evs = []) \<and> list_all2 ?P (open_calls b) rs"
    have "denied (snd ir) \<or> authorizable input (call_at b (fst ir))" if "ir \<in> set (zip (open_calls b) rs)" for ir
      using list_all2_at_zip [OF conjunct2 [OF h] that] .
    with h show "length rs = length (open_calls b) \<and> evs = [] \<and>
        (\<forall>ir \<in> set (zip (open_calls b) rs). denied (snd ir) \<or> authorizable input (call_at b (fst ir)))"
      by blast
  qed
qed

lemma gate_traced:
  assumes eng: "durable_engine (ds_run d)"
  shows "batch_traced rx input mid calls [] (\<lambda>b. \<forall>i < length calls. i \<in> done_set b \<or> may_run d rx input (calls ! i) (approvals b ! i))
    (gate_calls d env rx input mid policies calls)"
proof -
  let ?n = "[0..<length calls]"
  let ?Q = "\<lambda>b. \<forall>i < length calls. i \<in> done_set b \<or> may_run d rx input (calls ! i) (approvals b ! i)"
  let ?m4 = "\<lambda>bp. foldM (collect_approval d rx input mid) (fst bp) (snd bp)"
  let ?m3 = "\<lambda>b3. do { bp \<leftarrow> foldM (request_approval d rx input) (b3, []) ?n; ?m4 bp }"
  let ?m2 = "\<lambda>b2. do {
       auths \<leftarrow> authorize_calls d env input policies b2;
       b3 \<leftarrow> foldM (collect_auth rx input mid) b2 (zip (open_calls b2) auths);
       ?m3 b3 }"
  let ?known = "\<lambda>b. \<forall>i < length calls. IsUnknownTool (calls ! i) (ri_Tools input) \<longrightarrow> i \<in> done_set b"
  let ?auth = "\<lambda>b. \<forall>i < length calls. i \<in> done_set b \<or> authorizable input (calls ! i)"
  let ?T = "batch_traced rx input mid calls"
  have 4: "?T e ?Q (?m4 bp)" if "batch_ok mid calls (fst bp) e" "?known (fst bp)" "?auth (fst bp)"
    "pending_ok calls (no_approver rx input) {..<length calls} bp" for bp e
  proof (rule traced_weaken [OF collect_phase [OF that(1,4)]])
    fix b and evs :: "agent_event list" and cs :: counter_log
    assume c: "batch_ok mid calls b (e @ evs) \<and> done_set (fst bp) \<subseteq> done_set b \<and>
      (\<forall>i < length calls. i \<in> done_set b \<or> (if i \<in> fst ` set (snd bp) then can_answer d rx (approvals b ! i)
         else approvals b ! i = approvals (fst bp) ! i))"
    have "i \<in> done_set b \<or> may_run d rx input (calls ! i) (approvals b ! i)" if i: "i < length calls" for i
    proof (cases "i \<in> done_set b")
      case nd: False
      define F where "F = fst ` set (snd bp)"
      from c nd have nd0: "i \<notin> done_set (fst bp)" by blast
      from c nd i have a: "if i \<in> F then can_answer d rx (approvals b ! i) else approvals b ! i = approvals (fst bp) ! i"
        unfolding F_def by blast
      have "if no_approver rx input then approvals (fst bp) ! i = ApprovalUnavailable else i \<in> F"
        if "tr_NeedsApproval (calls ! i)"
        using \<open>pending_ok calls (no_approver rx input) {..<length calls} bp\<close> i nd0 that
        unfolding pending_ok_def F_def by (cases "no_approver rx input") auto
      moreover have "F = {}" if "no_approver rx input" "tr_NeedsApproval (calls ! i)" "i \<in> F"
        using that \<open>pending_ok calls (no_approver rx input) {..<length calls} bp\<close> by (auto simp: pending_ok_def F_def)
      ultimately have "may_run d rx input (calls ! i) (approvals b ! i)"
        using \<open>?known (fst bp)\<close> \<open>?auth (fst bp)\<close> i nd0 a unfolding may_run_def authorizable_def
        by (auto split: if_splits)
      then show ?thesis ..
    qed simp
    with c show "batch_ok mid calls b (e @ evs) \<and> ?Q b" by blast
  qed
  have 3: "?T e ?Q (?m3 b3)" if "batch_ok mid calls b3 e" "?known b3" "?auth b3" for b3 e
  proof (rule traced_bind [OF request_phase [OF that(1)]])
    fix bp and evs :: "agent_event list" and cs :: counter_log
    assume "batch_ok mid calls (fst bp) (e @ evs) \<and> done_set (fst bp) = done_set b3 \<and>
      pending_ok calls (no_approver rx input) {..<length calls} bp"
    with that(2,3) have "?T (e @ evs) ?Q (?m4 bp)" by (intro 4) auto
    then show "traced (published_rs rx input) (run_object rx input) (?m4 bp)
        (\<lambda>b evs' cs'. batch_ok mid calls b (e @ evs @ evs') \<and> ?Q b)"
      by (simp only: append.assoc)
  qed
  have 2: "?T e ?Q (?m2 b2)" if "batch_ok mid calls b2 e" "?known b2" for b2 e
  proof (rule traced_bind [OF authorize_calls_traced' [OF eng]])
    fix auths :: "(go_error + authorize_result) list" and evs :: "agent_event list" and cs :: counter_log
    assume a: "length auths = length (open_calls b2) \<and> evs = [] \<and>
      (\<forall>ir \<in> set (zip (open_calls b2) auths). denied (snd ir) \<or> authorizable input (call_at b2 (fst ir)))"
    then have l: "length auths = length (open_calls b2)" by simp
    have au: "?auth b" if c: "done_set b2 \<subseteq> done_set b"
      "\<forall>ir \<in> set (zip (open_calls b2) auths). denied (snd ir) \<longrightarrow> fst ir \<in> done_set b" for b
    proof (intro allI impI)
      fix i assume i: "i < length calls"
      show "i \<in> done_set b \<or> authorizable input (calls ! i)"
      proof (cases "i \<in> set (open_calls b2)")
        case True
        then obtain r where "(i, r) \<in> set (zip (open_calls b2) auths)"
          using l by (metis in_set_impl_in_set_zip1)
        with a c(2) batch_ok_call [OF \<open>batch_ok mid calls b2 e\<close> i] show ?thesis by fastforce
      next
        case False
        with c(1) i batch_ok_length [OF \<open>batch_ok mid calls b2 e\<close>] show ?thesis by (auto simp: open_calls_set(1))
      qed
    qed
    have "?T e ?Q (do { b3 \<leftarrow> foldM (collect_auth rx input mid) b2 (zip (open_calls b2) auths); ?m3 b3 })"
      by (rule batch_bind [OF auth_phase [OF \<open>batch_ok mid calls b2 e\<close> l]]) (rule 3; use au \<open>?known b2\<close> in blast)
    with a show "traced (published_rs rx input) (run_object rx input)
        (do { b3 \<leftarrow> foldM (collect_auth rx input mid) b2 (zip (open_calls b2) auths); ?m3 b3 })
        (\<lambda>b evs' cs'. batch_ok mid calls b (e @ evs @ evs') \<and> ?Q b)" by simp
  qed
  have 1: "?T e ?Q (do { b2 \<leftarrow> foldM (tripped_call rx input mid) b1 ?n; ?m2 b2 })"
    if "batch_ok mid calls b1 e" "?known b1" for b1 e
    by (rule batch_bind [OF tripped_phase [OF that(1)]]) (rule 2; use that(2) in blast)
  have "?T [] ?Q (do { b1 \<leftarrow> foldM (unknown_call rx input mid) (batch_start calls) ?n;
      b2 \<leftarrow> foldM (tripped_call rx input mid) b1 ?n; ?m2 b2 })"
    by (rule batch_bind [OF unknown_phase]) (rule 1)
  then show ?thesis unfolding gate_calls_def Let_def .
qed

lemma run_parallel_traced:
  assumes eng: "durable_engine (ds_run d)"
  shows "traced (published_rs rx input) (run_object rx input) (run_parallel d env rx input mid iter policies calls)
    (\<lambda>b evs cs. \<exists>anns rest. list_all2 (announced mid) calls anns \<and> evs = concat anns @ rest \<and>
       batch_ok mid calls b rest \<and> done_set b = {..<length calls})"
proof -
  have "batch_traced rx input mid calls [] (\<lambda>b. done_set b = {..<length calls})
      (do { b \<leftarrow> gate_calls d env rx input mid policies calls; run_calls d env rx input mid iter policies b })"
    by (rule batch_bind [OF gate_traced [OF eng]]) (rule run_calls_traced [OF eng])
  then show ?thesis
    unfolding run_parallel_def
    by (intro traced_bind [OF announce_all_traced]) (erule traced_weaken, fastforce)
qed

text \<open>C9. Every call of a parallel batch is announced first and closed once: up to the run's filter, the
  events of a batch are the announcements of all calls in order, each a start and perhaps the
  arguments, and then events among which the closing ones are, in some order of the calls, one end
  and one result per call, with the very content of the message that the model reads. The messages
  stand in the order of the calls, whatever is denied, rejected, failing or timing out and in
  whatever order the goroutines run.\<close>

theorem restate_batch_closed:
  assumes "durable_engine (ds_run d)" "2 \<le> length calls"
  shows "case run_state (executeToolsParallel_rs d env rx input mid iter policies calls) s of (rs, s') \<Rightarrow>
    \<exists>anns rest order. w_events s' = w_events s @ map (Pair (run_object rx input))
        (filter (published_rs rx input) (concat anns @ rest)) \<and>
      list_all2 (announced mid) calls anns \<and> mset order = mset [0..<length calls] \<and>
      filter is_closing rest = concat (map (\<lambda>i. closing mid (calls ! i) (rs ! i)) order) \<and>
      list_all2 answers_call calls rs"
proof -
  obtain b s' where b: "run_state (run_parallel d env rx input mid iter policies calls) s = (b, s')" by fastforce
  then have rs: "run_state (executeToolsParallel_rs d env rx input mid iter policies calls) s = (bs_results b, s')"
    using assms(2) by (auto simp: executeToolsParallel_rs_def)
  from tracedD [OF run_parallel_traced [OF assms(1)] b] obtain anns rest where t:
    "w_events s' = w_events s @ map (Pair (run_object rx input)) (filter (published_rs rx input) (concat anns @ rest))"
    "list_all2 (announced mid) calls anns" "batch_ok mid calls b rest" "done_set b = {..<length calls}" by blast
  from t(3) obtain order where o: "closed_by mid calls b rest order" and len: "length (bs_results b) = length calls"
    unfolding batch_ok_def by blast
  have all: "set order = {0..<length calls}"
    using o t(3,4) batch_ok_length [OF t(3)] by (auto simp: closed_by_def done_set_def)
  then have "mset order = mset [0..<length calls]"
    using o by (metis closed_by_def distinct_upt set_eq_iff_mset_eq_distinct set_upt)
  moreover have "list_all2 answers_call calls (bs_results b)"
    using o all len by (auto simp: closed_by_def list_all2_conv_all_nth)
  ultimately show ?thesis
    unfolding rs prod.case using t(1,2) o by (intro exI conjI) (auto simp: closed_by_def)
qed
text \<open>A runtime whose engine retries, and a batch of two calls that need approvals.\<close>

definition sample_durable :: "nat durable" where
  "sample_durable = \<lparr>ds_run = (\<lambda>opts. executeWithPolicy quiet_ctx once),
     ds_decodeError = (\<lambda>_. ErrNew ''decode''), ds_awakeable = State_Monad.return ''token'',
     ds_wait = (\<lambda>token timeout. State_Monad.return (AwakeFirst (Inr ApprovalApproved))),
     ds_request = (\<lambda>svc h req. State_Monad.return (Inr None)),
     ds_requestFuture = (\<lambda>svc h req t. State_Monad.return (CallFirst (Inr None))),
     ds_cancelInvocation = (\<lambda>i. State_Monad.return ()), ds_sleep = (\<lambda>t. State_Monad.return None),
     ds_sendClear = (\<lambda>svc topic delay. State_Monad.return ()),
     ds_isTerminal = (\<lambda>_. False), ds_toTerminal = (\<lambda>e. e)\<rparr>"

lemma sample_engine: "durable_engine (ds_run sample_durable)"
  using retrying.durable_engine_axioms [of quiet_ctx "\<lambda>_. once"] by (simp add: sample_durable_def)

definition sample_restate :: "nat restate_runtime" where
  "sample_restate = \<lparr>rx_base = ok_runtime, rx_hasApprovalHandler = True,
     rx_agentLoopServiceName = ''AgentLoop_agent'', rx_eventLogServiceName = ''AgentEventLog_agent'',
     rx_hasIngress = True, rx_DisableClear = False, rx_TTL = 0, rx_resolver = None\<rparr>"

definition sample_core :: agent_loop_core where
  "sample_core = \<lparr>ac_RunID = ''r'', ac_UserPrompt = ''hello'', ac_ConversationID = '''', ac_EventTopic = '''',
     ac_EventLogService = '''', ac_EventTypes = [AgentEventAll], ac_MaxSubAgentDepth = 2, ac_SubAgentDepth = 0,
     ac_SubAgentRoutes = [], ac_MemoryScope = alice\<rparr>"

definition sample_restate_input :: "nat restate_input" where
  "sample_restate_input = \<lparr>ri_core = sample_core, ri_StreamingEnabled = False, ri_IsStreamHandler = True,
     ri_Tools = [echo_tool ''echo''], ri_circuitBreaker = None, ri_circuitNow = 0\<rparr>"

definition two_calls :: "tool_call_request list" where
  "two_calls = [gated_call, gated_call\<lparr>tr_ToolCallID := ''c2'', tr_ToolName := ''nope''\<rparr>]"

theorem restate_batch_closed_witness:
  "case run_state (executeToolsParallel_rs sample_durable sample_env sample_restate sample_restate_input ''m'' 0
      (executionPolicies_rs sample_restate) two_calls) (new_world 0) of (rs, s') \<Rightarrow>
    \<exists>anns rest order. w_events s' = map (Pair (run_object sample_restate sample_restate_input))
        (filter (published_rs sample_restate sample_restate_input) (concat anns @ rest)) \<and>
      mset order = mset [0, 1] \<and>
      filter is_closing rest = concat (map (\<lambda>i. closing ''m'' (two_calls ! i) (rs ! i)) order)"
proof -
  have "2 \<le> length two_calls" by (simp add: two_calls_def)
  from restate_batch_closed [where env = sample_env and rx = sample_restate and input = sample_restate_input
      and mid = "''m''" and iter = 0 and policies = "executionPolicies_rs sample_restate" and s = "new_world 0",
      OF sample_engine this]
  have *: "case run_state (executeToolsParallel_rs sample_durable sample_env sample_restate sample_restate_input ''m'' 0
      (executionPolicies_rs sample_restate) two_calls) (new_world 0) of (rs, s') \<Rightarrow>
    \<exists>anns rest order. w_events s' = w_events (new_world (0 :: nat)) @ map (Pair (run_object sample_restate sample_restate_input))
        (filter (published_rs sample_restate sample_restate_input) (concat anns @ rest)) \<and>
      list_all2 (announced ''m'') two_calls anns \<and> mset order = mset [0..<length two_calls] \<and>
      filter is_closing rest = concat (map (\<lambda>i. closing ''m'' (two_calls ! i) (rs ! i)) order) \<and>
      list_all2 answers_call two_calls rs" .
  have "w_events (new_world (0 :: nat)) = []" "[0..<length two_calls] = [0, 1]" by (simp_all add: new_world_def two_calls_def)
  with * show ?thesis by (auto split: prod.splits)
qed

end
