(* ===== verification/Restate_Safety.thy ===== *)
theory Restate_Safety
  imports Restate_Calls
begin

text \<open>
  Which tools a round of the Restate runtime runs, and how its runs are bounded.
\<close>

section \<open>Calls that are not allowed\<close>

text \<open>The same tools, with other implementations for some names.\<close>

definition rearm_only :: "string set \<Rightarrow> (string \<Rightarrow> tool_exec_meta option \<Rightarrow> go_args \<Rightarrow> ('w, go_error + tool_value) state) \<Rightarrow>
    'w tool list \<Rightarrow> 'w tool list" where
  "rearm_only N f tools = map (\<lambda>t. if tl_Name t \<in> N then t\<lparr>tl_Execute := f (tl_Name t)\<rparr> else t) tools"

lemma FindToolByName_rearm_only: "FindToolByName (rearm_only N f tools) name =
    map_option (\<lambda>t. if name \<in> N then t\<lparr>tl_Execute := f name\<rparr> else t) (FindToolByName tools name)"
  by (induction tools) (auto simp: rearm_only_def)

lemma rearm_only_simps [simp]:
  "IsUnknownTool tc (rearm_only N f tools) = IsUnknownTool tc tools"
  "AuthorizeTool (rearm_only N f tools) name args = AuthorizeTool tools name args"
  by (simp_all add: IsUnknownTool_def AuthorizeTool_def FindToolByName_rearm_only)
    (cases "FindToolByName tools name"; simp)

abbreviation rearmed :: "string set \<Rightarrow> (string \<Rightarrow> tool_exec_meta option \<Rightarrow> go_args \<Rightarrow> ('w, go_error + tool_value) state) \<Rightarrow>
    'w restate_input \<Rightarrow> 'w restate_input" where
  "rearmed N f input \<equiv> input\<lparr>ri_Tools := rearm_only N f (ri_Tools input)\<rparr>"

lemma tool_input_simps [simp]:
  "exec_meta env (x\<lparr>xt_Tools := ts\<rparr>) = exec_meta env x"
  "runBeforeToolHooks rt (x\<lparr>xt_Tools := ts\<rparr>) = runBeforeToolHooks rt x"
  "runAfterToolHooks rt (x\<lparr>xt_Tools := ts\<rparr>) = runAfterToolHooks rt x"
  "executeRetrieverTool rt (x\<lparr>xt_Tools := ts\<rparr>) = executeRetrieverTool rt x"
  "executeSaveMemoryTool env rt (x\<lparr>xt_Tools := ts\<rparr>) = executeSaveMemoryTool env rt x"
  by (simp_all add: fun_eq_iff exec_meta_def runBeforeToolHooks_def runAfterToolHooks_def
      executeRetrieverTool_def executeSaveMemoryTool_def IdempotencyKey_def toolCallForHooks_def Let_def
      cong: branch_congs tool_value.case_cong)

lemma execute_and_hook_tools [simp]: "execute_and_hook env rt (x\<lparr>xt_Tools := ts\<rparr>) = execute_and_hook env rt x"
  by (simp add: fun_eq_iff execute_and_hook_def cong: branch_congs)

lemma run_tool_tools [simp]: "run_tool env rt (x\<lparr>xt_Tools := ts\<rparr>) = run_tool env rt x"
  by (simp add: fun_eq_iff run_tool_def cong: branch_congs)

lemma ExecuteTool_tools: "FindToolByName ts (xt_ToolName x) = FindToolByName (xt_Tools x) (xt_ToolName x) \<Longrightarrow>
    ExecuteTool env rt (x\<lparr>xt_Tools := ts\<rparr>) scope = ExecuteTool env rt x scope"
  by (simp add: ExecuteTool_def executeTool_def cong: branch_congs)

lemma ExecuteTool_rearmed:
  assumes "tr_ToolName tc \<notin> N"
  shows "ExecuteTool env rt (execute_input (rearmed N f input) iter tc) scope = ExecuteTool env rt (execute_input input iter tc) scope"
proof -
  have "execute_input (rearmed N f input) iter tc = (execute_input input iter tc)\<lparr>xt_Tools := rearm_only N f (ri_Tools input)\<rparr>"
    by (simp add: execute_input_def)
  moreover have "FindToolByName (rearm_only N f (ri_Tools input)) (tr_ToolName tc) = FindToolByName (ri_Tools input) (tr_ToolName tc)"
    using assms by (simp add: FindToolByName_rearm_only option.map_ident)
  ultimately show ?thesis
    using ExecuteTool_tools [of "rearm_only N f (ri_Tools input)" "execute_input input iter tc"]
    by (simp add: execute_input_def)
qed

lemma other_tools_rs [simp]:
  "emit_rs rx (input\<lparr>ri_Tools := ts\<rparr>) = emit_rs rx input"
  "emitToolComplete rx (input\<lparr>ri_Tools := ts\<rparr>) = emitToolComplete rx input"
  "announce_call env rx (input\<lparr>ri_Tools := ts\<rparr>) = announce_call env rx input"
  "sub_route (input\<lparr>ri_Tools := ts\<rparr>) = sub_route input"
  "child_request rx (input\<lparr>ri_Tools := ts\<rparr>) = child_request rx input"
  "no_approver rx (input\<lparr>ri_Tools := ts\<rparr>) = no_approver rx input"
  "check_tripped_rs (input\<lparr>ri_Tools := ts\<rparr>) = check_tripped_rs input"
  by (simp_all add: fun_eq_iff emit_rs_def emitToolComplete_def announce_call_def sub_route_def child_request_def
      no_approver_def check_tripped_rs_def cong: branch_congs)

lemma other_tools_calls [simp]:
  "finish_call_rs rx (input\<lparr>ri_Tools := ts\<rparr>) = finish_call_rs rx input"
  "writeResult rx (input\<lparr>ri_Tools := ts\<rparr>) = writeResult rx input"
  "emitApprovalRequest d rx (input\<lparr>ri_Tools := ts\<rparr>) = emitApprovalRequest d rx input"
  by (simp_all add: fun_eq_iff finish_call_rs_def writeResult_def emitApprovalRequest_def cong: branch_congs)

lemma other_tools_more [simp]:
  "awaitApproval d rx (input\<lparr>ri_Tools := ts\<rparr>) = awaitApproval d rx input"
  "tripped_call rx (input\<lparr>ri_Tools := ts\<rparr>) = tripped_call rx input"
  "collect_auth rx (input\<lparr>ri_Tools := ts\<rparr>) = collect_auth rx input"
  "request_approval d rx (input\<lparr>ri_Tools := ts\<rparr>) = request_approval d rx input"
  "collect_approval d rx (input\<lparr>ri_Tools := ts\<rparr>) = collect_approval d rx input"
  "settle_status rx (input\<lparr>ri_Tools := ts\<rparr>) = settle_status rx input"
  "collect_result rx (input\<lparr>ri_Tools := ts\<rparr>) = collect_result rx input"
  by (simp_all add: fun_eq_iff awaitApproval_def tripped_call_def collect_auth_def request_approval_def
      collect_approval_def settle_status_def collect_result_def Let_def cong: branch_congs)

lemma delegate_attempts_tools: "delegate_attempts d env rx (input\<lparr>ri_Tools := ts\<rparr>) route tc n k b =
    delegate_attempts d env rx input route tc n k b"
  by (induction n arbitrary: k b) (simp_all add: delegate_attempts.simps cong: branch_congs)

lemma delegate_tools [simp]:
  "delegateToSubAgent d env rx (input\<lparr>ri_Tools := ts\<rparr>) = delegateToSubAgent d env rx input"
  "delegate_call d env rx (input\<lparr>ri_Tools := ts\<rparr>) = delegate_call d env rx input"
  by (simp_all add: fun_eq_iff delegateToSubAgent_def delegate_call_def delegate_attempts_tools cong: branch_congs)

lemma unknown_call_rearmed [simp]: "unknown_call rx (rearmed N f input) = unknown_call rx input"
  by (simp add: fun_eq_iff unknown_call_def cong: branch_congs)

lemma authorize_calls_rearmed [simp]: "authorize_calls d env (rearmed N f input) = authorize_calls d env input"
  by (simp add: fun_eq_iff authorize_calls_def)

lemma gate_calls_rearmed [simp]: "gate_calls d env rx (rearmed N f input) = gate_calls d env rx input"
  by (simp add: fun_eq_iff gate_calls_def)

text \<open>A call that must not be executed: its name is unknown, no execution of the authorizer allows it,
  or it needs an approval that nobody can give or that never comes.\<close>

definition barred_rs :: "'w durable \<Rightarrow> 'w restate_runtime \<Rightarrow> 'w restate_input \<Rightarrow> tool_call_request \<Rightarrow> bool" where
  "barred_rs d rx input tc \<longleftrightarrow> IsUnknownTool tc (ri_Tools input) \<or> \<not> authorizable input tc \<or>
     tr_NeedsApproval tc \<and> (no_approver rx input \<or> \<not> can_answer d rx ApprovalApproved)"

lemma may_run_not_barred: "may_run d rx input tc ApprovalApproved \<Longrightarrow> \<not> barred_rs d rx input tc"
  by (auto simp: may_run_def barred_rs_def authorizable_def ApprovalUnavailable_def ApprovalApproved_def)

text \<open>The calls of a batch run the tools of the calls that may run.\<close>

lemma foldM_same: "(\<And>a x. x \<in> set xs \<Longrightarrow> f a x = g a x) \<Longrightarrow> foldM f a xs = foldM g a xs"
  by (induction xs arbitrary: a) simp_all

lemma run_batch_cong:
  assumes "\<And>i x. x \<in> set xs \<Longrightarrow> f i x = g i x"
  shows "run_batch env f xs = run_batch env g xs"
proof -
  have "foldM (batch_slot f xs) m (schedule (length xs) order) = foldM (batch_slot g xs) m (schedule (length xs) order)" for m order
    by (rule foldM_same) (use assms in \<open>simp add: batch_slot_def\<close>)
  then show ?thesis by (simp add: run_batch_def)
qed

lemma run_calls_rearmed:
  assumes "\<And>i. i < length (bs_states b) \<Longrightarrow> \<not> done_at b i \<Longrightarrow> ts_approval (bs_states b ! i) = ApprovalApproved \<Longrightarrow>
      tr_ToolName (call_at b i) \<notin> N"
  shows "run_calls d env rx (rearmed N f input) mid iter policies b = run_calls d env rx input mid iter policies b"
proof -
  have c: "execute_calls d env rx (rearmed N f input) iter policies b is = execute_calls d env rx input iter policies b is"
    if "set is \<subseteq> {i. i < length (bs_states b) \<and> \<not> done_at b i \<and> ts_approval (bs_states b ! i) = ApprovalApproved}" for "is"
  proof -
    have "run_batch env (\<lambda>_ i. runAsync d as_string
       (policyToRunOpts (''tool-exec-'' @ tr_ToolCallID (call_at b i))
         (toolExecutionPolicy_rs (tr_ToolKind (call_at b i)) policies))
       (ExecuteTool env (rx_base rx) (execute_input (rearmed N f input) iter (call_at b i)) (ac_MemoryScope (ri_core input)))) is =
      run_batch env (\<lambda>_ i. runAsync d as_string
       (policyToRunOpts (''tool-exec-'' @ tr_ToolCallID (call_at b i))
         (toolExecutionPolicy_rs (tr_ToolKind (call_at b i)) policies))
       (ExecuteTool env (rx_base rx) (execute_input input iter (call_at b i)) (ac_MemoryScope (ri_core input)))) is"
      by (rule run_batch_cong) (use assms that in \<open>auto simp: ExecuteTool_rearmed\<close>)
    then show ?thesis by (simp add: execute_calls_def)
  qed
  show ?thesis
    by (simp add: run_calls_def Let_def, subst c) (auto simp: open_calls_def)
qed

lemma run_parallel_rearmed:
  assumes eng: "durable_engine (ds_run d)" and b: "\<forall>tc \<in> set calls. tr_ToolName tc \<in> N \<longrightarrow> barred_rs d rx input tc"
  shows "run_state (run_parallel d env rx (rearmed N f input) mid iter policies calls) s =
    run_state (run_parallel d env rx input mid iter policies calls) s"
  unfolding run_parallel_def other_tools_rs gate_calls_rearmed
proof (rule bind_run_cong, rule bind_run_cong)
  fix us s1 bt s2 assume g: "run_state (gate_calls d env rx input mid policies calls) s1 = (bt, s2)"
  from tracedD [OF gate_traced [OF eng] g] obtain evs where
    ok: "batch_ok mid calls bt evs" and q: "\<forall>i < length calls. i \<in> done_set bt \<or> may_run d rx input (calls ! i) (approvals bt ! i)"
    by auto
  have "run_calls d env rx (rearmed N f input) mid iter policies bt = run_calls d env rx input mid iter policies bt"
  proof (rule run_calls_rearmed)
    fix i assume i: "i < length (bs_states bt)" "\<not> done_at bt i" "ts_approval (bs_states bt ! i) = ApprovalApproved"
    then have l: "i < length calls" using batch_ok_length [OF ok] by simp
    from i have "i \<notin> done_set bt" "approvals bt ! i = ApprovalApproved" by (auto simp: done_set_def approvals_def)
    with q l have "may_run d rx input (calls ! i) ApprovalApproved" by metis
    with b l show "tr_ToolName (call_at bt i) \<notin> N"
      unfolding batch_ok_call [OF ok l] using may_run_not_barred nth_mem by blast
  qed
  then show "run_state (run_calls d env rx (rearmed N f input) mid iter policies bt) s2 =
      run_state (run_calls d env rx input mid iter policies bt) s2" by simp
qed

text \<open>One call, as the sequential mode makes it.\<close>

lemma authorized_rs_rearmed:
  assumes eng: "durable_engine (ds_run d)" and b: "tr_ToolName tc \<in> N \<longrightarrow> barred_rs d rx input tc"
    and known: "\<not> IsUnknownTool tc (ri_Tools input)"
  shows "run_state (authorized_rs d env rx (rearmed N f input) mid iter policies tc) s =
    run_state (authorized_rs d env rx input mid iter policies tc) s"
proof -
  let ?in = "rearmed N f input"
  let ?auth = "step_with d as_auth (''tool-auth-'' @ tr_ToolCallID tc) (pol_ToolAuth policies)
      (AuthorizeTool (ri_Tools input) (tr_ToolName tc) (tr_Args tc))"
  have other: "dispatch_rs d env rx ?in mid iter policies tc st = dispatch_rs d env rx input mid iter policies tc st"
    if "tr_ToolName tc \<notin> N \<or> st \<noteq> ApprovalApproved" for st
    using that by (auto simp: dispatch_rs_def ExecuteTool_rearmed cong: branch_congs)
  have auth: "authorizable input tc" if r: "run_state ?auth s0 = (Inr a, s1)" and "ar_Allowed a" for s0 a s1
    using durable_engine.step_result [OF eng refl _ r] that(2) by (auto simp: authorizable_def)
  have never: "st \<noteq> ApprovalApproved" if "run_state (awaitApproval d rx input tc) s0 = (Inr st, s1)"
    "\<not> can_answer d rx ApprovalApproved" for st s0 s1
    using that unfolding awaitApproval_def can_answer_def by (auto split: prod.splits) (metis fst_conv)
  have "run_state (State_Monad.bind (if \<not> tr_NeedsApproval tc then State_Monad.return (Inr ApprovalApproved)
        else if no_approver rx input then State_Monad.return (Inr ApprovalUnavailable)
        else awaitApproval d rx input tc) (\<lambda>status. case status of Inl err \<Rightarrow> State_Monad.return (Inl err)
         | Inr st \<Rightarrow> dispatch_rs d env rx ?in mid iter policies tc st)) s1 =
      run_state (State_Monad.bind (if \<not> tr_NeedsApproval tc then State_Monad.return (Inr ApprovalApproved)
        else if no_approver rx input then State_Monad.return (Inr ApprovalUnavailable)
        else awaitApproval d rx input tc) (\<lambda>status. case status of Inl err \<Rightarrow> State_Monad.return (Inl err)
         | Inr st \<Rightarrow> dispatch_rs d env rx input mid iter policies tc st)) s1" (is "?gate s1")
    if "authorizable input tc" for s1
  proof (rule bind_run_cong)
    fix r s2 assume r: "run_state (if \<not> tr_NeedsApproval tc then State_Monad.return (Inr ApprovalApproved)
        else if no_approver rx input then State_Monad.return (Inr ApprovalUnavailable)
        else awaitApproval d rx input tc) s1 = (r, s2)"
    have "ApprovalUnavailable \<noteq> ApprovalApproved" by (simp add: ApprovalUnavailable_def ApprovalApproved_def)
    then have "tr_ToolName tc \<notin> N \<or> st \<noteq> ApprovalApproved" if "r = Inr st" for st
      using b known \<open>authorizable input tc\<close> r that
      by (auto simp: barred_rs_def split: if_splits dest!: never)
    with other show "run_state (case r of Inl err \<Rightarrow> State_Monad.return (Inl err)
         | Inr st \<Rightarrow> dispatch_rs d env rx ?in mid iter policies tc st) s2 =
       run_state (case r of Inl err \<Rightarrow> State_Monad.return (Inl err)
         | Inr st \<Rightarrow> dispatch_rs d env rx input mid iter policies tc st) s2" by (cases r) auto
  qed
  note gate = this
  have e: "AuthorizeTool (ri_Tools ?in) (tr_ToolName tc) (tr_Args tc) = AuthorizeTool (ri_Tools input) (tr_ToolName tc) (tr_Args tc)"
    by simp
  show ?thesis
    unfolding authorized_rs_def other_tools_rs other_tools_calls other_tools_more e
  proof (rule bind_run_cong, goal_cases)
    case (1 r s1)
    show ?case
    proof (cases r)
      case (Inr a)
      show ?thesis
      proof (cases "ar_Allowed a")
        case True
        with gate [OF auth [OF 1 [unfolded Inr]]] True show ?thesis
          unfolding Inr by (simp only: sum.case not_True_eq_False if_False)
      qed (simp add: Inr)
    qed simp
  qed
qed

lemma settle_rs_rearmed:
  assumes "durable_engine (ds_run d)" "tr_ToolName tc \<in> N \<longrightarrow> barred_rs d rx input tc"
  shows "settle_rs d env rx (rearmed N f input) mid iter policies tc = settle_rs d env rx input mid iter policies tc"
proof (rule state.expand, rule ext)
  fix s
  show "run_state (settle_rs d env rx (rearmed N f input) mid iter policies tc) s = run_state (settle_rs d env rx input mid iter policies tc) s"
  proof (cases "IsUnknownTool tc (ri_Tools input)")
    case True
    then show ?thesis by (simp add: settle_rs_def executeSingleTool_rs_def)
  next
    case False
    have e: "run_state (executeSingleTool_rs d env rx (rearmed N f input) mid iter policies tc) s =
        run_state (executeSingleTool_rs d env rx input mid iter policies tc) s" for s
      unfolding executeSingleTool_rs_def other_tools_rs other_tools_calls rearm_only_simps
      by (intro bind_run_cong) (use False in \<open>auto intro!: bind_run_cong authorized_rs_rearmed assms simp del: run_state_bind\<close>)
    show ?thesis unfolding settle_rs_def by (simp add: e)
  qed
qed

text \<open>C5. The gates of a round: if every call whose tool's name is in a set is barred, then the round returns the
  same results and leaves the same world, events and metrics included, whatever the implementations of
  the tools of that set are. No tool of the set is executed, neither in the parallel batch, where the
  steps of the calls interleave, nor in the sequential mode.\<close>

theorem restate_barred_runs_nothing:
  assumes "durable_engine (ds_run d)" "\<forall>tc \<in> set calls. tr_ToolName tc \<in> N \<longrightarrow> barred_rs d rx input tc"
  shows "run_state (execute_tools_rs d env rx (input\<lparr>ri_Tools := rearm_only N f (ri_Tools input)\<rparr>) mid iter policies calls) s =
    run_state (execute_tools_rs d env rx input mid iter policies calls) s"
proof -
  have s: "executeToolsSequential_rs d env rx (rearmed N f input) mid iter policies calls =
      executeToolsSequential_rs d env rx input mid iter policies calls"
    unfolding executeToolsSequential_rs_def using assms(2)
    by (induction calls) (simp_all add: settle_rs_rearmed [OF assms(1)])
  have "run_parallel d env rx (rearmed N f input) mid iter policies calls = run_parallel d env rx input mid iter policies calls"
    by (rule state.expand, rule ext, rule run_parallel_rearmed [OF assms])
  with s have "executeToolsParallel_rs d env rx (rearmed N f input) mid iter policies calls =
      executeToolsParallel_rs d env rx input mid iter policies calls"
    by (simp add: executeToolsParallel_rs_def)
  with s show ?thesis by (simp add: execute_tools_rs_def Let_def)
qed

theorem restate_barred_runs_nothing_witness:
  "run_state (execute_tools_rs sample_durable sample_env (sample_restate\<lparr>rx_hasApprovalHandler := False\<rparr>)
      (sample_restate_input\<lparr>ri_IsStreamHandler := False, ri_Tools := rearm_only UNIV boom (ri_Tools sample_restate_input)\<rparr>)
      ''m'' 0 (executionPolicies_rs sample_restate) two_calls) (new_world 0) =
   run_state (execute_tools_rs sample_durable sample_env (sample_restate\<lparr>rx_hasApprovalHandler := False\<rparr>)
      (sample_restate_input\<lparr>ri_IsStreamHandler := False\<rparr>) ''m'' 0 (executionPolicies_rs sample_restate) two_calls) (new_world 0)"
proof -
  have "\<forall>tc \<in> set two_calls. tr_ToolName tc \<in> UNIV \<longrightarrow> barred_rs sample_durable (sample_restate\<lparr>rx_hasApprovalHandler := False\<rparr>)
      (sample_restate_input\<lparr>ri_IsStreamHandler := False\<rparr>) tc"
    by (simp add: barred_rs_def two_calls_def gated_call_def no_approver_def)
  from restate_barred_runs_nothing [OF sample_engine this, where f = boom and env = sample_env and mid = "''m''" and iter = 0
      and policies = "executionPolicies_rs sample_restate" and s = "new_world 0"]
  show ?thesis by simp
qed

end
