(* ===== verification/Restate_Runs.thy ===== *)
theory Restate_Runs
  imports Restate_Safety
begin

text \<open>
  The runs of the Restate runtime: they end, within the local runtime's number of LLM calls, whatever
  the engine journals; what a breach of the budget does; and what a run publishes.
\<close>

section \<open>Termination\<close>

lemma decision_rs_yields:
  assumes "durable_engine (ds_run d)"
  shows "yields (step_with d as_decision name policy (do { x \<leftarrow> DecideMaxIterations cfg info already; State_Monad.return (Inr x) }))
    (\<lambda>r. case r of Inl _ \<Rightarrow> True | Inr dec \<Rightarrow> ec_Action dec = ErrorControlExtendIterations \<longrightarrow>
       \<not> already \<and> 1 \<le> ec_ExtraIterations dec \<and> ec_ExtraIterations dec \<le> EffectiveMaxIterations (mi_MaxIterations info))"
    (is "yields ?m ?P")
  unfolding yields_def
proof
  fix s
  obtain r s' where r: "run_state ?m s = (r, s')" by fastforce
  show "?P (fst (run_state ?m s))"
  proof (cases r)
    case (Inr dec)
    from durable_engine.step_result [OF assms refl _ r [unfolded Inr]] obtain s1 s2 where
      "run_state (do { x \<leftarrow> DecideMaxIterations cfg info already; State_Monad.return (Inr x :: go_error + _) }) s1 = (Inr dec, s2)"
      by auto
    then have "run_state (DecideMaxIterations cfg info already) s1 = (dec, s2)" by (auto split: prod.splits)
    from yieldsD [OF decision_yields this] show ?thesis unfolding r Inr by simp
  qed (simp add: r)
qed

lemma persist_new_rs_yields: "yields (persist_new_rs d rx input policies st) (\<lambda>st'. \<exists>k. st' = st\<lparr>lp_persisted := k\<rparr>)"
proof -
  have "st = st\<lparr>lp_persisted := lp_persisted st\<rparr>" by simp
  then show ?thesis
    unfolding persist_new_rs_def by (intro yields_rules) blast+
qed

lemma take_results_yields: "yields (take_results d env rx input ps st)
    (\<lambda>r. turns_left orig iter (fst r) = turns_left orig iter st \<and> llm_calls (fst r) = llm_calls st)"
proof (induction ps arbitrary: st)
  case (Cons p ps)
  obtain tc res where p: "p = (tc, res)" by fastforce
  show ?case
    unfolding p take_results.simps Let_def
    by (intro yields_rules yields_weaken [OF Cons.IH]) (auto simp flip: llm_calls_def)
qed (auto intro: yields_return)

lemma tool_round_rs_yields:
  assumes "loop_inv orig (iter + 1) st"
  shows "yields (tool_round_rs d env rx input mid iter result policies st) (turn_ok orig iter)"
proof -
  let ?ok = "\<lambda>st'. turns_left orig iter st' = turns_left orig iter st \<and> llm_calls st' = llm_calls st"
  have inv: "turn_ok orig iter (Continue st')" "turn_ok orig iter (budget_return st' be)" if "?ok st'" for st' be
  proof -
    show "turn_ok orig iter (Continue st')"
      using assms that by (simp add: turn_ok_def loop_inv_def turns_left_step)
    show "turn_ok orig iter (budget_return st' be)"
      using assms that by (intro budget_return_ok) (simp_all add: loop_inv_def turns_left_step)
  qed
  show ?thesis
    unfolding tool_round_rs_def Let_def
    by (intro yields_case_sum yields_bind_with [OF take_results_yields [where orig = orig and iter = iter]] yields_rules
        yields_bind_with [OF persist_new_rs_yields])
      (auto intro!: inv simp: calls_within_def turn_ok_def [of _ _ "Return _ _"] simp flip: llm_calls_def)
qed

lemma final_call_rs_yields:
  assumes "loop_inv orig (iter + 1) st"
  shows "yields (final_call_rs d env rx input cx iter policies st) (turn_ok orig iter)"
  unfolding final_call_rs_def Let_def using assms
  by (intro yields_rules)
    (auto simp: calls_within_def turn_ok_def loop_inv_def llm_calls_def budget_return_def split: option.splits)

lemma answered_turn_rs_yields:
  assumes "durable_engine (ds_run d)" "loop_inv orig (iter + 1) st" "cx_originalMaxIter cx = orig" "0 < orig"
  shows "yields (answered_turn_rs d env rx input cx policies mid iter result st) (turn_ok orig iter)"
proof -
  have "loop_inv orig (iter + 1) (st\<lparr>lp_maxIter := lp_maxIter st + extra, lp_iterationsExtended := True\<rparr>)"
    if "iter = lp_maxIter st - 1" "\<not> lp_iterationsExtended st" "1 \<le> extra" "extra \<le> orig" for extra
    using assms(2) that by (simp add: loop_inv_def turns_left_def)
  moreover have "EffectiveMaxIterations orig = orig" using assms(4) by (simp add: EffectiveMaxIterations_def)
  moreover have "turn_ok orig iter (Break (st\<lparr>lp_messages := m, lp_lastContent := c\<rparr>))" for m c
    using assms(2) by (simp add: turn_ok_def loop_inv_def)
  moreover have "turn_ok orig iter (Return None err)" for err
    by (simp add: turn_ok_def calls_within_def)
  ultimately show ?thesis
    unfolding answered_turn_rs_def using assms
    by (intro yields_if yields_return yields_bind_with [OF decision_rs_yields [OF assms(1)]] yields_case_sum
        tool_round_rs_yields final_call_rs_yields) (simp_all add: yields_return)
qed

lemma loop_turn_rs_yields:
  assumes "durable_engine (ds_run d)" "loop_inv orig iter st" "iter < lp_maxIter st" "cx_originalMaxIter cx = orig" "0 < orig"
  shows "yields (loop_turn_rs d env rx input cx policies iter st) (turn_ok orig iter)"
proof -
  have counted: "loop_inv orig (iter + 1) (st\<lparr>lp_useFallback := f, lp_telemetry := count_llm_call (lp_telemetry st),
      lp_llmUsage := u\<rparr>)" for f u
    using assms by (simp add: loop_inv_def turns_left_def llm_calls_def)
  then have stopped: "turn_ok orig iter (budget_return (st\<lparr>lp_useFallback := f,
      lp_telemetry := count_llm_call (lp_telemetry st), lp_llmUsage := u\<rparr>) be)" for f u be
    using assms by (intro budget_return_ok) (auto simp: loop_inv_def turns_left_def llm_calls_def split: if_splits)
  have "turn_ok orig iter (Return None err)" for err
    by (simp add: turn_ok_def calls_within_def)
  with counted stopped show ?thesis
    unfolding loop_turn_rs_def Let_def using assms
    by (intro yields_rules answered_turn_rs_yields) simp_all
qed

lemma store_memories_rs_yields: "yields (store_memories_rs d env rx input policies messages t)
    (\<lambda>t'. rn_TotalLLMCalls (te_Run t') = rn_TotalLLMCalls (te_Run t))"
  unfolding store_memories_rs_def by (intro yields_rules) (auto split: option.splits)

lemma complete_run_rs_yields:
  assumes "0 \<le> llm_calls st" "llm_calls st \<le> bound"
  shows "yields (complete_run_rs d env rx input policies st) (calls_within bound)"
  unfolding complete_run_rs_def
  by (intro yields_bind_with [OF persist_new_rs_yields] yields_bind_with [OF store_memories_rs_yields] yields_rules)
    (use assms in \<open>auto simp: calls_within_def llm_calls_def\<close>)

lemma recall_memory_rs_yields: "yields (recall_memory_rs d rx input policies t)
    (\<lambda>r. case r of Inl _ \<Rightarrow> True | Inr (_, t') \<Rightarrow> te_Run t' = te_Run t)"
  unfolding recall_memory_rs_def by (intro yields_rules) (auto split: sum.splits)

lemma prefetch_documents_rs_yields: "yields (prefetch_documents_rs d env rx input policies t)
    (\<lambda>r. case r of Inl _ \<Rightarrow> True | Inr (_, t') \<Rightarrow> te_Run t' = te_Run t)"
  unfolding prefetch_documents_rs_def Let_def by (intro yields_rules) (auto split: sum.splits)

text \<open>C2. A run of the Restate runtime ends, and reports at most twice the configured iterations plus one
  final call, as a run of the local runtime: whatever values the durable steps replay from the
  journal, as long as each is one that its operation has returned.\<close>

theorem restate_run_terminates:
  assumes eng: "durable_engine (ds_run d)"
  shows "case run_state (executeAgentLoop_rs d env rx input) s of (out, s') \<Rightarrow>
    calls_within (2 * EffectiveMaxIterations (rt_MaxIterations (rx_base rx)) + 1) out \<and> out \<noteq> (None, None)"
proof -
  let ?orig = "EffectiveMaxIterations (rt_MaxIterations (rx_base rx))"
  let ?P = "calls_within (2 * ?orig + 1)"
  have pos: "0 < ?orig" by (simp add: EffectiveMaxIterations_def)
  have failed: "?P (None, Some err)" for err by (simp add: calls_within_def)
  have ended: "yields (case e of
        None \<Rightarrow> State_Monad.return (None, None)
      | Some (Return res err) \<Rightarrow> State_Monad.return (res, Some err)
      | Some (Break st) \<Rightarrow> complete_run_rs d env rx input' policies st
      | Some (Continue st) \<Rightarrow> State_Monad.return (None, None)) ?P"
    if "loop_done ?orig e" for e input' policies
    using that
    by (auto simp: loop_done_def split: option.splits turn_end.splits
        intro!: yields_return complete_run_rs_yields)
  have rounds: "yields (loop_rounds (loop_turn_rs d env rx input' cx policies) (loop_fuel (rx_base rx)) 0
        (loop_start msgs ?orig t)) (loop_done ?orig)"
    if "te_Run t = te_Run (NewAgentTelemetry started)" "cx_originalMaxIter cx = ?orig"
    for input' cx policies msgs t started
  proof (rule loop_rounds_yields)
    show "loop_inv ?orig 0 (loop_start msgs ?orig t)"
      using pos that by (simp add: loop_inv_def turns_left_def loop_start_def llm_calls_def NewAgentTelemetry_def)
  qed (use pos that in \<open>auto simp: loop_fuel_def intro: loop_turn_rs_yields [OF eng]\<close>)
  have "yields (executeAgentLoop_rs d env rx input) ?P"
    unfolding executeAgentLoop_rs_def Let_def
    by (intro yields_bind yields_bind_with [OF recall_memory_rs_yields] yields_bind_with [OF prefetch_documents_rs_yields]
        yields_bind_with [OF rounds ended] yields_case_sum yields_case_prod) (auto intro: yields_return failed)
  moreover have "\<not> calls_within n (None, None)" for n by (simp add: calls_within_def)
  ultimately show ?thesis by (auto dest: yieldsD)
qed

theorem restate_run_terminates_witness:
  "case run_state (executeAgentLoop_rs sample_durable sample_env sample_restate sample_restate_input) (new_world 0) of (out, s') \<Rightarrow>
    calls_within (2 * EffectiveMaxIterations (rt_MaxIterations ok_runtime) + 1) out \<and> out \<noteq> (None, None)"
  using restate_run_terminates [OF sample_engine, where env = sample_env and rx = sample_restate
      and input = sample_restate_input and s = "new_world 0"]
  by (simp add: sample_restate_def)

section \<open>What a run publishes without token streaming\<close>

lemma ExecuteLLM_silent: "xl_Emit x = None \<Longrightarrow> traced g ch (ExecuteLLM rt x) (\<lambda>_. no_events)"
  unfolding ExecuteLLM_def emit_message_def emitEvent_def
  by (auto intro!: hook_binds traced_rules traced_bind [OF llmResponseToResult_traced] simp: no_events_def)

lemma executeLLMStep_silent:
  assumes "durable_engine (ds_run d)" "\<not> ri_StreamingEnabled input" "xl_Emit x = None"
  shows "traced g ch (executeLLMStep d env rx input policy x iter pre fb) (\<lambda>_. no_events)"
proof -
  have "traced g ch (step_with d as_llm name policy (ExecuteLLM rt y)) (\<lambda>_. no_events)" if "xl_Emit y = None" for rt y name
    by (rule step_silent [OF assms(1) ExecuteLLM_silent [OF that]])
  then show ?thesis
    unfolding executeLLMStep_def Let_def using assms(2,3)
    by (auto intro!: traced_rules simp: no_events_def split: sum.splits)
qed

lemma no_events_bind: "traced g ch m (\<lambda>_. no_events) \<Longrightarrow> (\<And>a. traced g ch (f a) (\<lambda>_. no_events)) \<Longrightarrow>
    traced g ch (State_Monad.bind m f) (\<lambda>_. no_events)"
  unfolding no_events_def by (rule traced_bind, assumption) simp

lemma answer_silent:
  assumes "durable_engine (ds_run d)" "\<not> ri_StreamingEnabled input" "xl_Emit x = None"
  shows "traced g ch (executeLLMStepWithErrorControl d env rx input policy x iter pre fb) (\<lambda>_. no_events)"
proof -
  have dec: "traced g ch (do {
        dec \<leftarrow> DecideLLMFailure c e n i;
        State_Monad.return (if ec_Action dec \<noteq> ErrorControlFallbackModel then Inl err else Inr True) }) (\<lambda>_. no_events)"
    for c e n i and err :: go_error
    by (intro no_events_bind traced_return traced_quiet [OF keepsI])
      (auto simp: no_events_def dest: DecideLLMFailure_frame)
  show ?thesis
    unfolding executeLLMStepWithErrorControl_def
    by (intro no_events_bind executeLLMStep_silent assms traced_case_sum traced_if step_silent dec)
      (auto intro!: traced_return simp: no_events_def)
qed

text \<open>Without token streaming a Restate run publishes nothing for an answer: neither the call nor its
  retries, nor the call of the fallback model, adds an event. The local runtime publishes the
  complete message of every such call, and that is what \<open>DisableTokenStreaming\<close> promises: a
  single complete message instead of the tokens, all other events as before.\<close>

theorem restate_answer_unpublished:
  assumes "durable_engine (ds_run d)" "\<not> ri_StreamingEnabled input"
  shows "w_events (snd (run_state (executeLLMStepWithErrorControl d env rx input policy
      (llm_input_rs input cx mid iter skip msgs) iter pre fb) s)) = w_events s \<and>
    (case run_state (ExecuteLLM (rx_base rx) (llm_input (rx_base rx) local cx mid iter skip msgs)) s of (r, s') \<Rightarrow>
      \<exists>evs. w_events s' = w_events s @ map (Pair (li_ChannelName local)) (filter (published (rx_base rx) local) evs) \<and>
        (case r of Inl _ \<Rightarrow> evs = [] | Inr res \<Rightarrow> evs = [TextMessageStart mid RoleAssistant,
           TextMessageContent mid (lr_Content res), TextMessageEnd mid]))"
proof
  let ?m = "executeLLMStepWithErrorControl d env rx input policy (llm_input_rs input cx mid iter skip msgs) iter pre fb"
  have "traced (published_rs rx input) (run_object rx input) ?m (\<lambda>_. no_events)"
    by (rule answer_silent [OF assms]) (simp add: llm_input_rs_def)
  from tracedD [OF this prod.collapse [symmetric]] show "w_events (snd (run_state ?m s)) = w_events s"
    by (auto simp: no_events_def)
  let ?in = "llm_input (rx_base rx) local cx mid iter skip msgs"
  obtain r s' where r: "run_state (ExecuteLLM (rx_base rx) ?in) s = (r, s')" by fastforce
  have "traced (published (rx_base rx) local) (li_ChannelName local) (ExecuteLLM (rx_base rx) ?in) (\<lambda>r evs cs.
      case r of Inl _ \<Rightarrow> evs = [] | Inr res \<Rightarrow> evs = [TextMessageStart mid RoleAssistant,
           TextMessageContent mid (lr_Content res), TextMessageEnd mid])"
    unfolding ExecuteLLM_def emit_message_def emitEvent_def
    by (auto intro!: hook_binds call_rules traced_bind [OF llmResponseToResult_traced] simp: llm_input_def)
  from tracedD [OF this r] show "case run_state (ExecuteLLM (rx_base rx) ?in) s of (r, s') \<Rightarrow>
      \<exists>evs. w_events s' = w_events s @ map (Pair (li_ChannelName local)) (filter (published (rx_base rx) local) evs) \<and>
        (case r of Inl _ \<Rightarrow> evs = [] | Inr res \<Rightarrow> evs = [TextMessageStart mid RoleAssistant,
           TextMessageContent mid (lr_Content res), TextMessageEnd mid])"
    unfolding r by auto
qed

definition sample_context :: run_context where
  "sample_context = \<lparr>cx_memoryContext = '''', cx_retrieverContext = '''', cx_originalMaxIter = 3\<rparr>"

theorem restate_answer_unpublished_witness:
  "w_events (snd (run_state (executeLLMStepWithErrorControl sample_durable sample_env sample_restate sample_restate_input
      (pol_LLM (executionPolicies_rs sample_restate)) (llm_input_rs sample_restate_input sample_context ''m'' 0 False [])
      0 '''' False) (new_world 0))) = [] \<and>
    (case run_state (ExecuteLLM ok_runtime (llm_input ok_runtime sample_input sample_context ''m'' 0 False [])) (new_world 0)
     of (r, s') \<Rightarrow> \<exists>evs. w_events s' = map (Pair (li_ChannelName sample_input)) (filter (published ok_runtime sample_input) evs) \<and>
        (case r of Inl _ \<Rightarrow> evs = [] | Inr res \<Rightarrow> evs = [TextMessageStart ''m'' RoleAssistant,
           TextMessageContent ''m'' (lr_Content res), TextMessageEnd ''m'']))"
proof -
  have "\<not> ri_StreamingEnabled sample_restate_input" by (simp add: sample_restate_input_def)
  from restate_answer_unpublished [OF sample_engine this, where env = sample_env and rx = sample_restate
      and policy = "pol_LLM (executionPolicies_rs sample_restate)" and cx = sample_context and mid = "''m''" and iter = 0
      and skip = False and msgs = "[]" and pre = "''''" and fb = False and s = "new_world 0" and local = sample_input]
  show ?thesis by (simp add: sample_restate_def new_world_def)
qed

section \<open>The budget\<close>

lemma run_emit_rs_tracker [simp]: "w_tracker (snd (run_state (emit_rs rx input ev) s)) = w_tracker s"
  by (simp add: emit_rs_def emitEvent_rs_def emit_to_def)

lemma select_update_tracker: "w_tracker (s\<lparr>w_tracker := t\<rparr>) = t" by simp

lemma awaitBudgetApproval_approved:
  assumes "\<And>token timeout w. fst (run_state (ds_wait d token timeout) w) = AwakeFirst (Inr ApprovalApproved)"
  obtains s' where "run_state (awaitBudgetApproval d rx input detail) s = (Inr True, s')" "w_tracker s' = w_tracker s"
proof -
  obtain r s' where r: "run_state (awaitBudgetApproval d rx input detail) s = (r, s')" by fastforce
  have e: "run_state (emit_rs rx input ev) s1 = ((), s2) \<Longrightarrow> w_tracker s2 = w_tracker s1" for ev s1 s2
    by (metis run_emit_rs_tracker snd_conv)
  have w: "run_state (ds_wait d token timeout) w0 = (w, w1) \<Longrightarrow> w = AwakeFirst (Inr ApprovalApproved)" for token timeout w0 w w1
    using assms [of token timeout w0] by simp
  have "r = Inr True \<and> w_tracker s' = w_tracker s"
    using r unfolding awaitBudgetApproval_def by (auto split: prod.splits dest!: e w)
  with r that show thesis by blast
qed

text \<open>C35. The cap on approvals is not a bound for a Restate run: at a breach where the run has already
  used all the approvals that the budget allows, the local runtime stops without asking, but the
  Restate runtime asks again, and an approval lets the run go on, with one approval more than the
  cap.\<close>

theorem restate_ignores_approval_cap:
  assumes "budget_action (rx_base rx) = BudgetWaitForApproval" "w_tracker s = Some t"
    and breach: "bt_Add (Some t) usage = (Some e, Some t')" "ApprovalsExhausted (Some t')"
    and top: "ac_SubAgentDepth (ri_core input) = 0" "li_EnforceBudget local"
    and approves: "\<And>token timeout w. fst (run_state (ds_wait d token timeout) w) = AwakeFirst (Inr ApprovalApproved)"
  shows "(case run_state (checkBudget_rs d rx input usage) s of (r, s') \<Rightarrow> r = None \<and>
      w_tracker s' = Some (advance t') \<and> bt_effMaxApproval t' < bt_approvalCount (advance t')) \<and>
    (\<exists>err. fst (run_state (checkBudget env (rx_base rx) local usage) s) = Some (True, err))"
proof
  obtain s' where "run_state (awaitBudgetApproval d rx input (budget_error_str e)) (s\<lparr>w_tracker := Some t'\<rparr>) = (Inr True, s')"
    "w_tracker s' = Some t'"
    using awaitBudgetApproval_approved [OF approves, where s = "s\<lparr>w_tracker := Some t'\<rparr>"] by (metis select_update_tracker)
  then show "case run_state (checkBudget_rs d rx input usage) s of (r, s') \<Rightarrow> r = None \<and>
      w_tracker s' = Some (advance t') \<and> bt_effMaxApproval t' < bt_approvalCount (advance t')"
    using assms(1-4) top
    by (simp add: checkBudget_rs_def handleBudgetExceeded_def AdvanceWatermark_def ApprovalsExhausted_def advance_def Let_def)
  show "\<exists>err. fst (run_state (checkBudget env (rx_base rx) local usage) s) = Some (True, err)"
    using assms(1-4) top
    by (auto simp: checkBudget_def applyBudgetExceeded_def Let_def split: prod.splits)
qed

theorem restate_ignores_approval_cap_witness:
  "(case run_state (checkBudget_rs sample_durable (sample_restate\<lparr>rx_base := ok_runtime\<lparr>rt_Budget := Some sample_cfg\<rparr>\<rparr>)
      sample_restate_input (Some (tokens_usage 150))) ((new_world (0 :: nat))\<lparr>w_tracker := Some (sample_tracker 250 200 2)\<rparr>) of
      (r, s') \<Rightarrow> r = None \<and> w_tracker s' = Some (advance (sample_tracker 400 200 2)) \<and>
        2 < bt_approvalCount (advance (sample_tracker 400 200 2))) \<and>
    (\<exists>err. fst (run_state (checkBudget sample_env (ok_runtime\<lparr>rt_Budget := Some sample_cfg\<rparr>) (sample_input\<lparr>li_EnforceBudget := True\<rparr>)
      (Some (tokens_usage 150))) ((new_world 0)\<lparr>w_tracker := Some (sample_tracker 250 200 2)\<rparr>)) = Some (True, err))"
proof -
  have "budget_action (rx_base (sample_restate\<lparr>rx_base := ok_runtime\<lparr>rt_Budget := Some sample_cfg\<rparr>\<rparr>)) = BudgetWaitForApproval"
    by (simp add: budget_action_def sample_cfg_def BudgetWaitForApproval_def)
  moreover have "accumulate (sample_tracker 250 200 2) (tokens_usage 150) = sample_tracker 400 200 2"
    by (simp add: accumulate_def sample_tracker_def tokens_usage_def int64_id)
  moreover obtain e where "checkLimits (sample_tracker 400 200 2) = Some e"
    using checkLimits_None_iff [of "sample_tracker 400 200 2"] by (auto simp: sample_defs int64_id)
  ultimately have "bt_Add (Some (sample_tracker 250 200 2)) (Some (tokens_usage 150)) = (Some e, Some (sample_tracker 400 200 2))"
    by (simp add: bt_Add_def)
  from restate_ignores_approval_cap [OF \<open>budget_action _ = _\<close> _ this, where input = sample_restate_input
      and local = "sample_input\<lparr>li_EnforceBudget := True\<rparr>" and d = sample_durable and env = sample_env
      and s = "(new_world (0 :: nat))\<lparr>w_tracker := Some (sample_tracker 250 200 2)\<rparr>"]
  have "(case run_state (checkBudget_rs sample_durable (sample_restate\<lparr>rx_base := ok_runtime\<lparr>rt_Budget := Some sample_cfg\<rparr>\<rparr>)
      sample_restate_input (Some (tokens_usage 150))) ((new_world (0 :: nat))\<lparr>w_tracker := Some (sample_tracker 250 200 2)\<rparr>) of
      (r, s') \<Rightarrow> r = None \<and> w_tracker s' = Some (advance (sample_tracker 400 200 2)) \<and>
        bt_effMaxApproval (sample_tracker 400 200 2) < bt_approvalCount (advance (sample_tracker 400 200 2))) \<and>
    (\<exists>err. fst (run_state (checkBudget sample_env (rx_base (sample_restate\<lparr>rx_base := ok_runtime\<lparr>rt_Budget := Some sample_cfg\<rparr>\<rparr>))
      (sample_input\<lparr>li_EnforceBudget := True\<rparr>) (Some (tokens_usage 150)))
      ((new_world 0)\<lparr>w_tracker := Some (sample_tracker 250 200 2)\<rparr>)) = Some (True, err))"
    by (simp add: ApprovalsExhausted_def sample_tracker_def sample_restate_input_def sample_core_def sample_durable_def)
  then show ?thesis by (simp add: sample_tracker_def)
qed

end
