(* ===== verification/Temporal_Base.thy ===== *)
theory Temporal_Base
  imports Agent_Facade
begin

text \<open>
  What a workflow of the Temporal runtime runs on, \<open>internal/runtime/temporal\<close>: the fingerprint by which
  caller and worker compare their configurations (\<open>fingerprint.go\<close>), the options and the bodies of the
  activities (\<open>agent_workflow.go\<close>), and the variable into which the workflow decodes the result of an
  LLM activity.

  Temporal itself is the record \<open>temporal\<close>: it runs an activity, a function of its attempt and its task
  token, by its options, and gives the value or an error; side effects, child workflows, the stream of
  a workflow and its client are others of its operations. What the code shares with the other
  runtimes (\<open>internal/runtime/base\<close>) is the same definitions as there. Heartbeats are not modelled.
\<close>

section \<open>The runtime\<close>

record 'w temporal_runtime =
  tx_base :: "'w runtime"
  tx_Description :: string
  tx_taskQueue :: string
  tx_policyFingerprint :: string
  tx_mcpFingerprint :: string
  tx_a2aFingerprint :: string
  tx_observabilityFingerprint :: string
  tx_agentMode :: string
  tx_retrieverFingerprint :: string
  tx_hooksFingerprint :: string
  tx_namedLLMFingerprint :: string
  tx_errorControlFingerprint :: string
  tx_disableFingerprintCheck :: bool
  tx_hasClient :: bool
  tx_resolveTools :: "('w, go_error + 'w tool list) state option"

section \<open>Fingerprints\<close>

record fingerprint_payload =
  fp_Version :: int
  fp_Name :: string
  fp_Description :: string
  fp_SystemPrompt :: string
  fp_ResponseFormat :: "response_format option"
  fp_ToolNames :: "string list"
  fp_PolicyFingerprint :: string
  fp_MCPFingerprint :: string
  fp_A2AFingerprint :: string
  fp_ObservabilityFingerprint :: string
  fp_AgentMode :: string
  fp_AgentToolExecutionMode :: string
  fp_RetrieverFingerprint :: string
  fp_HooksFingerprint :: string
  fp_NamedLLMFingerprint :: string
  fp_ErrorControlFingerprint :: string
  fp_Sampling :: "llm_sampling option"
  fp_SessionSize :: int
  fp_MaxIterations :: int
  fp_TimeoutNs :: int
  fp_ApprovalTimeoutNs :: int
  fp_BudgetMaxTokens :: int
  fp_BudgetMaxCostUSD :: rat
  fp_BudgetOnExceeded :: string
  fp_BudgetApprovalExtraTokens :: int
  fp_BudgetApprovalExtraCostUSD :: rat

definition agentFingerprintVersion :: int where "agentFingerprintVersion = 1"

text \<open>The digest, by the JSON of a payload and the hash.\<close>

definition ComputeAgentFingerprint :: "(fingerprint_payload \<Rightarrow> string option) \<Rightarrow> (string \<Rightarrow> string) \<Rightarrow>
    fingerprint_payload \<Rightarrow> string" where
  "ComputeAgentFingerprint json sha256hex m =
    (case json (m\<lparr>fp_Version := agentFingerprintVersion, fp_ToolNames := sort (fp_ToolNames m)\<rparr>) of
       None \<Rightarrow> '''' | Some b \<Rightarrow> sha256hex b)"

definition ToolNamesFromTools :: "'w tool list \<Rightarrow> string list" where
  "ToolNamesFromTools tools = sort (map tl_Name tools)"

text \<open>\<open>BuildAgentFingerprintPayload\<close> on the fields of a runtime.\<close>

definition BuildAgentFingerprintPayload :: "'w temporal_runtime \<Rightarrow> string list \<Rightarrow> fingerprint_payload" where
  "BuildAgentFingerprintPayload tx toolNames = (let rt = tx_base tx in
    \<lparr>fp_Version = 0, fp_Name = rt_Name rt, fp_Description = tx_Description tx,
     fp_SystemPrompt = rt_SystemPrompt rt, fp_ResponseFormat = rt_ResponseFormat rt,
     fp_ToolNames = sort toolNames, fp_PolicyFingerprint = tx_policyFingerprint tx,
     fp_MCPFingerprint = tx_mcpFingerprint tx, fp_A2AFingerprint = tx_a2aFingerprint tx,
     fp_ObservabilityFingerprint = tx_observabilityFingerprint tx,
     fp_AgentMode = (if tx_agentMode tx = '''' then AgentModeInteractive else tx_agentMode tx),
     fp_AgentToolExecutionMode = (if rt_ToolExecutionMode rt = '''' then ExecModeParallel
       else rt_ToolExecutionMode rt),
     fp_RetrieverFingerprint = tx_retrieverFingerprint tx, fp_HooksFingerprint = tx_hooksFingerprint tx,
     fp_NamedLLMFingerprint = tx_namedLLMFingerprint tx,
     fp_ErrorControlFingerprint = tx_errorControlFingerprint tx,
     fp_Sampling = rt_Sampling rt, fp_SessionSize = rt_ConversationSize rt,
     fp_MaxIterations = rt_MaxIterations rt, fp_TimeoutNs = rt_Timeout rt,
     fp_ApprovalTimeoutNs = rt_ApprovalTimeout rt,
     fp_BudgetMaxTokens = (case rt_Budget rt of None \<Rightarrow> 0 | Some b \<Rightarrow> MaxTokens b),
     fp_BudgetMaxCostUSD = (case rt_Budget rt of None \<Rightarrow> 0 | Some b \<Rightarrow> MaxCostUSD b),
     fp_BudgetOnExceeded = (case rt_Budget rt of None \<Rightarrow> '''' | Some b \<Rightarrow> OnExceeded b),
     fp_BudgetApprovalExtraTokens = (case rt_Budget rt of None \<Rightarrow> 0 | Some b \<Rightarrow> ApprovalExtraTokens b),
     fp_BudgetApprovalExtraCostUSD = (case rt_Budget rt of None \<Rightarrow> 0 | Some b \<Rightarrow> ApprovalExtraCostUSD b)\<rparr>)"

definition computeAgentFingerprintFromRuntime :: "(fingerprint_payload \<Rightarrow> string option) \<Rightarrow>
    (string \<Rightarrow> string) \<Rightarrow> 'w temporal_runtime \<Rightarrow> 'w tool list \<Rightarrow> string" where
  "computeAgentFingerprintFromRuntime json sha256hex tx tools =
     ComputeAgentFingerprint json sha256hex (BuildAgentFingerprintPayload tx (ToolNamesFromTools tools))"

section \<open>Options of activities\<close>

record activity_options =
  ao_ActivityID :: string
  ao_StartToClose :: int
  ao_Heartbeat :: int
  ao_Retry :: retry_policy
  ao_MaximumAttempts :: int

definition agentLongActivityHeartbeatTimeout :: int where "agentLongActivityHeartbeatTimeout = 30 * second_ns"
definition agentToolApprovalActivityMaxAttempts :: int where "agentToolApprovalActivityMaxAttempts = 1"
definition agentWorkflowCleanupActivityTaskTimeout :: int where
  "agentWorkflowCleanupActivityTaskTimeout = 30 * second_ns"
definition agentWorkflowCleanupActivityMaxAttempts :: int where "agentWorkflowCleanupActivityMaxAttempts = 3"
definition publishStreamEventActivityTaskTimeout :: int where
  "publishStreamEventActivityTaskTimeout = 15 * second_ns"

definition int32 :: "int \<Rightarrow> int" where "int32 i = signed_take_bit 31 i"

definition execActivityOptions :: "execution_policy \<Rightarrow> string \<Rightarrow> bool \<Rightarrow> activity_options" where
  "execActivityOptions policy activityID withHeartbeat =
    (let attempts = int32 (pol_MaxAttempts policy) in
     \<lparr>ao_ActivityID = activityID, ao_StartToClose = pol_Timeout policy,
      ao_Heartbeat = (if withHeartbeat then agentLongActivityHeartbeatTimeout else 0),
      ao_Retry = pol_Retry policy, ao_MaximumAttempts = (if attempts < 1 then 1 else attempts)\<rparr>)"

text \<open>\<open>retryPolicy\<close>: the SDK's default backoff and a number of attempts; the options with it.\<close>

definition retryPolicy :: "int \<Rightarrow> retry_policy \<times> int" where
  "retryPolicy maxAttempts = (DefaultRetryPolicy, if maxAttempts < 1 then 1 else maxAttempts)"

definition short_options :: "string \<Rightarrow> int \<Rightarrow> int \<Rightarrow> activity_options" where
  "short_options activityID timeout maxAttempts =
    \<lparr>ao_ActivityID = activityID, ao_StartToClose = timeout, ao_Heartbeat = 0,
     ao_Retry = fst (retryPolicy maxAttempts), ao_MaximumAttempts = snd (retryPolicy maxAttempts)\<rparr>"

section \<open>The result of an LLM activity\<close>

record agent_llm_result =
  ly_Content :: string
  ly_ToolCalls :: "tool_call_request list"
  ly_Usage :: "llm_usage option"
  ly_RetryCount :: int
  ly_UsedFallback :: bool

definition baseLLMResultToActivity :: "llm_result \<Rightarrow> agent_llm_result" where
  "baseLLMResultToActivity r =
    \<lparr>ly_Content = lr_Content r, ly_ToolCalls = lr_ToolCalls r, ly_Usage = CloneLLMUsage (lr_Usage r),
     ly_RetryCount = 0, ly_UsedFallback = False\<rparr>"

text \<open>
  The workflow decodes every result into one variable, which is declared before the loop. Its tool calls
  are a slice: the elements of the array behind it, in use or not, are its slots, of which the first
  \<open>lv_Len\<close> are in use. The arguments of a call are a Go map, which the message of the assistant shares:
  a slot has the number of its map in the store \<open>lv_Maps\<close>.
\<close>

type_synonym go_maps = "(string \<times> go_any) list list"

record call_slot =
  sl_ToolCallID :: string
  sl_ToolName :: string
  sl_ToolDisplayName :: string
  sl_ToolKind :: string
  sl_Args :: "nat option"
  sl_NeedsApproval :: bool
  sl_Unknown :: bool

record llm_var =
  lv_Content :: string
  lv_Slots :: "call_slot list"
  lv_Len :: nat
  lv_Usage :: "llm_usage option"
  lv_RetryCount :: int
  lv_UsedFallback :: bool
  lv_Maps :: go_maps

definition zero_slot :: call_slot where
  "zero_slot = \<lparr>sl_ToolCallID = '''', sl_ToolName = '''', sl_ToolDisplayName = '''', sl_ToolKind = '''',
     sl_Args = None, sl_NeedsApproval = False, sl_Unknown = False\<rparr>"

definition zero_var :: llm_var where
  "zero_var = \<lparr>lv_Content = '''', lv_Slots = [], lv_Len = 0, lv_Usage = None, lv_RetryCount = 0,
     lv_UsedFallback = False, lv_Maps = []\<rparr>"

definition args_of :: "go_maps \<Rightarrow> nat option \<Rightarrow> go_args" where
  "args_of maps r = map_option (\<lambda>a. maps ! a) r"

definition slot_call :: "go_maps \<Rightarrow> call_slot \<Rightarrow> tool_call_request" where
  "slot_call maps s = \<lparr>tr_ToolCallID = sl_ToolCallID s, tr_ToolName = sl_ToolName s,
     tr_ToolDisplayName = sl_ToolDisplayName s, tr_ToolKind = sl_ToolKind s,
     tr_Args = args_of maps (sl_Args s), tr_NeedsApproval = sl_NeedsApproval s,
     tr_Unknown = sl_Unknown s\<rparr>"

definition used_slots :: "llm_var \<Rightarrow> call_slot list" where
  "used_slots v = take (lv_Len v) (lv_Slots v)"

definition var_calls :: "llm_var \<Rightarrow> tool_call_request list" where
  "var_calls v = map (slot_call (lv_Maps v)) (used_slots v)"

text \<open>
  \<open>encoding/json\<close> decodes a document into a variable in place. A field that the document does not have
  keeps its value (the fields marked \<open>omitempty\<close> are left out when they are zero); a pointer that is not
  nil is decoded into what it points to; a map that is not nil keeps its other keys; the elements of a
  slice are decoded into the array that it has; \<open>null\<close> makes a map or a slice nil.
\<close>

definition or_stale :: "'a \<Rightarrow> 'a \<Rightarrow> 'a \<Rightarrow> 'a" where
  "or_stale zero new old = (if new = zero then old else new)"

definition decode_usage :: "llm_usage option \<Rightarrow> llm_usage option \<Rightarrow> llm_usage option" where
  "decode_usage new old = (case new of None \<Rightarrow> old
    | Some u \<Rightarrow> (case old of None \<Rightarrow> Some u
    | Some v \<Rightarrow> Some
        \<lparr>PromptTokens = or_stale 0 (PromptTokens u) (PromptTokens v),
         CompletionTokens = or_stale 0 (CompletionTokens u) (CompletionTokens v),
         TotalTokens = or_stale 0 (TotalTokens u) (TotalTokens v),
         CachedPromptTokens = or_stale 0 (CachedPromptTokens u) (CachedPromptTokens v),
         ReasoningTokens = or_stale 0 (ReasoningTokens u) (ReasoningTokens v)\<rparr>))"

definition put_all :: "(string \<times> go_any) list \<Rightarrow> (string \<times> go_any) list \<Rightarrow> (string \<times> go_any) list" where
  "put_all new old = fold (\<lambda>kx. pair_put (fst kx) (snd kx)) new old"

definition decode_args :: "go_args \<Rightarrow> go_maps \<Rightarrow> nat option \<Rightarrow> go_maps \<times> nat option" where
  "decode_args new maps r = (case new of
      None \<Rightarrow> (maps, None)
    | Some kvs \<Rightarrow> (case r of
        None \<Rightarrow> (maps @ [put_all kvs []], Some (length maps))
      | Some a \<Rightarrow> (maps[a := put_all kvs (maps ! a)], Some a)))"

definition decode_slot :: "tool_call_request \<Rightarrow> go_maps \<Rightarrow> call_slot \<Rightarrow> go_maps \<times> call_slot" where
  "decode_slot tc maps s = (case decode_args (tr_Args tc) maps (sl_Args s) of (maps', r) \<Rightarrow>
    (maps', \<lparr>sl_ToolCallID = tr_ToolCallID tc, sl_ToolName = tr_ToolName tc,
       sl_ToolDisplayName = or_stale '''' (tr_ToolDisplayName tc) (sl_ToolDisplayName s),
       sl_ToolKind = tr_ToolKind tc, sl_Args = r, sl_NeedsApproval = tr_NeedsApproval tc,
       sl_Unknown = or_stale False (tr_Unknown tc) (sl_Unknown s)\<rparr>))"

definition first_slot :: "call_slot list \<Rightarrow> call_slot" where
  "first_slot slots = (if slots = [] then zero_slot else hd slots)"

fun decode_slots :: "tool_call_request list \<Rightarrow> go_maps \<Rightarrow> call_slot list \<Rightarrow> go_maps \<times> call_slot list" where
  "decode_slots [] maps slots = (maps, slots)"
| "decode_slots (tc # tcs) maps slots = (case decode_slot tc maps (first_slot slots) of (maps', s') \<Rightarrow>
     (case decode_slots tcs maps' (tl slots) of (maps'', ss) \<Rightarrow> (maps'', s' # ss)))"

text \<open>A result without calls has a nil slice, whose JSON is \<open>null\<close>.\<close>

definition json_into :: "llm_var \<Rightarrow> agent_llm_result \<Rightarrow> llm_var" where
  "json_into v r = (case (if ly_ToolCalls r = [] then (lv_Maps v, [])
      else decode_slots (ly_ToolCalls r) (lv_Maps v) (lv_Slots v)) of (maps, slots) \<Rightarrow>
    \<lparr>lv_Content = ly_Content r, lv_Slots = slots, lv_Len = length (ly_ToolCalls r),
     lv_Usage = decode_usage (ly_Usage r) (lv_Usage v),
     lv_RetryCount = or_stale 0 (ly_RetryCount r) (lv_RetryCount v),
     lv_UsedFallback = or_stale False (ly_UsedFallback r) (lv_UsedFallback v), lv_Maps = maps\<rparr>)"

section \<open>What Temporal provides\<close>

text \<open>The value of an activity: one constructor per result type. \<open>AvPending\<close> is \<open>ErrResultPending\<close>: the
  activity stays open until it is completed by its task token, or its timeout.\<close>

datatype activity_value =
    AvLLM agent_llm_result
  | AvMemory memory_result
  | AvRetrieved retriever_result
  | AvDecision ec_decision
  | AvAuth authorize_result
  | AvString string
  | AvUnit
  | AvPending

record activity_info =
  ai_Attempt :: int
  ai_TaskToken :: string

type_synonym 'w activity = "activity_info \<Rightarrow> ('w, go_error + activity_value) io"

datatype sub_agent_route = SubAgentRoute (sg_Name: string) (sg_TaskQueue: string)
  (sg_ChildRoutes: "(string \<times> sub_agent_route) list") (sg_AgentFingerprint: string)

text \<open>The log of a stream that a run hands to the next; what it holds is the package's.\<close>

type_synonym stream_log = nat

record agent_workflow_state =
  as_Iteration :: int
  as_Messages :: "message list"
  as_LLMUsage :: "llm_usage option"
  as_Telemetry :: "agent_telemetry option"
  as_BudgetTokens :: int
  as_BudgetCostUSD :: rat
  as_BudgetWatermarkTokens :: int
  as_BudgetWatermarkCostUSD :: rat
  as_UseFallbackLLM :: bool
  as_IterationsExtended :: bool
  as_ExtraIterations :: int
  as_CircuitBreaker :: "cb_tools option"

record agent_workflow_input =
  wi_UserPrompt :: string
  wi_RootWorkflowID :: string
  wi_StreamState :: "stream_log option"
  wi_StreamingEnabled :: bool
  wi_ConversationID :: string
  wi_AgentFingerprint :: string
  wi_RunID :: string
  wi_MemoryScope :: memory_scope
  wi_EventTypes :: "string list"
  wi_SubAgentDepth :: int
  wi_SubAgentRoutes :: "(string \<times> sub_agent_route) list"
  wi_MaxSubAgentDepth :: int
  wi_State :: "agent_workflow_state option"

record child_options =
  co_WorkflowID :: string
  co_TaskQueue :: string
  co_ExecutionTimeout :: int

text \<open>A child's result is \<open>None\<close> for a nil pointer. \<open>tm_close\<close> flushes what a client has published to
  the stream of a workflow; \<open>tm_decode\<close> is what \<open>Get\<close> does with a result and the variable for it.\<close>

record 'w temporal =
  tm_workflowID :: string
  tm_now :: "('w, int) state"
  tm_activity :: "activity_options \<Rightarrow> 'w activity \<Rightarrow> ('w, go_error + activity_value) io"
  tm_typeError :: "activity_value \<Rightarrow> go_error"
  tm_decode :: "llm_var \<Rightarrow> agent_llm_result \<Rightarrow> llm_var"
  tm_isCanceled :: "go_error \<Rightarrow> bool"
  tm_isTimeout :: "go_error \<Rightarrow> bool"
  tm_isNotFound :: "go_error \<Rightarrow> bool"
  tm_sideEffect :: "('w, string) state \<Rightarrow> ('w, go_error + string) state"
  tm_child :: "child_options \<Rightarrow> agent_workflow_input \<Rightarrow> ('w, go_error + agent_run_result option) state"
  tm_newStream :: "stream_log option \<Rightarrow> ('w, go_error option) state"
  tm_setQueryHandler :: "('w, go_error option) state"
  tm_publish :: "agent_event \<Rightarrow> ('w, go_error option) state"
  tm_history :: "('w, int \<times> int) state"
  tm_detach :: "('w, go_error option) state"
  tm_getState :: "int \<Rightarrow> ('w, go_error + stream_log) state"
  tm_close :: "string \<Rightarrow> ('w, go_error option) state"
  tm_retrySignal :: "string \<Rightarrow> string \<Rightarrow> ('w, unit) state"
  tm_eventError :: "agent_event \<Rightarrow> go_error option"
  tm_completeByID :: "string \<Rightarrow> go_error \<Rightarrow> ('w, go_error option) state"
  tm_fingerprintJSON :: "fingerprint_payload \<Rightarrow> string option"

text \<open>\<open>if err := m; err != nil { return err }\<close>, for a result and for a bare error.\<close>

definition attempt :: "('w, 'e + 'a) io \<Rightarrow> ('a \<Rightarrow> ('w, 'e + 'b) io) \<Rightarrow> ('w, 'e + 'b) io" where
  "attempt m f = do { r \<leftarrow> m; (case r of Inl err \<Rightarrow> State_Monad.return (Inl err) | Inr a \<Rightarrow> f a) }"

definition check_err :: "('w, 'e option) io \<Rightarrow> ('w, 'e + 'b) io \<Rightarrow> ('w, 'e + 'b) io" where
  "check_err m k = do { e \<leftarrow> m; (case e of Some err \<Rightarrow> State_Monad.return (Inl err) | None \<Rightarrow> k) }"

section \<open>Activities\<close>

definition fetchTools :: "'w temporal_runtime \<Rightarrow> ('w, go_error + 'w tool list) io" where
  "fetchTools tx = (case tx_resolveTools tx of
      None \<Rightarrow> State_Monad.return (Inl (ErrNew ''temporal: tools resolver is not configured''))
    | Some resolve \<Rightarrow> ext resolve)"

definition ErrAgentFingerprintMismatch :: go_error where
  "ErrAgentFingerprintMismatch = ErrNew ''temporal: agent fingerprint mismatch (caller vs worker); redeploy worker or align config/registries or retry run''"

text \<open>No tools are the nil slice, for which the tools are fetched.\<close>

definition verifyAgentFingerprint :: "'w temporal \<Rightarrow> 'w env \<Rightarrow> 'w temporal_runtime \<Rightarrow> string \<Rightarrow> 'w tool list \<Rightarrow>
    ('w, go_error option) io" where
  "verifyAgentFingerprint tm env tx callerFingerprint tools =
    (if tx_disableFingerprintCheck tx \<or> callerFingerprint = '''' then State_Monad.return None
     else do {
       fetched \<leftarrow> (if tools = [] then fetchTools tx else State_Monad.return (Inr tools));
       State_Monad.return (case fetched of
           Inl err \<Rightarrow> Some err
         | Inr ts \<Rightarrow>
             (let got = computeAgentFingerprintFromRuntime (tm_fingerprintJSON tm) (en_sha256hex env) tx ts
              in if got \<noteq> callerFingerprint
                 then Some (ErrWrap '''' ErrAgentFingerprintMismatch
                        ('': worker='' @ Quote got @ '' caller='' @ Quote callerFingerprint))
                 else None)) })"

text \<open>The start of the activities that use the tools, and of those that do not.\<close>

definition verified_tools :: "'w temporal \<Rightarrow> 'w env \<Rightarrow> 'w temporal_runtime \<Rightarrow> string \<Rightarrow> ('w, go_error + 'w tool list) io" where
  "verified_tools tm env tx fp = attempt (fetchTools tx) (\<lambda>tools.
     check_err (verifyAgentFingerprint tm env tx fp tools) (State_Monad.return (Inr tools)))"

definition verified :: "'w temporal \<Rightarrow> 'w env \<Rightarrow> 'w temporal_runtime \<Rightarrow> string \<Rightarrow> ('w, go_error + 'a) io \<Rightarrow>
    ('w, go_error + 'a) io" where
  "verified tm env tx fp k = check_err (verifyAgentFingerprint tm env tx fp []) k"

definition conversationMemoryEnabled_tm :: "'w temporal_runtime \<Rightarrow> string \<Rightarrow> bool" where
  "conversationMemoryEnabled_tm tx conversationID \<longleftrightarrow>
     conversationID \<noteq> '''' \<and> rt_Conversation (tx_base tx) \<noteq> None"

record agent_llm_input =
  ay_ConversationID :: string
  ay_Messages :: "message list"
  ay_SkipTools :: bool
  ay_AgentFingerprint :: string
  ay_MessageID :: string
  ay_StreamWorkflowID :: string
  ay_MemoryContext :: string
  ay_RetrieverContext :: string
  ay_RunID :: string
  ay_Iteration :: int
  ay_UseFallback :: bool

definition llmActivityLastAttempt :: "'w temporal_runtime \<Rightarrow> activity_info \<Rightarrow> bool" where
  "llmActivityLastAttempt tx info =
    (let m = pol_MaxAttempts (pol_LLM (executionPolicies (tx_base tx)))
     in ai_Attempt info \<ge> (if m < 1 then 1 else m))"

definition finishLLMActivityResult :: "activity_info \<Rightarrow> llm_result \<Rightarrow> bool \<Rightarrow> agent_llm_result" where
  "finishLLMActivityResult info result usedFallback =
    (let out = (baseLLMResultToActivity result)\<lparr>ly_UsedFallback := usedFallback\<rparr>
     in if ai_Attempt info > 1 then out\<lparr>ly_RetryCount := ai_Attempt info - 1\<rparr> else out)"

definition call_llm :: "'w env \<Rightarrow> 'w temporal_runtime \<Rightarrow> bool \<Rightarrow> 'w execute_llm_input \<Rightarrow> 'w llm_client \<Rightarrow>
    ('w, go_error + llm_result) io" where
  "call_llm env tx stream xl client =
    (if stream then ExecuteLLMStream env (tx_base tx) (xl\<lparr>xl_Client := Some client\<rparr>)
     else ExecuteLLM (tx_base tx) (xl\<lparr>xl_Client := Some client\<rparr>))"

definition resolve_client :: "'w temporal_runtime \<Rightarrow> bool \<Rightarrow> go_error + 'w llm_client" where
  "resolve_client tx useFallback = (let rt = tx_base tx in
     ResolveLLMClient (rt_Client rt) (rt_ErrorControl rt) (rt_NamedLLMClients rt) useFallback)"

definition runLLMActivity :: "'w env \<Rightarrow> 'w temporal_runtime \<Rightarrow> activity_info \<Rightarrow> agent_llm_input \<Rightarrow>
    'w execute_llm_input \<Rightarrow> bool \<Rightarrow> ('w, go_error + agent_llm_result) io" where
  "runLLMActivity env tx info input xl stream =
    (case resolve_client tx (ay_UseFallback input) of
       Inl err \<Rightarrow> State_Monad.return (Inl err)
     | Inr client \<Rightarrow> do {
         r \<leftarrow> call_llm env tx stream xl client;
         (case r of
            Inr result \<Rightarrow> State_Monad.return (Inr (finishLLMActivityResult info result (ay_UseFallback input)))
          | Inl err \<Rightarrow>
              if ay_UseFallback input \<or> \<not> llmActivityLastAttempt tx info then State_Monad.return (Inl err)
              else do {
                dec \<leftarrow> DecideLLMFailure (rt_Client (tx_base tx)) (rt_ErrorControl (tx_base tx))
                  (rt_NamedLLMClients (tx_base tx)) \<lparr>fi_Attempt = ai_Attempt info, fi_Err = err\<rparr>;
                (if ec_Action dec \<noteq> ErrorControlFallbackModel then State_Monad.return (Inl err)
                 else case resolve_client tx True of
                   Inl fbErr \<Rightarrow> State_Monad.return (Inl err)
                 | Inr fb \<Rightarrow> do {
                     r2 \<leftarrow> call_llm env tx stream xl fb;
                     State_Monad.return (case r2 of
                         Inl err2 \<Rightarrow> Inl err2
                       | Inr result \<Rightarrow> Inr (finishLLMActivityResult info result True)) }) }) })"

text \<open>The events of an activity go to the topic \<open>events\<close> of a workflow's stream.\<close>

definition streamTopicEvents :: string where "streamTopicEvents = ''events''"

definition stream_topic :: "string \<Rightarrow> string" where
  "stream_topic workflowID = workflowID @ ''/'' @ streamTopicEvents"

definition llm_messages :: "'w temporal_runtime \<Rightarrow> agent_llm_input \<Rightarrow> ('w, go_error + message list) io" where
  "llm_messages tx input =
    (if conversationMemoryEnabled_tm tx (ay_ConversationID input)
     then attempt (FetchConversationMessages (tx_base tx) (ay_ConversationID input)) (\<lambda>convMessages.
       State_Monad.return (Inr (convMessages @ ay_Messages input)))
     else State_Monad.return (Inr (ay_Messages input)))"

text \<open>\<open>AgentLLMActivity\<close>, and with \<open>stream\<close> \<open>AgentLLMStreamActivity\<close>.\<close>

definition AgentLLMActivity :: "'w temporal \<Rightarrow> 'w env \<Rightarrow> 'w temporal_runtime \<Rightarrow> bool \<Rightarrow> agent_llm_input \<Rightarrow>
    'w activity" where
  "AgentLLMActivity tm env tx stream input info =
    attempt (verified_tools tm env tx (ay_AgentFingerprint input)) (\<lambda>tools.
    attempt (llm_messages tx input) (\<lambda>messages. do {
      (if ay_StreamWorkflowID input \<noteq> '''' \<and> ai_Attempt info > 1 \<and> ay_MessageID input \<noteq> ''''
       then ext (tm_retrySignal tm (ay_StreamWorkflowID input) (ay_MessageID input))
       else State_Monad.return ());
      r \<leftarrow> runLLMActivity env tx info input
        \<lparr>xl_MessageID = ay_MessageID input, xl_RunID = ay_RunID input, xl_Iteration = ay_Iteration input,
         xl_Messages = messages, xl_SkipTools = ay_SkipTools input,
         xl_MemoryContext = ay_MemoryContext input, xl_RetrieverContext = ay_RetrieverContext input,
         xl_Tools = tools,
         xl_Emit = Some (\<lambda>ev. if ay_StreamWorkflowID input = '''' then State_Monad.return ()
           else emit_to (stream_topic (ay_StreamWorkflowID input)) ev),
         xl_Client = None\<rparr> stream;
      (if ay_StreamWorkflowID input \<noteq> '''' then do {
         _ \<leftarrow> ext (tm_close tm (ay_StreamWorkflowID input)); State_Monad.return () }
       else State_Monad.return ());
      State_Monad.return (map_sum id AvLLM r) }))"

definition AgentRetrieverActivity :: "'w temporal \<Rightarrow> 'w env \<Rightarrow> 'w temporal_runtime \<Rightarrow> agent_workflow_input \<Rightarrow>
    'w activity" where
  "AgentRetrieverActivity tm env tx input info = verified tm env tx (wi_AgentFingerprint input)
    (attempt (ExecuteRetrievers env (tx_base tx) (wi_RunID input) 0 (wi_UserPrompt input)) (\<lambda>res.
      State_Monad.return (Inr (AvRetrieved res))))"

definition AgentMemoryRecallActivity :: "'w temporal \<Rightarrow> 'w env \<Rightarrow> 'w temporal_runtime \<Rightarrow> agent_workflow_input \<Rightarrow>
    'w activity" where
  "AgentMemoryRecallActivity tm env tx input info = verified tm env tx (wi_AgentFingerprint input)
    (attempt (ExecuteMemoryRecall (tx_base tx) (wi_RunID input) 0 (wi_MemoryScope input) (wi_UserPrompt input))
      (\<lambda>res. State_Monad.return (Inr (AvMemory res))))"

definition AgentMemoryStoreActivity :: "'w temporal \<Rightarrow> 'w env \<Rightarrow> 'w temporal_runtime \<Rightarrow> agent_workflow_input \<Rightarrow>
    message list \<Rightarrow> 'w activity" where
  "AgentMemoryStoreActivity tm env tx input messages info = verified tm env tx (wi_AgentFingerprint input)
    (check_err (ExecuteMemoryStore env (tx_base tx) (wi_RunID input) 0 (wi_MemoryScope input) messages)
      (State_Monad.return (Inr AvUnit)))"

definition AgentMaxIterationsDecisionActivity :: "'w temporal_runtime \<Rightarrow> max_iterations_info \<Rightarrow> bool \<Rightarrow>
    'w activity" where
  "AgentMaxIterationsDecisionActivity tx mi alreadyExtended info = do {
     dec \<leftarrow> DecideMaxIterations (rt_ErrorControl (tx_base tx)) mi alreadyExtended;
     State_Monad.return (Inr (AvDecision dec)) }"

definition AddConversationMessagesActivity :: "'w temporal \<Rightarrow> 'w env \<Rightarrow> 'w temporal_runtime \<Rightarrow>
    agent_workflow_input \<Rightarrow> message list \<Rightarrow> 'w activity" where
  "AddConversationMessagesActivity tm env tx input messages info = verified tm env tx (wi_AgentFingerprint input)
    (case rt_Conversation (tx_base tx) of
       None \<Rightarrow> State_Monad.return (Inl (ErrNew ''conversation is not configured''))
     | Some conv \<Rightarrow> do {
         _ \<leftarrow> mapM (\<lambda>msg. ext (cv_AddMessage conv (wi_ConversationID input) msg)) messages;
         State_Monad.return (Inr AvUnit) })"

definition AgentToolAuthorizeActivity :: "'w temporal \<Rightarrow> 'w env \<Rightarrow> 'w temporal_runtime \<Rightarrow> agent_workflow_input \<Rightarrow>
    tool_call_request \<Rightarrow> 'w activity" where
  "AgentToolAuthorizeActivity tm env tx input tc info =
    attempt (verified_tools tm env tx (wi_AgentFingerprint input)) (\<lambda>tools.
    attempt (AuthorizeTool tools (tr_ToolName tc) (tr_Args tc)) (\<lambda>a. State_Monad.return (Inr (AvAuth a))))"

definition AgentToolExecuteActivity :: "'w temporal \<Rightarrow> 'w env \<Rightarrow> 'w temporal_runtime \<Rightarrow> agent_workflow_input \<Rightarrow>
    int \<Rightarrow> tool_call_request \<Rightarrow> 'w activity" where
  "AgentToolExecuteActivity tm env tx input iteration tc info =
    attempt (verified_tools tm env tx (wi_AgentFingerprint input)) (\<lambda>tools.
    attempt (ExecuteTool env (tx_base tx)
      \<lparr>xt_Tools = tools, xt_ToolName = tr_ToolName tc, xt_Args = tr_Args tc,
       xt_ToolCallID = tr_ToolCallID tc, xt_RunID = wi_RunID input, xt_Iteration = iteration\<rparr>
      (wi_MemoryScope input)) (\<lambda>content. State_Monad.return (Inr (AvString content))))"

text \<open>An approval publishes its request and stays pending; without a stream, or if the request cannot be
  flushed to it, it is unavailable.\<close>

definition request_on_stream :: "'w temporal \<Rightarrow> string \<Rightarrow> string \<Rightarrow> agent_event \<Rightarrow> ('w, go_error + activity_value) io" where
  "request_on_stream tm marshalling streamWorkflowID ev = (case tm_eventError tm ev of
      Some err \<Rightarrow> State_Monad.return (Inl (ErrWrap marshalling err ''''))
    | None \<Rightarrow>
        if streamWorkflowID = '''' then State_Monad.return (Inr (AvString ApprovalUnavailable))
        else do {
          emit_to (stream_topic streamWorkflowID) ev;
          closeErr \<leftarrow> ext (tm_close tm streamWorkflowID);
          State_Monad.return (Inr (if closeErr \<noteq> None then AvString ApprovalUnavailable else AvPending)) })"

text \<open>\<open>subAgentName\<close> is the name of the route of the tool, if it has one.\<close>

definition AgentToolApprovalActivity :: "'w temporal \<Rightarrow> 'w env \<Rightarrow> 'w temporal_runtime \<Rightarrow> agent_workflow_input \<Rightarrow>
    string \<Rightarrow> string \<Rightarrow> tool_call_request \<Rightarrow> 'w activity" where
  "AgentToolApprovalActivity tm env tx input subAgentName streamWorkflowID tc info =
    verified tm env tx (wi_AgentFingerprint input)
      (request_on_stream tm ''activity: marshal approval event: '' streamWorkflowID
        (if subAgentName = '''' then CustomEvent CustomNameToolApproval
           (ToolApprovalValue (rt_Name (tx_base tx)) (tr_ToolCallID tc) (tr_ToolName tc)
             (tr_ToolDisplayName tc) (tr_Args tc) (ai_TaskToken info))
         else CustomEvent CustomNameSubAgentDelegation
           (DelegationValue (rt_Name (tx_base tx)) subAgentName (tr_Args tc) (ai_TaskToken info))))"

definition AgentBudgetApprovalActivity :: "'w temporal \<Rightarrow> 'w env \<Rightarrow> 'w temporal_runtime \<Rightarrow> agent_workflow_input \<Rightarrow>
    string \<Rightarrow> string \<Rightarrow> int \<times> rat \<Rightarrow> 'w activity" where
  "AgentBudgetApprovalActivity tm env tx input streamWorkflowID detail totals info =
    verified tm env tx (wi_AgentFingerprint input)
      (request_on_stream tm ''activity: marshal budget approval event: '' streamWorkflowID
        (CustomEvent CustomNameBudget
           (BudgetValue (rt_Name (tx_base tx)) detail (fst totals) (snd totals) (ai_TaskToken info))))"

definition PublishStreamEventActivity :: "'w temporal \<Rightarrow> string \<Rightarrow> agent_event \<Rightarrow> 'w activity" where
  "PublishStreamEventActivity tm streamWorkflowID ev info =
    (if streamWorkflowID = '''' then State_Monad.return (Inr AvUnit)
     else do {
       emit_to (stream_topic streamWorkflowID) ev;
       _ \<leftarrow> ext (tm_close tm streamWorkflowID);
       State_Monad.return (Inr AvUnit) })"

definition cancelled_pending :: go_error where
  "cancelled_pending = ErrNew ''workflow cancelled while approval pending''"

fun complete_pending :: "'w temporal \<Rightarrow> string list \<Rightarrow> ('w, go_error + activity_value) io" where
  "complete_pending tm [] = State_Monad.return (Inr AvUnit)"
| "complete_pending tm (activityID # rest) =
    (if activityID = '''' then complete_pending tm rest
     else do {
       e \<leftarrow> ext (tm_completeByID tm activityID cancelled_pending);
       (case e of
          None \<Rightarrow> complete_pending tm rest
        | Some err \<Rightarrow>
            if tm_isNotFound tm err then complete_pending tm rest
            else State_Monad.return (Inl (ErrWrap (''activity: cleanup CompleteActivityByID ''
                   @ Quote activityID @ '': '') err ''''))) })"

definition AgentWorkflowCleanupActivity :: "'w temporal \<Rightarrow> 'w temporal_runtime \<Rightarrow> string list \<Rightarrow> 'w activity" where
  "AgentWorkflowCleanupActivity tm tx approvalActivityIDs info =
    (if approvalActivityIDs = [] then State_Monad.return (Inr AvUnit)
     else if \<not> tx_hasClient tx then State_Monad.return (Inl (ErrNew
       ''activity: AgentWorkflowCleanupActivity requires a Temporal client''))
     else complete_pending tm approvalActivityIDs)"

end
