(* ===== verification/Temporal_Loop.thy ===== *)
theory Temporal_Loop
  imports Temporal_Base
begin

text \<open>
  The workflow of the Temporal runtime, \<open>internal/runtime/temporal/agent_workflow.go\<close> and \<open>subagent.go\<close>:
  a tool call with its authorization, approval, execution or child workflow, the budget, the loop, and
  the continuation of a run as a new one when its history has grown too long.

  The messages of a run refer to the maps of the arguments that they share with the variable for the
  result of the LLM (\<open>llm_var\<close>). The coroutines of a parallel round run one after another in a
  scheduled order; what they leave in the map of pending approvals is applied in the order of the calls.
\<close>

section \<open>The run\<close>

record 'w workflow_run =
  wr_tm :: "'w temporal"
  wr_env :: "'w env"
  wr_tx :: "'w temporal_runtime"
  wr_input :: agent_workflow_input
  wr_suffix :: string
  wr_breaker :: "nat option"

abbreviation wr_rt :: "'w workflow_run \<Rightarrow> 'w runtime" where
  "wr_rt r \<equiv> tx_base (wr_tx r)"

definition isRoot :: "'w workflow_run \<Rightarrow> bool" where
  "isRoot r \<longleftrightarrow> wi_RootWorkflowID (wr_input r) = ''''"

definition streamWorkflowID :: "'w workflow_run \<Rightarrow> string" where
  "streamWorkflowID r = (if isRoot r then tm_workflowID (wr_tm r) else wi_RootWorkflowID (wr_input r))"

definition executionPolicies_tm :: "'w workflow_run \<Rightarrow> execution_policies" where
  "executionPolicies_tm r = ResolveExecutionPolicies (rt_ExecutionConfigs (wr_rt r))"

text \<open>\<open>ExecuteActivity\<close> and \<open>Get\<close>, at a type of result; an activity without a result gives any value.\<close>

definition execute_activity :: "'w workflow_run \<Rightarrow> (activity_value \<Rightarrow> 'a option) \<Rightarrow> activity_options \<Rightarrow>
    'w activity \<Rightarrow> ('w, go_error + 'a) io" where
  "execute_activity r ty opts act = do {
     v \<leftarrow> tm_activity (wr_tm r) opts act;
     State_Monad.return (case v of Inl err \<Rightarrow> Inl err
       | Inr x \<Rightarrow> (case ty x of Some a \<Rightarrow> Inr a | None \<Rightarrow> Inl (tm_typeError (wr_tm r) x))) }"

definition of_llm :: "activity_value \<Rightarrow> agent_llm_result option" where
  "of_llm v = (case v of AvLLM x \<Rightarrow> Some x | _ \<Rightarrow> None)"
definition of_memory :: "activity_value \<Rightarrow> memory_result option" where
  "of_memory v = (case v of AvMemory x \<Rightarrow> Some x | _ \<Rightarrow> None)"
definition of_retrieved :: "activity_value \<Rightarrow> retriever_result option" where
  "of_retrieved v = (case v of AvRetrieved x \<Rightarrow> Some x | _ \<Rightarrow> None)"
definition of_decision :: "activity_value \<Rightarrow> ec_decision option" where
  "of_decision v = (case v of AvDecision x \<Rightarrow> Some x | _ \<Rightarrow> None)"
definition of_auth :: "activity_value \<Rightarrow> authorize_result option" where
  "of_auth v = (case v of AvAuth x \<Rightarrow> Some x | _ \<Rightarrow> None)"
definition of_string :: "activity_value \<Rightarrow> string option" where
  "of_string v = (case v of AvString x \<Rightarrow> Some x | _ \<Rightarrow> None)"
definition of_any :: "activity_value \<Rightarrow> unit option" where
  "of_any v = Some ()"

definition error_of :: "go_error + 'a \<Rightarrow> go_error option" where
  "error_of r = (case r of Inl err \<Rightarrow> Some err | Inr _ \<Rightarrow> None)"

text \<open>\<open>emitAgentEvent\<close>: a root publishes to its stream, a sub-agent by an activity to the stream of its root.\<close>

definition emitAgentEvent :: "'w workflow_run \<Rightarrow> agent_event \<Rightarrow> ('w, go_error option) io" where
  "emitAgentEvent r ev =
    (if \<not> event_allowed (wi_EventTypes (wr_input r)) ev then State_Monad.return None
     else if isRoot r then do {
       e \<leftarrow> ext (tm_publish (wr_tm r) ev);
       (if e = None then emit_to (stream_topic (streamWorkflowID r)) ev else State_Monad.return ());
       State_Monad.return e }
     else do {
       x \<leftarrow> execute_activity r of_any (short_options '''' publishStreamEventActivityTaskTimeout 1)
             (PublishStreamEventActivity (wr_tm r) (streamWorkflowID r) ev);
       State_Monad.return (error_of x) })"

section \<open>Sub-agents\<close>

datatype 'w temporal_spec = TemporalSpec (ts_Name: string) (ts_ToolName: string)
  (ts_Runtime: "'w temporal_runtime option") (ts_Children: "'w temporal_spec option list")
  (ts_Tools: "'w tool list")

text \<open>The runtime is \<open>None\<close> if it is not a Temporal runtime; a nil spec is \<open>None\<close>.\<close>

fun buildSubAgentRoutes_tm :: "('w temporal_runtime \<Rightarrow> 'w tool list \<Rightarrow> string) \<Rightarrow> 'w temporal_spec option list \<Rightarrow>
    (string \<times> sub_agent_route) list" where
  "buildSubAgentRoutes_tm fp [] = []"
| "buildSubAgentRoutes_tm fp (None # specs) = buildSubAgentRoutes_tm fp specs"
| "buildSubAgentRoutes_tm fp (Some (TemporalSpec n tn tr children tools) # specs) =
    (if map_of (buildSubAgentRoutes_tm fp specs) tn = None
     then (tn, SubAgentRoute n (case tr of None \<Rightarrow> '''' | Some t \<Rightarrow> tx_taskQueue t)
             (buildSubAgentRoutes_tm fp children) (case tr of None \<Rightarrow> '''' | Some t \<Rightarrow> fp t tools))
       # buildSubAgentRoutes_tm fp specs
     else buildSubAgentRoutes_tm fp specs)"

definition subAgentChildWorkflowTimeout :: "'w workflow_run \<Rightarrow> int" where
  "subAgentChildWorkflowTimeout r = (let timeout = pol_Timeout (pol_SubAgent (executionPolicies_tm r))
     in if timeout = 0 \<and> rt_Timeout (wr_rt r) > 0 then rt_Timeout (wr_rt r) else timeout)"

definition delegation_name_tm :: "sub_agent_route \<Rightarrow> tool_call_request \<Rightarrow> string" where
  "delegation_name_tm route tc =
    (if TrimSpace (sg_Name route) = '''' then tr_ToolName tc else TrimSpace (sg_Name route))"

definition child_workflow_input :: "'w workflow_run \<Rightarrow> sub_agent_route \<Rightarrow> tool_call_request \<Rightarrow> string \<Rightarrow>
    agent_workflow_input" where
  "child_workflow_input r route tc childSuffix = (let input = wr_input r in
    \<lparr>wi_UserPrompt = SubAgentQuery (tr_Args tc), wi_RootWorkflowID = streamWorkflowID r,
     wi_StreamState = None, wi_StreamingEnabled = wi_StreamingEnabled input, wi_ConversationID = '''',
     wi_AgentFingerprint = sg_AgentFingerprint route, wi_RunID = childSuffix,
     wi_MemoryScope = SubAgentScope (wi_MemoryScope input) (delegation_name_tm route tc),
     wi_EventTypes = wi_EventTypes input, wi_SubAgentDepth = wi_SubAgentDepth input + 1,
     wi_SubAgentRoutes = sg_ChildRoutes route, wi_MaxSubAgentDepth = wi_MaxSubAgentDepth input,
     wi_State = None\<rparr>)"

definition child_workflow_options :: "'w workflow_run \<Rightarrow> sub_agent_route \<Rightarrow> tool_call_request \<Rightarrow> string \<Rightarrow>
    child_options" where
  "child_workflow_options r route tc childSuffix =
    \<lparr>co_WorkflowID = tm_workflowID (wr_tm r) @ ''-sub-'' @ tr_ToolCallID tc @ ''-'' @ childSuffix,
     co_TaskQueue = sg_TaskQueue route, co_ExecutionTimeout = subAgentChildWorkflowTimeout r\<rparr>"

definition delegateToSubAgent_tm :: "'w workflow_run \<Rightarrow> tool_call_request \<Rightarrow> sub_agent_route \<Rightarrow>
    ('w, go_error + string \<times> llm_usage option) io" where
  "delegateToSubAgent_tm r tc route =
    (if TrimSpace (sg_TaskQueue route) = '''' then State_Monad.return (Inr
       (''Sub-agent delegation failed: sub-agent task queue is not configured.'', None))
     else if wi_SubAgentDepth (wr_input r) \<ge> wi_MaxSubAgentDepth (wr_input r) then State_Monad.return (Inr
       (''Sub-agent delegation refused: maximum nesting depth ('' @ itoa (wi_MaxSubAgentDepth (wr_input r))
         @ '') reached for this agent.'', None))
     else attempt (ext (tm_sideEffect (wr_tm r) (en_uuid (wr_env r)))) (\<lambda>childSuffix.
       check_err (emitAgentEvent r (StepStarted (delegation_name_tm route tc))) (do {
         child \<leftarrow> ext (tm_child (wr_tm r) (child_workflow_options r route tc childSuffix)
                    (child_workflow_input r route tc childSuffix));
         (case child of
            Inl err \<Rightarrow> State_Monad.return (Inr (''Sub-agent workflow failed: '' @ error_str err, None))
          | Inr res \<Rightarrow> check_err (emitAgentEvent r (StepFinished (delegation_name_tm route tc)))
              (State_Monad.return (Inr (case res of None \<Rightarrow> ('''', None)
                 | Some x \<Rightarrow> (rz_Content x, rz_LLMUsage x))))) })))"

section \<open>One tool call\<close>

definition msgToolApprovalUnavailable_tm :: string where
  "msgToolApprovalUnavailable_tm = ''Tool approval could not be completed because the event stream is unavailable; continuing without running the tool.''"
definition msgToolApprovalTimedOut_tm :: string where
  "msgToolApprovalTimedOut_tm = ''Tool approval timed out; continuing without running the tool.''"

record call_context =
  cc_messageID :: string
  cc_iteration :: int
  cc_slot :: string
  cc_now :: int

record agent_tool_output = tool_result +
  to_agentUsage :: "llm_usage option"

text \<open>What a call does to the map of pending approvals, from the identifier of a call to that of its
  activity: nothing, it removes its entry, or it leaves it there.\<close>

datatype pending_change = NoApproval | ApprovalEnded string | ApprovalLeft string string

type_synonym call_outcome = "(go_error + agent_tool_output) \<times> pending_change"

definition activity_scope :: "'w workflow_run \<Rightarrow> call_context \<Rightarrow> string" where
  "activity_scope r cc = (if cc_slot cc = '''' then wr_suffix r else wr_suffix r @ ''_'' @ cc_slot cc)"

definition approvalTaskTimeout_tm :: "'w workflow_run \<Rightarrow> int" where
  "approvalTaskTimeout_tm r =
    (let timeout = (if rt_ApprovalTimeout (wr_rt r) = 0 then MaxApprovalTimeout else rt_ApprovalTimeout (wr_rt r))
     in if timeout > MaxApprovalTimeout then MaxApprovalTimeout else timeout)"

definition approvalActivityID :: "'w workflow_run \<Rightarrow> call_context \<Rightarrow> string" where
  "approvalActivityID r cc = ''AgentToolApprovalActivity_'' @ activity_scope r cc"

definition emitToolEndThenResult_tm :: "'w workflow_run \<Rightarrow> call_context \<Rightarrow> string \<Rightarrow> string \<Rightarrow>
    ('w, go_error option) io" where
  "emitToolEndThenResult_tm r cc toolCallID content = do {
     e \<leftarrow> emitAgentEvent r (ToolCallEnd toolCallID);
     (if e \<noteq> None then State_Monad.return e
      else emitAgentEvent r (ToolCallResult (cc_messageID cc) toolCallID content RoleTool)) }"

definition call_output :: "tool_call_request \<Rightarrow> string \<Rightarrow> bool \<Rightarrow> llm_usage option \<Rightarrow> agent_tool_output" where
  "call_output tc content failed usage =
    \<lparr>to_message = tool_message tc content, to_failed = failed, to_agentUsage = usage\<rparr>"

definition finish_call_tm :: "'w workflow_run \<Rightarrow> call_context \<Rightarrow> tool_call_request \<Rightarrow> string \<Rightarrow> bool \<Rightarrow>
    llm_usage option \<Rightarrow> ('w, go_error + agent_tool_output) io" where
  "finish_call_tm r cc tc content failed usage =
     check_err (emitToolEndThenResult_tm r cc (tr_ToolCallID tc) content)
       (State_Monad.return (Inr (call_output tc content failed usage)))"

definition announce_call_tm :: "'w workflow_run \<Rightarrow> call_context \<Rightarrow> tool_call_request \<Rightarrow> ('w, go_error option) io" where
  "announce_call_tm r cc tc = do {
     e \<leftarrow> emitAgentEvent r (ToolCallStart (tr_ToolCallID tc) (tr_ToolName tc) (cc_messageID cc));
     (if e \<noteq> None then State_Monad.return e
      else case en_marshal (wr_env r) (case tr_Args tc of None \<Rightarrow> ANil | Some xs \<Rightarrow> AObj xs) of
        None \<Rightarrow> State_Monad.return None
      | Some js \<Rightarrow> (let s = TrimSpace js in
          if s \<noteq> '''' \<and> s \<noteq> ''null'' \<and> s \<noteq> ''{}''
          then emitAgentEvent r (ToolCallArgs (tr_ToolCallID tc) s) else State_Monad.return None)) }"

definition check_tripped_tm :: "'w workflow_run \<Rightarrow> call_context \<Rightarrow> tool_call_request \<Rightarrow> ('w, bool) io" where
  "check_tripped_tm r cc tc =
    (if wr_breaker r \<noteq> None \<and> CountsTowardCircuitBreaker (tr_Unknown tc) (tr_ToolKind tc)
     then do {
       c \<leftarrow> read_breaker (wr_breaker r);
       (case IsTripped c (tr_ToolName tc) (Some (cc_now cc)) of (tripped, c') \<Rightarrow> do {
          write_breaker (wr_breaker r) c';
          State_Monad.return tripped }) }
     else State_Monad.return False)"

definition route_of :: "'w workflow_run \<Rightarrow> tool_call_request \<Rightarrow> sub_agent_route option" where
  "route_of r tc = map_of (wi_SubAgentRoutes (wr_input r)) (tr_ToolName tc)"

definition approval_change :: "'w temporal \<Rightarrow> string \<Rightarrow> string \<Rightarrow> go_error + string \<Rightarrow> pending_change" where
  "approval_change tm toolCallID activityID res = (case res of
      Inl err \<Rightarrow> if tm_isCanceled tm err then ApprovalLeft toolCallID activityID else ApprovalEnded toolCallID
    | Inr _ \<Rightarrow> ApprovalEnded toolCallID)"

definition approval_status :: "'w workflow_run \<Rightarrow> call_context \<Rightarrow> tool_call_request \<Rightarrow>
    ('w, (go_error + string) \<times> pending_change) io" where
  "approval_status r cc tc =
    (if \<not> tr_NeedsApproval tc then State_Monad.return (Inr ApprovalApproved, NoApproval)
     else do {
       res \<leftarrow> execute_activity r of_string
         (short_options (approvalActivityID r cc) (approvalTaskTimeout_tm r) agentToolApprovalActivityMaxAttempts)
         (AgentToolApprovalActivity (wr_tm r) (wr_env r) (wr_tx r) (wr_input r)
           (case route_of r tc of None \<Rightarrow> '''' | Some route \<Rightarrow> sg_Name route) (streamWorkflowID r) tc);
       State_Monad.return
         (case res of
            Inl err \<Rightarrow> if tm_isTimeout (wr_tm r) err then Inr ApprovalTimedOut else Inl err
          | Inr status \<Rightarrow> Inr status,
          approval_change (wr_tm r) (tr_ToolCallID tc) (approvalActivityID r cc) res) })"

definition toolExecutionPolicy_tm :: "string \<Rightarrow> execution_policies \<Rightarrow> execution_policy" where
  "toolExecutionPolicy_tm kind policies =
    (if kind = ToolKindMCP then pol_MCP policies
     else if kind = ToolKindA2A then pol_A2A policies
     else pol_ToolExecute policies)"

definition dispatch_tm :: "'w workflow_run \<Rightarrow> call_context \<Rightarrow> tool_call_request \<Rightarrow> string \<Rightarrow>
    ('w, go_error + agent_tool_output) io" where
  "dispatch_tm r cc tc status =
    (if status = ApprovalApproved then
       (case route_of r tc of
          Some route \<Rightarrow> attempt (delegateToSubAgent_tm r tc route) (\<lambda>cu.
            finish_call_tm r cc tc (fst cu) False (snd cu))
        | None \<Rightarrow> do {
            res \<leftarrow> execute_activity r of_string
              (execActivityOptions (toolExecutionPolicy_tm (tr_ToolKind tc) (executionPolicies_tm r))
                (''AgentToolExecuteActivity_'' @ activity_scope r cc) True)
              (AgentToolExecuteActivity (wr_tm r) (wr_env r) (wr_tx r) (wr_input r) (cc_iteration cc) tc);
            (case res of
               Inl err \<Rightarrow> finish_call_tm r cc tc (''Tool execution failed: '' @ error_str err) True None
             | Inr content \<Rightarrow> finish_call_tm r cc tc content False None) })
     else if status = ApprovalRejected then finish_call_tm r cc tc msgToolRejected False None
     else if status = ApprovalUnavailable then finish_call_tm r cc tc msgToolApprovalUnavailable_tm False None
     else if status = ApprovalTimedOut then finish_call_tm r cc tc msgToolApprovalTimedOut_tm False None
     else State_Monad.return (Inl (ErrNew (''workflow: unexpected approval status '' @ Quote status
       @ '' for tool '' @ Quote (tr_ToolName tc)))))"

definition denial_content_tm :: "authorize_result \<Rightarrow> string" where
  "denial_content_tm a = (if TrimSpace (ar_Reason a) \<noteq> '''' then msgToolUnauthorized @ '' Reason: '' @ ar_Reason a
     else msgToolUnauthorized)"

definition no_change :: "('w, go_error + agent_tool_output) io \<Rightarrow> ('w, call_outcome) io" where
  "no_change m = do { out \<leftarrow> m; State_Monad.return (out, NoApproval) }"

definition authorized_tm :: "'w workflow_run \<Rightarrow> call_context \<Rightarrow> tool_call_request \<Rightarrow> ('w, call_outcome) io" where
  "authorized_tm r cc tc = do {
     auth \<leftarrow> execute_activity r of_auth
       (execActivityOptions (pol_ToolAuth (executionPolicies_tm r))
         (''AgentToolAuthorizeActivity_'' @ activity_scope r cc) False)
       (AgentToolAuthorizeActivity (wr_tm r) (wr_env r) (wr_tx r) (wr_input r) tc);
     (case auth of
        Inl err \<Rightarrow> State_Monad.return (Inl err, NoApproval)
      | Inr a \<Rightarrow>
          if \<not> ar_Allowed a then no_change (finish_call_tm r cc tc (denial_content_tm a) False None)
          else do {
            st \<leftarrow> approval_status r cc tc;
            (case fst st of
               Inl err \<Rightarrow> State_Monad.return (Inl err, snd st)
             | Inr status \<Rightarrow> do {
                 out \<leftarrow> dispatch_tm r cc tc status;
                 State_Monad.return (out, snd st) }) }) }"

definition executeAgentToolCall :: "'w workflow_run \<Rightarrow> call_context \<Rightarrow> tool_call_request \<Rightarrow>
    ('w, call_outcome) io" where
  "executeAgentToolCall r cc tc = do {
     e \<leftarrow> announce_call_tm r cc tc;
     (case e of
        Some err \<Rightarrow> State_Monad.return (Inl err, NoApproval)
      | None \<Rightarrow>
          if tr_Unknown tc then no_change (finish_call_tm r cc tc (UnknownToolMessage (tr_ToolName tc)) False None)
          else do {
            tripped \<leftarrow> check_tripped_tm r cc tc;
            (if tripped
             then no_change (finish_call_tm r cc tc (CircuitBreakerSkippedMessage (tr_ToolName tc)) False None)
             else authorized_tm r cc tc) }) }"

definition settle_tm :: "tool_call_request \<Rightarrow> call_outcome \<Rightarrow> agent_tool_output" where
  "settle_tm tc outcome = (case fst outcome of
      Inl err \<Rightarrow> call_output tc (''Tool execution failed: '' @ error_str err) True None
    | Inr out \<Rightarrow> out)"

text \<open>A round of calls: the slot of a parallel call is its index.\<close>

definition execute_tools_tm :: "'w workflow_run \<Rightarrow> string \<Rightarrow> int \<Rightarrow> int \<Rightarrow> tool_call_request list \<Rightarrow>
    ('w, go_error + call_outcome list) io" where
  "execute_tools_tm r messageID iter now calls =
    (let mode = (if rt_ToolExecutionMode (wr_rt r) = '''' then ExecModeParallel
                 else rt_ToolExecutionMode (wr_rt r));
         cc = \<lparr>cc_messageID = messageID, cc_iteration = iter, cc_slot = '''', cc_now = now\<rparr> in
     if mode = ExecModeParallel then do {
       os \<leftarrow> run_batch (wr_env r) (\<lambda>i tc. executeAgentToolCall r (cc\<lparr>cc_slot := itoa (int i)\<rparr>) tc) calls;
       State_Monad.return (Inr os) }
     else if mode = ExecModeSequential then do {
       os \<leftarrow> mapM (executeAgentToolCall r cc) calls;
       State_Monad.return (Inr os) }
     else State_Monad.return (Inl (ErrNew (''invalid tool execution mode '' @ Quote mode @ '': use ''
       @ Quote ExecModeParallel @ '' or '' @ Quote ExecModeSequential))))"

section \<open>The budget\<close>

text \<open>\<open>Some err\<close> stops the run; it also sets the finish reason, see \<open>budget_exit\<close>.\<close>

definition handleBudgetExceeded_tm :: "'w workflow_run \<Rightarrow> string \<Rightarrow> ('w, go_error option) io" where
  "handleBudgetExceeded_tm r detail = do {
     tracker \<leftarrow> read_tracker;
     (let stop = ErrWrap '''' (ErrSentinel ErrBudgetExceeded) ('': '' @ detail) in
      if budget_action (wr_rt r) = BudgetWaitForApproval \<and> \<not> ApprovalsExhausted tracker then do {
        pause \<leftarrow> ext (tm_sideEffect (wr_tm r) (en_uuid (wr_env r)));
        (case pause of
           Inl _ \<Rightarrow> State_Monad.return (Some stop)
         | Inr pauseID \<Rightarrow> do {
             res \<leftarrow> execute_activity r of_string
               (short_options (''AgentBudgetApprovalActivity_'' @ wr_suffix r @ ''_'' @ pauseID)
                 (rt_ApprovalTimeout (wr_rt r)) agentToolApprovalActivityMaxAttempts)
               (AgentBudgetApprovalActivity (wr_tm r) (wr_env r) (wr_tx r) (wr_input r)
                 (streamWorkflowID r) detail (Totals tracker));
             (case res of
                Inl _ \<Rightarrow> State_Monad.return (Some stop)
              | Inr status \<Rightarrow>
                  if status = ApprovalApproved then do {
                    t \<leftarrow> read_tracker;
                    write_tracker (snd (AdvanceWatermark t));
                    State_Monad.return None }
                  else if status = ApprovalUnavailable then State_Monad.return (Some
                    (ErrWrap '''' (ErrSentinel ErrBudgetApprovalUnavailable) ('': '' @ detail)))
                  else State_Monad.return (Some stop)) }) }
      else State_Monad.return (Some stop)) }"

definition add_usage :: "llm_usage option \<Rightarrow> ('w, budget_exceeded_error option) io" where
  "add_usage usage = do {
     t \<leftarrow> read_tracker;
     (case bt_Add t usage of (e, t') \<Rightarrow> do { write_tracker t'; State_Monad.return e }) }"

text \<open>Only a root enforces its budget.\<close>

definition enforce_budget :: "'w workflow_run \<Rightarrow> llm_usage option \<Rightarrow> ('w, go_error option) io" where
  "enforce_budget r usage = do {
     tracker \<leftarrow> read_tracker;
     (if tracker = None \<or> \<not> isRoot r then State_Monad.return None
      else do {
        e \<leftarrow> add_usage usage;
        (case e of
           None \<Rightarrow> State_Monad.return None
         | Some be \<Rightarrow> handleBudgetExceeded_tm r (budget_error_str be)) }) }"

text \<open>The usage of a sub-agent is added to the tracker of a sub-agent as well, without a check.\<close>

definition account_delegated :: "'w workflow_run \<Rightarrow> llm_usage option \<Rightarrow> ('w, go_error option) io" where
  "account_delegated r usage = do {
     tracker \<leftarrow> read_tracker;
     (if tracker \<noteq> None \<and> \<not> isRoot r then do { _ \<leftarrow> add_usage usage; State_Monad.return None }
      else enforce_budget r usage) }"

end
