(* ===== verification/Temporal_Workflow.thy ===== *)
theory Temporal_Workflow
  imports Temporal_Loop
begin

text \<open>
  \<open>AgentWorkflow\<close> of \<open>internal/runtime/temporal/agent_workflow.go\<close>: the loop over the turns of the LLM, the
  continuation as a new run, the end of a run with the clean-up of its pending approvals, and the chain
  of the runs that continue each other.
\<close>

section \<open>Messages\<close>

text \<open>A message with, for each of its tool calls, the map that its arguments share with the variable for
  the results of the LLM; \<open>None\<close> if they share none.\<close>

type_synonym wf_message = "message \<times> nat option list"

definition own_message :: "message \<Rightarrow> wf_message" where
  "own_message m = (m, map (\<lambda>_. None) (msg_ToolCalls m))"

definition read_call :: "go_maps \<Rightarrow> tool_call \<times> nat option \<Rightarrow> tool_call" where
  "read_call maps cr = (case snd cr of None \<Rightarrow> fst cr | Some a \<Rightarrow> (fst cr)\<lparr>tc_Args := Some (maps ! a)\<rparr>)"

definition read_message :: "go_maps \<Rightarrow> wf_message \<Rightarrow> message" where
  "read_message maps m = (fst m)\<lparr>msg_ToolCalls := map (read_call maps) (zip (msg_ToolCalls (fst m)) (snd m))\<rparr>"

section \<open>The state of the loop\<close>

record wf_state =
  ws_messages :: "wf_message list"
  ws_var :: llm_var
  ws_maxIter :: int
  ws_iterationsExtended :: bool
  ws_useFallback :: bool
  ws_lastContent :: string
  ws_llmUsage :: "llm_usage option"
  ws_telemetry :: agent_telemetry
  ws_pending :: "(string \<times> string) list"

definition messages_of :: "wf_state \<Rightarrow> message list" where
  "messages_of st = map (read_message (lv_Maps (ws_var st))) (ws_messages st)"

datatype wf_exit =
    RunFailed "agent_run_result option" go_error
  | ContinuedAsNew agent_workflow_input

datatype wf_turn = NextTurn wf_state | LeaveLoop wf_state | ExitRun wf_state wf_exit

definition apply_change :: "(string \<times> string) list \<Rightarrow> pending_change \<Rightarrow> (string \<times> string) list" where
  "apply_change pending c = (case c of
      NoApproval \<Rightarrow> pending
    | ApprovalEnded i \<Rightarrow> filter (\<lambda>p. fst p \<noteq> i) pending
    | ApprovalLeft i act \<Rightarrow> pair_put i act pending)"

definition partial_result :: "wf_state \<Rightarrow> agent_run_result" where
  "partial_result st = \<lparr>rz_Content = '''', rz_AgentName = '''', rz_Model = '''', rz_RunID = '''',
     rz_LLMUsage = ws_llmUsage st, rz_Telemetry = ws_telemetry st\<rparr>"

definition budget_exit :: "wf_state \<Rightarrow> go_error \<Rightarrow> wf_turn" where
  "budget_exit st err =
    (let st' = st\<lparr>ws_telemetry := set_finish FinishBudgetExceeded (ws_telemetry st)\<rparr>
     in ExitRun st' (RunFailed (Some (partial_result st')) err))"

record wf_context =
  wx_memoryContext :: string
  wx_retrieverContext :: string

section \<open>The LLM\<close>

definition useStreaming :: "'w workflow_run \<Rightarrow> bool" where
  "useStreaming r \<longleftrightarrow> wi_StreamingEnabled (wr_input r) \<and> lc_IsStreamSupported (rt_Client (wr_rt r))"

definition llm_input_tm :: "'w workflow_run \<Rightarrow> wf_context \<Rightarrow> string \<Rightarrow> int \<Rightarrow> bool \<Rightarrow> wf_state \<Rightarrow> agent_llm_input" where
  "llm_input_tm r wx messageID iter skipTools st = (let input = wr_input r in
    \<lparr>ay_ConversationID = wi_ConversationID input, ay_Messages = messages_of st, ay_SkipTools = skipTools,
     ay_AgentFingerprint = wi_AgentFingerprint input, ay_MessageID = messageID,
     ay_StreamWorkflowID = streamWorkflowID r, ay_MemoryContext = wx_memoryContext wx,
     ay_RetrieverContext = wx_retrieverContext wx, ay_RunID = wi_RunID input, ay_Iteration = iter,
     ay_UseFallback = ws_useFallback st\<rparr>)"

definition llm_activity :: "'w workflow_run \<Rightarrow> agent_llm_input \<Rightarrow> ('w, go_error + agent_llm_result) io" where
  "llm_activity r ay =
    (let name = (if useStreaming r then ''AgentLLMStreamActivity_'' else ''AgentLLMActivity_'')
     in execute_activity r of_llm
          (execActivityOptions (pol_LLM (executionPolicies_tm r)) (name @ wr_suffix r) (useStreaming r))
          (AgentLLMActivity (wr_tm r) (wr_env r) (wr_tx r) (useStreaming r) ay))"

text \<open>What the workflow does with a result: it decodes it into its variable and reads the variable.\<close>

definition got_result :: "'w workflow_run \<Rightarrow> agent_llm_result \<Rightarrow> wf_state \<Rightarrow> wf_state" where
  "got_result r result st =
    (let v = tm_decode (wr_tm r) (ws_var st) result;
         t = count_llm_call (ws_telemetry st)
     in st\<lparr>ws_var := v, ws_useFallback := (ws_useFallback st \<or> lv_UsedFallback v),
           ws_telemetry := t\<lparr>te_Run := (te_Run t)\<lparr>rn_LLMRetryCount := rn_LLMRetryCount (te_Run t) + lv_RetryCount v\<rparr>\<rparr>,
           ws_llmUsage := MergeLLMUsage (ws_llmUsage st) (lv_Usage v)\<rparr>)"

section \<open>A round of tool calls\<close>

fun take_outputs :: "'w workflow_run \<Rightarrow> int \<Rightarrow> (tool_call_request \<times> agent_tool_output) list \<Rightarrow> wf_state \<Rightarrow>
    ('w, wf_state \<times> go_error option) io" where
  "take_outputs r now [] st = State_Monad.return (st, None)"
| "take_outputs r now ((tc, out) # rest) st = do {
     c \<leftarrow> read_breaker (wr_breaker r);
     write_breaker (wr_breaker r)
       (ApplyToolCircuitResult c (tr_Unknown tc) (tr_ToolKind tc) (tr_ToolName tc)
          (HashToolArgs (en_marshal (wr_env r)) (en_sha256hex (wr_env r)) (tr_Args tc)) (to_failed out) now);
     (let st1 = st\<lparr>ws_telemetry := record_call tc (to_failed out) (ws_telemetry st),
            ws_messages := ws_messages st @ [own_message (to_message out)]\<rparr>
      in if to_agentUsage out = None then take_outputs r now rest st1
         else let st2 = st1\<lparr>ws_llmUsage := MergeLLMUsage (ws_llmUsage st1) (to_agentUsage out)\<rparr> in do {
           b \<leftarrow> account_delegated r (to_agentUsage out);
           (case b of
              Some err \<Rightarrow> State_Monad.return (st2, Some err)
            | None \<Rightarrow> take_outputs r now rest st2) }) }"

text \<open>The messages of a run are saved, and then dropped, after each round if the session says so.\<close>

definition saves_messages :: "'w workflow_run \<Rightarrow> wf_state \<Rightarrow> bool" where
  "saves_messages r st \<longleftrightarrow>
     conversationMemoryEnabled_tm (wr_tx r) (wi_ConversationID (wr_input r)) \<and> ws_messages st \<noteq> []"

definition save_messages :: "'w workflow_run \<Rightarrow> wf_state \<Rightarrow> ('w, go_error + unit) io" where
  "save_messages r st = execute_activity r of_any
     (execActivityOptions (pol_Conversation (executionPolicies_tm r)) (''ConversationActivity_'' @ wr_suffix r) False)
     (AddConversationMessagesActivity (wr_tm r) (wr_env r) (wr_tx r) (wr_input r) (messages_of st))"

definition save_iteration :: "'w workflow_run \<Rightarrow> wf_state \<Rightarrow> ('w, wf_state) io" where
  "save_iteration r st =
    (if saves_messages r st \<and> rt_SaveOnIteration (wr_rt r) then do {
       res \<leftarrow> save_messages r st;
       State_Monad.return (case res of Inl _ \<Rightarrow> st | Inr _ \<Rightarrow> st\<lparr>ws_messages := []\<rparr>) }
     else State_Monad.return st)"

section \<open>Continue as new\<close>

definition agentWorkflowHistoryLength :: int where "agentWorkflowHistoryLength = 10000"
definition agentWorkflowHistorySizeBytes :: int where "agentWorkflowHistorySizeBytes = 20000000"
definition streamPublisherTTL :: int where "streamPublisherTTL = 15 * minute_ns"

definition historyExceeded :: "'w workflow_run \<Rightarrow> ('w, bool) io" where
  "historyExceeded r = do {
     h \<leftarrow> ext (tm_history (wr_tm r));
     State_Monad.return (fst h \<ge> agentWorkflowHistoryLength \<or> snd h \<ge> agentWorkflowHistorySizeBytes) }"

definition continued_state :: "int \<Rightarrow> int \<Rightarrow> budget_tracker option \<Rightarrow> circuit_breaker option \<Rightarrow> wf_state \<Rightarrow>
    agent_workflow_state" where
  "continued_state originalMaxIter iter tracker breaker st =
    \<lparr>as_Iteration = iter + 1, as_Messages = messages_of st, as_LLMUsage = ws_llmUsage st,
     as_Telemetry = Some (ws_telemetry st),
     as_BudgetTokens = fst (Totals tracker), as_BudgetCostUSD = snd (Totals tracker),
     as_BudgetWatermarkTokens = fst (WatermarkTotals tracker),
     as_BudgetWatermarkCostUSD = snd (WatermarkTotals tracker),
     as_UseFallbackLLM = ws_useFallback st, as_IterationsExtended = ws_iterationsExtended st,
     as_ExtraIterations = (if originalMaxIter > 0 \<and> ws_maxIter st > originalMaxIter
       then ws_maxIter st - originalMaxIter else 0),
     as_CircuitBreaker = cb_State breaker\<rparr>"

definition continue_as_new :: "'w workflow_run \<Rightarrow> int \<Rightarrow> wf_state \<Rightarrow> ('w, wf_exit) io" where
  "continue_as_new r iter st = do {
     detached \<leftarrow> (if isRoot r then ext (tm_detach (wr_tm r)) else State_Monad.return None);
     (case detached of
        Some awaitErr \<Rightarrow> State_Monad.return (RunFailed None awaitErr)
      | None \<Rightarrow> do {
          log \<leftarrow> (if isRoot r then ext (tm_getState (wr_tm r) streamPublisherTTL)
                 else State_Monad.return (Inr 0));
          (case log of
             Inl stErr \<Rightarrow> State_Monad.return (RunFailed None (ErrWrap ''workflow: stream get state for CAN: '' stErr ''''))
           | Inr l \<Rightarrow> do {
               tracker \<leftarrow> read_tracker;
               breaker \<leftarrow> read_breaker (wr_breaker r);
               (let input = wr_input r in State_Monad.return (ContinuedAsNew (input
                 \<lparr>wi_StreamState := (if isRoot r then Some l else wi_StreamState input),
                  wi_State := Some (continued_state (rt_MaxIterations (wr_rt r)) iter tracker breaker st)\<rparr>))) }) }) }"

section \<open>The loop\<close>

text \<open>The message of the assistant with the calls that the variable holds; it shares their arguments.\<close>

definition assistant_of :: "llm_var \<Rightarrow> wf_message" where
  "assistant_of v = (assistant_message (lv_Content v) (var_calls v), map sl_Args (used_slots v))"

definition wf_tool_round :: "'w workflow_run \<Rightarrow> string \<Rightarrow> int \<Rightarrow> int \<Rightarrow> wf_state \<Rightarrow> ('w, wf_turn) io" where
  "wf_tool_round r messageID iter now st =
    (let calls = var_calls (ws_var st);
         st1 = st\<lparr>ws_messages := ws_messages st @ [assistant_of (ws_var st)]\<rparr> in do {
       x \<leftarrow> execute_tools_tm r messageID iter now calls;
       (case x of
          Inl err \<Rightarrow> State_Monad.return (ExitRun st1 (RunFailed None err))
        | Inr os \<Rightarrow> do {
            t \<leftarrow> take_outputs r now (zip calls (map2 settle_tm calls os))
                  (st1\<lparr>ws_pending := foldl apply_change (ws_pending st1) (map snd os)\<rparr>);
            (case snd t of
               Some err \<Rightarrow> State_Monad.return (budget_exit (fst t) err)
             | None \<Rightarrow> do {
                 st2 \<leftarrow> save_iteration r (fst t);
                 exceeded \<leftarrow> historyExceeded r;
                 (if exceeded then do {
                    e \<leftarrow> continue_as_new r iter st2;
                    State_Monad.return (ExitRun st2 e) }
                  else State_Monad.return (NextTurn st2)) }) }) })"

definition answer :: "string \<Rightarrow> wf_state \<Rightarrow> wf_state" where
  "answer content st = st\<lparr>ws_messages := ws_messages st @ [own_message (mk_message RoleAssistant content)],
     ws_lastContent := content\<rparr>"

text \<open>The final call without tools decodes its result as well, but counts no retries.\<close>

definition wf_final_call :: "'w workflow_run \<Rightarrow> wf_context \<Rightarrow> int \<Rightarrow> wf_state \<Rightarrow> ('w, wf_turn) io" where
  "wf_final_call r wx iter st = do {
     messageID \<leftarrow> ext (en_uuid (wr_env r));
     res \<leftarrow> llm_activity r (llm_input_tm r wx messageID iter True st);
     (case res of
        Inl err \<Rightarrow> State_Monad.return (ExitRun st (RunFailed None err))
      | Inr result \<Rightarrow>
          (let v = tm_decode (wr_tm r) (ws_var st) result;
               st1 = st\<lparr>ws_var := v, ws_llmUsage := MergeLLMUsage (ws_llmUsage st) (lv_Usage v)\<rparr> in do {
            b \<leftarrow> enforce_budget r (lv_Usage v);
            State_Monad.return (case b of
                Some err \<Rightarrow> budget_exit st1 err
              | None \<Rightarrow> LeaveLoop ((answer (lv_Content v) st1)
                  \<lparr>ws_telemetry := set_finish FinishMaxIterations (count_llm_call (ws_telemetry st1))\<rparr>)) })) }"

definition hasMaxIterationsHook :: "'w runtime \<Rightarrow> bool" where
  "hasMaxIterationsHook rt = (case rt_ErrorControl rt of None \<Rightarrow> False
     | Some c \<Rightarrow> ec_OnMaxIterationsExceeded c \<noteq> None)"

definition iterations_decision :: "'w workflow_run \<Rightarrow> int \<Rightarrow> wf_state \<Rightarrow> ('w, go_error + int option) io" where
  "iterations_decision r iter st =
    (if \<not> hasMaxIterationsHook (wr_rt r) then State_Monad.return (Inr None)
     else do {
       dec \<leftarrow> execute_activity r of_decision
         (execActivityOptions
           \<lparr>pol_Timeout = pol_Timeout (pol_LLM (executionPolicies_tm r)), pol_MaxAttempts = 1,
            pol_Retry = \<lparr>InitialInterval = 0, BackoffCoefficient = 0, MaximumInterval = 0\<rparr>\<rparr>
           (''AgentMaxIterationsDecisionActivity_'' @ wr_suffix r @ ''_'' @ itoa iter) False)
         (AgentMaxIterationsDecisionActivity (wr_tx r)
           \<lparr>mi_IterationCount = iter + 1, mi_MaxIterations = rt_MaxIterations (wr_rt r),
            mi_LastAction = LastToolAction (map tr_ToolName (var_calls (ws_var st)))\<rparr>
           (ws_iterationsExtended st));
       State_Monad.return (case dec of Inl err \<Rightarrow> Inl err
         | Inr d \<Rightarrow> Inr (if ec_Action d = ErrorControlExtendIterations then Some (ec_ExtraIterations d) else None)) })"

definition wf_answered :: "'w workflow_run \<Rightarrow> wf_context \<Rightarrow> string \<Rightarrow> int \<Rightarrow> int \<Rightarrow> wf_state \<Rightarrow> ('w, wf_turn) io" where
  "wf_answered r wx messageID iter now st =
    (if lv_Len (ws_var st) = 0 then State_Monad.return (LeaveLoop (answer (lv_Content (ws_var st)) st))
     else if iter = ws_maxIter st - 1 then do {
       dec \<leftarrow> iterations_decision r iter st;
       (case dec of
          Inl decErr \<Rightarrow> State_Monad.return (ExitRun st (RunFailed None decErr))
        | Inr None \<Rightarrow> wf_final_call r wx iter st
        | Inr (Some extra) \<Rightarrow> wf_tool_round r messageID iter now
            (st\<lparr>ws_maxIter := ws_maxIter st + extra, ws_iterationsExtended := True\<rparr>)) }
     else wf_tool_round r messageID iter now st)"

definition wf_turn_at :: "'w workflow_run \<Rightarrow> wf_context \<Rightarrow> int \<Rightarrow> wf_state \<Rightarrow> ('w, wf_turn) io" where
  "wf_turn_at r wx iter st = do {
     now \<leftarrow> ext (tm_now (wr_tm r));
     messageID \<leftarrow> ext (en_uuid (wr_env r));
     res \<leftarrow> llm_activity r (llm_input_tm r wx messageID iter False st);
     (case res of
        Inl err \<Rightarrow> State_Monad.return (ExitRun st (RunFailed None err))
      | Inr result \<Rightarrow> (let st1 = got_result r result st in do {
          b \<leftarrow> enforce_budget r (lv_Usage (ws_var st1));
          (case b of
             Some err \<Rightarrow> State_Monad.return (budget_exit st1 err)
           | None \<Rightarrow> wf_answered r wx messageID iter now st1) })) }"

text \<open>The \<open>for\<close> loop, with \<open>n\<close> turns of fuel: \<open>None\<close> if they are used up while the condition holds.\<close>

fun wf_rounds :: "(int \<Rightarrow> wf_state \<Rightarrow> ('w, wf_turn) io) \<Rightarrow> nat \<Rightarrow> int \<Rightarrow> wf_state \<Rightarrow> ('w, wf_turn option) io" where
  "wf_rounds turn n iter st =
    (if \<not> iter < ws_maxIter st then State_Monad.return (Some (LeaveLoop st))
     else case n of
       0 \<Rightarrow> State_Monad.return None
     | Suc m \<Rightarrow> do {
         e \<leftarrow> turn iter st;
         (case e of
            NextTurn st' \<Rightarrow> wf_rounds turn m (iter + 1) st'
          | LeaveLoop st' \<Rightarrow> State_Monad.return (Some (LeaveLoop st'))
          | ExitRun st' x \<Rightarrow> State_Monad.return (Some (ExitRun st' x))) })"

declare wf_rounds.simps [simp del]

section \<open>The end of a run\<close>

text \<open>The telemetry of the end: the messages that are left are saved, and the memories of them stored.\<close>

definition persist_rest :: "'w workflow_run \<Rightarrow> wf_state \<Rightarrow> ('w, go_error option) io" where
  "persist_rest r st =
    (if saves_messages r st then do {
       res \<leftarrow> save_messages r st;
       State_Monad.return (case res of Inl err \<Rightarrow> if rt_SaveOnIteration (wr_rt r) then None else Some err
         | Inr _ \<Rightarrow> None) }
     else State_Monad.return None)"

definition memory_options :: "'w workflow_run \<Rightarrow> activity_options" where
  "memory_options r =
     execActivityOptions (pol_Memory (executionPolicies_tm r)) (''AgentMemoryActivity_'' @ wr_suffix r) False"

definition store_memories_tm :: "'w workflow_run \<Rightarrow> wf_state \<Rightarrow> ('w, go_error + agent_telemetry) io" where
  "store_memories_tm r st = (let t = ws_telemetry st in
     if \<not> RunEndMemoryStoreEnabled (wr_rt r) then State_Monad.return (Inr t)
     else do {
       res \<leftarrow> execute_activity r of_any (memory_options r)
         (AgentMemoryStoreActivity (wr_tm r) (wr_env r) (wr_tx r) (wr_input r) (messages_of st));
       State_Monad.return (case res of
           Inl err \<Rightarrow> if tm_isCanceled (wr_tm r) err then Inl err
             else Inr (t\<lparr>te_Storage := (te_Storage t)
               \<lparr>st_FailedMemoryStores := st_FailedMemoryStores (te_Storage t) + 1\<rparr>\<rparr>)
         | Inr _ \<Rightarrow> Inr (t\<lparr>te_Storage := (te_Storage t)
               \<lparr>st_TotalMemoryStores := st_TotalMemoryStores (te_Storage t) + 1\<rparr>\<rparr>)) })"

definition finish_run :: "'w workflow_run \<Rightarrow> wf_state \<Rightarrow> ('w, wf_exit + agent_run_result) io" where
  "finish_run r st = do {
     saveErr \<leftarrow> persist_rest r st;
     (case saveErr of
        Some err \<Rightarrow> State_Monad.return (Inl (RunFailed None err))
      | None \<Rightarrow> do {
          stored \<leftarrow> store_memories_tm r st;
          (case stored of
             Inl err \<Rightarrow> State_Monad.return (Inl (RunFailed None err))
           | Inr t \<Rightarrow> do {
               now \<leftarrow> ext (tm_now (wr_tm r));
               State_Monad.return (Inr \<lparr>rz_Content = ws_lastContent st, rz_AgentName = rt_Name (wr_rt r),
                 rz_Model = lc_Model (rt_Client (wr_rt r)), rz_RunID = wi_RunID (wr_input r),
                 rz_LLMUsage = ws_llmUsage st,
                 rz_Telemetry = t\<lparr>te_Run := (te_Run t)\<lparr>rn_CompletedAt := now\<rparr>\<rparr>\<rparr>) }) }) }"

text \<open>The deferred clean-up: the approvals left in the map, in an arbitrary order. Its error is logged.\<close>

definition pendingApprovalActivityIDs :: "(string \<times> string) list \<Rightarrow> string list" where
  "pendingApprovalActivityIDs pending = filter (\<lambda>a. a \<noteq> '''') (map snd pending)"

definition cleanup_approvals :: "'w workflow_run \<Rightarrow> (string \<times> string) list \<Rightarrow> ('w, unit) io" where
  "cleanup_approvals r pending =
    (let ids = pendingApprovalActivityIDs pending in
     if ids = [] then State_Monad.return ()
     else do {
       order \<leftarrow> ext (en_order (wr_env r) (length ids));
       _ \<leftarrow> execute_activity r of_any
         (short_options (''AgentWorkflowCleanupActivity_'' @ wr_suffix r)
           agentWorkflowCleanupActivityTaskTimeout agentWorkflowCleanupActivityMaxAttempts)
         (AgentWorkflowCleanupActivity (wr_tm r) (wr_tx r) (map (\<lambda>i. ids ! i) (schedule (length ids) order)));
       State_Monad.return () })"

section \<open>The start of a run\<close>

definition recall_memory_tm :: "'w workflow_run \<Rightarrow> agent_telemetry \<Rightarrow> ('w, go_error + string \<times> agent_telemetry) io" where
  "recall_memory_tm r t =
    (if \<not> (MemoryConfigured (wr_rt r) \<and> RecallEnabled (wr_rt r)) then State_Monad.return (Inr ('''', t))
     else attempt (execute_activity r of_memory (memory_options r)
         (AgentMemoryRecallActivity (wr_tm r) (wr_env r) (wr_tx r) (wr_input r))) (\<lambda>res.
       State_Monad.return (Inr (mm_Context res, t\<lparr>te_Storage := (te_Storage t)
         \<lparr>st_TotalMemoryRecalls := st_TotalMemoryRecalls (te_Storage t) + mm_TotalRecalls res,
          st_FailedMemoryRecalls := st_FailedMemoryRecalls (te_Storage t) + mm_FailedRecalls res\<rparr>\<rparr>))))"

definition prefetch_documents_tm :: "'w workflow_run \<Rightarrow> agent_telemetry \<Rightarrow>
    ('w, go_error + string \<times> agent_telemetry) io" where
  "prefetch_documents_tm r t =
    (if \<not> ((rt_RetrieverMode (wr_rt r) = RetrieverModePrefetch \<or> rt_RetrieverMode (wr_rt r) = RetrieverModeHybrid) \<and>
           rt_Retrievers (wr_rt r) \<noteq> []) then State_Monad.return (Inr ('''', t))
     else attempt (execute_activity r of_retrieved
         (execActivityOptions (pol_Retriever (executionPolicies_tm r)) (''AgentRetrieverActivity_'' @ wr_suffix r) False)
         (AgentRetrieverActivity (wr_tm r) (wr_env r) (wr_tx r) (wr_input r))) (\<lambda>res.
       State_Monad.return (Inr (rr_Context res, t\<lparr>te_Storage := (te_Storage t)
         \<lparr>st_TotalRetrieverSearches := st_TotalRetrieverSearches (te_Storage t) + rr_TotalSearches res,
          st_FailedRetrieverSearches := st_FailedRetrieverSearches (te_Storage t) + rr_FailedSearches res,
          st_PrefetchSearches := st_PrefetchSearches (te_Storage t) + rr_TotalSearches res\<rparr>\<rparr>))))"

definition start_state :: "agent_workflow_input \<Rightarrow> agent_workflow_state" where
  "start_state input = (case wi_State input of
      Some s \<Rightarrow> s
    | None \<Rightarrow> \<lparr>as_Iteration = 0, as_Messages = [mk_message RoleUser (wi_UserPrompt input)], as_LLMUsage = None,
        as_Telemetry = None, as_BudgetTokens = 0, as_BudgetCostUSD = 0, as_BudgetWatermarkTokens = 0,
        as_BudgetWatermarkCostUSD = 0, as_UseFallbackLLM = False, as_IterationsExtended = False,
        as_ExtraIterations = 0, as_CircuitBreaker = None\<rparr>)"

definition restored_breaker :: "'w runtime \<Rightarrow> agent_workflow_state \<Rightarrow> circuit_breaker option" where
  "restored_breaker rt s = (case as_CircuitBreaker s of
      Some state \<Rightarrow> NewCircuitBreakerFromState (breaker_config (rt_ErrorControl rt)) (Some state)
    | None \<Rightarrow> NewCircuitBreaker (breaker_config (rt_ErrorControl rt)))"

text \<open>A new tracker has not been added to, so restoring it does not panic.\<close>

definition restored_tracker :: "'w runtime \<Rightarrow> agent_workflow_state \<Rightarrow> budget_tracker option" where
  "restored_tracker rt s =
    (case RestoreState (NewBudgetTracker (rt_Budget rt)) (as_BudgetTokens s) (as_BudgetCostUSD s)
       (as_BudgetWatermarkTokens s) (as_BudgetWatermarkCostUSD s) of Inl _ \<Rightarrow> None | Inr t \<Rightarrow> t)"

definition loop_start_tm :: "'w runtime \<Rightarrow> agent_workflow_state \<Rightarrow> agent_telemetry \<Rightarrow> wf_state" where
  "loop_start_tm rt s t =
    \<lparr>ws_messages = map own_message (as_Messages s), ws_var = zero_var,
     ws_maxIter = (if as_ExtraIterations s > 0 then rt_MaxIterations rt + as_ExtraIterations s
       else rt_MaxIterations rt),
     ws_iterationsExtended = as_IterationsExtended s, ws_useFallback = as_UseFallbackLLM s,
     ws_lastContent = '''', ws_llmUsage = as_LLMUsage s, ws_telemetry = t, ws_pending = []\<rparr>"

text \<open>Fuel of the loop: the turns that are left, and as many again as one extension can grant.\<close>

definition wf_fuel :: "'w runtime \<Rightarrow> int \<Rightarrow> wf_state \<Rightarrow> nat" where
  "wf_fuel rt iter st = nat (ws_maxIter st - iter) + nat (EffectiveMaxIterations (rt_MaxIterations rt))"

datatype wf_outcome = Completed agent_run_result | Exited wf_exit | OutOfFuel

text \<open>The run between its registration and its clean-up; the map of pending approvals at its end.\<close>

definition wf_body :: "'w workflow_run \<Rightarrow> agent_workflow_state \<Rightarrow> agent_telemetry \<Rightarrow>
    ('w, wf_outcome \<times> (string \<times> string) list) io" where
  "wf_body r s t0 = do {
     m \<leftarrow> recall_memory_tm r t0;
     (case m of
        Inl err \<Rightarrow> State_Monad.return (Exited (RunFailed None err), [])
      | Inr (memoryContext, t1) \<Rightarrow> do {
          d \<leftarrow> prefetch_documents_tm r t1;
          (case d of
             Inl err \<Rightarrow> State_Monad.return (Exited (RunFailed None err), [])
           | Inr (retrieverContext, t2) \<Rightarrow>
               (let st = loop_start_tm (wr_rt r) s t2;
                    wx = \<lparr>wx_memoryContext = memoryContext, wx_retrieverContext = retrieverContext\<rparr> in do {
                  e \<leftarrow> wf_rounds (wf_turn_at r wx) (wf_fuel (wr_rt r) (as_Iteration s) st) (as_Iteration s) st;
                  (case e of
                     None \<Rightarrow> State_Monad.return (OutOfFuel, [])
                   | Some (NextTurn st') \<Rightarrow> State_Monad.return (OutOfFuel, ws_pending st')
                   | Some (ExitRun st' x) \<Rightarrow> State_Monad.return (Exited x, ws_pending st')
                   | Some (LeaveLoop st') \<Rightarrow> do {
                       f \<leftarrow> finish_run r st';
                       State_Monad.return (case f of Inl x \<Rightarrow> Exited x | Inr res \<Rightarrow> Completed res,
                         ws_pending st') }) })) }) }"

definition AgentWorkflow :: "'w temporal \<Rightarrow> 'w env \<Rightarrow> 'w temporal_runtime \<Rightarrow> agent_workflow_input \<Rightarrow>
    ('w, wf_outcome) io" where
  "AgentWorkflow tm env tx input = do {
     created \<leftarrow> (if wi_RootWorkflowID input = '''' then ext (tm_newStream tm (wi_StreamState input))
                else State_Monad.return None);
     (case created of
        Some err \<Rightarrow> State_Monad.return (Exited (RunFailed None (ErrWrap ''workflow: create stream: '' err '''')))
      | None \<Rightarrow> do {
          registered \<leftarrow> ext (tm_setQueryHandler tm);
          (case registered of
             Some err \<Rightarrow> State_Monad.return (Exited (RunFailed None
               (ErrWrap ''workflow: register is_approval_pending query handler: '' err '''')))
           | None \<Rightarrow> do {
               suffix \<leftarrow> ext (tm_sideEffect tm (en_uuid env));
               (case suffix of
                  Inl err \<Rightarrow> State_Monad.return (Exited (RunFailed None err))
                | Inr activityIDSuffix \<Rightarrow> (let s = start_state input in do {
                    t0 \<leftarrow> (case as_Telemetry s of
                        Some t \<Rightarrow> State_Monad.return t
                      | None \<Rightarrow> do { now \<leftarrow> ext (tm_now tm); State_Monad.return (NewAgentTelemetry now) });
                    breaker \<leftarrow> alloc_breaker (restored_breaker (tx_base tx) s);
                    write_tracker (restored_tracker (tx_base tx) s);
                    (let r = \<lparr>wr_tm = tm, wr_env = env, wr_tx = tx, wr_input = input,
                         wr_suffix = activityIDSuffix, wr_breaker = breaker\<rparr> in do {
                       out \<leftarrow> wf_body r s t0;
                       cleanup_approvals r (snd out);
                       State_Monad.return (fst out) }) })) }) }) }"

text \<open>A run and the runs that continue it, at most \<open>n\<close> of these.\<close>

fun workflow_chain :: "nat \<Rightarrow> 'w temporal \<Rightarrow> 'w env \<Rightarrow> 'w temporal_runtime \<Rightarrow> agent_workflow_input \<Rightarrow>
    ('w, wf_outcome) io" where
  "workflow_chain n tm env tx input = do {
     out \<leftarrow> AgentWorkflow tm env tx input;
     (case out of
        Exited (ContinuedAsNew input') \<Rightarrow> (case n of
            0 \<Rightarrow> State_Monad.return OutOfFuel
          | Suc m \<Rightarrow> workflow_chain m tm env tx input')
      | _ \<Rightarrow> State_Monad.return out) }"

declare workflow_chain.simps [simp del]

end
