(* ===== verification/Temporal_Runs.thy ===== *)
theory Temporal_Runs
  imports Temporal_Workflow
begin

text \<open>
  What the Temporal workflow makes of the results of the LLM: the variable into which they are decoded is
  the same in every turn, so that the arguments of a call, and the usage, of an earlier turn come back in a
  later one; and what survives the continuation of a run as a new one.
\<close>

section \<open>The arguments of the calls\<close>

definition refs :: "call_slot list \<Rightarrow> nat list" where
  "refs slots = concat (map (\<lambda>s. case sl_Args s of None \<Rightarrow> [] | Some a \<Rightarrow> [a]) slots)"

text \<open>The slots have maps of their own.\<close>

definition var_ok :: "llm_var \<Rightarrow> bool" where
  "var_ok v \<longleftrightarrow> distinct (refs (lv_Slots v)) \<and> (\<forall>a \<in> set (refs (lv_Slots v)). a < length (lv_Maps v)) \<and>
     lv_Len v \<le> length (lv_Slots v)"

lemma refs_simps [simp]: "refs [] = []"
  "refs (s # ss) = (case sl_Args s of None \<Rightarrow> [] | Some a \<Rightarrow> [a]) @ refs ss"
  by (simp_all add: refs_def)

lemma refs_zero [simp]: "sl_Args zero_slot = None"
  by (simp add: zero_slot_def)

lemma map_of_put_all: "distinct (map fst new) \<Longrightarrow> map_of (put_all new old) = map_of old ++ map_of new"
proof (induction new arbitrary: old)
  case (Cons kx new)
  then have "map_of (put_all new (pair_put (fst kx) (snd kx) old)) =
      (map_of old)(fst kx \<mapsto> snd kx) ++ map_of new" by simp
  moreover have "fst kx \<notin> dom (map_of new)" using Cons.prems by (simp add: dom_map_of_conv_image_fst)
  ultimately show ?case
    by (auto simp: put_all_def map_add_def fun_eq_iff split: option.splits prod.splits)
qed (simp add: put_all_def)

text \<open>A slot is decoded within its own map, or a new one.\<close>

lemma decode_slot_Args:
  assumes "decode_slot tc maps s = (maps', s')"
  shows "sl_Args s' = (if tr_Args tc = None then None else if sl_Args s = None then Some (length maps) else sl_Args s)"
    and "length maps' = (if tr_Args tc \<noteq> None \<and> sl_Args s = None then Suc (length maps) else length maps)"
    and "\<And>a. a < length maps \<Longrightarrow> sl_Args s \<noteq> Some a \<Longrightarrow> maps' ! a = maps ! a"
  using assms by (auto simp: decode_slot_def decode_args_def nth_append split: option.splits)

lemma decode_slot_call:
  assumes "decode_slot tc maps s = (maps', s')" "\<And>a. sl_Args s = Some a \<Longrightarrow> a < length maps"
  shows "tr_Args (slot_call maps' s') = (case tr_Args tc of None \<Rightarrow> None
      | Some new \<Rightarrow> Some (put_all new (case args_of maps (sl_Args s) of None \<Rightarrow> [] | Some old \<Rightarrow> old)))"
  using assms by (auto simp: decode_slot_def decode_args_def slot_call_def args_of_def split: option.splits)

abbreviation fresh_refs :: "go_maps \<Rightarrow> call_slot list \<Rightarrow> bool" where
  "fresh_refs maps slots \<equiv> distinct (refs slots) \<and> (\<forall>a \<in> set (refs slots). a < length maps)"

text \<open>Decoding the slots keeps the maps that they do not have, and gives each slot a map of its own.\<close>

definition slot_refs :: "call_slot \<Rightarrow> nat list" where
  "slot_refs s = (case sl_Args s of None \<Rightarrow> [] | Some a \<Rightarrow> [a])"

lemma refs_first: "refs slots = slot_refs (first_slot slots) @ refs (tl slots)"
  by (cases slots) (simp_all add: slot_refs_def first_slot_def)

definition decoded :: "go_maps \<Rightarrow> call_slot list \<Rightarrow> nat \<Rightarrow> go_maps \<Rightarrow> call_slot list \<Rightarrow> bool" where
  "decoded maps slots n maps' slots' \<longleftrightarrow> length maps \<le> length maps' \<and>
     (\<forall>a < length maps. a \<notin> set (refs slots) \<longrightarrow> maps' ! a = maps ! a) \<and>
     length slots' = max n (length slots) \<and>
     set (refs slots') \<subseteq> set (refs slots) \<union> {length maps ..< length maps'} \<and> distinct (refs slots')"

lemma decode_slot_own:
  assumes "decode_slot tc maps s = (maps', s')" "\<forall>a \<in> set (slot_refs s). a < length maps"
  shows "length maps \<le> length maps'"
    and "set (slot_refs s') \<subseteq> set (slot_refs s) \<union> {length maps ..< length maps'}"
    and "distinct (slot_refs s')"
    and "a < length maps \<Longrightarrow> a \<notin> set (slot_refs s) \<Longrightarrow> maps' ! a = maps ! a"
  using decode_slot_Args [OF assms(1)] assms(2)
  by (auto simp: slot_refs_def split: option.splits if_splits)

lemma decode_slots_frame:
  "decode_slots tcs maps slots = (maps', slots') \<Longrightarrow> fresh_refs maps slots \<Longrightarrow>
     decoded maps slots (length tcs) maps' slots'"
proof (induction tcs arbitrary: maps slots maps' slots')
  case Nil
  then show ?case by (auto simp: decoded_def)
next
  case (Cons tc tcs)
  obtain m1 s1 where one: "decode_slot tc maps (first_slot slots) = (m1, s1)" by fastforce
  obtain ss where rest: "decode_slots tcs m1 (tl slots) = (maps', ss)" and slots': "slots' = s1 # ss"
    using Cons.prems(1) one by (auto split: prod.splits)
  have fresh: "fresh_refs maps (tl slots)" "\<forall>a \<in> set (slot_refs (first_slot slots)). a < length maps"
    "set (slot_refs (first_slot slots)) \<inter> set (refs (tl slots)) = {}"
    using Cons.prems(2) by (auto simp: refs_first [of slots])
  note own = decode_slot_own [OF one fresh(2)]
  have "fresh_refs m1 (tl slots)" using fresh(1) own(1) by auto
  from Cons.IH [OF rest this] have d: "decoded m1 (tl slots) (length tcs) maps' ss" .
  have len: "length maps \<le> length maps'" using d own(1) by (simp add: decoded_def)
  have kept: "maps' ! a = maps ! a" if "a < length maps" "a \<notin> set (refs slots)" for a
    using that own d by (simp add: decoded_def refs_first [of slots])
  have n: "length slots' = max (length (tc # tcs)) (length slots)"
    using d slots' by (cases slots) (auto simp: decoded_def)
  have sub: "set (refs ss) \<subseteq> set (refs (tl slots)) \<union> {length m1 ..< length maps'}"
    using d by (simp add: decoded_def)
  have refs': "refs slots' = slot_refs s1 @ refs ss" by (simp add: slots' slot_refs_def)
  have "set (refs slots') \<subseteq> set (refs slots) \<union> {length maps ..< length maps'}"
    using sub own(1,2) d unfolding refs' refs_first [of slots] by (auto simp: decoded_def)
  moreover have "a \<notin> set (refs ss)" if "a \<in> set (slot_refs s1)" for a
  proof -
    have "a \<in> set (slot_refs (first_slot slots)) \<or> length maps \<le> a \<and> a < length m1" using own(2) that by auto
    then have "a < length m1 \<and> a \<notin> set (refs (tl slots))" using fresh own(1) by fastforce
    then show ?thesis using sub by auto
  qed
  then have "distinct (refs slots')" using own(3) d by (auto simp: refs' decoded_def)
  ultimately show ?case using len kept n by (simp add: decoded_def)
qed

definition slot_at :: "call_slot list \<Rightarrow> nat \<Rightarrow> call_slot" where
  "slot_at slots i = (if i < length slots then slots ! i else zero_slot)"

definition merged_args :: "go_args \<Rightarrow> go_args \<Rightarrow> go_args" where
  "merged_args new old = map_option (\<lambda>kvs. put_all kvs (case old of None \<Rightarrow> [] | Some m \<Rightarrow> m)) new"

lemma slot_at_tl: "slot_at (tl slots) i = slot_at slots (Suc i)"
  by (cases slots) (auto simp: slot_at_def)

lemma slot_at_0: "slot_at slots 0 = first_slot slots"
  by (cases slots) (simp_all add: slot_at_def first_slot_def)

lemma slot_at_refs: "sl_Args (slot_at slots i) = Some a \<Longrightarrow> a \<in> set (refs slots)"
proof (induction slots arbitrary: i)
  case (Cons s ss)
  show ?case
  proof (cases i)
    case 0
    then show ?thesis using Cons.prems by (simp add: slot_at_def)
  next
    case (Suc j)
    then have "a \<in> set (refs ss)"
      using Cons.IH [of j] Cons.prems slot_at_tl [of "s # ss" j] by simp
    then show ?thesis by simp
  qed
qed (simp add: slot_at_def)

lemma decode_slots_nth:
  "decode_slots tcs maps slots = (maps', slots') \<Longrightarrow> fresh_refs maps slots \<Longrightarrow> i < length tcs \<Longrightarrow>
     args_of maps' (sl_Args (slots' ! i)) =
       merged_args (tr_Args (tcs ! i)) (args_of maps (sl_Args (slot_at slots i))) \<and>
     (\<forall>a. tr_Args (tcs ! i) \<noteq> None \<longrightarrow> sl_Args (slot_at slots i) = Some a \<longrightarrow> sl_Args (slots' ! i) = Some a)"
proof (induction tcs arbitrary: maps slots maps' slots' i)
  case (Cons tc tcs)
  obtain m1 s1 where one: "decode_slot tc maps (first_slot slots) = (m1, s1)" by fastforce
  obtain ss where rest: "decode_slots tcs m1 (tl slots) = (maps', ss)" and slots': "slots' = s1 # ss"
    using Cons.prems(1) one by (auto split: prod.splits)
  have fresh: "fresh_refs maps (tl slots)" "\<forall>a \<in> set (slot_refs (first_slot slots)). a < length maps"
    "set (slot_refs (first_slot slots)) \<inter> set (refs (tl slots)) = {}"
    using Cons.prems(2) by (auto simp: refs_first [of slots])
  note own = decode_slot_own [OF one fresh(2)] and args = decode_slot_Args [OF one]
  have fr: "fresh_refs m1 (tl slots)" using fresh(1) own(1) by auto
  note d = decode_slots_frame [OF rest this]
  show ?case
  proof (cases i)
    case 0
    have "args_of m1 (sl_Args s1) = merged_args (tr_Args tc) (args_of maps (sl_Args (first_slot slots)))"
      using one fresh(2)
      by (auto simp: decode_slot_def decode_args_def merged_args_def args_of_def slot_refs_def split: option.splits)
    moreover have "args_of maps' (sl_Args s1) = args_of m1 (sl_Args s1)"
      using d own(1,2) fresh args(1,2)
      by (auto simp: decoded_def args_of_def slot_refs_def split: option.splits if_splits)
    ultimately show ?thesis using args(1) 0 by (auto simp: slots' slot_at_0)
  next
    case (Suc j)
    have "m1 ! a = maps ! a" if "sl_Args (slot_at (tl slots) j) = Some a" for a
    proof -
      have "a \<in> set (refs (tl slots))" using that by (rule slot_at_refs)
      then show ?thesis using fresh own(4) by blast
    qed
    then have "args_of m1 (sl_Args (slot_at (tl slots) j)) = args_of maps (sl_Args (slot_at (tl slots) j))"
      by (cases "sl_Args (slot_at (tl slots) j)") (simp_all add: args_of_def)
    then show ?thesis
      using Cons.IH [OF rest fr, of j] Cons.prems(3) Suc by (simp add: slots' slot_at_tl)
  qed
qed simp


lemma zero_var_ok [simp]: "var_ok zero_var"
  by (simp add: var_ok_def zero_var_def)

lemma json_into_ok: "var_ok v \<Longrightarrow> var_ok (json_into v r)"
  using decode_slots_frame [of "ly_ToolCalls r" "lv_Maps v" "lv_Slots v"]
  by (fastforce simp: json_into_def var_ok_def decoded_def split: prod.splits)

lemma json_into_all_ok: "var_ok v \<Longrightarrow> var_ok (foldl json_into v rs)"
  by (induction rs arbitrary: v) (simp_all add: json_into_ok)

lemma json_into_calls:
  assumes "var_ok v" "i < length (ly_ToolCalls r)"
  shows "tr_Args (var_calls (json_into v r) ! i) =
      merged_args (tr_Args (ly_ToolCalls r ! i)) (args_of (lv_Maps v) (sl_Args (slot_at (lv_Slots v) i)))"
    and "\<And>a. tr_Args (ly_ToolCalls r ! i) \<noteq> None \<Longrightarrow> sl_Args (slot_at (lv_Slots v) i) = Some a \<Longrightarrow>
      sl_Args (lv_Slots (json_into v r) ! i) = Some a"
    and "length (var_calls (json_into v r)) = length (ly_ToolCalls r)"
proof -
  obtain maps slots where d: "decode_slots (ly_ToolCalls r) (lv_Maps v) (lv_Slots v) = (maps, slots)" by fastforce
  have v': "lv_Maps (json_into v r) = maps" "lv_Slots (json_into v r) = slots"
    "lv_Len (json_into v r) = length (ly_ToolCalls r)"
    using assms(2) d by (auto simp: json_into_def)
  have fresh: "fresh_refs (lv_Maps v) (lv_Slots v)" using assms(1) by (simp add: var_ok_def)
  note nth = decode_slots_nth [OF d fresh assms(2)]
  have len: "length (ly_ToolCalls r) \<le> length slots"
    using decode_slots_frame [OF d fresh] by (simp add: decoded_def)
  show "length (var_calls (json_into v r)) = length (ly_ToolCalls r)"
    using len by (simp add: var_calls_def used_slots_def v')
  show "tr_Args (var_calls (json_into v r) ! i) =
      merged_args (tr_Args (ly_ToolCalls r ! i)) (args_of (lv_Maps v) (sl_Args (slot_at (lv_Slots v) i)))"
    using nth assms(2) len by (simp add: var_calls_def used_slots_def v' slot_call_def)
  show "sl_Args (lv_Slots (json_into v r) ! i) = Some a"
    if "tr_Args (ly_ToolCalls r ! i) \<noteq> None" "sl_Args (slot_at (lv_Slots v) i) = Some a" for a
    using nth that by (simp add: v')
qed

lemma ws_var_got [simp]: "ws_var (got_result w r st) = tm_decode (wr_tm w) (ws_var st) r"
  by (simp add: got_result_def Let_def)

text \<open>C11. The arguments of a tool call of an earlier answer of the LLM come back in a later one: the arguments
  with which the workflow executes the call at a position are those that the answer gives, put over those
  that the call at this position of the answer before was executed with; and the message that recorded
  that earlier call reads the same arguments from then on.
\<close>

theorem stale_arguments:
  assumes decode: "tm_decode (wr_tm w) = json_into"
    and var: "ws_var st = json_into (foldl json_into zero_var rs) q"
    and i: "i < length (ly_ToolCalls q)" "i < length (ly_ToolCalls r)"
    and old: "tr_Args (var_calls (ws_var st) ! i) = Some old"
    and new: "tr_Args (ly_ToolCalls r ! i) = Some new" "distinct (map fst new)"
  shows "\<exists>args. tr_Args (var_calls (ws_var (got_result w r st)) ! i) = Some args \<and>
    map_of args = map_of old ++ map_of new \<and>
    tc_Args (msg_ToolCalls (read_message (lv_Maps (ws_var (got_result w r st))) (assistant_of (ws_var st))) ! i)
      = Some args"
proof -
  let ?u = "foldl json_into zero_var rs" and ?v = "ws_var st" and ?v' = "json_into (ws_var st) r"
  have ok: "var_ok ?u" "var_ok ?v" by (simp_all add: var json_into_ok json_into_all_ok)
  have len: "length (var_calls ?v) = length (ly_ToolCalls q)"
    using json_into_calls(3) [OF ok(1) i(1)] by (simp add: var)
  have le: "length (ly_ToolCalls q) \<le> length (lv_Slots ?v)"
    using ok(2) i(1) by (auto simp: var_ok_def var json_into_def split: prod.splits)
  then have at: "slot_at (lv_Slots ?v) i = lv_Slots ?v ! i" using i by (simp add: slot_at_def)
  have used: "used_slots ?v ! i = lv_Slots ?v ! i" "i < length (used_slots ?v)"
    using len i by (auto simp: var_calls_def used_slots_def)
  then have args: "args_of (lv_Maps ?v) (sl_Args (lv_Slots ?v ! i)) = Some old"
    using old by (simp add: var_calls_def slot_call_def)
  then obtain a where a: "sl_Args (lv_Slots ?v ! i) = Some a" by (auto simp: args_of_def)
  have now: "tr_Args (var_calls ?v' ! i) = Some (put_all new old)"
    using json_into_calls(1) [OF ok(2) i(2)] new args at by (simp add: merged_args_def)
  moreover have "sl_Args (lv_Slots ?v' ! i) = Some a"
    using json_into_calls(2) [OF ok(2) i(2)] new a at by simp
  moreover have "tr_Args (var_calls ?v' ! i) = args_of (lv_Maps ?v') (sl_Args (lv_Slots ?v' ! i))"
    using json_into_calls(3) [OF ok(2) i(2)] i(2)
    by (auto simp: var_calls_def used_slots_def slot_call_def)
  ultimately have "lv_Maps ?v' ! a = put_all new old" by (simp add: args_of_def)
  then have "tc_Args (msg_ToolCalls (read_message (lv_Maps ?v') (assistant_of ?v)) ! i) = Some (put_all new old)"
    using used a len i
    by (simp add: read_message_def assistant_of_def assistant_message_def read_call_def var_calls_def)
  then show ?thesis using now map_of_put_all [OF new(2)] by (simp add: decode)
qed

text \<open>A Temporal that runs an activity once, at its first attempt.\<close>

definition run_once :: "activity_options \<Rightarrow> 'w activity \<Rightarrow> ('w, go_error + activity_value) io" where
  "run_once opts act = act \<lparr>ai_Attempt = 1, ai_TaskToken = ''token''\<rparr>"

definition sample_temporal :: "nat temporal" where
  "sample_temporal = \<lparr>tm_workflowID = ''wf'', tm_now = State_Monad.return 1000, tm_activity = run_once,
     tm_typeError = (\<lambda>_. ErrNew ''type''), tm_decode = json_into, tm_isCanceled = (\<lambda>_. False),
     tm_isTimeout = (\<lambda>_. False), tm_isNotFound = (\<lambda>_. False),
     tm_sideEffect = (\<lambda>m. do { x \<leftarrow> m; State_Monad.return (Inr x) }),
     tm_child = (\<lambda>_ _. State_Monad.return (Inr None)), tm_newStream = (\<lambda>_. State_Monad.return None),
     tm_setQueryHandler = State_Monad.return None, tm_publish = (\<lambda>_. State_Monad.return None),
     tm_history = State_Monad.return (0, 0), tm_detach = State_Monad.return None,
     tm_getState = (\<lambda>_. State_Monad.return (Inr 0)), tm_close = (\<lambda>_. State_Monad.return None),
     tm_retrySignal = (\<lambda>_ _. State_Monad.return ()), tm_eventError = (\<lambda>_. None),
     tm_completeByID = (\<lambda>_ _. State_Monad.return None), tm_fingerprintJSON = (\<lambda>_. Some ''{}'')\<rparr>"

definition temporal_of :: "nat runtime \<Rightarrow> nat temporal_runtime" where
  "temporal_of rt = \<lparr>tx_base = rt, tx_Description = '''', tx_taskQueue = ''q'', tx_policyFingerprint = '''',
     tx_mcpFingerprint = '''', tx_a2aFingerprint = '''', tx_observabilityFingerprint = '''', tx_agentMode = '''',
     tx_retrieverFingerprint = '''', tx_hooksFingerprint = '''', tx_namedLLMFingerprint = '''',
     tx_errorControlFingerprint = '''', tx_disableFingerprintCheck = False, tx_hasClient = True,
     tx_resolveTools = Some (State_Monad.return (Inr [echo_tool ''echo'']))\<rparr>"

lemma tx_base_temporal_of [simp]: "tx_base (temporal_of rt) = rt"
  by (simp add: temporal_of_def)

definition sample_workflow_input :: agent_workflow_input where
  "sample_workflow_input = \<lparr>wi_UserPrompt = ''hi'', wi_RootWorkflowID = '''', wi_StreamState = None,
     wi_StreamingEnabled = False, wi_ConversationID = '''', wi_AgentFingerprint = '''', wi_RunID = ''run'',
     wi_MemoryScope = empty_scope, wi_EventTypes = [], wi_SubAgentDepth = 0, wi_SubAgentRoutes = [],
     wi_MaxSubAgentDepth = 2, wi_State = None\<rparr>"

definition sample_workflow :: "nat workflow_run" where
  "sample_workflow = \<lparr>wr_tm = sample_temporal, wr_env = sample_env,
     wr_tx = temporal_of (sample_runtime (\<lambda>_. text_response ''hi'')), wr_input = sample_workflow_input,
     wr_suffix = ''s'', wr_breaker = None\<rparr>"

definition search_result :: "(string \<times> go_any) list \<Rightarrow> llm_usage option \<Rightarrow> agent_llm_result" where
  "search_result args usage = \<lparr>ly_Content = '''', ly_ToolCalls = [\<lparr>tr_ToolCallID = ''c'', tr_ToolName = ''search'',
     tr_ToolDisplayName = '''', tr_ToolKind = '''', tr_Args = Some args, tr_NeedsApproval = False,
     tr_Unknown = False\<rparr>], ly_Usage = usage, ly_RetryCount = 0, ly_UsedFallback = False\<rparr>"

definition started_state :: "llm_var \<Rightarrow> wf_state" where
  "started_state v = (loop_start_tm (sample_runtime (\<lambda>_. text_response ''hi''))
     (start_state sample_workflow_input) (NewAgentTelemetry 0))\<lparr>ws_var := v\<rparr>"

theorem stale_arguments_witness:
  "\<exists>args. tr_Args (var_calls (ws_var (got_result sample_workflow (search_result [(''query'', AStr ''cats'')] None)
      (started_state (json_into zero_var (search_result [(''query'', AStr ''dogs''), (''delete'', ABool True)] None))))) ! 0)
      = Some args \<and>
    map_of args = [''query'' \<mapsto> AStr ''cats'', ''delete'' \<mapsto> ABool True]"
proof -
  let ?q = "search_result [(''query'', AStr ''dogs''), (''delete'', ABool True)] None"
  let ?v = "json_into zero_var ?q"
  have d: "tm_decode (wr_tm sample_workflow) = json_into" by (simp add: sample_workflow_def sample_temporal_def)
  have v: "ws_var (started_state ?v) = json_into (foldl json_into zero_var []) ?q"
    by (simp add: started_state_def loop_start_tm_def)
  have old: "tr_Args (var_calls (ws_var (started_state ?v)) ! 0) = Some [(''delete'', ABool True), (''query'', AStr ''dogs'')]"
    by (simp add: started_state_def loop_start_tm_def search_result_def json_into_def zero_var_def decode_slot_def decode_args_def first_slot_def
        zero_slot_def put_all_def pair_put_def var_calls_def used_slots_def slot_call_def args_of_def)
  have "map_of [(''delete'', ABool True), (''query'', AStr ''dogs'')] ++ map_of [(''query'', AStr ''cats'')] =
      [''query'' \<mapsto> AStr ''cats'', ''delete'' \<mapsto> ABool True]"
    by (auto simp: fun_eq_iff map_add_def)
  with stale_arguments [OF d v _ _ old, of "search_result [(''query'', AStr ''cats'')] None" "[(''query'', AStr ''cats'')]"]
  show ?thesis by (auto simp: search_result_def)
qed

section \<open>The usage\<close>

lemma got_usage:
  assumes "tm_decode (wr_tm w) = json_into" "ly_Usage r = None"
  shows "lv_Usage (ws_var (got_result w r st)) = lv_Usage (ws_var st)"
    and "ws_llmUsage (got_result w r st) = MergeLLMUsage (ws_llmUsage st) (lv_Usage (ws_var st))"
  using assms by (simp_all add: got_result_def json_into_def decode_usage_def Let_def split: prod.splits)

lemma usage_kept:
  assumes "tm_decode (wr_tm w) = json_into" "\<forall>r \<in> set rs. ly_Usage r = None"
    and "lv_Usage (ws_var st) = Some u" "ws_llmUsage st = Some a" "TotalTokens a = int k * TotalTokens u"
    and "0 \<le> TotalTokens u" "(int k + int (length rs)) * TotalTokens u < 2 ^ 63"
  shows "lv_Usage (ws_var (foldl (\<lambda>st r. got_result w r st) st rs)) = Some u \<and>
    map_option TotalTokens (ws_llmUsage (foldl (\<lambda>st r. got_result w r st) st rs)) =
      Some ((int k + int (length rs)) * TotalTokens u)"
  using assms(2-)
proof (induction rs arbitrary: st a k)
  case (Cons r rs)
  have none: "ly_Usage r = None" using Cons.prems(1) by simp
  have le: "(int k + 1) * TotalTokens u \<le> (int k + int (length (r # rs))) * TotalTokens u"
    by (rule mult_right_mono) (use Cons.prems(5) in simp_all)
  have nonneg: "0 \<le> (int k + 1) * TotalTokens u" using Cons.prems(5) by simp
  have eq: "TotalTokens a + TotalTokens u = (int k + 1) * TotalTokens u"
    using Cons.prems(4) by (simp add: ring_distribs)
  obtain b where b: "ws_llmUsage (got_result w r st) = Some b" "TotalTokens b = (int k + 1) * TotalTokens u"
    using got_usage(2) [OF assms(1) none, of st] Cons.prems(2,3,6) le nonneg eq
    by (auto simp: MergeLLMUsage_def int64_id)
  have sum: "int (Suc k) + int (length rs) = int k + int (length (r # rs))" by simp
  have "lv_Usage (ws_var (got_result w r st)) = Some u" using got_usage(1) [OF assms(1) none] Cons.prems(2) by simp
  from Cons.IH [OF _ this b(1), of "Suc k"] Cons.prems b(2)
  show ?case unfolding sum by (simp only: foldl.simps) (simp add: add.commute)
qed (simp add: assms)

text \<open>C24. The usage of an answer is counted again for every later answer of the run that reports none: the
  variable still holds it, so the total of the run, and the amount that is charged to the budget,
  grow by it each time.
\<close>

theorem usage_counted_again:
  assumes "tm_decode (wr_tm w) = json_into" "lv_Usage (ws_var st) = None" "ws_llmUsage st = None"
    and "ly_Usage q = Some u" "\<forall>r \<in> set rs. ly_Usage r = None"
    and "0 \<le> TotalTokens u" "(int (length rs) + 1) * TotalTokens u < 2 ^ 63"
  shows "lv_Usage (ws_var (foldl (\<lambda>st r. got_result w r st) st (q # rs))) = Some u \<and>
    map_option TotalTokens (ws_llmUsage (foldl (\<lambda>st r. got_result w r st) st (q # rs))) =
      Some ((int (length rs) + 1) * TotalTokens u)"
proof -
  have "lv_Usage (ws_var (got_result w q st)) = Some u" "ws_llmUsage (got_result w q st) = Some u"
    using assms(1-4)
    by (simp_all add: got_result_def json_into_def decode_usage_def MergeLLMUsage_def CloneLLMUsage_def Let_def
        split: prod.splits)
  from usage_kept [OF assms(1,5) this, of 1] assms(6,7) show ?thesis by (simp add: add.commute)
qed

theorem usage_counted_again_witness:
  "map_option TotalTokens (ws_llmUsage (foldl (\<lambda>st r. got_result sample_workflow r st) (started_state zero_var)
      [search_result [] (Some (tokens_usage 100)), search_result [] None, search_result [] None])) = Some 300"
proof -
  have d: "tm_decode (wr_tm sample_workflow) = json_into" by (simp add: sample_workflow_def sample_temporal_def)
  have "lv_Usage (ws_var (started_state zero_var)) = None" "ws_llmUsage (started_state zero_var) = None"
    by (simp_all add: started_state_def loop_start_tm_def zero_var_def start_state_def sample_workflow_input_def)
  from usage_counted_again [OF d this, of "search_result [] (Some (tokens_usage 100))" "tokens_usage 100"
      "[search_result [] None, search_result [] None]"]
  show ?thesis by (simp add: search_result_def tokens_usage_def)
qed

section \<open>Continuing as a new run\<close>

lemma read_own_message [simp]: "read_message maps (own_message m) = m"
proof -
  have "map (read_call maps) (zip cs (map (\<lambda>_. None) cs)) = cs" for cs
    by (induction cs) (simp_all add: read_call_def)
  then show ?thesis by (simp add: read_message_def own_message_def)
qed

lemma loop_start_messages [simp]: "messages_of (loop_start_tm rt s t) = as_Messages s"
  by (simp add: messages_of_def loop_start_tm_def comp_def)

text \<open>A breaker, or a tracker, that a run of this configuration can have.\<close>

definition breaker_fits :: "'w runtime \<Rightarrow> circuit_breaker option \<Rightarrow> bool" where
  "breaker_fits rt c \<longleftrightarrow> map_option cb_cfg c = map_option cb_cfg (NewCircuitBreaker (breaker_config (rt_ErrorControl rt)))"

definition tracker_fits :: "'w runtime \<Rightarrow> budget_tracker option \<Rightarrow> bool" where
  "tracker_fits rt t \<longleftrightarrow> (case (t, NewBudgetTracker (rt_Budget rt)) of
      (None, None) \<Rightarrow> True
    | (Some b, Some fresh) \<Rightarrow> b = fresh\<lparr>bt_totalTokens := bt_totalTokens b, bt_totalCostNano := bt_totalCostNano b,
          bt_wmTokens := bt_wmTokens b, bt_wmCostNano := bt_wmCostNano b,
          bt_approvalCount := bt_approvalCount b, bt_hasAdded := bt_hasAdded b\<rparr> \<and>
        \<bar>bt_totalCostNano b\<bar> \<le> 2 ^ 50 \<and> \<bar>bt_wmCostNano b\<bar> \<le> 2 ^ 50
    | _ \<Rightarrow> False)"

lemma restored_breaker_continued:
  assumes "breaker_fits rt c"
  shows "restored_breaker rt (continued_state orig iter t c st) = c"
  using assms
  by (cases c; cases "NewCircuitBreaker (breaker_config (rt_ErrorControl rt))")
    (auto simp: breaker_fits_def restored_breaker_def continued_state_def cb_State_def
      NewCircuitBreakerFromState_def cb_Restore_def)

lemma float_nano_roundtrip: "\<bar>n\<bar> \<le> 2 ^ 50 \<Longrightarrow> round_mul (float_div n nanoUSDPerUSD) nanoUSDPerUSD = n"
  by (intro float_roundtrip) (simp_all add: nanoUSDPerUSD_def)

lemma restored_tracker_continued:
  assumes "tracker_fits rt t"
  shows "restored_tracker rt (continued_state orig iter t c st) =
    map_option (\<lambda>b. b\<lparr>bt_approvalCount := 0, bt_hasAdded := False\<rparr>) t"
proof (cases t)
  case None
  then show ?thesis
    using assms by (auto simp: tracker_fits_def restored_tracker_def RestoreState_def split: option.splits)
next
  case (Some b)
  with assms obtain fresh where f: "NewBudgetTracker (rt_Budget rt) = Some fresh"
      "b = fresh\<lparr>bt_totalTokens := bt_totalTokens b, bt_totalCostNano := bt_totalCostNano b,
          bt_wmTokens := bt_wmTokens b, bt_wmCostNano := bt_wmCostNano b,
          bt_approvalCount := bt_approvalCount b, bt_hasAdded := bt_hasAdded b\<rparr>"
      "\<bar>bt_totalCostNano b\<bar> \<le> 2 ^ 50" "\<bar>bt_wmCostNano b\<bar> \<le> 2 ^ 50"
    by (auto simp: tracker_fits_def split: option.splits)
  have new: "\<not> bt_hasAdded fresh" "bt_approvalCount fresh = 0"
    using f(1) by (auto simp: NewBudgetTracker_def split: option.splits)
  have "restored_tracker rt (continued_state orig iter t c st) =
      Some (fresh\<lparr>bt_totalTokens := bt_totalTokens b, bt_totalCostNano := bt_totalCostNano b,
        bt_wmTokens := bt_wmTokens b, bt_wmCostNano := bt_wmCostNano b\<rparr>)"
    using Some f(1,3,4) new
    by (simp add: restored_tracker_def RestoreState_def continued_state_def Totals_def WatermarkTotals_def
        float_nano_roundtrip)
  moreover have "fresh\<lparr>bt_totalTokens := bt_totalTokens b, bt_totalCostNano := bt_totalCostNano b,
        bt_wmTokens := bt_wmTokens b, bt_wmCostNano := bt_wmCostNano b\<rparr> = b\<lparr>bt_approvalCount := 0, bt_hasAdded := False\<rparr>"
    by (subst (5) f(2)) (simp add: new)
  ultimately show ?thesis using Some by simp
qed


definition budget_workflow :: "nat workflow_run" where
  "budget_workflow = sample_workflow
     \<lparr>wr_tx := temporal_of ((sample_runtime (\<lambda>_. text_response ''hi''))\<lparr>rt_Budget := Some sample_cfg\<rparr>)\<rparr>"

definition approved_twice :: "budget_tracker option" where
  "approved_twice = map_option (\<lambda>b. b\<lparr>bt_totalTokens := 230, bt_wmTokens := 130, bt_approvalCount := 2,
     bt_hasAdded := True\<rparr>) (NewBudgetTracker (Some sample_cfg))"


end
