(* ===== verification/Temporal_Safety.thy ===== *)
theory Temporal_Safety
  imports Temporal_Runs Run_Loop
begin

text \<open>
  Which tool calls of the Temporal workflow reach a tool or a sub-agent, and that its runs end.
\<close>

section \<open>Calls that are not allowed\<close>

text \<open>The same Temporal, but for what it does with the execution of a tool and with a child workflow.\<close>

definition trapped :: "(activity_options \<Rightarrow> 'w activity \<Rightarrow> ('w, go_error + activity_value) io) \<Rightarrow>
    (child_options \<Rightarrow> agent_workflow_input \<Rightarrow> ('w, go_error + agent_run_result option) state) \<Rightarrow>
    'w workflow_run \<Rightarrow> 'w workflow_run" where
  "trapped g h r = r\<lparr>wr_tm := (wr_tm r)\<lparr>tm_activity := (\<lambda>opts act.
       if HasPrefix (ao_ActivityID opts) ''AgentToolExecuteActivity_'' then g opts act
       else tm_activity (wr_tm r) opts act), tm_child := h\<rparr>\<rparr>"

lemma trapped_simps [simp]:
  "wr_env (trapped g h r) = wr_env r" "wr_tx (trapped g h r) = wr_tx r" "wr_input (trapped g h r) = wr_input r"
  "wr_suffix (trapped g h r) = wr_suffix r" "wr_breaker (trapped g h r) = wr_breaker r"
  "isRoot (trapped g h r) = isRoot r" "streamWorkflowID (trapped g h r) = streamWorkflowID r"
  "executionPolicies_tm (trapped g h r) = executionPolicies_tm r" "route_of (trapped g h r) = route_of r"
  "activity_scope (trapped g h r) = activity_scope r" "check_tripped_tm (trapped g h r) = check_tripped_tm r"
  "approvalActivityID (trapped g h r) = approvalActivityID r" "approvalTaskTimeout_tm (trapped g h r) = approvalTaskTimeout_tm r"
  by (simp_all add: fun_eq_iff trapped_def isRoot_def streamWorkflowID_def executionPolicies_tm_def route_of_def
      activity_scope_def check_tripped_tm_def approvalActivityID_def approvalTaskTimeout_tm_def)

lemma trapped_tm:
  "wr_tm (trapped g h r) = (wr_tm r)\<lparr>tm_activity := (\<lambda>opts act.
       if HasPrefix (ao_ActivityID opts) ''AgentToolExecuteActivity_'' then g opts act
       else tm_activity (wr_tm r) opts act), tm_child := h\<rparr>"
  by (simp add: trapped_def)

text \<open>The activities do not use what is trapped.\<close>

lemma verify_trapped [simp]:
  "verifyAgentFingerprint (tm\<lparr>tm_activity := a, tm_child := h\<rparr>) = verifyAgentFingerprint tm"
  by (simp add: fun_eq_iff verifyAgentFingerprint_def cong: branch_congs)

lemma activities_trapped [simp]:
  "AgentToolAuthorizeActivity (tm\<lparr>tm_activity := a, tm_child := h\<rparr>) = AgentToolAuthorizeActivity tm"
  "AgentToolApprovalActivity (tm\<lparr>tm_activity := a, tm_child := h\<rparr>) = AgentToolApprovalActivity tm"
  "PublishStreamEventActivity (tm\<lparr>tm_activity := a, tm_child := h\<rparr>) = PublishStreamEventActivity tm"
  by (simp_all add: fun_eq_iff AgentToolAuthorizeActivity_def AgentToolApprovalActivity_def
      PublishStreamEventActivity_def verified_tools_def verified_def request_on_stream_def
      cong: branch_congs)

lemma execute_trapped:
  "\<not> HasPrefix (ao_ActivityID opts) ''AgentToolExecuteActivity_'' \<Longrightarrow>
     execute_activity (trapped g h r) ty opts act = execute_activity r ty opts act"
  by (simp add: execute_activity_def trapped_tm cong: branch_congs)

lemma other_activity_ids [simp]:
  "\<not> HasPrefix '''' ''AgentToolExecuteActivity_''"
  "\<not> HasPrefix (''AgentToolAuthorizeActivity_'' @ x) ''AgentToolExecuteActivity_''"
  "\<not> HasPrefix (''AgentToolApprovalActivity_'' @ x) ''AgentToolExecuteActivity_''"
  by (simp_all add: HasPrefix_def)

lemma emit_trapped [simp]: "emitAgentEvent (trapped g h r) = emitAgentEvent r"
  by (simp add: fun_eq_iff emitAgentEvent_def execute_trapped short_options_def trapped_tm cong: branch_congs)

lemma finish_trapped [simp]:
  "finish_call_tm (trapped g h r) = finish_call_tm r" "announce_call_tm (trapped g h r) = announce_call_tm r"
  by (simp_all add: fun_eq_iff finish_call_tm_def emitToolEndThenResult_tm_def announce_call_tm_def
      cong: branch_congs)

lemma approval_trapped [simp]: "approval_status (trapped g h r) cc tc = approval_status r cc tc"
  by (simp add: approval_status_def execute_trapped short_options_def approvalActivityID_def trapped_tm approval_change_def
      HasPrefix_def cong: branch_congs)

lemma dispatch_trapped: "status \<noteq> ApprovalApproved \<Longrightarrow> dispatch_tm (trapped g h r) cc tc status = dispatch_tm r cc tc status"
  by (simp add: dispatch_tm_def cong: branch_congs)

lemma bind_agree:
  "(\<And>s a s'. run_state m s = (a, s') \<Longrightarrow> f a = g a) \<Longrightarrow> State_Monad.bind m f = State_Monad.bind m g"
  by (rule state_ext) (simp split: prod.splits)

text \<open>A call that may not run: it is unknown, or its authorization never allows it, or it needs an approval
  and the answer is never \<open>APPROVED\<close>.\<close>

definition never_allowed :: "'w workflow_run \<Rightarrow> tool_call_request \<Rightarrow> bool" where
  "never_allowed r tc \<longleftrightarrow> (\<forall>opts s a. fst (run_state (tm_activity (wr_tm r) opts
     (AgentToolAuthorizeActivity (wr_tm r) (wr_env r) (wr_tx r) (wr_input r) tc)) s) = Inr (AvAuth a) \<longrightarrow> \<not> ar_Allowed a)"

definition never_approved :: "'w workflow_run \<Rightarrow> tool_call_request \<Rightarrow> bool" where
  "never_approved r tc \<longleftrightarrow> tr_NeedsApproval tc \<and> (\<forall>opts s name. fst (run_state (tm_activity (wr_tm r) opts
     (AgentToolApprovalActivity (wr_tm r) (wr_env r) (wr_tx r) (wr_input r) name (streamWorkflowID r) tc)) s)
       \<noteq> Inr (AvString ApprovalApproved))"

definition barred_tm :: "'w workflow_run \<Rightarrow> tool_call_request \<Rightarrow> bool" where
  "barred_tm r tc \<longleftrightarrow> tr_Unknown tc \<or> never_allowed r tc \<or> never_approved r tc"

lemma of_auth_iff [simp]: "of_auth v = Some a \<longleftrightarrow> v = AvAuth a"
  by (cases v) (simp_all add: of_auth_def)

lemma of_string_iff [simp]: "of_string v = Some a \<longleftrightarrow> v = AvString a"
  by (cases v) (simp_all add: of_string_def)

lemma execute_activity_result:
  assumes "run_state (execute_activity r ty opts act) s = (Inr a, s')"
  obtains v where "fst (run_state (tm_activity (wr_tm r) opts act) s) = Inr v" "ty v = Some a"
  using assms by (auto simp: execute_activity_def split: prod.splits sum.splits option.splits)

lemma approval_never:
  assumes "never_approved r tc" "run_state (approval_status r cc tc) s = ((Inr status, c), s')"
  shows "status \<noteq> ApprovalApproved"
proof -
  have timed: "ApprovalTimedOut \<noteq> ApprovalApproved" by (simp add: ApprovalTimedOut_def ApprovalApproved_def)
  show ?thesis
    using assms timed unfolding approval_status_def
    by (auto simp: never_approved_def split: prod.splits sum.splits if_splits
        elim!: execute_activity_result)
qed

lemma authorized_trapped:
  assumes "never_allowed r tc \<or> never_approved r tc"
  shows "authorized_tm (trapped g h r) cc tc = authorized_tm r cc tc"
proof -
  let ?auth = "execute_activity r of_auth
       (execActivityOptions (pol_ToolAuth (executionPolicies_tm r))
         (''AgentToolAuthorizeActivity_'' @ activity_scope r cc) False)
       (AgentToolAuthorizeActivity (wr_tm r) (wr_env r) (wr_tx r) (wr_input r) tc)"
  let ?rest = "\<lambda>q auth. case auth of
        Inl err \<Rightarrow> State_Monad.return (Inl err, NoApproval)
      | Inr a \<Rightarrow>
          if \<not> ar_Allowed a then no_change (finish_call_tm r cc tc (denial_content_tm a) False None)
          else do {
            st \<leftarrow> approval_status r cc tc;
            (case fst st of
               Inl err \<Rightarrow> State_Monad.return (Inl err, snd st)
             | Inr status \<Rightarrow> do {
                 out \<leftarrow> dispatch_tm q cc tc status;
                 State_Monad.return (out, snd st) }) }"
  have eq: "authorized_tm q cc tc = State_Monad.bind ?auth (?rest q)" if "q = r \<or> q = trapped g h r" for q
    using that by (auto simp: authorized_tm_def execute_trapped execActivityOptions_def Let_def trapped_tm
        HasPrefix_def cong: branch_congs)
  have "State_Monad.bind ?auth (?rest (trapped g h r)) = State_Monad.bind ?auth (?rest r)"
  proof (rule bind_agree)
    fix s a s'
    assume run: "run_state ?auth s = (a, s')"
    show "?rest (trapped g h r) a = ?rest r a"
    proof (cases a)
      case (Inr x)
      have "never_approved r tc" if "ar_Allowed x"
        using assms run that unfolding Inr never_allowed_def by (auto elim!: execute_activity_result)
      then show ?thesis
        by (auto simp: Inr split: sum.splits intro!: bind_agree
            dest!: approval_never simp: dispatch_trapped)
    qed simp
  qed
  then show ?thesis using eq [of r] eq [of "trapped g h r"] by simp
qed

text \<open>C6. A tool call that is unknown, that its authorization never allows, or that needs an approval that never
  comes (it is rejected, unavailable, or times out) reaches neither a tool nor a sub-agent: the call is
  the same whatever Temporal would do with the execution of a tool and with a child workflow.
\<close>

theorem temporal_barred_runs_nothing:
  assumes "barred_tm r tc"
  shows "executeAgentToolCall (trapped g h r) cc tc = executeAgentToolCall r cc tc"
  using assms by (auto simp: executeAgentToolCall_def barred_tm_def authorized_trapped cong: branch_congs)

definition unapproved_call :: tool_call_request where
  "unapproved_call = \<lparr>tr_ToolCallID = ''c'', tr_ToolName = ''echo'', tr_ToolDisplayName = '''', tr_ToolKind = '''',
     tr_Args = None, tr_NeedsApproval = True, tr_Unknown = False\<rparr>"

theorem temporal_barred_runs_nothing_witness:
  "executeAgentToolCall (trapped (\<lambda>_ _. State_Monad.return (Inr (AvString ''ran''))) (\<lambda>_ _. State_Monad.return (Inr None))
      sample_workflow) \<lparr>cc_messageID = ''m'', cc_iteration = 0, cc_slot = '''', cc_now = 0\<rparr> unapproved_call =
    executeAgentToolCall sample_workflow \<lparr>cc_messageID = ''m'', cc_iteration = 0, cc_slot = '''', cc_now = 0\<rparr> unapproved_call"
proof (rule temporal_barred_runs_nothing)
  have "never_approved sample_workflow unapproved_call"
    by (auto simp: never_approved_def unapproved_call_def sample_workflow_def sample_temporal_def sample_workflow_input_def
        run_once_def AgentToolApprovalActivity_def verified_def check_err_def verifyAgentFingerprint_def
        request_on_stream_def streamWorkflowID_def isRoot_def)
  then show "barred_tm sample_workflow unapproved_call" by (simp add: barred_tm_def)
qed

section \<open>Termination\<close>

text \<open>The value of an activity is one that its function returned, unless that left it pending.\<close>

definition activity_engine :: "'w temporal \<Rightarrow> bool" where
  "activity_engine tm \<longleftrightarrow> (\<forall>opts act s v. fst (run_state (tm_activity tm opts act) s) = Inr v \<longrightarrow>
     (\<exists>info s1. fst (run_state (act info) s1) = Inr v \<or> fst (run_state (act info) s1) = Inr AvPending))"

definition wf_calls :: "wf_state \<Rightarrow> int" where
  "wf_calls st = rn_TotalLLMCalls (te_Run (ws_telemetry st))"

definition wf_inv :: "int \<Rightarrow> int \<Rightarrow> wf_state \<Rightarrow> bool" where
  "wf_inv orig iter st \<longleftrightarrow> 0 \<le> iter \<and> wf_calls st \<le> iter \<and>
     ws_maxIter st \<le> orig + (if ws_iterationsExtended st then orig else 0)"

definition wf_left :: "int \<Rightarrow> int \<Rightarrow> wf_state \<Rightarrow> nat" where
  "wf_left orig iter st = nat (ws_maxIter st - iter) + (if ws_iterationsExtended st then 0 else nat orig)"

definition carried_ok :: "int \<Rightarrow> agent_workflow_state \<Rightarrow> bool" where
  "carried_ok orig a \<longleftrightarrow> 0 \<le> as_Iteration a \<and> as_Iteration a \<le> 2 * orig \<and>
     as_ExtraIterations a \<le> (if as_IterationsExtended a then orig else 0) \<and>
     (case as_Telemetry a of None \<Rightarrow> True | Some t \<Rightarrow> rn_TotalLLMCalls (te_Run t) \<le> as_Iteration a)"

definition exit_ok :: "int \<Rightarrow> int \<Rightarrow> wf_exit \<Rightarrow> bool" where
  "exit_ok orig iter x = (case x of RunFailed _ _ \<Rightarrow> True
    | ContinuedAsNew i \<Rightarrow> (case wi_State i of None \<Rightarrow> False
        | Some a \<Rightarrow> carried_ok orig a \<and> iter < as_Iteration a))"

definition wf_post :: "int \<Rightarrow> int \<Rightarrow> nat \<Rightarrow> wf_turn \<Rightarrow> bool" where
  "wf_post orig iter left e = (case e of
      NextTurn st' \<Rightarrow> wf_inv orig (iter + 1) st' \<and> wf_left orig (iter + 1) st' < left
    | LeaveLoop st' \<Rightarrow> wf_calls st' \<le> 2 * orig + 1
    | ExitRun st' x \<Rightarrow> exit_ok orig iter x)"

lemma exit_ok_failed [simp]: "exit_ok orig iter (RunFailed res err)"
  by (simp add: exit_ok_def)

lemma wf_post_failed [simp]: "wf_post orig iter left (ExitRun st (RunFailed res err))" "wf_post orig iter left (budget_exit st err)"
  by (simp_all add: wf_post_def budget_exit_def Let_def)

lemma decision_tm_yields:
  assumes "activity_engine (wr_tm r)" "0 < rt_MaxIterations (wr_rt r)"
  shows "yields (iterations_decision r iter st) (\<lambda>x. case x of Inr (Some extra) \<Rightarrow>
      \<not> ws_iterationsExtended st \<and> 1 \<le> extra \<and> extra \<le> rt_MaxIterations (wr_rt r) | _ \<Rightarrow> True)"
    (is "yields ?m ?P")
  unfolding yields_def
proof
  fix s
  let ?info = "\<lparr>mi_IterationCount = iter + 1, mi_MaxIterations = rt_MaxIterations (wr_rt r),
      mi_LastAction = LastToolAction (map tr_ToolName (var_calls (ws_var st)))\<rparr>"
  let ?act = "AgentMaxIterationsDecisionActivity (wr_tx r) ?info (ws_iterationsExtended st)"
  have act: "ec_Action d = ErrorControlExtendIterations \<longrightarrow> \<not> ws_iterationsExtended st \<and> 1 \<le> ec_ExtraIterations d \<and>
      ec_ExtraIterations d \<le> rt_MaxIterations (wr_rt r)"
    if ret: "fst (run_state (tm_activity (wr_tm r) opts ?act) s1) = Inr (AvDecision d)" for opts s1 d
  proof -
    from assms(1) ret obtain info s2 where
      "fst (run_state (?act info) s2) = Inr (AvDecision d) \<or> fst (run_state (?act info) s2) = Inr AvPending"
      unfolding activity_engine_def by blast
    then obtain s3 where "run_state (DecideMaxIterations (rt_ErrorControl (wr_rt r)) ?info (ws_iterationsExtended st)) s2 = (d, s3)"
      by (auto simp: AgentMaxIterationsDecisionActivity_def split: prod.splits)
    from yieldsD [OF decision_yields this] show ?thesis
      using assms(2) by (simp add: EffectiveMaxIterations_def split: if_splits)
  qed
  show "?P (fst (run_state ?m s))"
    using act by (auto simp: iterations_decision_def execute_activity_def of_decision_def
        split: prod.splits sum.splits option.splits activity_value.splits if_splits) (metis fst_conv)+
qed

lemma take_outputs_yields: "yields (take_outputs r now ps st) (\<lambda>x. wf_calls (fst x) = wf_calls st \<and>
    ws_maxIter (fst x) = ws_maxIter st \<and> ws_iterationsExtended (fst x) = ws_iterationsExtended st)"
proof (induction ps arbitrary: st)
  case (Cons p ps)
  obtain tc out where p: "p = (tc, out)" by fastforce
  show ?case
    unfolding p take_outputs.simps Let_def
    by (intro yields_rules yields_weaken [OF Cons.IH]) (auto simp: wf_calls_def)
qed (auto intro: yields_return)

lemma continue_as_new_yields:
  assumes "wf_inv orig (iter + 1) st" "orig = rt_MaxIterations (wr_rt r)" "0 < orig" "iter + 1 \<le> 2 * orig"
  shows "yields (continue_as_new r iter st) (exit_ok orig iter)"
proof -
  have "carried_ok orig (continued_state orig iter t c st)" for t c
    using assms by (simp add: carried_ok_def continued_state_def wf_inv_def wf_calls_def split: if_splits)
  then show ?thesis
    unfolding continue_as_new_def Let_def
    by (intro yields_rules) (simp_all add: exit_ok_def continued_state_def flip: assms(2))
qed

lemma save_iteration_yields: "yields (save_iteration r st) (\<lambda>st'. wf_calls st' = wf_calls st \<and>
    ws_maxIter st' = ws_maxIter st \<and> ws_iterationsExtended st' = ws_iterationsExtended st)"
  unfolding save_iteration_def by (intro yields_rules) (auto simp: wf_calls_def split: sum.splits)

lemma tool_round_tm_yields:
  assumes "wf_inv orig (iter + 1) st" "orig = rt_MaxIterations (wr_rt r)" "0 < orig" "iter + 1 \<le> 2 * orig"
    and "wf_left orig (iter + 1) st < left"
  shows "yields (wf_tool_round r mid iter now st) (wf_post orig iter left)"
proof -
  have same: "wf_inv orig (iter + 1) st'" "wf_left orig (iter + 1) st' < left"
    if "wf_calls st' = wf_calls st" "ws_maxIter st' = ws_maxIter st" "ws_iterationsExtended st' = ws_iterationsExtended st" for st'
    using assms that by (simp_all add: wf_inv_def wf_left_def)
  have leave: "yields (do { e \<leftarrow> continue_as_new r iter st'; State_Monad.return (ExitRun st' e) }) (wf_post orig iter left)"
    if "wf_inv orig (iter + 1) st'" for st'
    by (rule yields_bind_with [OF continue_as_new_yields [OF that assms(2-4)]]) (simp add: yields_return wf_post_def)
  have next_turn: "wf_post orig iter left (NextTurn st')"
    if "wf_calls st' = wf_calls st" "ws_maxIter st' = ws_maxIter st" "ws_iterationsExtended st' = ws_iterationsExtended st" for st'
    using same [OF that] by (simp add: wf_post_def)
  have saved: "yields (do {
        st2 \<leftarrow> save_iteration r st';
        exceeded \<leftarrow> historyExceeded r;
        (if exceeded then do { e \<leftarrow> continue_as_new r iter st2; State_Monad.return (ExitRun st2 e) }
         else State_Monad.return (NextTurn st2)) }) (wf_post orig iter left)"
    if "wf_calls st' = wf_calls st" "ws_maxIter st' = ws_maxIter st" "ws_iterationsExtended st' = ws_iterationsExtended st" for st'
    by (rule yields_bind_with [OF save_iteration_yields], rule yields_bind, rule yields_if)
      (use that in \<open>auto intro!: leave same yields_return next_turn simp: wf_calls_def\<close>)
  show ?thesis
    unfolding wf_tool_round_def Let_def
    by (rule yields_bind, rule yields_case_sum, (rule yields_return, simp),
        rule yields_bind_with [OF take_outputs_yields], rule yields_case_option)
      (auto intro!: saved yields_return simp: wf_calls_def)
qed

lemma final_call_tm_yields:
  assumes "wf_inv orig (iter + 1) st" "iter + 1 \<le> 2 * orig"
  shows "yields (wf_final_call r wx iter st) (wf_post orig iter left)"
  unfolding wf_final_call_def Let_def using assms
  by (intro yields_rules)
    (auto simp: wf_post_def wf_inv_def wf_calls_def budget_exit_def Let_def answer_def split: option.splits)

lemma answered_tm_yields:
  assumes eng: "activity_engine (wr_tm r)" and inv: "wf_inv orig (iter + 1) st"
    and orig: "orig = rt_MaxIterations (wr_rt r)" "0 < orig" and le: "iter < ws_maxIter st" "iter + 1 \<le> 2 * orig"
    and left: "wf_left orig (iter + 1) st < left"
  shows "yields (wf_answered r wx mid iter now st) (wf_post orig iter left)"
proof -
  have leave: "wf_post orig iter left (LeaveLoop (answer c st))" for c
    using inv le by (simp add: wf_post_def answer_def wf_inv_def wf_calls_def)
  have ext: "yields (wf_tool_round r mid iter now (st\<lparr>ws_maxIter := ws_maxIter st + extra, ws_iterationsExtended := True\<rparr>))
      (wf_post orig iter left)"
    if "iter = ws_maxIter st - 1" "\<not> ws_iterationsExtended st" "1 \<le> extra" "extra \<le> orig" for extra
    using that inv orig le left
    by (intro tool_round_tm_yields) (auto simp: wf_inv_def wf_left_def wf_calls_def)
  have plain: "yields (wf_tool_round r mid iter now st) (wf_post orig iter left)"
    by (rule tool_round_tm_yields [OF inv orig le(2) left])
  have dec: "yields (iterations_decision r iter st) (\<lambda>x. case x of Inr (Some extra) \<Rightarrow>
      \<not> ws_iterationsExtended st \<and> 1 \<le> extra \<and> extra \<le> orig | _ \<Rightarrow> True)"
    unfolding orig(1) using decision_tm_yields [OF eng] orig by simp
  have final: "yields (wf_final_call r wx iter st) (wf_post orig iter left)"
    by (rule final_call_tm_yields [OF inv le(2)])
  have last_round: "yields (case d of
        Inl err \<Rightarrow> State_Monad.return (ExitRun st (RunFailed None err))
      | Inr None \<Rightarrow> wf_final_call r wx iter st
      | Inr (Some extra) \<Rightarrow> wf_tool_round r mid iter now
          (st\<lparr>ws_maxIter := ws_maxIter st + extra, ws_iterationsExtended := True\<rparr>)) (wf_post orig iter left)"
    if "case d of Inr (Some extra) \<Rightarrow> \<not> ws_iterationsExtended st \<and> 1 \<le> extra \<and> extra \<le> orig | _ \<Rightarrow> True"
      "iter = ws_maxIter st - 1" for d
    using that(1) by (cases d) (auto simp: wf_post_def exit_ok_def split: option.splits intro!: yields_return final ext [OF that(2)])
  show ?thesis
    unfolding wf_answered_def
    by (rule yields_if, (rule yields_return, rule leave), rule yields_if,
        rule yields_bind_with [OF dec], rule last_round) (auto intro: plain)
qed

lemma turn_tm_yields:
  assumes eng: "activity_engine (wr_tm r)" and inv: "wf_inv orig iter st" "iter < ws_maxIter st"
    and orig: "orig = rt_MaxIterations (wr_rt r)" "0 < orig"
  shows "yields (wf_turn_at r wx iter st) (wf_post orig iter (wf_left orig iter st))"
proof -
  have le: "iter + 1 \<le> 2 * orig" using inv orig by (auto simp: wf_inv_def split: if_splits)
  have got: "wf_inv orig (iter + 1) (got_result r res st)" "ws_maxIter (got_result r res st) = ws_maxIter st"
    "wf_left orig (iter + 1) (got_result r res st) < wf_left orig iter st" for res
    using inv by (simp_all add: wf_inv_def wf_left_def wf_calls_def got_result_def count_llm_call_def Let_def)
  show ?thesis
    unfolding wf_turn_at_def Let_def using inv(2) le got
    by (intro yields_rules answered_tm_yields [OF eng _ orig]) auto
qed

definition wf_done :: "int \<Rightarrow> int \<Rightarrow> wf_turn option \<Rightarrow> bool" where
  "wf_done orig iter e = (case e of
      None \<Rightarrow> False
    | Some (NextTurn st') \<Rightarrow> False
    | Some (LeaveLoop st') \<Rightarrow> wf_calls st' \<le> 2 * orig + 1
    | Some (ExitRun st' x) \<Rightarrow> exit_ok orig iter x)"

lemma wf_done_later: "wf_done orig (iter + 1) e \<Longrightarrow> wf_done orig iter e"
  by (auto simp: wf_done_def exit_ok_def split: option.splits wf_turn.splits wf_exit.splits)

lemma wf_rounds_yields:
  assumes turn: "\<And>iter st. wf_inv orig iter st \<Longrightarrow> iter < ws_maxIter st \<Longrightarrow>
      yields (turn iter st) (wf_post orig iter (wf_left orig iter st))"
    and "0 < orig" "wf_left orig iter st \<le> n" "wf_inv orig iter st" "iter \<le> 2 * orig"
  shows "yields (wf_rounds turn n iter st) (wf_done orig iter)"
  using assms(3-)
proof (induction n arbitrary: iter st)
  case 0
  then have "\<not> iter < ws_maxIter st" by (auto simp: wf_left_def split: if_splits)
  then show ?case
    using 0 by (subst wf_rounds.simps) (auto simp: wf_done_def wf_inv_def intro!: yields_return)
next
  case (Suc n)
  show ?case
  proof (cases "iter < ws_maxIter st")
    case True
    have le: "iter + 1 \<le> 2 * orig" using Suc.prems True assms(2) by (auto simp: wf_inv_def split: if_splits)
    have "yields (case e of
          NextTurn st' \<Rightarrow> wf_rounds turn n (iter + 1) st'
        | LeaveLoop st' \<Rightarrow> State_Monad.return (Some (LeaveLoop st'))
        | ExitRun st' x \<Rightarrow> State_Monad.return (Some (ExitRun st' x))) (wf_done orig iter)"
      if "wf_post orig iter (wf_left orig iter st) e" for e
      using that Suc.prems le
      by (cases e) (auto simp: wf_post_def wf_done_def intro!: yields_return yields_weaken [OF Suc.IH wf_done_later])
    then show ?thesis
      using True
      by (subst wf_rounds.simps) (auto intro: yields_bind_with [OF turn [OF Suc.prems(2) True]])
  next
    case False
    then show ?thesis
      using Suc.prems by (subst wf_rounds.simps) (auto simp: wf_done_def wf_inv_def intro!: yields_return)
  qed
qed

definition outcome_ok :: "int \<Rightarrow> int \<Rightarrow> wf_outcome \<Rightarrow> bool" where
  "outcome_ok orig iter out = (case out of
      Completed res \<Rightarrow> rn_TotalLLMCalls (te_Run (rz_Telemetry res)) \<le> 2 * orig + 1
    | Exited x \<Rightarrow> exit_ok orig iter x
    | OutOfFuel \<Rightarrow> False)"

lemma finish_run_yields:
  assumes "wf_calls st \<le> 2 * orig + 1"
  shows "yields (finish_run r st) (\<lambda>f. case f of Inl x \<Rightarrow> exit_ok orig iter x
     | Inr res \<Rightarrow> rn_TotalLLMCalls (te_Run (rz_Telemetry res)) \<le> 2 * orig + 1)"
proof -
  have "yields (store_memories_tm r st) (\<lambda>x. case x of Inl _ \<Rightarrow> True | Inr t \<Rightarrow> rn_TotalLLMCalls (te_Run t) = wf_calls st)"
    unfolding store_memories_tm_def Let_def by (intro yields_rules) (auto simp: wf_calls_def split: sum.splits)
  note stored = yields_bind_with [OF this]
  show ?thesis
    unfolding finish_run_def
    by (rule yields_bind, rule yields_case_option, (rule stored, rule yields_case_sum)?)
      (use assms in \<open>auto intro!: yields_return yields_bind stored yields_case_sum\<close>)
qed

lemma recall_tm_yields: "yields (recall_memory_tm r t) (\<lambda>x. case x of Inl _ \<Rightarrow> True | Inr (_, t') \<Rightarrow> te_Run t' = te_Run t)"
  unfolding recall_memory_tm_def attempt_def by (intro yields_rules) auto

lemma prefetch_tm_yields: "yields (prefetch_documents_tm r t) (\<lambda>x. case x of Inl _ \<Rightarrow> True | Inr (_, t') \<Rightarrow> te_Run t' = te_Run t)"
  unfolding prefetch_documents_tm_def attempt_def by (intro yields_rules) auto

lemma wf_body_yields:
  assumes eng: "activity_engine (wr_tm r)" and orig: "orig = rt_MaxIterations (wr_rt r)" "0 < orig"
    and s: "carried_ok orig s" and t: "rn_TotalLLMCalls (te_Run t) \<le> as_Iteration s"
  shows "yields (wf_body r s t) (\<lambda>out. outcome_ok orig (as_Iteration s) (fst out))"
proof -
  let ?iter = "as_Iteration s"
  have start: "wf_inv orig ?iter (loop_start_tm (wr_rt r) s t')" if "te_Run t' = te_Run t" for t'
    using s t orig that by (auto simp: carried_ok_def wf_inv_def wf_calls_def loop_start_tm_def)
  have rounds: "yields (wf_rounds (wf_turn_at r wx) (wf_fuel (wr_rt r) ?iter (loop_start_tm (wr_rt r) s t')) ?iter
      (loop_start_tm (wr_rt r) s t')) (wf_done orig ?iter)" if "te_Run t' = te_Run t" for wx t'
  proof (rule wf_rounds_yields)
    show "wf_left orig ?iter (loop_start_tm (wr_rt r) s t') \<le> wf_fuel (wr_rt r) ?iter (loop_start_tm (wr_rt r) s t')"
      using orig by (simp add: wf_left_def wf_fuel_def EffectiveMaxIterations_def)
  qed (use s orig start [OF that] in \<open>auto simp: carried_ok_def intro: turn_tm_yields [OF eng]\<close>)
  have ended: "yields (case e of
        None \<Rightarrow> State_Monad.return (OutOfFuel, [])
      | Some (NextTurn st') \<Rightarrow> State_Monad.return (OutOfFuel, ws_pending st')
      | Some (ExitRun st' x) \<Rightarrow> State_Monad.return (Exited x, ws_pending st')
      | Some (LeaveLoop st') \<Rightarrow> do {
          f \<leftarrow> finish_run r st';
          State_Monad.return (case f of Inl x \<Rightarrow> Exited x | Inr res \<Rightarrow> Completed res, ws_pending st') })
      (\<lambda>out. outcome_ok orig ?iter (fst out))" if "wf_done orig ?iter e" for e
    using that
    by (auto simp: wf_done_def outcome_ok_def split: option.splits wf_turn.splits sum.splits
        intro!: yields_return yields_bind_with [OF finish_run_yields [where orig = orig and iter = ?iter]])
  have failed: "yields (State_Monad.return (Exited (RunFailed None err), ps)) (\<lambda>out. outcome_ok orig ?iter (fst out))"
    for err ps by (rule yields_return) (simp add: outcome_ok_def)
  show ?thesis
    unfolding wf_body_def Let_def
    by (intro yields_bind_with [OF recall_tm_yields] yields_bind_with [OF prefetch_tm_yields]
        yields_bind_with [OF rounds ended] yields_case_sum yields_case_prod) (auto intro: failed)
qed

lemma AgentWorkflow_yields:
  assumes "activity_engine tm" and orig: "orig = rt_MaxIterations (tx_base tx)" "0 < orig"
    and s: "carried_ok orig (start_state input)"
  shows "yields (AgentWorkflow tm env tx input) (outcome_ok orig (as_Iteration (start_state input)))"
proof -
  let ?s = "start_state input"
  have failed: "yields (State_Monad.return (Exited (RunFailed None err))) (outcome_ok orig (as_Iteration ?s))" for err
    by (rule yields_return) (simp add: outcome_ok_def)
  have t: "yields (case as_Telemetry ?s of Some t \<Rightarrow> State_Monad.return t
      | None \<Rightarrow> do { now \<leftarrow> ext (tm_now tm); State_Monad.return (NewAgentTelemetry now) })
    (\<lambda>t. rn_TotalLLMCalls (te_Run t) \<le> as_Iteration ?s)"
    using s by (auto simp: carried_ok_def NewAgentTelemetry_def split: option.splits intro!: yields_return yields_bind)
  have body: "yields (wf_body r ?s t) (\<lambda>out. outcome_ok orig (as_Iteration ?s) (fst out))"
    if "wr_tm r = tm" "wr_tx r = tx" "rn_TotalLLMCalls (te_Run t) \<le> as_Iteration ?s" for r t
    by (rule wf_body_yields) (use assms that in auto)
  show ?thesis
    unfolding AgentWorkflow_def Let_def
    by (rule yields_bind, rule yields_case_option, rule yields_bind, rule yields_case_option, rule yields_bind,
        rule yields_case_sum, rule failed, rule yields_bind_with [OF t], rule yields_bind, rule yields_bind,
        rule yields_bind_with [OF body])
      (auto intro: failed yields_bind yields_return)
qed

text \<open>How a run and its continuations end.\<close>

fun ended_within :: "int \<Rightarrow> wf_outcome \<Rightarrow> bool" where
  "ended_within bound (Completed res) = (rn_TotalLLMCalls (te_Run (rz_Telemetry res)) \<le> bound)"
| "ended_within bound (Exited (RunFailed res err)) = True"
| "ended_within bound (Exited (ContinuedAsNew input)) = False"
| "ended_within bound OutOfFuel = False"

lemma workflow_chain_yields:
  assumes "activity_engine tm" "orig = rt_MaxIterations (tx_base tx)" "0 < orig"
  shows "carried_ok orig (start_state input) \<Longrightarrow> nat (2 * orig - as_Iteration (start_state input)) \<le> n \<Longrightarrow>
    yields (workflow_chain n tm env tx input) (ended_within (2 * orig + 1))"
proof (induction n arbitrary: input)
  case (0 input)
  have "yields (case out of Exited (ContinuedAsNew input') \<Rightarrow> (case 0 of 0 \<Rightarrow> State_Monad.return OutOfFuel
        | Suc m \<Rightarrow> workflow_chain m tm env tx input')
      | _ \<Rightarrow> State_Monad.return out) (ended_within (2 * orig + 1))"
    if "outcome_ok orig (as_Iteration (start_state input)) out" for out
    using that 0 by (auto simp: outcome_ok_def exit_ok_def carried_ok_def
        split: wf_outcome.splits wf_exit.splits option.splits intro!: yields_return)
  then show ?case
    by (subst workflow_chain.simps) (rule yields_bind_with [OF AgentWorkflow_yields [OF assms 0(1)]])
next
  case (Suc n input)
  have "yields (case out of Exited (ContinuedAsNew input') \<Rightarrow> (case Suc n of 0 \<Rightarrow> State_Monad.return OutOfFuel
        | Suc m \<Rightarrow> workflow_chain m tm env tx input')
      | _ \<Rightarrow> State_Monad.return out) (ended_within (2 * orig + 1))"
    if "outcome_ok orig (as_Iteration (start_state input)) out" for out
    using that Suc.prems by (auto simp: outcome_ok_def exit_ok_def
        split: wf_outcome.splits wf_exit.splits option.splits intro!: yields_return Suc.IH)
      (auto simp: start_state_def)
  then show ?case
    by (subst workflow_chain.simps) (rule yields_bind_with [OF AgentWorkflow_yields [OF assms Suc.prems(1)]])
qed

text \<open>C3. A Temporal run ends, whatever the model, the tools, the approvals and the error-control handler do, and
  however often the history limit makes it continue as new: with at most twice the configured iterations
  of continuations it completes or fails, the loop of no run uses up its fuel, and the LLM calls that
  a completed run reports are at most twice the configured iterations plus the final call without
  tools. (Each activity and child workflow is taken to return, with a value that its function gave.)
\<close>

theorem workflow_chain_terminates:
  assumes "activity_engine tm" "0 < rt_MaxIterations (tx_base tx)" "wi_State input = None"
    "nat (2 * rt_MaxIterations (tx_base tx)) \<le> n"
  shows "ended_within (2 * rt_MaxIterations (tx_base tx) + 1) (fst (run_state (workflow_chain n tm env tx input) s))"
proof -
  have "carried_ok (rt_MaxIterations (tx_base tx)) (start_state input)"
    using assms by (simp add: carried_ok_def start_state_def)
  from workflow_chain_yields [OF assms(1) refl assms(2) this] show ?thesis
    using assms by (simp add: yields_def start_state_def)
qed

definition crowded_temporal :: "nat temporal" where
  "crowded_temporal = sample_temporal\<lparr>tm_history := State_Monad.return (20000, 0)\<rparr>"

theorem workflow_chain_terminates_witness:
  "ended_within 7 (fst (run_state (workflow_chain 6 crowded_temporal sample_env
     (temporal_of (sample_runtime (\<lambda>_. call_response ''c'' ''echo''))) sample_workflow_input) (new_world (0 :: nat))))"
proof -
  let ?tx = "temporal_of (sample_runtime (\<lambda>_. call_response ''c'' ''echo''))"
  have "activity_engine crowded_temporal"
    by (auto simp: activity_engine_def crowded_temporal_def sample_temporal_def run_once_def)
  moreover have "rt_MaxIterations (tx_base ?tx) = 3" "wi_State sample_workflow_input = None"
    by (simp_all add: sample_runtime_def sample_workflow_input_def)
  ultimately show ?thesis
    using workflow_chain_terminates [of crowded_temporal ?tx sample_workflow_input 6 sample_env "new_world 0"] by simp
qed

end
