(* ===== verification/Spec2Isabelle.thy ===== *)
theory Spec2Isabelle
  imports Budget Circuit_Breaker Exec_Policy Error_Control Hooks Conversation Event_Bus KV_Store
    Durable_Runs
    Run_Frames Transcript
    Restate_Client Restate_Runs
    Temporal_Safety
begin

text \<open>
  This library models the core of \<open>agent-sdk-go\<close>, a Go SDK for agents built on language models, and
  proves what makes its parts correct. An agent run is a loop: the messages so far are sent to the
  model; if the model answers with tool calls they are authorized, approved, executed or delegated
  to sub-agents, and their results become messages; otherwise the answer ends the run. Around the
  loop are long-term memory, retrieval, conversation storage, hooks, a budget, a circuit breaker,
  retries and error control, and the events that a client sees.

  \<^bold>\<open>Theories and code.\<close> Paths are under \<open>src/\<close>.
  \<^item> \<open>Prelude\<close>: lists, maps, the Go string functions that the code uses, 64-bit wrap-around;
    \<open>Go_Float\<close>: the \<open>float64\<close> operations of the cost accounting, as rationals rounded to 53 bits.
  \<^item> \<open>Core_Types\<close>: requests, responses, messages, tools and errors (\<open>internal/types\<close>,
    \<open>pkg/interfaces\<close>). \<open>Effects\<close>: the events, the world that a run acts on, and the program logics
    \<open>hoare\<close> and \<open>keeps\<close>.
  \<^item> \<open>Budget\<close>: \<open>internal/runtime/base/budget.go\<close> and the validation of a budget; \<open>Circuit_Breaker\<close>:
    \<open>base/circuit_breaker.go\<close>; \<open>Error_Control\<close>: \<open>base/error_control.go\<close>; \<open>Exec_Policy\<close>: the policies
    and retries of \<open>internal/runtime/runtime.go\<close>; \<open>Hooks\<close>: \<open>internal/hooks\<close>, every chain an instance
    of the locale \<open>hook_chain\<close>.
  \<^item> \<open>Conversation\<close>: the in-memory and the Redis store of \<open>pkg/conversation\<close>; \<open>KV_Store\<close>:
    \<open>internal/store/kv.go\<close>; \<open>Event_Bus\<close>: \<open>internal/eventbus/inmem.go\<close>, a step relation whose guards
    are the lock and the channel buffers.
  \<^item> \<open>Run_Types\<close>, \<open>Sanitize\<close>, \<open>Memory_Config\<close>: the pure parts of a run (lookup of tools, formatting,
    usage, idempotency keys; the regular expressions of the sanitizer; memory configuration and
    scopes).
  \<^item> \<open>Base_Runtime\<close> and \<open>Memory_Runtime\<close>: \<open>base/runtime.go\<close> and \<open>base/memory.go\<close>: LLM calls, plain and
    streaming, tools, retrieval, memory recall, storage and extraction.
  \<^item> \<open>Agent_Loop\<close>: \<open>internal/runtime/local/agent_loop.go\<close> and \<open>subagent.go\<close>: a tool call from its
    start to its answer, batches, delegation, budget enforcement, the loop and the run.
  \<^item> \<open>MCP_Client\<close>: \<open>pkg/mcp/client\<close>, transports, credentials, sessions with retries; \<open>A2A_Client\<close>:
    \<open>pkg/a2a/client\<close>, options and the cache of the connection; \<open>Agent_Tools\<close>: the tools and approval
    policies of \<open>pkg/agent\<close>; \<open>Agent_Registry\<close>: its four registries; \<open>Observability\<close>:
    \<open>pkg/observability\<close>, options and the construction of the clients.
  \<^item> \<open>Agent_Config\<close>: the options of \<open>pkg/agent/config.go\<close> and the graph of sub-agents; \<open>Agent_Build\<close>:
    the construction of an agent from them, in the steps of \<open>buildAgentConfig\<close>; \<open>Agent_Facade\<close>:
    \<open>pkg/agent/agent.go\<close>, the request of a run, \<open>Run\<close> and \<open>Stream\<close>, and the drivers of
    \<open>internal/runtime/local/runtime.go\<close>.
  \<^item> \<open>Run_Handle\<close>: run and stream handles, the registry of live runs and pending approvals of the local
    runtime, as step relations; \<open>Durable_Runs\<close>: \<open>internal/runtime/local/durable_config.go\<close> and the
    input of a durable run.
  \<^item> \<open>Event_Log\<close>: \<open>internal/runtime/restate/event_log.go\<close>, the durable log of a run's events;
    \<open>Restate_Client\<close>: \<open>stream_handle.go\<close>, the streams that poll it; \<open>Restate_Loop\<close>: \<open>agent_loop.go\<close> and
    \<open>subagent.go\<close>, the handler of a Restate run with its loop, batches, approvals, budget and
    delegation. \<open>Restate_Calls\<close>, \<open>Restate_Safety\<close> and \<open>Restate_Runs\<close>: what is shown of them.
  \<^item> \<open>Temporal_Base\<close>, \<open>Temporal_Loop\<close> and \<open>Temporal_Workflow\<close>: \<open>agent_workflow.go\<close>, \<open>fingerprint.go\<close> and
    \<open>subagent.go\<close> of \<open>internal/runtime/temporal\<close>: fingerprints, the activities, and the variable into
    which the results of the LLM are decoded; the events, the delegation and one tool call of a
    workflow; its loop, its budget, its end, and its continuation as a new run. \<open>Temporal_Runs\<close> and
    \<open>Temporal_Safety\<close>: what is shown of them.
  \<^item> \<open>Trace\<close>, \<open>Run_Events\<close>, \<open>Run_Memory\<close>, \<open>Run_Calls\<close>, \<open>Run_Loop\<close>, \<open>Run_Frames\<close>, \<open>Transcript\<close>: the
    properties of runs. \<open>traced\<close> follows events and counters, \<open>yields\<close> results, \<open>keeps\<close> frames.
    \<open>Samples\<close> is a concrete runtime for the witnesses.

  \<^bold>\<open>How code becomes definitions.\<close> A structure is a record with the fields of the code, prefixed; a
  method is a function of its receiver. What the repository does not define is a parameter: the
  model, the tools, the hooks, the memory backend, Redis, the clock, UUIDs, JSON and SHA-256 are
  operations on a world \<open>'w\<close> of their own, fields of the records \<open>env\<close>, \<open>runtime\<close>, \<open>tool\<close> and
  \<open>memory_store\<close>. A run is a state monad over the record \<open>world\<close>, which adds what the SDK itself
  keeps: the published events, the incremented counters, the budget tracker and the circuit
  breakers, the last two shared through references as the pointers are in the code. An error is
  the left summand of a result. A nil pointer, map or slice is \<open>None\<close> or the empty list where the
  code tells them apart or does not.

  \<^bold>\<open>Interfaces.\<close> \<open>hook_chain\<close> (in \<open>Hooks\<close>) is the contract of the eleven hook points; \<open>event_sink\<close> (in
  \<open>Trace\<close>) that of an emit function, instantiated by direct publication and by the filtering \<open>emit\<close>
  of a run; \<open>world_frame\<close> and its extension \<open>run_frame\<close> (in \<open>Run_Frames\<close>) are the relations that the
  primitive effects respect, instantiated by confinement to a channel and by an untouched tracker;
  \<open>conversation_store\<close> and \<open>registry\<close> are the contracts of the conversation stores and of the key-value
  store; \<open>named_registry\<close> (in \<open>Agent_Registry\<close>) is that of the tool, MCP, A2A and sub-agent registries;
  \<open>event_source\<close> (in \<open>Event_Log\<close>) is the contract of a log with its readers, which the handlers of the
  event log provide and the streams rely on; \<open>durable_engine\<close> (in \<open>Restate_Calls\<close>) is what the Restate
  loop expects of a durable step, which the retry loop of the local runtime has too.

  \<^bold>\<open>What is shown.\<close> Of a whole run: it terminates within a number of LLM calls, whatever the model
  and the tools do; its events stay on its channel and pass its filter; with a budget that stops
  the run it only completes within the budget; its transcript stays well formed; calls that are
  not allowed never reach a tool or a sub-agent; streams and tool calls follow the event protocol;
  memory stays in its scope. Of the Restate runtime: a run ends within the same bound, a parallel batch
  closes every call once, calls that are not allowed run no tool, a stream gives the log in order; and
  where it departs from the local runtime (the cap on approvals, answers without token streaming, the
  offsets of a resumed stream) the difference is a theorem. Of the Temporal runtime: a run ends within
  the same bound however often it continues as new, a continuation keeps the state of the run, calls
  that are not allowed run no tool; and what the variable of the LLM results brings back of an earlier
  answer (arguments, usage) is a theorem. Of the components: accounting, tripping and resetting, retries,
  storage, hooks, the bus and the key-value store behave as specified, with the flaws that the
  proofs brought to light listed in the manifest and stated as theorems where they are claims.

  \<^bold>\<open>Bounds and fuel.\<close> \<open>loop_rounds\<close> has a fuel of twice the configured iterations, \<open>executeAgentLoop\<close>
  one of the nesting depth left; \<open>run_terminates\<close> and \<open>run_unfolds\<close> show that neither is ever used
  up; \<open>executeAgentLoop_rs\<close> has the same fuel, see \<open>restate_run_terminates\<close>. \<open>wf_rounds\<close> has a fuel of the
  turns left and one extension, \<open>workflow_chain\<close> a bound on the continuations; that twice the configured
  iterations are enough is \<open>workflow_chain_terminates\<close>. The recursion over the
  sub-agents of a request has the depth that the validation of the graph bounds. Counters of iterations and attempts are integers without wrap-around, far below their
  64 bits; token and cost accounting wraps around as \<open>int64\<close> does. The waits between attempts are
  exact in nanoseconds.

  \<^bold>\<open>Concurrency.\<close> The goroutines of a batch run one after the other, each as a whole, in an order
  that a parameter chooses, and the theorems hold for every order; interleavings inside two tool
  calls of one batch are not modelled. The same holds of the coroutines of a parallel round
  of the Temporal workflow, whose changes to the map of pending approvals are applied in the order of the
  calls. The event bus and the key-value store are modelled at the
  granularity of their locks. A stream is the finite list of the chunks that it delivers, with
  its error and its result.

  \<^bold>\<open>Not modelled.\<close> The durable engine of the local runtime, Temporal and Restate are SDKs that are not in
  the repository. Of the Restate runtime the model is one execution of a handler over steps whose values
  may come from the journal; a publication is recorded as it is sent, since the loop only logs its
  failure. The ingress client, the handles and the HTTP endpoint of Restate are not modelled. Of the
  Temporal runtime the model is the execution of a workflow: an activity, a child workflow or a side effect
  is an operation of the record \<open>temporal\<close>, which may run its function any number of times; replay,
  heartbeats, the worker, the handles and drivers of the client and the identifiers of workflows are not
  modelled, and the delegation event leaves out the identifier of its call. The A2A server, the LLM clients and the
  memory and retriever backends wrap libraries and network protocols. Spans, logs, histograms, the
  timestamps and the JSON form of events and the command line are input and output. A runtime whose
  LLM client is nil panics before its first step and is excluded by its type; a context that is
  cancelled in the middle of an operation is the operation's own failure.
\<close>

end
